(* ===== verification/Sriov_Prelude.thy ===== *)
theory Sriov_Prelude
  imports Main "HOL-Library.Char_ord" "HOL-Library.List_Lexorder" "HOL-Library.Multiset"
begin

text \<open>
  Shared vocabulary of the development: results with errors and panics, loops that stop at the
  first error, and the parts of Go's standard library (\<^verbatim>\<open>strings\<close>, \<^verbatim>\<open>strconv\<close>, \<^verbatim>\<open>slices\<close>)
  that the operator's sources call. A Go string is a sequence of bytes, so it is an Isabelle
  \<^typ>\<open>string\<close>; Go compares strings bytewise, which is the lexicographic order of
  List\_Lexorder over Char\_ord. A Go \<^verbatim>\<open>int\<close> has 64 bits; it is an \<^typ>\<open>int\<close> here and the
  places where the width matters (\<^verbatim>\<open>strconv.Atoi\<close>) check the bounds.
\<close>

named_theorems go_res \<open>rewriting results\<close>
named_theorems go_str \<open>Go string functions\<close>

section \<open>Results, panics and loops\<close>

datatype panic = IndexOutOfRange | NilDereference

text \<open>
  A call that can fail has type \<open>'e + 'a\<close>: \<open>Inl\<close> is the error or the panic, \<open>Inr\<close> the value.
\<close>

definition res_bind :: "'e + 'a \<Rightarrow> ('a \<Rightarrow> 'e + 'b) \<Rightarrow> 'e + 'b" where
  "res_bind m f = (case m of Inl e \<Rightarrow> Inl e | Inr x \<Rightarrow> f x)"

definition map_err :: "('e \<Rightarrow> 'f) \<Rightarrow> 'e + 'a \<Rightarrow> 'f + 'a" where
  "map_err g m = (case m of Inl e \<Rightarrow> Inl (g e) | Inr x \<Rightarrow> Inr x)"

definition guard :: "bool \<Rightarrow> 'e \<Rightarrow> 'e + unit" where
  "guard b e = (if b then Inl e else Inr ())"

lemma res_bind_simps [simp, go_res]:
  "res_bind (Inl e) f = Inl e"
  "res_bind (Inr x) f = f x"
  by (simp_all add: res_bind_def)

lemma res_bind_eq_Inr: "res_bind m f = Inr y \<longleftrightarrow> (\<exists>x. m = Inr x \<and> f x = Inr y)"
  by (cases m) simp_all

lemma res_bind_eq_Inl: "res_bind m f = Inl e \<longleftrightarrow> m = Inl e \<or> (\<exists>x. m = Inr x \<and> f x = Inl e)"
  by (cases m) simp_all

lemma res_bind_splits [go_res]:
  "P (res_bind m f) \<longleftrightarrow> (\<forall>e. m = Inl e \<longrightarrow> P (Inl e)) \<and> (\<forall>x. m = Inr x \<longrightarrow> P (f x))"
  by (cases m) simp_all

lemma map_err_simps [simp, go_res]:
  "map_err g (Inl e) = Inl (g e)"
  "map_err g (Inr x) = Inr x"
  by (simp_all add: map_err_def)

lemma map_err_eq_Inr [simp]: "map_err g m = Inr x \<longleftrightarrow> m = Inr x"
  by (cases m) simp_all

lemma map_err_eq_Inl: "map_err g m = Inl f \<longleftrightarrow> (\<exists>e. m = Inl e \<and> f = g e)"
  by (cases m) auto

lemma guard_eq [simp]:
  "guard b e = Inr u \<longleftrightarrow> \<not> b"
  "guard b e = Inl f \<longleftrightarrow> b \<and> f = e"
  "guard True e = Inl e"
  "guard False e = Inr ()"
  by (auto simp: guard_def)

text \<open>A \<^verbatim>\<open>for\<close> loop whose body updates a state and may return early with an error.\<close>

fun fold_res :: "('a \<Rightarrow> 's \<Rightarrow> 'e + 's) \<Rightarrow> 'a list \<Rightarrow> 's \<Rightarrow> 'e + 's" where
  "fold_res f [] s = Inr s"
| "fold_res f (x # xs) s = res_bind (f x s) (fold_res f xs)"

lemma fold_res_append:
  "fold_res f (xs @ ys) s = res_bind (fold_res f xs s) (fold_res f ys)"
proof (induction xs arbitrary: s)
  case (Cons x xs)
  then show ?case by (cases "f x s") simp_all
qed simp

lemma fold_res_invariant:
  assumes "fold_res f xs s = Inr s'" and "P s"
    and "\<And>x s s'. x \<in> set xs \<Longrightarrow> P s \<Longrightarrow> f x s = Inr s' \<Longrightarrow> P s'"
  shows "P s'"
  using assms
proof (induction xs arbitrary: s)
  case (Cons x xs)
  then obtain t where t: "f x s = Inr t" "fold_res f xs t = Inr s'"
    by (auto simp: res_bind_eq_Inr)
  have "P t" using Cons.prems(2,3) t(1) by auto
  then show ?case using Cons.IH [OF t(2)] Cons.prems(3) by auto
qed simp

lemma fold_res_total:
  assumes "P s"
    and "\<And>x s. x \<in> set xs \<Longrightarrow> P s \<Longrightarrow> \<exists>s'. f x s = Inr s' \<and> P s'"
  shows "\<exists>s'. fold_res f xs s = Inr s' \<and> P s'"
  using assms
proof (induction xs arbitrary: s)
  case (Cons x xs)
  obtain t where t: "f x s = Inr t" "P t" using Cons.prems by fastforce
  have "\<exists>s'. fold_res f xs t = Inr s' \<and> P s'"
    by (rule Cons.IH [OF t(2)]) (use Cons.prems(2) in auto)
  then show ?case using t(1) by simp
qed simp

lemma fold_res_cong:
  assumes "\<And>x s. x \<in> set xs \<Longrightarrow> f x s = g x s"
  shows "fold_res f xs s = fold_res g xs s"
  using assms
proof (induction xs arbitrary: s)
  case (Cons x xs)
  then have "f x s = g x s" by simp
  then show ?case using Cons by (cases "g x s") simp_all
qed simp

text \<open>A loop that only checks: the first error ends it.\<close>

fun each_res :: "('a \<Rightarrow> 'e + unit) \<Rightarrow> 'a list \<Rightarrow> 'e + unit" where
  "each_res f [] = Inr ()"
| "each_res f (x # xs) = res_bind (f x) (\<lambda>_. each_res f xs)"

lemma each_res_ok [simp]: "each_res f xs = Inr u \<longleftrightarrow> (\<forall>x\<in>set xs. f x = Inr ())"
  by (induction xs) (auto simp: res_bind_eq_Inr)

section \<open>Lists\<close>

text \<open>\<^verbatim>\<open>StringInArray\<close> and friends search a slice from the left.\<close>

fun find_index :: "('a \<Rightarrow> bool) \<Rightarrow> 'a list \<Rightarrow> nat option" where
  "find_index P [] = None"
| "find_index P (x # xs) = (if P x then Some 0 else map_option Suc (find_index P xs))"

lemma find_index_None: "find_index P xs = None \<longleftrightarrow> (\<forall>x\<in>set xs. \<not> P x)"
  by (induction xs) auto

lemma find_index_Some:
  "find_index P xs = Some i \<Longrightarrow> i < length xs \<and> P (xs ! i) \<and> (\<forall>j<i. \<not> P (xs ! j))"
proof (induction xs arbitrary: i)
  case (Cons x xs)
  show ?case
  proof (cases "P x")
    case False
    with Cons.prems obtain k where k: "find_index P xs = Some k" "i = Suc k" by auto
    have "\<not> P ((x # xs) ! j)" if "j < Suc k" for j
      using that Cons.IH [OF k(1)] False by (cases j) auto
    then show ?thesis using Cons.IH [OF k(1)] k(2) by auto
  qed (use Cons.prems in auto)
qed simp

section \<open>Go strings\<close>

text \<open>\<^verbatim>\<open>strings.Split(s, sep)\<close> for a one-byte separator: never empty.\<close>

fun split_on :: "char \<Rightarrow> string \<Rightarrow> string list" where
  "split_on c [] = [[]]"
| "split_on c (x # xs) =
     (if x = c then [] # split_on c xs
      else (case split_on c xs of [] \<Rightarrow> [[x]] | w # ws \<Rightarrow> (x # w) # ws))"

lemma split_on_nonempty [simp]: "split_on c s \<noteq> []"
  by (induction s) (auto split: list.splits)

lemma split_on_no_sep [go_str]: "c \<notin> set s \<Longrightarrow> split_on c s = [s]"
  by (induction s) auto

lemma split_on_append_sep [go_str]:
  "c \<notin> set a \<Longrightarrow> split_on c (a @ c # b) = a # split_on c b"
  by (induction a) auto

lemma split_on_parts_no_sep: "w \<in> set (split_on c s) \<Longrightarrow> c \<notin> set w"
proof (induction s arbitrary: w)
  case (Cons x s)
  then show ?case by (cases "split_on c s") (auto split: if_splits)
qed simp

text \<open>\<^verbatim>\<open>strings.Join\<close>.\<close>

fun join_with :: "string \<Rightarrow> string list \<Rightarrow> string" where
  "join_with sep [] = []"
| "join_with sep [w] = w"
| "join_with sep (w # v # ws) = w @ sep @ join_with sep (v # ws)"

lemma join_with_Cons: "ws \<noteq> [] \<Longrightarrow> join_with sep (w # ws) = w @ sep @ join_with sep ws"
  by (cases ws) simp_all

lemma join_split [go_str]: "join_with [c] (split_on c s) = s"
proof (induction s)
  case (Cons x s)
  show ?case
  proof (cases "x = c")
    case True
    then show ?thesis using Cons by (simp add: join_with_Cons)
  next
    case False
    obtain w ws where ws: "split_on c s = w # ws"
      using split_on_nonempty [of c s] by (cases "split_on c s") auto
    have "join_with [c] ((x # w) # ws) = x # join_with [c] (w # ws)"
      by (cases ws) simp_all
    then show ?thesis using False ws Cons by simp
  qed
qed simp

text \<open>\<^verbatim>\<open>strings.HasPrefix\<close>, \<^verbatim>\<open>strings.HasSuffix\<close>, \<^verbatim>\<open>strings.TrimSuffix\<close>, \<^verbatim>\<open>strings.Contains\<close>.\<close>

fun has_prefix :: "string \<Rightarrow> string \<Rightarrow> bool" where
  "has_prefix s [] = True"
| "has_prefix [] (p # ps) = False"
| "has_prefix (c # cs) (p # ps) = (c = p \<and> has_prefix cs ps)"

definition has_suffix :: "string \<Rightarrow> string \<Rightarrow> bool" where
  "has_suffix s suf = has_prefix (rev s) (rev suf)"

definition trim_suffix :: "string \<Rightarrow> string \<Rightarrow> string" where
  "trim_suffix s suf = (if has_suffix s suf then take (length s - length suf) s else s)"

text \<open>
  \<^verbatim>\<open>strings.Fields\<close>: \<open>space_len\<close> is the number of bytes of the white-space character (\<^verbatim>\<open>unicode.IsSpace\<close>,
  UTF-8 encoded) that the string starts with, 0 when it starts with another character.
\<close>

definition byte_at :: "string \<Rightarrow> nat \<Rightarrow> nat" where
  "byte_at s i = (if i < length s then of_char (s ! i) else 0)"

definition space_len :: "string \<Rightarrow> nat" where
  "space_len s =
     (if byte_at s 0 \<in> {9, 10, 11, 12, 13, 32} then 1
      else if byte_at s 0 = 0xC2 \<and> byte_at s 1 \<in> {0x85, 0xA0} then 2
      else if (byte_at s 0 = 0xE1 \<and> byte_at s 1 = 0x9A \<and> byte_at s 2 = 0x80) \<or>
              (byte_at s 0 = 0xE2 \<and> byte_at s 1 = 0x80 \<and>
                 (0x80 \<le> byte_at s 2 \<and> byte_at s 2 \<le> 0x8A \<or> byte_at s 2 \<in> {0xA8, 0xA9, 0xAF})) \<or>
              (byte_at s 0 = 0xE2 \<and> byte_at s 1 = 0x81 \<and> byte_at s 2 = 0x9F) \<or>
              (byte_at s 0 = 0xE3 \<and> byte_at s 1 = 0x80 \<and> byte_at s 2 = 0x80) then 3
      else 0)"

fun fields_from :: "string \<Rightarrow> string \<Rightarrow> string list" where
  "fields_from word [] = (if word = [] then [] else [word])"
| "fields_from word (c # cs) =
     (let n = space_len (c # cs) in
      if n = 0 then fields_from (word @ [c]) cs
      else (if word = [] then [] else [word]) @ fields_from [] (drop (n - 1) cs))"

definition Fields :: "string \<Rightarrow> string list" where
  "Fields s = fields_from [] s"

fun contains_str :: "string \<Rightarrow> string \<Rightarrow> bool" where
  "contains_str [] t = (t = [])"
| "contains_str (c # cs) t = (has_prefix (c # cs) t \<or> contains_str cs t)"

lemma has_prefix_iff [go_str]: "has_prefix s p \<longleftrightarrow> (\<exists>t. s = p @ t)"
  by (induction s p rule: has_prefix.induct) auto

lemma has_suffix_iff [go_str]: "has_suffix s suf \<longleftrightarrow> (\<exists>t. s = t @ suf)"
proof
  assume "has_suffix s suf"
  then obtain t where "rev s = rev suf @ t" by (auto simp: has_suffix_def has_prefix_iff)
  then have "s = rev t @ suf" by (metis rev_append rev_rev_ident)
  then show "\<exists>t. s = t @ suf" ..
qed (auto simp: has_suffix_def has_prefix_iff)

lemma trim_suffix_append [simp]: "trim_suffix (t @ suf) suf = t"
  by (auto simp: trim_suffix_def has_suffix_iff)

lemma contains_str_iff [go_str]: "contains_str s t \<longleftrightarrow> (\<exists>a b. s = a @ t @ b)"
proof (induction s)
  case (Cons c cs)
  show ?case
  proof
    assume "contains_str (c # cs) t"
    then consider "has_prefix (c # cs) t" | "contains_str cs t" by auto
    then show "\<exists>a b. c # cs = a @ t @ b"
    proof cases
      case 1
      then show ?thesis by (metis append_Nil has_prefix_iff)
    next
      case 2
      then show ?thesis using Cons by (metis append_Cons)
    qed
  next
    assume "\<exists>a b. c # cs = a @ t @ b"
    then obtain a b where ab: "c # cs = a @ t @ b" by blast
    show "contains_str (c # cs) t"
    proof (cases a)
      case Nil
      then have "has_prefix (c # cs) t" using ab by (auto simp: has_prefix_iff)
      then show ?thesis by simp
    next
      case (Cons d a')
      then show ?thesis using ab Cons.IH by auto
    qed
  qed
qed auto

text \<open>
  \<^verbatim>\<open>strings.ToLower\<close> and \<^verbatim>\<open>strings.EqualFold\<close> on ASCII. The fields compared this way hold the
  ASCII values of an enumeration (link and device types) or provider identifiers.
\<close>

definition to_lower_char :: "char \<Rightarrow> char" where
  "to_lower_char c =
     (let n = (of_char c :: nat) in if 65 \<le> n \<and> n \<le> 90 then char_of (n + 32) else c)"

definition to_lower :: "string \<Rightarrow> string" where
  "to_lower s = map to_lower_char s"

definition equal_fold :: "string \<Rightarrow> string \<Rightarrow> bool" where
  "equal_fold s t \<longleftrightarrow> to_lower s = to_lower t"

lemma equal_fold_refl [simp]: "equal_fold s s"
  by (simp add: equal_fold_def)

lemma equal_fold_sym: "equal_fold s t \<longleftrightarrow> equal_fold t s"
  by (auto simp: equal_fold_def)

lemma equal_fold_trans: "equal_fold s t \<Longrightarrow> equal_fold t u \<Longrightarrow> equal_fold s u"
  by (simp add: equal_fold_def)

text \<open>Character classes of the regular expressions.\<close>

definition is_alnum :: "char \<Rightarrow> bool" where
  "is_alnum c \<longleftrightarrow>
     (let n = (of_char c :: nat) in
      (48 \<le> n \<and> n \<le> 57) \<or> (65 \<le> n \<and> n \<le> 90) \<or> (97 \<le> n \<and> n \<le> 122))"

definition is_name_char :: "char \<Rightarrow> bool" where
  "is_name_char c \<longleftrightarrow> is_alnum c \<or> c = CHR ''_'' \<or> c = CHR ''-''"

section \<open>strconv\<close>

datatype num_error = ErrSyntax | ErrRange

definition is_digit :: "char \<Rightarrow> bool" where
  "is_digit c \<longleftrightarrow> 48 \<le> (of_char c :: nat) \<and> (of_char c :: nat) \<le> 57"

definition digit_val :: "char \<Rightarrow> nat" where
  "digit_val c = of_char c - 48"

definition digits_val :: "string \<Rightarrow> nat" where
  "digits_val s = foldl (\<lambda>a c. a * 10 + digit_val c) 0 s"

definition max_int64 :: int where "max_int64 = 2 ^ 63 - 1"
definition min_int64 :: int where "min_int64 = - (2 ^ 63)"

text \<open>
  \<^verbatim>\<open>strconv.Atoi\<close> returns a value and an error: on a syntax error the value is 0, out of range
  it is the nearest representable one. A sign is optional; no underscore is accepted.
\<close>

definition atoi :: "string \<Rightarrow> int \<times> num_error option" where
  "atoi s =
     (let neg = (s \<noteq> [] \<and> hd s = CHR ''-'');
          ds = (if s \<noteq> [] \<and> (hd s = CHR ''-'' \<or> hd s = CHR ''+'') then tl s else s);
          v = (if neg then - int (digits_val ds) else int (digits_val ds))
      in if ds = [] \<or> \<not> list_all is_digit ds then (0, Some ErrSyntax)
         else if v > max_int64 then (max_int64, Some ErrRange)
         else if v < min_int64 then (min_int64, Some ErrRange)
         else (v, None))"

fun itoa_nat :: "nat \<Rightarrow> string" where
  "itoa_nat n = (if n < 10 then [char_of (48 + n)] else itoa_nat (n div 10) @ [char_of (48 + n mod 10)])"

declare itoa_nat.simps [simp del]

definition itoa :: "int \<Rightarrow> string" where
  "itoa i = (if i < 0 then CHR ''-'' # itoa_nat (nat (- i)) else itoa_nat (nat i))"

lemma digit_char [simp]:
  "n < 10 \<Longrightarrow> is_digit (char_of (48 + n :: nat))"
  "n < 10 \<Longrightarrow> digit_val (char_of (48 + n :: nat)) = n"
  by (simp_all add: is_digit_def digit_val_def)

lemma itoa_nat_digits: "list_all is_digit (itoa_nat n)"
proof (induction n rule: itoa_nat.induct)
  case (1 n)
  then show ?case by (simp add: itoa_nat.simps [of n])
qed

lemma itoa_nat_nonempty [simp]: "itoa_nat n \<noteq> []"
  by (simp add: itoa_nat.simps [of n])

lemma digits_val_snoc: "digits_val (s @ [c]) = digits_val s * 10 + digit_val c"
  by (simp add: digits_val_def)

lemma digits_val_itoa_nat [simp]: "digits_val (itoa_nat n) = n"
proof (induction n rule: itoa_nat.induct)
  case (1 n)
  show ?case
  proof (cases "n < 10")
    case True
    then show ?thesis by (simp add: itoa_nat.simps [of n] digits_val_def)
  next
    case False
    then have "digits_val (itoa_nat n) = (n div 10) * 10 + n mod 10"
      using 1 by (simp add: itoa_nat.simps [of n] digits_val_snoc)
    then show ?thesis by simp
  qed
qed

lemma is_digit_not_sign: "is_digit c \<Longrightarrow> c \<noteq> CHR ''-'' \<and> c \<noteq> CHR ''+'' \<and> c \<noteq> CHR ''#''"
  by (auto simp: is_digit_def)

lemma sign_notin_itoa_nat:
  "CHR ''-'' \<notin> set (itoa_nat n)" "CHR ''+'' \<notin> set (itoa_nat n)" "CHR ''#'' \<notin> set (itoa_nat n)"
  using itoa_nat_digits [of n] is_digit_not_sign by (auto simp: list_all_iff)

lemma hd_itoa_nat: "hd (itoa_nat n) \<noteq> CHR ''-''" "hd (itoa_nat n) \<noteq> CHR ''+''"
  using sign_notin_itoa_nat [of n] hd_in_set [OF itoa_nat_nonempty [of n]] by metis+

text \<open>Printing and parsing a 64-bit integer is a round trip.\<close>

lemma atoi_itoa [go_str]:
  assumes "min_int64 \<le> i" and "i \<le> max_int64"
  shows "atoi (itoa i) = (i, None)"
proof (cases "i < 0")
  case True
  then show ?thesis using assms by (simp add: atoi_def itoa_def itoa_nat_digits Let_def)
next
  case False
  then show ?thesis using assms
    by (simp add: atoi_def itoa_def itoa_nat_digits Let_def hd_itoa_nat)
qed

lemma itoa_nonneg: "0 \<le> i \<Longrightarrow> itoa i = itoa_nat (nat i)"
  by (simp add: itoa_def)

lemma dash_notin_itoa: "0 \<le> i \<Longrightarrow> CHR ''-'' \<notin> set (itoa i)"
  by (simp add: itoa_nonneg sign_notin_itoa_nat)

text \<open>A string without a minus sign never parses to a negative number, nor to an overflowing one.\<close>

lemma atoi_nonneg: "CHR ''-'' \<notin> set s \<Longrightarrow> 0 \<le> fst (atoi s)"
  by (cases s) (auto simp: atoi_def Let_def max_int64_def min_int64_def)

lemma atoi_bounds: "min_int64 \<le> fst (atoi s) \<and> fst (atoi s) \<le> max_int64"
  by (auto simp: atoi_def Let_def max_int64_def min_int64_def)

end
