(* ===== verification/Api_Types.thy ===== *)
theory Api_Types
  imports Sriov_Prelude
begin

text \<open>
  The custom resources of \<^verbatim>\<open>src/api/v1\<close> as records, with the fields the Go structs have and in
  their order; a field carries a prefix for its struct, because record fields share one name space.
  A slice is a list and a nil slice is the empty list (the API machinery's semantic equality does
  not distinguish them either); a string map that the code only reads by key is a partial map, one
  it iterates is the association list of its entries in the order of their keys, so that equality
  of lists is equality of maps; a pointer is an option. The constants are those of
  \<^verbatim>\<open>src/pkg/consts/constants.go\<close> and \<^verbatim>\<open>src/pkg/vars/vars.go\<close> that the modelled code uses.
\<close>

type_synonym str_map = "string \<rightharpoonup> string"

section \<open>Metadata\<close>

record ObjectMeta =
  om_Name :: string
  om_Namespace :: string
  om_Labels :: str_map
  om_Annotations :: str_map
  om_Generation :: int
  om_OwnerReferences :: "string list"

text \<open>The parts of a Kubernetes \<^verbatim>\<open>Node\<close> that the operator reads.\<close>

record Node =
  node_Meta :: ObjectMeta
  node_ProviderID :: string
  node_Unschedulable :: bool

abbreviation node_Name :: "Node \<Rightarrow> string" where
  "node_Name n \<equiv> om_Name (node_Meta n)"

abbreviation node_Labels :: "Node \<Rightarrow> str_map" where
  "node_Labels n \<equiv> om_Labels (node_Meta n)"

datatype condition_status = ConditionTrue | ConditionFalse | ConditionUnknown

record Condition =
  cond_Type :: string
  cond_Status :: condition_status
  cond_ObservedGeneration :: int
  cond_LastTransitionTime :: int
  cond_Reason :: string
  cond_Message :: string

section \<open>Bridges\<close>

record OVSBridgeConfig =
  br_DatapathType :: string
  br_ExternalIDs :: str_map
  br_OtherConfig :: str_map
  br_FailMode :: string

record OVSInterfaceConfig =
  oi_Type :: string
  oi_Options :: str_map
  oi_ExternalIDs :: str_map
  oi_OtherConfig :: str_map
  oi_MTURequest :: "int option"

record OVSUplinkConfig =
  ou_Interface :: OVSInterfaceConfig

record OVSConfig =
  oc_Bridge :: OVSBridgeConfig
  oc_Uplink :: OVSUplinkConfig

record Bridge =
  bridge_OVS :: "OVSConfig option"

record OVSUplinkConfigExt =
  ue_PciAddress :: string
  ue_Name :: string
  ue_Interface :: OVSInterfaceConfig

record OVSConfigExt =
  oe_Name :: string
  oe_Bridge :: OVSBridgeConfig
  oe_Uplinks :: "OVSUplinkConfigExt list"

record Bridges =
  bridges_OVS :: "OVSConfigExt list"

section \<open>Node state\<close>

record VfGroup =
  vg_ResourceName :: string
  vg_DeviceType :: string
  vg_VfRange :: string
  vg_PolicyName :: string
  vg_Mtu :: int
  vg_IsRdma :: bool
  vg_VdpaType :: string

record Interface =
  if_PciAddress :: string
  if_NumVfs :: int
  if_Mtu :: int
  if_Name :: string
  if_LinkType :: string
  if_EswitchMode :: string
  if_VfGroups :: "VfGroup list"
  if_ExternallyManaged :: bool

record VirtualFunction =
  vf_Name :: string
  vf_Mac :: string
  vf_Assigned :: string
  vf_Driver :: string
  vf_PciAddress :: string
  vf_Vendor :: string
  vf_DeviceID :: string
  vf_Vlan :: int
  vf_Mtu :: int
  vf_VfID :: int
  vf_VdpaType :: string
  vf_RepresentorName :: string
  vf_GUID :: string

record InterfaceExt =
  ie_Name :: string
  ie_Mac :: string
  ie_Driver :: string
  ie_PciAddress :: string
  ie_Vendor :: string
  ie_DeviceID :: string
  ie_NetFilter :: string
  ie_Mtu :: int
  ie_NumVfs :: int
  ie_LinkSpeed :: string
  ie_LinkType :: string
  ie_LinkAdminState :: string
  ie_EswitchMode :: string
  ie_ExternallyManaged :: bool
  ie_TotalVfs :: int
  ie_VFs :: "VirtualFunction list"
  ie_AltNames :: "string list"

record System =
  sys_RdmaMode :: string
  sys_OvsConfig :: "(string \<times> string) list"

record SriovNetworkNodeStateSpec =
  ns_Interfaces :: "Interface list"
  ns_Bridges :: Bridges
  ns_System :: System

record SriovNetworkNodeStateStatus =
  nst_Interfaces :: "InterfaceExt list"
  nst_Bridges :: Bridges
  nst_System :: System
  nst_SyncStatus :: string
  nst_LastSyncError :: string
  nst_Conditions :: "Condition list"

record SriovNetworkNodeState =
  state_Meta :: ObjectMeta
  state_Spec :: SriovNetworkNodeStateSpec
  state_Status :: SriovNetworkNodeStateStatus

abbreviation state_Name :: "SriovNetworkNodeState \<Rightarrow> string" where
  "state_Name s \<equiv> om_Name (state_Meta s)"

abbreviation state_Annotations :: "SriovNetworkNodeState \<Rightarrow> str_map" where
  "state_Annotations s \<equiv> om_Annotations (state_Meta s)"

text \<open>\<^verbatim>\<open>StatusFieldsEqual\<close>: every status field but the conditions.\<close>

definition StatusFieldsEqual ::
    "SriovNetworkNodeStateStatus \<Rightarrow> SriovNetworkNodeStateStatus \<Rightarrow> bool" where
  "StatusFieldsEqual s other \<longleftrightarrow>
     nst_SyncStatus s = nst_SyncStatus other \<and>
     nst_LastSyncError s = nst_LastSyncError other \<and>
     nst_Interfaces s = nst_Interfaces other \<and>
     nst_Bridges s = nst_Bridges other \<and>
     nst_System s = nst_System other"

lemma StatusFieldsEqual_iff:
  "StatusFieldsEqual s t \<longleftrightarrow> t = s\<lparr>nst_Conditions := nst_Conditions t\<rparr>"
  by (cases s; cases t) (auto simp: StatusFieldsEqual_def)

section \<open>Node policy\<close>

record SriovNetworkNicSelector =
  sel_Vendor :: string
  sel_DeviceID :: string
  sel_RootDevices :: "string list"
  sel_PfNames :: "string list"
  sel_NetFilter :: string

record SriovNetworkNodePolicySpec =
  ps_ResourceName :: string
  ps_NodeSelector :: "(string \<times> string) list"
  ps_Priority :: int
  ps_Mtu :: int
  ps_NumVfs :: int
  ps_NicSelector :: SriovNetworkNicSelector
  ps_DeviceType :: string
  ps_IsRdma :: bool
  ps_NeedVhostNet :: bool
  ps_LinkType :: string
  ps_EswitchMode :: string
  ps_VdpaType :: string
  ps_ExcludeTopology :: bool
  ps_ExternallyManaged :: bool
  ps_Bridge :: Bridge

record SriovNetworkNodePolicy =
  pol_Meta :: ObjectMeta
  pol_Spec :: SriovNetworkNodePolicySpec

abbreviation pol_Name :: "SriovNetworkNodePolicy \<Rightarrow> string" where
  "pol_Name p \<equiv> om_Name (pol_Meta p)"

abbreviation pol_Namespace :: "SriovNetworkNodePolicy \<Rightarrow> string" where
  "pol_Namespace p \<equiv> om_Namespace (pol_Meta p)"

definition Bridge_IsEmpty :: "Bridge \<Rightarrow> bool" where
  "Bridge_IsEmpty b \<longleftrightarrow> bridge_OVS b = None"

section \<open>Pool configuration\<close>

text \<open>\<^verbatim>\<open>intstr.IntOrString\<close>: an integer or a string such as \<^verbatim>\<open>50%\<close>.\<close>

datatype int_or_string = IntVal int | StrVal string

datatype label_op = OpIn | OpNotIn | OpExists | OpDoesNotExist | OpOther string

record LabelSelector =
  ls_MatchLabels :: "(string \<times> string) list"
  ls_MatchExpressions :: "(string \<times> label_op \<times> string list) list"

record OvsHardwareOffloadConfig =
  hw_Name :: string
  hw_OvsConfig :: "(string \<times> string) list"

record SriovNetworkPoolConfigSpec =
  pcs_OvsHardwareOffloadConfig :: OvsHardwareOffloadConfig
  pcs_NodeSelector :: "LabelSelector option"
  pcs_MaxUnavailable :: "int_or_string option"
  pcs_RdmaMode :: string

record SriovNetworkPoolConfig =
  pc_Meta :: ObjectMeta
  pc_Spec :: SriovNetworkPoolConfigSpec

section \<open>Operator configuration\<close>

record SriovOperatorConfigSpec =
  ocs_ConfigDaemonNodeSelector :: "(string \<times> string) list"
  ocs_EnableInjector :: bool
  ocs_EnableOperatorWebhook :: bool
  ocs_LogLevel :: int
  ocs_DisableDrain :: bool
  ocs_EnableOvsOffload :: bool
  ocs_ConfigurationMode :: string
  ocs_UseCDI :: bool
  ocs_DisablePlugins :: "string list"
  ocs_FeatureGates :: "(string \<times> bool) list"
  ocs_ConfigDaemonEnvVars :: "(string \<times> string) list"

record SriovOperatorConfig =
  opc_Meta :: ObjectMeta
  opc_Spec :: SriovOperatorConfigSpec

section \<open>Constants\<close>

abbreviation ESwithModeLegacy :: string where "ESwithModeLegacy \<equiv> ''legacy''"
abbreviation ESwithModeSwitchDev :: string where "ESwithModeSwitchDev \<equiv> ''switchdev''"
abbreviation LinkTypeIB :: string where "LinkTypeIB \<equiv> ''IB''"
abbreviation LinkTypeETH :: string where "LinkTypeETH \<equiv> ''ETH''"
abbreviation LinkTypeEthernet :: string where "LinkTypeEthernet \<equiv> ''ether''"
abbreviation LinkTypeInfiniband :: string where "LinkTypeInfiniband \<equiv> ''infiniband''"
abbreviation LinkAdminStateDown :: string where "LinkAdminStateDown \<equiv> ''down''"
abbreviation LinkAdminStateUp :: string where "LinkAdminStateUp \<equiv> ''up''"
abbreviation UninitializedNodeGUID :: string where "UninitializedNodeGUID \<equiv> ''0000:0000:0000:0000''"
abbreviation DeviceTypeVfioPci :: string where "DeviceTypeVfioPci \<equiv> ''vfio-pci''"
abbreviation DeviceTypeNetDevice :: string where "DeviceTypeNetDevice \<equiv> ''netdevice''"
abbreviation VdpaTypeVirtio :: string where "VdpaTypeVirtio \<equiv> ''virtio''"
abbreviation VdpaTypeVhost :: string where "VdpaTypeVhost \<equiv> ''vhost''"
abbreviation DefaultConfigName :: string where "DefaultConfigName \<equiv> ''default''"
abbreviation DefaultPolicyName :: string where "DefaultPolicyName \<equiv> ''default''"
abbreviation SyncStatusSucceeded :: string where "SyncStatusSucceeded \<equiv> ''Succeeded''"
abbreviation SyncStatusFailed :: string where "SyncStatusFailed \<equiv> ''Failed''"
abbreviation SyncStatusInProgress :: string where "SyncStatusInProgress \<equiv> ''InProgress''"
abbreviation DrainIdle :: string where "DrainIdle \<equiv> ''Idle''"
abbreviation DrainRequired :: string where "DrainRequired \<equiv> ''Drain_Required''"
abbreviation RebootRequired :: string where "RebootRequired \<equiv> ''Reboot_Required''"
abbreviation Draining :: string where "Draining \<equiv> ''Draining''"
abbreviation DrainComplete :: string where "DrainComplete \<equiv> ''DrainComplete''"

text \<open>\<^verbatim>\<open>vars.DpdkDrivers\<close>\<close>

definition DpdkDrivers :: "string list" where
  "DpdkDrivers = [''igb_uio'', ''vfio-pci'', ''uio_pci_generic'']"

end
