(* ===== verification/Samples.thy ===== *)
theory Samples
  imports Api_Types
begin

text \<open>
  Small concrete objects on which the witnesses of the development evaluate its definitions: a node
  with one physical function \<^verbatim>\<open>ens1\<close>, policies that split it, a node state and a pool.
\<close>

definition sample_meta :: "string \<Rightarrow> ObjectMeta" where
  "sample_meta nm = \<lparr>om_Name = nm, om_Namespace = ''sriov'', om_Labels = Map.empty,
     om_Annotations = Map.empty, om_Generation = 1, om_OwnerReferences = []\<rparr>"

definition sample_group :: "string \<Rightarrow> string \<Rightarrow> VfGroup" where
  "sample_group res rng = \<lparr>vg_ResourceName = res, vg_DeviceType = ''netdevice'', vg_VfRange = rng,
     vg_PolicyName = ''p'', vg_Mtu = 1500, vg_IsRdma = False, vg_VdpaType = []\<rparr>"

definition sample_interface :: Interface where
  "sample_interface = \<lparr>if_PciAddress = ''0000:3b:00.0'', if_NumVfs = 4, if_Mtu = 1500, if_Name = ''ens1'',
     if_LinkType = [], if_EswitchMode = [],
     if_VfGroups = [sample_group ''a'' ''0-1'', sample_group ''b'' ''2-3''], if_ExternallyManaged = False\<rparr>"

definition sample_pf :: InterfaceExt where
  "sample_pf = \<lparr>ie_Name = ''ens1'', ie_Mac = [], ie_Driver = ''ice'', ie_PciAddress = ''0000:3b:00.0'',
     ie_Vendor = ''8086'', ie_DeviceID = ''1593'', ie_NetFilter = [], ie_Mtu = 1500, ie_NumVfs = 0,
     ie_LinkSpeed = [], ie_LinkType = ''ETH'', ie_LinkAdminState = ''up'', ie_EswitchMode = [],
     ie_ExternallyManaged = False, ie_TotalVfs = 64, ie_VFs = [], ie_AltNames = [''alt1'']\<rparr>"

definition sample_selector :: "string list \<Rightarrow> SriovNetworkNicSelector" where
  "sample_selector pfs = \<lparr>sel_Vendor = ''8086'', sel_DeviceID = [], sel_RootDevices = [],
     sel_PfNames = pfs, sel_NetFilter = []\<rparr>"

definition sample_policy :: "string \<Rightarrow> string \<Rightarrow> int \<Rightarrow> string list \<Rightarrow> SriovNetworkNodePolicy" where
  "sample_policy nm res prio pfs =
     \<lparr>pol_Meta = sample_meta nm,
      pol_Spec = \<lparr>ps_ResourceName = res, ps_NodeSelector = [], ps_Priority = prio, ps_Mtu = 1500,
        ps_NumVfs = 4, ps_NicSelector = sample_selector pfs, ps_DeviceType = ''netdevice'',
        ps_IsRdma = False, ps_NeedVhostNet = False, ps_LinkType = [], ps_EswitchMode = [],
        ps_VdpaType = [], ps_ExcludeTopology = False, ps_ExternallyManaged = False,
        ps_Bridge = \<lparr>bridge_OVS = None\<rparr>\<rparr>\<rparr>"

definition sample_status :: SriovNetworkNodeStateStatus where
  "sample_status = \<lparr>nst_Interfaces = [sample_pf], nst_Bridges = \<lparr>bridges_OVS = []\<rparr>,
     nst_System = \<lparr>sys_RdmaMode = [], sys_OvsConfig = []\<rparr>, nst_SyncStatus = ''Succeeded'',
     nst_LastSyncError = [], nst_Conditions = []\<rparr>"

definition sample_state :: "string \<Rightarrow> SriovNetworkNodeState" where
  "sample_state nm = \<lparr>state_Meta = sample_meta nm,
     state_Spec = \<lparr>ns_Interfaces = [], ns_Bridges = \<lparr>bridges_OVS = []\<rparr>,
       ns_System = \<lparr>sys_RdmaMode = [], sys_OvsConfig = []\<rparr>\<rparr>,
     state_Status = sample_status\<rparr>"

definition sample_node :: "string \<Rightarrow> Node" where
  "sample_node nm = \<lparr>node_Meta = sample_meta nm, node_ProviderID = [], node_Unschedulable = False\<rparr>"

definition sample_pool :: "int_or_string option \<Rightarrow> SriovNetworkPoolConfig" where
  "sample_pool lim = \<lparr>pc_Meta = sample_meta ''pool'',
     pc_Spec = \<lparr>pcs_OvsHardwareOffloadConfig = \<lparr>hw_Name = [], hw_OvsConfig = []\<rparr>,
       pcs_NodeSelector = None, pcs_MaxUnavailable = lim, pcs_RdmaMode = []\<rparr>\<rparr>"

lemmas sample_defs = sample_meta_def sample_group_def sample_interface_def sample_pf_def
  sample_selector_def sample_policy_def sample_status_def sample_state_def sample_node_def sample_pool_def

end
