(* ===== verification/Vf_Range.thy ===== *)
theory Vf_Range
  imports Samples
begin

text \<open>
  VF index ranges, the \<^verbatim>\<open>#\<close>-notation of PF names and the overlap test of
  \<^verbatim>\<open>src/api/v1/helper.go\<close>. \<^verbatim>\<open>parseRange\<close> indexes the result of \<^verbatim>\<open>strings.Split\<close> at 1 without a
  length check, so a range without a dash panics; the model keeps that panic, and the lemmas say
  which ranges cannot reach it.
\<close>

section \<open>Parsing\<close>

abbreviation dash :: char where "dash \<equiv> CHR ''-''"
abbreviation hash :: char where "hash \<equiv> CHR ''#''"

definition invalidVfIndex :: int where
  "invalidVfIndex = -1"

text \<open>\<^verbatim>\<open>parseRange(r) (rngSt, rngEnd, err)\<close>: named results, zero until assigned.\<close>

definition parseRange :: "string \<Rightarrow> panic + (int \<times> int \<times> num_error option)" where
  "parseRange r =
     (let rng = split_on dash r in
      case atoi (rng ! 0) of
        (rngSt, Some e) \<Rightarrow> Inr (rngSt, 0, Some e)
      | (rngSt, None) \<Rightarrow>
          (if 1 < length rng
           then (case atoi (rng ! 1) of (rngEnd, err) \<Rightarrow> Inr (rngSt, rngEnd, err))
           else Inl IndexOutOfRange))"

definition IndexInRange :: "int \<Rightarrow> string \<Rightarrow> panic + bool" where
  "IndexInRange i r =
     res_bind (parseRange r) (\<lambda>(rngSt, rngEnd, err).
       if err \<noteq> None then Inr False
       else Inr (i \<le> rngEnd \<and> i \<ge> rngSt))"

definition SplitDeviceFromRange :: "string \<Rightarrow> string \<times> string" where
  "SplitDeviceFromRange device =
     (if hash \<in> set device
      then (let fields = split_on hash device in (fields ! 0, fields ! 1))
      else (device, []))"

definition ParseVfRange :: "string \<Rightarrow> panic + (string \<times> int \<times> int \<times> num_error option)" where
  "ParseVfRange device =
     (case SplitDeviceFromRange device of (rootDeviceName, splitRange) \<Rightarrow>
        if splitRange \<noteq> []
        then res_bind (parseRange splitRange) (\<lambda>(rngSt, rngEnd, err).
               Inr (rootDeviceName, rngSt, rngEnd, err))
        else Inr (device, invalidVfIndex, invalidVfIndex, None))"

definition isVFRangeOverlapping :: "VfGroup \<Rightarrow> VfGroup \<Rightarrow> panic + bool" where
  "isVFRangeOverlapping gr gr2 =
     res_bind (parseRange (vg_VfRange gr)) (\<lambda>(rngSt, rngEnd, err).
     if err \<noteq> None then Inr False else
     res_bind (parseRange (vg_VfRange gr2)) (\<lambda>(rngSt2, rngEnd2, err2).
     if err2 \<noteq> None then Inr False else
     if rngSt < rngSt2
     then res_bind (IndexInRange rngSt2 (vg_VfRange gr)) (\<lambda>b.
            if b then Inr True else IndexInRange rngEnd2 (vg_VfRange gr))
     else res_bind (IndexInRange rngSt (vg_VfRange gr2)) (\<lambda>b.
            if b then Inr True else IndexInRange rngEnd (vg_VfRange gr2))))"

section \<open>Printed ranges\<close>

text \<open>\<^verbatim>\<open>strconv.Itoa(rngStart) + "-" + strconv.Itoa(rngEnd)\<close>\<close>

definition range_string :: "int \<Rightarrow> int \<Rightarrow> string" where
  "range_string st en = itoa st @ ''-'' @ itoa en"

text \<open>The VF indexes a range string denotes; none when it does not parse.\<close>

definition range_set :: "string \<Rightarrow> int set" where
  "range_set r = (case parseRange r of Inr (a, b, None) \<Rightarrow> {a..b} | _ \<Rightarrow> {})"

definition range_wf :: "string \<Rightarrow> bool" where
  "range_wf r \<longleftrightarrow> (case parseRange r of Inr (a, b, None) \<Rightarrow> 0 \<le> a \<and> a \<le> b | _ \<Rightarrow> False)"

lemma parseRange_range_string:
  assumes "0 \<le> a" "a \<le> max_int64" "0 \<le> b" "b \<le> max_int64"
  shows "parseRange (range_string a b) = Inr (a, b, None)"
proof -
  have "split_on dash (range_string a b) = [itoa a, itoa b]"
    using assms by (simp add: range_string_def split_on_append_sep split_on_no_sep dash_notin_itoa)
  moreover have "atoi (itoa a) = (a, None)" "atoi (itoa b) = (b, None)"
    using assms by (simp_all add: atoi_itoa min_int64_def)
  ultimately show ?thesis by (simp add: parseRange_def)
qed

lemma range_wfE:
  assumes "range_wf r"
  obtains a b where "parseRange r = Inr (a, b, None)" "0 \<le> a" "a \<le> b"
  using assms by (auto simp: range_wf_def split: sum.splits prod.splits option.splits)

lemma range_wf_range_string:
  "0 \<le> a \<Longrightarrow> a \<le> b \<Longrightarrow> b \<le> max_int64 \<Longrightarrow> range_wf (range_string a b)"
  by (simp add: range_wf_def parseRange_range_string)

lemma range_set_range_string:
  "0 \<le> a \<Longrightarrow> a \<le> b \<Longrightarrow> b \<le> max_int64 \<Longrightarrow> range_set (range_string a b) = {a..b}"
  by (simp add: range_set_def parseRange_range_string)

lemma range_set_nonempty: "range_wf r \<Longrightarrow> range_set r \<noteq> {}"
  by (auto elim!: range_wfE simp: range_set_def)

lemma IndexInRange_wf: "range_wf r \<Longrightarrow> IndexInRange i r = Inr (i \<in> range_set r)"
  by (auto elim!: range_wfE simp: IndexInRange_def range_set_def)

text \<open>The overlap test is exactly interval intersection on well-formed ranges.\<close>

lemma isVFRangeOverlapping_wf:
  assumes "range_wf (vg_VfRange g)" and "range_wf (vg_VfRange h)"
  shows "isVFRangeOverlapping g h =
    Inr (range_set (vg_VfRange g) \<inter> range_set (vg_VfRange h) \<noteq> {})"
proof -
  obtain a b where g: "parseRange (vg_VfRange g) = Inr (a, b, None)" "0 \<le> a" "a \<le> b"
    using assms(1) by (rule range_wfE)
  obtain c d where h: "parseRange (vg_VfRange h) = Inr (c, d, None)" "0 \<le> c" "c \<le> d"
    using assms(2) by (rule range_wfE)
  have sets: "range_set (vg_VfRange g) = {a..b}" "range_set (vg_VfRange h) = {c..d}"
    using g h by (simp_all add: range_set_def)
  show ?thesis
    using g h by (auto simp: isVFRangeOverlapping_def IndexInRange_wf assms sets Let_def)
qed

section \<open>PF names\<close>

text \<open>A PF name: no \<^verbatim>\<open>#\<close>, or a device and a range that parses.\<close>

definition pf_name_base :: "string \<Rightarrow> string" where
  "pf_name_base p = split_on hash p ! 0"

lemma pf_name_base_no_hash [simp]: "hash \<notin> set p \<Longrightarrow> pf_name_base p = p"
  by (simp add: pf_name_base_def split_on_no_sep)

lemma two_fields_if_sep: "c \<in> set s \<Longrightarrow> 1 < length (split_on c s)"
proof (induction s)
  case (Cons x s)
  have "split_on c s \<noteq> []" by simp
  then show ?case using Cons by (auto split: list.splits)
qed simp

lemma ParseVfRange_no_hash:
  "hash \<notin> set p \<Longrightarrow> ParseVfRange p = Inr (p, invalidVfIndex, invalidVfIndex, None)"
  by (simp add: ParseVfRange_def SplitDeviceFromRange_def)

lemma ParseVfRange_range:
  assumes "split_on hash p = [n, r]" and "r \<noteq> []" and "parseRange r = Inr (a, b, e)"
  shows "ParseVfRange p = Inr (n, a, b, e)"
proof -
  have "hash \<in> set p"
    using assms(1) split_on_no_sep [of hash p] by (cases "hash \<in> set p") auto
  then show ?thesis using assms by (simp add: ParseVfRange_def SplitDeviceFromRange_def)
qed

text \<open>Writing a device with a range and parsing it is a round trip.\<close>

lemma ParseVfRange_roundtrip:
  assumes "hash \<notin> set n" and "0 \<le> a" and "a \<le> b" and "b \<le> max_int64"
  shows "ParseVfRange (n @ ''#'' @ range_string a b) = Inr (n, a, b, None)"
proof (rule ParseVfRange_range)
  have "hash \<notin> set (range_string a b)"
    using assms by (simp add: range_string_def itoa_nonneg sign_notin_itoa_nat)
  then show "split_on hash (n @ ''#'' @ range_string a b) = [n, range_string a b]"
    using assms(1) by (simp add: split_on_append_sep split_on_no_sep)
  show "range_string a b \<noteq> []" by (simp add: range_string_def)
  show "parseRange (range_string a b) = Inr (a, b, None)"
    using assms by (simp add: parseRange_range_string)
qed

section \<open>Properties\<close>

text \<open>
  On well-formed VF ranges the overlap test of two VF groups never panics and is true exactly
  when the two sets of VF indexes intersect.
\<close>

theorem overlap_test_is_intersection:
  assumes "range_wf (vg_VfRange g)" and "range_wf (vg_VfRange h)"
  shows "isVFRangeOverlapping g h =
    Inr (range_set (vg_VfRange g) \<inter> range_set (vg_VfRange h) \<noteq> {})"
  by (rule isVFRangeOverlapping_wf[OF assms])

theorem overlap_test_is_intersection_witness:
  "isVFRangeOverlapping (sample_group ''a'' ''0-3'') (sample_group ''b'' ''1-2'') =
     Inr (range_set ''0-3'' \<inter> range_set ''1-2'' \<noteq> {}) \<and>
   range_wf ''0-3'' \<and> range_wf ''1-2''"
proof -
  have "range_wf ''0-3''" "range_wf ''1-2''" by code_simp+
  then show ?thesis
    using overlap_test_is_intersection[of "sample_group ''a'' ''0-3''" "sample_group ''b'' ''1-2''"]
    by (simp add: sample_group_def)
qed

text \<open>
  A PF name printed as device, \<^verbatim>\<open>#\<close> and range parses back to the device and the two bounds, for
  every range of non-negative 64-bit indexes.
\<close>

theorem pf_range_roundtrip:
  assumes "hash \<notin> set n" and "0 \<le> a" and "a \<le> b" and "b \<le> max_int64"
  shows "ParseVfRange (n @ ''#'' @ range_string a b) = Inr (n, a, b, None)"
  by (rule ParseVfRange_roundtrip[OF assms])

theorem pf_range_roundtrip_witness:
  "ParseVfRange (''ens1'' @ ''#'' @ range_string 2 5) = Inr (''ens1'', 2, 5, None)"
  by (rule pf_range_roundtrip) (simp_all add: max_int64_def)

end
