(* ===== verification/Nic_Selector.thy ===== *)
theory Nic_Selector
  imports Vf_Range
begin

text \<open>
  Selecting NICs and nodes: the supported NIC table, the string helpers, the node and NIC
  selectors and the net filter match of \<^verbatim>\<open>src/api/v1/helper.go\<close>. The package variable
  \<^verbatim>\<open>NicIDMap\<close> is the argument \<open>nicIDMap\<close>; its entries are split at blanks and indexed, so a short
  entry panics.
\<close>

section \<open>String helpers\<close>

definition StringInArray :: "string \<Rightarrow> string list \<Rightarrow> bool" where
  "StringInArray val xs = list_ex (\<lambda>x. x = val) xs"

definition NameOrAltNameMatchesPfNames :: "string \<Rightarrow> string list \<Rightarrow> string list \<Rightarrow> bool" where
  "NameOrAltNameMatchesPfNames nm altNames pfNames =
     (StringInArray nm pfNames \<or> list_ex (\<lambda>altName. StringInArray altName pfNames) altNames)"

definition RemoveString :: "string \<Rightarrow> string list \<Rightarrow> string list \<times> bool" where
  "RemoveString s slice = (filter (\<lambda>item. item \<noteq> s) slice, list_ex (\<lambda>item. item = s) slice)"

fun UniqueAppend :: "string list \<Rightarrow> string list \<Rightarrow> string list" where
  "UniqueAppend inSlice [] = inSlice"
| "UniqueAppend inSlice (s # ss) =
     UniqueAppend (if \<not> StringInArray s inSlice then inSlice @ [s] else inSlice) ss"

lemma StringInArray_iff [simp]: "StringInArray v xs \<longleftrightarrow> v \<in> set xs"
  by (auto simp: StringInArray_def list_ex_iff)

lemma NameOrAltNameMatchesPfNames_iff:
  "NameOrAltNameMatchesPfNames nm alts pfs \<longleftrightarrow> set (nm # alts) \<inter> set pfs \<noteq> {}"
  by (auto simp: NameOrAltNameMatchesPfNames_def list_ex_iff)

lemma set_UniqueAppend [simp]: "set (UniqueAppend xs ss) = set xs \<union> set ss"
  by (induction xs ss rule: UniqueAppend.induct) auto

lemma distinct_UniqueAppend: "distinct xs \<Longrightarrow> distinct (UniqueAppend xs ss)"
  by (induction xs ss rule: UniqueAppend.induct) auto

lemma UniqueAppend_subset: "set ss \<subseteq> set xs \<Longrightarrow> UniqueAppend xs ss = xs"
  by (induction xs ss rule: UniqueAppend.induct) auto

lemma UniqueAppend_idem: "UniqueAppend (UniqueAppend xs ss) ss = UniqueAppend xs ss"
  by (rule UniqueAppend_subset) simp

lemma RemoveString_spec:
  "set (fst (RemoveString s xs)) = set xs - {s}"
  "snd (RemoveString s xs) \<longleftrightarrow> s \<in> set xs"
  by (auto simp: RemoveString_def list_ex_iff)

section \<open>Supported NICs\<close>

text \<open>Each loop returns at the first entry that matches; an index beyond the entry panics.\<close>

fun any_id :: "(string list \<Rightarrow> panic + bool) \<Rightarrow> string list \<Rightarrow> panic + bool" where
  "any_id match [] = Inr False"
| "any_id match (n # ns) =
     res_bind (match (split_on CHR '' '' n)) (\<lambda>b. if b then Inr True else any_id match ns)"

definition field :: "string list \<Rightarrow> nat \<Rightarrow> panic + string" where
  "field ids i = (if i < length ids then Inr (ids ! i) else Inl IndexOutOfRange)"

definition IsSupportedVendor :: "string list \<Rightarrow> string \<Rightarrow> panic + bool" where
  "IsSupportedVendor nicIDMap vendorID =
     any_id (\<lambda>ids. res_bind (field ids 0) (\<lambda>v. Inr (vendorID = v))) nicIDMap"

definition IsSupportedDevice :: "string list \<Rightarrow> string \<Rightarrow> panic + bool" where
  "IsSupportedDevice nicIDMap deviceID =
     any_id (\<lambda>ids. res_bind (field ids 1) (\<lambda>d. Inr (deviceID = d))) nicIDMap"

definition IsSupportedModel :: "string list \<Rightarrow> string \<Rightarrow> string \<Rightarrow> panic + bool" where
  "IsSupportedModel nicIDMap vendorID deviceID =
     any_id (\<lambda>ids. res_bind (field ids 0) (\<lambda>v.
       if vendorID \<noteq> v then Inr False
       else res_bind (field ids 1) (\<lambda>d. Inr (deviceID = d)))) nicIDMap"

definition IsVfSupportedModel :: "string list \<Rightarrow> string \<Rightarrow> string \<Rightarrow> panic + bool" where
  "IsVfSupportedModel nicIDMap vendorID deviceID =
     any_id (\<lambda>ids. res_bind (field ids 0) (\<lambda>v.
       if vendorID \<noteq> v then Inr False
       else res_bind (field ids 2) (\<lambda>d. Inr (deviceID = d)))) nicIDMap"

fun GetVfDeviceID :: "string list \<Rightarrow> string \<Rightarrow> panic + string" where
  "GetVfDeviceID [] deviceID = Inr []"
| "GetVfDeviceID (n # ns) deviceID =
     (let ids = split_on CHR '' '' n in
      res_bind (field ids 1) (\<lambda>d.
        if deviceID = d then field ids 2 else GetVfDeviceID ns deviceID))"

section \<open>Node selector\<close>

definition Selected :: "SriovNetworkNodePolicy \<Rightarrow> Node \<Rightarrow> bool" where
  "Selected p node =
     list_all (\<lambda>(k, v). node_Labels node k = Some v) (ps_NodeSelector (pol_Spec p))"

section \<open>Net filter\<close>

text \<open>
  \<^verbatim>\<open>NetFilterMatch\<close> uses the multi-line regular expression
  \<^verbatim>\<open>^\s*([^\s]+)\s*:\s*([^\s]+)\<close> and compares the two groups of the first match. The match is
  leftmost, its groups greedy: from the first line start that matches, the key is the longest
  prefix of the first run of non-blanks after which a colon and a value follow.
\<close>

definition re_space :: "char \<Rightarrow> bool" where
  "re_space c \<longleftrightarrow> c \<in> {CHR ''\<newline>'', CHR '' '', CHR 0x09, CHR 0x0C, CHR 0x0D}"

fun re_key :: "nat \<Rightarrow> string \<Rightarrow> (string \<times> string) option" where
  "re_key 0 s = None"
| "re_key (Suc k) s =
     (case dropWhile re_space (drop (Suc k) s) of
        [] \<Rightarrow> re_key k s
      | c # r \<Rightarrow>
          (let v = takeWhile (\<lambda>x. \<not> re_space x) (dropWhile re_space r) in
           if c = CHR '':'' \<and> v \<noteq> [] then Some (take (Suc k) s, v) else re_key k s))"

definition re_line :: "string \<Rightarrow> (string \<times> string) option" where
  "re_line s =
     (let t = dropWhile re_space s in re_key (length (takeWhile (\<lambda>x. \<not> re_space x) t)) t)"

fun re_find :: "nat \<Rightarrow> string \<Rightarrow> (string \<times> string) option" where
  "re_find 0 s = None"
| "re_find (Suc n) s =
     (case re_line s of
        Some m \<Rightarrow> Some m
      | None \<Rightarrow>
          (case dropWhile (\<lambda>c. c \<noteq> CHR ''\<newline>'') s of
             [] \<Rightarrow> None
           | _ # rest \<Rightarrow> re_find n rest))"

text \<open>A text of \<open>n\<close> bytes has at most \<open>n + 1\<close> line starts.\<close>

definition re_first :: "string \<Rightarrow> (string \<times> string) option" where
  "re_first s = re_find (Suc (length s)) s"

definition NetFilterMatch :: "string \<Rightarrow> string \<Rightarrow> bool" where
  "NetFilterMatch netFilter netValue =
     (case re_first netFilter of
        None \<Rightarrow> False
      | Some (k, v) \<Rightarrow>
          (case re_first netValue of
             None \<Rightarrow> False
           | Some (k', v') \<Rightarrow> k = k' \<and> v = v'))"

lemma re_find_fuel: "length s < n \<Longrightarrow> length s < m \<Longrightarrow> re_find n s = re_find m s"
proof (induction n arbitrary: m s)
  case (Suc n)
  obtain m' where m: "m = Suc m'" using Suc.prems by (cases m) auto
  have "re_find n rest = re_find m' rest"
    if "dropWhile (\<lambda>c. c \<noteq> CHR ''\<newline>'') s = c # rest" for c rest
  proof (rule Suc.IH)
    have "length (c # rest) \<le> length s" using that by (metis length_dropWhile_le)
    then show "length rest < n" "length rest < m'" using Suc.prems m by auto
  qed
  then show ?case using m
    by (cases "re_line s"; cases "dropWhile (\<lambda>c. c \<noteq> CHR ''\<newline>'') s")
      (simp_all del: dropWhile_eq_Nil_conv)
qed simp

lemma NetFilterMatch_iff:
  "NetFilterMatch f v \<longleftrightarrow> (\<exists>kv. re_first f = Some kv \<and> re_first v = Some kv)"
  by (auto simp: NetFilterMatch_def split: option.splits)

lemma NetFilterMatch_sym: "NetFilterMatch f v \<Longrightarrow> NetFilterMatch v f"
  by (auto simp: NetFilterMatch_iff)

lemma NetFilterMatch_trans: "NetFilterMatch a b \<Longrightarrow> NetFilterMatch b c \<Longrightarrow> NetFilterMatch a c"
  by (auto simp: NetFilterMatch_iff)

text \<open>The documented form \<^verbatim>\<open>key:value\<close>, with no blank and one colon, parses to its parts.\<close>

lemma re_key_down:
  assumes "k \<le> n" "\<And>j. k < j \<Longrightarrow> j \<le> n \<Longrightarrow> j \<le> length s \<Longrightarrow> drop j s \<noteq> [] \<Longrightarrow>
      \<not> re_space (hd (drop j s)) \<and> hd (drop j s) \<noteq> CHR '':''"
    and "n \<le> length s"
  shows "re_key n s = re_key k s"
  using assms
proof (induction n)
  case (Suc n)
  show ?case
  proof (cases "k = Suc n")
    case False
    have IH: "re_key n s = re_key k s"
      using Suc False by simp
    have "dropWhile re_space (drop (Suc n) s) = drop (Suc n) s"
      using Suc.prems(2) [of "Suc n"] Suc.prems(1,3) False by (cases "drop (Suc n) s") auto
    moreover have "drop (Suc n) s \<noteq> [] \<Longrightarrow> hd (drop (Suc n) s) \<noteq> CHR '':''"
      using Suc.prems(2) [of "Suc n"] Suc.prems(1,3) False by auto
    ultimately show ?thesis using IH by (cases "drop (Suc n) s") auto
  qed simp
qed simp

lemma re_first_key_value:
  assumes "k \<noteq> []" "v \<noteq> []" and "\<forall>c\<in>set (k @ v). \<not> re_space c"
    and "CHR '':'' \<notin> set v"
  shows "re_first (k @ '':'' @ v) = Some (k, v)"
proof -
  let ?s = "k @ CHR '':'' # v"
  have nosp: "\<not> re_space c" if "c \<in> set ?s" for c
    using that assms(3) by (auto simp: re_space_def)
  have tw: "takeWhile (\<lambda>x. \<not> re_space x) ?s = ?s" "takeWhile (\<lambda>x. \<not> re_space x) v = v"
    "dropWhile re_space ?s = ?s" "dropWhile re_space v = v"
    using nosp assms(1,2) by (auto simp: takeWhile_eq_all_conv dropWhile_eq_self_iff)
  have hd_drop: "\<not> re_space (hd (drop j ?s)) \<and> hd (drop j ?s) \<noteq> CHR '':''"
    if j: "length k < j" "drop j ?s \<noteq> []" for j
  proof -
    have "j < length ?s" using j(2) by (metis drop_eq_Nil not_le_imp_less)
    then have "hd (drop j ?s) = v ! (j - length k - 1)" "j - length k - 1 < length v"
      using j(1) by (auto simp: hd_drop_conv_nth nth_append nth_Cons')
    then have "hd (drop j ?s) \<in> set v" by simp
    then show ?thesis using assms(3,4) by auto
  qed
  have "re_key (length ?s) ?s = re_key (length k) ?s"
    by (rule re_key_down) (use hd_drop in auto)
  also have "\<dots> = Some (k, v)"
  proof -
    obtain m where "length k = Suc m" using assms(1) by (cases k) auto
    moreover have "\<not> re_space CHR '':''" by (simp add: re_space_def)
    moreover have "take (Suc m) ?s = k" "drop (Suc m) ?s = CHR '':'' # v"
      using calculation(1) by (metis append_eq_conv_conj)+
    ultimately show ?thesis using assms(2) tw(2,4)
      by (simp add: Let_def del: takeWhile_eq_all_conv takeWhile_eq_Nil_iff)
  qed
  finally have "re_line ?s = Some (k, v)"
    unfolding re_line_def Let_def tw by simp
  then show ?thesis by (simp add: re_first_def)
qed

section \<open>NIC selector\<close>

definition NicSelector_IsEmpty :: "SriovNetworkNicSelector \<Rightarrow> bool" where
  "NicSelector_IsEmpty s \<longleftrightarrow>
     sel_Vendor s = [] \<and> sel_DeviceID s = [] \<and> sel_RootDevices s = [] \<and>
     sel_PfNames s = [] \<and> sel_NetFilter s = []"

definition NicSelector_Selected :: "SriovNetworkNicSelector \<Rightarrow> InterfaceExt \<Rightarrow> bool" where
  "NicSelector_Selected s iface =
     (if sel_Vendor s \<noteq> [] \<and> sel_Vendor s \<noteq> ie_Vendor iface then False
      else if sel_DeviceID s \<noteq> [] \<and> sel_DeviceID s \<noteq> ie_DeviceID iface then False
      else if sel_RootDevices s \<noteq> [] \<and> \<not> StringInArray (ie_PciAddress iface) (sel_RootDevices s)
        then False
      else if sel_PfNames s \<noteq> [] \<and>
           \<not> NameOrAltNameMatchesPfNames (ie_Name iface) (ie_AltNames iface)
               (map (\<lambda>p. if hash \<in> set p then split_on hash p ! 0 else p) (sel_PfNames s))
        then False
      else if sel_NetFilter s \<noteq> [] \<and> \<not> NetFilterMatch (sel_NetFilter s) (ie_NetFilter iface)
        then False
      else True)"

text \<open>The criteria that are set are a conjunction; an empty selector would match everything.\<close>

lemma NicSelector_Selected_iff:
  "NicSelector_Selected s i \<longleftrightarrow>
     (sel_Vendor s = [] \<or> sel_Vendor s = ie_Vendor i) \<and>
     (sel_DeviceID s = [] \<or> sel_DeviceID s = ie_DeviceID i) \<and>
     (sel_RootDevices s = [] \<or> ie_PciAddress i \<in> set (sel_RootDevices s)) \<and>
     (sel_PfNames s = [] \<or>
        set (ie_Name i # ie_AltNames i) \<inter> pf_name_base ` set (sel_PfNames s) \<noteq> {}) \<and>
     (sel_NetFilter s = [] \<or> NetFilterMatch (sel_NetFilter s) (ie_NetFilter i))"
proof -
  have "(\<lambda>p. if hash \<in> set p then split_on hash p ! 0 else p) = pf_name_base"
    by (auto simp: pf_name_base_def split_on_no_sep)
  then show ?thesis
    by (simp add: NicSelector_Selected_def NameOrAltNameMatchesPfNames_iff)
qed

section \<open>Interface names\<close>

definition ResolveInterfaceName :: "string \<Rightarrow> SriovNetworkNodeState option \<Rightarrow> string" where
  "ResolveInterfaceName nm nodeState =
     (case nodeState of
        None \<Rightarrow> nm
      | Some ns \<Rightarrow>
          (case find (\<lambda>i. ie_Name i = nm \<or> StringInArray nm (ie_AltNames i))
                  (nst_Interfaces (state_Status ns)) of
             None \<Rightarrow> nm
           | Some i \<Rightarrow> if ie_Name i = nm then nm else ie_Name i))"

definition GetInterfaceStateByPciAddress :: "SriovNetworkNodeState \<Rightarrow> string \<Rightarrow> InterfaceExt option" where
  "GetInterfaceStateByPciAddress s addr =
     find (\<lambda>i. addr = ie_PciAddress i) (nst_Interfaces (state_Status s))"

definition GetDriverByPciAddress :: "SriovNetworkNodeState \<Rightarrow> string \<Rightarrow> string" where
  "GetDriverByPciAddress s addr =
     (case find (\<lambda>i. addr = ie_PciAddress i) (nst_Interfaces (state_Status s)) of
        None \<Rightarrow> [] | Some i \<Rightarrow> ie_Driver i)"

text \<open>
  With interface names and alternative names that identify one interface each, resolving is
  idempotent.
\<close>

definition names_unambiguous :: "InterfaceExt list \<Rightarrow> bool" where
  "names_unambiguous ifs \<longleftrightarrow>
     (\<forall>i\<in>set ifs. \<forall>j\<in>set ifs. \<forall>n. n \<in> set (ie_Name i # ie_AltNames i) \<longrightarrow>
        n \<in> set (ie_Name j # ie_AltNames j) \<longrightarrow> ie_Name i = ie_Name j)"

lemma ResolveInterfaceName_cases:
  "ResolveInterfaceName n (Some ns) = n \<or>
   (\<exists>i\<in>set (nst_Interfaces (state_Status ns)).
      n \<in> set (ie_AltNames i) \<and> ResolveInterfaceName n (Some ns) = ie_Name i)"
proof (cases "find (\<lambda>i. ie_Name i = n \<or> StringInArray n (ie_AltNames i))
         (nst_Interfaces (state_Status ns))")
  case (Some i)
  then have "i \<in> set (nst_Interfaces (state_Status ns))" "ie_Name i = n \<or> n \<in> set (ie_AltNames i)"
    by (auto simp: find_Some_iff)
  then show ?thesis using Some by (auto simp: ResolveInterfaceName_def)
qed (simp add: ResolveInterfaceName_def)

lemma ResolveInterfaceName_Name:
  assumes "names_unambiguous (nst_Interfaces (state_Status ns))"
    and "i \<in> set (nst_Interfaces (state_Status ns))"
    and "n \<in> set (ie_Name i # ie_AltNames i)"
  shows "ResolveInterfaceName n (Some ns) = ie_Name i"
proof -
  let ?P = "\<lambda>i. ie_Name i = n \<or> StringInArray n (ie_AltNames i)"
  obtain j where j: "find ?P (nst_Interfaces (state_Status ns)) = Some j"
    using assms(2,3) by (cases "find ?P (nst_Interfaces (state_Status ns))") (auto simp: find_None_iff)
  then have "j \<in> set (nst_Interfaces (state_Status ns))" "n \<in> set (ie_Name j # ie_AltNames j)"
    by (auto simp: find_Some_iff)
  then have "ie_Name j = ie_Name i"
    using assms unfolding names_unambiguous_def by blast
  then show ?thesis using j by (auto simp: ResolveInterfaceName_def)
qed

section \<open>Properties\<close>

text \<open>
  With interface names and alternative names that each identify one interface, both the name and
  every alternative name of an interface resolve to its name, so resolving twice is resolving once.
\<close>

theorem resolve_any_name:
  assumes "names_unambiguous (nst_Interfaces (state_Status ns))"
    and "i \<in> set (nst_Interfaces (state_Status ns))"
    and "n \<in> set (ie_Name i # ie_AltNames i)"
  shows "ResolveInterfaceName n (Some ns) = ie_Name i \<and>
    ResolveInterfaceName (ResolveInterfaceName n (Some ns)) (Some ns) = ie_Name i"
  using ResolveInterfaceName_Name[OF assms] ResolveInterfaceName_Name[OF assms(1,2), of "ie_Name i"] by simp

theorem resolve_any_name_witness:
  "ResolveInterfaceName ''alt1'' (Some (sample_state ''n'')) = ''ens1''"
  using resolve_any_name[of "sample_state ''n''" sample_pf "''alt1''"]
  by (simp add: sample_state_def sample_status_def sample_pf_def names_unambiguous_def)

text \<open>An entry of the table, and the first one for a device.\<close>

definition nic_entry :: "string \<times> string \<times> string \<Rightarrow> string" where
  "nic_entry e = (case e of (vendor, pf, vf) \<Rightarrow> vendor @ '' '' @ pf @ '' '' @ vf)"

definition blank_free :: "string \<times> string \<times> string \<Rightarrow> bool" where
  "blank_free e = (case e of (vendor, pf, vf) \<Rightarrow> CHR '' '' \<notin> set vendor \<union> set pf \<union> set vf)"

lemma split_nic_entry: "blank_free (v, d, w) \<Longrightarrow> split_on CHR '' '' (nic_entry (v, d, w)) = [v, d, w]"
  by (simp add: nic_entry_def blank_free_def split_on_append_sep split_on_no_sep)

text \<open>A loop over such a table, when the test of an entry is a test of its three fields.\<close>

lemma any_id_entries:
  assumes "list_all blank_free es" and "\<And>v d w. match [v, d, w] = Inr (P v d w)"
  shows "any_id match (map nic_entry es) = Inr (\<exists>(v, d, w)\<in>set es. P v d w)"
  using assms
proof (induction es)
  case (Cons e es)
  obtain v d w where e: "e = (v, d, w)" by (cases e)
  then have "split_on CHR '' '' (nic_entry e) = [v, d, w]" using Cons.prems(1) split_nic_entry by simp
  then show ?case using Cons e by auto
qed simp

lemma GetVfDeviceID_entries:
  assumes "list_all blank_free es"
  shows "GetVfDeviceID (map nic_entry es) d = Inr (case find (\<lambda>(v, pf, vf). pf = d) es of None \<Rightarrow> [] | Some (v, pf, vf) \<Rightarrow> vf)"
  using assms
proof (induction es)
  case (Cons e es)
  obtain v pf w where e: "e = (v, pf, w)" by (cases e)
  then have "split_on CHR '' '' (nic_entry e) = [v, pf, w]" using Cons.prems split_nic_entry by simp
  then show ?case using Cons e by (auto simp: field_def Let_def)
qed simp

text \<open>
  C40: The lookups in the table of supported NICs, whose entries are texts of a vendor, a PF and a VF device separated by blanks,
  are the lookups in a list of triples: a vendor, a PF device, a PF model and a VF model is supported exactly when the list
  has it, the VF device of a PF device is that of the first entry, and no lookup panics.
\<close>

theorem supported_nics_decided:
  assumes "list_all blank_free es"
  shows "IsSupportedVendor (map nic_entry es) v = Inr (\<exists>d w. (v, d, w) \<in> set es) \<and>
    IsSupportedDevice (map nic_entry es) d = Inr (\<exists>v w. (v, d, w) \<in> set es) \<and>
    IsSupportedModel (map nic_entry es) v d = Inr (\<exists>w. (v, d, w) \<in> set es) \<and>
    IsVfSupportedModel (map nic_entry es) v w = Inr (\<exists>d. (v, d, w) \<in> set es) \<and>
    GetVfDeviceID (map nic_entry es) d = Inr (case find (\<lambda>(v, pf, vf). pf = d) es of None \<Rightarrow> [] | Some (v, pf, vf) \<Rightarrow> vf)"
proof (intro conjI)
  show "IsSupportedVendor (map nic_entry es) v = Inr (\<exists>d w. (v, d, w) \<in> set es)"
    unfolding IsSupportedVendor_def
    by (subst any_id_entries[OF assms, where P = "\<lambda>v' d w. v = v'"]) (auto simp: field_def)
  show "IsSupportedDevice (map nic_entry es) d = Inr (\<exists>v w. (v, d, w) \<in> set es)"
    unfolding IsSupportedDevice_def
    by (subst any_id_entries[OF assms, where P = "\<lambda>v d' w. d = d'"]) (auto simp: field_def)
  show "IsSupportedModel (map nic_entry es) v d = Inr (\<exists>w. (v, d, w) \<in> set es)"
    unfolding IsSupportedModel_def
    by (subst any_id_entries[OF assms, where P = "\<lambda>v' d' w. v = v' \<and> d = d'"]) (auto simp: field_def)
  show "IsVfSupportedModel (map nic_entry es) v w = Inr (\<exists>d. (v, d, w) \<in> set es)"
    unfolding IsVfSupportedModel_def
    by (subst any_id_entries[OF assms, where P = "\<lambda>v' d w'. v = v' \<and> w = w'"]) (auto simp: field_def)
qed (rule GetVfDeviceID_entries[OF assms])

theorem supported_nics_decided_witness:
  "IsSupportedModel [''8086 1593 1889'', ''15b3 1015 1016''] ''15b3'' ''1015'' = Inr True \<and>
   IsSupportedModel [''8086 1593 1889'', ''15b3 1015 1016''] ''15b3'' ''1593'' = Inr False \<and>
   IsVfSupportedModel [''8086 1593 1889'', ''15b3 1015 1016''] ''8086'' ''1889'' = Inr True \<and>
   GetVfDeviceID [''8086 1593 1889'', ''15b3 1015 1016''] ''1015'' = Inr ''1016''"
proof -
  let ?es = "[(''8086'', ''1593'', ''1889''), (''15b3'', ''1015'', ''1016'')]"
  have b: "list_all blank_free ?es" by code_simp
  have m: "map nic_entry ?es = [''8086 1593 1889'', ''15b3 1015 1016'']" by (simp add: nic_entry_def)
  show ?thesis
    using supported_nics_decided[OF b, of "''15b3''" "''1015''" "''1016''"] supported_nics_decided[OF b, of "''15b3''" "''1593''" "''1889''"]
      supported_nics_decided[OF b, of "''8086''" "''1593''" "''1889''"]
    unfolding m by auto
qed

end
