(* ===== verification/Node_Policy.thy ===== *)
theory Node_Policy
  imports Nic_Selector
begin

text \<open>
  Applying a node policy to the desired state of a node: \<^verbatim>\<open>generatePfNameVfGroup\<close>,
  \<^verbatim>\<open>mergeConfigs\<close> and \<^verbatim>\<open>Apply\<close> of \<^verbatim>\<open>src/api/v1/helper.go\<close>, and the order in which policies are
  applied. The invariant \<open>iface_wf\<close> says that the VF groups of an interface partition its virtual
  functions: every range is well formed and inside the configured number of VFs, no two groups
  share a VF or a resource name, and the PF's MTU is at least that of every group.
\<close>

datatype policy_error =
    NumError num_error
  | PolicyPanic panic
  | BridgeNeedsSwitchdev
  | BridgeNeedsEthernet
  | BridgeExternallyManaged

section \<open>Operations\<close>

text \<open>The search through the selector's PF names of \<^verbatim>\<open>generatePfNameVfGroup\<close>.\<close>

fun find_pf_range :: "string \<Rightarrow> int \<Rightarrow> string list \<Rightarrow> policy_error + (int \<times> int) option" where
  "find_pf_range ifname numVfs [] = Inr None"
| "find_pf_range ifname numVfs (selector # rest) =
     res_bind (map_err PolicyPanic (ParseVfRange selector)) (\<lambda>(pfName, rngStart, rngEnd, err).
       case err of
         Some e \<Rightarrow> Inl (NumError e)
       | None \<Rightarrow>
           if pfName = ifname
           then (if rngStart = invalidVfIndex \<and> rngEnd = invalidVfIndex
                 then Inr (Some (0, numVfs - 1)) else Inr (Some (rngStart, rngEnd)))
           else find_pf_range ifname numVfs rest)"

definition generatePfNameVfGroup ::
    "SriovNetworkNodePolicy \<Rightarrow> InterfaceExt \<Rightarrow> policy_error + VfGroup" where
  "generatePfNameVfGroup p iface =
     (let spec = pol_Spec p in
      res_bind (find_pf_range (ie_Name iface) (ps_NumVfs spec) (sel_PfNames (ps_NicSelector spec)))
        (\<lambda>found.
          let (rngStart, rngEnd) =
            (case found of None \<Rightarrow> (0, ps_NumVfs spec - 1) | Some r \<Rightarrow> r)
          in Inr \<lparr>vg_ResourceName = ps_ResourceName spec,
                  vg_DeviceType = ps_DeviceType spec,
                  vg_VfRange = range_string rngStart rngEnd,
                  vg_PolicyName = pol_Name p,
                  vg_Mtu = ps_Mtu spec,
                  vg_IsRdma = ps_IsRdma spec,
                  vg_VdpaType = ps_VdpaType spec\<rparr>))"

text \<open>One turn of the loop of \<^verbatim>\<open>mergeConfigs\<close>: the flag \<open>m\<close> and \<open>input.VfGroups\<close>.\<close>

definition merge_step :: "VfGroup \<Rightarrow> bool \<times> VfGroup list \<Rightarrow> panic + bool \<times> VfGroup list" where
  "merge_step gr st =
     (case st of (m, groups) \<Rightarrow>
       (case groups of
          [] \<Rightarrow> Inl IndexOutOfRange
        | g0 # _ \<Rightarrow>
            if vg_ResourceName gr = vg_ResourceName g0 then Inr (m, groups)
            else res_bind (isVFRangeOverlapping gr g0) (\<lambda>b.
                   if b then Inr (m, groups) else Inr (True, groups @ [gr]))))"

definition mergeConfigs :: "Interface \<Rightarrow> Interface \<Rightarrow> bool \<Rightarrow> panic + Interface" where
  "mergeConfigs iface input equalPriority =
     res_bind (fold_res merge_step (if_VfGroups iface) (False, if_VfGroups input))
       (\<lambda>(m, groups).
         let input = input\<lparr>if_VfGroups := groups\<rparr> in
         if \<not> equalPriority \<and> \<not> m then Inr input
         else
           let input = (if if_Mtu input < if_Mtu iface
                        then input\<lparr>if_Mtu := if_Mtu iface\<rparr> else input);
               input = (if if_NumVfs input < if_NumVfs iface
                        then input\<lparr>if_NumVfs := if_NumVfs iface\<rparr> else input)
           in Inr input)"

definition apply_result :: "SriovNetworkNodePolicy \<Rightarrow> InterfaceExt \<Rightarrow> VfGroup \<Rightarrow> Interface" where
  "apply_result p iface gr =
     \<lparr>if_PciAddress = ie_PciAddress iface,
      if_NumVfs = ps_NumVfs (pol_Spec p),
      if_Mtu = ps_Mtu (pol_Spec p),
      if_Name = ie_Name iface,
      if_LinkType = ps_LinkType (pol_Spec p),
      if_EswitchMode = ps_EswitchMode (pol_Spec p),
      if_VfGroups = [gr],
      if_ExternallyManaged = ps_ExternallyManaged (pol_Spec p)\<rparr>"

text \<open>One turn of the loop of \<^verbatim>\<open>Apply\<close>, on \<open>state.Spec.Interfaces\<close>.\<close>

definition apply_iface ::
    "SriovNetworkNodePolicy \<Rightarrow> bool \<Rightarrow> InterfaceExt \<Rightarrow> Interface list \<Rightarrow> policy_error + Interface list"
  where
  "apply_iface p equalPriority iface ifs =
     (if NicSelector_Selected (ps_NicSelector (pol_Spec p)) iface \<and> ps_NumVfs (pol_Spec p) > 0
      then res_bind (generatePfNameVfGroup p iface) (\<lambda>gr.
        let result = apply_result p iface gr in
        case find_index (\<lambda>i. if_PciAddress i = if_PciAddress result) ifs of
          None \<Rightarrow> Inr (ifs @ [result])
        | Some k \<Rightarrow>
            res_bind (map_err PolicyPanic (mergeConfigs (ifs ! k) result equalPriority)) (\<lambda>merged.
              Inr (ifs[k := merged])))
      else Inr ifs)"

definition Apply ::
    "SriovNetworkNodePolicy \<Rightarrow> SriovNetworkNodeState \<Rightarrow> bool \<Rightarrow> policy_error + SriovNetworkNodeState"
  where
  "Apply p state equalPriority =
     (if NicSelector_IsEmpty (ps_NicSelector (pol_Spec p)) then Inr state
      else res_bind
        (fold_res (apply_iface p equalPriority) (nst_Interfaces (state_Status state))
           (ns_Interfaces (state_Spec state)))
        (\<lambda>ifs. Inr (state\<lparr>state_Spec := (state_Spec state)\<lparr>ns_Interfaces := ifs\<rparr>\<rparr>)))"

section \<open>Well-formed desired state\<close>

definition group_fits :: "int \<Rightarrow> int \<Rightarrow> VfGroup \<Rightarrow> bool" where
  "group_fits numVfs mtu g \<longleftrightarrow>
     range_wf (vg_VfRange g) \<and> range_set (vg_VfRange g) \<subseteq> {0..<numVfs} \<and> vg_Mtu g \<le> mtu"

definition groups_apart :: "VfGroup \<Rightarrow> VfGroup \<Rightarrow> bool" where
  "groups_apart g h \<longleftrightarrow>
     vg_ResourceName g \<noteq> vg_ResourceName h \<and>
     range_set (vg_VfRange g) \<inter> range_set (vg_VfRange h) = {}"

definition iface_wf :: "Interface \<Rightarrow> bool" where
  "iface_wf i \<longleftrightarrow>
     if_VfGroups i \<noteq> [] \<and>
     (\<forall>g\<in>set (if_VfGroups i). group_fits (if_NumVfs i) (if_Mtu i) g) \<and>
     sorted_wrt groups_apart (if_VfGroups i)"

definition ifaces_wf :: "Interface list \<Rightarrow> bool" where
  "ifaces_wf ifs \<longleftrightarrow> distinct (map if_PciAddress ifs) \<and> (\<forall>i\<in>set ifs. iface_wf i)"

text \<open>
  A PF name of a policy is usable: it parses, and a range it carries lies inside the requested
  number of VFs. The admission webhook enforces this (theory Webhook).
\<close>

definition pf_name_ok :: "int \<Rightarrow> string \<Rightarrow> bool" where
  "pf_name_ok numVfs pf \<longleftrightarrow>
     (case ParseVfRange pf of
        Inr (n, a, b, None) \<Rightarrow>
          (a = invalidVfIndex \<and> b = invalidVfIndex) \<or> (0 \<le> a \<and> a \<le> b \<and> b < numVfs)
      | _ \<Rightarrow> False)"

definition policy_wf :: "SriovNetworkNodePolicy \<Rightarrow> bool" where
  "policy_wf p \<longleftrightarrow>
     ps_NumVfs (pol_Spec p) \<le> max_int64 \<and>
     list_all (pf_name_ok (ps_NumVfs (pol_Spec p))) (sel_PfNames (ps_NicSelector (pol_Spec p)))"

lemma group_fits_mono:
  "group_fits n m g \<Longrightarrow> n \<le> n' \<Longrightarrow> m \<le> m' \<Longrightarrow> group_fits n' m' g"
  by (force simp: group_fits_def)

lemma groups_apart_sym: "groups_apart g h \<longleftrightarrow> groups_apart h g"
  by (auto simp: groups_apart_def)

section \<open>Generating the VF group\<close>

lemma pf_name_okE:
  assumes "pf_name_ok numVfs pf"
  obtains n a b where "ParseVfRange pf = Inr (n, a, b, None)"
    "(a = invalidVfIndex \<and> b = invalidVfIndex) \<or> (0 \<le> a \<and> a \<le> b \<and> b < numVfs)"
  using assms by (auto simp: pf_name_ok_def split: sum.splits prod.splits option.splits)

lemma find_pf_range_ok:
  assumes "list_all (pf_name_ok numVfs) pfs" and "0 < numVfs"
  shows "\<exists>r. find_pf_range nm numVfs pfs = Inr r \<and>
    (\<forall>a b. r = Some (a, b) \<longrightarrow> 0 \<le> a \<and> a \<le> b \<and> b < numVfs)"
  using assms
proof (induction pfs)
  case (Cons pf pfs)
  then have "pf_name_ok numVfs pf" by simp
  then show ?case
  proof (rule pf_name_okE)
    fix n a b assume "ParseVfRange pf = Inr (n, a, b, None)"
      "(a = invalidVfIndex \<and> b = invalidVfIndex) \<or> (0 \<le> a \<and> a \<le> b \<and> b < numVfs)"
    then show ?thesis using Cons by (cases "n = nm") (auto simp: invalidVfIndex_def)
  qed
qed simp

lemma generatePfNameVfGroup_wf:
  assumes "policy_wf p" and "0 < ps_NumVfs (pol_Spec p)"
  shows "\<exists>g. generatePfNameVfGroup p iface = Inr g \<and>
    group_fits (ps_NumVfs (pol_Spec p)) (ps_Mtu (pol_Spec p)) g \<and>
    vg_ResourceName g = ps_ResourceName (pol_Spec p)"
proof -
  let ?n = "ps_NumVfs (pol_Spec p)"
  obtain r where r: "find_pf_range (ie_Name iface) ?n (sel_PfNames (ps_NicSelector (pol_Spec p))) = Inr r"
    "\<forall>a b. r = Some (a, b) \<longrightarrow> 0 \<le> a \<and> a \<le> b \<and> b < ?n"
    using find_pf_range_ok assms by (metis policy_wf_def)
  define st en where "st = (case r of None \<Rightarrow> 0 | Some (a, b) \<Rightarrow> a)"
    and "en = (case r of None \<Rightarrow> ?n - 1 | Some (a, b) \<Rightarrow> b)"
  have rng: "0 \<le> st" "st \<le> en" "en < ?n" "?n \<le> max_int64"
    using r(2) assms by (auto simp: st_def en_def policy_wf_def split: option.splits)
  then have "range_wf (range_string st en)" "range_set (range_string st en) \<subseteq> {0..<?n}"
    by (auto simp: range_wf_range_string range_set_range_string)
  moreover have "(case r of None \<Rightarrow> (0, ?n - 1) | Some r \<Rightarrow> r) = (st, en)"
    by (auto simp: st_def en_def split: option.splits)
  ultimately show ?thesis
    using r(1) by (simp add: generatePfNameVfGroup_def group_fits_def Let_def)
qed

section \<open>Merging\<close>

definition survives :: "VfGroup \<Rightarrow> VfGroup \<Rightarrow> bool" where
  "survives g0 gr \<longleftrightarrow> groups_apart gr g0"

lemma merge_loop:
  assumes "range_wf (vg_VfRange g0)" and "\<forall>g\<in>set gs. range_wf (vg_VfRange g)"
  shows "fold_res merge_step gs (m, g0 # acc) =
    Inr (m \<or> (\<exists>g\<in>set gs. survives g0 g), g0 # acc @ filter (survives g0) gs)"
  using assms
proof (induction gs arbitrary: m acc)
  case (Cons g gs)
  have "merge_step g (m, g0 # acc) =
    Inr (m \<or> survives g0 g, g0 # acc @ (if survives g0 g then [g] else []))"
    using Cons.prems
    by (auto simp: merge_step_def isVFRangeOverlapping_wf survives_def groups_apart_def)
  then show ?case using Cons by auto
qed simp

lemma mergeConfigs_eq:
  assumes "if_VfGroups input = [g0]" and "range_wf (vg_VfRange g0)"
    and "\<forall>g\<in>set (if_VfGroups iface). range_wf (vg_VfRange g)"
  shows "mergeConfigs iface input eqp =
    (let kept = filter (survives g0) (if_VfGroups iface);
         r = input\<lparr>if_VfGroups := g0 # kept\<rparr>
     in Inr (if \<not> eqp \<and> kept = [] then r
             else r\<lparr>if_Mtu := max (if_Mtu iface) (if_Mtu input),
                    if_NumVfs := max (if_NumVfs iface) (if_NumVfs input)\<rparr>))"
proof -
  have "(\<exists>g\<in>set (if_VfGroups iface). survives g0 g) \<longleftrightarrow> filter (survives g0) (if_VfGroups iface) \<noteq> []"
    by (auto simp: filter_empty_conv)
  then show ?thesis
    by (simp add: mergeConfigs_def assms merge_loop [where acc = "[]", simplified] Let_def max_def)
qed

lemma sorted_wrt_filter_survives:
  assumes "sorted_wrt groups_apart gs"
  shows "sorted_wrt groups_apart (g0 # filter (survives g0) gs)"
  using sorted_wrt_filter [OF assms, of "survives g0"] by (auto simp: survives_def groups_apart_sym)

lemma mergeConfigs_wf:
  assumes "iface_wf iface" and "iface_wf input" and "if_VfGroups input = [g0]"
  shows "\<exists>r. mergeConfigs iface input eqp = Inr r \<and> iface_wf r \<and>
    if_PciAddress r = if_PciAddress input \<and> hd (if_VfGroups r) = g0"
proof -
  let ?kept = "filter (survives g0) (if_VfGroups iface)"
  have g0: "group_fits (if_NumVfs input) (if_Mtu input) g0"
    using assms(2,3) by (simp add: iface_wf_def)
  have gs: "\<forall>g\<in>set ?kept. group_fits (if_NumVfs iface) (if_Mtu iface) g"
    "sorted_wrt groups_apart (g0 # ?kept)"
    using assms(1) sorted_wrt_filter_survives unfolding iface_wf_def by auto
  obtain r where r: "mergeConfigs iface input eqp = Inr r"
    "r = (if \<not> eqp \<and> ?kept = [] then input\<lparr>if_VfGroups := g0 # ?kept\<rparr>
          else input\<lparr>if_VfGroups := g0 # ?kept, if_Mtu := max (if_Mtu iface) (if_Mtu input),
                    if_NumVfs := max (if_NumVfs iface) (if_NumVfs input)\<rparr>)"
    using assms g0 by (simp add: mergeConfigs_eq group_fits_def iface_wf_def Let_def)
  have "\<forall>g\<in>set (g0 # ?kept). group_fits (max (if_NumVfs iface) (if_NumVfs input))
      (max (if_Mtu iface) (if_Mtu input)) g"
    using g0 gs(1) by (auto intro: group_fits_mono)
  then have "iface_wf r" using g0 gs(2) by (auto simp: r(2) iface_wf_def)
  then show ?thesis using r by auto
qed

section \<open>Applying a policy\<close>

lemma apply_result_wf:
  "group_fits (ps_NumVfs (pol_Spec p)) (ps_Mtu (pol_Spec p)) g \<Longrightarrow> iface_wf (apply_result p iface g)"
  by (simp add: iface_wf_def apply_result_def)

lemma distinct_map_list_update:
  "distinct (map f xs) \<Longrightarrow> k < length xs \<Longrightarrow> f y = f (xs ! k) \<Longrightarrow> distinct (map f (xs[k := y]))"
  by (metis list_update_id map_update nth_map)

lemma apply_iface_wf:
  assumes "policy_wf p" and "ifaces_wf ifs"
  shows "\<exists>ifs'. apply_iface p eqp iface ifs = Inr ifs' \<and> ifaces_wf ifs'"
proof (cases "NicSelector_Selected (ps_NicSelector (pol_Spec p)) iface \<and> ps_NumVfs (pol_Spec p) > 0")
  case True
  obtain g where g: "generatePfNameVfGroup p iface = Inr g"
    "group_fits (ps_NumVfs (pol_Spec p)) (ps_Mtu (pol_Spec p)) g"
    using generatePfNameVfGroup_wf assms(1) True by blast
  let ?r = "apply_result p iface g"
  have rwf: "iface_wf ?r" using g(2) by (rule apply_result_wf)
  show ?thesis
  proof (cases "find_index (\<lambda>i. if_PciAddress i = if_PciAddress ?r) ifs")
    case None
    then have "\<forall>i\<in>set ifs. if_PciAddress i \<noteq> if_PciAddress ?r" by (simp add: find_index_None)
    then have "ifaces_wf (ifs @ [?r])"
      using assms(2) rwf by (auto simp: ifaces_wf_def)
    then show ?thesis using True g(1) None by (simp add: apply_iface_def Let_def)
  next
    case (Some k)
    then have k: "k < length ifs" "if_PciAddress (ifs ! k) = if_PciAddress ?r"
      using find_index_Some by fastforce+
    have "iface_wf (ifs ! k)" using assms(2) k(1) by (simp add: ifaces_wf_def)
    moreover have "if_VfGroups ?r = [g]" by (simp add: apply_result_def)
    ultimately obtain m where m: "mergeConfigs (ifs ! k) ?r eqp = Inr m" "iface_wf m"
      "if_PciAddress m = if_PciAddress ?r"
      using mergeConfigs_wf rwf by blast
    have "ifaces_wf (ifs[k := m])"
      using assms(2) k m by (auto simp: ifaces_wf_def distinct_map_list_update
          dest!: set_update_subset_insert [THEN subsetD])
    then show ?thesis using True g(1) Some m(1) by (simp add: apply_iface_def Let_def)
  qed
qed (use assms in \<open>auto simp: apply_iface_def\<close>)

lemma Apply_wf:
  assumes "policy_wf p" and "ifaces_wf (ns_Interfaces (state_Spec s))"
  shows "\<exists>s'. Apply p s eqp = Inr s' \<and> ifaces_wf (ns_Interfaces (state_Spec s')) \<and>
    state_Status s' = state_Status s \<and> state_Meta s' = state_Meta s \<and>
    ns_Bridges (state_Spec s') = ns_Bridges (state_Spec s) \<and>
    ns_System (state_Spec s') = ns_System (state_Spec s)"
proof (cases "NicSelector_IsEmpty (ps_NicSelector (pol_Spec p))")
  case False
  obtain ifs where "fold_res (apply_iface p eqp) (nst_Interfaces (state_Status s))
      (ns_Interfaces (state_Spec s)) = Inr ifs" "ifaces_wf ifs"
    using fold_res_total [where P = ifaces_wf] apply_iface_wf assms by (metis (lifting))
  then show ?thesis using False by (simp add: Apply_def)
qed (use assms in \<open>simp add: Apply_def\<close>)

section \<open>The order of the policies\<close>

text \<open>
  \<^verbatim>\<open>ByPriority.Less\<close>: a larger priority number (a less important policy) comes first, names break
  ties. \<^verbatim>\<open>sort.Sort\<close> returns some permutation sorted by it; the model inserts one by one.
\<close>

definition Less :: "SriovNetworkNodePolicy \<Rightarrow> SriovNetworkNodePolicy \<Rightarrow> bool" where
  "Less a b =
     (if ps_Priority (pol_Spec a) \<noteq> ps_Priority (pol_Spec b)
      then ps_Priority (pol_Spec a) > ps_Priority (pol_Spec b)
      else pol_Name a < pol_Name b)"

definition policy_key :: "SriovNetworkNodePolicy \<Rightarrow> int \<times> string" where
  "policy_key p = (- ps_Priority (pol_Spec p), pol_Name p)"

fun insert_policy ::
    "SriovNetworkNodePolicy \<Rightarrow> SriovNetworkNodePolicy list \<Rightarrow> SriovNetworkNodePolicy list" where
  "insert_policy p [] = [p]"
| "insert_policy p (q # qs) = (if Less q p then q # insert_policy p qs else p # q # qs)"

definition sort_by_priority :: "SriovNetworkNodePolicy list \<Rightarrow> SriovNetworkNodePolicy list" where
  "sort_by_priority ps = foldr insert_policy ps []"

lemma Less_irrefl: "\<not> Less a a"
  by (simp add: Less_def)

lemma Less_trans: "Less a b \<Longrightarrow> Less b c \<Longrightarrow> Less a c"
  by (auto simp: Less_def split: if_splits)

lemma Less_total: "policy_key a \<noteq> policy_key b \<Longrightarrow> Less a b \<or> Less b a"
  by (auto simp: Less_def policy_key_def split: if_splits)

lemma mset_insert_policy [simp]: "mset (insert_policy p qs) = add_mset p (mset qs)"
  by (induction qs) auto

lemma set_insert_policy [simp]: "set (insert_policy p qs) = insert p (set qs)"
  by (induction qs) auto

lemma mset_sort_by_priority [simp]: "mset (sort_by_priority ps) = mset ps"
  by (induction ps) (auto simp: sort_by_priority_def)

lemma set_sort_by_priority [simp]: "set (sort_by_priority ps) = set ps"
  by (metis mset_sort_by_priority set_mset_mset)

lemma sorted_insert_policy:
  assumes "sorted_wrt Less qs" and "\<forall>q\<in>set qs. policy_key p \<noteq> policy_key q"
  shows "sorted_wrt Less (insert_policy p qs)"
  using assms
proof (induction qs)
  case (Cons q qs)
  show ?case
  proof (cases "Less q p")
    case False
    then have "Less p q" using Less_total Cons.prems(2) by auto
    then show ?thesis using False Cons.prems(1) by (auto intro: Less_trans)
  qed (use Cons in auto)
qed simp

lemma sorted_sort_by_priority:
  assumes "distinct (map policy_key ps)"
  shows "sorted_wrt Less (sort_by_priority ps)"
  using assms
proof (induction ps)
  case (Cons p ps)
  have "set (foldr insert_policy ps []) = set ps"
    using set_sort_by_priority [of ps] by (simp add: sort_by_priority_def)
  then show ?case
    using Cons by (auto simp: sort_by_priority_def intro!: sorted_insert_policy)
qed (simp add: sort_by_priority_def)

text \<open>With distinct keys the sorted order is unique, whatever algorithm computes it.\<close>

lemma sorted_wrt_Less_unique:
  assumes "sorted_wrt Less xs" and "sorted_wrt Less ys" and "mset xs = mset ys"
  shows "xs = ys"
  using assms
proof (induction xs arbitrary: ys)
  case (Cons x xs)
  obtain y ys' where ys: "ys = y # ys'" using Cons.prems(3) by (cases ys) auto
  have "x = y"
  proof (rule ccontr)
    assume "x \<noteq> y"
    then have "x \<in> set ys'" "y \<in> set xs"
      using mset_eq_setD [OF Cons.prems(3)] ys by auto
    then have "Less y x" "Less x y" using Cons.prems(1,2) ys by auto
    then show False using Less_irrefl Less_trans by blast
  qed
  then show ?case using Cons ys by auto
qed simp

section \<open>Properties\<close>

text \<open>
  C19: applying a policy with usable PF names to a node state whose interfaces have their virtual
  functions partitioned into groups succeeds, keeps the partition, and leaves the metadata, the
  status, the bridges and the system settings as they are.
\<close>

theorem apply_keeps_partition:
  assumes "policy_wf p" and "ifaces_wf (ns_Interfaces (state_Spec s))"
  shows "\<exists>s'. Apply p s eqp = Inr s' \<and> ifaces_wf (ns_Interfaces (state_Spec s')) \<and>
    state_Status s' = state_Status s \<and> state_Meta s' = state_Meta s \<and>
    ns_Bridges (state_Spec s') = ns_Bridges (state_Spec s) \<and>
    ns_System (state_Spec s') = ns_System (state_Spec s)"
  by (rule Apply_wf[OF assms])

theorem apply_keeps_partition_witness:
  "policy_wf (sample_policy ''p'' ''c'' 10 [''ens1#1-1'']) \<and>
   (let s = (sample_state ''n'')\<lparr>state_Spec := (state_Spec (sample_state ''n''))\<lparr>ns_Interfaces := [sample_interface]\<rparr>\<rparr>
    in ifaces_wf (ns_Interfaces (state_Spec s)) \<and>
       (\<exists>s'. Apply (sample_policy ''p'' ''c'' 10 [''ens1#1-1'']) s True = Inr s' \<and>
          ifaces_wf (ns_Interfaces (state_Spec s'))))"
proof -
  let ?p = "sample_policy ''p'' ''c'' 10 [''ens1#1-1'']"
  let ?s = "(sample_state ''n'')\<lparr>state_Spec := (state_Spec (sample_state ''n''))\<lparr>ns_Interfaces := [sample_interface]\<rparr>\<rparr>"
  have p: "policy_wf ?p" by code_simp
  have "ifaces_wf [sample_interface]" by code_simp
  then have i: "ifaces_wf (ns_Interfaces (state_Spec ?s))" by simp
  show ?thesis using p i apply_keeps_partition[OF p i, of True] unfolding Let_def by blast
qed

text \<open>
  C20: merging the configuration of a policy into that of an earlier one keeps the new group first and
  then exactly those earlier groups that have another resource name and share no VF with it; when
  some survive, or the priorities are equal, MTU and number of VFs are the maxima, otherwise those
  of the new policy.
\<close>

theorem merge_keeps_disjoint_groups:
  assumes "if_VfGroups input = [g0]" and "range_wf (vg_VfRange g0)"
    and "\<forall>g\<in>set (if_VfGroups iface). range_wf (vg_VfRange g)"
  shows "mergeConfigs iface input eqp =
    (let kept = filter (\<lambda>g. groups_apart g g0) (if_VfGroups iface);
         r = input\<lparr>if_VfGroups := g0 # kept\<rparr>
     in Inr (if \<not> eqp \<and> kept = [] then r
             else r\<lparr>if_Mtu := max (if_Mtu iface) (if_Mtu input),
                    if_NumVfs := max (if_NumVfs iface) (if_NumVfs input)\<rparr>))"
  using mergeConfigs_eq[OF assms] by (simp add: survives_def[abs_def])

theorem merge_keeps_disjoint_groups_witness:
  "(let input = sample_interface\<lparr>if_VfGroups := [sample_group ''c'' ''1-1'']\<rparr> in
    mergeConfigs sample_interface input False =
      Inr (input\<lparr>if_VfGroups := [sample_group ''c'' ''1-1'', sample_group ''b'' ''2-3'']\<rparr>))"
proof -
  let ?in = "sample_interface\<lparr>if_VfGroups := [sample_group ''c'' ''1-1'']\<rparr>"
  have wf: "range_wf (vg_VfRange (sample_group ''c'' ''1-1''))" by code_simp
  have all: "\<forall>g\<in>set (if_VfGroups sample_interface). range_wf (vg_VfRange g)" by code_simp
  have kept: "filter (\<lambda>g. groups_apart g (sample_group ''c'' ''1-1'')) (if_VfGroups sample_interface)
      = [sample_group ''b'' ''2-3'']" by code_simp
  show ?thesis
    using merge_keeps_disjoint_groups[of ?in "sample_group ''c'' ''1-1''" sample_interface False] wf all kept
    by (simp add: Let_def)
qed

text \<open>
  A policy that names a physical function by an alternative name with a VF range does select it, but
  its VF group covers all requested VFs instead of the range.
\<close>

theorem alternative_name_range_ignored:
  "\<exists>p iface g. NicSelector_Selected (ps_NicSelector (pol_Spec p)) iface \<and>
     sel_PfNames (ps_NicSelector (pol_Spec p)) = [''alt1#0-1''] \<and>
     generatePfNameVfGroup p iface = Inr g \<and> vg_VfRange g = ''0-3''"
proof -
  let ?p = "sample_policy ''p'' ''a'' 10 [''alt1#0-1'']"
  have "NicSelector_Selected (ps_NicSelector (pol_Spec ?p)) sample_pf" by code_simp
  moreover have "sel_PfNames (ps_NicSelector (pol_Spec ?p)) = [''alt1#0-1'']"
    by (simp add: sample_policy_def sample_selector_def)
  moreover have "generatePfNameVfGroup ?p sample_pf = Inr (sample_group ''a'' ''0-3'')" by code_simp
  moreover have "vg_VfRange (sample_group ''a'' ''0-3'') = ''0-3''" by (simp add: sample_group_def)
  ultimately show ?thesis by blast
qed

end
