(* ===== verification/Pool_Config.thy ===== *)
theory Pool_Config
  imports Samples
begin

text \<open>
  How many nodes of a pool may be unavailable at once: \<^verbatim>\<open>MaxUnavailable\<close> of
  \<^verbatim>\<open>src/api/v1/helper.go\<close> with the vendored \<^verbatim>\<open>GetScaledValueFromIntOrPercent\<close>. The library scales a
  percentage in double precision and rounds down; for node counts below \<open>2 ^ 46\<close> both steps are
  exact, so the model divides integers. Also \<^verbatim>\<open>ValidateOvsConfig\<close> and
  \<^verbatim>\<open>RenderOtherOvsConfigOption\<close> of \<^verbatim>\<open>src/pkg/utils/utils.go\<close>, which pool configurations use.
\<close>

datatype pool_error = InvalidPercent string num_error | PercentOutOfRange | NotAPercentage | NegativeNumber

section \<open>MaxUnavailable\<close>

definition getIntOrPercentValueSafely :: "int_or_string \<Rightarrow> pool_error + (int \<times> bool)" where
  "getIntOrPercentValueSafely v =
     (case v of
        IntVal i \<Rightarrow> Inr (i, False)
      | StrVal s \<Rightarrow>
          if has_suffix s ''%''
          then (case atoi (trim_suffix s ''%'') of
                  (_, Some e) \<Rightarrow> Inl (InvalidPercent s e)
                | (i, None) \<Rightarrow> Inr (i, True))
          else Inl NotAPercentage)"

definition GetScaledValueFromIntOrPercent :: "int_or_string \<Rightarrow> int \<Rightarrow> pool_error + int" where
  "GetScaledValueFromIntOrPercent v tot =
     res_bind (getIntOrPercentValueSafely v) (\<lambda>(i, isPercent).
       Inr (if isPercent then i * tot div 100 else i))"

definition MaxUnavailable :: "SriovNetworkPoolConfig \<Rightarrow> int \<Rightarrow> pool_error + int" where
  "MaxUnavailable s numOfNodes =
     (case pcs_MaxUnavailable (pc_Spec s) of
        None \<Rightarrow> Inr (-1)
      | Some intOrPercent \<Rightarrow>
          res_bind
            (case intOrPercent of
               IntVal _ \<Rightarrow> Inr ()
             | StrVal v \<Rightarrow>
                 if has_suffix v ''%''
                 then (case atoi (trim_suffix v ''%'') of
                         (_, Some e) \<Rightarrow> Inl (InvalidPercent v e)
                       | (i, None) \<Rightarrow> guard (i > 100 \<or> i < 1) PercentOutOfRange)
                 else Inl NotAPercentage)
            (\<lambda>_. res_bind (GetScaledValueFromIntOrPercent intOrPercent numOfNodes) (\<lambda>maxunavail.
                   if maxunavail < 0 then Inl NegativeNumber else Inr maxunavail)))"

lemma MaxUnavailable_nil: "pcs_MaxUnavailable (pc_Spec s) = None \<Longrightarrow> MaxUnavailable s n = Inr (-1)"
  by (simp add: MaxUnavailable_def)

lemma MaxUnavailable_int:
  "pcs_MaxUnavailable (pc_Spec s) = Some (IntVal i) \<Longrightarrow>
     MaxUnavailable s n = (if i < 0 then Inl NegativeNumber else Inr i)"
  by (simp add: MaxUnavailable_def GetScaledValueFromIntOrPercent_def getIntOrPercentValueSafely_def)

lemma MaxUnavailable_percent:
  assumes "pcs_MaxUnavailable (pc_Spec s) = Some (StrVal (t @ ''%''))" and "atoi t = (v, None)"
  shows "MaxUnavailable s n =
    (if v > 100 \<or> v < 1 then Inl PercentOutOfRange
     else if v * n div 100 < 0 then Inl NegativeNumber else Inr (v * n div 100))"
proof -
  have "has_suffix (t @ ''%'') ''%''" by (simp add: has_suffix_iff)
  then show ?thesis using assms
    by (simp add: MaxUnavailable_def GetScaledValueFromIntOrPercent_def
        getIntOrPercentValueSafely_def guard_def)
qed

text \<open>Everything a successful call can mean.\<close>

lemma MaxUnavailable_cases:
  assumes "MaxUnavailable s n = Inr r"
  obtains (unlimited) "pcs_MaxUnavailable (pc_Spec s) = None" "r = -1"
  | (count) i where "pcs_MaxUnavailable (pc_Spec s) = Some (IntVal i)" "0 \<le> i" "r = i"
  | (percent) t v where "pcs_MaxUnavailable (pc_Spec s) = Some (StrVal (t @ ''%''))"
      "atoi t = (v, None)" "1 \<le> v" "v \<le> 100" "r = v * n div 100" "0 \<le> r"
proof (cases "pcs_MaxUnavailable (pc_Spec s)")
  case None
  then show thesis using assms that(1) by (simp add: MaxUnavailable_nil)
next
  case (Some iop)
  show thesis
  proof (cases iop)
    case (IntVal i)
    then show thesis using Some assms that(2) by (auto simp: MaxUnavailable_int split: if_splits)
  next
    case (StrVal w)
    have suf: "has_suffix w ''%''"
      using assms Some StrVal by (auto simp: MaxUnavailable_def split: if_splits)
    then obtain t where t: "w = t @ ''%''" by (auto simp: has_suffix_iff)
    obtain v where v: "atoi t = (v, None)"
      using assms Some StrVal suf t
      by (cases "atoi t") (auto simp: MaxUnavailable_def split: option.splits)
    show thesis
      using that(3) [OF _ v] Some StrVal t assms MaxUnavailable_percent [OF _ v, of s n]
      by (auto split: if_splits)
  qed
qed

text \<open>A limit, where there is one, is not negative and a percentage never exceeds the pool.\<close>

lemma percent_le: "1 \<le> v \<Longrightarrow> v \<le> 100 \<Longrightarrow> 0 \<le> n \<Longrightarrow> v * n div 100 \<le> (n :: int)"
  using mult_right_mono [of v 100 n] by auto

lemma MaxUnavailable_bounds:
  assumes "MaxUnavailable s n = Inr r" and "0 \<le> n"
  shows "-1 \<le> r \<and> (r = -1 \<longleftrightarrow> pcs_MaxUnavailable (pc_Spec s) = None) \<and>
    (\<forall>w. pcs_MaxUnavailable (pc_Spec s) = Some (StrVal w) \<longrightarrow> r \<le> n)"
  using assms(1)
proof (cases rule: MaxUnavailable_cases)
  case (percent t v)
  then show ?thesis using percent_le assms(2) by auto
qed auto

text \<open>
  Admission evaluates the limit for zero nodes only; that is enough, because which error occurs does
  not depend on the number of nodes.
\<close>

lemma MaxUnavailable_any_size:
  assumes "MaxUnavailable s 0 = Inr r" and "0 \<le> n"
  shows "\<exists>r'. MaxUnavailable s n = Inr r'"
  using assms(1)
proof (cases rule: MaxUnavailable_cases)
  case (percent t v)
  have "0 \<le> v * n div 100" using percent(3) assms(2) by (simp add: pos_imp_zdiv_nonneg_iff)
  then show ?thesis using MaxUnavailable_percent [OF percent(1,2), of n] percent(3,4) by auto
qed (auto simp: MaxUnavailable_nil MaxUnavailable_int)

section \<open>OVS options\<close>

datatype ovs_error = InvalidOvsKey string | QuoteInOvsValue string

text \<open>\<^verbatim>\<open>^[a-zA-Z0-9_-]+$\<close>\<close>

definition ovsKeyRegexp :: "string \<Rightarrow> bool" where
  "ovsKeyRegexp s \<longleftrightarrow> s \<noteq> [] \<and> list_all is_name_char s"

definition ValidateOvsConfig :: "(string \<times> string) list \<Rightarrow> ovs_error + unit" where
  "ValidateOvsConfig cfg =
     each_res (\<lambda>(key, value).
       if \<not> ovsKeyRegexp key then Inl (InvalidOvsKey key)
       else if CHR 0x27 \<in> set value then Inl (QuoteInOvsValue key)
       else Inr ()) cfg"

lemma ValidateOvsConfig_ok:
  "ValidateOvsConfig cfg = Inr () \<longleftrightarrow>
     (\<forall>(k, v)\<in>set cfg. k \<noteq> [] \<and> list_all is_name_char k \<and> CHR 0x27 \<notin> set v)"
  by (auto simp: ValidateOvsConfig_def ovsKeyRegexp_def split: if_splits)

section \<open>Properties\<close>

text \<open>
  A computed limit is -1 exactly when the pool sets none, and otherwise not negative; a
  percentage never exceeds the number of nodes.
\<close>

theorem max_unavailable_bounds:
  assumes "MaxUnavailable s n = Inr r" and "0 \<le> n"
  shows "-1 \<le> r \<and> (r = -1 \<longleftrightarrow> pcs_MaxUnavailable (pc_Spec s) = None) \<and>
    (\<forall>w. pcs_MaxUnavailable (pc_Spec s) = Some (StrVal w) \<longrightarrow> r \<le> n)"
  by (rule MaxUnavailable_bounds[OF assms])

theorem max_unavailable_bounds_witness:
  "MaxUnavailable (sample_pool (Some (StrVal ''50%''))) 5 = Inr 2 \<and> -1 \<le> (2::int) \<and> (2::int) \<le> 5"
proof -
  have r: "MaxUnavailable (sample_pool (Some (StrVal ''50%''))) 5 = Inr 2" by code_simp
  have "pcs_MaxUnavailable (pc_Spec (sample_pool (Some (StrVal ''50%'')))) = Some (StrVal ''50%'')"
    by (simp add: sample_pool_def)
  then show ?thesis using r max_unavailable_bounds[OF r] by simp
qed

end
