(* ===== verification/Webhook.thy ===== *)
theory Webhook
  imports Node_Policy Pool_Config
begin

text \<open>
  The admission webhook, \<^verbatim>\<open>src/pkg/webhook/validate.go\<close>, \<^verbatim>\<open>validate_networks.go\<close> and \<^verbatim>\<open>mutate.go\<close>. A
  check that fails returns \<open>Inl\<close> with one constructor per \<^verbatim>\<open>fmt.Errorf\<close> of the source, in the order of the
  source. What the webhook reads from its environment is the record \<open>webhook_env\<close>: the namespace,
  the developer mode, the table of supported NICs, and the answers of the API server, each an error
  or a list. The package variables \<^verbatim>\<open>nodesSelected\<close> and \<^verbatim>\<open>interfaceSelected\<close> are reset at the start of
  every dynamic validation; the model passes them through the loops. The error texts collected only
  for the log are left out.
\<close>

datatype val_error =
    ResourceNameEmpty | ResourceNameTooLong | ResourceNameInvalid
  | NicSelectorEmpty
  | NetFilterExclusive | NetFilterEswitch | NetFilterBridge | NetFilterLinkType
  | VendorUnsupported | ModelUnsupported | DeviceUnsupported
  | PfSeparator string | PfRangeSyntax string | PfRangeStart string | PfRangeEnd string
  | PfRangeOrder string | PfRangeExceeds string
  | VfioRdmaConflict | SwitchdevNeedsEth | VdpaNeedsNetdevice | VdpaNeedsSwitchdev
  | ValBridgeNeedsSwitchdev | ValBridgeExternallyManaged
  | ApiFailure string
  | NoNodeSelected | NoNicSelected
  | NumVfsZero | NumVfsExceedsTotal | NumVfsExceedsMlx
  | ExternalNumVfs | ExternalMtu | ExternalLinkType | VdpaVendor
  | InvalidPfName string | ExternallyManagedInconsistent string | PfRangeOverlap string string
  | RootDeviceOverlap string string | ExcludeTopologyConflict string
  | NotDefaultConfig | DrainChangeWhileUpdating string
  | ParallelAndOffload | InvalidMaxUnavailable pool_error | InvalidOvs ovs_error
  | NetworkNamespaceForbidden
  | ValPanic panic

record webhook_env =
  env_Namespace :: string
  env_DevMode :: bool
  env_NicIDMap :: "string list"
  env_ListNodes :: "(string \<times> string) list \<Rightarrow> string + Node list"
  env_ListNodeStates :: "string + SriovNetworkNodeState list"
  env_ListPolicies :: "string + SriovNetworkNodePolicy list"

text \<open>\<^verbatim>\<open>v1.Operation\<close>\<close>

datatype operation = Create | Update | Delete | Connect

text \<open>The checks of a function body in their order: the first error wins.\<close>

fun checks :: "('e + unit) list \<Rightarrow> 'e + unit" where
  "checks [] = Inr ()"
| "checks (c # cs) = res_bind c (\<lambda>_. checks cs)"

lemma checks_ok [simp]: "checks cs = Inr u \<longleftrightarrow> (\<forall>c\<in>set cs. c = Inr ())"
  by (induction cs) (auto simp: res_bind_eq_Inr)

section \<open>Static validation of a policy\<close>

definition resourceNameMaxLen :: nat where "resourceNameMaxLen = 63"

text \<open>\<^verbatim>\<open>^[a-zA-Z0-9]([a-zA-Z0-9_-]*[a-zA-Z0-9])?$\<close>\<close>

definition resourceNameRegexp :: "string \<Rightarrow> bool" where
  "resourceNameRegexp s \<longleftrightarrow>
     s \<noteq> [] \<and> is_alnum (hd s) \<and> is_alnum (last s) \<and> list_all is_name_char s"

definition validateResourceName :: "string \<Rightarrow> val_error + unit" where
  "validateResourceName nm =
     checks [guard (nm = []) ResourceNameEmpty,
             guard (length nm > resourceNameMaxLen) ResourceNameTooLong,
             guard (\<not> resourceNameRegexp nm) ResourceNameInvalid]"

definition check_nic_selector :: "SriovNetworkNodePolicySpec \<Rightarrow> val_error + unit" where
  "check_nic_selector spec =
     (let sel = ps_NicSelector spec in
      checks
       [guard (sel_Vendor sel = [] \<and> sel_DeviceID sel = [] \<and> sel_PfNames sel = [] \<and>
               sel_RootDevices sel = [] \<and> sel_NetFilter sel = []) NicSelectorEmpty,
        guard (sel_NetFilter sel \<noteq> [] \<and>
               (sel_Vendor sel \<noteq> [] \<or> sel_DeviceID sel \<noteq> [] \<or> sel_PfNames sel \<noteq> [] \<or>
                sel_RootDevices sel \<noteq> [])) NetFilterExclusive,
        guard (sel_NetFilter sel \<noteq> [] \<and> ps_EswitchMode spec \<noteq> []) NetFilterEswitch,
        guard (sel_NetFilter sel \<noteq> [] \<and> \<not> Bridge_IsEmpty (ps_Bridge spec)) NetFilterBridge,
        guard (sel_NetFilter sel \<noteq> [] \<and> ps_LinkType spec \<noteq> [] \<and>
               \<not> equal_fold (ps_LinkType spec) LinkTypeETH) NetFilterLinkType])"

definition check_supported :: "webhook_env \<Rightarrow> SriovNetworkNicSelector \<Rightarrow> val_error + unit" where
  "check_supported env sel =
     (if env_DevMode env then Inr ()
      else if sel_Vendor sel \<noteq> [] then
        res_bind (map_err ValPanic (IsSupportedVendor (env_NicIDMap env) (sel_Vendor sel))) (\<lambda>ok.
          if \<not> ok then Inl VendorUnsupported
          else if sel_DeviceID sel \<noteq> [] then
            res_bind (map_err ValPanic
                (IsSupportedModel (env_NicIDMap env) (sel_Vendor sel) (sel_DeviceID sel))) (\<lambda>ok.
              guard (\<not> ok) ModelUnsupported)
          else Inr ())
      else if sel_DeviceID sel \<noteq> [] then
        res_bind (map_err ValPanic (IsSupportedDevice (env_NicIDMap env) (sel_DeviceID sel))) (\<lambda>ok.
          guard (\<not> ok) DeviceUnsupported)
      else Inr ())"

definition check_pf_name :: "int \<Rightarrow> string \<Rightarrow> val_error + unit" where
  "check_pf_name numVfs pf =
     (if hash \<in> set pf then
        let fields = split_on hash pf in
        if length fields \<noteq> 2 then Inl (PfSeparator pf)
        else
          let rng = split_on dash (fields ! 1) in
          if length rng \<noteq> 2 then Inl (PfRangeSyntax pf)
          else
            (case atoi (rng ! 0) of
               (_, Some _) \<Rightarrow> Inl (PfRangeStart pf)
             | (rngSt, None) \<Rightarrow>
                 (case atoi (rng ! 1) of
                    (_, Some _) \<Rightarrow> Inl (PfRangeEnd pf)
                  | (rngEnd, None) \<Rightarrow>
                      if rngEnd < rngSt then Inl (PfRangeOrder pf)
                      else if \<not> (rngEnd < numVfs) then Inl (PfRangeExceeds pf)
                      else Inr ()))
      else Inr ())"

definition is_vdpa :: "string \<Rightarrow> bool" where
  "is_vdpa t \<longleftrightarrow> t = VdpaTypeVirtio \<or> t = VdpaTypeVhost"

definition check_device_type :: "SriovNetworkNodePolicySpec \<Rightarrow> val_error + unit" where
  "check_device_type spec =
     checks
       [guard (ps_DeviceType spec = DeviceTypeVfioPci \<and> ps_IsRdma spec) VfioRdmaConflict,
        guard (ps_LinkType spec \<noteq> [] \<and> \<not> equal_fold (ps_LinkType spec) LinkTypeETH \<and>
               ps_EswitchMode spec = ESwithModeSwitchDev) SwitchdevNeedsEth,
        guard (ps_DeviceType spec \<noteq> DeviceTypeNetDevice \<and> is_vdpa (ps_VdpaType spec))
          VdpaNeedsNetdevice,
        guard (is_vdpa (ps_VdpaType spec) \<and> ps_EswitchMode spec \<noteq> ESwithModeSwitchDev)
          VdpaNeedsSwitchdev,
        guard (\<not> Bridge_IsEmpty (ps_Bridge spec) \<and> ps_EswitchMode spec \<noteq> ESwithModeSwitchDev)
          ValBridgeNeedsSwitchdev,
        guard (\<not> Bridge_IsEmpty (ps_Bridge spec) \<and> ps_ExternallyManaged spec)
          ValBridgeExternallyManaged]"

definition staticValidateSriovNetworkNodePolicy ::
    "webhook_env \<Rightarrow> SriovNetworkNodePolicy \<Rightarrow> val_error + unit" where
  "staticValidateSriovNetworkNodePolicy env cr =
     (let spec = pol_Spec cr in
      checks [validateResourceName (ps_ResourceName spec),
              check_nic_selector spec,
              check_supported env (ps_NicSelector spec),
              each_res (check_pf_name (ps_NumVfs spec)) (sel_PfNames (ps_NicSelector spec)),
              check_device_type spec])"

section \<open>Validation against the nodes\<close>

datatype nic_error = NicVendor | NicDevice | NicRootDevice | NicPfName | NicUnsupported | NicPanic panic

text \<open>\<^verbatim>\<open>vars.PlatformsMap\<close> by its keys.\<close>

definition platform_keys :: "string list" where
  "platform_keys = [''openstack'', ''aws'']"

fun vf_on_platform ::
    "webhook_env \<Rightarrow> SriovNetworkNicSelector \<Rightarrow> InterfaceExt \<Rightarrow> Node \<Rightarrow> string list \<Rightarrow> nic_error + unit"
  where
  "vf_on_platform env sel iface node [] = Inl NicUnsupported"
| "vf_on_platform env sel iface node (key # keys) =
     (if contains_str (to_lower (node_ProviderID node)) (to_lower key) \<and>
         sel_NetFilter sel \<noteq> [] \<and> sel_NetFilter sel = ie_NetFilter iface
      then res_bind (map_err NicPanic
             (IsVfSupportedModel (env_NicIDMap env) (ie_Vendor iface) (ie_DeviceID iface))) (\<lambda>ok.
             if ok then Inr () else vf_on_platform env sel iface node keys)
      else vf_on_platform env sel iface node keys)"

definition validateNicModel ::
    "webhook_env \<Rightarrow> SriovNetworkNicSelector \<Rightarrow> InterfaceExt \<Rightarrow> Node \<Rightarrow> nic_error + unit" where
  "validateNicModel env sel iface node =
     (if sel_Vendor sel \<noteq> [] \<and> sel_Vendor sel \<noteq> ie_Vendor iface then Inl NicVendor
      else if sel_DeviceID sel \<noteq> [] \<and> sel_DeviceID sel \<noteq> ie_DeviceID iface then Inl NicDevice
      else if sel_RootDevices sel \<noteq> [] \<and>
          \<not> StringInArray (ie_PciAddress iface) (sel_RootDevices sel) then Inl NicRootDevice
      else if sel_PfNames sel \<noteq> [] \<and>
          \<not> NameOrAltNameMatchesPfNames (ie_Name iface) (ie_AltNames iface)
              (map (\<lambda>p. if hash \<in> set p then split_on hash p ! 0 else p) (sel_PfNames sel))
        then Inl NicPfName
      else res_bind (map_err NicPanic
             (IsSupportedModel (env_NicIDMap env) (ie_Vendor iface) (ie_DeviceID iface))) (\<lambda>ok.
             if ok then Inr () else vf_on_platform env sel iface node platform_keys))"

abbreviation IntelID :: string where "IntelID \<equiv> ''8086''"
abbreviation MellanoxID :: string where "MellanoxID \<equiv> ''15b3''"
abbreviation MlxMaxVFs :: int where "MlxMaxVFs \<equiv> 128"

text \<open>The checks of \<^verbatim>\<open>validatePolicyForNodeState\<close> for an interface the selector accepts.\<close>

definition check_iface :: "SriovNetworkNodePolicy \<Rightarrow> InterfaceExt \<Rightarrow> val_error + unit" where
  "check_iface policy iface =
     (let spec = pol_Spec policy in
      checks
       [guard (pol_Name policy \<noteq> DefaultPolicyName \<and> ps_NumVfs spec = 0) NumVfsZero,
        guard (ps_NumVfs spec > ie_TotalVfs iface \<and> ie_Vendor iface = IntelID) NumVfsExceedsTotal,
        guard (ps_NumVfs spec > MlxMaxVFs \<and> ie_Vendor iface = MellanoxID) NumVfsExceedsMlx,
        guard (ps_ExternallyManaged spec \<and> ps_NumVfs spec > ie_NumVfs iface) ExternalNumVfs,
        guard (ps_ExternallyManaged spec \<and> ps_Mtu spec \<noteq> 0 \<and> ps_Mtu spec > ie_Mtu iface) ExternalMtu,
        guard (ps_ExternallyManaged spec \<and> ps_LinkType spec \<noteq> [] \<and>
               \<not> equal_fold (ps_LinkType spec) (ie_LinkType iface)) ExternalLinkType,
        guard (is_vdpa (ps_VdpaType spec) \<and> ie_Vendor iface \<noteq> MellanoxID) VdpaVendor])"

text \<open>The loop over the interfaces; the flag is \<^verbatim>\<open>interfaceSelected\<close>.\<close>

definition validatePolicyForNodeState ::
    "webhook_env \<Rightarrow> SriovNetworkNodePolicy \<Rightarrow> SriovNetworkNodeState \<Rightarrow> Node \<Rightarrow> bool \<Rightarrow> val_error + bool"
  where
  "validatePolicyForNodeState env policy state node interfaceSelected =
     fold_res (\<lambda>iface sel.
       case validateNicModel env (ps_NicSelector (pol_Spec policy)) iface node of
         Inl (NicPanic p) \<Rightarrow> Inl (ValPanic p)
       | Inl _ \<Rightarrow> Inr sel
       | Inr _ \<Rightarrow> res_bind (check_iface policy iface) (\<lambda>_. Inr True))
       (nst_Interfaces (state_Status state)) interfaceSelected"

section \<open>Validation against the other policies\<close>

definition validateExternallyManage ::
    "SriovNetworkNodePolicy \<Rightarrow> SriovNetworkNodePolicy \<Rightarrow> val_error + unit" where
  "validateExternallyManage current previous =
     guard (ps_ExternallyManaged (pol_Spec current) \<noteq> ps_ExternallyManaged (pol_Spec previous))
       (ExternallyManagedInconsistent (pol_Name previous))"

text \<open>
  The inner loop of \<^verbatim>\<open>validatePfNames\<close>. \<open>Some\<close> is a \<^verbatim>\<open>return\<close> of the function: the first PF the two
  policies share decides, whether it is in conflict or not. The previous policy's parse error is ignored,
  its values are used.
\<close>

fun pf_against ::
    "SriovNetworkNodePolicy \<Rightarrow> SriovNetworkNodePolicy \<Rightarrow> SriovNetworkNodeState option \<Rightarrow>
     string \<Rightarrow> string \<Rightarrow> int \<Rightarrow> int \<Rightarrow> string list \<Rightarrow> (val_error + unit) option" where
  "pf_against current previous nodeState curPf curName curRngSt curRngEnd [] = None"
| "pf_against current previous nodeState curPf curName curRngSt curRngEnd (prePf # prePfs) =
     (case ParseVfRange prePf of
        Inl p \<Rightarrow> Some (Inl (ValPanic p))
      | Inr (preName, preRngSt, preRngEnd, _) \<Rightarrow>
          if curName = ResolveInterfaceName preName nodeState
          then (case validateExternallyManage current previous of
                  Inl e \<Rightarrow> Some (Inl e)
                | Inr _ \<Rightarrow>
                    if curRngEnd < preRngSt \<or> curRngSt > preRngEnd then Some (Inr ())
                    else Some (Inl (PfRangeOverlap curPf (pol_Name previous))))
          else pf_against current previous nodeState curPf curName curRngSt curRngEnd prePfs)"

fun pf_names_loop ::
    "SriovNetworkNodePolicy \<Rightarrow> SriovNetworkNodePolicy \<Rightarrow> SriovNetworkNodeState option \<Rightarrow>
     string list \<Rightarrow> val_error + unit" where
  "pf_names_loop current previous nodeState [] = Inr ()"
| "pf_names_loop current previous nodeState (curPf # curPfs) =
     (case ParseVfRange curPf of
        Inl p \<Rightarrow> Inl (ValPanic p)
      | Inr (_, _, _, Some _) \<Rightarrow> Inl (InvalidPfName curPf)
      | Inr (curName, curRngSt, curRngEnd, None) \<Rightarrow>
          (case pf_against current previous nodeState curPf
                  (ResolveInterfaceName curName nodeState) curRngSt curRngEnd
                  (sel_PfNames (ps_NicSelector (pol_Spec previous))) of
             Some r \<Rightarrow> r
           | None \<Rightarrow> pf_names_loop current previous nodeState curPfs))"

definition validatePfNames ::
    "SriovNetworkNodePolicy \<Rightarrow> SriovNetworkNodePolicy \<Rightarrow> SriovNetworkNodeState option \<Rightarrow> val_error + unit"
  where
  "validatePfNames current previous nodeState =
     pf_names_loop current previous nodeState (sel_PfNames (ps_NicSelector (pol_Spec current)))"

definition validateRootDevices ::
    "SriovNetworkNodePolicy \<Rightarrow> SriovNetworkNodePolicy \<Rightarrow> val_error + unit" where
  "validateRootDevices current previous =
     each_res (\<lambda>cur.
       each_res (\<lambda>pre. guard (cur = pre) (RootDeviceOverlap cur (pol_Name previous)))
         (sel_RootDevices (ps_NicSelector (pol_Spec previous))))
       (sel_RootDevices (ps_NicSelector (pol_Spec current)))"

definition validateExludeTopologyField ::
    "SriovNetworkNodePolicy \<Rightarrow> SriovNetworkNodePolicy \<Rightarrow> val_error + unit" where
  "validateExludeTopologyField current previous =
     (if ps_ResourceName (pol_Spec current) \<noteq> ps_ResourceName (pol_Spec previous) then Inr ()
      else if ps_ExcludeTopology (pol_Spec current) = ps_ExcludeTopology (pol_Spec previous) then Inr ()
      else Inl (ExcludeTopologyConflict (pol_Name previous)))"

definition validatePolicyForNodePolicy ::
    "SriovNetworkNodePolicy \<Rightarrow> SriovNetworkNodePolicy \<Rightarrow> SriovNetworkNodeState option \<Rightarrow> val_error + unit"
  where
  "validatePolicyForNodePolicy current previous nodeState =
     (if pol_Name current = pol_Name previous then Inr ()
      else checks [validatePfNames current previous nodeState,
                   validateRootDevices current previous,
                   validateExludeTopologyField current previous])"

definition validatePolicyForNodeStateAndPolicy ::
    "webhook_env \<Rightarrow> SriovNetworkNodeState list \<Rightarrow> SriovNetworkNodePolicy list \<Rightarrow> Node \<Rightarrow>
     SriovNetworkNodePolicy \<Rightarrow> bool \<Rightarrow> val_error + bool" where
  "validatePolicyForNodeStateAndPolicy env nsList npList node cr interfaceSelected =
     (let currentNodeState = find (\<lambda>ns. state_Name ns = node_Name node) nsList in
      res_bind
        (case currentNodeState of
           None \<Rightarrow> Inr interfaceSelected
         | Some ns \<Rightarrow> validatePolicyForNodeState env cr ns node interfaceSelected)
        (\<lambda>sel. res_bind
          (each_res (\<lambda>np.
             if pol_Name np \<noteq> pol_Name cr \<and> Selected np node
             then validatePolicyForNodePolicy cr np currentNodeState else Inr ()) npList)
          (\<lambda>_. Inr sel)))"

text \<open>The loop of the dynamic validation over the nodes: both package flags.\<close>

definition dynamicValidateSriovNetworkNodePolicy ::
    "webhook_env \<Rightarrow> SriovNetworkNodePolicy \<Rightarrow> val_error + unit" where
  "dynamicValidateSriovNetworkNodePolicy env cr =
     res_bind (map_err ApiFailure (env_ListNodes env (ps_NodeSelector (pol_Spec cr)))) (\<lambda>nodeList.
     res_bind (map_err ApiFailure (env_ListNodeStates env)) (\<lambda>nsList.
     res_bind (map_err ApiFailure (env_ListPolicies env)) (\<lambda>npList.
     res_bind
       (fold_res (\<lambda>node (nodesSelected, interfaceSelected).
          if Selected cr node
          then res_bind
                 (validatePolicyForNodeStateAndPolicy env nsList npList node cr interfaceSelected)
                 (\<lambda>sel. Inr (True, sel))
          else Inr (nodesSelected, interfaceSelected)) nodeList (False, False))
       (\<lambda>(nodesSelected, interfaceSelected).
          checks [guard (\<not> nodesSelected) NoNodeSelected,
                  guard (\<not> interfaceSelected) NoNicSelected]))))"

definition validateSriovNetworkNodePolicy ::
    "webhook_env \<Rightarrow> SriovNetworkNodePolicy \<Rightarrow> operation \<Rightarrow> val_error + unit" where
  "validateSriovNetworkNodePolicy env cr op =
     (if pol_Name cr = DefaultPolicyName \<and> pol_Namespace cr = env_Namespace env then Inr ()
      else if op = Delete then Inr ()
      else checks [staticValidateSriovNetworkNodePolicy env cr,
                   dynamicValidateSriovNetworkNodePolicy env cr])"

section \<open>Operator configuration, pools and networks\<close>

text \<open>
  \<open>prev\<close> is the answer of \<^verbatim>\<open>client.Get\<close> for the previous configuration: an error, or \<open>None\<close> where
  the error is not-found.
\<close>

definition validateSriovOperatorConfigDisableDrain ::
    "webhook_env \<Rightarrow> (string + SriovOperatorConfig option) \<Rightarrow> SriovOperatorConfig \<Rightarrow> val_error + unit"
  where
  "validateSriovOperatorConfigDisableDrain env prev cr =
     (if \<not> ocs_DisableDrain (opc_Spec cr) then Inr ()
      else res_bind (map_err ApiFailure prev) (\<lambda>previous.
        case previous of
          None \<Rightarrow> Inr ()
        | Some previousConfig \<Rightarrow>
            if ocs_DisableDrain (opc_Spec previousConfig) = ocs_DisableDrain (opc_Spec cr) then Inr ()
            else res_bind (map_err ApiFailure (env_ListNodeStates env))
              (each_res (\<lambda>nodeState.
                 guard (nst_SyncStatus (state_Status nodeState) = SyncStatusInProgress)
                   (DrainChangeWhileUpdating (state_Name nodeState))))))"

definition validateSriovOperatorConfig ::
    "webhook_env \<Rightarrow> (string + SriovOperatorConfig option) \<Rightarrow> SriovOperatorConfig \<Rightarrow> operation \<Rightarrow>
     val_error + unit" where
  "validateSriovOperatorConfig env prev cr op =
     (if op = Delete then Inr ()
      else if om_Name (opc_Meta cr) \<noteq> DefaultConfigName \<or>
          om_Namespace (opc_Meta cr) \<noteq> env_Namespace env
        then Inl NotDefaultConfig
      else validateSriovOperatorConfigDisableDrain env prev cr)"

definition validateSriovNetworkPoolConfig :: "SriovNetworkPoolConfig \<Rightarrow> val_error + unit" where
  "validateSriovNetworkPoolConfig cr =
     (let spec = pc_Spec cr in
      checks
       [guard ((pcs_MaxUnavailable spec \<noteq> None \<or> pcs_NodeSelector spec \<noteq> None) \<and>
               hw_Name (pcs_OvsHardwareOffloadConfig spec) \<noteq> []) ParallelAndOffload,
        (if pcs_MaxUnavailable spec \<noteq> None
         then res_bind (map_err InvalidMaxUnavailable (MaxUnavailable cr 0)) (\<lambda>_. Inr ())
         else Inr ()),
        map_err InvalidOvs (ValidateOvsConfig (hw_OvsConfig (pcs_OvsHardwareOffloadConfig spec)))])"

definition validateNetworkNamespace :: "webhook_env \<Rightarrow> ObjectMeta \<Rightarrow> string \<Rightarrow> val_error + unit" where
  "validateNetworkNamespace env m networkNamespace =
     guard (om_Namespace m \<noteq> env_Namespace env \<and> networkNamespace \<noteq> []) NetworkNamespaceForbidden"

section \<open>Mutation\<close>

text \<open>
  The keys of the request's \<^verbatim>\<open>spec\<close> object that the mutation reads; \<open>None\<close> is an absent key or, for
  the two strings, a value of another type.
\<close>

record raw_policy =
  raw_Name :: string
  raw_Priority :: "int option"
  raw_IsRdma :: "bool option"
  raw_LinkType :: "string option"
  raw_DeviceType :: "string option"

datatype patch = AddPriority int | AddIsRdma bool

text \<open>The request has a \<^verbatim>\<open>spec\<close> object; without one the response carries no patch.\<close>

definition mutateSriovNetworkNodePolicy :: "raw_policy \<Rightarrow> patch list" where
  "mutateSriovNetworkNodePolicy cr =
     (if raw_Name cr = DefaultPolicyName then []
      else
        (if raw_Priority cr = None then [AddPriority 99] else []) @
        (if raw_IsRdma cr = None then [AddIsRdma False] else []) @
        (case raw_LinkType cr of
           Some str \<Rightarrow>
             (if equal_fold str LinkTypeIB \<and>
                 \<not> equal_fold (case raw_DeviceType cr of Some d \<Rightarrow> d | None \<Rightarrow> []) DeviceTypeVfioPci
              then [AddIsRdma True] else [])
         | None \<Rightarrow> []))"

text \<open>A JSON patch \<^verbatim>\<open>add\<close> on an object member sets it, replacing a value that is there.\<close>

fun apply_patch :: "patch \<Rightarrow> raw_policy \<Rightarrow> raw_policy" where
  "apply_patch (AddPriority n) cr = cr\<lparr>raw_Priority := Some n\<rparr>"
| "apply_patch (AddIsRdma b) cr = cr\<lparr>raw_IsRdma := Some b\<rparr>"

definition mutated :: "raw_policy \<Rightarrow> raw_policy" where
  "mutated cr = fold apply_patch (mutateSriovNetworkNodePolicy cr) cr"

section \<open>Lemmas\<close>

lemma check_pf_name_ok:
  assumes "check_pf_name numVfs pf = Inr ()"
  shows "pf_name_ok numVfs pf"
proof (cases "hash \<in> set pf")
  case False
  then show ?thesis by (simp add: pf_name_ok_def ParseVfRange_no_hash)
next
  case True
  let ?f = "split_on hash pf"
  have "length ?f = Suc (Suc 0)"
    using assms True by (auto simp: check_pf_name_def Let_def split: if_splits)
  then obtain n r where f: "?f = [n, r]" by (auto simp: length_Suc_conv)
  have "length (split_on dash r) = Suc (Suc 0)"
    using assms True f by (auto simp: check_pf_name_def Let_def split: if_splits)
  then obtain x y where rng: "split_on dash r = [x, y]" by (auto simp: length_Suc_conv)
  obtain a b where ab: "atoi x = (a, None)" "atoi y = (b, None)" "a \<le> b" "b < numVfs"
    using assms True f rng
    by (auto simp: check_pf_name_def Let_def split: if_splits prod.splits option.splits)
  have "dash \<notin> set x" using rng split_on_parts_no_sep [of x dash r] by simp
  then have "0 \<le> a" using atoi_nonneg [of x] ab(1) by simp
  moreover have "parseRange r = Inr (a, b, None)" using rng ab by (simp add: parseRange_def)
  moreover have "r \<noteq> []" using rng by auto
  ultimately show ?thesis using ab f by (simp add: pf_name_ok_def ParseVfRange_range)
qed

text \<open>What admission gives the controllers: the policy is well formed.\<close>

lemma staticValidate_policy_wf:
  assumes "staticValidateSriovNetworkNodePolicy env cr = Inr ()"
    and "ps_NumVfs (pol_Spec cr) \<le> max_int64"
  shows "policy_wf cr"
  using assms by (auto simp: staticValidateSriovNetworkNodePolicy_def Let_def policy_wf_def
      list_all_iff check_pf_name_ok res_bind_eq_Inr)

lemma staticValidate_bridge:
  assumes "staticValidateSriovNetworkNodePolicy env cr = Inr ()"
    and "\<not> Bridge_IsEmpty (ps_Bridge (pol_Spec cr))"
  shows "ps_EswitchMode (pol_Spec cr) = ESwithModeSwitchDev"
    "\<not> ps_ExternallyManaged (pol_Spec cr)"
    "ps_LinkType (pol_Spec cr) = [] \<or> equal_fold (ps_LinkType (pol_Spec cr)) LinkTypeETH"
  using assms by (auto simp: staticValidateSriovNetworkNodePolicy_def check_device_type_def Let_def
      res_bind_eq_Inr)

lemma staticValidate_selector:
  assumes "staticValidateSriovNetworkNodePolicy env cr = Inr ()"
  shows "\<not> NicSelector_IsEmpty (ps_NicSelector (pol_Spec cr))"
  using assms by (auto simp: staticValidateSriovNetworkNodePolicy_def check_nic_selector_def
      NicSelector_IsEmpty_def Let_def res_bind_eq_Inr)

section \<open>Properties\<close>

text \<open>
  A pool configuration the webhook admits never makes the drain controller's computation of the
  limit fail, whatever the number of nodes, although admission evaluates it for zero nodes only.
\<close>

theorem admitted_pool_limit_total:
  assumes "validateSriovNetworkPoolConfig cr = Inr ()" and "0 \<le> n"
  shows "\<exists>r. MaxUnavailable cr n = Inr r"
proof (cases "pcs_MaxUnavailable (pc_Spec cr)")
  case None
  then show ?thesis by (simp add: MaxUnavailable_nil)
next
  case (Some v)
  then obtain r where "MaxUnavailable cr 0 = Inr r"
    using assms(1) by (auto simp: validateSriovNetworkPoolConfig_def Let_def res_bind_eq_Inr)
  then show ?thesis using MaxUnavailable_any_size assms(2) by blast
qed

theorem admitted_pool_limit_total_witness:
  "validateSriovNetworkPoolConfig (sample_pool (Some (StrVal ''50%''))) = Inr () \<and>
   (\<exists>r. MaxUnavailable (sample_pool (Some (StrVal ''50%''))) 7 = Inr r)"
proof -
  have "validateSriovNetworkPoolConfig (sample_pool (Some (StrVal ''50%''))) = Inr ()" by code_simp
  then show ?thesis using admitted_pool_limit_total[of "sample_pool (Some (StrVal ''50%''))" 7] by simp
qed

text \<open>
  A policy that passes static validation has a valid resource name and a selector that is not
  empty, PF names whose ranges lie inside the requested number of VFs, and bridge settings the
  controller accepts.
\<close>

theorem static_validation_sound:
  assumes "staticValidateSriovNetworkNodePolicy env cr = Inr ()"
    and "ps_NumVfs (pol_Spec cr) \<le> max_int64"
  shows "policy_wf cr \<and> \<not> NicSelector_IsEmpty (ps_NicSelector (pol_Spec cr)) \<and>
    (Bridge_IsEmpty (ps_Bridge (pol_Spec cr)) \<or>
     (ps_EswitchMode (pol_Spec cr) = ESwithModeSwitchDev \<and> \<not> ps_ExternallyManaged (pol_Spec cr) \<and>
      (ps_LinkType (pol_Spec cr) = [] \<or> equal_fold (ps_LinkType (pol_Spec cr)) LinkTypeETH))) \<and>
    validateResourceName (ps_ResourceName (pol_Spec cr)) = Inr ()"
  using staticValidate_policy_wf[OF assms] staticValidate_selector[OF assms(1)] staticValidate_bridge[OF assms(1)]
    assms(1) by (auto simp: staticValidateSriovNetworkNodePolicy_def Let_def res_bind_eq_Inr)

definition sample_env :: webhook_env where
  "sample_env = \<lparr>env_Namespace = ''sriov'', env_DevMode = False, env_NicIDMap = [''8086 1593 1889''],
     env_ListNodes = (\<lambda>_. Inr [sample_node ''n'']), env_ListNodeStates = Inr [sample_state ''n''],
     env_ListPolicies = Inr []\<rparr>"

theorem static_validation_sound_witness:
  "staticValidateSriovNetworkNodePolicy sample_env (sample_policy ''p'' ''res_a'' 10 [''ens1#0-1'']) = Inr () \<and>
   policy_wf (sample_policy ''p'' ''res_a'' 10 [''ens1#0-1''])"
proof -
  let ?p = "sample_policy ''p'' ''res_a'' 10 [''ens1#0-1'']"
  have "staticValidateSriovNetworkNodePolicy sample_env ?p = Inr ()" by code_simp
  moreover have "ps_NumVfs (pol_Spec ?p) \<le> max_int64" by (simp add: sample_policy_def max_int64_def)
  ultimately show ?thesis using static_validation_sound[of sample_env ?p] by blast
qed

text \<open>
  The mutation of a policy sets a missing priority to 99 and a missing \<^verbatim>\<open>isRdma\<close> to false, turns
  \<^verbatim>\<open>isRdma\<close> on for an InfiniBand policy that does not use vfio-pci, keeps every value the user gave
  otherwise, and leaves the default policy alone.
\<close>

theorem mutation_result:
  "mutated cr =
     (if raw_Name cr = DefaultPolicyName then cr
      else cr\<lparr>raw_Priority := Some (case raw_Priority cr of None \<Rightarrow> 99 | Some p \<Rightarrow> p),
              raw_IsRdma := Some
                (if (case raw_LinkType cr of None \<Rightarrow> False | Some l \<Rightarrow> equal_fold l LinkTypeIB) \<and>
                    \<not> equal_fold (case raw_DeviceType cr of Some d \<Rightarrow> d | None \<Rightarrow> []) DeviceTypeVfioPci
                 then True else (case raw_IsRdma cr of None \<Rightarrow> False | Some b \<Rightarrow> b))\<rparr>)"
  by (cases cr) (auto simp: mutated_def mutateSriovNetworkNodePolicy_def split: option.splits)

text \<open>
  Two policies that share the VFs of a physical function can both be admitted: the comparison of
  PF names ends at the first PF they have in common, so an overlap on a later PF goes unnoticed.
\<close>

theorem pf_overlap_missed:
  "\<exists>current previous.
     validatePfNames current previous None = Inr () \<and>
     ''ens2#0-1'' \<in> set (sel_PfNames (ps_NicSelector (pol_Spec current))) \<and>
     ''ens2#0-1'' \<in> set (sel_PfNames (ps_NicSelector (pol_Spec previous)))"
proof -
  let ?cur = "sample_policy ''p'' ''a'' 10 [''ens1#0-1'', ''ens2#0-1'']"
  let ?pre = "sample_policy ''q'' ''b'' 10 [''ens1#2-3'', ''ens2#0-1'']"
  have "validatePfNames ?cur ?pre None = Inr ()" by code_simp
  moreover have "''ens2#0-1'' \<in> set (sel_PfNames (ps_NicSelector (pol_Spec ?cur)))"
    "''ens2#0-1'' \<in> set (sel_PfNames (ps_NicSelector (pol_Spec ?pre)))"
    by (simp_all add: sample_policy_def sample_selector_def)
  ultimately show ?thesis by blast
qed

end
