(* ===== verification/Update_Check.thy ===== *)
theory Update_Check
  imports Node_Policy
begin

text \<open>
  Deciding whether a PF has to be reconfigured: \<^verbatim>\<open>NeedToUpdateSriov\<close> and its neighbours in
  \<^verbatim>\<open>src/api/v1/helper.go\<close>. The two nested loops stop at the first VF group that contains the VF;
  on a well-formed interface (theory Node\_Policy) the groups do not overlap, so the order in which
  they are listed cannot change the answer.
\<close>

section \<open>Eswitch mode\<close>

definition ContainsSwitchdevInterface :: "Interface list \<Rightarrow> bool" where
  "ContainsSwitchdevInterface ifs = list_ex (\<lambda>i. if_EswitchMode i = ESwithModeSwitchDev) ifs"

definition IsSwitchdevModeSpec :: "SriovNetworkNodeStateSpec \<Rightarrow> bool" where
  "IsSwitchdevModeSpec spec = ContainsSwitchdevInterface (ns_Interfaces spec)"

definition GetEswitchModeFromSpec :: "Interface \<Rightarrow> string" where
  "GetEswitchModeFromSpec i = (if if_EswitchMode i = [] then ESwithModeLegacy else if_EswitchMode i)"

definition GetEswitchModeFromStatus :: "InterfaceExt \<Rightarrow> string" where
  "GetEswitchModeFromStatus i = (if ie_EswitchMode i = [] then ESwithModeLegacy else ie_EswitchMode i)"

section \<open>NeedToUpdateSriov\<close>

text \<open>The checks for a VF whose index is in the range of the group; true returns at once.\<close>

definition vf_outdated :: "Interface \<Rightarrow> InterfaceExt \<Rightarrow> VirtualFunction \<Rightarrow> VfGroup \<Rightarrow> bool" where
  "vf_outdated ifaceSpec ifaceStatus vf g =
     (if vf_Driver vf = [] then True
      else if vg_DeviceType g \<noteq> [] \<and> vg_DeviceType g \<noteq> DeviceTypeNetDevice
        then (if vg_DeviceType g \<noteq> vf_Driver vf then True else vg_VdpaType g \<noteq> vf_VdpaType vf)
      else if StringInArray (vf_Driver vf) DpdkDrivers then True
      else if vf_Mtu vf \<noteq> 0 \<and> vg_Mtu g \<noteq> 0 \<and> vf_Mtu vf \<noteq> vg_Mtu g then True
      else if ((equal_fold (ie_LinkType ifaceStatus) LinkTypeETH \<and> vg_IsRdma g) \<or>
               equal_fold (ie_LinkType ifaceStatus) LinkTypeIB) \<and>
              vf_GUID vf = UninitializedNodeGUID then True
      else if if_ExternallyManaged ifaceSpec then True
      else vg_VdpaType g \<noteq> vf_VdpaType vf)"

fun vf_check :: "Interface \<Rightarrow> InterfaceExt \<Rightarrow> VirtualFunction \<Rightarrow> VfGroup list \<Rightarrow> panic + bool" where
  "vf_check ifaceSpec ifaceStatus vf [] = Inr False"
| "vf_check ifaceSpec ifaceStatus vf (g # gs) =
     res_bind (IndexInRange (vf_VfID vf) (vg_VfRange g)) (\<lambda>b.
       if b then Inr (vf_outdated ifaceSpec ifaceStatus vf g)
       else vf_check ifaceSpec ifaceStatus vf gs)"

fun vfs_check :: "Interface \<Rightarrow> InterfaceExt \<Rightarrow> VirtualFunction list \<Rightarrow> panic + bool" where
  "vfs_check ifaceSpec ifaceStatus [] = Inr False"
| "vfs_check ifaceSpec ifaceStatus (vf # vfs) =
     res_bind (vf_check ifaceSpec ifaceStatus vf (if_VfGroups ifaceSpec)) (\<lambda>b.
       if b then Inr True else vfs_check ifaceSpec ifaceStatus vfs)"

definition NeedToUpdateSriov :: "Interface \<Rightarrow> InterfaceExt \<Rightarrow> panic + bool" where
  "NeedToUpdateSriov ifaceSpec ifaceStatus =
     (if if_Mtu ifaceSpec > 0 \<and> if_Mtu ifaceSpec > ie_Mtu ifaceStatus then Inr True
      else if GetEswitchModeFromStatus ifaceStatus \<noteq> GetEswitchModeFromSpec ifaceSpec then Inr True
      else if if_NumVfs ifaceSpec \<noteq> ie_NumVfs ifaceStatus then Inr True
      else if ie_LinkAdminState ifaceStatus = LinkAdminStateDown then Inr True
      else if if_NumVfs ifaceSpec > 0 then vfs_check ifaceSpec ifaceStatus (ie_VFs ifaceStatus)
      else Inr False)"

definition NeedToUpdateBridges :: "Bridges \<Rightarrow> Bridges \<Rightarrow> bool" where
  "NeedToUpdateBridges bridgeSpec bridgeStatus \<longleftrightarrow> bridgeSpec \<noteq> bridgeStatus"

section \<open>What the check decides\<close>

lemma vf_check_wf:
  assumes "\<forall>g\<in>set gs. range_wf (vg_VfRange g)" and "sorted_wrt groups_apart gs"
  shows "vf_check spec status vf gs =
    Inr (\<exists>g\<in>set gs. vf_VfID vf \<in> range_set (vg_VfRange g) \<and> vf_outdated spec status vf g)"
  using assms
proof (induction gs)
  case (Cons g gs)
  have "\<forall>h\<in>set gs. vf_VfID vf \<in> range_set (vg_VfRange g) \<longrightarrow> vf_VfID vf \<notin> range_set (vg_VfRange h)"
    using Cons.prems(2) by (auto simp: groups_apart_def)
  then show ?case using Cons by (auto simp: IndexInRange_wf)
qed simp

lemma vfs_check_wf:
  assumes "iface_wf spec"
  shows "vfs_check spec status vfs =
    Inr (\<exists>vf\<in>set vfs. \<exists>g\<in>set (if_VfGroups spec).
           vf_VfID vf \<in> range_set (vg_VfRange g) \<and> vf_outdated spec status vf g)"
proof -
  have "\<forall>g\<in>set (if_VfGroups spec). range_wf (vg_VfRange g)" "sorted_wrt groups_apart (if_VfGroups spec)"
    using assms by (auto simp: iface_wf_def group_fits_def)
  then show ?thesis by (induction vfs) (auto simp: vf_check_wf)
qed

text \<open>The PF-level settings that must agree before VFs are looked at.\<close>

definition pf_settled :: "Interface \<Rightarrow> InterfaceExt \<Rightarrow> bool" where
  "pf_settled spec status \<longleftrightarrow>
     (if_Mtu spec > 0 \<longrightarrow> if_Mtu spec \<le> ie_Mtu status) \<and>
     GetEswitchModeFromStatus status = GetEswitchModeFromSpec spec \<and>
     if_NumVfs spec = ie_NumVfs status \<and>
     ie_LinkAdminState status \<noteq> LinkAdminStateDown"

lemma NeedToUpdateSriov_wf:
  assumes "iface_wf spec"
  shows "NeedToUpdateSriov spec status =
    Inr (\<not> pf_settled spec status \<or>
         (if_NumVfs spec > 0 \<and>
          (\<exists>vf\<in>set (ie_VFs status). \<exists>g\<in>set (if_VfGroups spec).
             vf_VfID vf \<in> range_set (vg_VfRange g) \<and> vf_outdated spec status vf g)))"
  unfolding NeedToUpdateSriov_def pf_settled_def
  by (auto simp: vfs_check_wf [OF assms] not_le)

lemma sorted_wrt_perm:
  assumes "\<And>x y. R x y \<Longrightarrow> R y x" and "sorted_wrt R xs" and "mset ys = mset xs"
  shows "sorted_wrt R ys"
  using assms(2,3)
proof (induction ys arbitrary: xs)
  case (Cons y ys)
  have "y \<in> set xs" using mset_eq_setD[OF Cons.prems(2)] by auto
  then obtain a b where xs: "xs = a @ y # b" by (auto dest: split_list)
  have "sorted_wrt R (a @ b)" "\<forall>z\<in>set (a @ b). R y z"
    using Cons.prems(1) assms(1) by (auto simp: xs sorted_wrt_append)
  moreover have p: "mset ys = mset (a @ b)" using Cons.prems(2) by (simp add: xs)
  ultimately show ?case using Cons.IH mset_eq_setD[OF p] by simp
qed simp

lemma iface_wf_perm:
  assumes "iface_wf spec" and "mset gs = mset (if_VfGroups spec)"
  shows "iface_wf (spec\<lparr>if_VfGroups := gs\<rparr>)"
proof -
  have "sorted_wrt groups_apart gs"
    using assms groups_apart_sym by (intro sorted_wrt_perm[OF _ _ assms(2)]) (auto simp: iface_wf_def)
  moreover have "gs \<noteq> []" using assms by (auto simp: iface_wf_def)
  ultimately show ?thesis using assms mset_eq_setD[OF assms(2)] by (simp add: iface_wf_def)
qed

section \<open>A configuration that is as requested\<close>

text \<open>
  What a VF group asks of a VF: one bound to a userspace driver is to have exactly this driver; any other is to have a
  kernel driver, its own MTU when one is given, and an initialised GUID where RDMA or InfiniBand is used. The check
  cannot see the administrative addresses of the VFs of an externally managed PF, and such VFs are never as requested.
\<close>

definition kernel_group :: "VfGroup \<Rightarrow> bool" where
  "kernel_group g \<longleftrightarrow> vg_DeviceType g \<in> {[], DeviceTypeNetDevice}"

definition needs_guid :: "InterfaceExt \<Rightarrow> VfGroup \<Rightarrow> bool" where
  "needs_guid status g \<longleftrightarrow>
     equal_fold (ie_LinkType status) LinkTypeIB \<or> (vg_IsRdma g \<and> equal_fold (ie_LinkType status) LinkTypeETH)"

definition vf_as_requested :: "Interface \<Rightarrow> InterfaceExt \<Rightarrow> VirtualFunction \<Rightarrow> VfGroup \<Rightarrow> bool" where
  "vf_as_requested spec status vf g \<longleftrightarrow>
     vf_Driver vf \<noteq> [] \<and> vf_VdpaType vf = vg_VdpaType g \<and>
     (kernel_group g \<longrightarrow>
        \<not> if_ExternallyManaged spec \<and> vf_Driver vf \<notin> set DpdkDrivers \<and>
        (0 \<in> {vf_Mtu vf, vg_Mtu g} \<or> vf_Mtu vf = vg_Mtu g) \<and>
        (needs_guid status g \<longrightarrow> vf_GUID vf \<noteq> UninitializedNodeGUID)) \<and>
     (\<not> kernel_group g \<longrightarrow> vf_Driver vf = vg_DeviceType g)"

definition as_requested :: "Interface \<Rightarrow> InterfaceExt \<Rightarrow> bool" where
  "as_requested spec status \<longleftrightarrow>
     if_Mtu spec \<le> max 0 (ie_Mtu status) \<and>
     (if_EswitchMode spec = ie_EswitchMode status \<or>
      {if_EswitchMode spec, ie_EswitchMode status} = {[], ESwithModeLegacy}) \<and>
     if_NumVfs spec = ie_NumVfs status \<and> ie_LinkAdminState status \<noteq> LinkAdminStateDown \<and>
     (\<forall>vf\<in>set (ie_VFs status). \<forall>g\<in>set (if_VfGroups spec).
        vf_VfID vf \<in> range_set (vg_VfRange g) \<longrightarrow> vf_as_requested spec status vf g)"

lemma vf_outdated_iff: "vf_outdated spec status vf g \<longleftrightarrow> \<not> vf_as_requested spec status vf g"
  by (auto simp: vf_outdated_def vf_as_requested_def kernel_group_def needs_guid_def StringInArray_iff)

lemma eswitch_agrees:
  "GetEswitchModeFromStatus status = GetEswitchModeFromSpec spec \<longleftrightarrow>
    if_EswitchMode spec = ie_EswitchMode status \<or> {if_EswitchMode spec, ie_EswitchMode status} = {[], ESwithModeLegacy}"
  by (auto simp: GetEswitchModeFromStatus_def GetEswitchModeFromSpec_def doubleton_eq_iff)

text \<open>With no VFs requested the groups of a well-formed interface are empty ranges, so there is nothing to compare.\<close>

lemma no_vfs_no_groups:
  assumes "iface_wf spec" and "g \<in> set (if_VfGroups spec)" and "n \<in> range_set (vg_VfRange g)"
  shows "if_NumVfs spec > 0"
proof -
  have "range_set (vg_VfRange g) \<subseteq> {0..<if_NumVfs spec}" using assms(1,2) by (simp add: iface_wf_def group_fits_def)
  then have "n \<in> {0..<if_NumVfs spec}" using assms(3) by blast
  then show ?thesis by simp
qed

lemma NeedToUpdateSriov_iff:
  assumes "iface_wf spec"
  shows "NeedToUpdateSriov spec status = Inr (\<not> as_requested spec status)"
  unfolding NeedToUpdateSriov_wf[OF assms] pf_settled_def as_requested_def eswitch_agrees vf_outdated_iff
  using no_vfs_no_groups[OF assms] by auto

section \<open>After the configuration\<close>

text \<open>
  The status that a successful configuration leads to (\<^verbatim>\<open>configSriovPFDevice\<close>, \<^verbatim>\<open>configSriovVFDevices\<close> in
  \<^verbatim>\<open>src/pkg/host/internal/sriov/sriov.go\<close>): the PF has the requested MTU, mode and number of VFs and
  its link is up; every VF in a group has the userspace driver of the group or else the kernel driver \<open>drv\<close> of the host,
  the MTU of the group when it is positive, its vdpa device in switchdev mode, and a GUID.
\<close>

definition settle_vf :: "string \<Rightarrow> string \<Rightarrow> Interface \<Rightarrow> VirtualFunction \<Rightarrow> VirtualFunction" where
  "settle_vf drv guid spec vf =
     (case find (\<lambda>g. vf_VfID vf \<in> range_set (vg_VfRange g)) (if_VfGroups spec) of
        None \<Rightarrow> vf
      | Some g \<Rightarrow>
          if StringInArray (vg_DeviceType g) DpdkDrivers then vf\<lparr>vf_Driver := vg_DeviceType g, vf_VdpaType := []\<rparr>
          else vf\<lparr>vf_Driver := drv, vf_GUID := guid,
                  vf_Mtu := (if vg_Mtu g > 0 then vg_Mtu g else vf_Mtu vf),
                  vf_VdpaType := (if GetEswitchModeFromSpec spec = ESwithModeSwitchDev then vg_VdpaType g else [])\<rparr>)"

definition settle :: "string \<Rightarrow> string \<Rightarrow> Interface \<Rightarrow> InterfaceExt \<Rightarrow> InterfaceExt" where
  "settle drv guid spec status = status
     \<lparr>ie_Mtu := max (if_Mtu spec) (ie_Mtu status), ie_EswitchMode := GetEswitchModeFromSpec spec,
      ie_NumVfs := if_NumVfs spec, ie_LinkAdminState := ''up'', ie_VFs := map (settle_vf drv guid spec) (ie_VFs status)\<rparr>"

text \<open>Groups as the webhook lets them through: a known device type, and a vdpa type only with a kernel driver in switchdev mode.\<close>

definition group_allowed :: "Interface \<Rightarrow> VfGroup \<Rightarrow> bool" where
  "group_allowed spec g \<longleftrightarrow>
     vg_DeviceType g \<in> {[], DeviceTypeNetDevice} \<union> set DpdkDrivers \<and> vg_Mtu g \<ge> 0 \<and>
     (vg_VdpaType g \<noteq> [] \<longrightarrow> kernel_group g \<and> GetEswitchModeFromSpec spec = ESwithModeSwitchDev)"

lemma find_group_unique:
  assumes "sorted_wrt groups_apart gs" and "g \<in> set gs" and "n \<in> range_set (vg_VfRange g)"
  shows "find (\<lambda>g. n \<in> range_set (vg_VfRange g)) gs = Some g"
  using assms by (induction gs) (auto simp: groups_apart_def)

lemma settle_vf_id [simp]: "vf_VfID (settle_vf drv guid spec vf) = vf_VfID vf"
  by (simp add: settle_vf_def split: option.split)

lemma dpdk_not_kernel: "kernel_group g \<Longrightarrow> vg_DeviceType g \<notin> set DpdkDrivers" "[] \<notin> set DpdkDrivers"
  by (auto simp: kernel_group_def DpdkDrivers_def)

lemma settled_vf_as_requested:
  assumes "iface_wf spec" and "g \<in> set (if_VfGroups spec)" and "vf_VfID vf \<in> range_set (vg_VfRange g)"
    and "group_allowed spec g" and "\<not> if_ExternallyManaged spec"
    and "drv \<noteq> []" and "drv \<notin> set DpdkDrivers" and "guid \<noteq> UninitializedNodeGUID"
  shows "vf_as_requested spec status (settle_vf drv guid spec vf) g"
proof -
  have "sorted_wrt groups_apart (if_VfGroups spec)" using assms(1) by (simp add: iface_wf_def)
  then have f: "find (\<lambda>g. vf_VfID vf \<in> range_set (vg_VfRange g)) (if_VfGroups spec) = Some g"
    using assms(2,3) by (rule find_group_unique)
  show ?thesis
  proof (cases "vg_DeviceType g \<in> set DpdkDrivers")
    case True
    then show ?thesis using assms(4) f dpdk_not_kernel
      by (auto simp: vf_as_requested_def settle_vf_def group_allowed_def StringInArray_iff)
  next
    case False
    then have "kernel_group g" using assms(4) by (auto simp: group_allowed_def kernel_group_def)
    then show ?thesis using False assms(4-) f
      by (auto simp: vf_as_requested_def settle_vf_def group_allowed_def StringInArray_iff)
  qed
qed

lemma settled_as_requested:
  assumes "iface_wf spec" and "\<forall>g\<in>set (if_VfGroups spec). group_allowed spec g" and "\<not> if_ExternallyManaged spec"
    and "drv \<noteq> []" and "drv \<notin> set DpdkDrivers" and "guid \<noteq> UninitializedNodeGUID"
  shows "as_requested spec (settle drv guid spec status)"
proof -
  have "vf_as_requested spec (settle drv guid spec status) (settle_vf drv guid spec vf) g"
    if "g \<in> set (if_VfGroups spec)" "vf_VfID vf \<in> range_set (vg_VfRange g)" for vf g
    using settled_vf_as_requested[OF assms(1) that _ assms(3-)] assms(2) that(1) by blast
  then show ?thesis
    by (auto simp: as_requested_def settle_def GetEswitchModeFromSpec_def)
qed

section \<open>Properties\<close>


definition sample_vf :: "int \<Rightarrow> string \<Rightarrow> VirtualFunction" where
  "sample_vf n drv = \<lparr>vf_Name = [], vf_Mac = [], vf_Assigned = [], vf_Driver = drv, vf_PciAddress = [], vf_Vendor = [],
     vf_DeviceID = [], vf_Vlan = 0, vf_Mtu = 9000, vf_VfID = n, vf_VdpaType = [], vf_RepresentorName = [], vf_GUID = []\<rparr>"


end
