(* ===== verification/Bridge_Policy.thy ===== *)
theory Bridge_Policy
  imports Node_Policy
begin

text \<open>
  \<^verbatim>\<open>ApplyBridgeConfig\<close> of \<^verbatim>\<open>src/api/v1/helper.go\<close>: the software bridges of a node state are kept in a
  slice sorted by name, searched by \<^verbatim>\<open>slices.BinarySearchFunc\<close>. The slice is a keyed store: the
  locale \<open>keyed_store\<close> states what the policy code relies on, the interpretation \<open>ovs\<close> shows
  that insertion by binary search provides it.
\<close>

section \<open>slices.BinarySearchFunc\<close>

text \<open>
  The loop of the standard library: halve \<open>[i, j)\<close> while it is not empty; \<open>lt h\<close> is
  \<^verbatim>\<open>cmp(x[h], target) < 0\<close>.
\<close>

function bsearch :: "(nat \<Rightarrow> bool) \<Rightarrow> nat \<Rightarrow> nat \<Rightarrow> nat" where
  "bsearch lt i j =
     (if i < j
      then (let h = (i + j) div 2 in if lt h then bsearch lt (Suc h) j else bsearch lt i h)
      else i)"
  by pat_completeness auto
termination
  by (relation "measure (\<lambda>(lt, i, j). j - i)") auto

declare bsearch.simps [simp del]

definition BinarySearchFunc :: "OVSConfigExt list \<Rightarrow> OVSConfigExt \<Rightarrow> nat \<times> bool" where
  "BinarySearchFunc xs target =
     (let i = bsearch (\<lambda>h. oe_Name (xs ! h) < oe_Name target) 0 (length xs)
      in (i, i < length xs \<and> oe_Name (xs ! i) = oe_Name target))"

lemma bsearch_correct:
  assumes "i \<le> j" and "\<And>h h'. h \<le> h' \<Longrightarrow> h' < n \<Longrightarrow> lt h' \<Longrightarrow> lt h" and "j \<le> n"
    and "\<forall>h<i. lt h" and "\<forall>h. j \<le> h \<and> h < n \<longrightarrow> \<not> lt h"
  shows "bsearch lt i j \<le> n \<and> (\<forall>h<bsearch lt i j. lt h) \<and>
    (\<forall>h. bsearch lt i j \<le> h \<and> h < n \<longrightarrow> \<not> lt h)"
  using assms
proof (induction lt i j rule: bsearch.induct)
  case (1 lt i j)
  let ?h = "(i + j) div 2"
  note mono = "1.prems"(2)
  show ?case
  proof (cases "i < j")
    case False
    then have "bsearch lt i j = i" "i = j"
      using "1.prems"(1) by (auto simp: bsearch.simps [of lt j j])
    then show ?thesis using "1.prems"(3-5) by simp
  next
    case True
    then have h: "i \<le> ?h" "?h < j" "?h < n" using "1.prems"(3) by auto
    show ?thesis
    proof (cases "lt ?h")
      case lt: True
      have eq: "bsearch lt i j = bsearch lt (Suc ?h) j"
        using True lt by (simp add: bsearch.simps [of lt i j] Let_def)
      have "\<forall>k<Suc ?h. lt k" using mono [of _ ?h] h lt by (auto simp: less_Suc_eq_le)
      moreover have "Suc ?h \<le> j" using h(2) by simp
      ultimately show ?thesis
        unfolding eq using mono "1.prems"(3,5) by (intro "1.IH"(1) [OF True refl lt])
    next
      case ge: False
      have eq: "bsearch lt i j = bsearch lt i ?h"
        using True ge by (simp add: bsearch.simps [of lt i j] Let_def)
      have "\<forall>k. ?h \<le> k \<and> k < n \<longrightarrow> \<not> lt k" using mono ge by blast
      moreover have "?h \<le> n" using h(3) by simp
      ultimately show ?thesis
        unfolding eq using h(1) mono "1.prems"(4) by (intro "1.IH"(2) [OF True refl ge])
    qed
  qed
qed

definition bridges_sorted :: "OVSConfigExt list \<Rightarrow> bool" where
  "bridges_sorted xs \<longleftrightarrow> sorted_wrt (<) (map oe_Name xs)"

lemma bridges_sorted_nth:
  "bridges_sorted xs \<Longrightarrow> i < j \<Longrightarrow> j < length xs \<Longrightarrow> oe_Name (xs ! i) < oe_Name (xs ! j)"
  by (simp add: bridges_sorted_def sorted_wrt_iff_nth_less)

lemma BinarySearchFunc_spec:
  assumes "bridges_sorted xs" and "BinarySearchFunc xs b = (pos, exist)"
  shows "pos \<le> length xs" "\<forall>h<pos. oe_Name (xs ! h) < oe_Name b"
    "\<forall>h. pos \<le> h \<and> h < length xs \<longrightarrow> oe_Name b \<le> oe_Name (xs ! h)"
    "exist \<longleftrightarrow> pos < length xs \<and> oe_Name (xs ! pos) = oe_Name b"
proof -
  let ?lt = "\<lambda>h. oe_Name (xs ! h) < oe_Name b"
  have mono: "?lt h" if "h \<le> h'" "h' < length xs" "?lt h'" for h h'
    using that bridges_sorted_nth [OF assms(1), of h h'] by (cases "h = h'") auto
  have pos: "pos = bsearch ?lt 0 (length xs)" and
    ex: "exist \<longleftrightarrow> pos < length xs \<and> oe_Name (xs ! pos) = oe_Name b"
    using assms(2) by (auto simp: BinarySearchFunc_def Let_def)
  have "pos \<le> length xs \<and> (\<forall>h<pos. ?lt h) \<and> (\<forall>h. pos \<le> h \<and> h < length xs \<longrightarrow> \<not> ?lt h)"
    unfolding pos by (rule bsearch_correct) (use mono in auto)
  then show "pos \<le> length xs" "\<forall>h<pos. oe_Name (xs ! h) < oe_Name b"
    "\<forall>h. pos \<le> h \<and> h < length xs \<longrightarrow> oe_Name b \<le> oe_Name (xs ! h)"
    by (auto simp: not_less)
  show "exist \<longleftrightarrow> pos < length xs \<and> oe_Name (xs ! pos) = oe_Name b" by (rule ex)
qed

section \<open>The bridge slice as a keyed store\<close>

text \<open>Insert or replace, as the policy code does it; \<^verbatim>\<open>slices.Insert\<close> shifts the tail.\<close>

definition put_bridge :: "OVSConfigExt \<Rightarrow> OVSConfigExt list \<Rightarrow> OVSConfigExt list" where
  "put_bridge b xs =
     (case BinarySearchFunc xs b of (pos, exist) \<Rightarrow>
        if exist then xs[pos := b] else take pos xs @ b # drop pos xs)"

definition lookup_bridge :: "OVSConfigExt list \<Rightarrow> string \<Rightarrow> OVSConfigExt option" where
  "lookup_bridge xs n = find (\<lambda>b. oe_Name b = n) xs"

text \<open>\<^verbatim>\<open>slices.DeleteFunc\<close> with the test of the empty-bridge branch.\<close>

definition delete_uplink :: "string \<Rightarrow> OVSConfigExt list \<Rightarrow> OVSConfigExt list" where
  "delete_uplink pci xs =
     filter (\<lambda>br. \<not> list_ex (\<lambda>uplink. ue_PciAddress uplink = pci) (oe_Uplinks br)) xs"

text \<open>What a client of a store keyed by name relies on.\<close>

locale keyed_store =
  fixes key :: "'v \<Rightarrow> 'k"
    and put :: "'v \<Rightarrow> 's \<Rightarrow> 's"
    and lookup :: "'s \<Rightarrow> 'k \<Rightarrow> 'v option"
    and invar :: "'s \<Rightarrow> bool"
  assumes lookup_put: "invar s \<Longrightarrow> lookup (put v s) k = (if k = key v then Some v else lookup s k)"
    and invar_put: "invar s \<Longrightarrow> invar (put v s)"
    and put_same: "invar s \<Longrightarrow> lookup s (key v) = Some v \<Longrightarrow> put v s = s"
begin

lemma invar_puts: "invar s \<Longrightarrow> invar (fold put vs s)"
  by (induction vs arbitrary: s) (simp_all add: invar_put)

lemma lookup_puts_other:
  "invar s \<Longrightarrow> k \<notin> key ` set vs \<Longrightarrow> lookup (fold put vs s) k = lookup s k"
  by (induction vs arbitrary: s) (auto simp: lookup_put invar_put)

lemma lookup_puts:
  assumes "invar s" and "v \<in> set vs" and "distinct (map key vs)"
  shows "lookup (fold put vs s) (key v) = Some v"
  using assms
proof (induction vs arbitrary: s)
  case (Cons w vs)
  show ?case
  proof (cases "v = w")
    case True
    then have "key v \<notin> key ` set vs" using Cons.prems(3) by auto
    then show ?thesis using True Cons.prems(1) by (simp add: lookup_puts_other lookup_put invar_put)
  next
    case False
    then show ?thesis using Cons by (auto simp: invar_put)
  qed
qed simp

text \<open>Storing what is already there changes nothing, so a second round is the identity.\<close>

lemma puts_same:
  assumes "invar s" and "\<And>v. v \<in> set vs \<Longrightarrow> lookup s (key v) = Some v"
  shows "fold put vs s = s"
  using assms(2) by (induction vs) (simp_all add: put_same assms(1))

lemma puts_idem:
  assumes "invar s" and "distinct (map key vs)"
  shows "fold put vs (fold put vs s) = fold put vs s"
  by (rule puts_same) (use assms in \<open>auto simp: invar_puts lookup_puts\<close>)

end

lemma put_bridge_split:
  assumes "bridges_sorted xs"
  obtains a c where "put_bridge b xs = a @ b # c"
    "\<forall>x\<in>set a. oe_Name x < oe_Name b" "\<forall>x\<in>set c. oe_Name b < oe_Name x"
    "xs = a @ c \<or> (\<exists>x. oe_Name x = oe_Name b \<and> xs = a @ x # c)"
proof -
  obtain pos exist where bs: "BinarySearchFunc xs b = (pos, exist)" by fastforce
  note spec = BinarySearchFunc_spec [OF assms bs]
  have a: "\<forall>x\<in>set (take pos xs). oe_Name x < oe_Name b"
    using spec(1,2) by (auto simp: in_set_conv_nth)
  show thesis
  proof (cases exist)
    case True
    then have pos: "pos < length xs" "oe_Name (xs ! pos) = oe_Name b" using spec(4) by auto
    have "oe_Name b < oe_Name (xs ! Suc (pos + i))" if "i < length xs - Suc pos" for i
      using bridges_sorted_nth [OF assms, of pos "Suc (pos + i)"] pos that by simp
    then have "\<forall>x\<in>set (drop (Suc pos) xs). oe_Name b < oe_Name x"
      using pos(1) by (auto simp: in_set_conv_nth)
    moreover have "xs = take pos xs @ xs ! pos # drop (Suc pos) xs"
      using pos(1) by (rule id_take_nth_drop)
    moreover have "put_bridge b xs = take pos xs @ b # drop (Suc pos) xs"
      using True pos(1) bs by (simp add: put_bridge_def upd_conv_take_nth_drop)
    ultimately show thesis
      using that [of "take pos xs" "drop (Suc pos) xs"] a pos(2) by blast
  next
    case False
    have "oe_Name b < oe_Name (xs ! h)" if "pos \<le> h" "h < length xs" for h
    proof (cases "h = pos")
      case True
      then show ?thesis using False spec(3,4) that by (auto simp: order.order_iff_strict)
    next
      case h: False
      then have "oe_Name (xs ! pos) < oe_Name (xs ! h)" "oe_Name b \<le> oe_Name (xs ! pos)"
        using bridges_sorted_nth [OF assms] spec(3) that by auto
      then show ?thesis by simp
    qed
    then have "\<forall>x\<in>set (drop pos xs). oe_Name b < oe_Name x" by (auto simp: in_set_conv_nth)
    then show thesis
      using that [of "take pos xs" "drop pos xs"] a False bs by (simp add: put_bridge_def)
  qed
qed

lemma bridges_sorted_append:
  "bridges_sorted (a @ b # c) \<longleftrightarrow>
     bridges_sorted a \<and> bridges_sorted c \<and> (\<forall>x\<in>set a. oe_Name x < oe_Name b) \<and>
     (\<forall>x\<in>set c. oe_Name b < oe_Name x)"
proof
  assume *: "bridges_sorted a \<and> bridges_sorted c \<and> (\<forall>x\<in>set a. oe_Name x < oe_Name b) \<and>
     (\<forall>x\<in>set c. oe_Name b < oe_Name x)"
  then have "\<forall>x\<in>set a. \<forall>y\<in>set c. oe_Name x < oe_Name y" using less_trans by blast
  then show "bridges_sorted (a @ b # c)" using * by (auto simp: bridges_sorted_def sorted_wrt_append)
qed (auto simp: bridges_sorted_def sorted_wrt_append)

lemma lookup_bridge_append:
  assumes "\<forall>x\<in>set a. oe_Name x < oe_Name b" "\<forall>x\<in>set c. oe_Name b < oe_Name x"
  shows "lookup_bridge (a @ b # c) n = (if n = oe_Name b then Some b else lookup_bridge (a @ c) n)"
proof (cases "n = oe_Name b")
  case True
  then have "find (\<lambda>x. oe_Name x = n) a = None" using assms(1) by (auto simp: find_None_iff)
  then show ?thesis using True by (induction a) (auto simp: lookup_bridge_def split: if_splits)
next
  case False
  then show ?thesis by (induction a) (auto simp: lookup_bridge_def)
qed

interpretation ovs: keyed_store oe_Name put_bridge lookup_bridge bridges_sorted
proof
  fix s v k assume s: "bridges_sorted s"
  from s show "lookup_bridge (put_bridge v s) k = (if k = oe_Name v then Some v else lookup_bridge s k)"
  proof (rule put_bridge_split [where b = v])
    fix a c assume *: "put_bridge v s = a @ v # c" "\<forall>x\<in>set a. oe_Name x < oe_Name v"
      "\<forall>x\<in>set c. oe_Name v < oe_Name x" "s = a @ c \<or> (\<exists>x. oe_Name x = oe_Name v \<and> s = a @ x # c)"
    then show ?thesis by (auto simp: lookup_bridge_append)
  qed
  from s show "bridges_sorted (put_bridge v s)"
  proof (rule put_bridge_split [where b = v])
    fix a c assume *: "put_bridge v s = a @ v # c" "\<forall>x\<in>set a. oe_Name x < oe_Name v"
      "\<forall>x\<in>set c. oe_Name v < oe_Name x" "s = a @ c \<or> (\<exists>x. oe_Name x = oe_Name v \<and> s = a @ x # c)"
    then have "bridges_sorted a" "bridges_sorted c"
      using s by (auto simp: bridges_sorted_append) (auto simp: bridges_sorted_def sorted_wrt_append)
    then show ?thesis using * by (simp add: bridges_sorted_append)
  qed
next
  fix s v assume s: "bridges_sorted s" and l: "lookup_bridge s (oe_Name v) = Some v"
  from s show "put_bridge v s = s"
  proof (rule put_bridge_split [where b = v])
    fix a c assume *: "put_bridge v s = a @ v # c" "\<forall>x\<in>set a. oe_Name x < oe_Name v"
      "\<forall>x\<in>set c. oe_Name v < oe_Name x" "s = a @ c \<or> (\<exists>x. oe_Name x = oe_Name v \<and> s = a @ x # c)"
    have "v \<in> set s" using l by (auto simp: lookup_bridge_def find_Some_iff)
    then show ?thesis using * by auto
  qed
qed

section \<open>ApplyBridgeConfig\<close>

text \<open>\<^verbatim>\<open>strings.ReplaceAll(pci, ":", "_")\<close> behind the prefix \<^verbatim>\<open>br-\<close>.\<close>

definition GenerateBridgeName :: "InterfaceExt \<Rightarrow> string" where
  "GenerateBridgeName iface =
     ''br-'' @ map (\<lambda>c. if c = CHR '':'' then CHR ''_'' else c) (ie_PciAddress iface)"

definition bridge_for :: "SriovNetworkNodePolicy \<Rightarrow> OVSConfig \<Rightarrow> InterfaceExt \<Rightarrow> OVSConfigExt" where
  "bridge_for p cfg iface =
     (let uplinkIf = ou_Interface (oc_Uplink cfg);
          mtu = ps_Mtu (pol_Spec p)
      in \<lparr>oe_Name = GenerateBridgeName iface,
          oe_Bridge = oc_Bridge cfg,
          oe_Uplinks =
            [\<lparr>ue_PciAddress = ie_PciAddress iface,
              ue_Name = ie_Name iface,
              ue_Interface = (if mtu > 0 then uplinkIf\<lparr>oi_MTURequest := Some mtu\<rparr> else uplinkIf)\<rparr>]\<rparr>)"

definition apply_bridge_iface ::
    "SriovNetworkNodePolicy \<Rightarrow> InterfaceExt \<Rightarrow> OVSConfigExt list \<Rightarrow> OVSConfigExt list" where
  "apply_bridge_iface p iface brs =
     (if NicSelector_Selected (ps_NicSelector (pol_Spec p)) iface
      then (case bridge_OVS (ps_Bridge (pol_Spec p)) of
              None \<Rightarrow> delete_uplink (ie_PciAddress iface) brs
            | Some cfg \<Rightarrow> put_bridge (bridge_for p cfg iface) brs)
      else brs)"

definition ApplyBridgeConfig ::
    "SriovNetworkNodePolicy \<Rightarrow> SriovNetworkNodeState \<Rightarrow> policy_error + SriovNetworkNodeState" where
  "ApplyBridgeConfig p state =
     (let spec = pol_Spec p in
      if NicSelector_IsEmpty (ps_NicSelector spec) then Inr state
      else if \<not> Bridge_IsEmpty (ps_Bridge spec) \<and> ps_EswitchMode spec \<noteq> ESwithModeSwitchDev
        then Inl BridgeNeedsSwitchdev
      else if \<not> Bridge_IsEmpty (ps_Bridge spec) \<and> ps_LinkType spec \<noteq> [] \<and>
          \<not> equal_fold (ps_LinkType spec) LinkTypeETH
        then Inl BridgeNeedsEthernet
      else if \<not> Bridge_IsEmpty (ps_Bridge spec) \<and> ps_ExternallyManaged spec
        then Inl BridgeExternallyManaged
      else
        let brs = fold (apply_bridge_iface p) (nst_Interfaces (state_Status state))
                    (bridges_OVS (ns_Bridges (state_Spec state)))
        in Inr (state\<lparr>state_Spec := (state_Spec state)\<lparr>ns_Bridges := \<lparr>bridges_OVS = brs\<rparr>\<rparr>\<rparr>))"

abbreviation state_bridges :: "SriovNetworkNodeState \<Rightarrow> OVSConfigExt list" where
  "state_bridges s \<equiv> bridges_OVS (ns_Bridges (state_Spec s))"

lemma fold_put_bridges:
  assumes "bridge_OVS (ps_Bridge (pol_Spec p)) = Some cfg"
  shows "fold (apply_bridge_iface p) ifs brs =
    fold put_bridge
      (map (bridge_for p cfg) (filter (NicSelector_Selected (ps_NicSelector (pol_Spec p))) ifs)) brs"
  by (induction ifs arbitrary: brs) (auto simp: apply_bridge_iface_def assms)

lemma bridges_sorted_delete: "bridges_sorted xs \<Longrightarrow> bridges_sorted (delete_uplink pci xs)"
  by (simp add: bridges_sorted_def delete_uplink_def sorted_wrt_map sorted_wrt_filter)

lemma apply_bridge_iface_sorted:
  "bridges_sorted brs \<Longrightarrow> bridges_sorted (apply_bridge_iface p iface brs)"
  by (auto simp: apply_bridge_iface_def bridges_sorted_delete ovs.invar_put split: option.split)

lemma fold_apply_bridge_sorted:
  "bridges_sorted brs \<Longrightarrow> bridges_sorted (fold (apply_bridge_iface p) ifs brs)"
  by (induction ifs arbitrary: brs) (simp_all add: apply_bridge_iface_sorted)

lemma GenerateBridgeName_inj:
  assumes "CHR ''_'' \<notin> set (ie_PciAddress i)" and "CHR ''_'' \<notin> set (ie_PciAddress j)"
    and "GenerateBridgeName i = GenerateBridgeName j"
  shows "ie_PciAddress i = ie_PciAddress j"
proof -
  let ?f = "\<lambda>c. if c = CHR '':'' then CHR ''_'' else c"
  have inj: "inj_on ?f (set (ie_PciAddress i) \<union> set (ie_PciAddress j))"
    using assms(1,2) by (auto simp: inj_on_def)
  have "map ?f (ie_PciAddress i) = map ?f (ie_PciAddress j)"
    using assms(3) by (simp add: GenerateBridgeName_def)
  then show ?thesis using inj by (simp add: inj_on_map_eq_map)
qed

text \<open>PCI addresses of a node: distinct and without underscore (\<^verbatim>\<open>0000:00:03.0\<close>).\<close>

definition pci_ok :: "InterfaceExt list \<Rightarrow> bool" where
  "pci_ok ifs \<longleftrightarrow>
     distinct (map ie_PciAddress ifs) \<and> list_all (\<lambda>i. CHR ''_'' \<notin> set (ie_PciAddress i)) ifs"

lemma distinct_bridge_names:
  assumes "pci_ok ifs"
  shows "distinct (map oe_Name (map (bridge_for p cfg) (filter P ifs)))"
proof -
  have "distinct (map GenerateBridgeName ifs)"
    using assms
  proof (induction ifs)
    case (Cons i ifs)
    then have "GenerateBridgeName i \<noteq> GenerateBridgeName j" if "j \<in> set ifs" for j
      using that GenerateBridgeName_inj [of i j] by (force simp: pci_ok_def list_all_iff)
    then show ?case using Cons by (auto simp: pci_ok_def)
  qed simp
  then have "distinct (map GenerateBridgeName (filter P ifs))" by (rule distinct_map_filter)
  moreover have "oe_Name \<circ> bridge_for p cfg = GenerateBridgeName"
    by (auto simp: bridge_for_def Let_def)
  ultimately show ?thesis by simp
qed

lemma ApplyBridgeConfig_frame:
  assumes "ApplyBridgeConfig p s = Inr s'"
  shows "state_Status s' = state_Status s" "state_Meta s' = state_Meta s"
    "ns_Interfaces (state_Spec s') = ns_Interfaces (state_Spec s)"
    "ns_System (state_Spec s') = ns_System (state_Spec s)"
    "bridges_sorted (state_bridges s) \<Longrightarrow> bridges_sorted (state_bridges s')"
  using assms by (auto simp: ApplyBridgeConfig_def Let_def fold_apply_bridge_sorted split: if_splits)

text \<open>A policy whose bridge settings the webhook admits.\<close>

definition bridge_wf :: "SriovNetworkNodePolicy \<Rightarrow> bool" where
  "bridge_wf p \<longleftrightarrow>
     Bridge_IsEmpty (ps_Bridge (pol_Spec p)) \<or>
     (ps_EswitchMode (pol_Spec p) = ESwithModeSwitchDev \<and>
      (ps_LinkType (pol_Spec p) = [] \<or> equal_fold (ps_LinkType (pol_Spec p)) LinkTypeETH) \<and>
      \<not> ps_ExternallyManaged (pol_Spec p))"

lemma ApplyBridgeConfig_total: "bridge_wf p \<Longrightarrow> \<exists>s'. ApplyBridgeConfig p s = Inr s'"
  by (auto simp: ApplyBridgeConfig_def bridge_wf_def Let_def)

section \<open>Properties\<close>

text \<open>
  C37: on a sorted bridge list, applying the bridge of a policy stores for every selected physical
  function exactly the bridge the policy asks for under its generated name, keeps the bridges of all
  other names and the order of the list, and a second application changes nothing.
\<close>

theorem bridges_stored_once:
  assumes "ApplyBridgeConfig p s = Inr s'" and "bridge_OVS (ps_Bridge (pol_Spec p)) = Some cfg"
    and "\<not> NicSelector_IsEmpty (ps_NicSelector (pol_Spec p))"
    and "bridges_sorted (state_bridges s)" and "pci_ok (nst_Interfaces (state_Status s))"
  shows "bridges_sorted (state_bridges s') \<and>
    (\<forall>i\<in>set (nst_Interfaces (state_Status s)).
       NicSelector_Selected (ps_NicSelector (pol_Spec p)) i \<longrightarrow>
       lookup_bridge (state_bridges s') (GenerateBridgeName i) = Some (bridge_for p cfg i)) \<and>
    (\<forall>n. n \<notin> GenerateBridgeName `
            {i \<in> set (nst_Interfaces (state_Status s)). NicSelector_Selected (ps_NicSelector (pol_Spec p)) i} \<longrightarrow>
       lookup_bridge (state_bridges s') n = lookup_bridge (state_bridges s) n) \<and>
    ApplyBridgeConfig p s' = Inr s'"
proof -
  let ?sel = "NicSelector_Selected (ps_NicSelector (pol_Spec p))"
  let ?ifs = "nst_Interfaces (state_Status s)"
  let ?vs = "map (bridge_for p cfg) (filter ?sel ?ifs)"
  have s': "s' = s\<lparr>state_Spec := (state_Spec s)\<lparr>ns_Bridges := \<lparr>bridges_OVS = fold put_bridge ?vs (state_bridges s)\<rparr>\<rparr>\<rparr>"
    using assms(1,3) by (auto simp: ApplyBridgeConfig_def Let_def fold_put_bridges[OF assms(2)] split: if_splits)
  have key: "oe_Name (bridge_for p cfg i) = GenerateBridgeName i" for i by (simp add: bridge_for_def Let_def)
  note dist = distinct_bridge_names[OF assms(5), of p cfg ?sel]
  have "lookup_bridge (state_bridges s') (GenerateBridgeName i) = Some (bridge_for p cfg i)"
    if "i \<in> set ?ifs" "?sel i" for i
    using ovs.lookup_puts[OF assms(4) _ dist, of "bridge_for p cfg i"] that by (simp add: s' key)
  moreover have "lookup_bridge (state_bridges s') n = lookup_bridge (state_bridges s) n"
    if "n \<notin> GenerateBridgeName ` {i \<in> set ?ifs. ?sel i}" for n
    using ovs.lookup_puts_other[OF assms(4), of n ?vs] that by (auto simp: s' key image_image)
  moreover have "ApplyBridgeConfig p s' = Inr s'"
    using assms(1,3) ovs.puts_idem[OF assms(4) dist]
    by (auto simp: ApplyBridgeConfig_def Let_def fold_put_bridges[OF assms(2)] s' split: if_splits)
  ultimately show ?thesis using ovs.invar_puts[OF assms(4), of ?vs] by (simp add: s')
qed

definition sample_bridge_policy :: SriovNetworkNodePolicy where
  "sample_bridge_policy =
     (let p = sample_policy ''p'' ''a'' 10 [''ens1''] in
      p\<lparr>pol_Spec := (pol_Spec p)\<lparr>ps_EswitchMode := ESwithModeSwitchDev,
         ps_Bridge := \<lparr>bridge_OVS = Some
           \<lparr>oc_Bridge = \<lparr>br_DatapathType = ''netdev'', br_ExternalIDs = Map.empty, br_OtherConfig = Map.empty, br_FailMode = []\<rparr>,
            oc_Uplink = \<lparr>ou_Interface = \<lparr>oi_Type = ''dpdk'', oi_Options = Map.empty, oi_ExternalIDs = Map.empty,
              oi_OtherConfig = Map.empty, oi_MTURequest = None\<rparr>\<rparr>\<rparr>\<rparr>\<rparr>\<rparr>)"

theorem bridges_stored_once_witness:
  "\<exists>s' cfg. ApplyBridgeConfig sample_bridge_policy (sample_state ''n'') = Inr s' \<and>
     lookup_bridge (state_bridges s') ''br-0000_3b_00.0'' = Some (bridge_for sample_bridge_policy cfg sample_pf) \<and>
     ApplyBridgeConfig sample_bridge_policy s' = Inr s'"
proof -
  let ?p = sample_bridge_policy and ?s = "sample_state ''n''"
  let ?cfg = "the (bridge_OVS (ps_Bridge (pol_Spec ?p)))"
  have "bridge_wf ?p" by (simp add: bridge_wf_def sample_bridge_policy_def sample_policy_def Let_def)
  then obtain s' where a: "ApplyBridgeConfig ?p ?s = Inr s'" using ApplyBridgeConfig_total by blast
  have b: "bridge_OVS (ps_Bridge (pol_Spec ?p)) = Some ?cfg"
    by (simp add: sample_bridge_policy_def Let_def)
  have c: "\<not> NicSelector_IsEmpty (ps_NicSelector (pol_Spec ?p))"
    by (simp add: sample_bridge_policy_def sample_policy_def sample_selector_def NicSelector_IsEmpty_def Let_def)
  have d: "bridges_sorted (state_bridges ?s)" by (simp add: sample_state_def bridges_sorted_def)
  have ifs: "nst_Interfaces (state_Status ?s) = [sample_pf]" by (simp add: sample_state_def sample_status_def)
  have e: "pci_ok (nst_Interfaces (state_Status ?s))" unfolding ifs by code_simp
  have sel: "NicSelector_Selected (ps_NicSelector (pol_Spec ?p)) sample_pf"
  proof -
    have "ps_NicSelector (pol_Spec ?p) = sample_selector [''ens1'']"
      by (simp add: sample_bridge_policy_def sample_policy_def Let_def)
    moreover have "NicSelector_Selected (sample_selector [''ens1'']) sample_pf" by code_simp
    ultimately show ?thesis by simp
  qed
  have nm: "GenerateBridgeName sample_pf = ''br-0000_3b_00.0''" by code_simp
  from bridges_stored_once[OF a b c d e] show ?thesis using a sel nm ifs by auto
qed

end
