(* ===== verification/Io_Monad.thy ===== *)
theory Io_Monad
  imports Sriov_Prelude
begin

text \<open>
  Functions that change a state and return a value or an error, and Hoare triples for them. The state is the API
  server for the controllers (theory Cluster) and the host for the config daemon (theory Host\_Io).
\<close>

section \<open>Stateful functions\<close>

type_synonym ('s, 'e, 'a) stateful = "'s \<Rightarrow> ('e + 'a) \<times> 's"

definition io_return :: "'a \<Rightarrow> ('s, 'e, 'a) stateful" where
  "io_return x c = (Inr x, c)"

definition io_fail :: "'e \<Rightarrow> ('s, 'e, 'a) stateful" where
  "io_fail e c = (Inl e, c)"

definition io_bind :: "('s, 'e, 'a) stateful \<Rightarrow> ('a \<Rightarrow> ('s, 'e, 'b) stateful) \<Rightarrow> ('s, 'e, 'b) stateful" where
  "io_bind m f c = (case m c of (Inl e, c') \<Rightarrow> (Inl e, c') | (Inr x, c') \<Rightarrow> f x c')"

definition io_map_err :: "('e \<Rightarrow> 'f) \<Rightarrow> ('s, 'e, 'a) stateful \<Rightarrow> ('s, 'f, 'a) stateful" where
  "io_map_err g m c = (case m c of (r, c') \<Rightarrow> (map_err g r, c'))"

definition io_lift :: "'e + 'a \<Rightarrow> ('s, 'e, 'a) stateful" where
  "io_lift r c = (r, c)"

text \<open>Run an action and go on whatever its result, as code does that only logs an error.\<close>

definition io_ignore :: "('s, 'e, 'a) stateful \<Rightarrow> ('s, 'f, unit) stateful" where
  "io_ignore m c = (case m c of (_, c') \<Rightarrow> (Inr (), c'))"

text \<open>Go on with one action after an error and with another after a value.\<close>

definition io_handle :: "('s, 'e, 'a) stateful \<Rightarrow> ('e \<Rightarrow> ('s, 'f, 'b) stateful) \<Rightarrow> ('a \<Rightarrow> ('s, 'f, 'b) stateful) \<Rightarrow> ('s, 'f, 'b) stateful" where
  "io_handle m h f c = (case m c of (Inl e, c') \<Rightarrow> h e c' | (Inr x, c') \<Rightarrow> f x c')"

text \<open>Read the state, and loops that stop at the first error.\<close>

definition io_gets :: "('s \<Rightarrow> 'a) \<Rightarrow> ('s, 'e, 'a) stateful" where
  "io_gets f c = (Inr (f c), c)"

fun io_each :: "('a \<Rightarrow> ('s, 'e, unit) stateful) \<Rightarrow> 'a list \<Rightarrow> ('s, 'e, unit) stateful" where
  "io_each f [] = io_return ()"
| "io_each f (x # xs) = io_bind (f x) (\<lambda>_. io_each f xs)"

definition io_when :: "bool \<Rightarrow> ('s, 'e, unit) stateful \<Rightarrow> ('s, 'e, unit) stateful" where
  "io_when b m = (if b then m else io_return ())"

lemmas io_run_defs = io_bind_def io_handle_def io_return_def io_fail_def io_gets_def io_when_def io_lift_def

section \<open>Hoare triples\<close>

text \<open>
  From a state with \<open>P\<close>, the action ends in \<open>Q x\<close> when it returns \<open>x\<close> and in \<open>E\<close> when it fails.
\<close>

definition io_triple ::
    "('s \<Rightarrow> bool) \<Rightarrow> ('s, 'e, 'a) stateful \<Rightarrow> ('a \<Rightarrow> 's \<Rightarrow> bool) \<Rightarrow> ('s \<Rightarrow> bool) \<Rightarrow> bool" where
  "io_triple P m Q E \<longleftrightarrow>
     (\<forall>c. P c \<longrightarrow> (case m c of (Inl e, c') \<Rightarrow> E c' | (Inr x, c') \<Rightarrow> Q x c'))"

named_theorems io_rules \<open>triples of the operations\<close>

lemma io_tripleI:
  "(\<And>c e c'. P c \<Longrightarrow> m c = (Inl e, c') \<Longrightarrow> E c') \<Longrightarrow> (\<And>c x c'. P c \<Longrightarrow> m c = (Inr x, c') \<Longrightarrow> Q x c') \<Longrightarrow>
     io_triple P m Q E"
  by (auto simp: io_triple_def split: prod.splits sum.splits)

lemma io_tripleD:
  "io_triple P m Q E \<Longrightarrow> P c \<Longrightarrow> m c = (r, c') \<Longrightarrow> (case r of Inl e \<Rightarrow> E c' | Inr x \<Rightarrow> Q x c')"
  by (force simp: io_triple_def split: prod.splits sum.splits)

lemma io_triple_conseq:
  assumes "io_triple P' m Q' E'" and "\<And>c. P c \<Longrightarrow> P' c" and "\<And>x c. Q' x c \<Longrightarrow> Q x c"
    and "\<And>c. E' c \<Longrightarrow> E c"
  shows "io_triple P m Q E"
  using assms by (fastforce simp: io_triple_def split: prod.splits sum.splits)

lemma io_triple_bind:
  assumes "io_triple P m R E" and "\<And>x. io_triple (R x) (f x) Q E"
  shows "io_triple P (io_bind m f) Q E"
proof (unfold io_triple_def, intro allI impI)
  fix c assume "P c"
  obtain r c' where m: "m c = (r, c')" by (cases "m c")
  then have "case r of Inl e \<Rightarrow> E c' | Inr x \<Rightarrow> R x c'" by (rule io_tripleD[OF assms(1) \<open>P c\<close>])
  then show "case io_bind m f c of (Inl e, c') \<Rightarrow> E c' | (Inr x, c') \<Rightarrow> Q x c'"
    using m assms(2) by (cases r) (auto simp: io_bind_def io_triple_def)
qed

lemma io_triple_bind_pair:
  assumes "io_triple P m (\<lambda>(x, y) c. R x y c) E" and "\<And>x y. io_triple (R x y) (f x y) Q E"
  shows "io_triple P (io_bind m (\<lambda>(x, y). f x y)) Q E"
  using assms by (auto intro: io_triple_bind)

lemma io_triple_bind_triple:
  assumes "io_triple P m (\<lambda>(x, y, z) c. R x y z c) E" and "\<And>x y z. io_triple (R x y z) (f x y z) Q E"
  shows "io_triple P (io_bind m (\<lambda>(x, y, z). f x y z)) Q E"
  using assms by (auto intro: io_triple_bind)

lemma io_triple_handle:
  assumes "io_triple P m R F" and "\<And>e. io_triple F (h e) Q E" and "\<And>x. io_triple (R x) (f x) Q E"
  shows "io_triple P (io_handle m h f) Q E"
proof (unfold io_triple_def, intro allI impI)
  fix c assume "P c"
  obtain r c' where m: "m c = (r, c')" by (cases "m c")
  then have "case r of Inl e \<Rightarrow> F c' | Inr x \<Rightarrow> R x c'" by (rule io_tripleD[OF assms(1) \<open>P c\<close>])
  then show "case io_handle m h f c of (Inl e, c') \<Rightarrow> E c' | (Inr x, c') \<Rightarrow> Q x c'"
    using m assms(2,3) by (cases r) (auto simp: io_handle_def io_triple_def)
qed

lemma io_triple_return: "(\<And>c. P c \<Longrightarrow> Q x c) \<Longrightarrow> io_triple P (io_return x) Q E"
  by (simp add: io_triple_def io_return_def)

lemma io_triple_fail: "(\<And>c. P c \<Longrightarrow> E c) \<Longrightarrow> io_triple P (io_fail e) Q E"
  by (simp add: io_triple_def io_fail_def)

lemma io_triple_lift:
  "(\<And>c. P c \<Longrightarrow> E c) \<Longrightarrow> (\<And>x c. r = Inr x \<Longrightarrow> P c \<Longrightarrow> Q x c) \<Longrightarrow> io_triple P (io_lift r) Q E"
  by (auto simp: io_triple_def io_lift_def split: sum.splits)

lemma io_triple_map_err: "io_triple P m Q E \<Longrightarrow> io_triple P (io_map_err g m) Q E"
  by (fastforce simp: io_triple_def io_map_err_def map_err_eq_Inl split: prod.splits sum.splits)

lemma io_triple_ignore: "io_triple P m (\<lambda>_. I) I \<Longrightarrow> io_triple P (io_ignore m) (\<lambda>_. I) E"
  by (fastforce simp: io_triple_def io_ignore_def split: prod.splits sum.splits)

lemma io_triple_pre: "(\<And>c. P c \<Longrightarrow> b \<and> P' c) \<Longrightarrow> (b \<Longrightarrow> io_triple P' m Q E) \<Longrightarrow> io_triple P m Q E"
  by (fastforce simp: io_triple_def)

lemmas io_core = io_triple_bind io_triple_return io_triple_fail io_triple_map_err

lemma io_triple_gets: "(\<And>c. P c \<Longrightarrow> Q (f c) c) \<Longrightarrow> io_triple P (io_gets f) Q E"
  by (simp add: io_triple_def io_gets_def)

lemma io_triple_when:
  "(b \<Longrightarrow> io_triple P m (\<lambda>_. Q) E) \<Longrightarrow> (\<And>c. \<not> b \<Longrightarrow> P c \<Longrightarrow> Q c) \<Longrightarrow> io_triple P (io_when b m) (\<lambda>_. Q) E"
  by (simp add: io_when_def io_triple_return)

lemma io_triple_if:
  "(b \<Longrightarrow> io_triple P m Q E) \<Longrightarrow> (\<not> b \<Longrightarrow> io_triple P n Q E) \<Longrightarrow> io_triple P (if b then m else n) Q E"
  by simp

lemma io_triple_weaken: "io_triple P' m Q E \<Longrightarrow> (\<And>c. P c \<Longrightarrow> P' c) \<Longrightarrow> io_triple P m Q E"
  by (simp add: io_triple_def)

lemma io_triple_each:
  assumes "\<And>x. x \<in> set xs \<Longrightarrow> io_triple I (f x) (\<lambda>_. I) E"
  shows "io_triple I (io_each f xs) (\<lambda>_. I) E"
  using assms
proof (induction xs)
  case (Cons x xs)
  have "io_triple I (f x) (\<lambda>_. I) E" "io_triple I (io_each f xs) (\<lambda>_. I) E" using Cons by simp_all
  then show ?case by (auto intro: io_triple_bind)
qed (simp add: io_triple_return)

section \<open>Entries of a log\<close>

text \<open>A function appends only entries of a given kind to a log that is part of the state.\<close>

definition emits :: "('s \<Rightarrow> 'l list) \<Rightarrow> ('l \<Rightarrow> bool) \<Rightarrow> ('s, 'e, 'a) stateful \<Rightarrow> bool" where
  "emits lg P m \<longleftrightarrow> (\<forall>s. \<exists>new. lg (snd (m s)) = lg s @ new \<and> list_all P new)"

named_theorems emits_rules \<open>what an operation appends to the log\<close>

lemma emitsI: "(\<And>s. \<exists>new. lg (snd (m s)) = lg s @ new \<and> list_all P new) \<Longrightarrow> emits lg P m"
  by (simp add: emits_def)

lemma emitsE:
  assumes "emits lg P m" and "m s = (r, s')"
  obtains new where "lg s' = lg s @ new" "list_all P new"
  using assms unfolding emits_def by (metis snd_conv)

lemma emits_quiet: "(\<And>s. lg (snd (m s)) = lg s) \<Longrightarrow> emits lg P m"
  by (rule emitsI) simp

lemma emits_return [emits_rules]: "emits lg P (io_return x)"
  by (rule emits_quiet) (simp add: io_return_def)

lemma emits_fail [emits_rules]: "emits lg P (io_fail e)"
  by (rule emits_quiet) (simp add: io_fail_def)

lemma emits_gets [emits_rules]: "emits lg P (io_gets f)"
  by (rule emits_quiet) (simp add: io_gets_def)

lemma emits_handle [emits_rules]:
  assumes "emits lg P m" and "\<And>e. emits lg P (g e)" and "\<And>x. emits lg P (f x)"
  shows "emits lg P (io_handle m g f)"
proof (rule emitsI)
  fix s
  obtain r s' where m: "m s = (r, s')" by (cases "m s")
  obtain new where n: "lg s' = lg s @ new" "list_all P new" by (rule emitsE[OF assms(1) m])
  have h: "\<exists>k. io_handle m g f s = k s' \<and> emits lg P k"
    using m assms(2,3) by (cases r) (auto simp: io_handle_def)
  then obtain k where k: "io_handle m g f s = k s'" "emits lg P k" by blast
  then obtain new' where "lg (snd (k s')) = lg s' @ new'" "list_all P new'" unfolding emits_def by blast
  then show "\<exists>new. lg (snd (io_handle m g f s)) = lg s @ new \<and> list_all P new"
    using n k(1) by (intro exI[of _ "new @ new'"]) simp
qed

lemma emits_bind [emits_rules]:
  assumes "emits lg P m" and "\<And>x. emits lg P (f x)"
  shows "emits lg P (io_bind m f)"
proof -
  have "io_bind m f = io_handle m io_fail f"
    by (rule ext) (simp add: io_bind_def io_handle_def io_fail_def split: prod.split sum.split)
  then show ?thesis using assms by (auto intro: emits_handle emits_fail)
qed

lemma emits_when [emits_rules]: "(b \<Longrightarrow> emits lg P m) \<Longrightarrow> emits lg P (io_when b m)"
  by (simp add: io_when_def emits_return)

lemma emits_if [emits_rules]: "(b \<Longrightarrow> emits lg P m) \<Longrightarrow> (\<not> b \<Longrightarrow> emits lg P n) \<Longrightarrow> emits lg P (if b then m else n)"
  by simp

lemma emits_pair [emits_rules]: "(\<And>x y. emits lg P (f x y)) \<Longrightarrow> emits lg P (case p of (x, y) \<Rightarrow> f x y)"
  by (cases p) simp

lemma emits_each [emits_rules]: "(\<And>x. x \<in> set xs \<Longrightarrow> emits lg P (f x)) \<Longrightarrow> emits lg P (io_each f xs)"
  by (induction xs) (auto intro: emits_return emits_bind)

lemma emits_mono: "emits lg P m \<Longrightarrow> (\<And>x. P x \<Longrightarrow> Q x) \<Longrightarrow> emits lg Q m"
  unfolding emits_def by (meson list.pred_mono_strong)

section \<open>Invariants of the state\<close>

text \<open>A function that keeps a property of the state, whether it returns or fails.\<close>

definition io_keeps :: "('s \<Rightarrow> bool) \<Rightarrow> ('s, 'e, 'a) stateful \<Rightarrow> bool" where
  "io_keeps I m \<longleftrightarrow> (\<forall>s. I s \<longrightarrow> I (snd (m s)))"

named_theorems keeps_rules \<open>operations that keep a property of the state\<close>

lemma io_keepsI: "(\<And>s. I s \<Longrightarrow> I (snd (m s))) \<Longrightarrow> io_keeps I m"
  by (simp add: io_keeps_def)

lemma io_keepsD: "io_keeps I m \<Longrightarrow> I s \<Longrightarrow> m s = (r, s') \<Longrightarrow> I s'"
  unfolding io_keeps_def by (metis snd_conv)

lemma io_keeps_same: "(\<And>s. snd (m s) = s) \<Longrightarrow> io_keeps I m"
  by (simp add: io_keeps_def)

lemma keeps_return [keeps_rules]: "io_keeps I (io_return x)"
  by (rule io_keeps_same) (simp add: io_return_def)

lemma keeps_fail [keeps_rules]: "io_keeps I (io_fail e)"
  by (rule io_keeps_same) (simp add: io_fail_def)

lemma keeps_gets [keeps_rules]: "io_keeps I (io_gets f)"
  by (rule io_keeps_same) (simp add: io_gets_def)

lemma keeps_handle [keeps_rules]:
  assumes "io_keeps I m" and "\<And>e. io_keeps I (g e)" and "\<And>x. io_keeps I (f x)"
  shows "io_keeps I (io_handle m g f)"
proof (rule io_keepsI)
  fix s assume "I s"
  obtain r s' where m: "m s = (r, s')" by (cases "m s")
  have "I s'" by (rule io_keepsD[OF assms(1) \<open>I s\<close> m])
  then show "I (snd (io_handle m g f s))" using m assms(2,3) by (cases r) (auto simp: io_handle_def io_keeps_def)
qed

lemma keeps_bind [keeps_rules]:
  assumes "io_keeps I m" and "\<And>x. io_keeps I (f x)"
  shows "io_keeps I (io_bind m f)"
proof -
  have "io_bind m f = io_handle m io_fail f"
    by (rule ext) (simp add: io_bind_def io_handle_def io_fail_def split: prod.split sum.split)
  then show ?thesis using assms by (auto intro: keeps_handle keeps_fail)
qed

lemma keeps_map_err [keeps_rules]: "io_keeps I m \<Longrightarrow> io_keeps I (io_map_err g m)"
  by (auto simp: io_keeps_def io_map_err_def split: prod.splits)

lemma keeps_when [keeps_rules]: "(b \<Longrightarrow> io_keeps I m) \<Longrightarrow> io_keeps I (io_when b m)"
  by (simp add: io_when_def keeps_return)

lemma keeps_if [keeps_rules]: "(b \<Longrightarrow> io_keeps I m) \<Longrightarrow> (\<not> b \<Longrightarrow> io_keeps I n) \<Longrightarrow> io_keeps I (if b then m else n)"
  by simp

lemma keeps_pair [keeps_rules]: "(\<And>x y. io_keeps I (f x y)) \<Longrightarrow> io_keeps I (case p of (x, y) \<Rightarrow> f x y)"
  by (cases p) simp

lemma keeps_each [keeps_rules]: "(\<And>x. x \<in> set xs \<Longrightarrow> io_keeps I (f x)) \<Longrightarrow> io_keeps I (io_each f xs)"
  by (induction xs) (auto intro: keeps_return keeps_bind)

end
