(* ===== verification/Conditions.thy ===== *)
theory Conditions
  imports Samples
begin

text \<open>
  Status conditions: \<^verbatim>\<open>SetStatusCondition\<close> and \<^verbatim>\<open>FindStatusCondition\<close> of the vendored API
  machinery, \<^verbatim>\<open>ConditionsEqual\<close> of \<^verbatim>\<open>src/api/v1/conditions.go\<close> and the two functions of
  \<^verbatim>\<open>src/api/v1/helper.go\<close> that derive a node state's conditions from the synchronisation and the
  drain state. The clock is the argument \<open>now\<close>; a zero transition time means unset.
\<close>

section \<open>Setting and finding\<close>

definition FindStatusCondition :: "Condition list \<Rightarrow> string \<Rightarrow> Condition option" where
  "FindStatusCondition cs t = find (\<lambda>c. cond_Type c = t) cs"

definition update_condition :: "int \<Rightarrow> Condition \<Rightarrow> Condition \<Rightarrow> Condition" where
  "update_condition now existing new =
     (let e = (if cond_Status existing \<noteq> cond_Status new
               then existing\<lparr>cond_Status := cond_Status new,
                      cond_LastTransitionTime :=
                        (if cond_LastTransitionTime new \<noteq> 0 then cond_LastTransitionTime new else now)\<rparr>
               else existing)
      in e\<lparr>cond_Reason := cond_Reason new, cond_Message := cond_Message new,
           cond_ObservedGeneration := cond_ObservedGeneration new\<rparr>)"

definition SetStatusCondition :: "int \<Rightarrow> Condition \<Rightarrow> Condition list \<Rightarrow> Condition list" where
  "SetStatusCondition now new cs =
     (case find_index (\<lambda>c. cond_Type c = cond_Type new) cs of
        None \<Rightarrow>
          cs @ [if cond_LastTransitionTime new = 0 then new\<lparr>cond_LastTransitionTime := now\<rparr> else new]
      | Some i \<Rightarrow> cs[i := update_condition now (cs ! i) new])"

definition IsStatusConditionTrue :: "Condition list \<Rightarrow> string \<Rightarrow> bool" where
  "IsStatusConditionTrue cs t =
     (case FindStatusCondition cs t of None \<Rightarrow> False | Some c \<Rightarrow> cond_Status c = ConditionTrue)"

text \<open>Everything but the transition time.\<close>

definition cond_content :: "Condition \<Rightarrow> string \<times> condition_status \<times> string \<times> string \<times> int" where
  "cond_content c =
     (cond_Type c, cond_Status c, cond_Reason c, cond_Message c, cond_ObservedGeneration c)"

lemma cond_content_update [simp]:
  "cond_Type e = cond_Type n \<Longrightarrow> cond_content (update_condition now e n) = cond_content n"
  by (simp add: cond_content_def update_condition_def Let_def)

lemma cond_Type_update [simp]: "cond_Type (update_condition now e n) = cond_Type e"
  by (simp add: update_condition_def Let_def)

lemma find_find_index:
  "find P xs = map_option (\<lambda>i. xs ! i) (find_index P xs)"
  by (induction xs) (auto simp: option.map_comp comp_def)

lemma find_list_update_first:
  assumes "find_index P xs = Some i" and "P y"
  shows "find P (xs[i := y]) = Some y"
  using assms
proof (induction xs arbitrary: i)
  case (Cons x xs)
  then show ?case by (cases "P x") auto
qed simp

lemma find_list_update_other:
  assumes "i < length xs" and "\<not> Q (xs ! i)" and "\<not> Q y"
  shows "find Q (xs[i := y]) = find Q xs"
  using assms
proof (induction xs arbitrary: i)
  case (Cons x xs)
  then show ?case by (cases i) auto
qed simp

text \<open>The condition that was set is found, the others are untouched.\<close>

lemma FindStatusCondition_Set_same:
  "\<exists>c. FindStatusCondition (SetStatusCondition now new cs) (cond_Type new) = Some c \<and>
     cond_content c = cond_content new"
proof (cases "find_index (\<lambda>c. cond_Type c = cond_Type new) cs")
  case None
  then have "find (\<lambda>c. cond_Type c = cond_Type new) cs = None"
    by (simp add: find_None_iff find_index_None)
  then have "find (\<lambda>c. cond_Type c = cond_Type new) (cs @ [y]) = Some y"
    if "cond_Type y = cond_Type new" for y
    using that by (induction cs) (auto split: if_splits)
  then show ?thesis using None
    by (auto simp: FindStatusCondition_def SetStatusCondition_def cond_content_def)
next
  case (Some i)
  then have "cond_Type (cs ! i) = cond_Type new" using find_index_Some by fastforce
  then show ?thesis using Some
    by (simp add: FindStatusCondition_def SetStatusCondition_def find_list_update_first)
qed

lemma FindStatusCondition_Set_other:
  assumes "t \<noteq> cond_Type new"
  shows "FindStatusCondition (SetStatusCondition now new cs) t = FindStatusCondition cs t"
proof (cases "find_index (\<lambda>c. cond_Type c = cond_Type new) cs")
  case None
  have "find (\<lambda>c. cond_Type c = t) (cs @ [y]) = find (\<lambda>c. cond_Type c = t) cs"
    if "cond_Type y \<noteq> t" for y
    using that by (induction cs) auto
  then show ?thesis using None assms
    by (auto simp: FindStatusCondition_def SetStatusCondition_def)
next
  case (Some i)
  then have "i < length cs" "cond_Type (cs ! i) = cond_Type new"
    using find_index_Some by fastforce+
  then show ?thesis using Some assms
    by (simp add: FindStatusCondition_def SetStatusCondition_def find_list_update_other)
qed

lemma distinct_types_Set:
  assumes "distinct (map cond_Type cs)"
  shows "distinct (map cond_Type (SetStatusCondition now new cs))"
proof (cases "find_index (\<lambda>c. cond_Type c = cond_Type new) cs")
  case None
  then have "cond_Type new \<notin> cond_Type ` set cs" by (auto simp: find_index_None)
  then show ?thesis using None assms by (auto simp: SetStatusCondition_def)
next
  case (Some i)
  then have "i < length cs" "cond_Type (cs ! i) = cond_Type new" using find_index_Some by fastforce+
  then have "map cond_Type (SetStatusCondition now new cs) = map cond_Type cs"
    using Some by (simp add: SetStatusCondition_def map_update) (metis list_update_id nth_map)
  then show ?thesis using assms by simp
qed

section \<open>ConditionsEqual\<close>

text \<open>The comparison map keeps the last condition of each type.\<close>

definition ConditionsEqual :: "Condition list \<Rightarrow> Condition list \<Rightarrow> bool" where
  "ConditionsEqual a b =
     (if length a \<noteq> length b then False
      else
        let aMap = map_of (rev (map (\<lambda>c. (cond_Type c, c)) a)) in
        list_all (\<lambda>bc. case aMap (cond_Type bc) of
            None \<Rightarrow> False
          | Some ac \<Rightarrow>
              \<not> (cond_Status ac \<noteq> cond_Status bc \<or> cond_Reason ac \<noteq> cond_Reason bc \<or>
                 cond_Message ac \<noteq> cond_Message bc \<or>
                 cond_ObservedGeneration ac \<noteq> cond_ObservedGeneration bc)) b)"

lemma map_of_types:
  assumes "distinct (map cond_Type a)"
  shows "map_of (rev (map (\<lambda>c. (cond_Type c, c)) a)) t = Some c \<longleftrightarrow> c \<in> set a \<and> cond_Type c = t"
proof -
  have "distinct (map fst (rev (map (\<lambda>c. (cond_Type c, c)) a)))"
    using assms by (simp add: rev_map [symmetric] comp_def)
  then show ?thesis by (auto simp: map_of_eq_Some_iff)
qed

lemma ConditionsEqual_iff:
  assumes "distinct (map cond_Type a)"
  shows "ConditionsEqual a b \<longleftrightarrow>
    length a = length b \<and> cond_content ` set b \<subseteq> cond_content ` set a"
proof -
  let ?m = "map_of (rev (map (\<lambda>c. (cond_Type c, c)) a))"
  have "(case ?m (cond_Type bc) of None \<Rightarrow> False | Some ac \<Rightarrow>
          \<not> (cond_Status ac \<noteq> cond_Status bc \<or> cond_Reason ac \<noteq> cond_Reason bc \<or>
             cond_Message ac \<noteq> cond_Message bc \<or> cond_ObservedGeneration ac \<noteq> cond_ObservedGeneration bc))
        \<longleftrightarrow> cond_content bc \<in> cond_content ` set a" for bc
  proof (cases "?m (cond_Type bc)")
    case None
    then have "\<forall>ac\<in>set a. cond_Type ac \<noteq> cond_Type bc"
      using map_of_types [OF assms, of "cond_Type bc"] by fastforce
    then show ?thesis using None by (auto simp: cond_content_def)
  next
    case (Some ac)
    then have "ac \<in> set a" "cond_Type ac = cond_Type bc" using map_of_types [OF assms] by auto
    moreover have "cond_content bc = cond_content ac" if in_a: "cond_content bc \<in> cond_content ` set a"
    proof -
      obtain ac' where ac': "ac' \<in> set a" "cond_content bc = cond_content ac'" using in_a by blast
      then have "cond_Type ac' = cond_Type bc" by (simp add: cond_content_def)
      then have "ac' = ac" using map_of_types [OF assms, of "cond_Type bc" ac'] Some ac'(1) by simp
      then show ?thesis using ac'(2) by simp
    qed
    ultimately have "cond_content bc \<in> cond_content ` set a \<longleftrightarrow> cond_content bc = cond_content ac"
      by blast
    then show ?thesis using Some \<open>cond_Type ac = cond_Type bc\<close> by (auto simp: cond_content_def)
  qed
  then show ?thesis by (auto simp: ConditionsEqual_def Let_def list_all_iff)
qed

text \<open>On lists keyed by type it is equality up to order and transition times.\<close>

lemma ConditionsEqual_mset:
  assumes "distinct (map cond_Type a)" and "distinct (map cond_Type b)"
  shows "ConditionsEqual a b \<longleftrightarrow> mset (map cond_content a) = mset (map cond_content b)"
proof -
  have inj: "distinct (map cond_content cs)" if "distinct (map cond_Type cs)" for cs
  proof -
    have "map cond_Type cs = map fst (map cond_content cs)" by (simp add: cond_content_def comp_def)
    then show ?thesis using that by (metis distinct_map)
  qed
  show ?thesis
  proof
    assume "ConditionsEqual a b"
    then have len: "length a = length b" and sub: "cond_content ` set b \<subseteq> cond_content ` set a"
      using ConditionsEqual_iff [OF assms(1)] by auto
    have "card (cond_content ` set b) = card (cond_content ` set a)"
      using len inj [OF assms(1)] inj [OF assms(2)]
      by (metis distinct_card length_map list.set_map)
    then have "set (map cond_content a) = set (map cond_content b)"
      using sub card_subset_eq [of "cond_content ` set a" "cond_content ` set b"] by simp
    then show "mset (map cond_content a) = mset (map cond_content b)"
      using inj [OF assms(1)] inj [OF assms(2)] set_eq_iff_mset_eq_distinct by blast
  next
    assume *: "mset (map cond_content a) = mset (map cond_content b)"
    then have "length a = length b" by (metis length_map size_mset)
    moreover have "cond_content ` set b = cond_content ` set a"
      using * by (metis list.set_map mset_eq_setD)
    ultimately show "ConditionsEqual a b" using ConditionsEqual_iff [OF assms(1)] by simp
  qed
qed

section \<open>Node state conditions\<close>

abbreviation ConditionProgressing :: string where "ConditionProgressing \<equiv> ''Progressing''"
abbreviation ConditionReady :: string where "ConditionReady \<equiv> ''Ready''"
abbreviation ConditionDraining :: string where "ConditionDraining \<equiv> ''Draining''"
abbreviation ReasonDrainCompleted :: string where "ReasonDrainCompleted \<equiv> ''DrainCompleted''"

definition mk_cond :: "string \<Rightarrow> condition_status \<Rightarrow> string \<Rightarrow> string \<Rightarrow> int \<Rightarrow> Condition" where
  "mk_cond t st reason message gen =
     \<lparr>cond_Type = t, cond_Status = st, cond_ObservedGeneration = gen, cond_LastTransitionTime = 0,
      cond_Reason = reason, cond_Message = message\<rparr>"

lemma mk_cond_simps [simp]:
  "cond_Type (mk_cond t st r m g) = t" "cond_Status (mk_cond t st r m g) = st"
  "cond_Reason (mk_cond t st r m g) = r"
  by (simp_all add: mk_cond_def)

abbreviation state_conditions :: "SriovNetworkNodeState \<Rightarrow> Condition list" where
  "state_conditions s \<equiv> nst_Conditions (state_Status s)"

definition set_condition :: "int \<Rightarrow> Condition \<Rightarrow> SriovNetworkNodeState \<Rightarrow> SriovNetworkNodeState" where
  "set_condition now c s =
     s\<lparr>state_Status := (state_Status s)\<lparr>nst_Conditions := SetStatusCondition now c (state_conditions s)\<rparr>\<rparr>"

definition SetNodeStateConfigurationConditions ::
    "int \<Rightarrow> string \<Rightarrow> string \<Rightarrow> bool \<Rightarrow> SriovNetworkNodeState \<Rightarrow> SriovNetworkNodeState" where
  "SetNodeStateConfigurationConditions now syncStatus failedMessage waitingForDrain s =
     (let generation = om_Generation (state_Meta s) in
      if syncStatus = SyncStatusInProgress then
        let message =
              (if failedMessage \<noteq> [] then
                 (if waitingForDrain
                  then ''Waiting for node drain before retrying configuration: '' @ failedMessage
                  else ''Retrying after previous failure: '' @ failedMessage)
               else if waitingForDrain then ''Waiting for node drain before applying configuration''
               else ''Node configuration is in progress'');
            reason = (if waitingForDrain then ''WaitingForDrain'' else ''ApplyingConfiguration'');
            readyReason = (if waitingForDrain then ''WaitingForDrain'' else ''NotReady'')
        in set_condition now (mk_cond ConditionReady ConditionFalse readyReason message generation)
             (set_condition now (mk_cond ConditionProgressing ConditionTrue reason message generation) s)
      else if syncStatus = SyncStatusSucceeded then
        set_condition now
          (mk_cond ConditionReady ConditionTrue ''NodeConfigurationReady''
             ''Node configuration is ready'' generation)
          (set_condition now
             (mk_cond ConditionProgressing ConditionFalse ''NotProgressing''
                ''Node configuration completed successfully'' generation) s)
      else if syncStatus = SyncStatusFailed then
        let message = (if failedMessage \<noteq> [] then ''Node configuration failed: '' @ failedMessage
                       else ''Node configuration failed'')
        in set_condition now (mk_cond ConditionReady ConditionFalse ''NotReady'' message generation)
             (set_condition now
                (mk_cond ConditionProgressing ConditionFalse ''NotProgressing''
                   ''Configuration attempt completed with failure'' generation) s)
      else s)"

datatype DrainState =
    DrainStateIdle | DrainStatePending | DrainStateDraining | DrainStateDrainingWithErrors | DrainStateComplete

fun drain_condition :: "DrainState \<Rightarrow> string \<Rightarrow> int \<Rightarrow> Condition" where
  "drain_condition DrainStateIdle errorMessage gen =
     mk_cond ConditionDraining ConditionFalse ''DrainNotNeeded'' ''No drain operation in progress'' gen"
| "drain_condition DrainStatePending errorMessage gen =
     mk_cond ConditionDraining ConditionTrue ''DrainPending''
       (if errorMessage \<noteq> [] then errorMessage else ''Waiting for an available drain slot'') gen"
| "drain_condition DrainStateDraining errorMessage gen =
     mk_cond ConditionDraining ConditionTrue ''DrainingNode'' ''Node drain is in progress'' gen"
| "drain_condition DrainStateDrainingWithErrors errorMessage gen =
     mk_cond ConditionDraining ConditionTrue ''DrainFailed''
       (if errorMessage \<noteq> [] then ''Node drain encountered errors: '' @ errorMessage
        else ''Node drain encountered errors'') gen"
| "drain_condition DrainStateComplete errorMessage gen =
     mk_cond ConditionDraining ConditionFalse ReasonDrainCompleted
       ''Drain operation completed successfully'' gen"

definition SetNodeStateDrainConditions ::
    "int \<Rightarrow> DrainState \<Rightarrow> string \<Rightarrow> SriovNetworkNodeState \<Rightarrow> SriovNetworkNodeState" where
  "SetNodeStateDrainConditions now st errorMessage s =
     set_condition now (drain_condition st errorMessage (om_Generation (state_Meta s))) s"

lemma drain_condition_type [simp]: "cond_Type (drain_condition st m g) = ConditionDraining"
  by (cases st) simp_all

lemma state_conditions_set_condition [simp]:
  "state_conditions (set_condition now c s) = SetStatusCondition now c (state_conditions s)"
  by (simp add: set_condition_def)

lemma FindStatusCondition_Status:
  "\<exists>c. FindStatusCondition (SetStatusCondition now new cs) (cond_Type new) = Some c \<and>
     cond_Type c = cond_Type new \<and> cond_Status c = cond_Status new \<and> cond_Reason c = cond_Reason new"
  using FindStatusCondition_Set_same [of now new cs] by (auto simp: cond_content_def)

lemma IsStatusConditionTrue_Set:
  "IsStatusConditionTrue (SetStatusCondition now new cs) t \<longleftrightarrow>
     (if t = cond_Type new then cond_Status new = ConditionTrue else IsStatusConditionTrue cs t)"
  using FindStatusCondition_Status [of now new cs]
  by (auto simp: IsStatusConditionTrue_def FindStatusCondition_Set_other)

lemma set_condition_frame [simp]:
  "state_Meta (set_condition now c s) = state_Meta s"
  "state_Spec (set_condition now c s) = state_Spec s"
  "nst_Interfaces (state_Status (set_condition now c s)) = nst_Interfaces (state_Status s)"
  "nst_SyncStatus (state_Status (set_condition now c s)) = nst_SyncStatus (state_Status s)"
  by (simp_all add: set_condition_def)

lemma configuration_conditions_other:
  assumes "t \<noteq> ConditionReady" and "t \<noteq> ConditionProgressing"
  shows "FindStatusCondition (state_conditions (SetNodeStateConfigurationConditions now st msg drain s)) t =
    FindStatusCondition (state_conditions s) t"
  using assms by (simp add: SetNodeStateConfigurationConditions_def Let_def FindStatusCondition_Set_other)

section \<open>Properties\<close>

text \<open>
  Two condition lists keyed by type are equal for \<^verbatim>\<open>ConditionsEqual\<close> exactly when they are the
  same up to order and transition times.
\<close>

theorem conditions_equal_up_to_order:
  assumes "distinct (map cond_Type a)" and "distinct (map cond_Type b)"
  shows "ConditionsEqual a b \<longleftrightarrow> mset (map cond_content a) = mset (map cond_content b)"
  by (rule ConditionsEqual_mset[OF assms])

theorem conditions_equal_up_to_order_witness:
  "ConditionsEqual [mk_cond ''A'' ConditionTrue ''r'' [] 1, mk_cond ''B'' ConditionFalse ''q'' [] 1]
     [mk_cond ''B'' ConditionFalse ''q'' [] 1, (mk_cond ''A'' ConditionTrue ''r'' [] 1)\<lparr>cond_LastTransitionTime := 7\<rparr>]"
  by (subst conditions_equal_up_to_order) (simp_all add: mk_cond_def cond_content_def add_mset_commute)

text \<open>
  After setting the conditions of a synchronisation result, Ready is true exactly on success,
  Progressing exactly while in progress, so they are never true together; every other condition is
  untouched, and an unknown result changes nothing.
\<close>

theorem ready_and_progressing:
  "(let s' = SetNodeStateConfigurationConditions now st msg drain s in
    (if st \<in> {SyncStatusInProgress, SyncStatusSucceeded, SyncStatusFailed}
     then IsStatusConditionTrue (state_conditions s') ConditionReady = (st = SyncStatusSucceeded) \<and>
          IsStatusConditionTrue (state_conditions s') ConditionProgressing = (st = SyncStatusInProgress)
     else s' = s) \<and>
    state_Meta s' = state_Meta s \<and> state_Spec s' = state_Spec s \<and>
    (\<forall>t. t \<in> {ConditionReady, ConditionProgressing} \<or>
          FindStatusCondition (state_conditions s') t = FindStatusCondition (state_conditions s) t))"
proof -
  let ?s' = "SetNodeStateConfigurationConditions now st msg drain s"
  have other: "\<forall>t. t \<in> {ConditionReady, ConditionProgressing} \<or>
      FindStatusCondition (state_conditions ?s') t = FindStatusCondition (state_conditions s) t"
    using configuration_conditions_other by blast
  have frame: "state_Meta ?s' = state_Meta s \<and> state_Spec ?s' = state_Spec s"
    by (simp add: SetNodeStateConfigurationConditions_def Let_def)
  consider "st = SyncStatusInProgress" | "st = SyncStatusSucceeded" | "st = SyncStatusFailed"
    | "st \<notin> {SyncStatusInProgress, SyncStatusSucceeded, SyncStatusFailed}" by blast
  then have "if st \<in> {SyncStatusInProgress, SyncStatusSucceeded, SyncStatusFailed}
     then IsStatusConditionTrue (state_conditions ?s') ConditionReady = (st = SyncStatusSucceeded) \<and>
          IsStatusConditionTrue (state_conditions ?s') ConditionProgressing = (st = SyncStatusInProgress)
     else ?s' = s"
    by cases (simp_all add: SetNodeStateConfigurationConditions_def Let_def IsStatusConditionTrue_Set)
  then show ?thesis unfolding Let_def using other frame by blast
qed

end
