(* ===== verification/Status_Patcher.thy ===== *)
theory Status_Patcher
  imports Conditions
begin

text \<open>
  Detecting condition transitions and applying conditions, \<^verbatim>\<open>src/pkg/status/transitions.go\<close> and
  \<^verbatim>\<open>patcher.go\<close>. The loop over what is left in the old map reports removed conditions; Go iterates a
  map in no fixed order, the model lists them in the order of the old conditions.
\<close>

datatype TransitionType = TransitionAdded | TransitionChanged | TransitionRemoved

record Transition =
  tr_Type :: TransitionType
  tr_ConditionType :: string
  tr_OldStatus :: "condition_status option"
  tr_NewStatus :: "condition_status option"
  tr_Reason :: string
  tr_Message :: string

definition cond_map :: "Condition list \<Rightarrow> string \<rightharpoonup> Condition" where
  "cond_map cs = map_of (rev (map (\<lambda>c. (cond_Type c, c)) cs))"

definition transition_of :: "(string \<rightharpoonup> Condition) \<Rightarrow> Condition \<Rightarrow> Transition list" where
  "transition_of oldMap newCond =
     (case oldMap (cond_Type newCond) of
        None \<Rightarrow>
          [\<lparr>tr_Type = TransitionAdded, tr_ConditionType = cond_Type newCond, tr_OldStatus = None,
            tr_NewStatus = Some (cond_Status newCond), tr_Reason = cond_Reason newCond,
            tr_Message = cond_Message newCond\<rparr>]
      | Some oldCond \<Rightarrow>
          if cond_Status oldCond \<noteq> cond_Status newCond \<or> cond_Reason oldCond \<noteq> cond_Reason newCond \<or>
             cond_Message oldCond \<noteq> cond_Message newCond \<or>
             cond_ObservedGeneration oldCond \<noteq> cond_ObservedGeneration newCond
          then [\<lparr>tr_Type = TransitionChanged, tr_ConditionType = cond_Type newCond,
                 tr_OldStatus = Some (cond_Status oldCond), tr_NewStatus = Some (cond_Status newCond),
                 tr_Reason = cond_Reason newCond, tr_Message = cond_Message newCond\<rparr>]
          else [])"

fun scan_new ::
    "(string \<rightharpoonup> Condition) \<Rightarrow> Condition list \<Rightarrow> Transition list \<times> (string \<rightharpoonup> Condition)" where
  "scan_new oldMap [] = ([], oldMap)"
| "scan_new oldMap (newCond # rest) =
     (case scan_new (oldMap(cond_Type newCond := None)) rest of
        (ts, m) \<Rightarrow> (transition_of oldMap newCond @ ts, m))"

definition removed_of :: "(string \<rightharpoonup> Condition) \<Rightarrow> string \<Rightarrow> Transition list" where
  "removed_of m t =
     (case m t of
        None \<Rightarrow> []
      | Some oldCond \<Rightarrow>
          [\<lparr>tr_Type = TransitionRemoved, tr_ConditionType = cond_Type oldCond,
            tr_OldStatus = Some (cond_Status oldCond), tr_NewStatus = None, tr_Reason = [],
            tr_Message = []\<rparr>])"

definition DetectTransitions :: "Condition list \<Rightarrow> Condition list \<Rightarrow> Transition list" where
  "DetectTransitions oldConditions newConditions =
     (case scan_new (cond_map oldConditions) newConditions of
        (ts, m) \<Rightarrow> ts @ concat (map (removed_of m) (remdups (map cond_Type oldConditions))))"

definition HasTransitions :: "Condition list \<Rightarrow> Condition list \<Rightarrow> bool" where
  "HasTransitions oldConditions newConditions \<longleftrightarrow>
     length (DetectTransitions oldConditions newConditions) > 0"

definition EventReason :: "Transition \<Rightarrow> string" where
  "EventReason t =
     tr_ConditionType t @
     (case tr_Type t of TransitionAdded \<Rightarrow> ''Added'' | TransitionChanged \<Rightarrow> ''Changed''
      | TransitionRemoved \<Rightarrow> ''Removed'')"

section \<open>Applying conditions\<close>

definition NewCondition ::
    "int \<Rightarrow> string \<Rightarrow> condition_status \<Rightarrow> string \<Rightarrow> string \<Rightarrow> int \<Rightarrow> Condition" where
  "NewCondition now conditionType st reason message generation =
     \<lparr>cond_Type = conditionType, cond_Status = st, cond_ObservedGeneration = generation,
      cond_LastTransitionTime = now, cond_Reason = reason, cond_Message = message\<rparr>"

text \<open>Keep the transition time of a condition whose status did not change.\<close>

definition preserve_time :: "Condition list \<Rightarrow> Condition \<Rightarrow> Condition" where
  "preserve_time oldConditions c =
     (case cond_map oldConditions (cond_Type c) of
        Some old \<Rightarrow>
          if cond_Status old = cond_Status c
          then c\<lparr>cond_LastTransitionTime := cond_LastTransitionTime old\<rparr> else c
      | None \<Rightarrow> c)"

text \<open>
  What \<^verbatim>\<open>ApplyCondition\<close> does with an object's conditions: \<open>None\<close> when it returns without calling
  the API server, otherwise the conditions it sends and the transitions it reports as events.
\<close>

definition ApplyCondition ::
    "Condition list \<Rightarrow> Condition list \<Rightarrow> (Condition list \<times> Transition list) option" where
  "ApplyCondition oldConditions conditions =
     (if conditions = [] then None
      else
        let conditions = map (preserve_time oldConditions) conditions;
            transitions = DetectTransitions oldConditions conditions
        in if transitions = [] then None else Some (conditions, transitions))"

text \<open>\<^verbatim>\<open>ApplyStatus\<close> filters the old conditions to the types it owns; it always calls the server.\<close>

definition ApplyStatus_conditions ::
    "Condition list \<Rightarrow> Condition list \<Rightarrow> Condition list \<times> Transition list" where
  "ApplyStatus_conditions oldConditions ownedConditions =
     (let owned = map (preserve_time oldConditions) ownedConditions;
          ownedTypes = map cond_Type owned;
          filteredOld = filter (\<lambda>c. cond_Type c \<in> set ownedTypes) oldConditions
      in (owned, DetectTransitions filteredOld owned))"

text \<open>
  The server merges the sent entries into the list by their type (the list is a map keyed by
  type): an entry of that type is replaced, a new one is appended.
\<close>

definition merge_entry :: "Condition \<Rightarrow> Condition list \<Rightarrow> Condition list" where
  "merge_entry c cs =
     (case find_index (\<lambda>d. cond_Type d = cond_Type c) cs of
        None \<Rightarrow> cs @ [c] | Some i \<Rightarrow> cs[i := c])"

lemma merge_entry_find_same:
  "FindStatusCondition (merge_entry c cs) (cond_Type c) = Some c"
proof (cases "find_index (\<lambda>d. cond_Type d = cond_Type c) cs")
  case None
  then have "\<forall>d\<in>set cs. cond_Type d \<noteq> cond_Type c" by (simp add: find_index_None)
  then have "find (\<lambda>d. cond_Type d = cond_Type c) (cs @ [c]) = Some c" by (induction cs) auto
  then show ?thesis using None by (simp add: merge_entry_def FindStatusCondition_def)
qed (simp add: merge_entry_def FindStatusCondition_def find_list_update_first)

lemma cond_Type_preserve_time [simp]: "cond_Type (preserve_time old c) = cond_Type c"
  by (simp add: preserve_time_def split: option.splits)

lemma cond_content_preserve_time [simp]: "cond_content (preserve_time old c) = cond_content c"
  by (simp add: preserve_time_def cond_content_def split: option.splits)

lemma transition_of_Nil:
  "transition_of m c = [] \<longleftrightarrow> (\<exists>d. m (cond_Type c) = Some d \<and>
     cond_Status d = cond_Status c \<and> cond_Reason d = cond_Reason c \<and>
     cond_Message d = cond_Message c \<and> cond_ObservedGeneration d = cond_ObservedGeneration c)"
  by (auto simp: transition_of_def split: option.splits if_splits)

lemma scan_new_rest: "snd (scan_new m cs) = m |` (- cond_Type ` set cs)"
proof (induction cs arbitrary: m)
  case (Cons c cs)
  have "snd (scan_new m (c # cs)) = snd (scan_new (m(cond_Type c := None)) cs)"
    by (simp split: prod.splits)
  also have "\<dots> = (m(cond_Type c := None)) |` (- cond_Type ` set cs)" by (rule Cons.IH)
  also have "\<dots> = m |` (- cond_Type ` set (c # cs))" by (auto simp: restrict_map_def)
  finally show ?case .
qed (simp add: restrict_map_def)

lemma scan_new_Nil:
  assumes "distinct (map cond_Type cs)"
  shows "fst (scan_new m cs) = [] \<longleftrightarrow> (\<forall>c\<in>set cs. transition_of m c = [])"
  using assms
proof (induction cs arbitrary: m)
  case (Cons c cs)
  have "transition_of (m(cond_Type c := None)) d = transition_of m d" if "d \<in> set cs" for d
  proof -
    have "cond_Type d \<noteq> cond_Type c"
      using that Cons.prems by (metis distinct.simps(2) image_eqI list.simps(9) list.set_map)
    then show ?thesis by (simp add: transition_of_def)
  qed
  moreover have "fst (scan_new m (c # cs)) =
      transition_of m c @ fst (scan_new (m(cond_Type c := None)) cs)"
    by (simp split: prod.splits)
  moreover have "distinct (map cond_Type cs)" using Cons.prems by simp
  ultimately show ?case using Cons.IH by (simp del: scan_new.simps)
qed simp

lemma cond_map_Some:
  "distinct (map cond_Type cs) \<Longrightarrow> cond_map cs t = Some c \<longleftrightarrow> c \<in> set cs \<and> cond_Type c = t"
  by (simp add: cond_map_def map_of_types)

lemma cond_map_dom: "cond_map cs t = None \<longleftrightarrow> t \<notin> cond_Type ` set cs"
  by (simp add: cond_map_def map_of_eq_None_iff image_image)

lemma DetectTransitions_Nil:
  assumes "distinct (map cond_Type old)" and "distinct (map cond_Type new)"
  shows "DetectTransitions old new = [] \<longleftrightarrow>
    (\<forall>c\<in>set new. \<exists>d\<in>set old. cond_content d = cond_content c) \<and>
    cond_Type ` set old \<subseteq> cond_Type ` set new"
proof -
  obtain ts m where s: "scan_new (cond_map old) new = (ts, m)" by fastforce
  have ts: "ts = [] \<longleftrightarrow> (\<forall>c\<in>set new. transition_of (cond_map old) c = [])"
    using scan_new_Nil [OF assms(2), of "cond_map old"] s by simp
  have m: "m = cond_map old |` (- cond_Type ` set new)"
    using scan_new_rest [of "cond_map old" new] s by simp
  have "concat (map (removed_of m) (remdups (map cond_Type old))) = [] \<longleftrightarrow>
      (\<forall>t\<in>cond_Type ` set old. m t = None)"
    by (auto simp: removed_of_def split: option.splits)
  also have "\<dots> \<longleftrightarrow> cond_Type ` set old \<subseteq> cond_Type ` set new"
    using cond_map_dom [of old] by (fastforce simp: m restrict_map_def split: if_splits)
  finally have rem: "concat (map (removed_of m) (remdups (map cond_Type old))) = [] \<longleftrightarrow>
      cond_Type ` set old \<subseteq> cond_Type ` set new" .
  have "transition_of (cond_map old) c = [] \<longleftrightarrow> (\<exists>d\<in>set old. cond_content d = cond_content c)" for c
    by (auto simp: transition_of_Nil cond_map_Some [OF assms(1)] cond_content_def)
  then show ?thesis using s ts rem by (simp add: DetectTransitions_def)
qed

text \<open>Transitions are detected exactly when the condition lists differ.\<close>

lemma HasTransitions_ConditionsEqual:
  assumes "distinct (map cond_Type old)" and "distinct (map cond_Type new)"
  shows "HasTransitions old new \<longleftrightarrow> \<not> ConditionsEqual old new"
proof -
  have types: "cond_Type ` S = fst ` cond_content ` S" for S
    by (auto simp: cond_content_def image_image)
  have len: "length cs = card (cond_Type ` set cs)" if "distinct (map cond_Type cs)" for cs
    using that by (metis distinct_card length_map list.set_map)
  have "DetectTransitions old new = [] \<longleftrightarrow>
    cond_content ` set new \<subseteq> cond_content ` set old \<and> cond_Type ` set old \<subseteq> cond_Type ` set new"
  proof -
    have "cond_content ` set new \<subseteq> cond_content ` set old \<longleftrightarrow>
        (\<forall>c\<in>set new. \<exists>d\<in>set old. cond_content d = cond_content c)"
      unfolding image_subset_iff image_iff by metis
    then show ?thesis unfolding DetectTransitions_Nil [OF assms] by simp
  qed
  also have "\<dots> \<longleftrightarrow> length old = length new \<and> cond_content ` set new \<subseteq> cond_content ` set old"
  proof (intro iffI conjI)
    assume *: "cond_content ` set new \<subseteq> cond_content ` set old \<and> cond_Type ` set old \<subseteq> cond_Type ` set new"
    then have "cond_Type ` set new \<subseteq> cond_Type ` set old" unfolding types by blast
    then have "cond_Type ` set new = cond_Type ` set old" using * by blast
    then show "length old = length new" using len [OF assms(1)] len [OF assms(2)] by simp
  next
    assume *: "length old = length new \<and> cond_content ` set new \<subseteq> cond_content ` set old"
    then have "cond_Type ` set new \<subseteq> cond_Type ` set old" unfolding types by blast
    moreover have "card (cond_Type ` set new) = card (cond_Type ` set old)"
      using * len [OF assms(1)] len [OF assms(2)] by simp
    ultimately show "cond_Type ` set old \<subseteq> cond_Type ` set new"
      using card_subset_eq [of "cond_Type ` set old" "cond_Type ` set new"] by auto
  qed auto
  also have "\<dots> \<longleftrightarrow> ConditionsEqual old new" using ConditionsEqual_iff [OF assms(1)] by simp
  finally show ?thesis by (simp add: HasTransitions_def)
qed

section \<open>Properties\<close>

text \<open>
  On condition lists keyed by type, a transition is detected exactly when the lists are not
  equal for \<^verbatim>\<open>ConditionsEqual\<close>: the two ways the code decides whether anything changed agree.
\<close>

theorem transitions_iff_changed:
  assumes "distinct (map cond_Type old)" and "distinct (map cond_Type new)"
  shows "HasTransitions old new \<longleftrightarrow> \<not> ConditionsEqual old new"
  by (rule HasTransitions_ConditionsEqual[OF assms])

theorem transitions_iff_changed_witness:
  "HasTransitions [mk_cond ''A'' ConditionTrue ''r'' [] 1] [mk_cond ''A'' ConditionFalse ''r'' [] 1] \<longleftrightarrow>
   \<not> ConditionsEqual [mk_cond ''A'' ConditionTrue ''r'' [] 1] [mk_cond ''A'' ConditionFalse ''r'' [] 1]"
  by (rule transitions_iff_changed) simp_all

text \<open>
  Whenever the object carries a condition of a type that is not among the applied ones,
  \<^verbatim>\<open>ApplyCondition\<close> calls the API server, even when the applied conditions are all there already, and
  reports the other condition as removed.
\<close>

theorem apply_condition_reports_unrelated:
  assumes "d \<in> set old" and "cond_Type d \<notin> cond_Type ` set new" and "new \<noteq> []"
  shows "\<exists>sent ts. ApplyCondition old new = Some (sent, ts) \<and>
    (\<exists>t\<in>set ts. tr_Type t = TransitionRemoved \<and> tr_ConditionType t = cond_Type d)"
proof -
  let ?new = "map (preserve_time old) new"
  have types: "cond_Type ` set ?new = cond_Type ` set new" by (simp add: image_image)
  obtain ts m where s: "scan_new (cond_map old) ?new = (ts, m)" by fastforce
  have m: "m = cond_map old |` (- cond_Type ` set ?new)" using scan_new_rest[of "cond_map old" ?new] s by simp
  obtain e where e: "cond_map old (cond_Type d) = Some e" using assms(1) cond_map_dom[of old "cond_Type d"] by auto
  have et: "cond_Type e = cond_Type d" using e by (auto simp: cond_map_def dest!: map_of_SomeD)
  have "m (cond_Type d) = Some e" using e assms(2) types by (simp add: m restrict_map_def)
  then have "\<exists>t\<in>set (removed_of m (cond_Type d)). tr_Type t = TransitionRemoved \<and> tr_ConditionType t = cond_Type d"
    using et by (simp add: removed_of_def)
  moreover have "set (removed_of m (cond_Type d)) \<subseteq> set (DetectTransitions old ?new)"
    using assms(1) s by (auto simp: DetectTransitions_def)
  ultimately show ?thesis using assms(3) by (auto simp: ApplyCondition_def Let_def)
qed

theorem apply_condition_reports_unrelated_witness:
  "\<exists>sent ts. ApplyCondition [mk_cond ''Ready'' ConditionTrue ''r'' [] 1, mk_cond ''Draining'' ConditionFalse ''d'' [] 1]
       [mk_cond ''Draining'' ConditionFalse ''d'' [] 1] = Some (sent, ts) \<and>
     (\<exists>t\<in>set ts. tr_Type t = TransitionRemoved \<and> tr_ConditionType t = ''Ready'')"
  using apply_condition_reports_unrelated[of "mk_cond ''Ready'' ConditionTrue ''r'' [] 1"
      "[mk_cond ''Ready'' ConditionTrue ''r'' [] 1, mk_cond ''Draining'' ConditionFalse ''d'' [] 1]"
      "[mk_cond ''Draining'' ConditionFalse ''d'' [] 1]"] by simp

end
