(* ===== verification/Device_Plugin.thy ===== *)
theory Device_Plugin
  imports Nic_Selector
begin

text \<open>
  The configuration of the SR-IOV device plugin of one node:
  \<^verbatim>\<open>renderDevicePluginConfigData\<close>, \<^verbatim>\<open>createDevicePluginResource\<close>, \<^verbatim>\<open>updateDevicePluginResource\<close> and
  \<^verbatim>\<open>resolvePfNames\<close> of \<^verbatim>\<open>src/controllers/sriovnetworknodepolicy_controller.go\<close>. The code keeps the
  selectors of a resource as encoded JSON and decodes them to extend them; the model keeps the
  decoded record, because encoding and decoding these string lists and flags is the identity.
\<close>

section \<open>Types\<close>

record NetDeviceSelectors =
  nd_Vendors :: "string list"
  nd_Devices :: "string list"
  nd_PciAddresses :: "string list"
  nd_PfNames :: "string list"
  nd_RootDevices :: "string list"
  nd_LinkTypes :: "string list"
  nd_IsRdma :: bool
  nd_NeedVhostNet :: bool
  nd_VdpaType :: string

record ResourceConfig =
  rc_ResourceName :: string
  rc_ExcludeTopology :: bool
  rc_Selectors :: NetDeviceSelectors

datatype dp_error = DpPanic panic | DpNoInterfaces string

section \<open>Operations\<close>

definition resolvePfNames :: "string list \<Rightarrow> SriovNetworkNodeState \<Rightarrow> string list" where
  "resolvePfNames pfNames nodeState =
     map (\<lambda>pfName.
            if CHR ''#'' \<in> set pfName
            then ResolveInterfaceName (takeWhile (\<lambda>c. c \<noteq> CHR ''#'') pfName) (Some nodeState)
                   @ dropWhile (\<lambda>c. c \<noteq> CHR ''#'') pfName
            else ResolveInterfaceName pfName (Some nodeState)) pfNames"

definition resourceNameInList :: "string \<Rightarrow> ResourceConfig list \<Rightarrow> nat option" where
  "resourceNameInList nm rcl = find_index (\<lambda>rc. rc_ResourceName rc = nm) rcl"

text \<open>The device ID of the selector, translated to that of the VFs unless the policy makes none.\<close>

definition add_device ::
    "string list \<Rightarrow> SriovNetworkNodePolicySpec \<Rightarrow> string list \<Rightarrow> dp_error + string list" where
  "add_device nicIDMap spec devices =
     (if sel_DeviceID (ps_NicSelector spec) = [] then Inr devices
      else res_bind
        (if ps_NumVfs spec = 0 then Inr (sel_DeviceID (ps_NicSelector spec))
         else map_err DpPanic (GetVfDeviceID nicIDMap (sel_DeviceID (ps_NicSelector spec))))
        (\<lambda>deviceID.
          Inr (if \<not> StringInArray deviceID devices \<and> deviceID \<noteq> [] then devices @ [deviceID]
               else devices)))"

definition add_link_type :: "SriovNetworkNodePolicySpec \<Rightarrow> string list \<Rightarrow> string list" where
  "add_link_type spec linkTypes =
     (if ps_DeviceType spec \<noteq> DeviceTypeVfioPci \<and> ps_LinkType spec \<noteq> []
      then UniqueAppend linkTypes
        [if equal_fold (ps_LinkType spec) LinkTypeIB then LinkTypeInfiniband else LinkTypeEthernet]
      else linkTypes)"

definition matching_addresses :: "string \<Rightarrow> SriovNetworkNodeState \<Rightarrow> string list" where
  "matching_addresses netFilter nodeState =
     map ie_PciAddress
       (filter (\<lambda>i. NetFilterMatch netFilter (ie_NetFilter i)) (nst_Interfaces (state_Status nodeState)))"

definition createDevicePluginResource ::
    "string list \<Rightarrow> SriovNetworkNodePolicy \<Rightarrow> SriovNetworkNodeState \<Rightarrow> dp_error + ResourceConfig" where
  "createDevicePluginResource nicIDMap p nodeState =
     (let spec = pol_Spec p; sel = ps_NicSelector spec in
      res_bind (add_device nicIDMap spec []) (\<lambda>devices.
      res_bind
        (if sel_NetFilter sel = [] then Inr []
         else if nst_Interfaces (state_Status nodeState) = []
         then Inl (DpNoInterfaces (state_Name nodeState))
         else Inr (UniqueAppend [] (matching_addresses (sel_NetFilter sel) nodeState)))
        (\<lambda>addresses.
          Inr \<lparr>rc_ResourceName = ps_ResourceName spec,
               rc_ExcludeTopology = ps_ExcludeTopology spec,
               rc_Selectors =
                 \<lparr>nd_Vendors = (if sel_Vendor sel \<noteq> [] then [sel_Vendor sel] else []),
                  nd_Devices = devices,
                  nd_PciAddresses = addresses,
                  nd_PfNames = (if sel_PfNames sel \<noteq> []
                                then UniqueAppend [] (resolvePfNames (sel_PfNames sel) nodeState) else []),
                  nd_RootDevices = sel_RootDevices sel,
                  nd_LinkTypes = add_link_type spec [],
                  nd_IsRdma = ps_IsRdma spec,
                  nd_NeedVhostNet = ps_NeedVhostNet spec,
                  nd_VdpaType = ps_VdpaType spec\<rparr>\<rparr>)))"

definition updateDevicePluginResource ::
    "string list \<Rightarrow> ResourceConfig \<Rightarrow> SriovNetworkNodePolicy \<Rightarrow> SriovNetworkNodeState \<Rightarrow>
     dp_error + ResourceConfig" where
  "updateDevicePluginResource nicIDMap rc p nodeState =
     (let spec = pol_Spec p; sel = ps_NicSelector spec; nd = rc_Selectors rc in
      res_bind (add_device nicIDMap spec (nd_Devices nd)) (\<lambda>devices.
        Inr (rc\<lparr>rc_ExcludeTopology := ps_ExcludeTopology spec,
                rc_Selectors := nd
                  \<lparr>nd_Vendors := (if sel_Vendor sel \<noteq> [] \<and> \<not> StringInArray (sel_Vendor sel) (nd_Vendors nd)
                                   then nd_Vendors nd @ [sel_Vendor sel] else nd_Vendors nd),
                   nd_Devices := devices,
                   nd_PciAddresses := (if sel_NetFilter sel \<noteq> []
                     then UniqueAppend (nd_PciAddresses nd) (matching_addresses (sel_NetFilter sel) nodeState)
                     else nd_PciAddresses nd),
                   nd_PfNames := (if sel_PfNames sel \<noteq> []
                     then UniqueAppend (nd_PfNames nd) (resolvePfNames (sel_PfNames sel) nodeState)
                     else nd_PfNames nd),
                   nd_RootDevices := UniqueAppend (nd_RootDevices nd) (sel_RootDevices sel),
                   nd_LinkTypes := add_link_type spec (nd_LinkTypes nd)\<rparr>\<rparr>)))"

text \<open>One turn of the loop over the policies, for a policy that selects the node.\<close>

definition add_policy_resource ::
    "string list \<Rightarrow> SriovNetworkNodeState \<Rightarrow> SriovNetworkNodePolicy \<Rightarrow> ResourceConfig list \<Rightarrow>
     dp_error + ResourceConfig list" where
  "add_policy_resource nicIDMap nodeState p rcl =
     (case resourceNameInList (ps_ResourceName (pol_Spec p)) rcl of
        Some i \<Rightarrow>
          res_bind (updateDevicePluginResource nicIDMap (rcl ! i) p nodeState) (\<lambda>rc. Inr (rcl[i := rc]))
      | None \<Rightarrow>
          res_bind (createDevicePluginResource nicIDMap p nodeState) (\<lambda>rc. Inr (rcl @ [rc])))"

definition applies_to :: "Node \<Rightarrow> SriovNetworkNodePolicy \<Rightarrow> bool" where
  "applies_to node p \<longleftrightarrow> pol_Name p \<noteq> DefaultPolicyName \<and> Selected p node"

text \<open>
  The node state is fetched in every turn; the controller writes nothing in between, so the model
  reads it once.
\<close>

definition renderDevicePluginConfigData ::
    "string list \<Rightarrow> SriovNetworkNodePolicy list \<Rightarrow> Node \<Rightarrow> SriovNetworkNodeState \<Rightarrow>
     dp_error + ResourceConfig list" where
  "renderDevicePluginConfigData nicIDMap pl node nodeState =
     fold_res (add_policy_resource nicIDMap nodeState) (filter (applies_to node) pl) []"

section \<open>What the policies ask for\<close>

text \<open>
  What one policy adds to the selectors of its resource, as sets. The device plugin advertises a device when it is in
  every list that is not empty, so an element too much or too few changes what pods get.
\<close>

definition wants_vendors :: "SriovNetworkNodePolicy \<Rightarrow> string set" where
  "wants_vendors p = {sel_Vendor (ps_NicSelector (pol_Spec p))} - {[]}"

definition wants_devices :: "string list \<Rightarrow> SriovNetworkNodePolicy \<Rightarrow> string set" where
  "wants_devices m p =
     (let d = sel_DeviceID (ps_NicSelector (pol_Spec p)) in
      {v. v \<noteq> [] \<and> d \<noteq> [] \<and> (if ps_NumVfs (pol_Spec p) = 0 then v = d else GetVfDeviceID m d = Inr v)})"

definition wants_addresses :: "SriovNetworkNodeState \<Rightarrow> SriovNetworkNodePolicy \<Rightarrow> string set" where
  "wants_addresses ns p =
     (let f = sel_NetFilter (ps_NicSelector (pol_Spec p)) in
      {a. f \<noteq> [] \<and> (\<exists>i\<in>set (nst_Interfaces (state_Status ns)). NetFilterMatch f (ie_NetFilter i) \<and> a = ie_PciAddress i)})"

definition wants_link_types :: "SriovNetworkNodePolicy \<Rightarrow> string set" where
  "wants_link_types p =
     (if ps_DeviceType (pol_Spec p) = DeviceTypeVfioPci \<or> ps_LinkType (pol_Spec p) = [] then {}
      else if equal_fold (ps_LinkType (pol_Spec p)) LinkTypeIB then {LinkTypeInfiniband} else {LinkTypeEthernet})"

text \<open>
  The resource for the policies \<open>ps\<close> of its name, in their order: the lists are the union of what they ask for, without
  repetitions; RDMA, vhost-net and the vdpa type are those of the first policy, and the topology setting that of the last.
\<close>

definition collects :: "string list \<Rightarrow> SriovNetworkNodeState \<Rightarrow> SriovNetworkNodePolicy list \<Rightarrow> ResourceConfig \<Rightarrow> bool" where
  "collects m ns ps rc \<longleftrightarrow>
     (let nd = rc_Selectors rc in
      ps \<noteq> [] \<and>
      set (nd_Vendors nd) = (\<Union>p\<in>set ps. wants_vendors p) \<and>
      set (nd_Devices nd) = (\<Union>p\<in>set ps. wants_devices m p) \<and>
      set (nd_PciAddresses nd) = (\<Union>p\<in>set ps. wants_addresses ns p) \<and>
      set (nd_PfNames nd) = (\<Union>p\<in>set ps. set (resolvePfNames (sel_PfNames (ps_NicSelector (pol_Spec p))) ns)) \<and>
      set (nd_RootDevices nd) = (\<Union>p\<in>set ps. set (sel_RootDevices (ps_NicSelector (pol_Spec p)))) \<and>
      set (nd_LinkTypes nd) = (\<Union>p\<in>set ps. wants_link_types p) \<and>
      distinct (nd_Vendors nd) \<and> distinct (nd_Devices nd) \<and> distinct (nd_PciAddresses nd) \<and>
      distinct (nd_PfNames nd) \<and> distinct (nd_LinkTypes nd) \<and>
      nd_IsRdma nd = ps_IsRdma (pol_Spec (hd ps)) \<and> nd_NeedVhostNet nd = ps_NeedVhostNet (pol_Spec (hd ps)) \<and>
      nd_VdpaType nd = ps_VdpaType (pol_Spec (hd ps)) \<and>
      rc_ExcludeTopology rc = ps_ExcludeTopology (pol_Spec (last ps)))"

definition for_resource :: "string \<Rightarrow> SriovNetworkNodePolicy list \<Rightarrow> SriovNetworkNodePolicy list" where
  "for_resource nm ps = filter (\<lambda>p. ps_ResourceName (pol_Spec p) = nm) ps"

definition resources_ok ::
    "string list \<Rightarrow> SriovNetworkNodeState \<Rightarrow> SriovNetworkNodePolicy list \<Rightarrow> ResourceConfig list \<Rightarrow> bool" where
  "resources_ok m ns ps rcl \<longleftrightarrow>
     distinct (map rc_ResourceName rcl) \<and>
     set (map rc_ResourceName rcl) = set (map (\<lambda>p. ps_ResourceName (pol_Spec p)) ps) \<and>
     (\<forall>rc\<in>set rcl. collects m ns (for_resource (rc_ResourceName rc) ps) rc)"

section \<open>One policy\<close>

lemma resolvePfNames_Nil [simp]: "resolvePfNames [] ns = []"
  by (simp add: resolvePfNames_def)

lemma add_device_collects:
  assumes "add_device m (pol_Spec p) ds = Inr ds'"
  shows "set ds' = set ds \<union> wants_devices m p" "distinct ds \<Longrightarrow> distinct ds'"
  using assms by (auto simp: add_device_def wants_devices_def Let_def res_bind_eq_Inr map_err_def split: if_splits sum.splits)

lemma add_link_type_collects:
  "set (add_link_type (pol_Spec p) ts) = set ts \<union> wants_link_types p"
  "distinct ts \<Longrightarrow> distinct (add_link_type (pol_Spec p) ts)"
  by (auto simp: add_link_type_def wants_link_types_def distinct_UniqueAppend)

lemma matching_addresses_set:
  "sel_NetFilter (ps_NicSelector (pol_Spec p)) \<noteq> [] \<Longrightarrow>
    set (matching_addresses (sel_NetFilter (ps_NicSelector (pol_Spec p))) ns) = wants_addresses ns p"
  "sel_NetFilter (ps_NicSelector (pol_Spec p)) = [] \<Longrightarrow> wants_addresses ns p = {}"
  by (auto simp: matching_addresses_def wants_addresses_def)

lemma create_collects:
  assumes "createDevicePluginResource m p ns = Inr rc"
  shows "rc_ResourceName rc = ps_ResourceName (pol_Spec p)" "collects m ns [p] rc"
proof -
  obtain ds where ds: "add_device m (pol_Spec p) [] = Inr ds" "nd_Devices (rc_Selectors rc) = ds"
    using assms by (auto simp: createDevicePluginResource_def Let_def res_bind_eq_Inr)
  show "rc_ResourceName rc = ps_ResourceName (pol_Spec p)"
    using assms by (auto simp: createDevicePluginResource_def Let_def res_bind_eq_Inr)
  show "collects m ns [p] rc" using assms add_device_collects[OF ds(1)] ds(2)
    by (auto simp: createDevicePluginResource_def Let_def res_bind_eq_Inr collects_def wants_vendors_def
      add_link_type_collects matching_addresses_set distinct_UniqueAppend split: if_splits)
qed

lemma Union_snoc: "(\<Union>q\<in>set (ps @ [p]). f q) = (\<Union>q\<in>set ps. f q) \<union> f p"
  by auto

lemma update_collects:
  assumes "updateDevicePluginResource m rc p ns = Inr rc'" and "collects m ns ps rc"
  shows "rc_ResourceName rc' = rc_ResourceName rc" "collects m ns (ps @ [p]) rc'"
proof -
  let ?nd = "rc_Selectors rc" and ?nd' = "rc_Selectors rc'" and ?sel = "ps_NicSelector (pol_Spec p)"
  obtain ds where ds: "add_device m (pol_Spec p) (nd_Devices ?nd) = Inr ds" "nd_Devices ?nd' = ds"
    using assms(1) by (auto simp: updateDevicePluginResource_def Let_def res_bind_eq_Inr)
  note d = add_device_collects[OF ds(1)]
  show "rc_ResourceName rc' = rc_ResourceName rc"
    using assms(1) by (auto simp: updateDevicePluginResource_def Let_def res_bind_eq_Inr)
  have flags: "nd_IsRdma ?nd' = nd_IsRdma ?nd" "nd_NeedVhostNet ?nd' = nd_NeedVhostNet ?nd"
    "nd_VdpaType ?nd' = nd_VdpaType ?nd" "rc_ExcludeTopology rc' = ps_ExcludeTopology (pol_Spec p)"
    using assms(1) by (auto simp: updateDevicePluginResource_def Let_def res_bind_eq_Inr)
  have "set (nd_Vendors ?nd') = set (nd_Vendors ?nd) \<union> wants_vendors p" "distinct (nd_Vendors ?nd) \<Longrightarrow> distinct (nd_Vendors ?nd')"
    "nd_LinkTypes ?nd' = add_link_type (pol_Spec p) (nd_LinkTypes ?nd)"
    using assms(1) by (auto simp: updateDevicePluginResource_def Let_def res_bind_eq_Inr wants_vendors_def split: if_splits)
  moreover have "set (nd_PciAddresses ?nd') = set (nd_PciAddresses ?nd) \<union> wants_addresses ns p"
    "distinct (nd_PciAddresses ?nd) \<Longrightarrow> distinct (nd_PciAddresses ?nd')"
    using assms(1) by (auto simp: updateDevicePluginResource_def Let_def res_bind_eq_Inr matching_addresses_set distinct_UniqueAppend split: if_splits)
  moreover have "set (nd_PfNames ?nd') = set (nd_PfNames ?nd) \<union> set (resolvePfNames (sel_PfNames ?sel) ns)"
    "distinct (nd_PfNames ?nd) \<Longrightarrow> distinct (nd_PfNames ?nd')"
    "set (nd_RootDevices ?nd') = set (nd_RootDevices ?nd) \<union> set (sel_RootDevices ?sel)"
    using assms(1) by (auto simp: updateDevicePluginResource_def Let_def res_bind_eq_Inr distinct_UniqueAppend split: if_splits)
  ultimately show "collects m ns (ps @ [p]) rc'"
    using assms(2) d ds(2) flags unfolding collects_def Let_def Union_snoc
    by (simp add: add_link_type_collects)
qed

section \<open>All policies\<close>

lemma for_resource_append [simp]:
  "for_resource nm (ps @ [p]) = for_resource nm ps @ (if ps_ResourceName (pol_Spec p) = nm then [p] else [])"
  by (simp add: for_resource_def)

lemma for_resource_new: "nm \<notin> set (map (\<lambda>p. ps_ResourceName (pol_Spec p)) ps) \<Longrightarrow> for_resource nm ps = []"
  by (auto simp: for_resource_def filter_empty_conv)

lemma add_policy_resource_ok:
  assumes "resources_ok m ns ps rcl" and "add_policy_resource m ns p rcl = Inr rcl'"
  shows "resources_ok m ns (ps @ [p]) rcl'"
proof (cases "resourceNameInList (ps_ResourceName (pol_Spec p)) rcl")
  case None
  then have new: "ps_ResourceName (pol_Spec p) \<notin> rc_ResourceName ` set rcl"
    by (auto simp: resourceNameInList_def find_index_None)
  then have "for_resource (ps_ResourceName (pol_Spec p)) ps = []"
    using assms(1) by (intro for_resource_new) (auto simp: resources_ok_def)
  moreover from None assms(2) obtain rc where "createDevicePluginResource m p ns = Inr rc" "rcl' = rcl @ [rc]"
    by (auto simp: add_policy_resource_def res_bind_eq_Inr)
  ultimately show ?thesis using assms(1) create_collects[of m p ns rc] new
    by (auto simp: resources_ok_def)
next
  case (Some i)
  then have i: "i < length rcl" "rc_ResourceName (rcl ! i) = ps_ResourceName (pol_Spec p)"
    using find_index_Some by (fastforce simp: resourceNameInList_def)+
  from Some assms(2) obtain rc where rc: "updateDevicePluginResource m (rcl ! i) p ns = Inr rc" "rcl' = rcl[i := rc]"
    by (auto simp: add_policy_resource_def res_bind_eq_Inr)
  have "rcl ! i \<in> set rcl" using i(1) by simp
  then have old: "collects m ns (for_resource (ps_ResourceName (pol_Spec p)) ps) (rcl ! i)"
    using assms(1) i(2) unfolding resources_ok_def by metis
  note u = update_collects[OF rc(1) old]
  have names: "map rc_ResourceName rcl' = map rc_ResourceName rcl"
    using u(1) i(1) by (simp add: rc(2) map_update) (metis list_update_id nth_map)
  have mem: "ps_ResourceName (pol_Spec p) \<in> set (map rc_ResourceName rcl)"
    using i by (metis length_map nth_map nth_mem)
  have "collects m ns (for_resource (rc_ResourceName r) (ps @ [p])) r" if r: "r \<in> set rcl'" for r
  proof -
    obtain j where j: "j < length rcl" "r = rcl' ! j" using r by (auto simp: in_set_conv_nth rc(2))
    show ?thesis
    proof (cases "j = i")
      case True
      then show ?thesis using u i j by (simp add: rc(2))
    next
      case False
      then have "r = rcl ! j" using j by (simp add: rc(2))
      moreover have "rc_ResourceName (rcl ! j) \<noteq> rc_ResourceName (rcl ! i)"
        using assms(1) False i(1) j(1) by (auto simp: resources_ok_def distinct_conv_nth)
      ultimately show ?thesis using assms(1) i(2) j(1) by (auto simp: resources_ok_def)
    qed
  qed
  then show ?thesis using assms(1) names mem unfolding resources_ok_def by auto
qed

lemma renderDevicePluginConfigData_ok:
  assumes "renderDevicePluginConfigData m pl node ns = Inr rcl"
  shows "resources_ok m ns (filter (applies_to node) pl) rcl"
proof -
  have "resources_ok m ns (ps @ qs) rcl'"
    if "fold_res (add_policy_resource m ns) qs rcl = Inr rcl'" "resources_ok m ns ps rcl" for ps qs rcl rcl'
    using that
  proof (induction qs arbitrary: ps rcl)
    case (Cons q qs)
    then obtain r where "add_policy_resource m ns q rcl = Inr r" "fold_res (add_policy_resource m ns) qs r = Inr rcl'"
      by (auto simp: res_bind_eq_Inr)
    then show ?case using Cons.IH[of r "ps @ [q]"] add_policy_resource_ok Cons.prems(2) by fastforce
  qed simp
  from this[OF assms[unfolded renderDevicePluginConfigData_def], of "[]"] show ?thesis
    by (simp add: resources_ok_def)
qed

section \<open>Properties\<close>

text \<open>
  C39: a rendered device plugin configuration has exactly one resource per resource name of the policies that
  apply to the node. The selector lists of a resource are exactly what the policies of its name ask for together, without
  repetitions: the vendors, the device IDs (of the VFs, or of the PF when no VFs are made), the PCI addresses
  the net filters match, the physical functions by their resolved names, the root devices and the link types
  (none for vfio-pci). RDMA, vhost-net and the vdpa type are those of the first of these policies, in the order of the list,
  and the topology setting is that of the last.
\<close>

theorem device_plugin_serves_policies:
  assumes "renderDevicePluginConfigData m pl node ns = Inr rcl"
  shows "distinct (map rc_ResourceName rcl) \<and>
    set (map rc_ResourceName rcl) = set (map (\<lambda>p. ps_ResourceName (pol_Spec p)) (filter (applies_to node) pl)) \<and>
    (\<forall>rc\<in>set rcl. collects m ns (for_resource (rc_ResourceName rc) (filter (applies_to node) pl)) rc)"
  using renderDevicePluginConfigData_ok[OF assms] by (simp add: resources_ok_def)

theorem device_plugin_serves_policies_witness:
  "\<exists>rc. renderDevicePluginConfigData [''8086 1593 1889'']
       [sample_policy ''p'' ''a'' 10 [''alt1#0-1''], sample_policy ''q'' ''a'' 10 [''ens1#2-3'']]
       (sample_node ''n'') (sample_state ''n'') = Inr [rc] \<and>
     set (nd_Vendors (rc_Selectors rc)) = {''8086''} \<and>
     set (nd_PfNames (rc_Selectors rc)) = {''ens1#0-1'', ''ens1#2-3''} \<and> distinct (nd_PfNames (rc_Selectors rc))"
proof -
  let ?ps = "[sample_policy ''p'' ''a'' 10 [''alt1#0-1''], sample_policy ''q'' ''a'' 10 [''ens1#2-3'']]"
  let ?r = "renderDevicePluginConfigData [''8086 1593 1889''] ?ps (sample_node ''n'') (sample_state ''n'')"
  have "map_sum id (map rc_ResourceName) ?r = Inr [''a'']" by code_simp
  then obtain rc where r: "?r = Inr [rc]" "rc_ResourceName rc = ''a''" by (cases ?r) auto
  have f: "for_resource ''a'' (filter (applies_to (sample_node ''n'')) ?ps) = ?ps"
    by (simp add: for_resource_def applies_to_def Selected_def sample_policy_def sample_node_def sample_meta_def)
  have n: "resolvePfNames [''alt1#0-1''] (sample_state ''n'') = [''ens1#0-1'']"
    "resolvePfNames [''ens1#2-3''] (sample_state ''n'') = [''ens1#2-3'']" by code_simp+
  have "collects [''8086 1593 1889''] (sample_state ''n'') ?ps rc"
    using device_plugin_serves_policies[OF r(1)] r(2) f by simp
  then have "set (nd_Vendors (rc_Selectors rc)) = {''8086''}"
    "set (nd_PfNames (rc_Selectors rc)) = {''ens1#0-1'', ''ens1#2-3''}" "distinct (nd_PfNames (rc_Selectors rc))"
    using n by (auto simp: collects_def Let_def wants_vendors_def sample_policy_def sample_selector_def)
  then show ?thesis using r(1) by blast
qed

end
