(* ===== verification/Net_Att_Def.thy ===== *)
theory Net_Att_Def
  imports Samples
begin

text \<open>
  The three network resources (\<^verbatim>\<open>src/api/v1/sriovnetwork_types.go\<close>, \<^verbatim>\<open>sriovibnetwork_types.go\<close>,
  \<^verbatim>\<open>ovsnetwork_types.go\<close>) and \<^verbatim>\<open>RenderNetAttDef\<close> of \<^verbatim>\<open>src/api/v1/helper.go\<close>, which fills the data of a
  template and renders a network attachment definition. The templates of
  \<^verbatim>\<open>src/bindata/manifests/cni-config\<close> are values of a small template language with the semantics of
  \<^verbatim>\<open>text/template\<close> under \<^verbatim>\<open>missingkey=error\<close>, the option \<^verbatim>\<open>src/pkg/render/render.go\<close> sets: reading a
  key that is not in the data fails. The YAML decoder that reads the rendered manifest is a parameter.
\<close>

section \<open>Resources\<close>

record GVK =
  gvk_Group :: string
  gvk_Version :: string
  gvk_Kind :: string

record SriovNetworkSpec =
  sn_NetworkNamespace :: string
  sn_ResourceName :: string
  sn_Capabilities :: string
  sn_IPAM :: string
  sn_Vlan :: int
  sn_VlanQoS :: int
  sn_VlanProto :: string
  sn_SpoofChk :: string
  sn_Trust :: string
  sn_LinkState :: string
  sn_MinTxRate :: "int option"
  sn_MaxTxRate :: "int option"
  sn_MetaPluginsConfig :: string
  sn_LogLevel :: string
  sn_LogFile :: string

record SriovIBNetworkSpec =
  ib_NetworkNamespace :: string
  ib_ResourceName :: string
  ib_Capabilities :: string
  ib_IPAM :: string
  ib_LinkState :: string
  ib_MetaPluginsConfig :: string

record TrunkConfig =
  tc_MinID :: "nat option"
  tc_MaxID :: "nat option"
  tc_ID :: "nat option"

record OVSNetworkSpec =
  on_NetworkNamespace :: string
  on_ResourceName :: string
  on_Capabilities :: string
  on_IPAM :: string
  on_MetaPluginsConfig :: string
  on_Bridge :: string
  on_Vlan :: nat
  on_MTU :: nat
  on_Trunk :: "TrunkConfig option list"
  on_InterfaceType :: string

text \<open>
  An instance of one of the three kinds. The deletion timestamp is zero or not; the conditions are
  the status.
\<close>

datatype network_spec =
    SriovSpec SriovNetworkSpec
  | IBSpec SriovIBNetworkSpec
  | OVSSpec OVSNetworkSpec

record NetworkCR =
  net_GVK :: GVK
  net_Meta :: ObjectMeta
  net_Finalizers :: "string list"
  net_Deleting :: bool
  net_Spec :: network_spec
  net_Conditions :: "Condition list"

abbreviation "net_Name cr \<equiv> om_Name (net_Meta cr)"
abbreviation "net_Namespace cr \<equiv> om_Namespace (net_Meta cr)"

definition NetworkNamespace :: "NetworkCR \<Rightarrow> string" where
  "NetworkNamespace cr =
     (case net_Spec cr of
        SriovSpec s \<Rightarrow> sn_NetworkNamespace s
      | IBSpec s \<Rightarrow> ib_NetworkNamespace s
      | OVSSpec s \<Rightarrow> on_NetworkNamespace s)"

text \<open>\<^verbatim>\<open>GroupKind.String\<close> and \<^verbatim>\<open>OwnerRefToString\<close>; \<open>None\<close> is the nil object.\<close>

definition group_kind :: "GVK \<Rightarrow> string" where
  "group_kind g = (if gvk_Group g = [] then gvk_Kind g else gvk_Kind g @ ''.'' @ gvk_Group g)"

definition OwnerRefToString :: "NetworkCR option \<Rightarrow> string" where
  "OwnerRefToString ocr =
     (case ocr of
        None \<Rightarrow> ''owner-object-not-found''
      | Some cr \<Rightarrow>
          if gvk_Group (net_GVK cr) = [] \<and> gvk_Version (net_GVK cr) = [] \<and> gvk_Kind (net_GVK cr) = []
          then ''unknown/'' @ net_Namespace cr @ ''/'' @ net_Name cr
          else group_kind (net_GVK cr) @ ''/'' @ net_Namespace cr @ ''/'' @ net_Name cr)"

section \<open>Templates\<close>

datatype render_value = RBool bool | RStr string | RInt int

datatype render_error = MissingKey string | DecodeError string

text \<open>Assignments to the data map in the order the code makes them; a later one wins.\<close>

type_synonym assigns = "(string \<times> render_value) list"

definition data_of :: "assigns \<Rightarrow> string \<rightharpoonup> render_value" where
  "data_of as = map_of (rev as)"

fun truthy :: "render_value \<Rightarrow> bool" where
  "truthy (RBool b) = b"
| "truthy (RStr s) = (s \<noteq> [])"
| "truthy (RInt i) = (i \<noteq> 0)"

fun show_value :: "render_value \<Rightarrow> string" where
  "show_value (RBool b) = (if b then ''true'' else ''false'')"
| "show_value (RStr s) = s"
| "show_value (RInt i) = itoa i"

datatype tmpl =
    Lit string
  | Val string
  | IfSet string "tmpl list"
  | IfEq string string "tmpl list"

fun exec_part :: "(string \<rightharpoonup> render_value) \<Rightarrow> tmpl \<Rightarrow> render_error + string"
and exec_parts :: "(string \<rightharpoonup> render_value) \<Rightarrow> tmpl list \<Rightarrow> render_error + string" where
  "exec_part d (Lit s) = Inr s"
| "exec_part d (Val k) = (case d k of None \<Rightarrow> Inl (MissingKey k) | Some v \<Rightarrow> Inr (show_value v))"
| "exec_part d (IfSet k ps) =
     (case d k of None \<Rightarrow> Inl (MissingKey k) | Some v \<Rightarrow> if truthy v then exec_parts d ps else Inr [])"
| "exec_part d (IfEq k s ps) =
     (case d k of None \<Rightarrow> Inl (MissingKey k) | Some v \<Rightarrow> if v = RStr s then exec_parts d ps else Inr [])"
| "exec_parts d [] = Inr []"
| "exec_parts d (p # ps) = res_bind (exec_part d p) (\<lambda>s. res_bind (exec_parts d ps) (\<lambda>t. Inr (s @ t)))"

definition newline :: string where "newline = [CHR 0x0A]"

definition qt :: "string \<Rightarrow> string" where "qt s = CHR 0x22 # s @ [CHR 0x22]"

text \<open>
  The places of a manifest that the template fills: name, namespace, the two annotations and the
  text of the CNI configuration. Whitespace next to a trimming action is gone.
\<close>

record manifest =
  mf_Name :: string
  mf_Namespace :: string
  mf_ResourceName :: string
  mf_Owner :: string
  mf_Config :: string

text \<open>The network attachment definition that the manifest decodes to.\<close>

record NetAttDef =
  nad_Name :: string
  nad_Namespace :: string
  nad_Annotations :: "(string \<times> string) list"
  nad_OwnerReferences :: "string list"
  nad_Config :: string

definition sriov_config_template :: "tmpl list" where
  "sriov_config_template =
     [Lit (''{'' @ newline @ ''  '' @ qt ''cniVersion'' @ '':'' @ qt ''1.0.0'' @ '','' @ newline),
      Lit (''  '' @ qt ''name'' @ '':\"''), Val ''SriovNetworkName'', Lit ''\",'',
      IfSet ''MetaPluginsConfigured'' [Lit (qt ''plugins'' @ '': ['' @ newline @ ''    {'')],
      Lit (qt ''type'' @ '':\"''), Val ''CniType'', Lit ''\",'',
      IfEq ''CniType'' ''sriov''
       [Lit (qt ''vlan'' @ '':''), Val ''SriovCniVlan'', Lit '','',
        IfSet ''SpoofChkConfigured'' [Lit (qt ''spoofchk'' @ '':\"''), Val ''SriovCniSpoofChk'', Lit ''\",''],
        IfSet ''TrustConfigured'' [Lit (qt ''trust'' @ '':\"''), Val ''SriovCniTrust'', Lit ''\",''],
        IfSet ''VlanQoSConfigured'' [Lit (qt ''vlanQoS'' @ '':''), Val ''SriovCniVlanQoS'', Lit '',''],
        IfSet ''VlanProtoConfigured'' [Lit (qt ''vlanProto'' @ '':\"''), Val ''SriovCniVlanProto'', Lit ''\",''],
        IfSet ''MinTxRateConfigured'' [Lit (qt ''min_tx_rate'' @ '':''), Val ''SriovCniMinTxRate'', Lit '',''],
        IfSet ''MaxTxRateConfigured'' [Lit (qt ''max_tx_rate'' @ '':''), Val ''SriovCniMaxTxRate'', Lit '','']],
      IfSet ''CapabilitiesConfigured'' [Lit (qt ''capabilities'' @ '':''), Val ''SriovCniCapabilities'', Lit '',''],
      IfSet ''StateConfigured'' [Lit (qt ''link_state'' @ '':\"''), Val ''SriovCniState'', Lit ''\",''],
      IfSet ''LogLevelConfigured'' [Lit (qt ''logLevel'' @ '':\"''), Val ''LogLevel'', Lit ''\",''],
      IfSet ''LogFileConfigured'' [Lit (qt ''logFile'' @ '':\"''), Val ''LogFile'', Lit ''\",''],
      Val ''SriovCniIpam'', Lit (newline @ ''}''),
      IfSet ''MetaPluginsConfigured''
       [Lit ('','' @ newline @ ''  ''), Val ''MetaPlugins'', Lit (newline @ ''  ]'' @ newline @ ''}'')]]"

definition ovs_config_template :: "tmpl list" where
  "ovs_config_template =
     [Lit (''{'' @ newline @ ''  '' @ qt ''cniVersion'' @ '':'' @ qt ''1.0.0'' @ '','' @ newline),
      Lit (''  '' @ qt ''name'' @ '':\"''), Val ''NetworkName'', Lit ''\",'',
      IfSet ''MetaPluginsConfigured'' [Lit (qt ''plugins'' @ '': ['' @ newline @ ''    {'')],
      Lit (qt ''type'' @ '':\"''), Val ''CniType'', Lit ''\",'',
      IfSet ''CapabilitiesConfigured'' [Lit (qt ''capabilities'' @ '':''), Val ''CniCapabilities'', Lit '',''],
      IfSet ''Bridge'' [Lit (qt ''bridge'' @ '':\"''), Val ''Bridge'', Lit ''\",''],
      IfSet ''VlanTag'' [Lit (qt ''vlan'' @ '':''), Val ''VlanTag'', Lit '',''],
      IfSet ''MTU'' [Lit (qt ''mtu'' @ '':''), Val ''MTU'', Lit '',''],
      IfSet ''Trunk'' [Lit (qt ''trunk'' @ '':''), Val ''Trunk'', Lit '',''],
      IfSet ''InterfaceType'' [Lit (qt ''interface_type'' @ '':\"''), Val ''InterfaceType'', Lit ''\",''],
      Val ''CniIpam'', Lit (newline @ ''}''),
      IfSet ''MetaPluginsConfigured''
       [Lit ('','' @ newline @ ''  ''), Val ''MetaPlugins'', Lit (newline @ ''  ]'' @ newline @ ''}'')]]"

text \<open>Executing a whole template: the metadata keys, then the configuration.\<close>

definition exec_manifest ::
    "string \<Rightarrow> string \<Rightarrow> string \<Rightarrow> tmpl list \<Rightarrow> (string \<rightharpoonup> render_value) \<Rightarrow> render_error + manifest" where
  "exec_manifest kname kns kres config d =
     res_bind (exec_part d (Val kname)) (\<lambda>nm.
     res_bind (exec_part d (Val kns)) (\<lambda>ns.
     res_bind (exec_part d (Val kres)) (\<lambda>res.
     res_bind (exec_part d (Val ''Owner'')) (\<lambda>own.
     res_bind (exec_parts d config) (\<lambda>cfg.
       Inr \<lparr>mf_Name = nm, mf_Namespace = ns, mf_ResourceName = res, mf_Owner = own, mf_Config = cfg\<rparr>)))))"

definition sriov_template :: "(string \<rightharpoonup> render_value) \<Rightarrow> render_error + manifest" where
  "sriov_template =
     exec_manifest ''SriovNetworkName'' ''SriovNetworkNamespace'' ''SriovCniResourceName'' sriov_config_template"

definition ovs_template :: "(string \<rightharpoonup> render_value) \<Rightarrow> render_error + manifest" where
  "ovs_template = exec_manifest ''NetworkName'' ''NetworkNamespace'' ''CniResourceName'' ovs_config_template"

section \<open>The data of the templates\<close>

definition SriovCniIpam :: string where "SriovCniIpam = qt ''ipam''"
definition SriovCniIpamEmpty :: string where "SriovCniIpamEmpty = SriovCniIpam @ '':{}''"

definition ipam_text :: "string \<Rightarrow> string" where
  "ipam_text ipam =
     (if ipam \<noteq> [] then SriovCniIpam @ '':'' @ join_with [] (Fields ipam) else SriovCniIpamEmpty)"

definition link_state_assigns :: "string \<Rightarrow> assigns" where
  "link_state_assigns st =
     [(''StateConfigured'', RBool True)] @
     (if st = ''enable'' then [(''SriovCniState'', RStr ''enable'')]
      else if st = ''disable'' then [(''SriovCniState'', RStr ''disable'')]
      else if st = ''auto'' then [(''SriovCniState'', RStr ''auto'')]
      else [(''StateConfigured'', RBool False)])"

definition capabilities_assigns :: "string \<Rightarrow> string \<Rightarrow> assigns" where
  "capabilities_assigns key cap =
     (if cap = [] then [(''CapabilitiesConfigured'', RBool False)]
      else [(''CapabilitiesConfigured'', RBool True), (key, RStr cap)])"

definition meta_assigns :: "string \<Rightarrow> assigns" where
  "meta_assigns mp =
     [(''MetaPluginsConfigured'', RBool False)] @
     (if mp \<noteq> [] then [(''MetaPluginsConfigured'', RBool True), (''MetaPlugins'', RStr mp)] else [])"

definition rate_assigns :: "string \<Rightarrow> string \<Rightarrow> int option \<Rightarrow> assigns" where
  "rate_assigns flag key r =
     [(flag, RBool False)] @
     (case r of
        None \<Rightarrow> []
      | Some v \<Rightarrow> if v \<ge> 0 then [(flag, RBool True), (key, RInt v)] else [])"

definition on_off_assigns :: "string \<Rightarrow> string \<Rightarrow> string \<Rightarrow> assigns" where
  "on_off_assigns flag key v =
     [(flag, RBool True)] @
     (if v = ''off'' then [(key, RStr ''off'')]
      else if v = ''on'' then [(key, RStr ''on'')]
      else [(flag, RBool False)])"

text \<open>The namespace of the attachment.\<close>

definition target_namespace :: "NetworkCR \<Rightarrow> string" where
  "target_namespace cr = (if NetworkNamespace cr = [] then net_Namespace cr else NetworkNamespace cr)"

definition ib_assigns :: "string \<Rightarrow> NetworkCR \<Rightarrow> SriovIBNetworkSpec \<Rightarrow> assigns" where
  "ib_assigns prefix cr s =
     [(''CniType'', RStr ''ib-sriov''), (''SriovNetworkName'', RStr (net_Name cr))] @
     (if ib_NetworkNamespace s = [] then [(''SriovNetworkNamespace'', RStr (net_Namespace cr))]
      else [(''SriovNetworkNamespace'', RStr (ib_NetworkNamespace s))]) @
     [(''Owner'', RStr (OwnerRefToString (Some cr))),
      (''SriovCniResourceName'', RStr (prefix @ ''/'' @ ib_ResourceName s))] @
     link_state_assigns (ib_LinkState s) @
     capabilities_assigns ''SriovCniCapabilities'' (ib_Capabilities s) @
     [(''SriovCniIpam'', RStr (ipam_text (ib_IPAM s)))] @
     meta_assigns (ib_MetaPluginsConfig s) @
     [(''LogLevelConfigured'', RBool False), (''LogFileConfigured'', RBool False)]"

definition sriov_assigns :: "string \<Rightarrow> NetworkCR \<Rightarrow> SriovNetworkSpec \<Rightarrow> assigns" where
  "sriov_assigns prefix cr s =
     [(''CniType'', RStr ''sriov''), (''SriovNetworkName'', RStr (net_Name cr))] @
     (if sn_NetworkNamespace s = [] then [(''SriovNetworkNamespace'', RStr (net_Namespace cr))]
      else [(''SriovNetworkNamespace'', RStr (sn_NetworkNamespace s))]) @
     [(''Owner'', RStr (OwnerRefToString (Some cr))),
      (''SriovCniResourceName'', RStr (prefix @ ''/'' @ sn_ResourceName s)),
      (''SriovCniVlan'', RInt (sn_Vlan s))] @
     (if sn_VlanQoS s \<le> 7 \<and> sn_VlanQoS s \<ge> 0
      then [(''VlanQoSConfigured'', RBool True), (''SriovCniVlanQoS'', RInt (sn_VlanQoS s))]
      else [(''VlanQoSConfigured'', RBool False)]) @
     [(''VlanProtoConfigured'', RBool False)] @
     (if sn_VlanProto s \<noteq> []
      then [(''VlanProtoConfigured'', RBool True), (''SriovCniVlanProto'', RStr (sn_VlanProto s))] else []) @
     capabilities_assigns ''SriovCniCapabilities'' (sn_Capabilities s) @
     on_off_assigns ''SpoofChkConfigured'' ''SriovCniSpoofChk'' (sn_SpoofChk s) @
     on_off_assigns ''TrustConfigured'' ''SriovCniTrust'' (sn_Trust s) @
     link_state_assigns (sn_LinkState s) @
     rate_assigns ''MinTxRateConfigured'' ''SriovCniMinTxRate'' (sn_MinTxRate s) @
     rate_assigns ''MaxTxRateConfigured'' ''SriovCniMaxTxRate'' (sn_MaxTxRate s) @
     [(''SriovCniIpam'', RStr (ipam_text (sn_IPAM s)))] @
     meta_assigns (sn_MetaPluginsConfig s) @
     [(''LogLevelConfigured'', RBool (sn_LogLevel s \<noteq> [])), (''LogLevel'', RStr (sn_LogLevel s)),
      (''LogFileConfigured'', RBool (sn_LogFile s \<noteq> [])), (''LogFile'', RStr (sn_LogFile s))]"

text \<open>\<^verbatim>\<open>json.Marshal\<close> of the trunk configurations: nil fields are left out, a nil entry is \<^verbatim>\<open>null\<close>.\<close>

definition trunk_json :: "TrunkConfig option \<Rightarrow> string" where
  "trunk_json ot =
     (case ot of
        None \<Rightarrow> ''null''
      | Some t \<Rightarrow>
          ''{'' @
          join_with '',''
            (map (\<lambda>(k, v). qt k @ '':'' @ itoa_nat v)
              (concat (map (\<lambda>(k, ov). case ov of None \<Rightarrow> [] | Some v \<Rightarrow> [(k, v)])
                 [(''minID'', tc_MinID t), (''maxID'', tc_MaxID t), (''id'', tc_ID t)]))) @ ''}'')"

definition trunks_json :: "TrunkConfig option list \<Rightarrow> string" where
  "trunks_json ts = ''['' @ join_with '','' (map trunk_json ts) @ '']''"

definition ovs_assigns :: "string \<Rightarrow> NetworkCR \<Rightarrow> OVSNetworkSpec \<Rightarrow> assigns" where
  "ovs_assigns prefix cr s =
     [(''CniType'', RStr ''ovs''), (''NetworkName'', RStr (net_Name cr))] @
     (if on_NetworkNamespace s = [] then [(''NetworkNamespace'', RStr (net_Namespace cr))]
      else [(''NetworkNamespace'', RStr (on_NetworkNamespace s))]) @
     [(''Owner'', RStr (OwnerRefToString (Some cr))),
      (''CniResourceName'', RStr (prefix @ ''/'' @ on_ResourceName s))] @
     capabilities_assigns ''CniCapabilities'' (on_Capabilities s) @
     [(''Bridge'', RStr (on_Bridge s)), (''VlanTag'', RInt (int (on_Vlan s))), (''MTU'', RInt (int (on_MTU s)))] @
     (if length (on_Trunk s) > 0 then [(''Trunk'', RStr (trunks_json (on_Trunk s)))] else [(''Trunk'', RStr [])]) @
     [(''InterfaceType'', RStr (on_InterfaceType s))] @
     [(''CniIpam'', RStr (ipam_text (on_IPAM s)))] @
     meta_assigns (on_MetaPluginsConfig s)"

text \<open>\<^verbatim>\<open>RenderNetAttDef\<close> up to decoding: data, then the template of the kind.\<close>

definition RenderNetAttDef :: "string \<Rightarrow> NetworkCR \<Rightarrow> render_error + manifest" where
  "RenderNetAttDef prefix cr =
     (case net_Spec cr of
        SriovSpec s \<Rightarrow> sriov_template (data_of (sriov_assigns prefix cr s))
      | IBSpec s \<Rightarrow> sriov_template (data_of (ib_assigns prefix cr s))
      | OVSSpec s \<Rightarrow> ovs_template (data_of (ovs_assigns prefix cr s)))"

section \<open>What is rendered\<close>

text \<open>
  The reference: a CNI configuration as a list of optional fields, written from the specification
  without the data map, and its text.
\<close>

definition str_field :: "string \<Rightarrow> string \<Rightarrow> (string \<times> string) list" where
  "str_field k v = [(k, qt v)]"

definition cni_fields_text :: "(string \<times> string) list \<Rightarrow> string" where
  "cni_fields_text fs = concat (map (\<lambda>(k, v). qt k @ '':'' @ v @ '','') fs)"

definition cni_text :: "string \<Rightarrow> (string \<times> string) list \<Rightarrow> string \<Rightarrow> string \<Rightarrow> string" where
  "cni_text nm fs ipam meta =
     ''{'' @ newline @ ''  '' @ qt ''cniVersion'' @ '':'' @ qt ''1.0.0'' @ '','' @ newline @
     ''  '' @ qt ''name'' @ '':'' @ qt nm @ '','' @
     (if meta = [] then [] else qt ''plugins'' @ '': ['' @ newline @ ''    {'') @
     cni_fields_text fs @ ipam_text ipam @ newline @ ''}'' @
     (if meta = [] then [] else '','' @ newline @ ''  '' @ meta @ newline @ ''  ]'' @ newline @ ''}'')"

definition capabilities_field :: "string \<Rightarrow> (string \<times> string) list" where
  "capabilities_field cap = (if cap = [] then [] else [(''capabilities'', cap)])"

definition link_state_field :: "string \<Rightarrow> (string \<times> string) list" where
  "link_state_field st = (if st \<in> {''enable'', ''disable'', ''auto''} then str_field ''link_state'' st else [])"

definition rate_field :: "string \<Rightarrow> int option \<Rightarrow> (string \<times> string) list" where
  "rate_field k r = (case r of None \<Rightarrow> [] | Some v \<Rightarrow> if v < 0 then [] else [(k, itoa v)])"

definition on_off_field :: "string \<Rightarrow> string \<Rightarrow> (string \<times> string) list" where
  "on_off_field k v = (if v \<in> {''on'', ''off''} then str_field k v else [])"

definition opt_str_field :: "string \<Rightarrow> string \<Rightarrow> (string \<times> string) list" where
  "opt_str_field k v = (if v = [] then [] else str_field k v)"

definition sriov_fields :: "SriovNetworkSpec \<Rightarrow> (string \<times> string) list" where
  "sriov_fields s =
     str_field ''type'' ''sriov'' @ [(''vlan'', itoa (sn_Vlan s))] @
     on_off_field ''spoofchk'' (sn_SpoofChk s) @ on_off_field ''trust'' (sn_Trust s) @
     (if sn_VlanQoS s \<in> {0..7} then [(''vlanQoS'', itoa (sn_VlanQoS s))] else []) @
     opt_str_field ''vlanProto'' (sn_VlanProto s) @
     rate_field ''min_tx_rate'' (sn_MinTxRate s) @ rate_field ''max_tx_rate'' (sn_MaxTxRate s) @
     capabilities_field (sn_Capabilities s) @ link_state_field (sn_LinkState s) @
     opt_str_field ''logLevel'' (sn_LogLevel s) @ opt_str_field ''logFile'' (sn_LogFile s)"

definition ib_fields :: "SriovIBNetworkSpec \<Rightarrow> (string \<times> string) list" where
  "ib_fields s =
     str_field ''type'' ''ib-sriov'' @ capabilities_field (ib_Capabilities s) @ link_state_field (ib_LinkState s)"

definition ovs_fields :: "OVSNetworkSpec \<Rightarrow> (string \<times> string) list" where
  "ovs_fields s =
     str_field ''type'' ''ovs'' @ capabilities_field (on_Capabilities s) @ opt_str_field ''bridge'' (on_Bridge s) @
     (if on_Vlan s = 0 then [] else [(''vlan'', itoa (int (on_Vlan s)))]) @
     (if on_MTU s = 0 then [] else [(''mtu'', itoa (int (on_MTU s)))]) @
     (if on_Trunk s = [] then [] else [(''trunk'', trunks_json (on_Trunk s))]) @
     opt_str_field ''interface_type'' (on_InterfaceType s)"

definition cni_config :: "NetworkCR \<Rightarrow> string" where
  "cni_config cr =
     (case net_Spec cr of
        SriovSpec s \<Rightarrow> cni_text (net_Name cr) (sriov_fields s) (sn_IPAM s) (sn_MetaPluginsConfig s)
      | IBSpec s \<Rightarrow> cni_text (net_Name cr) (ib_fields s) (ib_IPAM s) (ib_MetaPluginsConfig s)
      | OVSSpec s \<Rightarrow> cni_text (net_Name cr) (ovs_fields s) (on_IPAM s) (on_MetaPluginsConfig s))"

definition resource_name :: "NetworkCR \<Rightarrow> string" where
  "resource_name cr =
     (case net_Spec cr of SriovSpec s \<Rightarrow> sn_ResourceName s | IBSpec s \<Rightarrow> ib_ResourceName s
      | OVSSpec s \<Rightarrow> on_ResourceName s)"

text \<open>Lookups: the last block of assignments that sets a key decides.\<close>

lemma data_of_append: "data_of (a @ b) = data_of a ++ data_of b"
  by (simp add: data_of_def)

lemma data_of_Nil [simp]: "data_of [] = Map.empty"
  by (simp add: data_of_def)

lemma data_of_Cons: "data_of (p # b) = [fst p \<mapsto> snd p] ++ data_of b"
  by (cases p) (simp add: data_of_def)

lemmas data_defs = link_state_assigns_def capabilities_assigns_def meta_assigns_def rate_assigns_def
  on_off_assigns_def

lemma data_lookup:
  "data_of (link_state_assigns st) k =
     (if k = ''StateConfigured'' then Some (RBool (st \<in> {''enable'', ''disable'', ''auto''}))
      else if k = ''SriovCniState'' \<and> st \<in> {''enable'', ''disable'', ''auto''} then Some (RStr st) else None)"
  "data_of (capabilities_assigns key cap) k =
     (if k = key \<and> cap \<noteq> [] then Some (RStr cap)
      else if k = ''CapabilitiesConfigured'' then Some (RBool (cap \<noteq> [])) else None)"
  "data_of (meta_assigns mp) k =
     (if k = ''MetaPluginsConfigured'' then Some (RBool (mp \<noteq> []))
      else if k = ''MetaPlugins'' \<and> mp \<noteq> [] then Some (RStr mp) else None)"
  by (auto simp: data_defs data_of_def)

lemma data_lookup_flag:
  assumes "flag \<noteq> key"
  shows "data_of (rate_assigns flag key r) k =
     (if k = flag then Some (RBool (rate_field flag r \<noteq> []))
      else if k = key then (case r of None \<Rightarrow> None | Some v \<Rightarrow> if v < 0 then None else Some (RInt v)) else None)"
    and "data_of (on_off_assigns flag key v) k =
     (if k = flag then Some (RBool (v \<in> {''on'', ''off''}))
      else if k = key \<and> v \<in> {''on'', ''off''} then Some (RStr v) else None)"
  using assms by (auto simp: data_defs data_of_def rate_field_def split: option.splits)

lemma data_of_if: "data_of (if b then x else y) k = (if b then data_of x k else data_of y k)"
  by simp

lemmas data_simps = data_of_append data_of_Cons map_add_def data_lookup data_lookup_flag data_of_if

lemma exec_parts_append:
  "exec_parts d (a @ b) = res_bind (exec_parts d a) (\<lambda>s. res_bind (exec_parts d b) (\<lambda>t. Inr (s @ t)))"
  by (induction a) (auto simp: res_bind_def split: sum.splits)

text \<open>A conditional part of a template renders an optional field.\<close>

lemma exec_quoted_field:
  assumes "d flag = Some (RBool b)" and "b \<longrightarrow> d key = Some (RStr v)"
  shows "exec_part d (IfSet flag [Lit (qt k @ '':\"''), Val key, Lit ''\",'']) =
    Inr (cni_fields_text (if b then str_field k v else []))"
  using assms by (auto simp: cni_fields_text_def str_field_def qt_def)

lemma exec_plain_field:
  assumes "d flag = Some (RBool b)" and "b \<longrightarrow> d key = Some x"
  shows "exec_part d (IfSet flag [Lit (qt k @ '':''), Val key, Lit '','']) =
    Inr (cni_fields_text (if b then [(k, show_value x)] else []))"
  using assms by (auto simp: cni_fields_text_def)

lemma exec_own_field:
  "d key = Some (RStr v) \<Longrightarrow> exec_part d (IfSet key [Lit (qt k @ '':\"''), Val key, Lit ''\",'']) =
    Inr (cni_fields_text (opt_str_field k v))"
  "d key = Some (RInt i) \<Longrightarrow> exec_part d (IfSet key [Lit (qt k @ '':''), Val key, Lit '','']) =
    Inr (cni_fields_text (if i = 0 then [] else [(k, itoa i)]))"
  "d key = Some (RStr v) \<Longrightarrow> exec_part d (IfSet key [Lit (qt k @ '':''), Val key, Lit '','']) =
    Inr (cni_fields_text (if v = [] then [] else [(k, v)]))"
  by (auto simp: cni_fields_text_def opt_str_field_def str_field_def qt_def)

lemma exec_plugins_open:
  "d ''MetaPluginsConfigured'' = Some (RBool (mp \<noteq> [])) \<Longrightarrow>
    exec_part d (IfSet ''MetaPluginsConfigured'' [Lit t]) = Inr (if mp = [] then [] else t)"
  by auto

lemma exec_plugins_close:
  "d ''MetaPluginsConfigured'' = Some (RBool (mp \<noteq> [])) \<Longrightarrow> mp \<noteq> [] \<longrightarrow> d ''MetaPlugins'' = Some (RStr mp) \<Longrightarrow>
    exec_part d (IfSet ''MetaPluginsConfigured'' [Lit a, Val ''MetaPlugins'', Lit b]) =
      Inr (if mp = [] then [] else a @ mp @ b)"
  by auto

lemma cni_fields_text_append [simp]: "cni_fields_text (a @ b) = cni_fields_text a @ cni_fields_text b"
  by (simp add: cni_fields_text_def)

lemma sriov_data:
  fixes prefix cr s
  defines "d \<equiv> data_of (sriov_assigns prefix cr s)"
  shows "d ''CniType'' = Some (RStr ''sriov'')"
    and "d ''SriovNetworkName'' = Some (RStr (net_Name cr))"
    and "d ''SriovNetworkNamespace'' =
      Some (RStr (if sn_NetworkNamespace s = [] then net_Namespace cr else sn_NetworkNamespace s))"
    and "d ''Owner'' = Some (RStr (OwnerRefToString (Some cr)))"
    and "d ''SriovCniResourceName'' = Some (RStr (prefix @ ''/'' @ sn_ResourceName s))"
    and "d ''SriovCniVlan'' = Some (RInt (sn_Vlan s))"
    and "d ''SriovCniIpam'' = Some (RStr (ipam_text (sn_IPAM s)))"
    and "d ''LogLevelConfigured'' = Some (RBool (sn_LogLevel s \<noteq> []))" and "d ''LogLevel'' = Some (RStr (sn_LogLevel s))"
    and "d ''LogFileConfigured'' = Some (RBool (sn_LogFile s \<noteq> []))" and "d ''LogFile'' = Some (RStr (sn_LogFile s))"
  by (simp_all add: d_def sriov_assigns_def data_simps)

lemma sriov_data_flags:
  fixes prefix cr s
  defines "d \<equiv> data_of (sriov_assigns prefix cr s)"
  shows "d ''SpoofChkConfigured'' = Some (RBool (sn_SpoofChk s \<in> {''on'', ''off''}))"
    and "sn_SpoofChk s \<in> {''on'', ''off''} \<longrightarrow> d ''SriovCniSpoofChk'' = Some (RStr (sn_SpoofChk s))"
    and "d ''TrustConfigured'' = Some (RBool (sn_Trust s \<in> {''on'', ''off''}))"
    and "sn_Trust s \<in> {''on'', ''off''} \<longrightarrow> d ''SriovCniTrust'' = Some (RStr (sn_Trust s))"
    and "d ''VlanQoSConfigured'' = Some (RBool (sn_VlanQoS s \<in> {0..7}))"
    and "sn_VlanQoS s \<in> {0..7} \<longrightarrow> d ''SriovCniVlanQoS'' = Some (RInt (sn_VlanQoS s))"
    and "d ''VlanProtoConfigured'' = Some (RBool (sn_VlanProto s \<noteq> []))"
    and "sn_VlanProto s \<noteq> [] \<longrightarrow> d ''SriovCniVlanProto'' = Some (RStr (sn_VlanProto s))"
    and "d ''CapabilitiesConfigured'' = Some (RBool (sn_Capabilities s \<noteq> []))"
    and "sn_Capabilities s \<noteq> [] \<longrightarrow> d ''SriovCniCapabilities'' = Some (RStr (sn_Capabilities s))"
    and "d ''StateConfigured'' = Some (RBool (sn_LinkState s \<in> {''enable'', ''disable'', ''auto''}))"
    and "sn_LinkState s \<in> {''enable'', ''disable'', ''auto''} \<longrightarrow> d ''SriovCniState'' = Some (RStr (sn_LinkState s))"
    and "d ''MetaPluginsConfigured'' = Some (RBool (sn_MetaPluginsConfig s \<noteq> []))"
    and "sn_MetaPluginsConfig s \<noteq> [] \<longrightarrow> d ''MetaPlugins'' = Some (RStr (sn_MetaPluginsConfig s))"
    and "d ''MinTxRateConfigured'' = Some (RBool (rate_field ''MinTxRateConfigured'' (sn_MinTxRate s) \<noteq> []))"
    and "d ''MaxTxRateConfigured'' = Some (RBool (rate_field ''MaxTxRateConfigured'' (sn_MaxTxRate s) \<noteq> []))"
    and "\<forall>v. sn_MinTxRate s = Some v \<and> \<not> v < 0 \<longrightarrow> d ''SriovCniMinTxRate'' = Some (RInt v)"
    and "\<forall>v. sn_MaxTxRate s = Some v \<and> \<not> v < 0 \<longrightarrow> d ''SriovCniMaxTxRate'' = Some (RInt v)"
  by (simp_all add: d_def sriov_assigns_def data_simps) auto

lemma exec_rate_field:
  assumes "d flag = Some (RBool (rate_field flag r \<noteq> []))"
    and "\<forall>v. r = Some v \<and> \<not> v < 0 \<longrightarrow> d key = Some (RInt v)"
  shows "exec_part d (IfSet flag [Lit (qt k @ '':''), Val key, Lit '','']) = Inr (cni_fields_text (rate_field k r))"
  using assms by (auto simp: cni_fields_text_def rate_field_def split: option.splits)

lemma fixed_field:
  "cni_fields_text (str_field k v) = qt k @ '':\"'' @ v @ ''\",''"
  "cni_fields_text ((k, t) # fs) = qt k @ '':'' @ t @ '','' @ cni_fields_text fs"
  "cni_fields_text [] = []"
  "qt nm @ t = CHR 0x22 # nm @ ''\"'' @ t"
  by (simp_all add: cni_fields_text_def str_field_def qt_def)

lemma if_flip: "(if \<not> b then x else y) = (if b then y else x)"
  by simp

lemma exec_IfEq:
  "d k = Some (RStr v) \<Longrightarrow> exec_part d (IfEq k s ps) = (if v = s then exec_parts d ps else Inr [])"
  by simp

lemmas exec_fields = exec_quoted_field exec_plain_field exec_rate_field exec_plugins_open exec_plugins_close

lemmas field_defs = on_off_field_def opt_str_field_def link_state_field_def capabilities_field_def

lemma sriov_config_rendered:
  "exec_parts (data_of (sriov_assigns prefix cr s)) sriov_config_template =
    Inr (cni_text (net_Name cr) (sriov_fields s) (sn_IPAM s) (sn_MetaPluginsConfig s))"
proof -
  let ?d = "data_of (sriov_assigns prefix cr s)"
  note f = sriov_data_flags[where prefix=prefix and cr=cr and s=s] and g = sriov_data[where prefix=prefix and cr=cr and s=s]
  note parts =
    exec_plugins_open[of ?d, OF f(13)] exec_plugins_close[of ?d, OF f(13,14)]
    exec_quoted_field[of ?d, OF f(1,2)] exec_quoted_field[of ?d, OF f(3,4)]
    exec_plain_field[of ?d, OF f(5,6)] exec_quoted_field[of ?d, OF f(7,8)]
    exec_rate_field[of ?d, OF f(15,17)] exec_rate_field[of ?d, OF f(16,18)]
    exec_plain_field[of ?d, OF f(9,10)] exec_quoted_field[of ?d, OF f(11,12)]
    exec_quoted_field[of ?d, OF g(8), OF impI[OF g(9)]] exec_quoted_field[of ?d, OF g(10), OF impI[OF g(11)]]
    exec_IfEq[of ?d, OF g(1)]
  show ?thesis
    by (simp add: sriov_config_template_def parts g del: exec_part.simps(3,4) split del: if_split)
       (simp add: cni_text_def sriov_fields_def field_defs fixed_field if_flip split del: if_split cong: if_cong)
qed

lemma ib_data:
  fixes prefix cr s
  defines "d \<equiv> data_of (ib_assigns prefix cr s)"
  shows "d ''CniType'' = Some (RStr ''ib-sriov'')"
    and "d ''SriovNetworkName'' = Some (RStr (net_Name cr))"
    and "d ''SriovNetworkNamespace'' =
      Some (RStr (if ib_NetworkNamespace s = [] then net_Namespace cr else ib_NetworkNamespace s))"
    and "d ''Owner'' = Some (RStr (OwnerRefToString (Some cr)))"
    and "d ''SriovCniResourceName'' = Some (RStr (prefix @ ''/'' @ ib_ResourceName s))"
    and "d ''SriovCniIpam'' = Some (RStr (ipam_text (ib_IPAM s)))"
    and "d ''LogLevelConfigured'' = Some (RBool False)" and "d ''LogFileConfigured'' = Some (RBool False)"
    and "d ''CapabilitiesConfigured'' = Some (RBool (ib_Capabilities s \<noteq> []))"
    and "ib_Capabilities s \<noteq> [] \<longrightarrow> d ''SriovCniCapabilities'' = Some (RStr (ib_Capabilities s))"
    and "d ''StateConfigured'' = Some (RBool (ib_LinkState s \<in> {''enable'', ''disable'', ''auto''}))"
    and "ib_LinkState s \<in> {''enable'', ''disable'', ''auto''} \<longrightarrow> d ''SriovCniState'' = Some (RStr (ib_LinkState s))"
    and "d ''MetaPluginsConfigured'' = Some (RBool (ib_MetaPluginsConfig s \<noteq> []))"
    and "ib_MetaPluginsConfig s \<noteq> [] \<longrightarrow> d ''MetaPlugins'' = Some (RStr (ib_MetaPluginsConfig s))"
  by (simp_all add: d_def ib_assigns_def data_simps)

lemma ib_config_rendered:
  "exec_parts (data_of (ib_assigns prefix cr s)) sriov_config_template =
    Inr (cni_text (net_Name cr) (ib_fields s) (ib_IPAM s) (ib_MetaPluginsConfig s))"
proof -
  let ?d = "data_of (ib_assigns prefix cr s)"
  note g = ib_data[where prefix=prefix and cr=cr and s=s]
  have log: "exec_part ?d (IfSet ''LogLevelConfigured'' ps) = Inr []"
    "exec_part ?d (IfSet ''LogFileConfigured'' ps) = Inr []" for ps
    by (simp_all add: g)
  note parts =
    exec_plugins_open[of ?d, OF g(13)] exec_plugins_close[of ?d, OF g(13,14)] log
    exec_plain_field[of ?d, OF g(9,10)] exec_quoted_field[of ?d, OF g(11,12)] exec_IfEq[of ?d, OF g(1)]
  show ?thesis
    by (simp add: sriov_config_template_def parts g del: exec_part.simps(3,4) split del: if_split)
       (simp add: cni_text_def ib_fields_def field_defs fixed_field if_flip split del: if_split cong: if_cong)
qed

lemma ovs_data:
  fixes prefix cr s
  defines "d \<equiv> data_of (ovs_assigns prefix cr s)"
  shows "d ''CniType'' = Some (RStr ''ovs'')"
    and "d ''NetworkName'' = Some (RStr (net_Name cr))"
    and "d ''NetworkNamespace'' =
      Some (RStr (if on_NetworkNamespace s = [] then net_Namespace cr else on_NetworkNamespace s))"
    and "d ''Owner'' = Some (RStr (OwnerRefToString (Some cr)))"
    and "d ''CniResourceName'' = Some (RStr (prefix @ ''/'' @ on_ResourceName s))"
    and "d ''CniIpam'' = Some (RStr (ipam_text (on_IPAM s)))"
    and "d ''Bridge'' = Some (RStr (on_Bridge s))" and "d ''VlanTag'' = Some (RInt (int (on_Vlan s)))"
    and "d ''MTU'' = Some (RInt (int (on_MTU s)))" and "d ''InterfaceType'' = Some (RStr (on_InterfaceType s))"
    and "d ''Trunk'' = Some (RStr (if on_Trunk s = [] then [] else trunks_json (on_Trunk s)))"
    and "d ''CapabilitiesConfigured'' = Some (RBool (on_Capabilities s \<noteq> []))"
    and "on_Capabilities s \<noteq> [] \<longrightarrow> d ''CniCapabilities'' = Some (RStr (on_Capabilities s))"
    and "d ''MetaPluginsConfigured'' = Some (RBool (on_MetaPluginsConfig s \<noteq> []))"
    and "on_MetaPluginsConfig s \<noteq> [] \<longrightarrow> d ''MetaPlugins'' = Some (RStr (on_MetaPluginsConfig s))"
  by (simp_all add: d_def ovs_assigns_def data_simps)

lemma trunk_field:
  "(if (if ts = [] then [] else trunks_json ts) = [] then []
    else [(''trunk'', if ts = [] then [] else trunks_json ts)]) = (if ts = [] then [] else [(''trunk'', trunks_json ts)])"
  by (simp add: trunks_json_def)

lemma ovs_config_rendered:
  "exec_parts (data_of (ovs_assigns prefix cr s)) ovs_config_template =
    Inr (cni_text (net_Name cr) (ovs_fields s) (on_IPAM s) (on_MetaPluginsConfig s))"
proof -
  let ?d = "data_of (ovs_assigns prefix cr s)"
  note g = ovs_data[where prefix=prefix and cr=cr and s=s]
  note parts =
    exec_plugins_open[of ?d, OF g(14)] exec_plugins_close[of ?d, OF g(14,15)]
    exec_plain_field[of ?d, OF g(12,13)] exec_own_field(1)[of ?d, OF g(7)] exec_own_field(1)[of ?d, OF g(10)]
    exec_own_field(2)[of ?d, OF g(8)] exec_own_field(2)[of ?d, OF g(9)]
    exec_own_field(3)[of ?d "''Trunk''" _ "''trunk''", OF g(11), unfolded trunk_field]
  show ?thesis
    by (simp add: ovs_config_template_def parts g del: exec_part.simps(3,4) split del: if_split)
       (simp add: cni_text_def ovs_fields_def field_defs fixed_field if_flip split del: if_split cong: if_cong)
qed

text \<open>The words that \<^verbatim>\<open>strings.Fields\<close> returns have no white space.\<close>

definition ascii_space :: "char \<Rightarrow> bool" where
  "ascii_space c \<longleftrightarrow> (of_char c :: nat) \<in> {9, 10, 11, 12, 13, 32}"

lemma space_len_zero: "space_len (c # cs) = 0 \<Longrightarrow> \<not> ascii_space c"
  by (auto simp: space_len_def byte_at_def ascii_space_def split: if_splits)

lemma fields_from_no_space:
  "list_all (\<lambda>c. \<not> ascii_space c) word \<Longrightarrow> w \<in> set (fields_from word s) \<Longrightarrow> list_all (\<lambda>c. \<not> ascii_space c) w"
proof (induction word s rule: fields_from.induct)
  case (2 word c cs)
  show ?case
  proof (cases "space_len (c # cs) = 0")
    case True
    have "list_all (\<lambda>c. \<not> ascii_space c) (word @ [c])" using 2(3) space_len_zero[OF True] by simp
    then show ?thesis using 2(1)[OF refl True] 2(4) True by simp
  next
    case False
    then show ?thesis using 2(2)[OF refl False] 2(3,4) by (auto simp: Let_def split: if_splits)
  qed
qed (auto split: if_splits)

lemma set_join_with: "set (join_with [] ws) = (\<Union>w\<in>set ws. set w)"
  by (induction ws rule: induct_list012) auto

lemma join_Fields_no_space: "c \<in> set (join_with [] (Fields s)) \<Longrightarrow> \<not> ascii_space c"
  using fields_from_no_space[of "[]"] by (fastforce simp: Fields_def set_join_with list_all_iff)

lemma RenderNetAttDef_eq:
  "RenderNetAttDef prefix cr = Inr \<lparr>mf_Name = net_Name cr, mf_Namespace = target_namespace cr,
     mf_ResourceName = prefix @ ''/'' @ resource_name cr, mf_Owner = OwnerRefToString (Some cr),
     mf_Config = cni_config cr\<rparr>"
proof (cases "net_Spec cr")
  case (SriovSpec s)
  then show ?thesis
    by (simp add: RenderNetAttDef_def sriov_template_def exec_manifest_def sriov_config_rendered sriov_data
        target_namespace_def NetworkNamespace_def resource_name_def cni_config_def)
next
  case (IBSpec s)
  then show ?thesis
    by (simp add: RenderNetAttDef_def sriov_template_def exec_manifest_def ib_config_rendered ib_data
        target_namespace_def NetworkNamespace_def resource_name_def cni_config_def)
next
  case (OVSSpec s)
  then show ?thesis
    by (simp add: RenderNetAttDef_def ovs_template_def exec_manifest_def ovs_config_rendered ovs_data
        target_namespace_def NetworkNamespace_def resource_name_def cni_config_def)
qed

text \<open>
  C34: rendering the network attachment of any network never reads a template key that the data does
  not have, whatever the specification: it yields the name, the target namespace, the prefixed resource
  name, the owner and the CNI configuration whose fields are exactly those the specification sets to a
  legal value, in the order of the template. The IPAM text in it has no white space.
\<close>

theorem network_attachment_rendered:
  "RenderNetAttDef prefix cr = Inr \<lparr>mf_Name = net_Name cr, mf_Namespace = target_namespace cr,
      mf_ResourceName = prefix @ ''/'' @ resource_name cr, mf_Owner = OwnerRefToString (Some cr),
      mf_Config = cni_config cr\<rparr> \<and>
    \<not> list_ex ascii_space (ipam_text ipam)"
proof -
  have "\<not> ascii_space c" if "c \<in> set (ipam_text ipam)" for c
    using that join_Fields_no_space[of c ipam]
    by (auto simp: ipam_text_def SriovCniIpam_def SriovCniIpamEmpty_def qt_def ascii_space_def split: if_splits)
  then show ?thesis by (auto simp: RenderNetAttDef_eq list_ex_iff)
qed

end
