(* ===== verification/Cluster.thy ===== *)
theory Cluster
  imports Io_Monad Pool_Config Status_Patcher Device_Plugin Net_Att_Def
begin

text \<open>
  The part of the API server that the controllers use, as a state: nodes, node states by name (all
  in the operator's namespace), pool configurations, the device plugin's config map, networks, network
  attachment definitions by namespace and name, and namespaces. Every call of the client takes the next
  entry of a fault schedule, and fails without effect when it is true; quantifying over schedules
  covers every combination of failing calls. Patches of single annotations and server-side apply
  of single conditions act on the stored object, so they do not carry stale fields.

  A controller function is a state transformer that returns an error or a value; \<open>io_triple\<close> is the
  Hoare triple the controller proofs use.
\<close>

section \<open>The cluster and its client\<close>

record cluster =
  cl_Nodes :: "Node list"
  cl_States :: "string \<rightharpoonup> SriovNetworkNodeState"
  cl_Pools :: "SriovNetworkPoolConfig list"
  cl_Faults :: "bool list"
  cl_Clock :: int
  cl_ConfigMap :: "(string \<rightharpoonup> ResourceConfig list) option"
  cl_Networks :: "NetworkCR list"
  cl_Nads :: "string \<times> string \<rightharpoonup> NetAttDef"
  cl_Namespaces :: "string list"

datatype api_error = ApiError | NotFound

type_synonym ('e, 'a) io = "(cluster, 'e, 'a) stateful"

definition api_call :: "(api_error, 'a) io \<Rightarrow> (api_error, 'a) io" where
  "api_call m c =
     (case cl_Faults c of
        [] \<Rightarrow> m c
      | b # bs \<Rightarrow>
          (let c' = c\<lparr>cl_Faults := bs\<rparr> in if b then (Inl ApiError, c') else m c'))"

lemma api_call_ok [simp]: "cl_Faults c = [] \<Longrightarrow> api_call m c = m c"
  by (simp add: api_call_def)

text \<open>A call fails without effect or runs; only the fault schedule is consumed.\<close>

lemma api_call_cases:
  assumes "api_call m c = (r, c')"
  obtains (fault) fs where "r = Inl ApiError" "c' = c\<lparr>cl_Faults := fs\<rparr>"
  | (run) fs where "m (c\<lparr>cl_Faults := fs\<rparr>) = (r, c')"
proof (cases "cl_Faults c")
  case Nil
  have c: "c\<lparr>cl_Faults := []\<rparr> = c" using Nil by (cases c) simp
  have "m c = (r, c')" using assms Nil by (simp add: api_call_def)
  then show ?thesis using run[of "[]"] unfolding c by blast
next
  case (Cons b bs)
  let ?c = "c\<lparr>cl_Faults := bs\<rparr>"
  have "(if b then (Inl ApiError, ?c) else m ?c) = (r, c')" using assms Cons by (simp add: api_call_def Let_def)
  then have "(r = Inl ApiError \<and> c' = ?c) \<or> m ?c = (r, c')" by (cases b) auto
  then show ?thesis using fault[of bs] run[of bs] by blast
qed

section \<open>Label selectors\<close>

text \<open>
  \<^verbatim>\<open>LabelSelectorAsSelector\<close>, \<^verbatim>\<open>NewRequirement\<close> and \<^verbatim>\<open>Requirement.Matches\<close> of the vendored API
  machinery, with the syntax rules for label keys and values.
\<close>

definition label_name_ok :: "string \<Rightarrow> bool" where
  "label_name_ok s \<longleftrightarrow>
     s \<noteq> [] \<and> length s \<le> 63 \<and> is_alnum (hd s) \<and> is_alnum (last s) \<and>
     list_all (\<lambda>c. is_name_char c \<or> c = CHR ''.'') s"

definition label_value_ok :: "string \<Rightarrow> bool" where
  "label_value_ok v \<longleftrightarrow> v = [] \<or> label_name_ok v"

definition is_lower_alnum :: "char \<Rightarrow> bool" where
  "is_lower_alnum c \<longleftrightarrow> is_alnum c \<and> to_lower_char c = c"

definition dns_label_ok :: "string \<Rightarrow> bool" where
  "dns_label_ok s \<longleftrightarrow>
     s \<noteq> [] \<and> is_lower_alnum (hd s) \<and> is_lower_alnum (last s) \<and>
     list_all (\<lambda>c. is_lower_alnum c \<or> c = CHR ''-'') s"

definition label_key_ok :: "string \<Rightarrow> bool" where
  "label_key_ok k =
     (case split_on CHR ''/'' k of
        [nm] \<Rightarrow> label_name_ok nm
      | [pre, nm] \<Rightarrow> label_name_ok nm \<and> length pre \<le> 253 \<and> list_all dns_label_ok (split_on CHR ''.'' pre)
      | _ \<Rightarrow> False)"

definition expression_ok :: "string \<times> label_op \<times> string list \<Rightarrow> bool" where
  "expression_ok e =
     (case e of (k, op, vs) \<Rightarrow>
        (case op of
           OpIn \<Rightarrow> vs \<noteq> [] | OpNotIn \<Rightarrow> vs \<noteq> []
         | OpExists \<Rightarrow> vs = [] | OpDoesNotExist \<Rightarrow> vs = []
         | OpOther _ \<Rightarrow> False) \<and>
        label_key_ok k \<and> list_all label_value_ok vs)"

text \<open>Whether the selector is accepted; an error otherwise.\<close>

definition LabelSelectorAsSelector_ok :: "LabelSelector \<Rightarrow> bool" where
  "LabelSelectorAsSelector_ok ls \<longleftrightarrow>
     list_all (\<lambda>(k, v). label_key_ok k \<and> label_value_ok v) (ls_MatchLabels ls) \<and>
     list_all expression_ok (ls_MatchExpressions ls)"

definition expression_matches :: "str_map \<Rightarrow> string \<times> label_op \<times> string list \<Rightarrow> bool" where
  "expression_matches labels e =
     (case e of (k, op, vs) \<Rightarrow>
        (case op of
           OpIn \<Rightarrow> (case labels k of None \<Rightarrow> False | Some v \<Rightarrow> v \<in> set vs)
         | OpNotIn \<Rightarrow> (case labels k of None \<Rightarrow> True | Some v \<Rightarrow> v \<notin> set vs)
         | OpExists \<Rightarrow> labels k \<noteq> None
         | OpDoesNotExist \<Rightarrow> labels k = None
         | OpOther _ \<Rightarrow> False))"

definition selector_matches :: "LabelSelector \<Rightarrow> str_map \<Rightarrow> bool" where
  "selector_matches ls labels \<longleftrightarrow>
     list_all (\<lambda>(k, v). labels k = Some v) (ls_MatchLabels ls) \<and>
     list_all (expression_matches labels) (ls_MatchExpressions ls)"

section \<open>Client calls\<close>

definition find_node :: "cluster \<Rightarrow> string \<Rightarrow> Node option" where
  "find_node c nm = find (\<lambda>n. node_Name n = nm) (cl_Nodes c)"

definition get_node :: "string \<Rightarrow> (api_error, Node) io" where
  "get_node nm = api_call (\<lambda>c. (case find_node c nm of None \<Rightarrow> Inl NotFound | Some n \<Rightarrow> Inr n, c))"

definition get_state :: "string \<Rightarrow> (api_error, SriovNetworkNodeState) io" where
  "get_state nm = api_call (\<lambda>c. (case cl_States c nm of None \<Rightarrow> Inl NotFound | Some s \<Rightarrow> Inr s, c))"

definition list_nodes :: "(Node \<Rightarrow> bool) \<Rightarrow> (api_error, Node list) io" where
  "list_nodes P = api_call (\<lambda>c. (Inr (filter P (cl_Nodes c)), c))"

definition list_pools :: "(api_error, SriovNetworkPoolConfig list) io" where
  "list_pools = api_call (\<lambda>c. (Inr (cl_Pools c), c))"

definition set_annotation :: "string \<Rightarrow> string \<Rightarrow> ObjectMeta \<Rightarrow> ObjectMeta" where
  "set_annotation k v m = m\<lparr>om_Annotations := (om_Annotations m)(k \<mapsto> v)\<rparr>"

definition annotate_stored :: "string \<Rightarrow> string \<Rightarrow> SriovNetworkNodeState \<Rightarrow> SriovNetworkNodeState" where
  "annotate_stored k v s = s\<lparr>state_Meta := set_annotation k v (state_Meta s)\<rparr>"

text \<open>
  \<^verbatim>\<open>utils.AnnotateObject\<close>: no call when the local copy already has the value (an absent key reads
  as the empty string); otherwise a merge patch of that key, whose response replaces the copy.
\<close>

definition AnnotateState ::
    "SriovNetworkNodeState \<Rightarrow> string \<Rightarrow> string \<Rightarrow> (api_error, SriovNetworkNodeState) io" where
  "AnnotateState obj k v =
     (if (case state_Annotations obj k of None \<Rightarrow> [] | Some x \<Rightarrow> x) = v then io_return obj
      else api_call (\<lambda>c.
        case cl_States c (state_Name obj) of
          None \<Rightarrow> (Inl NotFound, c)
        | Some s \<Rightarrow>
            (Inr (annotate_stored k v s),
             c\<lparr>cl_States := (cl_States c)(state_Name obj \<mapsto> annotate_stored k v s)\<rparr>)))"

definition annotate_node :: "string \<Rightarrow> string \<Rightarrow> Node \<Rightarrow> Node" where
  "annotate_node k v n = n\<lparr>node_Meta := set_annotation k v (node_Meta n)\<rparr>"

definition AnnotateNodeObject :: "Node \<Rightarrow> string \<Rightarrow> string \<Rightarrow> (api_error, Node) io" where
  "AnnotateNodeObject obj k v =
     (if (case om_Annotations (node_Meta obj) k of None \<Rightarrow> [] | Some x \<Rightarrow> x) = v then io_return obj
      else api_call (\<lambda>c.
        case find_node c (node_Name obj) of
          None \<Rightarrow> (Inl NotFound, c)
        | Some n \<Rightarrow>
            (Inr (annotate_node k v n),
             c\<lparr>cl_Nodes := map (\<lambda>m. if node_Name m = node_Name obj then annotate_node k v m else m)
                             (cl_Nodes c)\<rparr>)))"

text \<open>\<^verbatim>\<open>Status().Apply\<close> of condition entries on the stored object.\<close>

definition apply_conditions :: "string \<Rightarrow> Condition list \<Rightarrow> (api_error, unit) io" where
  "apply_conditions nm conds =
     api_call (\<lambda>c.
       case cl_States c nm of
         None \<Rightarrow> (Inl NotFound, c)
       | Some s \<Rightarrow>
           (Inr (),
            c\<lparr>cl_States := (cl_States c)
                 (nm \<mapsto> s\<lparr>state_Status := (state_Status s)
                   \<lparr>nst_Conditions := fold merge_entry conds (state_conditions s)\<rparr>\<rparr>)\<rparr>))"

text \<open>
  Creating, updating and deleting node states. The resource has a status subresource: \<^verbatim>\<open>Create\<close> and
  \<^verbatim>\<open>Update\<close> leave the status of the stored object alone. A write with a stale resource version is one
  of the failing calls.
\<close>

definition empty_status :: SriovNetworkNodeStateStatus where
  "empty_status = \<lparr>nst_Interfaces = [], nst_Bridges = \<lparr>bridges_OVS = []\<rparr>,
     nst_System = \<lparr>sys_RdmaMode = [], sys_OvsConfig = []\<rparr>, nst_SyncStatus = [],
     nst_LastSyncError = [], nst_Conditions = []\<rparr>"

definition create_state :: "SriovNetworkNodeState \<Rightarrow> (api_error, unit) io" where
  "create_state obj =
     api_call (\<lambda>c.
       case cl_States c (state_Name obj) of
         Some _ \<Rightarrow> (Inl ApiError, c)
       | None \<Rightarrow>
           (Inr (), c\<lparr>cl_States := (cl_States c)(state_Name obj \<mapsto> obj\<lparr>state_Status := empty_status\<rparr>)\<rparr>))"

definition update_state :: "SriovNetworkNodeState \<Rightarrow> (api_error, unit) io" where
  "update_state obj =
     api_call (\<lambda>c.
       case cl_States c (state_Name obj) of
         None \<Rightarrow> (Inl NotFound, c)
       | Some s \<Rightarrow>
           (Inr (), c\<lparr>cl_States := (cl_States c)(state_Name obj \<mapsto> obj\<lparr>state_Status := state_Status s\<rparr>)\<rparr>))"

text \<open>\<^verbatim>\<open>utils.LabelNode\<close> and \<^verbatim>\<open>utils.labelObject\<close>: no patch when the label already has the value.\<close>

definition label_node :: "string \<Rightarrow> string \<Rightarrow> Node \<Rightarrow> Node" where
  "label_node k v n = n\<lparr>node_Meta := (node_Meta n)\<lparr>om_Labels := (node_Labels n)(k \<mapsto> v)\<rparr>\<rparr>"

definition LabelNode :: "string \<Rightarrow> string \<Rightarrow> string \<Rightarrow> (api_error, unit) io" where
  "LabelNode nm k v =
     io_bind (get_node nm) (\<lambda>n.
       if (case node_Labels n k of None \<Rightarrow> [] | Some x \<Rightarrow> x) = v then io_return ()
       else api_call (\<lambda>c.
         case find_node c nm of
           None \<Rightarrow> (Inl NotFound, c)
         | Some _ \<Rightarrow>
             (Inr (),
              c\<lparr>cl_Nodes := map (\<lambda>m. if node_Name m = nm then label_node k v m else m) (cl_Nodes c)\<rparr>)))"

text \<open>The device plugin's config map is created or replaced.\<close>

definition get_config_map :: "(api_error, string \<rightharpoonup> ResourceConfig list) io" where
  "get_config_map = api_call (\<lambda>c. (case cl_ConfigMap c of None \<Rightarrow> Inl NotFound | Some m \<Rightarrow> Inr m, c))"

definition put_config_map :: "(string \<rightharpoonup> ResourceConfig list) \<Rightarrow> (api_error, unit) io" where
  "put_config_map m = api_call (\<lambda>c. (Inr (), c\<lparr>cl_ConfigMap := Some m\<rparr>))"

section \<open>Triples of the client calls\<close>

text \<open>The fault schedule is invisible to predicates that do not mention it.\<close>

definition fault_blind :: "(cluster \<Rightarrow> bool) \<Rightarrow> bool" where
  "fault_blind P \<longleftrightarrow> (\<forall>c fs. P (c\<lparr>cl_Faults := fs\<rparr>) = P c)"

lemma io_triple_api_call:
  assumes "fault_blind P" and "io_triple P m Q E" and "\<And>c. P c \<Longrightarrow> E c"
  shows "io_triple P (api_call m) Q E"
proof (unfold io_triple_def, intro allI impI)
  fix c assume P: "P c"
  show "case api_call m c of (Inl e, c') \<Rightarrow> E c' | (Inr x, c') \<Rightarrow> Q x c'"
  proof (cases "cl_Faults c")
    case Nil
    then show ?thesis using P assms(2) by (simp add: api_call_def io_triple_def)
  next
    case (Cons b bs)
    have "P (c\<lparr>cl_Faults := bs\<rparr>)" using P assms(1) by (simp add: fault_blind_def)
    then show ?thesis using Cons assms(2,3) by (simp add: api_call_def io_triple_def Let_def)
  qed
qed

end
