(* ===== verification/Drain_Controller.thy ===== *)
theory Drain_Controller
  imports Cluster
begin

text \<open>
  The drain controller: \<^verbatim>\<open>src/controllers/drain_controller.go\<close>, \<^verbatim>\<open>drain_controller_helper.go\<close> and the
  drainer of \<^verbatim>\<open>src/pkg/drain/drainer.go\<close>. A reconciliation reads a node and its node state, and
  moves the node state's \<^verbatim>\<open>current-state\<close> annotation through Idle, Draining and DrainComplete. The
  orchestrator's hooks and the kubectl drain library are not part of the repository's own logic:
  their answers are the record \<open>drain_answers\<close>. The controller's client reads the API server without
  a cache, and \<open>tryDrainNode\<close> runs under a mutex, so it is one atomic action here.
\<close>

section \<open>Types\<close>

datatype drain_error =
    DApi api_error
  | DPool pool_error
  | DSelector
  | DMultiplePools
  | DNoNodeState
  | DUnexpectedAnnotation
  | DDrain string

datatype result = Done | Requeue | RequeueAfter

text \<open>
  What the environment answers during one reconciliation: the orchestrator's \<^verbatim>\<open>BeforeDrainNode\<close> and
  \<^verbatim>\<open>AfterCompleteDrainNode\<close>, the outcome of cordoning and of the pod drain (an error, if any) and the
  lines the drain library writes to its error output.
\<close>

record drain_answers =
  da_Before :: "string + bool"
  da_Cordon :: "string option"
  da_Drain :: "string option"
  da_ErrOut :: "string list"
  da_Uncordon :: "string option"
  da_After :: "string + bool"

abbreviation NodeDrainAnnotation :: string where
  "NodeDrainAnnotation \<equiv> ''sriovnetwork.openshift.io/state''"
abbreviation NodeStateDrainAnnotation :: string where
  "NodeStateDrainAnnotation \<equiv> ''sriovnetwork.openshift.io/desired-state''"
abbreviation NodeStateDrainAnnotationCurrent :: string where
  "NodeStateDrainAnnotationCurrent \<equiv> ''sriovnetwork.openshift.io/current-state''"
abbreviation NodeStateExternalDrainerAnnotation :: string where
  "NodeStateExternalDrainerAnnotation \<equiv> ''sriovnetwork.openshift.io/use-external-drainer''"

definition ObjectHasAnnotation :: "ObjectMeta \<Rightarrow> string \<Rightarrow> string \<Rightarrow> bool" where
  "ObjectHasAnnotation m annoKey value =
     (case om_Annotations m annoKey of Some anno \<Rightarrow> anno = value | None \<Rightarrow> False)"

section \<open>The drainer\<close>

definition trim_space :: "string \<Rightarrow> string" where
  "trim_space s =
     (let sp = (\<lambda>c. c \<in> {CHR '' '', CHR ''\<newline>'', CHR 0x09, CHR 0x0B, CHR 0x0C, CHR 0x0D})
      in rev (dropWhile sp (rev (dropWhile sp s))))"

definition isIgnoredDrainErrOutMessage :: "string \<Rightarrow> bool" where
  "isIgnoredDrainErrOutMessage msg =
     (let cleanMsg = trim_space (filter (\<lambda>c. c \<noteq> CHR ''\<newline>'') msg)
      in cleanMsg = [] \<or> has_prefix cleanMsg ''WARNING:'')"

definition IsInformationalDrainErrOutMessage :: "string \<Rightarrow> bool" where
  "IsInformationalDrainErrOutMessage msg =
     (if isIgnoredDrainErrOutMessage msg then True
      else contains_str (trim_space (filter (\<lambda>c. c \<noteq> CHR ''\<newline>'') msg)) ''(will retry after'')"

text \<open>The lines of the error output that reach \<^verbatim>\<open>onError\<close>, see \<^verbatim>\<open>createDrainHelper\<close>.\<close>

definition err_out_callbacks :: "drain_answers \<Rightarrow> string list" where
  "err_out_callbacks ans =
     filter (\<lambda>m. \<not> isIgnoredDrainErrOutMessage m)
       (map (\<lambda>m. filter (\<lambda>c. c \<noteq> CHR ''\<newline>'') m) (da_ErrOut ans))"

text \<open>\<^verbatim>\<open>DrainNode\<close>: the messages passed to \<^verbatim>\<open>onError\<close> in order, and the result.\<close>

definition DrainNode ::
    "drain_answers \<Rightarrow> bool \<Rightarrow> bool \<Rightarrow> string list \<times> (string + bool)" where
  "DrainNode ans fullNodeDrain singleNode =
     (case da_Before ans of
        Inl err \<Rightarrow> ([err], Inl err)
      | Inr completed \<Rightarrow>
          if \<not> completed then ([], Inr False)
          else if fullNodeDrain \<and> singleNode then ([], Inr True)
          else
            (case da_Cordon ans of
               Some err \<Rightarrow> ([err], Inl err)
             | None \<Rightarrow>
                 (case da_Drain ans of
                    Some err \<Rightarrow> (err_out_callbacks ans, Inl err)
                  | None \<Rightarrow> (err_out_callbacks ans, Inr True))))"

definition CompleteDrainNode :: "drain_answers \<Rightarrow> string + bool" where
  "CompleteDrainNode ans =
     (case da_Uncordon ans of Some err \<Rightarrow> Inl err | None \<Rightarrow> da_After ans)"

section \<open>Conditions\<close>

definition updateDrainConditions ::
    "string \<Rightarrow> DrainState \<Rightarrow> string \<Rightarrow> (drain_error, unit) io" where
  "updateDrainConditions nm st errorMessage c =
     (case get_state nm c of
        (Inl NotFound, c') \<Rightarrow> (Inr (), c')
      | (Inl e, c') \<Rightarrow> (Inl (DApi e), c')
      | (Inr latestState, c') \<Rightarrow>
          (let conditionState = SetNodeStateDrainConditions (cl_Clock c') st errorMessage latestState in
           case FindStatusCondition (state_conditions conditionState) ConditionDraining of
             None \<Rightarrow> (Inr (), c')
           | Some drainingCondition \<Rightarrow>
               (case ApplyCondition (state_conditions latestState) [drainingCondition] of
                  None \<Rightarrow> (Inr (), c')
                | Some (conds, _) \<Rightarrow> io_map_err DApi (apply_conditions nm conds) c')))"

section \<open>Finding the pool of a node\<close>

text \<open>\<^verbatim>\<open>defaultPoolConfig\<close>: one node at a time.\<close>

definition defaultPoolConfig :: SriovNetworkPoolConfig where
  "defaultPoolConfig =
     \<lparr>pc_Meta = \<lparr>om_Name = [], om_Namespace = [], om_Labels = Map.empty, om_Annotations = Map.empty,
        om_Generation = 0, om_OwnerReferences = []\<rparr>,
      pc_Spec = \<lparr>pcs_OvsHardwareOffloadConfig = \<lparr>hw_Name = [], hw_OvsConfig = []\<rparr>,
        pcs_NodeSelector = Some \<lparr>ls_MatchLabels = [], ls_MatchExpressions = []\<rparr>,
        pcs_MaxUnavailable = Some (IntVal 1), pcs_RdmaMode = []\<rparr>\<rparr>"

definition pool_selector :: "SriovNetworkPoolConfig \<Rightarrow> LabelSelector" where
  "pool_selector npc =
     (case pcs_NodeSelector (pc_Spec npc) of
        None \<Rightarrow> \<lparr>ls_MatchLabels = [], ls_MatchExpressions = []\<rparr> | Some s \<Rightarrow> s)"

definition is_offload_pool :: "SriovNetworkPoolConfig \<Rightarrow> bool" where
  "is_offload_pool npc \<longleftrightarrow> hw_Name (pcs_OvsHardwareOffloadConfig (pc_Spec npc)) \<noteq> []"

definition pool_matches :: "SriovNetworkPoolConfig \<Rightarrow> Node \<Rightarrow> bool" where
  "pool_matches npc n \<longleftrightarrow> selector_matches (pool_selector npc) (node_Labels n)"

text \<open>The loop over the pools: the pools that select the node and the names of all pooled nodes.\<close>

fun scan_pools ::
    "Node \<Rightarrow> SriovNetworkPoolConfig list \<Rightarrow> SriovNetworkPoolConfig list \<Rightarrow> string list \<Rightarrow>
     (drain_error, SriovNetworkPoolConfig list \<times> string list) io" where
  "scan_pools node [] selectedNpcl nodesInPools = io_return (selectedNpcl, nodesInPools)"
| "scan_pools node (npc # npcs) selectedNpcl nodesInPools =
     (if is_offload_pool npc then scan_pools node npcs selectedNpcl nodesInPools
      else if \<not> LabelSelectorAsSelector_ok (pool_selector npc) then io_fail DSelector
      else io_bind (io_map_err DApi (list_nodes (pool_matches npc))) (\<lambda>nodeList.
        scan_pools node npcs
          (if pool_matches npc node then selectedNpcl @ [npc] else selectedNpcl)
          (nodesInPools @ map node_Name nodeList)))"

definition findNodePoolConfig ::
    "Node \<Rightarrow> (drain_error, SriovNetworkPoolConfig \<times> Node list) io" where
  "findNodePoolConfig node =
     io_bind (io_map_err DApi list_pools) (\<lambda>npcl.
     io_bind (scan_pools node npcl [] []) (\<lambda>(selectedNpcl, nodesInPools).
       case selectedNpcl of
         [] \<Rightarrow>
           io_bind (io_map_err DApi (list_nodes (\<lambda>_. True))) (\<lambda>nodeList.
             io_return (defaultPoolConfig,
               filter (\<lambda>n. node_Name n \<notin> set nodesInPools) nodeList))
       | [npc] \<Rightarrow>
           io_bind (io_map_err DApi (list_nodes (pool_matches npc))) (\<lambda>nodeList.
             io_return (npc, nodeList))
       | _ \<Rightarrow> io_fail DMultiplePools))"

section \<open>Starting a drain\<close>

definition is_busy :: "SriovNetworkNodeState \<Rightarrow> bool" where
  "is_busy s \<longleftrightarrow>
     ObjectHasAnnotation (state_Meta s) NodeStateDrainAnnotationCurrent Draining \<or>
     ObjectHasAnnotation (state_Meta s) NodeStateDrainAnnotationCurrent DrainComplete"

text \<open>The loop that counts draining nodes and remembers the requested node's state.\<close>

fun count_busy ::
    "string \<Rightarrow> Node list \<Rightarrow> int \<Rightarrow> SriovNetworkNodeState option \<Rightarrow>
     (drain_error, int \<times> SriovNetworkNodeState option) io" where
  "count_busy nm [] current currentSnns = io_return (current, currentSnns)"
| "count_busy nm (n # ns) current currentSnns =
     (\<lambda>c. case get_state (node_Name n) c of
        (Inl NotFound, c') \<Rightarrow> count_busy nm ns current currentSnns c'
      | (Inl e, c') \<Rightarrow> (Inl (DApi e), c')
      | (Inr snns, c') \<Rightarrow>
          count_busy nm ns (if is_busy snns then current + 1 else current)
            (if state_Name snns = nm then Some snns else currentSnns) c')"

text \<open>The last part of \<^verbatim>\<open>tryDrainNode\<close>, once the draining nodes are counted.\<close>

definition take_slot ::
    "SriovNetworkNodeState \<Rightarrow> int \<Rightarrow> int \<Rightarrow> (drain_error, result option) io" where
  "take_slot snns maxUnv current =
     (if is_busy snns then io_return None
      else if maxUnv \<noteq> -1 \<and> current \<ge> maxUnv then
        io_bind (updateDrainConditions (state_Name snns) DrainStatePending
                   ''Waiting for an available drain slot'') (\<lambda>_.
          io_return (Some RequeueAfter))
      else
        io_bind (io_map_err DApi
                   (AnnotateState snns NodeStateDrainAnnotationCurrent Draining)) (\<lambda>_.
        io_bind (updateDrainConditions (state_Name snns) DrainStateDraining []) (\<lambda>_.
          io_return None)))"

definition tryDrainNode :: "Node \<Rightarrow> (drain_error, result option) io" where
  "tryDrainNode node =
     io_bind (findNodePoolConfig node) (\<lambda>(nodePool, nodeList).
     io_bind (io_map_err DPool (io_lift (MaxUnavailable nodePool (int (length nodeList))))) (\<lambda>maxUnv.
     io_bind (count_busy (node_Name node) nodeList 0 None) (\<lambda>(current, currentSnns).
       case currentSnns of
         None \<Rightarrow> io_fail DNoNodeState
       | Some snns \<Rightarrow> take_slot snns maxUnv current)))"

section \<open>Recording drain errors\<close>

definition maxDrainErrorMessages :: nat where "maxDrainErrorMessages = 10"

text \<open>The map of messages seen and the list of the latest ones; the flag asks for a condition update.\<close>

definition onDrainError ::
    "string \<Rightarrow> string list \<times> string list \<Rightarrow> (string list \<times> string list) \<times> bool" where
  "onDrainError msg st =
     (case st of (seenDrainErrors, drainErrors) \<Rightarrow>
        if msg \<in> set seenDrainErrors then (st, False)
        else
          let seen = msg # seenDrainErrors; errs = drainErrors @ [msg] in
          if length errs > maxDrainErrorMessages
          then ((removeAll (hd errs) seen, tl errs), True)
          else ((seen, errs), True))"

fun record_errors ::
    "string \<Rightarrow> string list \<Rightarrow> string list \<times> string list \<Rightarrow> (drain_error, string list) io" where
  "record_errors nm [] st = io_return (snd st)"
| "record_errors nm (msg # msgs) st =
     (case onDrainError msg st of (st', changed) \<Rightarrow>
        if changed then
          io_bind (io_ignore (updateDrainConditions nm DrainStateDrainingWithErrors
                     (join_with ''; '' (snd st')))) (\<lambda>_. record_errors nm msgs st')
        else record_errors nm msgs st')"

section \<open>The handlers\<close>

definition handleNodeIdleNodeStateDrainingOrCompleted ::
    "drain_answers \<Rightarrow> SriovNetworkNodeState \<Rightarrow> (drain_error, result) io" where
  "handleNodeIdleNodeStateDrainingOrCompleted ans nodeNetworkState =
     (case CompleteDrainNode ans of
        Inl err \<Rightarrow> io_fail (DDrain err)
      | Inr completed \<Rightarrow>
          if \<not> completed then io_return RequeueAfter
          else
            io_bind (io_map_err DApi
                       (AnnotateState nodeNetworkState NodeStateDrainAnnotationCurrent DrainIdle)) (\<lambda>_.
            io_bind (updateDrainConditions (state_Name nodeNetworkState) DrainStateIdle []) (\<lambda>_.
              io_return Done)))"

text \<open>The part of \<^verbatim>\<open>handleNodeDrainOrReboot\<close> from the call of the drainer on.\<close>

definition run_drain ::
    "drain_answers \<Rightarrow> SriovNetworkNodeState \<Rightarrow> bool \<Rightarrow> bool \<Rightarrow> (drain_error, result) io" where
  "run_drain ans nodeNetworkState fullNodeDrain singleNode =
     (case DrainNode ans fullNodeDrain singleNode of (msgs, drained) \<Rightarrow>
        io_bind (record_errors (state_Name nodeNetworkState) msgs ([], [])) (\<lambda>drainErrors.
          case drained of
            Inl err \<Rightarrow>
              io_bind (io_ignore (updateDrainConditions (state_Name nodeNetworkState)
                         DrainStateDrainingWithErrors
                         (let m = join_with ''; '' drainErrors in if m = [] then err else m))) (\<lambda>_.
                io_fail (DDrain err))
          | Inr done \<Rightarrow>
              if \<not> done then io_return RequeueAfter
              else
                io_bind (updateDrainConditions (state_Name nodeNetworkState) DrainStateComplete []) (\<lambda>_.
                io_bind (io_map_err DApi
                  (AnnotateState nodeNetworkState NodeStateDrainAnnotationCurrent DrainComplete)) (\<lambda>_.
                  io_return Done))))"

definition drain_completed_stale :: "SriovNetworkNodeState \<Rightarrow> string \<Rightarrow> bool" where
  "drain_completed_stale nodeNetworkState current \<longleftrightarrow>
     current = Draining \<and>
     (case FindStatusCondition (state_conditions nodeNetworkState) ConditionDraining of
        None \<Rightarrow> False
      | Some d \<Rightarrow> cond_Status d = ConditionFalse \<and> cond_Reason d = ReasonDrainCompleted)"

definition handleNodeDrainOrReboot ::
    "drain_answers \<Rightarrow> Node \<Rightarrow> SriovNetworkNodeState \<Rightarrow> string \<Rightarrow> string \<Rightarrow> (drain_error, result) io" where
  "handleNodeDrainOrReboot ans node nodeNetworkState nodeDrainAnnotation current =
     (if current = DrainComplete then io_return Done
      else
        io_bind (if current = DrainIdle then tryDrainNode node else io_return None) (\<lambda>res.
          case res of
            Some r \<Rightarrow> io_return r
          | None \<Rightarrow>
              if drain_completed_stale nodeNetworkState current then
                io_bind (io_map_err DApi
                  (AnnotateState nodeNetworkState NodeStateDrainAnnotationCurrent DrainComplete)) (\<lambda>_.
                  io_return Done)
              else
                let fullNodeDrain = (nodeDrainAnnotation = RebootRequired) in
                io_bind
                  (if fullNodeDrain
                   then io_bind (io_map_err DApi (list_nodes (\<lambda>_. True))) (\<lambda>nodeList.
                          io_return (length nodeList = 1))
                   else io_return False)
                  (\<lambda>singleNode. run_drain ans nodeNetworkState fullNodeDrain singleNode)))"

section \<open>Reconcile\<close>

definition getObject :: "(api_error, 'a) io \<Rightarrow> (drain_error, 'a option) io" where
  "getObject m c =
     (case m c of
        (Inl NotFound, c') \<Rightarrow> (Inr None, c')
      | (Inl e, c') \<Rightarrow> (Inl (DApi e), c')
      | (Inr x, c') \<Rightarrow> (Inr (Some x), c'))"

text \<open>\<^verbatim>\<open>ensureAnnotationExists\<close>: the value, whether it existed, and the updated copy.\<close>

definition ensureAnnotationExists_state ::
    "SriovNetworkNodeState \<Rightarrow> string \<Rightarrow> (drain_error, string \<times> bool \<times> SriovNetworkNodeState) io" where
  "ensureAnnotationExists_state obj key =
     (case state_Annotations obj key of
        Some v \<Rightarrow> io_return (v, True, obj)
      | None \<Rightarrow>
          io_bind (io_map_err DApi (AnnotateState obj key DrainIdle)) (\<lambda>obj'.
            io_return (DrainIdle, False, obj')))"

definition ensureAnnotationExists_node ::
    "Node \<Rightarrow> string \<Rightarrow> (drain_error, string \<times> bool \<times> Node) io" where
  "ensureAnnotationExists_node obj key =
     (case om_Annotations (node_Meta obj) key of
        Some v \<Rightarrow> io_return (v, True, obj)
      | None \<Rightarrow>
          io_bind (io_map_err DApi (AnnotateNodeObject obj key DrainIdle)) (\<lambda>obj'.
            io_return (DrainIdle, False, obj')))"

text \<open>The decision after the annotations are there.\<close>

definition reconcile_request ::
    "drain_answers \<Rightarrow> Node \<Rightarrow> SriovNetworkNodeState \<Rightarrow> string \<Rightarrow> string \<Rightarrow> (drain_error, result) io" where
  "reconcile_request ans node nodeNetworkState nodeDrainAnnotation current =
     (if nodeDrainAnnotation = DrainIdle \<and> current = DrainIdle then
        io_bind (updateDrainConditions (state_Name nodeNetworkState) DrainStateIdle []) (\<lambda>_.
          io_return Done)
      else if nodeDrainAnnotation = DrainIdle \<and> (current = DrainComplete \<or> current = Draining) then
        handleNodeIdleNodeStateDrainingOrCompleted ans nodeNetworkState
      else if nodeDrainAnnotation = DrainRequired \<or> nodeDrainAnnotation = RebootRequired then
        handleNodeDrainOrReboot ans node nodeNetworkState nodeDrainAnnotation current
      else io_fail DUnexpectedAnnotation)"

text \<open>From the check of the external drainer on, with both objects found.\<close>

definition reconcile_objects ::
    "drain_answers \<Rightarrow> Node \<Rightarrow> SriovNetworkNodeState \<Rightarrow> (drain_error, result) io" where
  "reconcile_objects ans node ns0 =
     (if ObjectHasAnnotation (state_Meta ns0) NodeStateExternalDrainerAnnotation ''true''
      then io_return Done
      else
        io_bind (ensureAnnotationExists_state ns0 NodeStateDrainAnnotationCurrent)
          (\<lambda>(current, currentNodeStateExist, ns1).
        io_bind (ensureAnnotationExists_state ns1 NodeStateDrainAnnotation)
          (\<lambda>(_, desireNodeStateExist, ns2).
        io_bind (ensureAnnotationExists_node node NodeDrainAnnotation)
          (\<lambda>(nodeDrainAnnotation, nodeExist, node').
            if \<not> nodeExist \<or> \<not> currentNodeStateExist \<or> \<not> desireNodeStateExist then
              io_bind (updateDrainConditions (state_Name ns2) DrainStateIdle []) (\<lambda>_.
                io_return Requeue)
            else reconcile_request ans node' ns2 nodeDrainAnnotation current))))"

definition Reconcile :: "drain_answers \<Rightarrow> string \<Rightarrow> (drain_error, result) io" where
  "Reconcile ans nm =
     io_bind (getObject (get_node nm)) (\<lambda>nodeOpt. case nodeOpt of None \<Rightarrow> io_return Done | Some node \<Rightarrow>
     io_bind (getObject (get_state nm)) (\<lambda>stateOpt. case stateOpt of None \<Rightarrow> io_return Done | Some ns \<Rightarrow>
       reconcile_objects ans node ns))"

end
