(* ===== verification/Node_Sync.thy ===== *)
theory Node_Sync
  imports Bridge_Policy Drain_Controller
begin

text \<open>
  The node policy controller, \<^verbatim>\<open>src/controllers/sriovnetworknodepolicy_controller.go\<close>: the desired
  state of a node is computed from the policies that select it, in the order of their priorities, and
  written when it differs from the stored one; the device plugin's configuration follows.
\<close>

datatype sync_error = SyncApi api_error | SyncPolicy policy_error | SyncDevicePlugin dp_error

abbreviation NodeStateKeepUntilAnnotation :: string where
  "NodeStateKeepUntilAnnotation \<equiv> ''sriovnetwork.openshift.io/keep-state-until''"
abbreviation SriovDevicePluginLabel :: string where
  "SriovDevicePluginLabel \<equiv> ''sriovnetwork.openshift.io/device-plugin''"
abbreviation SriovDevicePluginLabelEnabled :: string where
  "SriovDevicePluginLabelEnabled \<equiv> ''Enabled''"
abbreviation SriovDevicePluginLabelDisabled :: string where
  "SriovDevicePluginLabelDisabled \<equiv> ''Disabled''"

section \<open>Operations\<close>

definition ResetKeepUntilTime :: "SriovNetworkNodeState \<Rightarrow> SriovNetworkNodeState \<times> bool" where
  "ResetKeepUntilTime s =
     (if state_Annotations s NodeStateKeepUntilAnnotation = None then (s, False)
      else (s\<lparr>state_Meta := (state_Meta s)
               \<lparr>om_Annotations := (state_Annotations s)(NodeStateKeepUntilAnnotation := None)\<rparr>\<rparr>, True))"

text \<open>The loop over the policies; \<open>ppp\<close> is the priority of the policy applied before.\<close>

fun apply_policies ::
    "bool \<Rightarrow> Node \<Rightarrow> SriovNetworkNodePolicy list \<Rightarrow> int \<Rightarrow> SriovNetworkNodeState \<Rightarrow>
     policy_error + SriovNetworkNodeState" where
  "apply_policies bridges node [] ppp newVersion = Inr newVersion"
| "apply_policies bridges node (p # npl) ppp newVersion =
     (if pol_Name p = DefaultPolicyName then apply_policies bridges node npl ppp newVersion
      else if Selected p node then
        res_bind (Apply p newVersion (ppp = ps_Priority (pol_Spec p))) (\<lambda>s1.
        res_bind (if bridges then ApplyBridgeConfig p s1 else Inr s1) (\<lambda>s2.
          apply_policies bridges node npl (ps_Priority (pol_Spec p)) s2))
      else apply_policies bridges node npl ppp newVersion)"

text \<open>The state object a node starts with: \<^verbatim>\<open>syncAllSriovNetworkNodeStates\<close> before the call.\<close>

definition initial_system :: "SriovNetworkPoolConfig option \<Rightarrow> System" where
  "initial_system netPoolConfig =
     (case netPoolConfig of
        None \<Rightarrow> \<lparr>sys_RdmaMode = [], sys_OvsConfig = []\<rparr>
      | Some pc \<Rightarrow>
          \<lparr>sys_RdmaMode = pcs_RdmaMode (pc_Spec pc),
           sys_OvsConfig = hw_OvsConfig (pcs_OvsHardwareOffloadConfig (pc_Spec pc))\<rparr>)"

definition desired_base :: "string \<Rightarrow> string \<Rightarrow> SriovOperatorConfig \<Rightarrow> SriovNetworkPoolConfig option \<Rightarrow> SriovNetworkNodeState" where
  "desired_base nm namespace dc pool =
     \<lparr>state_Meta = \<lparr>om_Name = nm, om_Namespace = namespace, om_Labels = Map.empty,
        om_Annotations = Map.empty, om_Generation = 0, om_OwnerReferences = [om_Name (opc_Meta dc)]\<rparr>,
      state_Spec = \<lparr>ns_Interfaces = [], ns_Bridges = \<lparr>bridges_OVS = []\<rparr>, ns_System = initial_system pool\<rparr>,
      state_Status = empty_status\<rparr>"

definition new_version ::
    "bool \<Rightarrow> Node \<Rightarrow> SriovNetworkNodePolicy list \<Rightarrow> SriovNetworkNodeState \<Rightarrow> SriovNetworkNodeState \<Rightarrow>
     policy_error + SriovNetworkNodeState" where
  "new_version bridges node npl ns found =
     apply_policies bridges node npl 100
       (found\<lparr>state_Spec := state_Spec ns,
              state_Meta := (state_Meta found)\<lparr>om_OwnerReferences := om_OwnerReferences (state_Meta ns)\<rparr>\<rparr>)"

definition syncSriovNetworkNodeState ::
    "bool \<Rightarrow> SriovNetworkNodePolicy list \<Rightarrow> SriovNetworkNodeState \<Rightarrow> Node \<Rightarrow> (sync_error, unit) io" where
  "syncSriovNetworkNodeState bridges npl ns node c =
     (case get_state (state_Name ns) c of
        (Inl NotFound, c') \<Rightarrow> io_map_err SyncApi (create_state ns) c'
      | (Inl e, c') \<Rightarrow> (Inl (SyncApi e), c')
      | (Inr found0, c') \<Rightarrow>
          (case ResetKeepUntilTime found0 of (found, keepUntilAnnotationUpdated) \<Rightarrow>
             if nst_Interfaces (state_Status found) = [] then
               (if keepUntilAnnotationUpdated then io_map_err SyncApi (update_state found) c'
                else (Inr (), c'))
             else
               (case new_version bridges node npl ns found of
                  Inl e \<Rightarrow> (Inl (SyncPolicy e), c')
                | Inr newVersion \<Rightarrow>
                    if \<not> keepUntilAnnotationUpdated \<and>
                       om_OwnerReferences (state_Meta newVersion) = om_OwnerReferences (state_Meta found) \<and>
                       state_Spec newVersion = state_Spec found
                    then (Inr (), c')
                    else io_map_err SyncApi (update_state newVersion) c')))"

text \<open>The first loop of \<^verbatim>\<open>syncAllSriovNetworkNodeStates\<close>; an error of the pool search is only logged.\<close>

definition find_pool :: "Node \<Rightarrow> (sync_error, SriovNetworkPoolConfig option) io" where
  "find_pool node c =
     (case findNodePoolConfig node c of (Inl _, c') \<Rightarrow> (Inr None, c') | (Inr (npc, _), c') \<Rightarrow> (Inr (Some npc), c'))"

fun sync_nodes ::
    "bool \<Rightarrow> string \<Rightarrow> SriovOperatorConfig \<Rightarrow> SriovNetworkNodePolicy list \<Rightarrow> Node list \<Rightarrow> (sync_error, unit) io" where
  "sync_nodes bridges namespace dc npl [] = io_return ()"
| "sync_nodes bridges namespace dc npl (node # nl) =
     io_bind (find_pool node) (\<lambda>netPoolConfig.
     io_bind (syncSriovNetworkNodeState bridges npl
                (desired_base (node_Name node) namespace dc netPoolConfig) node) (\<lambda>_.
       sync_nodes bridges namespace dc npl nl))"

section \<open>The device plugin's configuration\<close>

definition render_for ::
    "string list \<Rightarrow> SriovNetworkNodePolicy list \<Rightarrow> Node \<Rightarrow> (sync_error, ResourceConfig list) io" where
  "render_for nicIDMap pl node =
     (if filter (applies_to node) pl = [] then io_return []
      else io_bind (io_map_err SyncApi (get_state (node_Name node))) (\<lambda>nodeState.
        io_lift (map_err SyncDevicePlugin (renderDevicePluginConfigData nicIDMap pl node nodeState))))"

fun render_nodes ::
    "string list \<Rightarrow> SriovNetworkNodePolicy list \<Rightarrow> Node list \<Rightarrow> (string \<rightharpoonup> ResourceConfig list) \<Rightarrow>
     (sync_error, string \<rightharpoonup> ResourceConfig list) io" where
  "render_nodes nicIDMap pl [] configData = io_return configData"
| "render_nodes nicIDMap pl (node # nl) configData =
     io_bind (render_for nicIDMap pl node) (\<lambda>resources.
     io_bind (io_map_err SyncApi (LabelNode (node_Name node) SriovDevicePluginLabel
                (if resources = [] then SriovDevicePluginLabelDisabled else SriovDevicePluginLabelEnabled))) (\<lambda>_.
       render_nodes nicIDMap pl nl (configData(node_Name node \<mapsto> resources))))"

definition syncDevicePluginConfigMap ::
    "string list \<Rightarrow> SriovNetworkNodePolicy list \<Rightarrow> Node list \<Rightarrow> (sync_error, unit) io" where
  "syncDevicePluginConfigMap nicIDMap pl nl =
     io_bind (render_nodes nicIDMap pl nl Map.empty) (\<lambda>configData c.
       case get_config_map c of
         (Inl NotFound, c') \<Rightarrow> io_map_err SyncApi (put_config_map configData) c'
       | (Inl e, c') \<Rightarrow> (Inl (SyncApi e), c')
       | (Inr _, c') \<Rightarrow> io_map_err SyncApi (put_config_map configData) c')"

section \<open>The desired state is well formed\<close>

definition spec_wf :: "SriovNetworkNodeState \<Rightarrow> bool" where
  "spec_wf s \<longleftrightarrow> ifaces_wf (ns_Interfaces (state_Spec s)) \<and> bridges_sorted (state_bridges s)"

lemma apply_policies_wf:
  assumes "\<forall>p\<in>set npl. policy_wf p \<and> (bridges \<longrightarrow> bridge_wf p)" and "spec_wf s"
  shows "\<exists>s'. apply_policies bridges node npl ppp s = Inr s' \<and> spec_wf s' \<and>
    state_Status s' = state_Status s \<and> state_Meta s' = state_Meta s \<and>
    ns_System (state_Spec s') = ns_System (state_Spec s)"
  using assms
proof (induction npl arbitrary: ppp s)
  case (Cons p npl)
  let ?eq = "ppp = ps_Priority (pol_Spec p)"
  obtain s1 where s1: "Apply p s ?eq = Inr s1" "ifaces_wf (ns_Interfaces (state_Spec s1))"
    "state_Status s1 = state_Status s" "state_Meta s1 = state_Meta s"
    "ns_Bridges (state_Spec s1) = ns_Bridges (state_Spec s)" "ns_System (state_Spec s1) = ns_System (state_Spec s)"
    using Apply_wf[of p s ?eq] Cons.prems by (auto simp: spec_wf_def)
  obtain s2 where s2: "(if bridges then ApplyBridgeConfig p s1 else Inr s1) = Inr s2"
    using ApplyBridgeConfig_total[of p s1] Cons.prems(1) by (cases bridges) auto
  have keep: "state_Status s2 = state_Status s1" "state_Meta s2 = state_Meta s1"
    "ns_Interfaces (state_Spec s2) = ns_Interfaces (state_Spec s1)"
    "ns_System (state_Spec s2) = ns_System (state_Spec s1)"
    "bridges_sorted (state_bridges s1) \<Longrightarrow> bridges_sorted (state_bridges s2)"
    using s2 ApplyBridgeConfig_frame by (auto split: if_splits)
  have "spec_wf s2" using s1 keep Cons.prems(2) by (simp add: spec_wf_def)
  then show ?case using Cons s1 s2 keep by fastforce
qed simp

lemma spec_wf_base: "spec_wf (found\<lparr>state_Spec := state_Spec (desired_base nm namespace dc pool), state_Meta := m\<rparr>)"
  by (simp add: spec_wf_def desired_base_def ifaces_wf_def bridges_sorted_def)

text \<open>What a synchronisation writes, when no call fails.\<close>

lemma new_version_wf:
  assumes "\<forall>p\<in>set npl. policy_wf p \<and> (bridges \<longrightarrow> bridge_wf p)"
  obtains v where "new_version bridges node npl (desired_base nm namespace dc pool) found = Inr v"
    and "spec_wf v" and "state_Status v = state_Status found"
    and "state_Meta v = (state_Meta found)\<lparr>om_OwnerReferences := [om_Name (opc_Meta dc)]\<rparr>"
    and "ns_System (state_Spec v) = initial_system pool"
  using apply_policies_wf[OF assms spec_wf_base] unfolding new_version_def
  by (force simp: desired_base_def)

definition keep_reset :: "SriovNetworkNodeState \<Rightarrow> SriovNetworkNodeState" where
  "keep_reset s = fst (ResetKeepUntilTime s)"

lemma ResetKeepUntilTime_fields:
  "state_Status (keep_reset s) = state_Status s" "state_Spec (keep_reset s) = state_Spec s"
  "state_Name (keep_reset s) = state_Name s"
  "om_OwnerReferences (state_Meta (keep_reset s)) = om_OwnerReferences (state_Meta s)"
  "state_Annotations (keep_reset s) NodeStateKeepUntilAnnotation = None"
  "snd (ResetKeepUntilTime s) = (state_Annotations s NodeStateKeepUntilAnnotation \<noteq> None)"
  "state_Annotations s NodeStateKeepUntilAnnotation = None \<Longrightarrow> ResetKeepUntilTime s = (s, False)"
  by (auto simp: keep_reset_def ResetKeepUntilTime_def)

text \<open>
  The stored state after a synchronisation of an existing state, with or without the write: without
  discovered interfaces the specification stays, otherwise it becomes the one computed.
\<close>

lemma sync_found:
  assumes c: "cl_Faults c = []" and s: "cl_States c nm = Some s" "state_Name s = nm"
    and v: "new_version bridges node npl ns (keep_reset s) = Inr v"
    and ns: "state_Name ns = nm" "state_Meta v = (state_Meta (keep_reset s))\<lparr>om_OwnerReferences := om_OwnerReferences (state_Meta ns)\<rparr>"
      "state_Status v = state_Status s"
  shows "syncSriovNetworkNodeState bridges npl ns node c =
    (Inr (), c\<lparr>cl_States := (cl_States c)(nm \<mapsto>
       if nst_Interfaces (state_Status s) = [] then keep_reset s else v)\<rparr>)"
proof -
  obtain upd where r: "ResetKeepUntilTime s = (keep_reset s, upd)" by (metis keep_reset_def prod.collapse)
  have upd: "upd = (state_Annotations s NodeStateKeepUntilAnnotation \<noteq> None)"
    using ResetKeepUntilTime_fields(6)[of s] r by simp
  have same: "keep_reset s = s" if "\<not> upd" using that upd ResetKeepUntilTime_fields(7)[of s] r by simp
  have get: "get_state nm c = (Inr s, c)" using c s by (simp add: get_state_def)
  have id: "c\<lparr>cl_States := (cl_States c)(nm \<mapsto> s)\<rparr> = c" using s(1) by (simp add: fun_upd_idem)
  have put: "update_state t c = (Inr (), c\<lparr>cl_States := (cl_States c)(nm \<mapsto> t\<lparr>state_Status := state_Status s\<rparr>)\<rparr>)"
    if "state_Name t = nm" for t using c s that by (simp add: update_state_def api_call_def)
  have vs: "v = s" if "\<not> upd" "om_OwnerReferences (state_Meta v) = om_OwnerReferences (state_Meta s)" "state_Spec v = state_Spec s"
    using that ns same by (cases v; cases s) auto
  have names: "state_Name (keep_reset s) = nm" "state_Name v = nm"
    using s(2) ns(2) ResetKeepUntilTime_fields(3)[of s] by auto
  have st: "t\<lparr>state_Status := state_Status s\<rparr> = t" if "state_Status t = state_Status s" for t :: SriovNetworkNodeState
    using that by (cases t) auto
  note kr = ResetKeepUntilTime_fields(1-4)[of s]
  show ?thesis
  proof (cases "nst_Interfaces (state_Status s) = []")
    case True
    then show ?thesis using get ns(1) r kr names same id put[of "keep_reset s"] st[of "keep_reset s"]
      by (auto simp: syncSriovNetworkNodeState_def io_map_err_def)
  next
    case False
    let ?skip = "\<not> upd \<and> om_OwnerReferences (state_Meta v) = om_OwnerReferences (state_Meta (keep_reset s)) \<and>
      state_Spec v = state_Spec (keep_reset s)"
    have "syncSriovNetworkNodeState bridges npl ns node c =
        (if ?skip then (Inr (), c) else io_map_err SyncApi (update_state v) c)"
      using False get ns(1) r kr v by (simp add: syncSriovNetworkNodeState_def)
    moreover have "c = c\<lparr>cl_States := (cl_States c)(nm \<mapsto> v)\<rparr>" if ?skip
      using that vs kr id same by auto
    ultimately show ?thesis using False put[OF names(2)] st[OF ns(3)] by (simp add: io_map_err_def)
  qed
qed

lemma sync_found_wf:
  assumes c: "cl_Faults c = []" and s: "cl_States c (node_Name node) = Some s" "state_Name s = node_Name node"
    and p: "\<forall>p\<in>set npl. policy_wf p \<and> (bridges \<longrightarrow> bridge_wf p)"
  obtains v where "new_version bridges node npl (desired_base (node_Name node) namespace dc pool) (keep_reset s) = Inr v"
    and "syncSriovNetworkNodeState bridges npl (desired_base (node_Name node) namespace dc pool) node c =
      (Inr (), c\<lparr>cl_States := (cl_States c)(node_Name node \<mapsto>
         if nst_Interfaces (state_Status s) = [] then keep_reset s else v)\<rparr>)"
    and "spec_wf v" and "state_Status v = state_Status s"
    and "state_Meta v = (state_Meta (keep_reset s))\<lparr>om_OwnerReferences := [om_Name (opc_Meta dc)]\<rparr>"
proof -
  let ?ns = "desired_base (node_Name node) namespace dc pool"
  obtain v where v: "new_version bridges node npl ?ns (keep_reset s) = Inr v" "spec_wf v"
    "state_Status v = state_Status (keep_reset s)"
    "state_Meta v = (state_Meta (keep_reset s))\<lparr>om_OwnerReferences := [om_Name (opc_Meta dc)]\<rparr>"
    using new_version_wf[OF p] by metis
  note f = sync_found[OF c s v(1)]
  show thesis using that[OF v(1) f v(2)] v(3,4) ResetKeepUntilTime_fields(1)[of s]
    by (simp add: desired_base_def)
qed

text \<open>The computation reads only the status of the stored state, so a second run finds nothing to do.\<close>

lemma apply_policies_meta:
  "apply_policies bridges node npl ppp (s\<lparr>state_Meta := m\<rparr>) =
   map_sum id (\<lambda>t. t\<lparr>state_Meta := m\<rparr>) (apply_policies bridges node npl ppp s)"
proof (induction npl arbitrary: ppp s)
  case (Cons p npl)
  have A: "Apply p (s\<lparr>state_Meta := m\<rparr>) e = map_sum id (\<lambda>t. t\<lparr>state_Meta := m\<rparr>) (Apply p s e)" for s e
    by (cases s) (auto simp: Apply_def res_bind_def split: sum.splits)
  have B: "ApplyBridgeConfig p (s\<lparr>state_Meta := m\<rparr>) = map_sum id (\<lambda>t. t\<lparr>state_Meta := m\<rparr>) (ApplyBridgeConfig p s)" for s
    by (cases s) (auto simp: ApplyBridgeConfig_def Let_def)
  show ?case using Cons by (auto simp: A B res_bind_def split: sum.splits)
qed simp

lemma new_version_again:
  assumes "new_version bridges node npl ns found = Inr v"
    and "state_Status t = state_Status found"
  shows "new_version bridges node npl ns t =
    Inr (v\<lparr>state_Meta := (state_Meta t)\<lparr>om_OwnerReferences := om_OwnerReferences (state_Meta ns)\<rparr>\<rparr>)"
proof -
  let ?m = "\<lambda>x. (state_Meta x)\<lparr>om_OwnerReferences := om_OwnerReferences (state_Meta ns)\<rparr>"
  have "t\<lparr>state_Spec := state_Spec ns, state_Meta := ?m t\<rparr> =
      (found\<lparr>state_Spec := state_Spec ns, state_Meta := ?m found\<rparr>)\<lparr>state_Meta := ?m t\<rparr>"
    using assms(2) by (cases t; cases found) simp
  then have "new_version bridges node npl ns t =
      map_sum id (\<lambda>x. x\<lparr>state_Meta := ?m t\<rparr>) (new_version bridges node npl ns found)"
    unfolding new_version_def by (simp only: apply_policies_meta)
  then show ?thesis using assms(1) by simp
qed

text \<open>The order of the list of policies does not matter after sorting.\<close>

lemma sort_by_priority_perm:
  assumes "distinct (map policy_key ps)" and "mset ps = mset qs"
  shows "sort_by_priority ps = sort_by_priority qs"
proof -
  have "distinct (map policy_key qs)"
    using assms by (metis mset_map mset_eq_imp_distinct_iff)
  then show ?thesis using assms by (intro sorted_wrt_Less_unique sorted_sort_by_priority) auto
qed

section \<open>Properties\<close>

lemma keep_reset_id: "state_Annotations s NodeStateKeepUntilAnnotation = None \<Longrightarrow> keep_reset s = s"
  by (simp add: keep_reset_def ResetKeepUntilTime_def)

lemma keep_reset_idem [simp]: "keep_reset (keep_reset s) = keep_reset s"
  by (rule keep_reset_id) (rule ResetKeepUntilTime_fields(5))

text \<open>
  C21: synchronising a node state is idempotent. When no call fails and the policies are well formed, a
  second synchronisation with the same policies finds nothing to do: it succeeds and leaves the
  cluster exactly as the first one left it.
\<close>

theorem sync_idempotent:
  assumes c: "cl_Faults c = []" and s: "cl_States c (node_Name node) = Some s" "state_Name s = node_Name node"
    and p: "\<forall>p\<in>set npl. policy_wf p \<and> (bridges \<longrightarrow> bridge_wf p)"
    and run: "syncSriovNetworkNodeState bridges npl (desired_base (node_Name node) namespace dc pool) node c = (r, c')"
  shows "r = Inr () \<and>
    syncSriovNetworkNodeState bridges npl (desired_base (node_Name node) namespace dc pool) node c' = (Inr (), c')"
proof -
  let ?nm = "node_Name node" and ?ns = "desired_base (node_Name node) namespace dc pool"
  obtain v where v: "new_version bridges node npl ?ns (keep_reset s) = Inr v"
      "syncSriovNetworkNodeState bridges npl ?ns node c =
        (Inr (), c\<lparr>cl_States := (cl_States c)(?nm \<mapsto> if nst_Interfaces (state_Status s) = [] then keep_reset s else v)\<rparr>)"
      "spec_wf v" "state_Status v = state_Status s"
      "state_Meta v = (state_Meta (keep_reset s))\<lparr>om_OwnerReferences := [om_Name (opc_Meta dc)]\<rparr>"
    using sync_found_wf[OF c s p] by metis
  define t where "t = (if nst_Interfaces (state_Status s) = [] then keep_reset s else v)"
  have c': "c' = c\<lparr>cl_States := (cl_States c)(?nm \<mapsto> t)\<rparr>" and r: "r = Inr ()"
    using run v(2) by (auto simp: t_def)
  have none: "state_Annotations t NodeStateKeepUntilAnnotation = None"
    using v(5) ResetKeepUntilTime_fields(5)[of s] by (simp add: t_def)
  have kt: "keep_reset t = t" by (rule keep_reset_id[OF none])
  have st: "state_Status t = state_Status s" "state_Name t = ?nm"
    using v(4,5) ResetKeepUntilTime_fields(1,3)[of s] s(2) by (auto simp: t_def)
  have again: "new_version bridges node npl ?ns t =
      Inr (v\<lparr>state_Meta := (state_Meta t)\<lparr>om_OwnerReferences := [om_Name (opc_Meta dc)]\<rparr>\<rparr>)"
    using new_version_again[OF v(1), of t] st(1) ResetKeepUntilTime_fields(1)[of s] by (simp add: desired_base_def)
  have same: "v\<lparr>state_Meta := (state_Meta t)\<lparr>om_OwnerReferences := [om_Name (opc_Meta dc)]\<rparr>\<rparr> = t"
    if "nst_Interfaces (state_Status s) \<noteq> []" using that v(5) by (cases v) (simp add: t_def)
  have "syncSriovNetworkNodeState bridges npl ?ns node c' =
      (Inr (), c'\<lparr>cl_States := (cl_States c')(?nm \<mapsto> if nst_Interfaces (state_Status t) = [] then keep_reset t
         else v\<lparr>state_Meta := (state_Meta t)\<lparr>om_OwnerReferences := [om_Name (opc_Meta dc)]\<rparr>\<rparr>)\<rparr>)"
    using c st again v(4) kt by (intro sync_found) (auto simp: c' desired_base_def)
  moreover have "c'\<lparr>cl_States := (cl_States c')(?nm \<mapsto> t)\<rparr> = c'" by (simp add: c')
  ultimately show ?thesis using r kt same st(1) by (cases "nst_Interfaces (state_Status s) = []") auto
qed

definition sample_config :: SriovOperatorConfig where
  "sample_config = \<lparr>opc_Meta = sample_meta ''default'',
     opc_Spec = \<lparr>ocs_ConfigDaemonNodeSelector = [], ocs_EnableInjector = False, ocs_EnableOperatorWebhook = False,
       ocs_LogLevel = 0, ocs_DisableDrain = False, ocs_EnableOvsOffload = False, ocs_ConfigurationMode = [],
       ocs_UseCDI = False, ocs_DisablePlugins = [], ocs_FeatureGates = [], ocs_ConfigDaemonEnvVars = []\<rparr>\<rparr>"

definition sample_sync_cluster :: cluster where
  "sample_sync_cluster = \<lparr>cl_Nodes = [sample_node ''n''], cl_States = [''n'' \<mapsto> sample_state ''n''],
     cl_Pools = [], cl_Faults = [], cl_Clock = 0, cl_ConfigMap = None,
     cl_Networks = [], cl_Nads = Map.empty, cl_Namespaces = []\<rparr>"

definition sample_policies :: "SriovNetworkNodePolicy list" where
  "sample_policies = [sample_policy ''p'' ''a'' 10 [''ens1#0-1''], sample_policy ''q'' ''b'' 10 [''ens1#2-3'']]"

lemma sample_policies_wf: "\<forall>p\<in>set sample_policies. policy_wf p \<and> (b \<longrightarrow> bridge_wf p)"
proof -
  have "policy_wf (sample_policy ''p'' ''a'' 10 [''ens1#0-1''])" "policy_wf (sample_policy ''q'' ''b'' 10 [''ens1#2-3''])"
    by code_simp+
  moreover have "bridge_wf (sample_policy nm res prio pfs)" for nm res prio pfs
    by (simp add: bridge_wf_def Bridge_IsEmpty_def sample_policy_def)
  ultimately show ?thesis by (simp add: sample_policies_def)
qed

lemma sample_sync_state:
  "cl_Faults sample_sync_cluster = []" "cl_States sample_sync_cluster (node_Name (sample_node ''n'')) = Some (sample_state ''n'')"
  "state_Name (sample_state ''n'') = node_Name (sample_node ''n'')"
  by (simp_all add: sample_sync_cluster_def sample_node_def sample_state_def sample_meta_def)

theorem sync_idempotent_witness:
  "(let sync = syncSriovNetworkNodeState False sample_policies
                 (desired_base (node_Name (sample_node ''n'')) ''sriov'' sample_config None) (sample_node ''n'');
        c' = snd (sync sample_sync_cluster)
    in sync c' = (Inr (), c'))"
  unfolding Let_def
  using sync_idempotent[OF sample_sync_state sample_policies_wf[of False] prod.collapse[symmetric],
      of "''sriov''" sample_config None] by blast

text \<open>
  C22: with policy names that are distinct, the order in which the API server lists the policies has no
  influence on what is written: synchronising with any permutation, sorted by priority as the
  controller does, gives the same result.
\<close>

theorem sync_order_irrelevant:
  assumes "distinct (map pol_Name pl)" and "mset pl = mset pl'"
  shows "syncSriovNetworkNodeState bridges (sort_by_priority pl) ns node =
    syncSriovNetworkNodeState bridges (sort_by_priority pl') ns node"
proof -
  have "map pol_Name pl = map snd (map policy_key pl)" by (simp add: policy_key_def comp_def)
  then have "distinct (map policy_key pl)" using assms(1) by (metis distinct_map)
  then show ?thesis using sort_by_priority_perm[OF _ assms(2)] by simp
qed

theorem sync_order_irrelevant_witness:
  "syncSriovNetworkNodeState False (sort_by_priority sample_policies) (sample_state ''n'') (sample_node ''n'') =
   syncSriovNetworkNodeState False (sort_by_priority (rev sample_policies)) (sample_state ''n'') (sample_node ''n'')"
  by (rule sync_order_irrelevant) (simp_all add: sample_policies_def sample_policy_def sample_meta_def)

end
