(* ===== verification/Node_Cleanup.thy ===== *)
theory Node_Cleanup
  imports Node_Sync "HOL-Library.Word"
begin

text \<open>
  The whole reconciliation of the node policy controller (\<^verbatim>\<open>src/controllers/sriovnetworknodepolicy_controller.go\<close>), with the
  removal of node states whose node is gone: such a state gets a time until which it is kept, and is deleted by a
  reconciliation after that time. Times are in nanoseconds.
\<close>

section \<open>Times\<close>

text \<open>The library's text form of times (RFC 3339) is a parameter. The zero time is 0.\<close>

record time_format =
  tm_Format :: "int \<Rightarrow> string"
  tm_Parse :: "string \<Rightarrow> int option"

text \<open>The text has no fraction of a second, and an empty text is no time.\<close>

definition seconds_only :: "int \<Rightarrow> int" where
  "seconds_only t = t - t mod 1000000000"

definition time_format_ok :: "time_format \<Rightarrow> bool" where
  "time_format_ok tf \<longleftrightarrow> (\<forall>t. tm_Parse tf (tm_Format tf t) = Some (seconds_only t)) \<and> tm_Parse tf [] = None"

definition SetKeepUntilTime :: "time_format \<Rightarrow> int \<Rightarrow> SriovNetworkNodeState \<Rightarrow> SriovNetworkNodeState" where
  "SetKeepUntilTime tf t s = annotate_stored NodeStateKeepUntilAnnotation (tm_Format tf t) s"

definition GetKeepUntilTime :: "time_format \<Rightarrow> SriovNetworkNodeState \<Rightarrow> int" where
  "GetKeepUntilTime tf s =
     (case tm_Parse tf (case state_Annotations s NodeStateKeepUntilAnnotation of None \<Rightarrow> [] | Some v \<Rightarrow> v) of
        None \<Rightarrow> 0 | Some t \<Rightarrow> t)"

abbreviation DefaultNodeStateCleanupDelayMinutes :: int where "DefaultNodeStateCleanupDelayMinutes \<equiv> 30"

definition delay_minutes :: "string option \<Rightarrow> int" where
  "delay_minutes envValue =
     (case envValue of
        Some v \<Rightarrow> (case atoi v of (n, err) \<Rightarrow> if err \<noteq> None \<or> n < 0 then DefaultNodeStateCleanupDelayMinutes else n)
      | None \<Rightarrow> DefaultNodeStateCleanupDelayMinutes)"

text \<open>\<^verbatim>\<open>time.Minute * time.Duration(delayMinutes)\<close>, a product of 64-bit integers.\<close>

definition delay_duration :: "int \<Rightarrow> int" where
  "delay_duration n = sint (word_of_int (60000000000 * n) :: 64 word)"

section \<open>Operations\<close>

record cleanup_env =
  ce_Format :: time_format
  ce_DelayEnv :: "string option"
  ce_Namespace :: string
  ce_Bridges :: bool
  ce_NicIDMap :: "string list"

definition delete_state :: "SriovNetworkNodeState \<Rightarrow> (api_error, unit) io" where
  "delete_state obj = api_call (\<lambda>c.
     case cl_States c (state_Name obj) of
       None \<Rightarrow> (Inl NotFound, c)
     | Some _ \<Rightarrow> (Inr (), c\<lparr>cl_States := (cl_States c)(state_Name obj := None)\<rparr>))"

definition handleStaleNodeState :: "cleanup_env \<Rightarrow> SriovNetworkNodeState \<Rightarrow> (sync_error, unit) io" where
  "handleStaleNodeState env ns =
     (let delayMinutes = delay_minutes (ce_DelayEnv env) in
      if delayMinutes \<noteq> 0
      then io_bind (io_gets cl_Clock) (\<lambda>now.
        let keepUntilTime = GetKeepUntilTime (ce_Format env) ns in
        if keepUntilTime = 0
        then io_map_err SyncApi (update_state (SetKeepUntilTime (ce_Format env) (now + delay_duration delayMinutes) ns))
        else if now < keepUntilTime then io_return ()
        else io_map_err SyncApi (delete_state ns))
      else io_map_err SyncApi (delete_state ns))"

definition unlabel_node :: "string \<Rightarrow> Node \<Rightarrow> Node" where
  "unlabel_node k n = n\<lparr>node_Meta := (node_Meta n)\<lparr>om_Labels := (node_Labels n)(k := None)\<rparr>\<rparr>"

text \<open>\<^verbatim>\<open>utils.RemoveLabelFromNode\<close> and \<^verbatim>\<open>removeLabelObject\<close>.\<close>

definition RemoveLabelFromNode :: "string \<Rightarrow> string \<Rightarrow> (api_error, unit) io" where
  "RemoveLabelFromNode nm k =
     io_bind (get_node nm) (\<lambda>n.
       if node_Labels n k = None then io_return ()
       else api_call (\<lambda>c.
         case find_node c nm of
           None \<Rightarrow> (Inl NotFound, c)
         | Some _ \<Rightarrow> (Inr (), c\<lparr>cl_Nodes := map (\<lambda>m. if node_Name m = nm then unlabel_node k m else m) (cl_Nodes c)\<rparr>)))"

text \<open>The API server lists the states in some order of their names.\<close>

definition list_states :: "string list \<Rightarrow> (api_error, SriovNetworkNodeState list) io" where
  "list_states order = api_call (\<lambda>c. (Inr (List.map_filter (cl_States c) order), c))"

definition clean_state :: "cleanup_env \<Rightarrow> Node list \<Rightarrow> SriovNetworkNodeState \<Rightarrow> (sync_error, unit) io" where
  "clean_state env nl ns =
     (if list_ex (\<lambda>node. state_Name ns = node_Name node) nl then io_return ()
      else io_handle (RemoveLabelFromNode (state_Name ns) SriovDevicePluginLabel)
        (\<lambda>err. if err = NotFound then handleStaleNodeState env ns else io_fail (SyncApi err))
        (\<lambda>_. handleStaleNodeState env ns))"

definition syncAllSriovNetworkNodeStates ::
    "cleanup_env \<Rightarrow> string list \<Rightarrow> SriovOperatorConfig \<Rightarrow> SriovNetworkNodePolicy list \<Rightarrow> Node list \<Rightarrow> (sync_error, unit) io" where
  "syncAllSriovNetworkNodeStates env order dc npl nl =
     io_bind (sync_nodes (ce_Bridges env) (ce_Namespace env) dc npl nl) (\<lambda>_.
       io_handle (list_states order)
         (\<lambda>err. if err = NotFound then io_return () else io_fail (SyncApi err))
         (io_each (clean_state env nl)))"

text \<open>
  What the reads of the operator configuration and of the policies return, and the order in which node states are listed,
  are arguments.
\<close>

record policy_reads =
  pr_Config :: "api_error + SriovOperatorConfig"
  pr_Policies :: "api_error + SriovNetworkNodePolicy list"
  pr_Order :: "string list"

datatype sync_result = SyncIgnored | SyncRequeue | SyncResync

definition daemon_selector :: "SriovOperatorConfig \<Rightarrow> (string \<times> string) list" where
  "daemon_selector dc =
     (if ocs_ConfigDaemonNodeSelector (opc_Spec dc) \<noteq> [] then ocs_ConfigDaemonNodeSelector (opc_Spec dc)
      else [(''node-role.kubernetes.io/worker'', []), (''kubernetes.io/os'', ''linux'')])"

definition Reconcile_policies :: "cleanup_env \<Rightarrow> policy_reads \<Rightarrow> string \<Rightarrow> string \<Rightarrow> (sync_error, sync_result) io" where
  "Reconcile_policies env rd namespace nm =
     (if nm \<noteq> ''node-policy-sync-event'' \<or> namespace \<noteq> [] then io_return SyncIgnored
      else case pr_Config rd of
        Inl e \<Rightarrow> if e = NotFound then io_return SyncRequeue else io_fail (SyncApi e)
      | Inr dc \<Rightarrow>
          (case pr_Policies rd of
             Inl e \<Rightarrow> if e = NotFound then io_return SyncIgnored else io_fail (SyncApi e)
           | Inr items \<Rightarrow>
               io_bind (io_map_err SyncApi (list_nodes (\<lambda>n. list_all (\<lambda>(k, v). node_Labels n k = Some v) (daemon_selector dc)))) (\<lambda>nodeList.
                 let policyList = sort_by_priority items in
                 io_bind (syncAllSriovNetworkNodeStates env (pr_Order rd) dc policyList nodeList) (\<lambda>_.
                 io_bind (syncDevicePluginConfigMap (ce_NicIDMap env) policyList nodeList) (\<lambda>_.
                   io_return SyncResync)))))"

section \<open>What a reconciliation keeps\<close>

lemma keeps_api_call [keeps_rules]:
  assumes "\<And>c fs. I (c\<lparr>cl_Faults := fs\<rparr>) = I c" and "io_keeps I m"
  shows "io_keeps I (api_call m)"
proof (rule io_keepsI)
  fix c assume i: "I c"
  obtain r c' where a: "api_call m c = (r, c')" by (cases "api_call m c")
  have "I c'" using a
  proof (cases rule: api_call_cases)
    case (fault fs)
    then show ?thesis using assms(1) i by simp
  next
    case (run fs)
    have "I (c\<lparr>cl_Faults := fs\<rparr>)" using assms(1) i by simp
    then show ?thesis by (rule io_keepsD[OF assms(2) _ run])
  qed
  then show "I (snd (api_call m c))" using a by simp
qed

lemma keeps_case_option [keeps_rules]:
  "(x = None \<Longrightarrow> io_keeps I m) \<Longrightarrow> (\<And>y. x = Some y \<Longrightarrow> io_keeps I (f y)) \<Longrightarrow> io_keeps I (case x of None \<Rightarrow> m | Some y \<Rightarrow> f y)"
  by (cases x) simp_all

lemma keeps_lift [keeps_rules]: "io_keeps I (io_lift r)"
  by (rule io_keeps_same) (simp add: io_lift_def)

lemma apply_policies_same_meta:
  assumes "apply_policies bridges node npl ppp s = Inr v"
  shows "state_Meta v = state_Meta s"
  using apply_policies_meta[where s = s and m = "state_Meta s" and bridges = bridges and node = node and npl = npl and ppp = ppp] assms
  by (cases s; cases v) auto

text \<open>
  A property of the cluster that depends on the node states only, and what a new version of a node state needs to keep
  it. The synchronisation writes versions without a time until which the state is kept.
\<close>

locale node_state_invariant =
  fixes I :: "cluster \<Rightarrow> bool" and ok :: "SriovNetworkNodeState \<Rightarrow> bool"
  assumes faults: "I (c\<lparr>cl_Faults := fs\<rparr>) = I c"
    and nodes: "I (c\<lparr>cl_Nodes := ns\<rparr>) = I c"
    and config_map: "I (c\<lparr>cl_ConfigMap := cm\<rparr>) = I c"
    and put: "I c \<Longrightarrow> ok s \<Longrightarrow> I (c\<lparr>cl_States := (cl_States c)(state_Name s \<mapsto> s\<lparr>state_Status := st\<rparr>)\<rparr>)"
    and new: "I c \<Longrightarrow> cl_States c (state_Name s) = None \<Longrightarrow> I (c\<lparr>cl_States := (cl_States c)(state_Name s \<mapsto> s\<lparr>state_Status := st\<rparr>)\<rparr>)"
    and unmarked: "state_Annotations s NodeStateKeepUntilAnnotation = None \<Longrightarrow> ok s"
begin

lemma reads:
  "io_keeps I (get_node n)" "io_keeps I (get_state n)" "io_keeps I (list_nodes P)" "io_keeps I list_pools"
  "io_keeps I (list_states order)" "io_keeps I get_config_map"
  unfolding get_node_def get_state_def list_nodes_def list_pools_def list_states_def get_config_map_def
  by (rule keeps_api_call[OF faults], rule io_keeps_same, simp)+

lemma other_writes: "io_keeps I (put_config_map m)" "io_keeps I (LabelNode n k v)" "io_keeps I (RemoveLabelFromNode n k)"
  unfolding put_config_map_def LabelNode_def RemoveLabelFromNode_def
  by (intro keeps_bind keeps_if keeps_return reads keeps_api_call[OF faults] io_keepsI, simp add: nodes config_map split: option.split)+

lemma keeps_update: "ok obj \<Longrightarrow> io_keeps I (update_state obj)"
  unfolding update_state_def
  by (rule keeps_api_call[OF faults], rule io_keepsI) (auto simp: put split: option.split)

lemma keeps_create_state: "io_keeps I (create_state obj)"
  unfolding create_state_def
  by (rule keeps_api_call[OF faults], rule io_keepsI) (auto simp: new split: option.split)

lemma keeps_find_pool: "io_keeps I (find_pool node)"
proof -
  have scan: "io_keeps I (scan_pools node npcl sel pooled)" for npcl sel pooled
    by (induction node npcl sel pooled rule: scan_pools.induct) (auto intro!: keeps_rules reads)
  have k: "io_keeps I (findNodePoolConfig node)"
    unfolding findNodePoolConfig_def
    by (intro keeps_rules scan reads) (auto split: list.split intro!: keeps_rules reads)
  show ?thesis
    by (intro io_keepsI) (use io_keepsD[OF k] in \<open>auto simp: find_pool_def split: prod.splits sum.splits\<close>)
qed

lemma keeps_sync: "io_keeps I (syncSriovNetworkNodeState bridges npl ns node)"
proof (rule io_keepsI)
  fix c assume k: "I c"
  obtain r c' where g: "get_state (state_Name ns) c = (r, c')" by (cases "get_state (state_Name ns) c")
  have k': "I c'" by (rule io_keepsD[OF reads(2) k g])
  have update: "I (snd (io_map_err SyncApi (update_state t) c'))" if "state_Annotations t NodeStateKeepUntilAnnotation = None" for t
    using keeps_map_err[OF keeps_update[OF unmarked[OF that]]] k' unfolding io_keeps_def by blast
  have create: "I (snd (io_map_err SyncApi (create_state ns) c'))"
    using keeps_map_err[OF keeps_create_state] k' unfolding io_keeps_def by blast
  show "I (snd (syncSriovNetworkNodeState bridges npl ns node c))"
  proof (cases r)
    case (Inl e)
    then show ?thesis using g k' create by (cases e) (auto simp: syncSriovNetworkNodeState_def)
  next
    case (Inr found)
    obtain b where f: "ResetKeepUntilTime found = (keep_reset found, b)" by (metis keep_reset_def prod.collapse)
    have none: "state_Annotations (keep_reset found) NodeStateKeepUntilAnnotation = None" by (rule ResetKeepUntilTime_fields(5))
    have "state_Annotations v NodeStateKeepUntilAnnotation = None"
      if "new_version bridges node npl ns (keep_reset found) = Inr v" for v
      using apply_policies_same_meta[OF that[unfolded new_version_def]] none by simp
    then show ?thesis using g Inr f k' update none by (auto simp: syncSriovNetworkNodeState_def split: sum.split)
  qed
qed

lemma keeps_sync_nodes: "io_keeps I (sync_nodes bridges namespace dc npl nl)"
  by (induction nl) (auto intro!: keeps_return keeps_bind keeps_find_pool keeps_sync)

lemma keeps_config_map: "io_keeps I (syncDevicePluginConfigMap nics pl nl)"
proof -
  have "io_keeps I (render_nodes nics pl nl m)" for m
    by (induction nl arbitrary: m) (auto simp: render_for_def intro!: keeps_rules reads other_writes)
  moreover have "io_keeps I (\<lambda>c. case get_config_map c of
         (Inl NotFound, c') \<Rightarrow> io_map_err SyncApi (put_config_map m) c'
       | (Inl e, c') \<Rightarrow> (Inl (SyncApi e), c')
       | (Inr _, c') \<Rightarrow> io_map_err SyncApi (put_config_map m) c')" for m
  proof (rule io_keepsI)
    fix c assume k: "I c"
    obtain r c' where g: "get_config_map c = (r, c')" by (cases "get_config_map c")
    have k': "I c'" by (rule io_keepsD[OF reads(6) k g])
    have "I (snd (io_map_err SyncApi (put_config_map m) c'))"
      using keeps_map_err[OF other_writes(1)] k' unfolding io_keeps_def by blast
    then show "I (snd (case get_config_map c of
         (Inl NotFound, c') \<Rightarrow> io_map_err SyncApi (put_config_map m) c'
       | (Inl e, c') \<Rightarrow> (Inl (SyncApi e), c')
       | (Inr _, c') \<Rightarrow> io_map_err SyncApi (put_config_map m) c'))"
      using g k' by (auto split: sum.split api_error.split)
  qed
  ultimately show ?thesis unfolding syncDevicePluginConfigMap_def by (auto intro!: keeps_bind)
qed

text \<open>The rest depends on what happens to stale states.\<close>

lemma keeps_clean:
  "io_keeps I (handleStaleNodeState env ns) \<Longrightarrow> io_keeps I (clean_state env nl ns)"
  unfolding clean_state_def by (intro keeps_if keeps_return keeps_handle other_writes keeps_fail)

lemma keeps_sync_all:
  assumes "io_triple I (list_states order) (\<lambda>nss c. I c \<and> list_all (\<lambda>ns. io_keeps I (handleStaleNodeState env ns)) nss) I"
  shows "io_keeps I (syncAllSriovNetworkNodeStates env order dc npl nl)"
proof -
  let ?body = "io_handle (list_states order)
      (\<lambda>err. if err = NotFound then io_return () else io_fail (SyncApi err)) (io_each (clean_state env nl))"
  have "io_keeps I ?body"
  proof (rule io_keepsI)
    fix c assume k: "I c"
    obtain r c' where l: "list_states order c = (r, c')" by (cases "list_states order c")
    note listed = io_tripleD[OF assms k l]
    show "I (snd (?body c))"
    proof (cases r)
      case (Inr nss)
      then have "io_keeps I (io_each (clean_state env nl) nss)"
        using listed by (intro keeps_each keeps_clean) (auto simp: list_all_iff)
      then show ?thesis using l Inr listed by (simp add: io_handle_def io_keeps_def)
    qed (use l listed in \<open>simp add: io_handle_def io_return_def io_fail_def\<close>)
  qed
  then show ?thesis unfolding syncAllSriovNetworkNodeStates_def by (intro keeps_bind keeps_sync_nodes)
qed

lemma keeps_reconcile:
  assumes "\<And>order. io_triple I (list_states order) (\<lambda>nss c. I c \<and> list_all (\<lambda>ns. io_keeps I (handleStaleNodeState env ns)) nss) I"
  shows "io_keeps I (Reconcile_policies env rd namespace name)"
  unfolding Reconcile_policies_def Let_def
  by (auto split: sum.split intro!: keeps_if keeps_return keeps_fail keeps_bind keeps_map_err reads keeps_sync_all[OF assms]
      keeps_config_map)

end

section \<open>Node states are kept for the delay\<close>

definition names_ok :: "cluster \<Rightarrow> bool" where
  "names_ok c \<longleftrightarrow> (\<forall>nm s. cl_States c nm = Some s \<longrightarrow> state_Name s = nm)"

text \<open>The state is stored, and if it has a time until which it is kept, that is not before the deadline.\<close>

definition keep_ok :: "time_format \<Rightarrow> int \<Rightarrow> SriovNetworkNodeState \<Rightarrow> bool" where
  "keep_ok tf deadline s \<longleftrightarrow> GetKeepUntilTime tf s = 0 \<or> deadline \<le> GetKeepUntilTime tf s"

definition kept :: "time_format \<Rightarrow> int \<Rightarrow> string \<Rightarrow> int \<Rightarrow> cluster \<Rightarrow> bool" where
  "kept tf deadline nm now c \<longleftrightarrow>
     time_format_ok tf \<and> names_ok c \<and> cl_Clock c = now \<and> (\<exists>s. cl_States c nm = Some s \<and> keep_ok tf deadline s)"

definition same_clock :: "int \<Rightarrow> cluster \<Rightarrow> bool" where "same_clock now c \<longleftrightarrow> cl_Clock c = now"

lemma keep_ok_status [simp]: "keep_ok tf d (s\<lparr>state_Status := st\<rparr>) = keep_ok tf d s"
  by (simp add: keep_ok_def GetKeepUntilTime_def)

interpretation keeping: node_state_invariant "kept tf d nm now" "\<lambda>s. time_format_ok tf \<longrightarrow> state_Name s = nm \<longrightarrow> keep_ok tf d s"
  for tf d nm now
proof
  fix s :: SriovNetworkNodeState assume "state_Annotations s NodeStateKeepUntilAnnotation = None"
  then show "time_format_ok tf \<longrightarrow> state_Name s = nm \<longrightarrow> keep_ok tf d s"
    by (simp add: keep_ok_def GetKeepUntilTime_def time_format_ok_def)
qed (auto simp: kept_def names_ok_def)

interpretation clock: node_state_invariant "same_clock now" "\<lambda>s. True" for now
  by unfold_locales (auto simp: same_clock_def)


lemma seconds_only_mono: "s \<le> t \<Longrightarrow> seconds_only s \<le> seconds_only t"
proof -
  assume "s \<le> t"
  then have "1000000000 * (s div 1000000000) \<le> 1000000000 * (t div 1000000000)" by (simp add: zdiv_mono1)
  then show ?thesis by (simp add: seconds_only_def minus_mod_eq_mult_div)
qed

definition cleanup_deadline :: "cleanup_env \<Rightarrow> int \<Rightarrow> int" where
  "cleanup_deadline env t = seconds_only (t + delay_duration (delay_minutes (ce_DelayEnv env)))"

lemma keeping_delete: "state_Name obj \<noteq> nm \<Longrightarrow> io_keeps (kept tf d nm now) (delete_state obj)"
  unfolding delete_state_def
  by (rule keeps_api_call[OF keeping.faults], rule io_keepsI) (auto simp: kept_def names_ok_def split: option.splits)

lemma keeping_stale:
  assumes "time_format_ok (ce_Format env)" and "delay_minutes (ce_DelayEnv env) \<noteq> 0" and "t \<le> now" "now < cleanup_deadline env t"
    and "state_Name ns = nm \<Longrightarrow> keep_ok (ce_Format env) (cleanup_deadline env t) ns"
  shows "io_keeps (kept (ce_Format env) (cleanup_deadline env t) nm now) (handleStaleNodeState env ns)"
proof -
  let ?I = "kept (ce_Format env) (cleanup_deadline env t) nm now" and ?k = "GetKeepUntilTime (ce_Format env) ns"
  let ?later = "SetKeepUntilTime (ce_Format env) (now + delay_duration (delay_minutes (ce_DelayEnv env))) ns"
  have "GetKeepUntilTime (ce_Format env) ?later = cleanup_deadline env now"
    using assms(1) by (simp add: SetKeepUntilTime_def GetKeepUntilTime_def annotate_stored_def set_annotation_def
        time_format_ok_def cleanup_deadline_def)
  moreover have "cleanup_deadline env t \<le> cleanup_deadline env now"
    using assms(3) by (simp add: cleanup_deadline_def seconds_only_mono)
  ultimately have "keep_ok (ce_Format env) (cleanup_deadline env t) ?later" by (simp add: keep_ok_def)
  then have put: "io_keeps ?I (io_map_err SyncApi (update_state ?later))" by (intro keeps_map_err keeping.keeps_update) simp
  have del: "io_keeps ?I (io_map_err SyncApi (delete_state ns))" if "?k \<noteq> 0" "\<not> now < ?k"
  proof -
    have "state_Name ns \<noteq> nm" using that assms(4,5) by (auto simp: keep_ok_def)
    then show ?thesis by (intro keeps_map_err keeping_delete)
  qed
  have "io_keeps ?I (\<lambda>c. (if ?k = 0 then io_map_err SyncApi (update_state (SetKeepUntilTime (ce_Format env)
          (cl_Clock c + delay_duration (delay_minutes (ce_DelayEnv env))) ns))
        else if cl_Clock c < ?k then io_return () else io_map_err SyncApi (delete_state ns)) c)"
    using put del by (auto simp: io_keeps_def kept_def io_return_def)
  then show ?thesis using assms(2) by (simp add: handleStaleNodeState_def io_keeps_def io_bind_def io_gets_def Let_def)
qed

lemma list_states_triple:
  "io_triple (kept tf d nm now) (list_states order)
     (\<lambda>nss c. kept tf d nm now c \<and> (\<forall>ns\<in>set nss. state_Name ns = nm \<longrightarrow> keep_ok tf d ns)) (kept tf d nm now)"
  unfolding list_states_def
proof (rule io_triple_api_call)
  show "fault_blind (kept tf d nm now)" by (simp add: fault_blind_def keeping.faults)
qed (auto simp: io_triple_def kept_def names_ok_def map_filter_def)

lemma keeping_reconcile:
  assumes "time_format_ok (ce_Format env)" and "delay_minutes (ce_DelayEnv env) \<noteq> 0" and "t \<le> now" "now < cleanup_deadline env t"
  shows "io_keeps (kept (ce_Format env) (cleanup_deadline env t) nm now) (Reconcile_policies env rd namespace name)"
  by (rule keeping.keeps_reconcile, rule io_triple_conseq[OF list_states_triple])
    (auto simp: list_all_iff intro!: keeping_stale[OF assms])

lemma clock_reconcile: "io_keeps (same_clock now) (Reconcile_policies env rd namespace name)"
proof (rule clock.keeps_reconcile)
  have del: "io_keeps (same_clock now) (delete_state obj)" for obj
    unfolding delete_state_def
    by (rule keeps_api_call[OF clock.faults], rule io_keepsI) (auto simp: same_clock_def split: option.splits)
  have "io_keeps (same_clock now) (handleStaleNodeState env ns)" for ns
    unfolding handleStaleNodeState_def Let_def
    by (intro keeps_if keeps_bind keeps_gets keeps_map_err clock.keeps_update keeps_return del) simp
  moreover have "io_triple (same_clock now) (list_states order) (\<lambda>_. same_clock now) (same_clock now)" for order
    using clock.reads(5)[of now order] unfolding io_keeps_def io_triple_def by (auto split: prod.splits sum.splits)
  ultimately show "io_triple (same_clock now) (list_states order)
      (\<lambda>nss c. same_clock now c \<and> list_all (\<lambda>ns. io_keeps (same_clock now) (handleStaleNodeState env ns)) nss) (same_clock now)" for order
    by (simp add: list_all_iff)
qed

text \<open>The controller reconciles with any answers, time passes, and others change everything but the node states.\<close>

inductive cleanup_step :: "cleanup_env \<Rightarrow> cluster \<Rightarrow> cluster \<Rightarrow> bool" for env where
  reconcile: "Reconcile_policies env rd namespace name c = (r, c') \<Longrightarrow> cleanup_step env c c'"
| others: "cl_States c' = cl_States c \<Longrightarrow> cl_Clock c \<le> cl_Clock c' \<Longrightarrow> cleanup_step env c c'"

definition cleanup_inv :: "cleanup_env \<Rightarrow> int \<Rightarrow> string \<Rightarrow> cluster \<Rightarrow> bool" where
  "cleanup_inv env t nm c \<longleftrightarrow> t \<le> cl_Clock c \<and>
     (cleanup_deadline env t \<le> cl_Clock c \<or> kept (ce_Format env) (cleanup_deadline env t) nm (cl_Clock c) c)"

lemma cleanup_step_inv:
  assumes "cleanup_step env c c'" and "time_format_ok (ce_Format env)" and "delay_minutes (ce_DelayEnv env) \<noteq> 0"
    and "cleanup_inv env t nm c"
  shows "cleanup_inv env t nm c'"
  using assms
proof (induction rule: cleanup_step.induct)
  case (reconcile rd namespace name c r c')
  have now: "cl_Clock c' = cl_Clock c"
    using io_keepsD[OF clock_reconcile[of "cl_Clock c"] _ reconcile(1)] by (simp add: same_clock_def)
  show ?case
  proof (cases "cleanup_deadline env t \<le> cl_Clock c")
    case False
    then have "kept (ce_Format env) (cleanup_deadline env t) nm (cl_Clock c) c" "t \<le> cl_Clock c"
      using reconcile(4) by (auto simp: cleanup_inv_def)
    moreover have "cl_Clock c < cleanup_deadline env t" using False by simp
    ultimately have "kept (ce_Format env) (cleanup_deadline env t) nm (cl_Clock c) c'"
      by (intro io_keepsD[OF keeping_reconcile[OF reconcile(2,3)] _ reconcile(1)])
    then show ?thesis using reconcile(4) now by (simp add: cleanup_inv_def)
  qed (use reconcile(4) now in \<open>simp add: cleanup_inv_def\<close>)
next
  case (others c' c)
  then show ?case by (auto simp: cleanup_inv_def kept_def names_ok_def)
qed

text \<open>
  C23: the state of a node that disappears is kept for the configured delay. From the moment the stored state of a node has no
  mark, the controller does not delete it before the delay has passed (up to the second in which the
  mark is written), whatever calls fail and whatever nodes and policies its reconciliations see.
\<close>

theorem stale_state_kept:
  assumes "time_format_ok (ce_Format env)" and "delay_minutes (ce_DelayEnv env) \<noteq> 0" and "names_ok c"
    and "cl_States c nm = Some s" "state_Annotations s NodeStateKeepUntilAnnotation = None"
    and "(cleanup_step env)\<^sup>*\<^sup>* c c'" and "cl_Clock c' < cleanup_deadline env (cl_Clock c)"
  shows "cl_States c' nm \<noteq> None"
proof -
  have "keep_ok (ce_Format env) d s" for d using keeping.unmarked[OF assms(5)] assms(1) by blast
  then have "cleanup_inv env (cl_Clock c) nm c" using assms(1,3,4) by (auto simp: cleanup_inv_def kept_def)
  then have "cleanup_inv env (cl_Clock c) nm c'"
    by (rule rtranclp_induct[OF assms(6), where P = "cleanup_inv env (cl_Clock c) nm"]) (rule cleanup_step_inv[OF _ assms(1,2)])
  then show ?thesis using assms(7) by (auto simp: cleanup_inv_def kept_def)
qed


text \<open>A text form of times with a sign, and a state whose node is gone: it is still there one minute before the end of the delay.\<close>

definition sample_format :: time_format where
  "sample_format = \<lparr>
     tm_Format = (\<lambda>t. (if seconds_only t < 0 then CHR ''-'' else CHR ''+'') # itoa_nat (nat \<bar>seconds_only t\<bar>)),
     tm_Parse = (\<lambda>v. case v of [] \<Rightarrow> None | c # ds \<Rightarrow> Some (if c = CHR ''-'' then - int (digits_val ds) else int (digits_val ds)))\<rparr>"

lemma sample_format_ok: "time_format_ok sample_format"
  by (simp add: time_format_ok_def sample_format_def digits_val_itoa_nat del: itoa_nat.simps)

definition sample_cleanup :: cleanup_env where
  "sample_cleanup = \<lparr>ce_Format = sample_format, ce_DelayEnv = None, ce_Namespace = ''sriov'', ce_Bridges = False, ce_NicIDMap = []\<rparr>"

definition sample_gone :: cluster where
  "sample_gone = \<lparr>cl_Nodes = [], cl_States = [''n'' \<mapsto> sample_state ''n''], cl_Pools = [], cl_Faults = [], cl_Clock = 0,
     cl_ConfigMap = None, cl_Networks = [], cl_Nads = Map.empty, cl_Namespaces = []\<rparr>"

definition sample_reads :: policy_reads where
  "sample_reads = \<lparr>pr_Config = Inr sample_config, pr_Policies = Inr [], pr_Order = [''n'']\<rparr>"

definition sample_later :: cluster where
  "sample_later = snd (Reconcile_policies sample_cleanup sample_reads [] ''node-policy-sync-event''
     ((snd (Reconcile_policies sample_cleanup sample_reads [] ''node-policy-sync-event'' sample_gone))\<lparr>cl_Clock := 29 * 60 * 1000000000\<rparr>))"

theorem stale_state_kept_witness: "cl_States sample_later ''n'' \<noteq> None"
proof -
  let ?rec = "Reconcile_policies sample_cleanup sample_reads [] ''node-policy-sync-event''"
  let ?c1 = "snd (?rec sample_gone)"
  let ?c2 = "?c1\<lparr>cl_Clock := 29 * 60 * 1000000000\<rparr>"
  have k: "io_keeps (same_clock now) ?rec" for now by (rule clock_reconcile)
  have "cl_Clock ?c1 = 0" using k[of 0] by (simp add: io_keeps_def same_clock_def sample_gone_def)
  then have "cleanup_step sample_cleanup ?c1 ?c2" by (intro cleanup_step.others) simp_all
  moreover have "cleanup_step sample_cleanup sample_gone ?c1" "cleanup_step sample_cleanup ?c2 sample_later"
    unfolding sample_later_def by (rule cleanup_step.reconcile[OF surjective_pairing])+
  ultimately have run: "(cleanup_step sample_cleanup)\<^sup>*\<^sup>* sample_gone sample_later"
    by (meson rtranclp.rtrancl_refl rtranclp.rtrancl_into_rtrancl)
  have "cl_Clock sample_later = 29 * 60 * 1000000000"
    using k[of "29 * 60 * 1000000000"] by (simp add: io_keeps_def same_clock_def sample_later_def)
  moreover have "29 * 60 * 1000000000 < cleanup_deadline sample_cleanup (cl_Clock sample_gone)" by code_simp
  ultimately have d: "cl_Clock sample_later < cleanup_deadline sample_cleanup (cl_Clock sample_gone)" by simp
  show ?thesis
    by (rule stale_state_kept[where s = "sample_state ''n''", OF _ _ _ _ _ run d])
      (simp_all add: sample_cleanup_def sample_format_ok delay_minutes_def names_ok_def sample_gone_def sample_state_def sample_meta_def)
qed

end
