(* ===== verification/Drain_Safety.thy ===== *)
theory Drain_Safety
  imports Drain_Controller
begin

text \<open>
  What the drain controller promises: never more nodes of a pool are taken out of service than the
  pool allows. The abstract machine \<open>slot_step\<close> has the set of busy nodes as its state; a node may
  enter the set only while its pool has a free slot. Every reconciliation, with any failing calls and
  any answers of the drain library, refines some steps of this machine (\<open>Reconcile_refines\<close>), and
  the machine keeps the limit of every pool (\<open>slot_step_safe\<close>).
\<close>

section \<open>What the proofs observe of the cluster\<close>

type_synonym layout = "(string \<times> str_map) list \<times> SriovNetworkPoolConfig list"

definition drain_layout :: "cluster \<Rightarrow> layout" where
  "drain_layout c = (map (\<lambda>n. (node_Name n, node_Labels n)) (cl_Nodes c), cl_Pools c)"

definition state_metas :: "cluster \<Rightarrow> string \<rightharpoonup> ObjectMeta" where
  "state_metas c = (\<lambda>k. map_option state_Meta (cl_States c k))"

definition busy_meta :: "ObjectMeta \<Rightarrow> bool" where
  "busy_meta m \<longleftrightarrow>
     om_Annotations m NodeStateDrainAnnotationCurrent \<in> {Some Draining, Some DrainComplete}"

definition busy_set :: "cluster \<Rightarrow> string set" where
  "busy_set c = {k. \<exists>m. state_metas c k = Some m \<and> busy_meta m}"

text \<open>
  Objects are stored under their names, node names are unique, and the \<^verbatim>\<open>current-state\<close> annotation,
  which only this controller writes, has one of its three values when it is there.
\<close>

definition drain_wf :: "cluster \<Rightarrow> bool" where
  "drain_wf c \<longleftrightarrow>
     distinct (map fst (fst (drain_layout c))) \<and>
     (\<forall>k m. state_metas c k = Some m \<longrightarrow>
        om_Name m = k \<and>
        om_Annotations m NodeStateDrainAnnotationCurrent
          \<in> {None, Some DrainIdle, Some Draining, Some DrainComplete})"

definition view :: "cluster \<Rightarrow> layout \<times> (string \<rightharpoonup> ObjectMeta)" where
  "view c = (drain_layout c, state_metas c)"

definition view_blind :: "(cluster \<Rightarrow> bool) \<Rightarrow> bool" where
  "view_blind P \<longleftrightarrow> (\<forall>c c'. view c = view c' \<longrightarrow> P c = P c')"

lemma view_blindD: "view_blind P \<Longrightarrow> view c = view c' \<Longrightarrow> P c \<Longrightarrow> P c'"
  unfolding view_blind_def by metis

lemma view_faults [simp]: "view (c\<lparr>cl_Faults := fs\<rparr>) = view c"
  by (simp add: view_def drain_layout_def state_metas_def)

lemma view_blind_faults: "view_blind P \<Longrightarrow> fault_blind P"
  unfolding fault_blind_def using view_blindD view_faults by metis

lemma view_eq_iff: "view c = view c' \<longleftrightarrow> drain_layout c = drain_layout c' \<and> state_metas c = state_metas c'"
  by (simp add: view_def)

lemma view_blind_intros:
  "view_blind (\<lambda>c. drain_layout c = L)" "view_blind drain_wf" "view_blind (\<lambda>c. nm \<in> busy_set c)"
  "view_blind (\<lambda>c. S (busy_set c))" "view_blind (\<lambda>c. T (state_metas c))" "view_blind (\<lambda>_. b)"
  "\<lbrakk>view_blind P; view_blind Q\<rbrakk> \<Longrightarrow> view_blind (\<lambda>c. P c \<and> Q c)"
  unfolding view_blind_def view_eq_iff drain_wf_def busy_set_def by (simp, simp, simp, simp, simp, simp, blast)

lemma is_busy_meta: "is_busy s = busy_meta (state_Meta s)"
  by (auto simp: is_busy_def busy_meta_def ObjectHasAnnotation_def split: option.splits)

lemma state_metas_upd:
  "state_metas (c\<lparr>cl_States := (cl_States c)(k \<mapsto> s)\<rparr>) = (state_metas c)(k \<mapsto> state_Meta s)"
  by (auto simp: state_metas_def)

lemma drain_layout_states [simp]: "drain_layout (c\<lparr>cl_States := f\<rparr>) = drain_layout c"
  by (simp add: drain_layout_def)

section \<open>The abstract machine\<close>

definition pools_of :: "layout \<Rightarrow> str_map \<Rightarrow> SriovNetworkPoolConfig list" where
  "pools_of L labels =
     filter (\<lambda>p. \<not> is_offload_pool p \<and> selector_matches (pool_selector p) labels) (snd L)"

definition pool_members :: "layout \<Rightarrow> SriovNetworkPoolConfig \<Rightarrow> string list" where
  "pool_members L p = map fst (filter (\<lambda>(_, labels). selector_matches (pool_selector p) labels) (fst L))"

definition unpooled :: "layout \<Rightarrow> string list" where
  "unpooled L = map fst (filter (\<lambda>(_, labels). pools_of L labels = []) (fst L))"

definition busy_count :: "string set \<Rightarrow> string list \<Rightarrow> int" where
  "busy_count B ns = int (length (filter (\<lambda>n. n \<in> B) ns))"

inductive slot_step :: "layout \<Rightarrow> string set \<Rightarrow> string set \<Rightarrow> bool" for L where
  start_pool: "\<lbrakk>(nm, labels) \<in> set (fst L); pools_of L labels = [p];
      MaxUnavailable p (int (length (pool_members L p))) = Inr m;
      m = -1 \<or> busy_count B (pool_members L p) < m\<rbrakk> \<Longrightarrow> slot_step L B (insert nm B)"
| start_default: "\<lbrakk>(nm, labels) \<in> set (fst L); pools_of L labels = [];
      busy_count B (unpooled L) < 1\<rbrakk> \<Longrightarrow> slot_step L B (insert nm B)"
| finish: "slot_step L B (B - {nm})"

text \<open>The limit of every pool, and one node at a time outside the pools.\<close>

definition slots_safe :: "layout \<Rightarrow> string set \<Rightarrow> bool" where
  "slots_safe L B \<longleftrightarrow>
     (\<forall>p\<in>set (snd L). \<forall>m. \<not> is_offload_pool p \<longrightarrow>
        MaxUnavailable p (int (length (pool_members L p))) = Inr m \<longrightarrow> m \<noteq> -1 \<longrightarrow>
        busy_count B (pool_members L p) \<le> m) \<and>
     busy_count B (unpooled L) \<le> 1"

lemma busy_count_mono: "B' \<subseteq> B \<Longrightarrow> busy_count B' ns \<le> busy_count B ns"
  unfolding busy_count_def by (induction ns) auto

lemma busy_count_insert_notin: "nm \<notin> set ns \<Longrightarrow> busy_count (insert nm B) ns = busy_count B ns"
  unfolding busy_count_def by (induction ns) auto

lemma busy_count_insert: "distinct ns \<Longrightarrow> busy_count (insert nm B) ns \<le> busy_count B ns + 1"
proof (induction ns)
  case (Cons a ns)
  show ?case
  proof (cases "a = nm")
    case True
    then have "busy_count (insert nm B) ns = busy_count B ns"
      using Cons.prems busy_count_insert_notin by simp
    then show ?thesis using True by (simp add: busy_count_def)
  next
    case False
    then show ?thesis using Cons by (simp add: busy_count_def)
  qed
qed (simp add: busy_count_def)

lemma distinct_fst_filter: "distinct (map fst xs) \<Longrightarrow> distinct (map fst (filter P xs))"
  by (induction xs) auto

lemma labels_unique:
  "\<lbrakk>distinct (map fst xs); (nm, a) \<in> set xs; (nm, b) \<in> set xs\<rbrakk> \<Longrightarrow> a = b"
  by (metis eq_key_imp_eq_value)

lemma member_selected:
  assumes "distinct (map fst (fst L))" and "(nm, labels) \<in> set (fst L)" and "nm \<in> set (pool_members L q)"
    and "q \<in> set (snd L)" and "\<not> is_offload_pool q"
  shows "q \<in> set (pools_of L labels)"
  using assms labels_unique[OF assms(1)] by (fastforce simp: pool_members_def pools_of_def)

lemma unpooled_selected:
  assumes "distinct (map fst (fst L))" and "(nm, labels) \<in> set (fst L)" and "nm \<in> set (unpooled L)"
  shows "pools_of L labels = []"
  using assms labels_unique[OF assms(1)] by (fastforce simp: unpooled_def)

lemma distinct_members:
  "distinct (map fst (fst L)) \<Longrightarrow> distinct (pool_members L p)"
  "distinct (map fst (fst L)) \<Longrightarrow> distinct (unpooled L)"
  by (simp_all add: pool_members_def unpooled_def distinct_fst_filter)

lemma slot_step_safe:
  assumes "slot_step L B B'" and "distinct (map fst (fst L))" and "slots_safe L B"
  shows "slots_safe L B'"
  using assms(1)
proof cases
  case (start_pool nm labels p m)
  note new = start_pool
  have "nm \<notin> set (unpooled L)" using unpooled_selected[OF assms(2) new(2)] new(3) by auto
  then have u: "busy_count B' (unpooled L) \<le> 1"
    using assms(3) new(1) by (simp add: slots_safe_def busy_count_insert_notin)
  have "busy_count B' (pool_members L q) \<le> k"
    if q: "q \<in> set (snd L)" "\<not> is_offload_pool q" and
      k: "MaxUnavailable q (int (length (pool_members L q))) = Inr k" "k \<noteq> -1" for q k
  proof (cases "nm \<in> set (pool_members L q)")
    case True
    then have "q = p" using member_selected[OF assms(2) new(2) True q] new(3) by simp
    then show ?thesis
      using new k busy_count_insert[OF distinct_members(1)[OF assms(2), of p], of nm B] by auto
  next
    case False
    then show ?thesis using assms(3) q k new(1) by (simp add: slots_safe_def busy_count_insert_notin)
  qed
  then show ?thesis using u by (simp add: slots_safe_def)
next
  case (start_default nm labels)
  note new = start_default
  have u: "busy_count B' (unpooled L) \<le> 1"
    using new busy_count_insert[OF distinct_members(2)[OF assms(2)], of nm B] by simp
  have "nm \<notin> set (pool_members L q)" if "q \<in> set (snd L)" "\<not> is_offload_pool q" for q
    using member_selected[OF assms(2) new(2) _ that] new(3) by auto
  then show ?thesis
    using assms(3) new(1) u by (simp add: slots_safe_def busy_count_insert_notin)
next
  case (finish nm)
  then have "busy_count B' ns \<le> busy_count B ns" for ns by (intro busy_count_mono) auto
  then show ?thesis using assms(3) unfolding slots_safe_def by (meson order_trans)
qed

lemma slot_steps_safe:
  assumes "(slot_step L)\<^sup>*\<^sup>* B B'" and "distinct (map fst (fst L))" and "slots_safe L B"
  shows "slots_safe L B'"
  using assms by (induction rule: rtranclp_induct) (auto intro: slot_step_safe)

section \<open>Triples of the calls\<close>

lemma view_triple_api_call:
  assumes "view_blind P" and "io_triple P m Q E" and "\<And>c. P c \<Longrightarrow> E c"
  shows "io_triple P (api_call m) Q E"
  using assms by (intro io_triple_api_call view_blind_faults)

lemma get_state_triple:
  assumes "view_blind P" and "\<And>c. P c \<Longrightarrow> E c"
  shows "io_triple P (get_state nm) (\<lambda>s c. P c \<and> state_metas c nm = Some (state_Meta s)) E"
  unfolding get_state_def using assms
  by (intro view_triple_api_call) (auto simp: io_triple_def state_metas_def split: option.splits)

lemma find_node_layout:
  "find_node c nm = Some n \<Longrightarrow> node_Name n = nm \<and> (nm, node_Labels n) \<in> set (fst (drain_layout c))"
  unfolding find_node_def find_Some_iff drain_layout_def by (auto intro!: image_eqI nth_mem)

lemma get_node_triple:
  assumes "view_blind P" and "\<And>c. P c \<Longrightarrow> E c"
  shows "io_triple P (get_node nm)
           (\<lambda>n c. P c \<and> node_Name n = nm \<and> (nm, node_Labels n) \<in> set (fst (drain_layout c))) E"
  unfolding get_node_def using assms
  by (intro view_triple_api_call) (auto simp: io_triple_def dest: find_node_layout split: option.splits)

lemma list_nodes_triple:
  assumes "view_blind P" and "\<And>c. P c \<Longrightarrow> E c"
  shows "io_triple P (list_nodes F) (\<lambda>ns c. P c \<and> ns = filter F (cl_Nodes c)) E"
  unfolding list_nodes_def using assms
  by (intro view_triple_api_call) (auto simp: io_triple_def)

lemma list_pools_triple:
  assumes "view_blind P" and "\<And>c. P c \<Longrightarrow> E c"
  shows "io_triple P list_pools (\<lambda>ps c. P c \<and> ps = snd (drain_layout c)) E"
  unfolding list_pools_def using assms
  by (intro view_triple_api_call) (auto simp: io_triple_def drain_layout_def)

lemma getObject_triple:
  assumes "io_triple P m Q E" and "\<And>c. E c \<Longrightarrow> R c"
  shows "io_triple P (getObject m) (\<lambda>x c. case x of None \<Rightarrow> R c | Some y \<Rightarrow> Q y c) E"
proof (rule io_tripleI)
  fix c e c' assume "P c" and "getObject m c = (Inl e, c')"
  then show "E c'" using assms(1)
    by (force simp: io_triple_def getObject_def split: prod.splits sum.splits api_error.splits)
next
  fix c x c' assume "P c" and "getObject m c = (Inr x, c')"
  then show "case x of None \<Rightarrow> R c' | Some y \<Rightarrow> Q y c'" using assms
    by (force simp: io_triple_def getObject_def split: prod.splits sum.splits api_error.splits)
qed

lemma AnnotateState_triple:
  assumes "view_blind P" and "\<And>c. P c \<Longrightarrow> E c"
    and "\<And>c. P c \<Longrightarrow> (case state_Annotations obj k of None \<Rightarrow> [] | Some x \<Rightarrow> x) = v \<Longrightarrow> Q obj c"
    and "\<And>c s. P c \<Longrightarrow> cl_States c (state_Name obj) = Some s \<Longrightarrow>
           Q (annotate_stored k v s)
             (c\<lparr>cl_States := (cl_States c)(state_Name obj \<mapsto> annotate_stored k v s)\<rparr>)"
  shows "io_triple P (AnnotateState obj k v) Q E"
proof (cases "(case state_Annotations obj k of None \<Rightarrow> [] | Some x \<Rightarrow> x) = v")
  case True
  then show ?thesis using assms(3) by (auto simp: AnnotateState_def intro: io_triple_return)
next
  case False
  then show ?thesis unfolding AnnotateState_def using assms(1,2,4)
    by (simp only: if_False) (intro view_triple_api_call, auto simp: io_triple_def split: option.splits)
qed

lemma AnnotateNodeObject_triple:
  assumes "view_blind P" and "\<And>c. P c \<Longrightarrow> E c"
    and "\<And>c. P c \<Longrightarrow> (node_Name obj, node_Labels obj) \<in> set (fst (drain_layout c)) \<and>
           distinct (map fst (fst (drain_layout c)))"
  shows "io_triple P (AnnotateNodeObject obj k v)
           (\<lambda>n c. P c \<and> node_Name n = node_Name obj \<and> node_Labels n = node_Labels obj) E"
proof (cases "(case om_Annotations (node_Meta obj) k of None \<Rightarrow> [] | Some x \<Rightarrow> x) = v")
  case True
  then show ?thesis using assms by (auto simp: AnnotateNodeObject_def intro: io_triple_return)
next
  case False
  have labels: "node_Labels n = node_Labels obj"
    if "P c" "find_node c (node_Name obj) = Some n" for c n
    using assms(3)[OF that(1)] find_node_layout[OF that(2)]
    by (intro labels_unique[of "fst (drain_layout c)"]) auto
  have same: "view (c\<lparr>cl_Nodes := map (\<lambda>m. if node_Name m = node_Name obj then annotate_node k v m else m)
                 (cl_Nodes c)\<rparr>) = view c" for c
    by (simp add: view_def drain_layout_def state_metas_def annotate_node_def set_annotation_def)
  have "io_triple P
      (\<lambda>c. case find_node c (node_Name obj) of
          None \<Rightarrow> (Inl NotFound, c)
        | Some n \<Rightarrow>
            (Inr (annotate_node k v n),
             c\<lparr>cl_Nodes := map (\<lambda>m. if node_Name m = node_Name obj then annotate_node k v m else m)
                             (cl_Nodes c)\<rparr>))
      (\<lambda>n c. P c \<and> node_Name n = node_Name obj \<and> node_Labels n = node_Labels obj) E"
    using assms(2) view_blindD[OF assms(1) same[symmetric]] labels
    by (auto simp: io_triple_def annotate_node_def set_annotation_def dest: find_node_layout
        split: option.splits)
  then show ?thesis unfolding AnnotateNodeObject_def using False assms(1,2)
    by (simp only: if_False) (intro view_triple_api_call)
qed

lemma apply_conditions_triple:
  assumes "view_blind P"
  shows "io_triple P (apply_conditions nm cs) (\<lambda>_. P) P"
proof -
  have same: "view (c\<lparr>cl_States := (cl_States c)(nm \<mapsto> s\<lparr>state_Status := x\<rparr>)\<rparr>) = view c"
    if "cl_States c nm = Some s" for c s x
    using that by (auto simp: view_eq_iff state_metas_def)
  show ?thesis unfolding apply_conditions_def using assms
    by (intro view_triple_api_call)
      (auto simp: io_triple_def split: option.splits intro: view_blindD[OF assms same[symmetric]])
qed

lemma updateDrainConditions_triple:
  assumes "view_blind P" and "\<And>c. P c \<Longrightarrow> E c"
  shows "io_triple P (updateDrainConditions nm st msg) (\<lambda>_. P) E"
proof (unfold io_triple_def, intro allI impI)
  fix c assume P: "P c"
  obtain r c1 where g: "get_state nm c = (r, c1)" by fastforce
  then have P1: "P c1"
    using io_tripleD[OF get_state_triple[OF assms(1), of P, simplified] P g] by (auto split: sum.splits)
  have "P c'" if "io_map_err DApi (apply_conditions nm cs) c1 = (x, c')" for cs x c'
    using io_tripleD[OF io_triple_map_err[OF apply_conditions_triple[OF assms(1)]] P1 that]
    by (auto split: sum.splits)
  then show "case updateDrainConditions nm st msg c of (Inl e, c') \<Rightarrow> E c' | (Inr x, c') \<Rightarrow> P c'"
    using g P1 assms(2)
    by (auto simp: updateDrainConditions_def Let_def split: sum.splits prod.splits api_error.splits option.splits)
qed

section \<open>The pool of a node\<close>

lemma names_members: "map node_Name (filter (pool_matches p) (cl_Nodes c)) = pool_members (drain_layout c) p"
  by (simp add: pool_members_def drain_layout_def filter_map comp_def pool_matches_def[abs_def])

definition pooled_names :: "layout \<Rightarrow> SriovNetworkPoolConfig list \<Rightarrow> string set" where
  "pooled_names L ps = (\<Union>p\<in>set (filter (\<lambda>p. \<not> is_offload_pool p) ps). set (pool_members L p))"

lemma scan_pools_triple:
  assumes "view_blind P" and "\<And>c. P c \<Longrightarrow> drain_layout c = L" and "\<And>c. P c \<Longrightarrow> E c"
  shows "io_triple P (scan_pools node ps sel nip)
           (\<lambda>(sel', nip') c. P c \<and>
              sel' = sel @ filter (\<lambda>p. \<not> is_offload_pool p \<and> pool_matches p node) ps \<and>
              set nip' = set nip \<union> pooled_names L ps) E"
proof (induction ps arbitrary: sel nip)
  case Nil
  then show ?case by (auto simp: pooled_names_def intro: io_triple_return)
next
  case (Cons p ps)
  show ?case
  proof (cases "is_offload_pool p")
    case True
    then show ?thesis using Cons by (simp add: pooled_names_def)
  next
    case off: False
    show ?thesis
    proof (cases "LabelSelectorAsSelector_ok (pool_selector p)")
      case False
      then show ?thesis using off assms(3) by (auto intro: io_triple_fail)
    next
      case True
      have step: "io_triple (\<lambda>c. P c \<and> ns = filter (pool_matches p) (cl_Nodes c))
          (scan_pools node ps (if pool_matches p node then sel @ [p] else sel) (nip @ map node_Name ns))
          (\<lambda>(sel', nip') c. P c \<and>
              sel' = sel @ filter (\<lambda>p. \<not> is_offload_pool p \<and> pool_matches p node) (p # ps) \<and>
              set nip' = set nip \<union> pooled_names L (p # ps)) E" for ns
      proof (rule io_triple_pre[where P' = P])
        show "set (map node_Name ns) = set (pool_members L p) \<and> P c"
          if "P c \<and> ns = filter (pool_matches p) (cl_Nodes c)" for c
          using that assms(2)[of c] names_members[of p c] by auto
        assume "set (map node_Name ns) = set (pool_members L p)"
        then show "io_triple P
          (scan_pools node ps (if pool_matches p node then sel @ [p] else sel) (nip @ map node_Name ns))
          (\<lambda>(sel', nip') c. P c \<and>
              sel' = sel @ filter (\<lambda>p. \<not> is_offload_pool p \<and> pool_matches p node) (p # ps) \<and>
              set nip' = set nip \<union> pooled_names L (p # ps)) E"
          using off by (intro io_triple_conseq[OF Cons]) (auto simp: pooled_names_def)
      qed
      show ?thesis unfolding scan_pools.simps if_not_P[OF off] using True
          io_triple_bind[OF io_triple_map_err[OF list_nodes_triple[OF assms(1,3)]] step] by simp
    qed
  qed
qed

lemma unpooled_names:
  assumes "distinct (map fst (fst (drain_layout c)))"
    and "set nip = pooled_names (drain_layout c) (snd (drain_layout c))"
  shows "map node_Name (filter (\<lambda>n. node_Name n \<notin> set nip) (filter (\<lambda>_. True) (cl_Nodes c)))
           = unpooled (drain_layout c)"
proof -
  have "(node_Name n \<notin> set nip) = (pools_of (drain_layout c) (node_Labels n) = [])"
    if "n \<in> set (cl_Nodes c)" for n
  proof -
    have mem: "(node_Name n, node_Labels n) \<in> set (fst (drain_layout c))"
      using that by (auto simp: drain_layout_def)
    have "node_Name n \<in> set nip \<longleftrightarrow>
        (\<exists>p\<in>set (snd (drain_layout c)). \<not> is_offload_pool p \<and> node_Name n \<in> set (pool_members (drain_layout c) p))"
      using assms(2) by (auto simp: pooled_names_def)
    also have "\<dots> \<longleftrightarrow> pools_of (drain_layout c) (node_Labels n) \<noteq> []"
    proof
      assume "\<exists>p\<in>set (snd (drain_layout c)). \<not> is_offload_pool p \<and> node_Name n \<in> set (pool_members (drain_layout c) p)"
      then show "pools_of (drain_layout c) (node_Labels n) \<noteq> []"
        using member_selected[OF assms(1) mem] by (metis empty_iff empty_set)
    next
      assume "pools_of (drain_layout c) (node_Labels n) \<noteq> []"
      then obtain p where "p \<in> set (pools_of (drain_layout c) (node_Labels n))" by (meson last_in_set)
      then show "\<exists>p\<in>set (snd (drain_layout c)). \<not> is_offload_pool p \<and> node_Name n \<in> set (pool_members (drain_layout c) p)"
        using mem by (auto simp: pools_of_def pool_members_def intro!: bexI[of _ p] image_eqI)
    qed
    finally show ?thesis by blast
  qed
  then have "filter (\<lambda>n. node_Name n \<notin> set nip) (cl_Nodes c) =
      filter (\<lambda>n. pools_of (drain_layout c) (node_Labels n) = []) (cl_Nodes c)"
    by (rule filter_cong[OF refl])
  then show ?thesis by (simp add: unpooled_def drain_layout_def filter_map comp_def)
qed

text \<open>The pool that decides, and the names of its nodes.\<close>

definition pool_found :: "layout \<Rightarrow> Node \<Rightarrow> SriovNetworkPoolConfig \<Rightarrow> string list \<Rightarrow> bool" where
  "pool_found L node p names \<longleftrightarrow>
     (pools_of L (node_Labels node) = [p] \<and> names = pool_members L p) \<or>
     (pools_of L (node_Labels node) = [] \<and> p = defaultPoolConfig \<and> names = unpooled L)"

lemma findNodePoolConfig_triple:
  assumes "view_blind P" and "\<And>c. P c \<Longrightarrow> E c"
    and "\<And>c. P c \<Longrightarrow> drain_layout c = L" and "distinct (map fst (fst L))"
  shows "io_triple P (findNodePoolConfig node)
           (\<lambda>(p, ns) c. P c \<and> pool_found L node p (map node_Name ns)) E"
proof -
  let ?sel = "filter (\<lambda>p. \<not> is_offload_pool p \<and> pool_matches p node)"
  have pools: "?sel (snd L) = pools_of L (node_Labels node)" by (simp add: pools_of_def pool_matches_def)
  have last: "io_triple (\<lambda>c. P c \<and> sel = pools_of L (node_Labels node) \<and> set nip = pooled_names L (snd L))
      (case sel of
         [] \<Rightarrow> io_bind (io_map_err DApi (list_nodes (\<lambda>_. True))) (\<lambda>nodeList.
             io_return (defaultPoolConfig, filter (\<lambda>n. node_Name n \<notin> set nip) nodeList))
       | [npc] \<Rightarrow> io_bind (io_map_err DApi (list_nodes (pool_matches npc))) (\<lambda>nodeList.
             io_return (npc, nodeList))
       | _ \<Rightarrow> io_fail DMultiplePools)
      (\<lambda>(p, ns) c. P c \<and> pool_found L node p (map node_Name ns)) E" for sel nip
  proof (rule io_triple_pre[where P' = P])
    show "(sel = pools_of L (node_Labels node) \<and> set nip = pooled_names L (snd L)) \<and> P c"
      if "P c \<and> sel = pools_of L (node_Labels node) \<and> set nip = pooled_names L (snd L)" for c
      using that by blast
  next
    assume a: "sel = pools_of L (node_Labels node) \<and> set nip = pooled_names L (snd L)"
    consider "sel = []" | p where "sel = [p]" | p q ps where "sel = p # q # ps"
      by (cases sel rule: list.exhaust; metis list.exhaust)
    then show "io_triple P
      (case sel of
         [] \<Rightarrow> io_bind (io_map_err DApi (list_nodes (\<lambda>_. True))) (\<lambda>nodeList.
             io_return (defaultPoolConfig, filter (\<lambda>n. node_Name n \<notin> set nip) nodeList))
       | [npc] \<Rightarrow> io_bind (io_map_err DApi (list_nodes (pool_matches npc))) (\<lambda>nodeList.
             io_return (npc, nodeList))
       | _ \<Rightarrow> io_fail DMultiplePools)
      (\<lambda>(p, ns) c. P c \<and> pool_found L node p (map node_Name ns)) E"
    proof cases
      case 1
      have "pool_found L node defaultPoolConfig
          (map node_Name (filter (\<lambda>n. node_Name n \<notin> set nip) (filter (\<lambda>_. True) (cl_Nodes c))))" if "P c" for c
        using unpooled_names[of c nip] assms(3)[OF that] assms(4) a 1 by (simp add: pool_found_def)
      then show ?thesis using 1
        by (auto intro!: io_triple_bind[OF io_triple_map_err[OF list_nodes_triple[OF assms(1,2)]]]
            io_triple_return)
    next
      case (2 p)
      have "pool_found L node p (map node_Name (filter (pool_matches p) (cl_Nodes c)))" if "P c" for c
        using names_members[of p c] assms(3)[OF that] a 2 by (simp add: pool_found_def)
      then show ?thesis using 2
        by (auto intro!: io_triple_bind[OF io_triple_map_err[OF list_nodes_triple[OF assms(1,2)]]]
            io_triple_return)
    next
      case 3
      then show ?thesis using assms(2) by (auto intro: io_triple_fail)
    qed
  qed
  have scan: "io_triple (\<lambda>c. P c \<and> npcl = snd (drain_layout c)) (scan_pools node npcl [] [])
      (\<lambda>(sel, nip) c. P c \<and> sel = pools_of L (node_Labels node) \<and> set nip = pooled_names L (snd L)) E" for npcl
  proof (rule io_triple_pre[where P' = P])
    show "npcl = snd L \<and> P c" if "P c \<and> npcl = snd (drain_layout c)" for c using that assms(3) by auto
    assume "npcl = snd L"
    then show "io_triple P (scan_pools node npcl [] [])
      (\<lambda>(sel, nip) c. P c \<and> sel = pools_of L (node_Labels node) \<and> set nip = pooled_names L (snd L)) E"
      by (intro io_triple_conseq[OF scan_pools_triple[OF assms(1,3,2)]]) (auto simp: pools)
  qed
  show ?thesis unfolding findNodePoolConfig_def
    by (intro io_triple_bind[OF io_triple_map_err[OF list_pools_triple[OF assms(1,2)]]]
        io_triple_bind[OF scan]) (auto simp: last split: prod.splits)
qed

section \<open>Reconciliation refines the abstract machine\<close>

lemma io_triple_fix: "(\<And>B. io_triple (\<lambda>c. P c \<and> f c = B) m Q E) \<Longrightarrow> io_triple P m Q E"
  by (auto simp: io_triple_def)

text \<open>From busy nodes \<open>B0\<close>, the cluster is where the abstract machine can be.\<close>

definition refines_from :: "layout \<Rightarrow> string set \<Rightarrow> cluster \<Rightarrow> bool" where
  "refines_from L B0 c \<longleftrightarrow> drain_layout c = L \<and> drain_wf c \<and> (slot_step L)\<^sup>*\<^sup>* B0 (busy_set c)"

lemma view_blind_refines [intro]:
  "view_blind (refines_from L B0)"
  "view_blind (\<lambda>c. refines_from L B0 c \<and> nm \<in> busy_set c)"
  "view_blind (\<lambda>c. refines_from L B0 c \<and> busy_set c = B)"
  "view_blind (\<lambda>c. refines_from L B0 c \<and> T (state_metas c))"
  unfolding view_blind_def view_eq_iff refines_from_def drain_wf_def busy_set_def by simp_all

definition busy_of :: "(string \<rightharpoonup> ObjectMeta) \<Rightarrow> string set" where
  "busy_of M = {k. \<exists>m. M k = Some m \<and> busy_meta m}"

lemma busy_set_eq: "busy_set c = busy_of (state_metas c)"
  by (simp add: busy_set_def busy_of_def)

lemma get_state_not_found: "get_state nm c = (Inl NotFound, c') \<Longrightarrow> state_metas c' nm = None"
  by (auto simp: get_state_def api_call_def state_metas_def Let_def
      split: list.splits option.splits if_splits)

lemma count_busy_triple:
  assumes "view_blind P" and "\<And>c. P c \<Longrightarrow> E c" and "\<And>c. P c \<Longrightarrow> drain_wf c \<and> state_metas c = M"
  shows "io_triple P (count_busy nm ns cur old)
           (\<lambda>(cur', s') c. P c \<and> cur' = cur + busy_count (busy_of M) (map node_Name ns) \<and>
              (s' = old \<or> (\<exists>s. s' = Some s \<and> M nm = Some (state_Meta s)))) E"
proof (induction ns arbitrary: cur old)
  case Nil
  then show ?case by (auto simp: busy_count_def intro: io_triple_return)
next
  case (Cons n ns)
  show ?case
  proof (unfold io_triple_def, intro allI impI)
    fix c assume P: "P c"
    obtain r c1 where g: "get_state (node_Name n) c = (r, c1)" by fastforce
    note G = io_tripleD[OF get_state_triple[OF assms(1), of P, simplified] P g]
    have P1: "P c1" using G by (auto split: sum.splits)
    note wf = assms(3)[OF P1]
    let ?Q = "\<lambda>cur old ns (cur', s') c. P c \<and> cur' = cur + busy_count (busy_of M) (map node_Name ns) \<and>
              (s' = old \<or> (\<exists>s. s' = Some s \<and> M nm = Some (state_Meta s)))"
    have IH: "case count_busy nm ns cur old c1 of (Inl e, c') \<Rightarrow> E c' | (Inr x, c') \<Rightarrow> ?Q cur old ns x c'"
      for cur old using Cons P1 by (simp add: io_triple_def)
    show "case count_busy nm (n # ns) cur old c of (Inl e, c') \<Rightarrow> E c' | (Inr x, c') \<Rightarrow> ?Q cur old (n # ns) x c'"
    proof (cases r)
      case (Inl e)
      show ?thesis
      proof (cases e)
        case NotFound
        then have "node_Name n \<notin> busy_of M"
          using get_state_not_found[of "node_Name n" c c1] g Inl wf by (auto simp: busy_of_def)
        then have cnt: "busy_count (busy_of M) (map node_Name (n # ns)) = busy_count (busy_of M) (map node_Name ns)"
          by (simp add: busy_count_def)
        show ?thesis using g Inl NotFound IH[of cur old] unfolding cnt by simp
      next
        case ApiError
        then show ?thesis using g Inl P1 assms(2) by simp
      qed
    next
      case (Inr s)
      let ?cur = "if is_busy s then cur + 1 else cur"
      let ?old = "if state_Name s = nm then Some s else old"
      have m: "M (node_Name n) = Some (state_Meta s)" using G Inr wf by simp
      have busy: "?cur + busy_count (busy_of M) (map node_Name ns)
          = cur + busy_count (busy_of M) (map node_Name (n # ns))"
        using m by (simp add: is_busy_meta busy_of_def busy_count_def)
      have name: "state_Name s = node_Name n" using m wf by (auto simp: drain_wf_def)
      have run: "count_busy nm (n # ns) cur old c = count_busy nm ns ?cur ?old c1" using g Inr by simp
      show ?thesis using IH[of ?cur ?old] m unfolding run busy name
        by (auto split: prod.splits sum.splits if_splits)
    qed
  qed
qed

text \<open>What a write of the \<^verbatim>\<open>current-state\<close> annotation does to the busy nodes.\<close>

lemma annotate_view:
  assumes "cl_States c nm = Some s"
  shows "state_metas (c\<lparr>cl_States := (cl_States c)(nm \<mapsto> annotate_stored k v s)\<rparr>) = (state_metas c)(nm \<mapsto> set_annotation k v (state_Meta s))"
  using assms by (auto simp: state_metas_upd annotate_stored_def)

lemma annotate_busy:
  assumes "cl_States c nm = Some s"
  shows "busy_set (c\<lparr>cl_States := (cl_States c)(nm \<mapsto> annotate_stored k v s)\<rparr>) =
     (if k \<noteq> NodeStateDrainAnnotationCurrent then busy_set c
      else if v = Draining \<or> v = DrainComplete then insert nm (busy_set c) else busy_set c - {nm})"
proof -
  have "state_metas c nm = Some (state_Meta s)" using assms by (simp add: state_metas_def)
  then show ?thesis unfolding busy_set_def annotate_view[OF assms]
    by (auto simp: busy_meta_def set_annotation_def)
qed

lemma annotate_wf:
  assumes "cl_States c nm = Some s" and "drain_wf c"
    and "k = NodeStateDrainAnnotationCurrent \<Longrightarrow> v \<in> {DrainIdle, Draining, DrainComplete}"
  shows "drain_wf (c\<lparr>cl_States := (cl_States c)(nm \<mapsto> annotate_stored k v s)\<rparr>)"
proof -
  have "state_metas c nm = Some (state_Meta s)" using assms(1) by (simp add: state_metas_def)
  then show ?thesis unfolding drain_wf_def annotate_view[OF assms(1)] drain_layout_states
    using assms(2,3) by (auto simp: drain_wf_def set_annotation_def)
qed

lemma annotate_refines:
  assumes "cl_States c nm = Some s" and "refines_from L B0 c"
    and "k = NodeStateDrainAnnotationCurrent \<Longrightarrow> v \<in> {DrainIdle, Draining, DrainComplete}"
    and "k = NodeStateDrainAnnotationCurrent \<Longrightarrow> v \<in> {Draining, DrainComplete} \<Longrightarrow>
           nm \<in> busy_set c \<or> slot_step L (busy_set c) (insert nm (busy_set c))"
  shows "refines_from L B0 (c\<lparr>cl_States := (cl_States c)(nm \<mapsto> annotate_stored k v s)\<rparr>)"
proof -
  let ?c = "c\<lparr>cl_States := (cl_States c)(nm \<mapsto> annotate_stored k v s)\<rparr>"
  have "(slot_step L)\<^sup>*\<^sup>* (busy_set c) (busy_set ?c)"
  proof (cases "k = NodeStateDrainAnnotationCurrent \<and> v \<in> {Draining, DrainComplete}")
    case True
    then have "nm \<in> busy_set c \<or> slot_step L (busy_set c) (insert nm (busy_set c))" using assms(4) by blast
    moreover have "busy_set ?c = insert nm (busy_set c)" using True annotate_busy[OF assms(1), of k v] by auto
    ultimately show ?thesis by (metis insert_absorb r_into_rtranclp rtranclp.rtrancl_refl)
  next
    case False
    then have "busy_set ?c = busy_set c \<or> busy_set ?c = busy_set c - {nm}"
      using annotate_busy[OF assms(1), of k v] by auto
    then show ?thesis by (metis slot_step.finish r_into_rtranclp rtranclp.rtrancl_refl)
  qed
  then have "(slot_step L)\<^sup>*\<^sup>* B0 (busy_set ?c)"
    using assms(2) unfolding refines_from_def by (blast intro: rtranclp_trans)
  moreover have "drain_wf ?c" using assms(2,3) unfolding refines_from_def by (intro annotate_wf[OF assms(1)]) blast+
  ultimately show ?thesis using assms(2) by (simp add: refines_from_def)
qed

text \<open>A write of \<^verbatim>\<open>current-state\<close> that the abstract machine allows; the node is busy afterwards if the
  value says so.\<close>

lemma AnnotateCurrent_triple:
  assumes "view_blind P" and "\<And>c. P c \<Longrightarrow> refines_from L B0 c"
    and "state_Name obj = nm" and "v \<in> {DrainIdle, Draining, DrainComplete}"
    and "v \<in> {Draining, DrainComplete} \<Longrightarrow>
           state_Annotations obj NodeStateDrainAnnotationCurrent \<noteq> Some v \<or> (\<forall>c. P c \<longrightarrow> nm \<in> busy_set c)"
    and "\<And>c. v \<in> {Draining, DrainComplete} \<Longrightarrow> P c \<Longrightarrow>
           nm \<in> busy_set c \<or> slot_step L (busy_set c) (insert nm (busy_set c))"
  shows "io_triple P (AnnotateState obj NodeStateDrainAnnotationCurrent v)
           (\<lambda>_ c. refines_from L B0 c \<and> (v \<in> {Draining, DrainComplete} \<longrightarrow> nm \<in> busy_set c))
           (refines_from L B0)"
proof (rule AnnotateState_triple[OF assms(1,2)])
  fix c assume "P c"
    and "(case state_Annotations obj NodeStateDrainAnnotationCurrent of None \<Rightarrow> [] | Some x \<Rightarrow> x) = v"
  then show "refines_from L B0 c \<and> (v \<in> {Draining, DrainComplete} \<longrightarrow> nm \<in> busy_set c)"
    using assms(2,5) by (auto split: option.splits)
next
  fix c s assume c: "P c" and s: "cl_States c (state_Name obj) = Some s"
  show "refines_from L B0 (c\<lparr>cl_States := (cl_States c)
            (state_Name obj \<mapsto> annotate_stored NodeStateDrainAnnotationCurrent v s)\<rparr>) \<and>
      (v \<in> {Draining, DrainComplete} \<longrightarrow> nm \<in> busy_set (c\<lparr>cl_States := (cl_States c)
            (state_Name obj \<mapsto> annotate_stored NodeStateDrainAnnotationCurrent v s)\<rparr>))"
    unfolding annotate_busy[OF s] using assms(4) assms(6)[OF _ c]
    by (intro conjI annotate_refines[OF s assms(2)[OF c]]) (auto simp: assms(3))
qed

lemma refines_blind_E: "view_blind P \<Longrightarrow> (\<And>c. P c \<Longrightarrow> refines_from L B0 c) \<Longrightarrow>
    io_triple P (updateDrainConditions k st msg) (\<lambda>_. P) (refines_from L B0)"
  by (rule updateDrainConditions_triple)

lemma take_slot_triple:
  assumes "M nm = Some (state_Meta s)" and "state_Name s = nm"
    and "\<And>c. refines_from L B0 c \<Longrightarrow> state_metas c = M \<Longrightarrow> \<not> (m \<noteq> -1 \<and> cur \<ge> m) \<Longrightarrow>
           slot_step L (busy_set c) (insert nm (busy_set c))"
  shows "io_triple (\<lambda>c. refines_from L B0 c \<and> state_metas c = M) (take_slot s m cur)
           (\<lambda>r c. refines_from L B0 c \<and> (r = None \<longrightarrow> nm \<in> busy_set c)) (refines_from L B0)"
proof -
  let ?P = "\<lambda>c. refines_from L B0 c \<and> state_metas c = M"
  have blind: "view_blind ?P" by (rule view_blind_refines(4))
  consider "is_busy s" | "\<not> is_busy s" "m \<noteq> -1 \<and> cur \<ge> m" | "\<not> is_busy s" "\<not> (m \<noteq> -1 \<and> cur \<ge> m)" by blast
  then show ?thesis
  proof cases
    case 1
    then show ?thesis using assms(1)
      by (auto simp: take_slot_def busy_set_eq busy_of_def is_busy_meta intro: io_triple_return)
  next
    case 2
    then show ?thesis unfolding take_slot_def
      by (auto intro!: io_triple_bind[OF refines_blind_E[OF blind]] io_triple_return)
  next
    case 3
    have upd: "io_triple (\<lambda>c. refines_from L B0 c \<and> nm \<in> busy_set c) (updateDrainConditions k st msg)
      (\<lambda>_ c. refines_from L B0 c \<and> nm \<in> busy_set c) (refines_from L B0)" for k st msg
      by (intro refines_blind_E) auto
    have ann: "io_triple ?P (AnnotateState s NodeStateDrainAnnotationCurrent Draining)
      (\<lambda>_ c. refines_from L B0 c \<and> nm \<in> busy_set c) (refines_from L B0)"
      using 3 assms(2,3)
      by (intro io_triple_conseq[OF AnnotateCurrent_triple[OF blind, of L B0 s nm Draining]])
        (auto simp: is_busy_meta busy_meta_def)
    show ?thesis unfolding take_slot_def using 3
      by (auto intro!: io_triple_bind[OF io_triple_map_err[OF ann]] io_triple_bind[OF upd] io_triple_return)
  qed
qed

lemma pool_found_slot:
  assumes "pool_found L node p names" and "MaxUnavailable p (int (length names)) = Inr m"
    and "(node_Name node, node_Labels node) \<in> set (fst L)"
    and "\<not> (m \<noteq> -1 \<and> busy_count B names \<ge> m)"
  shows "slot_step L B (insert (node_Name node) B)"
proof -
  have one: "MaxUnavailable defaultPoolConfig n = Inr 1" for n
    by (simp add: MaxUnavailable_int defaultPoolConfig_def)
  from assms(1) consider
      "pools_of L (node_Labels node) = [p]" "names = pool_members L p"
    | "pools_of L (node_Labels node) = []" "p = defaultPoolConfig" "names = unpooled L"
    unfolding pool_found_def by blast
  then show ?thesis
  proof cases
    case 1
    then show ?thesis using assms(2,4) by (intro slot_step.start_pool[OF assms(3)]) auto
  next
    case 2
    then show ?thesis using assms(2,4) one by (intro slot_step.start_default[OF assms(3)]) auto
  qed
qed

lemma tryDrainNode_triple:
  assumes node: "(node_Name node, node_Labels node) \<in> set (fst L)" and L: "distinct (map fst (fst L))"
  shows "io_triple (refines_from L B0) (tryDrainNode node)
           (\<lambda>r c. refines_from L B0 c \<and> (r = None \<longrightarrow> node_Name node \<in> busy_set c)) (refines_from L B0)"
proof (rule io_triple_fix[where f = state_metas])
  fix M
  let ?E = "refines_from L B0" and ?nm = "node_Name node"
  let ?P = "\<lambda>c. ?E c \<and> state_metas c = M"
  let ?Q = "\<lambda>r c. ?E c \<and> (r = None \<longrightarrow> ?nm \<in> busy_set c)"
  have blind: "view_blind ?P" by (rule view_blind_refines(4))
  have slot: "io_triple (\<lambda>c. ?P c \<and> cur = 0 + busy_count (busy_of M) (map node_Name ns) \<and>
          (s' = None \<or> (\<exists>s. s' = Some s \<and> M ?nm = Some (state_Meta s))))
      (case s' of None \<Rightarrow> io_fail DNoNodeState | Some s \<Rightarrow> take_slot s m cur) ?Q ?E"
    if pool: "pool_found L node p (map node_Name ns)" "MaxUnavailable p (int (length ns)) = Inr m"
    for p ns m cur s'
  proof (cases s')
    case None
    then show ?thesis by (auto intro: io_triple_fail)
  next
    case (Some s)
    show ?thesis
    proof (rule io_triple_pre[where P' = ?P])
      show "(cur = busy_count (busy_of M) (map node_Name ns) \<and> M ?nm = Some (state_Meta s) \<and> state_Name s = ?nm) \<and> ?P c"
        if "?P c \<and> cur = 0 + busy_count (busy_of M) (map node_Name ns) \<and>
          (s' = None \<or> (\<exists>s. s' = Some s \<and> M ?nm = Some (state_Meta s)))" for c
        using that Some by (auto simp: refines_from_def drain_wf_def)
      assume a: "cur = busy_count (busy_of M) (map node_Name ns) \<and> M ?nm = Some (state_Meta s) \<and> state_Name s = ?nm"
      have "slot_step L (busy_of M) (insert ?nm (busy_of M))" if "\<not> (m \<noteq> -1 \<and> cur \<ge> m)"
        using that a pool node by (intro pool_found_slot[OF pool(1) _ node]) auto
      then show "io_triple ?P (case s' of None \<Rightarrow> io_fail DNoNodeState | Some s \<Rightarrow> take_slot s m cur) ?Q ?E"
        using a unfolding Some option.case by (intro take_slot_triple) (auto simp: busy_set_eq)
    qed
  qed
  have count: "io_triple (\<lambda>c. ?P c \<and> MaxUnavailable p (int (length ns)) = Inr m)
      (io_bind (count_busy ?nm ns 0 None) (\<lambda>(current, currentSnns).
         case currentSnns of None \<Rightarrow> io_fail DNoNodeState | Some snns \<Rightarrow> take_slot snns m current)) ?Q ?E"
    if pool: "pool_found L node p (map node_Name ns)" for p ns m
  proof (rule io_triple_pre[where P' = ?P])
    assume m: "MaxUnavailable p (int (length ns)) = Inr m"
    show "io_triple ?P (io_bind (count_busy ?nm ns 0 None) (\<lambda>(current, currentSnns).
         case currentSnns of None \<Rightarrow> io_fail DNoNodeState | Some snns \<Rightarrow> take_slot snns m current)) ?Q ?E"
      by (rule io_triple_bind_pair[OF count_busy_triple[OF blind, of ?E M]])
        (use slot[OF pool m] in \<open>auto simp: refines_from_def\<close>)
  qed blast
  have limit: "io_triple (\<lambda>c. ?P c \<and> pool_found L node p (map node_Name ns))
      (io_bind (io_map_err DPool (io_lift (MaxUnavailable p (int (length ns))))) (\<lambda>m.
       io_bind (count_busy ?nm ns 0 None) (\<lambda>(current, currentSnns).
         case currentSnns of None \<Rightarrow> io_fail DNoNodeState | Some snns \<Rightarrow> take_slot snns m current))) ?Q ?E"
    for p ns
  proof (rule io_triple_pre[where P' = ?P])
    assume pool: "pool_found L node p (map node_Name ns)"
    have lift: "io_triple ?P (io_lift (MaxUnavailable p (int (length ns))))
        (\<lambda>m c. ?P c \<and> MaxUnavailable p (int (length ns)) = Inr m) ?E"
      by (intro io_triple_lift) auto
    show "io_triple ?P (io_bind (io_map_err DPool (io_lift (MaxUnavailable p (int (length ns))))) (\<lambda>m.
       io_bind (count_busy ?nm ns 0 None) (\<lambda>(current, currentSnns).
         case currentSnns of None \<Rightarrow> io_fail DNoNodeState | Some snns \<Rightarrow> take_slot snns m current))) ?Q ?E"
      by (rule io_triple_bind[OF io_triple_map_err[OF lift] count[OF pool]])
  qed blast
  have "io_triple ?P (findNodePoolConfig node)
      (\<lambda>(p, ns) c. ?P c \<and> pool_found L node p (map node_Name ns)) ?E"
    by (rule findNodePoolConfig_triple[OF blind _ _ L]) (auto simp: refines_from_def)
  then show "io_triple ?P (tryDrainNode node) ?Q ?E"
    unfolding tryDrainNode_def by (rule io_triple_bind_pair[OF _ limit])
qed

lemma record_errors_triple:
  assumes "view_blind P" and "\<And>c. P c \<Longrightarrow> E c"
  shows "io_triple P (record_errors nm msgs st) (\<lambda>_. P) E"
proof (induction msgs arbitrary: st)
  case Nil
  then show ?case by (auto intro: io_triple_return)
next
  case (Cons m ms)
  have upd: "io_triple P (io_ignore (updateDrainConditions nm x y)) (\<lambda>_. P) E" for x y
    by (intro io_triple_ignore updateDrainConditions_triple[OF assms(1)])
  show ?case using Cons by (auto split: prod.splits intro!: io_triple_bind[OF upd])
qed

lemma complete_triple:
  assumes "state_Name ns = nm" and "view_blind P"
    and "\<And>c. P c \<Longrightarrow> refines_from L B0 c \<and> nm \<in> busy_set c"
  shows "io_triple P (AnnotateState ns NodeStateDrainAnnotationCurrent DrainComplete)
           (\<lambda>_. refines_from L B0) (refines_from L B0)"
  using assms
  by (intro io_triple_conseq[OF AnnotateCurrent_triple[OF assms(2), of L B0 ns nm DrainComplete]]) auto

lemma run_drain_triple:
  assumes "state_Name ns = nm"
  shows "io_triple (\<lambda>c. refines_from L B0 c \<and> nm \<in> busy_set c) (run_drain ans ns full single)
           (\<lambda>_. refines_from L B0) (refines_from L B0)"
proof -
  let ?P = "\<lambda>c. refines_from L B0 c \<and> nm \<in> busy_set c" and ?E = "refines_from L B0"
  have blind: "view_blind ?P" by blast
  have upd: "io_triple ?P (updateDrainConditions k st msg) (\<lambda>_. ?P) ?E" for k st msg
    by (rule updateDrainConditions_triple[OF blind]) blast
  have ign: "io_triple ?P (io_ignore (updateDrainConditions k st msg)) (\<lambda>_. ?E) ?E" for k st msg
    by (intro io_triple_ignore io_triple_conseq[OF upd]) auto
  have ann: "io_triple ?P (io_map_err DApi (AnnotateState ns NodeStateDrainAnnotationCurrent DrainComplete))
      (\<lambda>_. ?E) ?E"
    by (intro io_triple_map_err complete_triple[OF assms blind]) auto
  have rec: "io_triple ?P (record_errors k msgs st) (\<lambda>_. ?P) ?E" for k msgs st
    by (rule record_errors_triple[OF blind]) blast
  show ?thesis unfolding run_drain_def
    by (auto split: prod.splits sum.splits intro!: io_triple_bind[OF rec]
        io_triple_bind[OF ign] io_triple_bind[OF upd] io_triple_bind[OF ann] io_triple_return io_triple_fail)
qed

lemma idle_triple:
  assumes "state_Name ns = nm"
  shows "io_triple (refines_from L B0) (handleNodeIdleNodeStateDrainingOrCompleted ans ns)
           (\<lambda>_. refines_from L B0) (refines_from L B0)"
proof -
  let ?E = "refines_from L B0"
  have ann: "io_triple ?E (io_map_err DApi (AnnotateState ns NodeStateDrainAnnotationCurrent DrainIdle))
      (\<lambda>_. ?E) ?E"
    using assms by (intro io_triple_map_err io_triple_conseq[OF AnnotateCurrent_triple[OF view_blind_refines(1), of L B0 L B0 ns nm DrainIdle]])
      auto
  have upd: "io_triple ?E (updateDrainConditions k st msg) (\<lambda>_. ?E) ?E" for k st msg
    by (rule updateDrainConditions_triple) auto
  show ?thesis unfolding handleNodeIdleNodeStateDrainingOrCompleted_def
    by (auto split: sum.splits intro!: io_triple_bind[OF ann] io_triple_bind[OF upd] io_triple_return io_triple_fail)
qed

text \<open>The local copy of the node state is the stored one, up to its conditions.\<close>

definition in_sync :: "layout \<Rightarrow> string set \<Rightarrow> string \<Rightarrow> SriovNetworkNodeState \<Rightarrow> cluster \<Rightarrow> bool" where
  "in_sync L B0 nm ns c \<longleftrightarrow> refines_from L B0 c \<and> state_metas c nm = Some (state_Meta ns)"

lemma view_blind_in_sync [intro]: "view_blind (in_sync L B0 nm ns)"
  unfolding in_sync_def by (rule view_blind_refines(4))

lemma in_syncD:
  "in_sync L B0 nm ns c \<Longrightarrow> refines_from L B0 c"
  "in_sync L B0 nm ns c \<Longrightarrow> state_Name ns = nm"
  "in_sync L B0 nm ns c \<Longrightarrow> nm \<in> busy_set c \<longleftrightarrow> busy_meta (state_Meta ns)"
  by (auto simp: in_sync_def refines_from_def drain_wf_def busy_set_def)

lemma in_sync_current:
  assumes "in_sync L B0 nm ns c" and "state_Annotations ns NodeStateDrainAnnotationCurrent = Some current"
  shows "current \<in> {DrainIdle, Draining, DrainComplete}"
proof -
  have "state_Annotations ns NodeStateDrainAnnotationCurrent \<in> {None, Some DrainIdle, Some Draining, Some DrainComplete}"
    using assms(1) unfolding in_sync_def refines_from_def drain_wf_def by blast
  then show ?thesis using assms(2) by auto
qed

lemma drain_triple:
  assumes node: "(node_Name node, node_Labels node) \<in> set (fst L)" and L: "distinct (map fst (fst L))"
    and "node_Name node = nm" and cur: "state_Annotations ns NodeStateDrainAnnotationCurrent = Some current"
  shows "io_triple (in_sync L B0 nm ns) (handleNodeDrainOrReboot ans node ns req current)
           (\<lambda>_. refines_from L B0) (refines_from L B0)"
proof -
  let ?E = "refines_from L B0" and ?S = "in_sync L B0 nm ns"
  let ?B = "\<lambda>c. ?E c \<and> nm \<in> busy_set c"
  let ?start = "if current = DrainIdle then tryDrainNode node else io_return None"
  let ?R = "\<lambda>r c. ?E c \<and> (r = None \<longrightarrow> nm \<in> busy_set c)"
  have start: "io_triple ?S ?start ?R ?E" if "current \<noteq> DrainComplete"
  proof (cases "current = DrainIdle")
    case True
    show ?thesis unfolding if_P[OF True]
      by (rule io_triple_conseq[OF tryDrainNode_triple[OF node L, of B0, unfolded assms(3)] in_syncD(1)])
  next
    case False
    have "current = Draining" if "?S c" for c
      using in_sync_current[OF that cur] False \<open>current \<noteq> DrainComplete\<close> by blast
    then have "nm \<in> busy_set c" if "?S c" for c
      using that in_syncD(3)[OF that] cur by (auto simp: busy_meta_def)
    then show ?thesis using False by (auto intro!: io_triple_return dest: in_syncD(1))
  qed
  have ann: "io_triple ?B (io_map_err DApi (AnnotateState ns NodeStateDrainAnnotationCurrent DrainComplete))
      (\<lambda>_. ?E) ?E" if "state_Name ns = nm"
    using that by (intro io_triple_map_err complete_triple[OF _ view_blind_refines(2)]) auto
  have count: "io_triple ?B
      (if full then io_bind (io_map_err DApi (list_nodes (\<lambda>_. True))) (\<lambda>nodeList. io_return (length nodeList = 1))
       else io_return False) (\<lambda>_. ?B) ?E" for full
    by (auto intro!: io_triple_return
        io_triple_bind[OF io_triple_map_err[OF list_nodes_triple[OF view_blind_refines(2)]]])
  have rest: "io_triple (?R res)
      (case res of Some r \<Rightarrow> io_return r | None \<Rightarrow>
         if drain_completed_stale ns current then
           io_bind (io_map_err DApi (AnnotateState ns NodeStateDrainAnnotationCurrent DrainComplete))
             (\<lambda>_. io_return Done)
         else let fullNodeDrain = (req = RebootRequired) in
           io_bind (if fullNodeDrain
              then io_bind (io_map_err DApi (list_nodes (\<lambda>_. True))) (\<lambda>nodeList. io_return (length nodeList = 1))
              else io_return False)
             (\<lambda>singleNode. run_drain ans ns fullNodeDrain singleNode)) (\<lambda>_. ?E) ?E"
    if nm: "state_Name ns = nm" for res
  proof (cases res)
    case None
    show ?thesis
    proof (cases "drain_completed_stale ns current")
      case True
      show ?thesis unfolding None option.case if_P[OF True] simp_thms
        by (rule io_triple_bind[OF ann[OF nm]]) (rule io_triple_return)
    next
      case False
      show ?thesis unfolding None option.case if_not_P[OF False] Let_def simp_thms
        by (rule io_triple_bind[OF count run_drain_triple[OF nm]])
    qed
  qed (auto intro: io_triple_return)
  show ?thesis
  proof (rule io_triple_pre[where b = "state_Name ns = nm" and P' = ?S])
    assume nm: "state_Name ns = nm"
    show "io_triple ?S (handleNodeDrainOrReboot ans node ns req current) (\<lambda>_. ?E) ?E"
    proof (cases "current = DrainComplete")
      case True
      show ?thesis unfolding handleNodeDrainOrReboot_def if_P[OF True] by (rule io_triple_return) (rule in_syncD(1))
    next
      case False
      show ?thesis unfolding handleNodeDrainOrReboot_def if_not_P[OF False]
        by (rule io_triple_bind[OF start[OF False] rest[OF nm]])
    qed
  qed (use in_syncD(2) in blast)
qed

lemma ensure_current_triple:
  "io_triple (in_sync L B0 nm ns) (ensureAnnotationExists_state ns key)
     (\<lambda>(v, _, ns') c. in_sync L B0 nm ns' c \<and> state_Annotations ns' key = Some v \<and>
        (\<forall>k. k \<noteq> key \<longrightarrow> state_Annotations ns' k = state_Annotations ns k)) (refines_from L B0)"
proof (cases "state_Annotations ns key")
  case (Some v)
  then show ?thesis by (auto simp: ensureAnnotationExists_state_def intro: io_triple_return)
next
  case None
  let ?Q = "\<lambda>ns' c. in_sync L B0 nm ns' c \<and> state_Annotations ns' key = Some DrainIdle \<and>
        (\<forall>k. k \<noteq> key \<longrightarrow> state_Annotations ns' k = state_Annotations ns k)"
  have "io_triple (in_sync L B0 nm ns) (AnnotateState ns key DrainIdle) ?Q (refines_from L B0)"
  proof (rule AnnotateState_triple[OF view_blind_in_sync])
    fix c s assume c: "in_sync L B0 nm ns c" and s: "cl_States c (state_Name ns) = Some s"
    have meta: "state_Meta s = state_Meta ns" and nm: "state_Name ns = nm"
      using c s in_syncD(2)[OF c] by (auto simp: in_sync_def state_metas_def)
    have "refines_from L B0 (c\<lparr>cl_States := (cl_States c)(state_Name ns \<mapsto> annotate_stored key DrainIdle s)\<rparr>)"
      by (rule annotate_refines[OF s in_syncD(1)[OF c]]) auto
    then show "?Q (annotate_stored key DrainIdle s)
        (c\<lparr>cl_States := (cl_States c)(state_Name ns \<mapsto> annotate_stored key DrainIdle s)\<rparr>)"
      unfolding in_sync_def annotate_view[OF s] by (simp add: nm annotate_stored_def set_annotation_def meta)
  qed (use None in_syncD(1) in auto)
  then show ?thesis using None
    by (auto simp: ensureAnnotationExists_state_def
        intro!: io_triple_bind[OF io_triple_map_err] io_triple_return)
qed

lemma ensure_node_triple:
  assumes "view_blind P" and "\<And>c. P c \<Longrightarrow> refines_from L B0 c"
    and "(node_Name node, node_Labels node) \<in> set (fst L)" and "distinct (map fst (fst L))"
  shows "io_triple P (ensureAnnotationExists_node node key)
     (\<lambda>(_, _, n) c. P c \<and> node_Name n = node_Name node \<and> node_Labels n = node_Labels node) (refines_from L B0)"
proof -
  have "io_triple P (AnnotateNodeObject node key DrainIdle)
      (\<lambda>n c. P c \<and> node_Name n = node_Name node \<and> node_Labels n = node_Labels node) (refines_from L B0)"
    using assms by (intro AnnotateNodeObject_triple) (auto simp: refines_from_def)
  then show ?thesis using assms(2)
    by (auto simp: ensureAnnotationExists_node_def split: option.splits
        intro!: io_triple_bind[OF io_triple_map_err] io_triple_return)
qed

lemma request_triple:
  assumes node: "(node_Name node, node_Labels node) \<in> set (fst L)" and L: "distinct (map fst (fst L))"
    and "node_Name node = nm" and cur: "state_Annotations ns NodeStateDrainAnnotationCurrent = Some current"
  shows "io_triple (in_sync L B0 nm ns) (reconcile_request ans node ns req current)
           (\<lambda>_. refines_from L B0) (refines_from L B0)"
proof -
  let ?S = "in_sync L B0 nm ns"
  have upd: "io_triple ?S (updateDrainConditions k st msg) (\<lambda>_. refines_from L B0) (refines_from L B0)" for k st msg
    by (rule io_triple_conseq[OF updateDrainConditions_triple[OF view_blind_in_sync in_syncD(1)]])
      (auto dest: in_syncD(1))
  have idle: "io_triple ?S (handleNodeIdleNodeStateDrainingOrCompleted ans ns)
      (\<lambda>_. refines_from L B0) (refines_from L B0)"
    by (rule io_triple_conseq[OF idle_triple[OF refl] in_syncD(1)])
  show ?thesis unfolding reconcile_request_def
    by (auto intro!: io_triple_bind[OF upd] io_triple_return io_triple_fail idle
        drain_triple[OF node L assms(3) cur] dest: in_syncD(1))
qed

lemma annotated_triple:
  assumes L: "distinct (map fst (fst L))"
    and n: "node_Name n = nm" "(nm, node_Labels n) \<in> set (fst L)"
  shows "io_triple
      (\<lambda>c. (in_sync L B0 nm ns c \<and> state_Annotations ns NodeStateDrainAnnotationCurrent = Some current) \<and>
         node_Name n' = node_Name n \<and> node_Labels n' = node_Labels n)
      (if \<not> ne \<or> \<not> ce \<or> \<not> de
       then io_bind (updateDrainConditions (state_Name ns) DrainStateIdle []) (\<lambda>_. io_return Requeue)
       else reconcile_request ans n' ns req current) (\<lambda>_. refines_from L B0) (refines_from L B0)"
proof (rule io_triple_pre[where P' = "in_sync L B0 nm ns"])
  assume a: "state_Annotations ns NodeStateDrainAnnotationCurrent = Some current \<and>
      node_Name n' = node_Name n \<and> node_Labels n' = node_Labels n"
  have "io_triple (in_sync L B0 nm ns) (reconcile_request ans n' ns req current)
      (\<lambda>_. refines_from L B0) (refines_from L B0)"
    using a n L by (intro request_triple) auto
  moreover have "io_triple (in_sync L B0 nm ns)
      (io_bind (updateDrainConditions k st msg) (\<lambda>_. io_return Requeue)) (\<lambda>_. refines_from L B0) (refines_from L B0)"
    for k st msg
    by (rule io_triple_bind[OF updateDrainConditions_triple[OF view_blind_in_sync in_syncD(1)]])
      (auto intro: io_triple_return dest: in_syncD(1))
  ultimately show "io_triple (in_sync L B0 nm ns)
    (if \<not> ne \<or> \<not> ce \<or> \<not> de
     then io_bind (updateDrainConditions (state_Name ns) DrainStateIdle []) (\<lambda>_. io_return Requeue)
     else reconcile_request ans n' ns req current) (\<lambda>_. refines_from L B0) (refines_from L B0)"
    by simp
qed blast

lemma reconcile_objects_triple:
  assumes L: "distinct (map fst (fst L))"
    and n: "node_Name n = nm" "(nm, node_Labels n) \<in> set (fst L)"
  shows "io_triple (in_sync L B0 nm ns) (reconcile_objects ans n ns) (\<lambda>_. refines_from L B0) (refines_from L B0)"
proof -
  let ?E = "refines_from L B0"
  let ?A = "\<lambda>ns current c. in_sync L B0 nm ns c \<and> state_Annotations ns NodeStateDrainAnnotationCurrent = Some current"
  have blind: "view_blind (?A ns current)" for ns current
    by (intro view_blind_intros(6,7) view_blind_in_sync)
  have current: "io_triple (in_sync L B0 nm ns) (ensureAnnotationExists_state ns NodeStateDrainAnnotationCurrent)
      (\<lambda>(v, _, ns'). ?A ns' v) ?E" for ns
    by (rule io_triple_conseq[OF ensure_current_triple]) auto
  have desired: "io_triple (?A ns current) (ensureAnnotationExists_state ns NodeStateDrainAnnotation)
      (\<lambda>(_, _, ns'). ?A ns' current) ?E" for ns current
  proof (rule io_triple_pre[where P' = "in_sync L B0 nm ns"])
    assume "state_Annotations ns NodeStateDrainAnnotationCurrent = Some current"
    then show "io_triple (in_sync L B0 nm ns) (ensureAnnotationExists_state ns NodeStateDrainAnnotation)
      (\<lambda>(_, _, ns'). ?A ns' current) ?E"
      by (intro io_triple_conseq[OF ensure_current_triple]) auto
  qed blast
  have node: "io_triple (?A ns current) (ensureAnnotationExists_node n NodeDrainAnnotation)
      (\<lambda>(_, _, n') c. ?A ns current c \<and> node_Name n' = node_Name n \<and> node_Labels n' = node_Labels n) ?E" for ns current
    using n by (intro ensure_node_triple[OF blind]) (auto dest: in_syncD(1) simp: L)
  have "io_triple (in_sync L B0 nm ns)
      (io_bind (ensureAnnotationExists_state ns NodeStateDrainAnnotationCurrent) (\<lambda>(current, ce, ns1).
       io_bind (ensureAnnotationExists_state ns1 NodeStateDrainAnnotation) (\<lambda>(_, de, ns2).
       io_bind (ensureAnnotationExists_node n NodeDrainAnnotation) (\<lambda>(req, ne, n').
         if \<not> ne \<or> \<not> ce \<or> \<not> de
         then io_bind (updateDrainConditions (state_Name ns2) DrainStateIdle []) (\<lambda>_. io_return Requeue)
         else reconcile_request ans n' ns2 req current)))) (\<lambda>_. ?E) ?E"
    by (rule io_triple_bind_triple[OF current io_triple_bind_triple[OF desired
          io_triple_bind_triple[OF node annotated_triple[OF L n]]]])
  then show ?thesis unfolding reconcile_objects_def by (auto intro: io_triple_return dest: in_syncD(1))
qed

lemma Reconcile_triple:
  assumes L: "distinct (map fst (fst L))"
  shows "io_triple (refines_from L B0) (Reconcile ans nm) (\<lambda>_. refines_from L B0) (refines_from L B0)"
proof -
  let ?E = "refines_from L B0"
  have node: "io_triple ?E (getObject (get_node nm))
      (\<lambda>x c. case x of None \<Rightarrow> ?E c | Some n \<Rightarrow> ?E c \<and> node_Name n = nm \<and> (nm, node_Labels n) \<in> set (fst L)) ?E"
    by (rule getObject_triple[OF io_triple_conseq[OF get_node_triple[OF view_blind_refines(1)]]])
      (auto simp: refines_from_def)
  have state: "io_triple ?E (getObject (get_state nm))
      (\<lambda>x c. case x of None \<Rightarrow> ?E c | Some ns \<Rightarrow> in_sync L B0 nm ns c) ?E"
    by (rule getObject_triple[OF io_triple_conseq[OF get_state_triple[OF view_blind_refines(1)]]])
      (auto simp: in_sync_def)
  have objects: "io_triple (\<lambda>c. case x of None \<Rightarrow> ?E c | Some ns \<Rightarrow> in_sync L B0 nm ns c)
      (case x of None \<Rightarrow> io_return Done | Some ns \<Rightarrow> reconcile_objects ans n ns) (\<lambda>_. ?E) ?E"
    if "node_Name n = nm" "(nm, node_Labels n) \<in> set (fst L)" for n x
    using reconcile_objects_triple[OF L that] by (auto split: option.split intro: io_triple_return)
  have found: "io_triple (\<lambda>c. case x of None \<Rightarrow> ?E c | Some n \<Rightarrow> ?E c \<and> node_Name n = nm \<and> (nm, node_Labels n) \<in> set (fst L))
      (case x of None \<Rightarrow> io_return Done | Some n \<Rightarrow>
         io_bind (getObject (get_state nm)) (\<lambda>stateOpt. case stateOpt of None \<Rightarrow> io_return Done | Some ns \<Rightarrow>
           reconcile_objects ans n ns)) (\<lambda>_. ?E) ?E" for x
  proof (cases x)
    case None
    then show ?thesis by (auto intro: io_triple_return)
  next
    case (Some n)
    show ?thesis unfolding Some option.case
    proof (rule io_triple_pre[where P' = ?E])
      assume "node_Name n = nm \<and> (nm, node_Labels n) \<in> set (fst L)"
      then show "io_triple ?E (io_bind (getObject (get_state nm)) (\<lambda>stateOpt. case stateOpt of
          None \<Rightarrow> io_return Done | Some ns \<Rightarrow> reconcile_objects ans n ns)) (\<lambda>_. ?E) ?E"
        by (intro io_triple_bind[OF state objects]) auto
    qed blast
  qed
  show ?thesis unfolding Reconcile_def by (rule io_triple_bind[OF node found])
qed

section \<open>Runs of the cluster\<close>

text \<open>
  A run interleaves reconciliations, each with its own failing calls and clock, with what the other
  parties do: daemons and users write the request on a node or any other annotation of a node state,
  node states are created without a \<^verbatim>\<open>current-state\<close> annotation, their specification and status are
  rewritten, and they are deleted.
\<close>

inductive cluster_step :: "cluster \<Rightarrow> cluster \<Rightarrow> bool" where
  reconcile: "cluster_step c (snd (Reconcile ans nm (c\<lparr>cl_Faults := fs, cl_Clock := t\<rparr>)))"
| request: "cluster_step c
    (c\<lparr>cl_Nodes := map (\<lambda>n. if node_Name n = nm then annotate_node k v n else n) (cl_Nodes c)\<rparr>)"
| annotate: "\<lbrakk>cl_States c nm = Some s; k \<noteq> NodeStateDrainAnnotationCurrent\<rbrakk> \<Longrightarrow>
    cluster_step c (c\<lparr>cl_States := (cl_States c)(nm \<mapsto> annotate_stored k v s)\<rparr>)"
| create: "\<lbrakk>cl_States c nm = None; state_Name s = nm;
     state_Annotations s NodeStateDrainAnnotationCurrent = None\<rbrakk> \<Longrightarrow>
    cluster_step c (c\<lparr>cl_States := (cl_States c)(nm \<mapsto> s)\<rparr>)"
| rewrite: "\<lbrakk>cl_States c nm = Some s; state_Meta t = state_Meta s\<rbrakk> \<Longrightarrow>
    cluster_step c (c\<lparr>cl_States := (cl_States c)(nm \<mapsto> t)\<rparr>)"
| delete: "cluster_step c (c\<lparr>cl_States := (cl_States c)(nm := None)\<rparr>)"

lemma refines_refl: "drain_wf c \<Longrightarrow> refines_from (drain_layout c) (busy_set c) c"
  by (simp add: refines_from_def)

lemma refines_viewI: "refines_from L B0 c \<Longrightarrow> view c' = view c \<Longrightarrow> refines_from L B0 c'"
  by (rule view_blindD[OF view_blind_refines(1), of c]) auto

lemma Reconcile_refines:
  assumes "refines_from L B0 c"
  shows "refines_from L B0 (snd (Reconcile ans nm c))"
proof -
  have "distinct (map fst (fst L))" using assms by (auto simp: refines_from_def drain_wf_def)
  from io_tripleD[OF Reconcile_triple[OF this] assms prod.collapse[symmetric]] show ?thesis
    by (auto split: sum.splits)
qed

lemma refines_idle_states:
  assumes "refines_from L B0 c" and "drain_layout c' = drain_layout c" and "drain_wf c'"
    and "busy_set c' = busy_set c \<or> busy_set c' = busy_set c - {nm}"
  shows "refines_from L B0 c'"
proof -
  have "(slot_step L)\<^sup>*\<^sup>* (busy_set c) (busy_set c')"
    using assms(4) by (metis slot_step.finish r_into_rtranclp rtranclp.rtrancl_refl)
  then show ?thesis using assms(1-3) unfolding refines_from_def by (auto intro: rtranclp_trans)
qed

lemma cluster_step_refines:
  assumes "cluster_step c c'" and "refines_from L B0 c"
  shows "refines_from L B0 c'"
  using assms(1)
proof cases
  case (reconcile ans nm t fs)
  have "view (c\<lparr>cl_Faults := fs, cl_Clock := t\<rparr>) = view c"
    by (simp add: view_def drain_layout_def state_metas_def)
  then show ?thesis unfolding reconcile by (intro Reconcile_refines refines_viewI[OF assms(2)])
next
  case (request nm k v)
  show ?thesis unfolding request
    by (rule refines_viewI[OF assms(2)])
      (simp add: view_def drain_layout_def state_metas_def annotate_node_def set_annotation_def)
next
  case (annotate nm s k v)
  then show ?thesis using annotate_refines[OF annotate(2) assms(2)] by blast
next
  case (create nm s)
  have "busy_set c' = busy_set c" using create
    by (auto simp: busy_set_def busy_meta_def state_metas_upd state_metas_def)
  moreover have "drain_wf c'" using create assms(2) unfolding create(1) refines_from_def drain_wf_def state_metas_upd
    by auto
  ultimately show ?thesis using create(1) by (intro refines_idle_states[OF assms(2)]) auto
next
  case (rewrite nm s t)
  then show ?thesis by (intro refines_viewI[OF assms(2)]) (auto simp: view_def state_metas_upd state_metas_def)
next
  case (delete nm)
  have m: "state_metas c' = (state_metas c)(nm := None)" unfolding delete by (auto simp: state_metas_def)
  have "busy_set c' = busy_set c - {nm}" unfolding busy_set_def m by auto
  moreover have "drain_layout c' = drain_layout c" unfolding delete by simp
  then have "drain_wf c'" using assms(2) unfolding refines_from_def drain_wf_def m by (auto split: if_splits)
  ultimately show ?thesis using delete by (intro refines_idle_states[OF assms(2)]) auto
qed

lemma cluster_steps_refine:
  assumes "cluster_step\<^sup>*\<^sup>* c c'" and "drain_wf c"
  shows "refines_from (drain_layout c) (busy_set c) c'"
  using assms(1) by (induction rule: rtranclp_induct) (auto intro: refines_refl[OF assms(2)] cluster_step_refines)

section \<open>The list of drain errors\<close>

definition drain_errors_ok :: "string list \<times> string list \<Rightarrow> bool" where
  "drain_errors_ok st \<longleftrightarrow>
     set (fst st) = set (snd st) \<and> distinct (snd st) \<and> length (snd st) \<le> maxDrainErrorMessages"

lemma onDrainError_ok:
  assumes "drain_errors_ok st"
  shows "drain_errors_ok (fst (onDrainError msg st)) \<and> msg \<in> set (snd (fst (onDrainError msg st)))"
proof (cases st)
  case (Pair seen errs)
  show ?thesis
  proof (cases errs)
    case Nil
    then show ?thesis using assms Pair
      by (auto simp: onDrainError_def drain_errors_ok_def Let_def maxDrainErrorMessages_def)
  next
    case (Cons e es)
    then show ?thesis using assms Pair
      by (auto simp: onDrainError_def drain_errors_ok_def Let_def maxDrainErrorMessages_def)
  qed
qed

lemma fold_onDrainError_ok:
  "drain_errors_ok st \<Longrightarrow> drain_errors_ok (fold (\<lambda>m s. fst (onDrainError m s)) msgs st)"
  by (induction msgs arbitrary: st) (auto simp: onDrainError_ok)

section \<open>Properties\<close>

text \<open>
  C10: in every run of the cluster, with any failing API calls, any answers of the drain library and
  any order of reconciliations and outside writes, no pool ever has more draining or drained nodes
  than it allows, and at most one node outside the pools is draining or drained.
\<close>

theorem drain_slots_never_exceeded:
  assumes "drain_wf c" and "slots_safe (drain_layout c) (busy_set c)" and "cluster_step\<^sup>*\<^sup>* c c'"
  shows "drain_layout c' = drain_layout c \<and> slots_safe (drain_layout c') (busy_set c')"
proof -
  have r: "refines_from (drain_layout c) (busy_set c) c'" by (rule cluster_steps_refine[OF assms(3,1)])
  have "distinct (map fst (fst (drain_layout c)))" using assms(1) by (simp add: drain_wf_def)
  then show ?thesis using r slot_steps_safe[of "drain_layout c" "busy_set c" "busy_set c'"] assms(2)
    by (simp add: refines_from_def)
qed

definition sample_drain_state :: "string \<Rightarrow> string \<Rightarrow> SriovNetworkNodeState" where
  "sample_drain_state nm current =
     (sample_state nm)\<lparr>state_Meta := (sample_meta nm)\<lparr>om_Annotations :=
       [NodeStateDrainAnnotationCurrent \<mapsto> current, NodeStateDrainAnnotation \<mapsto> DrainRequired]\<rparr>\<rparr>"

definition sample_drain_node :: "string \<Rightarrow> Node" where
  "sample_drain_node nm =
     (sample_node nm)\<lparr>node_Meta := (sample_meta nm)\<lparr>om_Annotations := [NodeDrainAnnotation \<mapsto> DrainRequired]\<rparr>\<rparr>"

text \<open>Two nodes that ask for a drain in a pool that allows one; the state of the first is given.\<close>

definition sample_cluster :: "string \<Rightarrow> cluster" where
  "sample_cluster current = \<lparr>cl_Nodes = [sample_drain_node ''n1'', sample_drain_node ''n2''],
     cl_States = [''n1'' \<mapsto> sample_drain_state ''n1'' current, ''n2'' \<mapsto> sample_drain_state ''n2'' DrainIdle],
     cl_Pools = [sample_pool (Some (IntVal 1))], cl_Faults = [], cl_Clock = 0, cl_ConfigMap = None,
     cl_Networks = [], cl_Nads = Map.empty, cl_Namespaces = []\<rparr>"

definition sample_answers :: drain_answers where
  "sample_answers = \<lparr>da_Before = Inr True, da_Cordon = None, da_Drain = None, da_ErrOut = [],
     da_Uncordon = None, da_After = Inr True\<rparr>"

lemma sample_cluster_view:
  "drain_layout (sample_cluster current) = ([(''n1'', Map.empty), (''n2'', Map.empty)], [sample_pool (Some (IntVal 1))])"
  "state_metas (sample_cluster current) =
     [''n1'' \<mapsto> state_Meta (sample_drain_state ''n1'' current), ''n2'' \<mapsto> state_Meta (sample_drain_state ''n2'' DrainIdle)]"
  by (auto simp: sample_cluster_def drain_layout_def state_metas_def sample_drain_node_def sample_node_def sample_meta_def)

lemma sample_cluster_busy:
  "busy_set (sample_cluster current) = (if current \<in> {Draining, DrainComplete} then {''n1''} else {})"
  unfolding busy_set_eq busy_of_def sample_cluster_view
  by (auto simp: busy_meta_def sample_drain_state_def sample_meta_def split: if_splits)

lemma sample_cluster_wf:
  "current \<in> {DrainIdle, Draining, DrainComplete} \<Longrightarrow> drain_wf (sample_cluster current)"
  unfolding drain_wf_def sample_cluster_view
  by (auto simp: sample_drain_state_def sample_meta_def split: if_splits)

lemma sample_cluster_safe: "slots_safe (drain_layout (sample_cluster current)) (busy_set (sample_cluster current))"
proof -
  have "pool_members (drain_layout (sample_cluster current)) (sample_pool (Some (IntVal 1))) = [''n1'', ''n2'']"
    "unpooled (drain_layout (sample_cluster current)) = []" "\<not> is_offload_pool (sample_pool (Some (IntVal 1)))"
    by (simp_all add: sample_cluster_view pool_members_def unpooled_def pools_of_def pool_selector_def
        selector_matches_def sample_pool_def is_offload_pool_def)
  moreover have "MaxUnavailable (sample_pool (Some (IntVal 1))) 2 = Inr 1"
    by (simp add: MaxUnavailable_int sample_pool_def)
  ultimately show ?thesis unfolding slots_safe_def sample_cluster_busy
    by (simp add: sample_cluster_view(1) busy_count_def)
qed

theorem drain_slots_never_exceeded_witness:
  "(let c' = snd (Reconcile sample_answers ''n2'' ((sample_cluster Draining)\<lparr>cl_Faults := [False, True], cl_Clock := 5\<rparr>)) in
    slots_safe (drain_layout c') (busy_set c'))"
proof -
  let ?c = "sample_cluster Draining"
  let ?c' = "snd (Reconcile sample_answers ''n2'' (?c\<lparr>cl_Faults := [False, True], cl_Clock := 5\<rparr>))"
  have wf: "drain_wf ?c" by (rule sample_cluster_wf) simp
  have "cluster_step\<^sup>*\<^sup>* ?c ?c'" by (rule r_into_rtranclp) (rule cluster_step.reconcile)
  from drain_slots_never_exceeded[OF wf sample_cluster_safe this] show ?thesis unfolding Let_def by blast
qed

text \<open>
  C11: one reconciliation of the drain controller, with any failing calls and any answers of the
  drain library, leaves nodes, labels and pools as they are, keeps the \<^verbatim>\<open>current-state\<close> annotations
  within their three values, and moves the set of busy nodes by steps of the abstract slot machine.
\<close>

theorem reconcile_refines_slot_machine:
  assumes "drain_wf c"
  shows "(let c' = snd (Reconcile ans nm c) in
    drain_layout c' = drain_layout c \<and> drain_wf c' \<and>
    (slot_step (drain_layout c))\<^sup>*\<^sup>* (busy_set c) (busy_set c'))"
  using Reconcile_refines[OF refines_refl[OF assms], of ans nm] by (simp add: refines_from_def Let_def)

theorem reconcile_refines_slot_machine_witness:
  "(slot_step (drain_layout (sample_cluster Draining)))\<^sup>*\<^sup>* {''n1''}
     (busy_set (snd (Reconcile sample_answers ''n2'' (sample_cluster Draining))))"
proof -
  have "drain_wf (sample_cluster Draining)" by (rule sample_cluster_wf) simp
  from reconcile_refines_slot_machine[OF this, of sample_answers "''n2''"] show ?thesis
    by (simp add: Let_def sample_cluster_busy)
qed

text \<open>
  The list of drain errors kept for the condition message never has more than ten entries, has
  no entry twice, and always agrees with the set of messages already seen, whatever messages arrive.
\<close>

theorem drain_error_list_bounded:
  "drain_errors_ok (fold (\<lambda>m s. fst (onDrainError m s)) msgs ([], []))"
  by (rule fold_onDrainError_ok) (simp add: drain_errors_ok_def)

end
