(* ===== verification/Drain_Progress.thy ===== *)
theory Drain_Progress
  imports Drain_Safety
begin

text \<open>
  The other half of the drain controller's contract: when no call fails, a request is answered. With
  a free slot in the pool \<open>tryDrainNode\<close> takes it, without one it asks for a retry and leaves the busy
  nodes alone; the drain and its completion then move the annotation on.
\<close>

section \<open>Calls that do not fail\<close>

lemmas io_run = io_bind_def io_map_err_def io_return_def io_lift_def

definition selectors_ok :: "SriovNetworkPoolConfig list \<Rightarrow> bool" where
  "selectors_ok ps \<longleftrightarrow> list_all (\<lambda>p. is_offload_pool p \<or> LabelSelectorAsSelector_ok (pool_selector p)) ps"

lemma list_nodes_runs: "cl_Faults c = [] \<Longrightarrow> list_nodes F c = (Inr (filter F (cl_Nodes c)), c)"
  by (simp add: list_nodes_def)

lemma scan_pools_runs:
  assumes "cl_Faults c = []" and "selectors_ok ps"
  shows "\<exists>nip'. scan_pools node ps sel nip c =
    (Inr (sel @ filter (\<lambda>p. \<not> is_offload_pool p \<and> pool_matches p node) ps, nip'), c)"
  using assms(2)
proof (induction ps arbitrary: sel nip)
  case Nil
  then show ?case by (simp add: io_return_def)
next
  case (Cons p ps)
  then have IH: "\<exists>nip'. scan_pools node ps sel nip c =
    (Inr (sel @ filter (\<lambda>p. \<not> is_offload_pool p \<and> pool_matches p node) ps, nip'), c)" for sel nip
    by (simp add: selectors_ok_def)
  show ?case using Cons.prems IH[of sel nip]
      IH[of "sel @ [p]" "nip @ map node_Name (filter (pool_matches p) (cl_Nodes c))"]
      IH[of sel "nip @ map node_Name (filter (pool_matches p) (cl_Nodes c))"]
    by (auto simp: selectors_ok_def io_run list_nodes_runs[OF assms(1)])
qed

lemma view_triple: "view_blind (\<lambda>c'. view c' = view c)"
  by (auto simp: view_blind_def)

lemma findNodePoolConfig_runs:
  assumes ok: "cl_Faults c = []" "selectors_ok (cl_Pools c)" and wf: "drain_wf c"
    and one: "length (pools_of (drain_layout c) (node_Labels node)) \<le> 1"
  obtains p ns where "findNodePoolConfig node c = (Inr (p, ns), c)"
    and "pool_found (drain_layout c) node p (map node_Name ns)"
proof -
  let ?sel = "filter (\<lambda>p. \<not> is_offload_pool p \<and> pool_matches p node) (cl_Pools c)"
  have sel: "?sel = pools_of (drain_layout c) (node_Labels node)"
    by (simp add: pools_of_def pool_matches_def drain_layout_def)
  have pools: "list_pools c = (Inr (cl_Pools c), c)" using ok(1) by (simp add: list_pools_def)
  obtain nip where scan: "scan_pools node (cl_Pools c) [] [] c = (Inr (?sel, nip), c)"
    using scan_pools_runs[OF ok, of node "[]" "[]"] by auto
  have "\<exists>p ns. findNodePoolConfig node c = (Inr (p, ns), c)"
  proof (cases ?sel)
    case Nil
    then show ?thesis using pools scan list_nodes_runs[OF ok(1)] by (simp add: findNodePoolConfig_def io_run)
  next
    case (Cons p ps)
    then have "ps = []" using one unfolding sel[symmetric] by simp
    then have one: "scan_pools node (cl_Pools c) [] [] c = (Inr ([p], nip), c)" using scan Cons by (simp only:)
    show ?thesis by (simp add: findNodePoolConfig_def io_run pools one list_nodes_runs[OF ok(1)])
  qed
  then obtain p ns where run: "findNodePoolConfig node c = (Inr (p, ns), c)" by blast
  have "distinct (map fst (fst (drain_layout c)))" using wf by (simp add: drain_wf_def)
  then have "io_triple (\<lambda>c'. view c' = view c) (findNodePoolConfig node)
      (\<lambda>(p, ns) c'. view c' = view c \<and> pool_found (drain_layout c) node p (map node_Name ns)) (\<lambda>_. True)"
    by (intro findNodePoolConfig_triple view_triple) (auto simp: view_eq_iff)
  from io_tripleD[OF this refl run] have "pool_found (drain_layout c) node p (map node_Name ns)" by simp
  then show thesis by (rule that[OF run])
qed

lemma count_busy_runs:
  assumes "cl_Faults c = []" and "drain_wf c"
  shows "count_busy nm ns cur old c =
    (Inr (cur + busy_count (busy_set c) (map node_Name ns),
          if nm \<in> set (map node_Name ns) \<and> cl_States c nm \<noteq> None then cl_States c nm else old), c)"
proof (induction ns arbitrary: cur old)
  case Nil
  then show ?case by (simp add: io_return_def busy_count_def)
next
  case (Cons n ns)
  have get: "get_state (node_Name n) c = (case cl_States c (node_Name n) of None \<Rightarrow> Inl NotFound | Some s \<Rightarrow> Inr s, c)"
    using assms(1) by (simp add: get_state_def)
  show ?case
  proof (cases "cl_States c (node_Name n)")
    case None
    then have "node_Name n \<notin> busy_set c" by (simp add: busy_set_def state_metas_def)
    then show ?thesis using None get Cons by (auto simp: busy_count_def)
  next
    case (Some s)
    then have m: "state_metas c (node_Name n) = Some (state_Meta s)" by (simp add: state_metas_def)
    then have "state_Name s = node_Name n" using assms(2) by (auto simp: drain_wf_def)
    moreover have "is_busy s = (node_Name n \<in> busy_set c)" using m by (simp add: is_busy_meta busy_set_def)
    ultimately show ?thesis using Some get Cons by (auto simp: busy_count_def)
  qed
qed

lemma updateDrainConditions_runs:
  assumes "cl_Faults c = []"
  obtains c' where "updateDrainConditions nm st msg c = (Inr (), c')" and "view c' = view c" and "cl_Faults c' = []"
proof -
  have "\<exists>c'. updateDrainConditions nm st msg c = (Inr (), c') \<and> cl_Faults c' = []"
    using assms by (auto simp: updateDrainConditions_def get_state_def apply_conditions_def io_map_err_def Let_def
        split: option.splits prod.splits)
  then obtain c' where run: "updateDrainConditions nm st msg c = (Inr (), c')" "cl_Faults c' = []" by blast
  have "view c' = view c"
    using io_tripleD[OF updateDrainConditions_triple[OF view_triple[of c], of "\<lambda>_. True"] _ run(1)] by simp
  then show thesis using that run by blast
qed

section \<open>Taking a slot\<close>

text \<open>The requested node is one of the nodes of the pool that decides.\<close>

lemma pool_found_member:
  assumes "pool_found L node p names" and "(node_Name node, node_Labels node) \<in> set (fst L)"
  shows "node_Name node \<in> set names"
proof -
  have "selector_matches (pool_selector p) (node_Labels node)" if "pools_of L (node_Labels node) = [p]"
    using that by (auto simp: pools_of_def filter_eq_Cons_iff)
  then show ?thesis using assms by (force simp: pool_found_def pool_members_def unpooled_def)
qed

lemma tryDrainNode_runs:
  assumes ok: "cl_Faults c = []" "selectors_ok (cl_Pools c)" and wf: "drain_wf c"
    and one: "length (pools_of (drain_layout c) (node_Labels node)) \<le> 1"
    and node: "(node_Name node, node_Labels node) \<in> set (fst (drain_layout c))"
    and s: "cl_States c (node_Name node) = Some s"
  obtains p names where "pool_found (drain_layout c) node p names" and "node_Name node \<in> set names"
    and "\<And>m. MaxUnavailable p (int (length names)) = Inr m \<Longrightarrow>
           tryDrainNode node c = take_slot s m (busy_count (busy_set c) names) c"
proof -
  obtain p ns where run: "findNodePoolConfig node c = (Inr (p, ns), c)"
    and pool: "pool_found (drain_layout c) node p (map node_Name ns)"
    using findNodePoolConfig_runs[OF ok wf one] by blast
  have mem: "node_Name node \<in> set (map node_Name ns)" by (rule pool_found_member[OF pool node])
  have "tryDrainNode node c = take_slot s m (busy_count (busy_set c) (map node_Name ns)) c"
    if "MaxUnavailable p (int (length (map node_Name ns))) = Inr m" for m
    using that mem s unfolding tryDrainNode_def
    by (simp add: io_run run count_busy_runs[OF ok(1) wf])
  then show thesis using that pool mem by blast
qed

text \<open>A free slot is taken: the node is busy afterwards, the others are as before.\<close>

lemma take_slot_free:
  assumes "cl_Faults c = []" and "cl_States c nm = Some s" and "state_Name s = nm"
    and "\<not> is_busy s" and "m = -1 \<or> cur < m"
  obtains c' where "take_slot s m cur c = (Inr None, c')" and "busy_set c' = insert nm (busy_set c)"
    and "drain_layout c' = drain_layout c" and "cl_Faults c' = []"
proof -
  let ?c = "c\<lparr>cl_States := (cl_States c)(nm \<mapsto> annotate_stored NodeStateDrainAnnotationCurrent Draining s)\<rparr>"
  have ann: "AnnotateState s NodeStateDrainAnnotationCurrent Draining c =
      (Inr (annotate_stored NodeStateDrainAnnotationCurrent Draining s), ?c)"
    using assms by (auto simp: AnnotateState_def is_busy_meta busy_meta_def split: option.splits)
  obtain c' where upd: "updateDrainConditions nm DrainStateDraining [] ?c = (Inr (), c')" "view c' = view ?c" "cl_Faults c' = []"
    using updateDrainConditions_runs[of ?c nm DrainStateDraining "[]"] assms(1) by auto
  have "busy_set c' = busy_set ?c" using upd(2) by (simp add: view_eq_iff busy_set_def)
  then have "busy_set c' = insert nm (busy_set c)" using annotate_busy[OF assms(2)] by simp
  moreover have "take_slot s m cur c = (Inr None, c')" using assms(3-5) ann upd(1) by (auto simp: take_slot_def io_run)
  ultimately show thesis using that upd(2,3) by (simp add: view_eq_iff)
qed

lemma take_slot_full:
  assumes "cl_Faults c = []" and "state_Name s = nm" and "\<not> is_busy s" and "m \<noteq> -1" and "m \<le> cur"
  obtains c' where "take_slot s m cur c = (Inr (Some RequeueAfter), c')" and "busy_set c' = busy_set c"
proof -
  obtain c' where upd: "updateDrainConditions nm DrainStatePending ''Waiting for an available drain slot'' c = (Inr (), c')"
      "view c' = view c"
    using updateDrainConditions_runs[OF assms(1), of nm DrainStatePending "''Waiting for an available drain slot''"] by auto
  then have "take_slot s m cur c = (Inr (Some RequeueAfter), c')" using assms by (auto simp: take_slot_def io_run)
  then show thesis using that upd(2) by (simp add: view_eq_iff busy_set_def)
qed

lemma state_name:
  assumes "drain_wf c" and "cl_States c nm = Some s"
  shows "state_Name s = nm"
proof -
  have "state_metas c nm = Some (state_Meta s)" using assms(2) by (simp add: state_metas_def)
  then show ?thesis using assms(1) unfolding drain_wf_def by blast
qed

section \<open>Properties\<close>

text \<open>
  C24: a node that asks for a drain while no call fails gets it when its pool has a free slot: if the
  node is in at most one pool and fewer nodes are busy than the limit of the deciding pool,
  \<^verbatim>\<open>tryDrainNode\<close> succeeds and exactly this node becomes busy.
\<close>

theorem free_slot_is_taken:
  assumes "cl_Faults c = []" and "selectors_ok (cl_Pools c)" and "drain_wf c"
    and "length (pools_of (drain_layout c) (node_Labels node)) \<le> 1"
    and "(node_Name node, node_Labels node) \<in> set (fst (drain_layout c))"
    and "cl_States c (node_Name node) = Some s" and "\<not> is_busy s"
    and "\<forall>p names. pool_found (drain_layout c) node p names \<longrightarrow>
           (\<exists>m. MaxUnavailable p (int (length names)) = Inr m \<and> (m = -1 \<or> busy_count (busy_set c) names < m))"
  shows "\<exists>c'. tryDrainNode node c = (Inr None, c') \<and> busy_set c' = insert (node_Name node) (busy_set c) \<and>
    drain_layout c' = drain_layout c"
proof -
  obtain p names where pool: "pool_found (drain_layout c) node p names"
    and run: "\<And>m. MaxUnavailable p (int (length names)) = Inr m \<Longrightarrow>
           tryDrainNode node c = take_slot s m (busy_count (busy_set c) names) c"
    using tryDrainNode_runs[OF assms(1-6)] by blast
  obtain m where m: "MaxUnavailable p (int (length names)) = Inr m" "m = -1 \<or> busy_count (busy_set c) names < m"
    using assms(8) pool by blast
  obtain c' where "take_slot s m (busy_count (busy_set c) names) c = (Inr None, c')"
    "busy_set c' = insert (node_Name node) (busy_set c)" "drain_layout c' = drain_layout c"
    using take_slot_free[OF assms(1,6) state_name[OF assms(3,6)] assms(7) m(2)] by blast
  then show ?thesis using run[OF m(1)] by auto
qed

text \<open>
  A node that asks for a drain while its pool is full is put off: \<^verbatim>\<open>tryDrainNode\<close> asks for a retry
  and the set of busy nodes stays as it is.
\<close>

theorem full_pool_waits:
  assumes "cl_Faults c = []" and "selectors_ok (cl_Pools c)" and "drain_wf c"
    and "length (pools_of (drain_layout c) (node_Labels node)) \<le> 1"
    and "(node_Name node, node_Labels node) \<in> set (fst (drain_layout c))"
    and "cl_States c (node_Name node) = Some s" and "\<not> is_busy s"
    and "\<forall>p names. pool_found (drain_layout c) node p names \<longrightarrow>
           (\<exists>m. MaxUnavailable p (int (length names)) = Inr m \<and> m \<noteq> -1 \<and> m \<le> busy_count (busy_set c) names)"
  shows "\<exists>c'. tryDrainNode node c = (Inr (Some RequeueAfter), c') \<and> busy_set c' = busy_set c"
proof -
  obtain p names where pool: "pool_found (drain_layout c) node p names"
    and run: "\<And>m. MaxUnavailable p (int (length names)) = Inr m \<Longrightarrow>
           tryDrainNode node c = take_slot s m (busy_count (busy_set c) names) c"
    using tryDrainNode_runs[OF assms(1-6)] by blast
  obtain m where m: "MaxUnavailable p (int (length names)) = Inr m" "m \<noteq> -1" "m \<le> busy_count (busy_set c) names"
    using assms(8) pool by blast
  obtain c' where "take_slot s m (busy_count (busy_set c) names) c = (Inr (Some RequeueAfter), c')"
    "busy_set c' = busy_set c"
    using take_slot_full[OF assms(1) state_name[OF assms(3,6)] assms(7) m(2,3)] by blast
  then show ?thesis using run[OF m(1)] by auto
qed

lemma sample_drain_node_fields [simp]:
  "node_Name (sample_drain_node nm) = nm" "node_Labels (sample_drain_node nm) = Map.empty"
  by (simp_all add: sample_drain_node_def sample_node_def sample_meta_def)

lemma sample_pools_of: "pools_of (drain_layout (sample_cluster current)) Map.empty = [sample_pool (Some (IntVal 1))]"
  by (simp add: sample_cluster_view pools_of_def pool_selector_def selector_matches_def sample_pool_def is_offload_pool_def)

lemma sample_pool_found:
  "pool_found (drain_layout (sample_cluster current)) (sample_drain_node ''n2'') p names \<longleftrightarrow>
     p = sample_pool (Some (IntVal 1)) \<and> names = [''n1'', ''n2'']"
  unfolding pool_found_def sample_drain_node_fields sample_pools_of
  by (auto simp: sample_cluster_view pool_members_def pool_selector_def selector_matches_def sample_pool_def)

lemma sample_pool_unique:
  "length (pools_of (drain_layout (sample_cluster current)) (node_Labels (sample_drain_node ''n2''))) \<le> 1"
  unfolding sample_drain_node_fields sample_pools_of by simp

lemma sample_ready:
  "cl_Faults (sample_cluster current) = []" "selectors_ok (cl_Pools (sample_cluster current))"
  "(node_Name (sample_drain_node ''n2''), node_Labels (sample_drain_node ''n2'')) \<in> set (fst (drain_layout (sample_cluster current)))"
  "cl_States (sample_cluster current) (node_Name (sample_drain_node ''n2'')) = Some (sample_drain_state ''n2'' DrainIdle)"
  "\<not> is_busy (sample_drain_state ''n2'' DrainIdle)"
  by (simp_all add: sample_cluster_view(1))
    (simp_all add: sample_cluster_def selectors_ok_def sample_pool_def pool_selector_def
        LabelSelectorAsSelector_ok_def is_busy_def ObjectHasAnnotation_def sample_drain_state_def sample_meta_def)

lemma sample_limit: "MaxUnavailable (sample_pool (Some (IntVal 1))) n = Inr 1"
  by (simp add: MaxUnavailable_int sample_pool_def)

theorem free_slot_is_taken_witness:
  "\<exists>c'. tryDrainNode (sample_drain_node ''n2'') (sample_cluster DrainIdle) = (Inr None, c') \<and> busy_set c' = {''n2''}"
proof -
  have wf: "drain_wf (sample_cluster DrainIdle)" by (rule sample_cluster_wf) simp
  have "\<forall>p names. pool_found (drain_layout (sample_cluster DrainIdle)) (sample_drain_node ''n2'') p names \<longrightarrow>
      (\<exists>m. MaxUnavailable p (int (length names)) = Inr m \<and>
        (m = -1 \<or> busy_count (busy_set (sample_cluster DrainIdle)) names < m))"
    unfolding sample_pool_found sample_cluster_busy by (simp add: sample_limit busy_count_def)
  from free_slot_is_taken[OF sample_ready(1,2) wf sample_pool_unique sample_ready(3-5) this] show ?thesis
    by (simp add: sample_cluster_busy) blast
qed

theorem full_pool_waits_witness:
  "\<exists>c'. tryDrainNode (sample_drain_node ''n2'') (sample_cluster Draining) = (Inr (Some RequeueAfter), c') \<and>
     busy_set c' = {''n1''}"
proof -
  have wf: "drain_wf (sample_cluster Draining)" by (rule sample_cluster_wf) simp
  have "\<forall>p names. pool_found (drain_layout (sample_cluster Draining)) (sample_drain_node ''n2'') p names \<longrightarrow>
      (\<exists>m. MaxUnavailable p (int (length names)) = Inr m \<and> m \<noteq> -1 \<and>
        m \<le> busy_count (busy_set (sample_cluster Draining)) names)"
    unfolding sample_pool_found sample_cluster_busy by (simp add: sample_limit busy_count_def)
  from full_pool_waits[OF sample_ready(1,2) wf sample_pool_unique sample_ready(3-5) this] show ?thesis
    by (simp add: sample_cluster_busy)
qed

end
