(* ===== verification/Network_Controller.thy ===== *)
theory Network_Controller
  imports Cluster
begin

text \<open>
  \<^verbatim>\<open>src/controllers/generic_network_controller.go\<close>, the reconciliation shared by the three network
  controllers: the finalizer, rendering, the removal of the attachment in the previous namespace, and
  creation or update of the network attachment definition, with the condition reported in each case.
  The YAML decoder, the conversion to the typed object, \<^verbatim>\<open>json.Indent\<close> and the text of an error are
  parameters.
\<close>

section \<open>Environment and client calls\<close>

datatype network_kind = KindSriovNetwork | KindSriovIBNetwork | KindOVSNetwork

definition net_kind :: "NetworkCR \<Rightarrow> network_kind" where
  "net_kind cr =
     (case net_Spec cr of SriovSpec _ \<Rightarrow> KindSriovNetwork | IBSpec _ \<Rightarrow> KindSriovIBNetwork
      | OVSSpec _ \<Rightarrow> KindOVSNetwork)"

datatype net_error = NetApi api_error | NetRender render_error | NetConvert string | NetJson string

record net_env =
  ne_Namespace :: string
  ne_Prefix :: string
  ne_Decode :: "manifest \<Rightarrow> string + NetAttDef"
  ne_Convert :: "NetAttDef \<Rightarrow> string + NetAttDef"
  ne_FormatJSON :: "string \<Rightarrow> string + string"
  ne_ErrorText :: "net_error \<Rightarrow> string"

type_synonym net_key = "network_kind \<times> string \<times> string"

definition net_key :: "NetworkCR \<Rightarrow> net_key" where
  "net_key cr = (net_kind cr, net_Namespace cr, net_Name cr)"

definition find_network :: "cluster \<Rightarrow> net_key \<Rightarrow> NetworkCR option" where
  "find_network c key = find (\<lambda>n. net_key n = key) (cl_Networks c)"

definition set_network :: "NetworkCR \<Rightarrow> cluster \<Rightarrow> cluster" where
  "set_network cr c =
     c\<lparr>cl_Networks := map (\<lambda>n. if net_key n = net_key cr then cr else n) (cl_Networks c)\<rparr>"

definition drop_network :: "net_key \<Rightarrow> cluster \<Rightarrow> cluster" where
  "drop_network key c = c\<lparr>cl_Networks := filter (\<lambda>n. net_key n \<noteq> key) (cl_Networks c)\<rparr>"

definition get_network :: "net_key \<Rightarrow> (api_error, NetworkCR) io" where
  "get_network key =
     api_call (\<lambda>c. (case find_network c key of None \<Rightarrow> Inl NotFound | Some n \<Rightarrow> Inr n, c))"

text \<open>
  \<^verbatim>\<open>Update\<close> of a network leaves status and deletion timestamp alone; an object under deletion goes when
  its last finalizer goes.
\<close>

definition update_network :: "NetworkCR \<Rightarrow> (api_error, NetworkCR) io" where
  "update_network obj =
     api_call (\<lambda>c.
       case find_network c (net_key obj) of
         None \<Rightarrow> (Inl NotFound, c)
       | Some old \<Rightarrow>
           (let new = obj\<lparr>net_Deleting := net_Deleting old, net_Conditions := net_Conditions old\<rparr> in
            (Inr new,
             if net_Deleting old \<and> net_Finalizers obj = [] then drop_network (net_key obj) c
             else set_network new c)))"

text \<open>\<^verbatim>\<open>utils.AnnotateObject\<close> on a network.\<close>

definition annotate_network :: "string \<Rightarrow> string \<Rightarrow> NetworkCR \<Rightarrow> NetworkCR" where
  "annotate_network k v n = n\<lparr>net_Meta := set_annotation k v (net_Meta n)\<rparr>"

definition AnnotateNetwork :: "NetworkCR \<Rightarrow> string \<Rightarrow> string \<Rightarrow> (api_error, NetworkCR) io" where
  "AnnotateNetwork obj k v =
     (if (case om_Annotations (net_Meta obj) k of None \<Rightarrow> [] | Some x \<Rightarrow> x) = v then io_return obj
      else api_call (\<lambda>c.
        case find_network c (net_key obj) of
          None \<Rightarrow> (Inl NotFound, c)
        | Some n \<Rightarrow> (Inr (annotate_network k v n), set_network (annotate_network k v n) c)))"

text \<open>
  \<^verbatim>\<open>Delete\<close> of an attachment. The REST client refuses a named request for a namespaced resource with the
  empty namespace before it is sent (\<^verbatim>\<open>requestPreflightCheck\<close> in the vendored \<^verbatim>\<open>client-go/rest/request.go\<close>),
  and that error is not a \<^verbatim>\<open>NotFound\<close>.
\<close>

definition delete_nad :: "string \<Rightarrow> string \<Rightarrow> (api_error, unit) io" where
  "delete_nad ns nm =
     (if ns = [] then io_fail ApiError
      else api_call (\<lambda>c.
        case cl_Nads c (ns, nm) of
          None \<Rightarrow> (Inl NotFound, c)
        | Some _ \<Rightarrow> (Inr (), c\<lparr>cl_Nads := (cl_Nads c)((ns, nm) := None)\<rparr>)))"

definition get_nad :: "string \<Rightarrow> string \<Rightarrow> (api_error, NetAttDef) io" where
  "get_nad ns nm =
     api_call (\<lambda>c. (case cl_Nads c (ns, nm) of None \<Rightarrow> Inl NotFound | Some d \<Rightarrow> Inr d, c))"

definition create_nad :: "NetAttDef \<Rightarrow> (api_error, unit) io" where
  "create_nad nad =
     api_call (\<lambda>c.
       if nad_Namespace nad \<notin> set (cl_Namespaces c) then (Inl NotFound, c)
       else case cl_Nads c (nad_Namespace nad, nad_Name nad) of
         Some _ \<Rightarrow> (Inl ApiError, c)
       | None \<Rightarrow> (Inr (), c\<lparr>cl_Nads := (cl_Nads c)((nad_Namespace nad, nad_Name nad) \<mapsto> nad)\<rparr>))"

definition update_nad :: "NetAttDef \<Rightarrow> (api_error, unit) io" where
  "update_nad nad =
     api_call (\<lambda>c.
       case cl_Nads c (nad_Namespace nad, nad_Name nad) of
         None \<Rightarrow> (Inl NotFound, c)
       | Some _ \<Rightarrow> (Inr (), c\<lparr>cl_Nads := (cl_Nads c)((nad_Namespace nad, nad_Name nad) \<mapsto> nad)\<rparr>))"

definition get_namespace :: "string \<Rightarrow> (api_error, unit) io" where
  "get_namespace ns =
     api_call (\<lambda>c. (if ns \<in> set (cl_Namespaces c) then Inr () else Inl NotFound, c))"

text \<open>\<^verbatim>\<open>ApplyCondition\<close> on a network: no call when nothing changes.\<close>

definition apply_network_conditions :: "net_key \<Rightarrow> Condition list \<Rightarrow> (api_error, unit) io" where
  "apply_network_conditions key conds =
     api_call (\<lambda>c.
       case find_network c key of
         None \<Rightarrow> (Inl NotFound, c)
       | Some n \<Rightarrow>
           (Inr (), set_network (n\<lparr>net_Conditions := fold merge_entry conds (net_Conditions n)\<rparr>) c))"

definition report :: "NetworkCR \<Rightarrow> condition_status \<Rightarrow> string \<Rightarrow> string \<Rightarrow> (net_error, unit) io" where
  "report obj st reason message c =
     (case ApplyCondition (net_Conditions obj)
             [NewCondition (cl_Clock c) ConditionReady st reason message (om_Generation (net_Meta obj))] of
        None \<Rightarrow> (Inr (), c)
      | Some (conds, _) \<Rightarrow> io_map_err NetApi (apply_network_conditions (net_key obj) conds) c)"

section \<open>Finalizers\<close>

abbreviation LASTNETWORKNAMESPACE :: string where
  "LASTNETWORKNAMESPACE \<equiv> ''operator.sriovnetwork.openshift.io/last-network-namespace''"

abbreviation NETATTDEFFINALIZERNAME :: string where
  "NETATTDEFFINALIZERNAME \<equiv> ''netattdef.finalizers.sriovnetwork.openshift.io''"

abbreviation OwnerRefAnnotation :: string where
  "OwnerRefAnnotation \<equiv> ''sriovnetwork.openshift.io/owner-ref''"

definition updateFinalizers :: "net_env \<Rightarrow> NetworkCR \<Rightarrow> (net_error, NetworkCR) io" where
  "updateFinalizers env inst =
     (if net_Namespace inst \<noteq> ne_Namespace env then io_return inst
      else if \<not> StringInArray NETATTDEFFINALIZERNAME (net_Finalizers inst)
      then io_map_err NetApi
             (update_network (inst\<lparr>net_Finalizers := net_Finalizers inst @ [NETATTDEFFINALIZERNAME]\<rparr>))
      else io_return inst)"

definition deleteNetAttDef :: "NetworkCR \<Rightarrow> (net_error, unit) io" where
  "deleteNetAttDef cr =
     (let ns = (if NetworkNamespace cr = [] then net_Namespace cr else NetworkNamespace cr) in
      io_handle (delete_nad ns (net_Name cr))
        (\<lambda>e. if e = NotFound then io_return () else io_fail (NetApi e))
        (\<lambda>_. io_return ()))"

definition cleanResourcesAndFinalizers :: "NetworkCR \<Rightarrow> (net_error, unit) io" where
  "cleanResourcesAndFinalizers inst =
     (if StringInArray NETATTDEFFINALIZERNAME (net_Finalizers inst)
      then io_bind (deleteNetAttDef inst) (\<lambda>_.
        case RemoveString NETATTDEFFINALIZERNAME (net_Finalizers inst) of
          (newFinalizers, found) \<Rightarrow>
            if found
            then io_handle (update_network (inst\<lparr>net_Finalizers := newFinalizers\<rparr>))
                   (\<lambda>e. if e = NotFound then io_return () else io_fail (NetApi e))
                   (\<lambda>_. io_return ())
            else io_return ())
      else io_return ())"

section \<open>Reconciliation\<close>

text \<open>\<^verbatim>\<open>RenderNetAttDef\<close> with the decoded object.\<close>

definition render_object :: "net_env \<Rightarrow> NetworkCR \<Rightarrow> net_error + NetAttDef" where
  "render_object env inst =
     res_bind (map_err NetRender (RenderNetAttDef (ne_Prefix env) inst))
       (\<lambda>m. map_err (\<lambda>e. NetRender (DecodeError e)) (ne_Decode env m))"

text \<open>Removal of the attachment in the namespace the annotation names, when it is not the target.\<close>

definition clear_annotation :: "NetworkCR \<Rightarrow> (net_error, NetworkCR) io" where
  "clear_annotation inst = io_map_err NetApi (AnnotateNetwork inst LASTNETWORKNAMESPACE [])"

definition remove_stale :: "NetworkCR \<Rightarrow> NetAttDef \<Rightarrow> (net_error, NetworkCR) io" where
  "remove_stale inst netAttDef =
     (case om_Annotations (net_Meta inst) LASTNETWORKNAMESPACE of
        None \<Rightarrow> io_return inst
      | Some lnns \<Rightarrow>
          if nad_Namespace netAttDef \<noteq> lnns
          then io_handle (delete_nad lnns (net_Name inst))
                 (\<lambda>e. if e \<noteq> NotFound then io_fail (NetApi e) else clear_annotation inst)
                 (\<lambda>_. clear_annotation inst)
          else io_return inst)"

definition owner_reference :: "NetworkCR \<Rightarrow> string" where
  "owner_reference cr = group_kind (net_GVK cr) @ ''/'' @ net_Name cr"

definition SetOwnerReference :: "NetworkCR \<Rightarrow> NetAttDef \<Rightarrow> NetAttDef" where
  "SetOwnerReference inst nad =
     (if owner_reference inst \<in> set (nad_OwnerReferences nad) then nad
      else nad\<lparr>nad_OwnerReferences := nad_OwnerReferences nad @ [owner_reference inst]\<rparr>)"

abbreviation "ready_message \<equiv> ''NetworkAttachmentDefinition is provisioned and ready''"

text \<open>The branch where the attachment does not exist.\<close>

definition create_attachment :: "net_env \<Rightarrow> NetworkCR \<Rightarrow> NetAttDef \<Rightarrow> (net_error, unit) io" where
  "create_attachment env inst netAttDef =
     io_handle (create_nad netAttDef)
       (\<lambda>e. io_bind (io_ignore (report inst ConditionFalse ''NetworkAttachmentDefinitionInvalid''
                                  (ne_ErrorText env (NetApi e)))) (\<lambda>_. io_fail (NetApi e)))
       (\<lambda>_. io_bind (io_map_err NetApi (AnnotateNetwork inst LASTNETWORKNAMESPACE (nad_Namespace netAttDef)))
              (\<lambda>inst. report inst ConditionTrue ''NetworkReady'' ready_message))"

definition provision_missing :: "net_env \<Rightarrow> NetworkCR \<Rightarrow> NetAttDef \<Rightarrow> (net_error, unit) io" where
  "provision_missing env inst netAttDef =
     io_handle (get_namespace (nad_Namespace netAttDef))
       (\<lambda>e. if e = NotFound
            then report inst ConditionFalse ''NamespaceNotFound''
                   (''target namespace '' @ qt (nad_Namespace netAttDef) @ '' does not exist'')
            else create_attachment env inst netAttDef)
       (\<lambda>_. create_attachment env inst netAttDef)"

text \<open>The branch where it exists; annotations are compared as maps.\<close>

definition annotation :: "NetAttDef \<Rightarrow> string \<Rightarrow> string" where
  "annotation nad k = (case map_of (nad_Annotations nad) k of None \<Rightarrow> [] | Some v \<Rightarrow> v)"

definition same_annotations :: "NetAttDef \<Rightarrow> NetAttDef \<Rightarrow> bool" where
  "same_annotations a b \<longleftrightarrow>
     list_all (\<lambda>k. map_of (nad_Annotations a) k = map_of (nad_Annotations b) k)
       (map fst (nad_Annotations a) @ map fst (nad_Annotations b))"

definition update_attachment :: "net_env \<Rightarrow> NetworkCR \<Rightarrow> NetAttDef \<Rightarrow> NetAttDef \<Rightarrow> (net_error, unit) io" where
  "update_attachment env inst netAttDef found =
     (let foundOwner = annotation found OwnerRefAnnotation;
          expectedOwner = annotation netAttDef OwnerRefAnnotation
      in if foundOwner \<noteq> [] \<and> foundOwner \<noteq> expectedOwner
         then report inst ConditionFalse ''NetworkAttachmentDefinitionInvalid''
                (''NetworkAttachmentDefinition '' @ [CHR 0x27] @ nad_Namespace netAttDef @ ''/'' @
                 nad_Name netAttDef @ [CHR 0x27] @ '' already exists and is owned by '' @ foundOwner)
         else if nad_Config found \<noteq> nad_Config netAttDef \<or> \<not> same_annotations found netAttDef
         then io_handle (update_nad netAttDef)
                (\<lambda>e. io_bind (io_ignore (report inst ConditionFalse ''NetworkAttachmentDefinitionInvalid''
                                           (ne_ErrorText env (NetApi e)))) (\<lambda>_. io_fail (NetApi e)))
                (\<lambda>_. report inst ConditionTrue ''NetworkReady'' ready_message)
         else report inst ConditionTrue ''NetworkReady'' ready_message)"

definition store_attachment :: "net_env \<Rightarrow> NetworkCR \<Rightarrow> NetAttDef \<Rightarrow> (net_error, unit) io" where
  "store_attachment env inst netAttDef =
     io_handle (get_nad (nad_Namespace netAttDef) (nad_Name netAttDef))
       (\<lambda>e. if e = NotFound then provision_missing env inst netAttDef
            else io_bind (io_ignore (report inst ConditionFalse ''NetworkAttachmentDefinitionNotFound''
                                       (ne_ErrorText env (NetApi e)))) (\<lambda>_. io_fail (NetApi e)))
       (update_attachment env inst netAttDef)"

text \<open>From rendering to the end, for a network that is not under deletion.\<close>

definition prepare_attachment :: "net_env \<Rightarrow> NetAttDef \<Rightarrow> net_error + NetAttDef" where
  "prepare_attachment env raw =
     res_bind (map_err NetConvert (ne_Convert env raw)) (\<lambda>nad.
     res_bind (map_err NetJson (ne_FormatJSON env (nad_Config nad))) (\<lambda>cfg.
       Inr (nad\<lparr>nad_Config := cfg\<rparr>)))"

definition own_attachment :: "NetworkCR \<Rightarrow> NetAttDef \<Rightarrow> NetAttDef" where
  "own_attachment inst nad =
     (if net_Namespace inst = nad_Namespace nad then SetOwnerReference inst nad else nad)"

definition provision :: "net_env \<Rightarrow> NetworkCR \<Rightarrow> (net_error, unit) io" where
  "provision env inst =
     (case render_object env inst of
        Inl e \<Rightarrow>
          io_bind (io_ignore (report inst ConditionFalse ''NetworkAttachmentDefinitionInvalid''
                                (ne_ErrorText env e))) (\<lambda>_. io_fail e)
      | Inr raw \<Rightarrow>
          io_bind (io_lift (prepare_attachment env raw)) (\<lambda>netAttDef.
          io_bind (remove_stale inst netAttDef) (\<lambda>inst.
            store_attachment env inst (own_attachment inst netAttDef))))"

definition Reconcile_network :: "net_env \<Rightarrow> net_key \<Rightarrow> (net_error, unit) io" where
  "Reconcile_network env req =
     io_handle (get_network req)
       (\<lambda>e. if e = NotFound then io_return () else io_fail (NetApi e))
       (\<lambda>inst.
          if NetworkNamespace inst \<noteq> [] \<and> net_Namespace inst \<noteq> ne_Namespace env
          then report inst ConditionFalse ''NetworkAttachmentDefinitionInvalid''
                 (''spec.networkNamespace cannot be set when the resource is not in the operator namespace ('' @
                  ne_Namespace env @ '')'')
          else if \<not> net_Deleting inst
          then io_bind (updateFinalizers env inst) (provision env)
          else cleanResourcesAndFinalizers inst)"

section \<open>Requests for a changed attachment or namespace\<close>

definition handleNetAttDef :: "net_env \<Rightarrow> network_kind \<Rightarrow> NetAttDef \<Rightarrow> (net_error, net_key list) io" where
  "handleNetAttDef env kd nad =
     (let here = (kd, nad_Namespace nad, nad_Name nad);
          operator = (kd, ne_Namespace env, nad_Name nad);
          seek = (\<lambda>key. io_handle (get_network key) (\<lambda>_. io_return []) (\<lambda>_. io_return [key]))
      in io_bind (seek here) (\<lambda>a. io_bind (seek operator) (\<lambda>b. io_return (a @ b))))"

definition namespaceHandlerCreate :: "network_kind \<Rightarrow> string \<Rightarrow> (net_error, net_key list) io" where
  "namespaceHandlerCreate kd ns =
     io_handle
       (api_call (\<lambda>c. (Inr (filter (\<lambda>n. net_kind n = kd \<and> NetworkNamespace n = ns) (cl_Networks c)), c)))
       (\<lambda>_. io_return [])
       (\<lambda>nets. io_return (map net_key nets))"

section \<open>Sample objects\<close>

definition sample_net_env :: net_env where
  "sample_net_env = \<lparr>ne_Namespace = ''sriov'', ne_Prefix = ''openshift.io'',
     ne_Decode = (\<lambda>m. Inr \<lparr>nad_Name = mf_Name m, nad_Namespace = mf_Namespace m,
        nad_Annotations = [(''k8s.v1.cni.cncf.io/resourceName'', mf_ResourceName m), (OwnerRefAnnotation, mf_Owner m)],
        nad_OwnerReferences = [], nad_Config = mf_Config m\<rparr>),
     ne_Convert = Inr, ne_FormatJSON = Inr, ne_ErrorText = (\<lambda>_. ''error'')\<rparr>"

definition sample_network :: "string \<Rightarrow> string \<Rightarrow> string option \<Rightarrow> bool \<Rightarrow> NetworkCR" where
  "sample_network ns target last_ns deleting =
     \<lparr>net_GVK = \<lparr>gvk_Group = ''sriovnetwork.openshift.io'', gvk_Version = ''v1'', gvk_Kind = ''SriovNetwork''\<rparr>,
      net_Meta = (sample_meta ''net'')\<lparr>om_Namespace := ns,
        om_Annotations := (case last_ns of None \<Rightarrow> Map.empty | Some l \<Rightarrow> [LASTNETWORKNAMESPACE \<mapsto> l])\<rparr>,
      net_Finalizers = (if deleting then [NETATTDEFFINALIZERNAME] else []), net_Deleting = deleting,
      net_Spec = SriovSpec \<lparr>sn_NetworkNamespace = target, sn_ResourceName = ''res'', sn_Capabilities = [],
        sn_IPAM = ''{ }'', sn_Vlan = 100, sn_VlanQoS = 3, sn_VlanProto = ''802.1q'', sn_SpoofChk = ''on'', sn_Trust = [],
        sn_LinkState = ''auto'', sn_MinTxRate = None, sn_MaxTxRate = Some 10, sn_MetaPluginsConfig = [],
        sn_LogLevel = ''info'', sn_LogFile = []\<rparr>,
      net_Conditions = []\<rparr>"

definition sample_nad :: "string \<Rightarrow> string \<Rightarrow> NetAttDef" where
  "sample_nad ns own = \<lparr>nad_Name = ''net'', nad_Namespace = ns, nad_Annotations = [(OwnerRefAnnotation, own)],
     nad_OwnerReferences = [], nad_Config = ''{}''\<rparr>"

definition sample_net_cluster :: "NetworkCR \<Rightarrow> NetAttDef list \<Rightarrow> string list \<Rightarrow> bool list \<Rightarrow> cluster" where
  "sample_net_cluster cr nads nss faults =
     \<lparr>cl_Nodes = [], cl_States = Map.empty, cl_Pools = [], cl_Faults = faults, cl_Clock = 7, cl_ConfigMap = None,
      cl_Networks = [cr], cl_Nads = map_of (map (\<lambda>d. ((nad_Namespace d, nad_Name d), d)) nads), cl_Namespaces = nss\<rparr>"

end
