(* ===== verification/Network_Safety.thy ===== *)
theory Network_Safety
  imports Network_Controller
begin

text \<open>
  What a reconciliation of a network does to network attachment definitions, for every schedule of
  failing calls: which of them it can touch, that one owned by another resource is left alone, and that
  the finalizer goes only after the attachment.
\<close>

section \<open>Predicates on attachments\<close>

text \<open>A predicate that reads the attachments only.\<close>

definition nads_pred :: "(cluster \<Rightarrow> bool) \<Rightarrow> bool" where
  "nads_pred P \<longleftrightarrow> (\<forall>c c'. cl_Nads c = cl_Nads c' \<longrightarrow> P c = P c')"

lemma nads_pred_blind:
  assumes "nads_pred P"
  shows "fault_blind P"
proof -
  have "P (c\<lparr>cl_Faults := fs\<rparr>) = P c" for c fs
  proof -
    have "cl_Nads (c\<lparr>cl_Faults := fs\<rparr>) = cl_Nads c" by simp
    then show ?thesis using assms unfolding nads_pred_def by blast
  qed
  then show ?thesis unfolding fault_blind_def by blast
qed

lemma nads_predD: "nads_pred P \<Longrightarrow> P c \<Longrightarrow> cl_Nads c' = cl_Nads c \<Longrightarrow> P c'"
  unfolding nads_pred_def by blast

lemma cl_Nads_network [simp]: "cl_Nads (set_network n c) = cl_Nads c" "cl_Nads (drop_network k c) = cl_Nads c"
  by (simp_all add: set_network_def drop_network_def)

text \<open>A call that leaves the attachments as they are.\<close>

lemma nads_call:
  assumes "nads_pred P" and "\<And>c. cl_Nads (snd (m c)) = cl_Nads c" and "\<And>c x c'. m c = (Inr x, c') \<Longrightarrow> R x"
  shows "io_triple P (api_call m) (\<lambda>x c. R x \<and> P c) P"
proof (rule io_triple_api_call[OF nads_pred_blind[OF assms(1)]])
  show "io_triple P m (\<lambda>x c. R x \<and> P c) P"
  proof (rule io_tripleI)
    fix c e c' assume "P c" "m c = (Inl e, c')"
    then show "P c'" using nads_predD[OF assms(1)] assms(2)[of c] by simp
  next
    fix c x c' assume "P c" "m c = (Inr x, c')"
    then show "R x \<and> P c'" using nads_predD[OF assms(1)] assms(2)[of c] assms(3) by auto
  qed
qed

lemma nads_call_any:
  assumes "nads_pred P" and "\<And>c. cl_Nads (snd (m c)) = cl_Nads c"
  shows "io_triple P (api_call m) (\<lambda>_. P) P"
  using nads_call[OF assms, of "\<lambda>_. True"] by simp

lemma get_network_triple: "nads_pred P \<Longrightarrow> io_triple P (get_network k) (\<lambda>_. P) P"
  unfolding get_network_def by (rule nads_call_any) simp_all

lemma get_namespace_triple: "nads_pred P \<Longrightarrow> io_triple P (get_namespace ns) (\<lambda>_. P) P"
  unfolding get_namespace_def by (rule nads_call_any) simp_all

text \<open>The identity of a network, which updates of metadata and status keep.\<close>

definition same_network :: "NetworkCR \<Rightarrow> NetworkCR \<Rightarrow> bool" where
  "same_network a b \<longleftrightarrow> net_GVK a = net_GVK b \<and> net_Meta a = net_Meta b \<and> net_Spec a = net_Spec b"

lemma same_network_refl [simp]: "same_network a a"
  by (simp add: same_network_def)

lemma update_network_triple:
  assumes "nads_pred P"
  shows "io_triple P (update_network obj) (\<lambda>n c. same_network n obj \<and> P c) P"
  unfolding update_network_def
  by (rule nads_call[OF assms]) (auto simp: Let_def same_network_def split: option.splits)

lemma AnnotateNetwork_triple:
  assumes "nads_pred P"
  shows "io_triple P (AnnotateNetwork obj k v) (\<lambda>_. P) P"
proof (cases "(case om_Annotations (net_Meta obj) k of None \<Rightarrow> [] | Some x \<Rightarrow> x) = v")
  case True
  then show ?thesis by (simp add: AnnotateNetwork_def io_triple_return)
next
  case False
  then show ?thesis unfolding AnnotateNetwork_def if_not_P[OF False]
    by (intro nads_call_any[OF assms]) (simp split: option.splits)
qed

lemma report_triple:
  assumes "nads_pred P"
  shows "io_triple P (report obj st reason message) (\<lambda>_. P) P"
proof -
  have a: "io_triple P (io_map_err NetApi (apply_network_conditions k conds)) (\<lambda>_. P) P" for k conds
    unfolding apply_network_conditions_def
    by (intro io_triple_map_err nads_call_any[OF assms]) (simp split: option.splits)
  show ?thesis
  proof (unfold io_triple_def, intro allI impI)
    fix c assume p: "P c"
    show "case report obj st reason message c of (Inl e, c') \<Rightarrow> P c' | (Inr x, c') \<Rightarrow> P c'"
      using p a unfolding io_triple_def report_def by (simp split: option.splits)
  qed
qed

lemma report_ignored_triple: "nads_pred P \<Longrightarrow> io_triple P (io_ignore (report obj st r m)) (\<lambda>_. P) P"
  by (rule io_triple_ignore[OF report_triple])

lemma report_then_fail:
  "nads_pred P \<Longrightarrow> io_triple P (io_bind (io_ignore (report obj st r m)) (\<lambda>_. io_fail e)) Q P"
  by (rule io_triple_bind[OF report_ignored_triple]) (auto intro: io_triple_fail)

lemma updateFinalizers_triple:
  assumes "nads_pred P"
  shows "io_triple P (updateFinalizers env inst) (\<lambda>i c. same_network i inst \<and> P c) P"
  unfolding updateFinalizers_def
  by (auto intro!: io_triple_return io_triple_map_err io_triple_conseq[OF update_network_triple[OF assms]]
      simp: same_network_def)

text \<open>Rendering depends on the identity only.\<close>

lemma render_object_eq:
  "render_object env inst =
     map_err (\<lambda>e. NetRender (DecodeError e)) (ne_Decode env \<lparr>mf_Name = net_Name inst, mf_Namespace = target_namespace inst,
       mf_ResourceName = ne_Prefix env @ ''/'' @ resource_name inst, mf_Owner = OwnerRefToString (Some inst),
       mf_Config = cni_config inst\<rparr>)"
  by (simp add: render_object_def RenderNetAttDef_eq)

text \<open>
  What the parameters are relied on for: the decoder puts the name, the namespace and the owner of the
  manifest into the object, and the conversion keeps them.
\<close>

definition decoder_ok :: "net_env \<Rightarrow> bool" where
  "decoder_ok env \<longleftrightarrow>
     (\<forall>m raw. ne_Decode env m = Inr raw \<longrightarrow>
        nad_Name raw = mf_Name m \<and> nad_Namespace raw = mf_Namespace m \<and>
        annotation raw OwnerRefAnnotation = mf_Owner m) \<and>
     (\<forall>raw nad. ne_Convert env raw = Inr nad \<longrightarrow>
        nad_Name nad = nad_Name raw \<and> nad_Namespace nad = nad_Namespace raw \<and>
        annotation nad OwnerRefAnnotation = annotation raw OwnerRefAnnotation)"

definition nad_key :: "NetAttDef \<Rightarrow> string \<times> string" where
  "nad_key nad = (nad_Namespace nad, nad_Name nad)"

lemma prepared_key:
  assumes "decoder_ok env" and "render_object env inst = Inr raw" and "prepare_attachment env raw = Inr nad"
  shows "nad_key nad = (target_namespace inst, net_Name inst)"
    and "annotation nad OwnerRefAnnotation = OwnerRefToString (Some inst)"
proof -
  have r: "nad_Name raw = net_Name inst" "nad_Namespace raw = target_namespace inst"
    "annotation raw OwnerRefAnnotation = OwnerRefToString (Some inst)"
    using assms(1,2) unfolding decoder_ok_def render_object_eq map_err_eq_Inr by fastforce+
  obtain d where d: "ne_Convert env raw = Inr d" and n: "\<exists>cfg. nad = d\<lparr>nad_Config := cfg\<rparr>"
    using assms(3) by (auto simp: prepare_attachment_def res_bind_eq_Inr)
  have "nad_Name d = nad_Name raw" "nad_Namespace d = nad_Namespace raw"
    "annotation d OwnerRefAnnotation = annotation raw OwnerRefAnnotation"
    using assms(1) d unfolding decoder_ok_def by blast+
  then show "nad_key nad = (target_namespace inst, net_Name inst)"
    and "annotation nad OwnerRefAnnotation = OwnerRefToString (Some inst)"
    using n r by (auto simp: nad_key_def annotation_def)
qed

lemma own_attachment_simps [simp]:
  "nad_key (own_attachment inst nad) = nad_key nad"
  "annotation (own_attachment inst nad) k = annotation nad k"
  "nad_Namespace (own_attachment inst nad) = nad_Namespace nad"
  "nad_Name (own_attachment inst nad) = nad_Name nad"
  "nad_Config (own_attachment inst nad) = nad_Config nad"
  "nad_Annotations (own_attachment inst nad) = nad_Annotations nad"
  by (auto simp: own_attachment_def SetOwnerReference_def nad_key_def annotation_def)

section \<open>Which attachments are touched\<close>

definition nads_off :: "(string \<times> string) set \<Rightarrow> (string \<times> string \<rightharpoonup> NetAttDef) \<Rightarrow> cluster \<Rightarrow> bool" where
  "nads_off K N c \<longleftrightarrow> (\<forall>k. k \<notin> K \<longrightarrow> cl_Nads c k = N k)"

lemma nads_off_pred [simp]: "nads_pred (nads_off K N)"
  by (simp add: nads_pred_def nads_off_def)

lemma nads_off_refl [simp]: "nads_off K (cl_Nads c) c"
  by (simp add: nads_off_def)

lemma nads_step:
  assumes "nads_pred P" and "\<And>c. P c \<Longrightarrow> P (snd (m c))"
  shows "io_triple P (api_call m) (\<lambda>_. P) P"
proof (rule io_triple_api_call[OF nads_pred_blind[OF assms(1)]])
  show "io_triple P m (\<lambda>_. P) P"
    by (rule io_tripleI) (metis assms(2) snd_conv)+
qed

lemma delete_nad_off: "(ns, nm) \<in> K \<Longrightarrow> io_triple (nads_off K N) (delete_nad ns nm) (\<lambda>_. nads_off K N) (nads_off K N)"
proof (cases "ns = []")
  case True
  then show ?thesis by (simp add: delete_nad_def io_triple_fail)
next
  case False
  assume "(ns, nm) \<in> K"
  then show ?thesis unfolding delete_nad_def if_not_P[OF False]
    by (intro nads_step) (auto simp: nads_off_def split: option.splits)
qed

lemma create_nad_off: "nad_key nad \<in> K \<Longrightarrow> io_triple (nads_off K N) (create_nad nad) (\<lambda>_. nads_off K N) (nads_off K N)"
  unfolding create_nad_def by (rule nads_step) (auto simp: nads_off_def nad_key_def split: option.splits)

lemma update_nad_off: "nad_key nad \<in> K \<Longrightarrow> io_triple (nads_off K N) (update_nad nad) (\<lambda>_. nads_off K N) (nads_off K N)"
  unfolding update_nad_def by (rule nads_step) (auto simp: nads_off_def nad_key_def split: option.splits)

lemma get_nad_triple: "nads_pred P \<Longrightarrow> io_triple P (get_nad ns nm) (\<lambda>_. P) P"
  unfolding get_nad_def by (rule nads_call_any) simp_all

lemma clear_annotation_triple: "nads_pred P \<Longrightarrow> io_triple P (clear_annotation inst) (\<lambda>_. P) P"
  unfolding clear_annotation_def by (rule io_triple_map_err[OF AnnotateNetwork_triple])

text \<open>
  The steps after rendering, with what creating, updating and deleting an attachment keeps left open.
\<close>

lemma create_attachment_triple:
  assumes "nads_pred P" and "io_triple P (create_nad nad) (\<lambda>_. P) P"
  shows "io_triple P (create_attachment env inst nad) (\<lambda>_. P) P"
  unfolding create_attachment_def
  by (rule io_triple_handle[OF assms(2)], rule report_then_fail[OF assms(1)],
      rule io_triple_bind[OF io_triple_map_err[OF AnnotateNetwork_triple[OF assms(1)]] report_triple[OF assms(1)]])

lemma provision_missing_triple:
  assumes "nads_pred P" and "io_triple P (create_nad nad) (\<lambda>_. P) P"
  shows "io_triple P (provision_missing env inst nad) (\<lambda>_. P) P"
  unfolding provision_missing_def
  by (rule io_triple_handle[OF get_namespace_triple[OF assms(1)]])
     (auto intro: report_triple[OF assms(1)] create_attachment_triple[OF assms])

lemma update_attachment_triple:
  assumes "nads_pred P"
    and "annotation found OwnerRefAnnotation = [] \<or>
      annotation found OwnerRefAnnotation = annotation nad OwnerRefAnnotation \<longrightarrow> io_triple P (update_nad nad) (\<lambda>_. P) P"
  shows "io_triple P (update_attachment env inst nad found) (\<lambda>_. P) P"
  unfolding update_attachment_def Let_def
  using assms(2) by (auto intro!: report_triple[OF assms(1)] io_triple_handle report_then_fail[OF assms(1)])

lemma remove_stale_triple:
  assumes "nads_pred P"
    and "\<And>l. om_Annotations (net_Meta inst) LASTNETWORKNAMESPACE = Some l \<Longrightarrow> nad_Namespace nad \<noteq> l \<Longrightarrow>
      io_triple P (delete_nad l (net_Name inst)) (\<lambda>_. P) P"
  shows "io_triple P (remove_stale inst nad) (\<lambda>_. P) P"
proof (cases "om_Annotations (net_Meta inst) LASTNETWORKNAMESPACE")
  case None
  then show ?thesis by (simp add: remove_stale_def io_triple_return)
next
  case (Some l)
  note c = clear_annotation_triple[OF assms(1), of inst]
  have "io_triple P (io_handle (delete_nad l (net_Name inst))
      (\<lambda>e. if e \<noteq> NotFound then io_fail (NetApi e) else clear_annotation inst) (\<lambda>_. clear_annotation inst)) (\<lambda>_. P) P"
    if "nad_Namespace nad \<noteq> l"
    by (rule io_triple_handle[OF assms(2)[OF Some that]]) (auto intro: io_triple_fail c)
  then show ?thesis by (simp add: remove_stale_def Some io_triple_return)
qed

lemma provision_triple:
  assumes "nads_pred P"
    and "\<And>raw nad. render_object env inst = Inr raw \<Longrightarrow> prepare_attachment env raw = Inr nad \<Longrightarrow>
      io_triple P (remove_stale inst nad) (\<lambda>_. P) P \<and>
      (\<forall>i. io_triple P (store_attachment env i (own_attachment i nad)) (\<lambda>_. P) P)"
  shows "io_triple P (provision env inst) (\<lambda>_. P) P"
proof (cases "render_object env inst")
  case (Inl e)
  then show ?thesis unfolding provision_def by (simp add: report_then_fail[OF assms(1)])
next
  case (Inr raw)
  have "io_triple P (io_bind (io_lift (prepare_attachment env raw)) (\<lambda>nad. io_bind (remove_stale inst nad)
      (\<lambda>i. store_attachment env i (own_attachment i nad)))) (\<lambda>_. P) P"
  proof (cases "prepare_attachment env raw")
    case (Inl e)
    then show ?thesis by (simp add: io_triple_def io_bind_def io_lift_def)
  next
    case (Inr nad)
    note t = assms(2)[OF \<open>render_object env inst = Inr raw\<close> Inr]
    have "io_triple P (io_bind (remove_stale inst nad) (\<lambda>i. store_attachment env i (own_attachment i nad))) (\<lambda>_. P) P"
      by (rule io_triple_bind[of _ _ "\<lambda>_. P"]) (use t in auto)
    then show ?thesis by (simp add: io_triple_def io_bind_def io_lift_def Inr)
  qed
  then show ?thesis unfolding provision_def by (simp add: Inr)
qed

lemma store_attachment_off:
  assumes "nad_key nad \<in> K"
  shows "io_triple (nads_off K N) (store_attachment env inst nad) (\<lambda>_. nads_off K N) (nads_off K N)"
  unfolding store_attachment_def
  by (rule io_triple_handle[OF get_nad_triple[OF nads_off_pred]])
     (auto intro!: provision_missing_triple update_attachment_triple report_then_fail
       simp: create_nad_off[OF assms] update_nad_off[OF assms])

text \<open>The keys a reconciliation of a network may touch.\<close>

definition touched :: "NetworkCR \<Rightarrow> (string \<times> string) set" where
  "touched cr = {(target_namespace cr, net_Name cr)} \<union>
     (\<lambda>l. (l, net_Name cr)) ` set_option (om_Annotations (net_Meta cr) LASTNETWORKNAMESPACE)"

lemma provision_off:
  assumes "decoder_ok env" and "touched inst \<subseteq> K"
  shows "io_triple (nads_off K N) (provision env inst) (\<lambda>_. nads_off K N) (nads_off K N)"
proof (rule provision_triple)
  fix raw nad assume r: "render_object env inst = Inr raw" "prepare_attachment env raw = Inr nad"
  have k: "nad_key nad \<in> K" using prepared_key(1)[OF assms(1) r] assms(2) by (auto simp: touched_def)
  have "io_triple (nads_off K N) (remove_stale inst nad) (\<lambda>_. nads_off K N) (nads_off K N)"
    by (rule remove_stale_triple) (use assms(2) in \<open>auto intro!: delete_nad_off simp: touched_def\<close>)
  then show "io_triple (nads_off K N) (remove_stale inst nad) (\<lambda>_. nads_off K N) (nads_off K N) \<and>
      (\<forall>i. io_triple (nads_off K N) (store_attachment env i (own_attachment i nad)) (\<lambda>_. nads_off K N) (nads_off K N))"
    using k by (auto intro!: store_attachment_off)
qed simp

lemma cleanResources_off:
  assumes "touched inst \<subseteq> K"
  shows "io_triple (nads_off K N) (cleanResourcesAndFinalizers inst) (\<lambda>_. nads_off K N) (nads_off K N)"
proof -
  have "io_triple (nads_off K N) (deleteNetAttDef inst) (\<lambda>_. nads_off K N) (nads_off K N)"
    unfolding deleteNetAttDef_def Let_def
    by (rule io_triple_handle[OF delete_nad_off])
       (use assms in \<open>auto simp: touched_def target_namespace_def intro: io_triple_fail io_triple_return\<close>)
  moreover have "io_triple (nads_off K N) (io_handle (update_network obj)
      (\<lambda>e. if e = NotFound then io_return () else io_fail (NetApi e)) (\<lambda>_. io_return ()))
      (\<lambda>_. nads_off K N) (nads_off K N)" for obj
    by (rule io_triple_handle[OF update_network_triple[OF nads_off_pred]]) (auto intro: io_triple_fail io_triple_return)
  ultimately show ?thesis unfolding cleanResourcesAndFinalizers_def
    by (auto intro!: io_triple_bind io_triple_return split: prod.splits)
qed

section \<open>Reconciliation\<close>

lemma get_stored_network:
  assumes "nads_pred P"
  shows "io_triple (\<lambda>c. P c \<and> find_network c req = Some cr) (get_network req) (\<lambda>i c. i = cr \<and> P c) P"
proof -
  have "fault_blind (\<lambda>c. P c \<and> find_network c req = Some cr)"
    using nads_pred_blind[OF assms] by (simp add: fault_blind_def find_network_def)
  then show ?thesis unfolding get_network_def
    by (rule io_triple_api_call) (auto intro: io_tripleI split: option.splits)
qed

lemma Reconcile_network_triple:
  assumes "nads_pred P"
    and "\<And>i. \<not> net_Deleting cr \<Longrightarrow> NetworkNamespace cr = [] \<or> net_Namespace cr = ne_Namespace env \<Longrightarrow>
      same_network i cr \<Longrightarrow> io_triple P (provision env i) (\<lambda>_. P) P"
    and "net_Deleting cr \<Longrightarrow> NetworkNamespace cr = [] \<or> net_Namespace cr = ne_Namespace env \<Longrightarrow>
      io_triple P (cleanResourcesAndFinalizers cr) (\<lambda>_. P) P"
  shows "io_triple (\<lambda>c. P c \<and> find_network c req = Some cr) (Reconcile_network env req) (\<lambda>_. P) P"
  unfolding Reconcile_network_def
proof (rule io_triple_handle[OF get_stored_network[OF assms(1)]])
  show "io_triple P (if e = NotFound then io_return () else io_fail (NetApi e)) (\<lambda>_. P) P" for e
    by (auto intro: io_triple_return io_triple_fail)
next
  fix i
  let ?m = "if NetworkNamespace i \<noteq> [] \<and> net_Namespace i \<noteq> ne_Namespace env
     then report i ConditionFalse ''NetworkAttachmentDefinitionInvalid''
            (''spec.networkNamespace cannot be set when the resource is not in the operator namespace ('' @
             ne_Namespace env @ '')'')
     else if \<not> net_Deleting i then io_bind (updateFinalizers env i) (provision env)
     else cleanResourcesAndFinalizers i"
  show "io_triple (\<lambda>c. i = cr \<and> P c) ?m (\<lambda>_. P) P"
  proof (rule io_triple_pre[where b = "i = cr" and P' = P])
    assume i: "i = cr"
    have p: "io_triple P (io_bind (updateFinalizers env cr) (provision env)) (\<lambda>_. P) P"
      if "\<not> net_Deleting cr" "NetworkNamespace cr = [] \<or> net_Namespace cr = ne_Namespace env"
      by (rule io_triple_bind[OF updateFinalizers_triple[OF assms(1)]], rule io_triple_pre, assumption)
         (rule assms(2)[OF that])
    show "io_triple P ?m (\<lambda>_. P) P"
      unfolding i using report_triple[OF assms(1)] p assms(3) by (auto simp del: not_Cons_self)
  qed simp
qed

lemma Reconcile_network_run:
  assumes "io_triple (\<lambda>c. P c \<and> find_network c req = Some cr) (Reconcile_network env req) (\<lambda>_. P) P"
    and "P c" and "find_network c req = Some cr"
  shows "P (snd (Reconcile_network env req c))"
  using io_tripleD[OF assms(1), of c] assms(2,3)
  by (cases "Reconcile_network env req c") (auto split: sum.splits)

lemma find_network_key: "find_network c req = Some cr \<Longrightarrow> net_key cr = req"
  by (auto simp: find_network_def find_Some_iff)

lemma same_network_simps:
  assumes "same_network i cr"
  shows "touched i = touched cr" "OwnerRefToString (Some i) = OwnerRefToString (Some cr)"
    "target_namespace i = target_namespace cr" "net_Meta i = net_Meta cr"
  using assms by (auto simp: same_network_def touched_def target_namespace_def NetworkNamespace_def OwnerRefToString_def)

text \<open>
  C29: whatever calls fail, a reconciliation of a network changes at most the attachment with the
  network's name in its target namespace and the one in the namespace recorded in its annotation. A network
  outside the operator's namespace that names a target namespace changes none at all.
\<close>

theorem network_touches_own_attachments:
  assumes "decoder_ok env" and "find_network c req = Some cr"
  shows "(\<forall>k. k \<in> touched cr \<or> cl_Nads (snd (Reconcile_network env req c)) k = cl_Nads c k) \<and>
    ((NetworkNamespace cr = [] \<or> net_Namespace cr = ne_Namespace env) \<or>
      cl_Nads (snd (Reconcile_network env req c)) = cl_Nads c)"
proof -
  have a: "nads_off (touched cr) (cl_Nads c) (snd (Reconcile_network env req c))"
  proof (rule Reconcile_network_run[OF Reconcile_network_triple])
    fix i assume "same_network i cr"
    then show "io_triple (nads_off (touched cr) (cl_Nads c)) (provision env i)
        (\<lambda>_. nads_off (touched cr) (cl_Nads c)) (nads_off (touched cr) (cl_Nads c))"
      by (intro provision_off[OF assms(1)]) (simp add: same_network_simps)
  next
    show "io_triple (nads_off (touched cr) (cl_Nads c)) (cleanResourcesAndFinalizers cr)
        (\<lambda>_. nads_off (touched cr) (cl_Nads c)) (nads_off (touched cr) (cl_Nads c))"
      by (intro cleanResources_off) simp
  qed (simp_all add: assms)
  have b: "nads_off {} (cl_Nads c) (snd (Reconcile_network env req c))"
    if "\<not> (NetworkNamespace cr = [] \<or> net_Namespace cr = ne_Namespace env)"
    by (rule Reconcile_network_run[OF Reconcile_network_triple]) (use that assms in auto)
  show ?thesis using a b unfolding nads_off_def by (auto intro: ext)
qed

section \<open>Attachments of other owners\<close>

abbreviation holds_nad :: "string \<times> string \<Rightarrow> NetAttDef \<Rightarrow> cluster \<Rightarrow> bool" where
  "holds_nad k d \<equiv> (\<lambda>c. cl_Nads c k = Some d)"

lemma holds_nad_pred [simp]: "nads_pred (holds_nad k d)"
  by (simp add: nads_pred_def)

lemma create_nad_holds: "io_triple (holds_nad k d) (create_nad nad) (\<lambda>_. holds_nad k d) (holds_nad k d)"
  unfolding create_nad_def by (rule nads_step) (auto split: option.splits)

lemma update_nad_holds:
  "k \<noteq> nad_key nad \<Longrightarrow> io_triple (holds_nad k d) (update_nad nad) (\<lambda>_. holds_nad k d) (holds_nad k d)"
  unfolding update_nad_def by (rule nads_step) (auto simp: nad_key_def split: option.splits)

lemma delete_nad_holds:
  assumes "k \<noteq> (ns, nm)"
  shows "io_triple (holds_nad k d) (delete_nad ns nm) (\<lambda>_. holds_nad k d) (holds_nad k d)"
proof (cases "ns = []")
  case True
  then show ?thesis by (simp add: delete_nad_def io_triple_fail)
next
  case False
  then show ?thesis unfolding delete_nad_def if_not_P[OF False]
    by (intro nads_step) (use assms in \<open>auto split: option.splits\<close>)
qed

lemma get_nad_holds:
  "io_triple (holds_nad k d) (get_nad ns nm) (\<lambda>found c. (k = (ns, nm) \<longrightarrow> found = d) \<and> holds_nad k d c) (holds_nad k d)"
  unfolding get_nad_def
  by (rule io_triple_api_call[OF nads_pred_blind[OF holds_nad_pred]]) (auto intro: io_tripleI split: option.splits)

lemma store_attachment_holds:
  assumes "annotation d OwnerRefAnnotation \<noteq> []" and "annotation d OwnerRefAnnotation \<noteq> annotation nad OwnerRefAnnotation"
  shows "io_triple (holds_nad k d) (store_attachment env inst nad) (\<lambda>_. holds_nad k d) (holds_nad k d)"
  unfolding store_attachment_def
proof (rule io_triple_handle[OF get_nad_holds])
  show "io_triple (holds_nad k d) (if e = NotFound then provision_missing env inst nad
      else io_bind (io_ignore (report inst ConditionFalse ''NetworkAttachmentDefinitionNotFound''
             (ne_ErrorText env (NetApi e)))) (\<lambda>_. io_fail (NetApi e))) (\<lambda>_. holds_nad k d) (holds_nad k d)" for e
    by (auto intro!: provision_missing_triple report_then_fail create_nad_holds)
next
  fix found
  show "io_triple (\<lambda>c. (k = (nad_Namespace nad, nad_Name nad) \<longrightarrow> found = d) \<and> holds_nad k d c)
      (update_attachment env inst nad found) (\<lambda>_. holds_nad k d) (holds_nad k d)"
  proof (rule io_triple_pre[where b = "k = (nad_Namespace nad, nad_Name nad) \<longrightarrow> found = d"])
    assume f: "k = (nad_Namespace nad, nad_Name nad) \<longrightarrow> found = d"
    then have "k \<noteq> nad_key nad" if "annotation found OwnerRefAnnotation = [] \<or>
        annotation found OwnerRefAnnotation = annotation nad OwnerRefAnnotation"
      using assms that by (auto simp: nad_key_def)
    then show "io_triple (holds_nad k d) (update_attachment env inst nad found) (\<lambda>_. holds_nad k d) (holds_nad k d)"
      by (auto intro!: update_attachment_triple update_nad_holds)
  qed simp
qed

text \<open>
  C27: an attachment that carries the owner annotation of another resource is left exactly as it is by the
  reconciliation of a network that is not under deletion, whatever calls fail: it is neither overwritten nor deleted, even
  when it has the network's name and is in its target namespace. The one exception is an attachment with the network's name in
  a namespace that the network has recorded and that is not its target namespace: the code deletes it without looking at its owner.
\<close>

theorem foreign_attachment_kept:
  assumes "decoder_ok env" and "find_network c req = Some cr" and "\<not> net_Deleting cr"
    and "cl_Nads c k = Some d" and "\<forall>l\<in>set_option (om_Annotations (net_Meta cr) LASTNETWORKNAMESPACE). l = target_namespace cr \<or> k \<noteq> (l, net_Name cr)"
    and "annotation d OwnerRefAnnotation \<noteq> []" and "annotation d OwnerRefAnnotation \<noteq> OwnerRefToString (Some cr)"
  shows "cl_Nads (snd (Reconcile_network env req c)) k = Some d"
proof (rule Reconcile_network_run[OF Reconcile_network_triple, where P = "holds_nad k d"])
  fix i assume i: "same_network i cr"
  note s = same_network_simps[OF i]
  show "io_triple (holds_nad k d) (provision env i) (\<lambda>_. holds_nad k d) (holds_nad k d)"
  proof (rule provision_triple)
    fix raw nad assume r: "render_object env i = Inr raw" "prepare_attachment env raw = Inr nad"
    note p = prepared_key[OF assms(1) r, unfolded s]
    have "io_triple (holds_nad k d) (remove_stale i nad) (\<lambda>_. holds_nad k d) (holds_nad k d)"
      by (rule remove_stale_triple) (use p assms(5) s in \<open>auto simp: nad_key_def intro!: delete_nad_holds\<close>)
    moreover have "io_triple (holds_nad k d) (store_attachment env j (own_attachment j nad))
        (\<lambda>_. holds_nad k d) (holds_nad k d)" for j
      by (rule store_attachment_holds) (use assms(6,7) p in simp_all)
    ultimately show "io_triple (holds_nad k d) (remove_stale i nad) (\<lambda>_. holds_nad k d) (holds_nad k d) \<and>
        (\<forall>j. io_triple (holds_nad k d) (store_attachment env j (own_attachment j nad)) (\<lambda>_. holds_nad k d) (holds_nad k d))"
      by blast
  qed simp
qed (use assms in simp_all)

section \<open>Deletion\<close>

lemma find_network_faults [simp]: "find_network (c\<lparr>cl_Faults := fs\<rparr>) k = find_network c k"
  by (simp add: find_network_def)

lemma find_network_nads [simp]: "find_network (c\<lparr>cl_Nads := m\<rparr>) k = find_network c k"
  by (simp add: find_network_def)

lemma find_map_replace:
  "find P xs = Some y \<Longrightarrow> P z \<Longrightarrow> find P (map (\<lambda>x. if P x then z else x) xs) = Some z"
  by (induction xs) (auto split: if_splits)

lemma find_set_network:
  "find_network c (net_key n) = Some m \<Longrightarrow> find_network (set_network n c) (net_key n) = Some n"
  unfolding find_network_def set_network_def by (simp add: find_map_replace)

lemma find_drop_network: "find_network (drop_network k c) k = None"
  by (simp add: find_network_def drop_network_def find_None_iff)

lemma get_network_result:
  assumes "get_network k c = (r, c')" and "find_network c k = Some n"
  obtains fs where "c' = c\<lparr>cl_Faults := fs\<rparr>" "r = Inr n \<or> r = Inl ApiError"
  using assms(1) unfolding get_network_def
  by (cases rule: api_call_cases) (use assms(2) that in \<open>auto\<close>)

lemma deleteNetAttDef_result:
  assumes "deleteNetAttDef cr c = (r, c')"
  shows "(\<exists>fs. c' = c\<lparr>cl_Faults := fs\<rparr> \<and> (\<exists>e. r = Inl e)) \<or>
    (\<exists>fs. r = Inr () \<and> c' = c\<lparr>cl_Faults := fs, cl_Nads := (cl_Nads c)((target_namespace cr, net_Name cr) := None)\<rparr>)"
proof (cases "target_namespace cr = []")
  case True
  have "c\<lparr>cl_Faults := cl_Faults c\<rparr> = c" by simp
  then show ?thesis using assms True
    by (auto simp: deleteNetAttDef_def Let_def target_namespace_def[symmetric] delete_nad_def io_handle_def io_fail_def
        intro!: exI[of _ "cl_Faults c"])
next
  case False
  obtain r0 c0 where d: "delete_nad (target_namespace cr) (net_Name cr) c = (r0, c0)" by fastforce
  have r: "(r, c') = (case r0 of Inl e \<Rightarrow> (if e = NotFound then Inr () else Inl (NetApi e), c0) | Inr _ \<Rightarrow> (Inr (), c0))"
    using assms d by (auto simp: deleteNetAttDef_def Let_def target_namespace_def[symmetric] io_handle_def io_fail_def
        io_return_def split: sum.splits)
  show ?thesis using d unfolding delete_nad_def if_not_P[OF False]
  proof (cases rule: api_call_cases)
    case (run fs)
    have "(cl_Nads c)((target_namespace cr, net_Name cr) := None) = cl_Nads c"
      if "cl_Nads c (target_namespace cr, net_Name cr) = None"
      using that by (simp add: fun_upd_idem)
    then have "c\<lparr>cl_Faults := fs\<rparr> = c\<lparr>cl_Faults := fs, cl_Nads := (cl_Nads c)((target_namespace cr, net_Name cr) := None)\<rparr>"
      if "cl_Nads c (target_namespace cr, net_Name cr) = None"
      using that by (cases c) simp
    then show ?thesis using run r by (auto split: option.splits)
  qed (use r in auto)
qed

text \<open>The network has lost the finalizer, or is gone.\<close>

definition released :: "net_key \<Rightarrow> cluster \<Rightarrow> bool" where
  "released req c \<longleftrightarrow> (case find_network c req of None \<Rightarrow> True | Some n \<Rightarrow> NETATTDEFFINALIZERNAME \<notin> set (net_Finalizers n))"

lemma update_network_result:
  assumes "update_network obj c = (r, c')" and "find_network c (net_key obj) = Some n"
    and "NETATTDEFFINALIZERNAME \<notin> set (net_Finalizers obj)"
  shows "(\<exists>fs. c' = c\<lparr>cl_Faults := fs\<rparr> \<and> r = Inl ApiError) \<or>
    ((\<exists>x. r = Inr x) \<and> released (net_key obj) c' \<and> cl_Nads c' = cl_Nads c)"
  using assms(1) unfolding update_network_def
proof (cases rule: api_call_cases)
  case (run fs)
  let ?new = "obj\<lparr>net_Deleting := net_Deleting n, net_Conditions := net_Conditions n\<rparr>"
  have k: "net_key ?new = net_key obj" by (simp add: net_key_def net_kind_def)
  have "find_network (set_network ?new (c\<lparr>cl_Faults := fs\<rparr>)) (net_key obj) = Some ?new"
    using find_set_network[of "c\<lparr>cl_Faults := fs\<rparr>" ?new n] assms(2) k by simp
  moreover have "find_network (drop_network (net_key obj) (c\<lparr>cl_Faults := fs\<rparr>)) (net_key obj) = None"
    by (rule find_drop_network)
  ultimately show ?thesis using run assms(2,3) by (auto simp: Let_def released_def split: if_splits)
qed auto

text \<open>
  C28: when a network under deletion loses its finalizer, its attachment is gone: whatever calls fail,
  either the network keeps the finalizer, so that the deletion is attempted again, or the attachment in its
  target namespace does not exist. A reconciliation that succeeds releases the network.
\<close>

theorem finalizer_after_attachment:
  assumes "find_network c req = Some cr" and "net_Deleting cr"
    and "NETATTDEFFINALIZERNAME \<in> set (net_Finalizers cr)"
    and "NetworkNamespace cr = [] \<or> net_Namespace cr = ne_Namespace env"
    and "Reconcile_network env req c = (r, c')"
  shows "(released req c' \<longrightarrow> cl_Nads c' (target_namespace cr, net_Name cr) = None) \<and>
    (r = Inr () \<longrightarrow> released req c')"
proof -
  let ?k = "(target_namespace cr, net_Name cr)"
  have k: "net_key cr = req" using find_network_key[OF assms(1)] .
  have kept: "\<not> released req d" if "find_network d req = Some cr" for d using that assms(3) by (simp add: released_def)
  obtain r0 c0 where g: "get_network req c = (r0, c0)" by fastforce
  then obtain fs where c0: "c0 = c\<lparr>cl_Faults := fs\<rparr>" and r0: "r0 = Inr cr \<or> r0 = Inl ApiError"
    using get_network_result assms(1) by metis
  let ?u = "update_network (cr\<lparr>net_Finalizers := filter (\<lambda>x. x \<noteq> NETATTDEFFINALIZERNAME) (net_Finalizers cr)\<rparr>)"
  have ku: "net_key (cr\<lparr>net_Finalizers := fz\<rparr>) = req" for fz using k by (simp add: net_key_def net_kind_def)
  show ?thesis
  proof (cases "r0 = Inr cr")
    case False
    then have "(r, c') = (Inl (NetApi ApiError), c0)"
      using assms(5) g r0 by (auto simp: Reconcile_network_def io_handle_def io_fail_def)
    then show ?thesis using kept[of c'] c0 assms(1) by simp
  next
    case True
    have run: "(r, c') = cleanResourcesAndFinalizers cr c0"
      using assms(2,4,5) g True by (auto simp: Reconcile_network_def io_handle_def)
    obtain r1 c1 where d: "deleteNetAttDef cr c0 = (r1, c1)" by fastforce
    have fin: "list_ex (\<lambda>i. i = NETATTDEFFINALIZERNAME) (net_Finalizers cr)" using assms(3) by (auto simp: list_ex_iff)
    show ?thesis
    proof (cases r1)
      case (Inl e)
      then have "(r, c') = (Inl e, c1)" using run d assms(3) by (simp add: cleanResourcesAndFinalizers_def io_bind_def)
      moreover have "find_network c1 req = Some cr"
        using deleteNetAttDef_result[OF d] Inl c0 assms(1) by auto
      ultimately show ?thesis using kept by auto
    next
      case (Inr u)
      obtain r2 c2 where u: "?u c1 = (r2, c2)" by fastforce
      have c1: "find_network c1 req = Some cr" "cl_Nads c1 ?k = None"
        using deleteNetAttDef_result[OF d] Inr c0 assms(1) by auto
      have res: "(r, c') = (case r2 of Inl e \<Rightarrow> (if e = NotFound then Inr () else Inl (NetApi e), c2) | Inr _ \<Rightarrow> (Inr (), c2))"
        using run d u Inr assms(3) fin by (auto simp: cleanResourcesAndFinalizers_def io_bind_def RemoveString_def
            io_handle_def io_fail_def io_return_def split: sum.splits)
      show ?thesis
        using update_network_result[OF u, unfolded ku, OF c1(1)] res c1 kept by (auto split: sum.splits if_splits)
    qed
  qed
qed

section \<open>Witnesses\<close>

abbreviation sample_req :: net_key where "sample_req \<equiv> (KindSriovNetwork, ''sriov'', ''net'')"

lemma sample_decoder_ok: "decoder_ok sample_net_env"
  by (simp add: decoder_ok_def sample_net_env_def annotation_def)

lemma sample_find:
  "find_network (sample_net_cluster (sample_network ''sriov'' t l b) nads nss fs) sample_req = Some (sample_network ''sriov'' t l b)"
  by (simp add: find_network_def sample_net_cluster_def sample_network_def net_key_def net_kind_def sample_meta_def)

theorem network_touches_own_attachments_witness:
  "cl_Nads (snd (Reconcile_network sample_net_env sample_req
     (sample_net_cluster (sample_network ''sriov'' ''app'' None False) [sample_nad ''other'' ''x''] [''app''] [False, False, True])))
     (''other'', ''net'') = Some (sample_nad ''other'' ''x'')"
proof -
  let ?n = "sample_network ''sriov'' ''app'' None False"
  let ?c = "sample_net_cluster ?n [sample_nad ''other'' ''x''] [''app''] [False, False, True]"
  have t: "touched ?n = {(''app'', ''net'')}"
    by (simp add: touched_def sample_network_def target_namespace_def NetworkNamespace_def sample_meta_def)
  have "cl_Nads ?c (''other'', ''net'') = Some (sample_nad ''other'' ''x'')"
    by (simp add: sample_net_cluster_def sample_nad_def)
  moreover have "cl_Nads (snd (Reconcile_network sample_net_env sample_req ?c)) (''other'', ''net'') = cl_Nads ?c (''other'', ''net'')"
  proof -
    have "(''other'', ''net'') \<notin> touched ?n" unfolding t by simp
    then show ?thesis
      using conjunct1[OF network_touches_own_attachments[OF sample_decoder_ok sample_find[of "''app''" None False
            "[sample_nad ''other'' ''x'']" "[''app'']" "[False, False, True]"]]] by blast
  qed
  ultimately show ?thesis by simp
qed

theorem foreign_attachment_kept_witness:
  "cl_Nads (snd (Reconcile_network sample_net_env sample_req
     (sample_net_cluster (sample_network ''sriov'' ''app'' (Some ''old'') False) [sample_nad ''app'' ''other''] [''app''] [])))
     (''app'', ''net'') = Some (sample_nad ''app'' ''other'')"
  by (rule foreign_attachment_kept[OF sample_decoder_ok sample_find[of "''app''" "Some ''old''" False]])
     (simp_all add: sample_network_def sample_net_cluster_def sample_nad_def annotation_def OwnerRefToString_def group_kind_def)

theorem finalizer_after_attachment_witness:
  "cl_Nads (snd (Reconcile_network sample_net_env sample_req
     (sample_net_cluster (sample_network ''sriov'' ''app'' None True) [sample_nad ''app'' []] [''app''] []))) (''app'', ''net'') = None"
proof -
  let ?c = "sample_net_cluster (sample_network ''sriov'' ''app'' None True) [sample_nad ''app'' []] [''app''] []"
  obtain r c' where run: "Reconcile_network sample_net_env sample_req ?c = (r, c')" by fastforce
  have "fst (Reconcile_network sample_net_env sample_req ?c) = Inr ()" by code_simp
  then have r: "r = Inr ()" by (simp add: run)
  have "(released sample_req c' \<longrightarrow> cl_Nads c' (target_namespace (sample_network ''sriov'' ''app'' None True),
      net_Name (sample_network ''sriov'' ''app'' None True)) = None) \<and> (r = Inr () \<longrightarrow> released sample_req c')"
    by (rule finalizer_after_attachment[OF sample_find _ _ _ run]) (simp_all add: sample_network_def sample_net_env_def NetworkNamespace_def)
  then show ?thesis
    using r run by (simp add: sample_network_def target_namespace_def NetworkNamespace_def sample_meta_def)
qed

end
