(* ===== verification/Network_Progress.thy ===== *)
theory Network_Progress
  imports Network_Safety
begin

text \<open>
  The reconciliation of a network when no call fails: the attachment is provisioned and a second
  reconciliation changes nothing; and two behaviours of the recorded namespace, which can block a network
  for ever and can remove an attachment of another namespace.
\<close>

section \<open>Runs without failing calls\<close>

lemmas net_run = io_bind_def io_handle_def io_map_err_def io_return_def io_fail_def io_lift_def

text \<open>Two clusters that differ in the stored networks and attachments only.\<close>

definition quiet :: "cluster \<Rightarrow> cluster \<Rightarrow> bool" where
  "quiet c c' \<longleftrightarrow> cl_Faults c' = [] \<and> cl_Namespaces c' = cl_Namespaces c"

lemma set_network_simps [simp]:
  "cl_Faults (set_network n c) = cl_Faults c" "cl_Namespaces (set_network n c) = cl_Namespaces c"
  by (simp_all add: set_network_def)

lemma net_key_simps [simp]:
  "net_key (n\<lparr>net_Conditions := cs\<rparr>) = net_key n" "net_key (n\<lparr>net_Finalizers := fz\<rparr>) = net_key n"
  "net_key (n\<lparr>net_Deleting := b\<rparr>) = net_key n" "net_key (annotate_network k v n) = net_key n"
  by (simp_all add: net_key_def net_kind_def annotate_network_def set_annotation_def)

lemma find_distinct_type:
  "distinct (map cond_Type cs) \<Longrightarrow> d \<in> set cs \<Longrightarrow> FindStatusCondition cs (cond_Type d) = Some d"
  unfolding FindStatusCondition_def by (induction cs) (auto simp: image_iff split: if_splits)

lemma distinct_merge_entry:
  assumes "distinct (map cond_Type cs)"
  shows "distinct (map cond_Type (merge_entry c cs))"
proof (cases "find_index (\<lambda>d. cond_Type d = cond_Type c) cs")
  case None
  then have "cond_Type c \<notin> cond_Type ` set cs" by (auto simp: find_index_None)
  then show ?thesis using None assms by (simp add: merge_entry_def)
next
  case (Some i)
  then have "i < length cs" "cond_Type (cs ! i) = cond_Type c" using find_index_Some by fastforce+
  then have "map cond_Type (cs[i := c]) = map cond_Type cs" by (simp add: map_update list_update_same_conv)
  then show ?thesis using Some assms by (simp add: merge_entry_def)
qed

text \<open>A reported condition is stored, whether or not a call was needed.\<close>

lemma report_runs:
  assumes "cl_Faults c = []" and "find_network c req = Some obj"
  shows "\<exists>cs c'. report obj st reason message c = (Inr (), c') \<and> quiet c c' \<and> cl_Nads c' = cl_Nads c \<and>
    find_network c' req = Some (obj\<lparr>net_Conditions := cs\<rparr>) \<and>
    (distinct (map cond_Type (net_Conditions obj)) \<longrightarrow>
       distinct (map cond_Type cs) \<and> IsStatusConditionTrue cs ConditionReady = (st = ConditionTrue))"
proof -
  let ?new = "NewCondition (cl_Clock c) ConditionReady st reason message (om_Generation (net_Meta obj))"
  let ?old = "net_Conditions obj"
  have k: "net_key obj = req" using find_network_key[OF assms(2)] .
  have t: "cond_Type ?new = ConditionReady" "cond_Status ?new = st" by (simp_all add: NewCondition_def)
  show ?thesis
  proof (cases "ApplyCondition ?old [?new]")
    case None
    then have "DetectTransitions ?old [preserve_time ?old ?new] = []"
      by (auto simp: ApplyCondition_def Let_def split: if_splits)
    then have "\<exists>d\<in>set ?old. cond_content d = cond_content ?new" if "distinct (map cond_Type ?old)"
      using DetectTransitions_Nil[OF that, of "[preserve_time ?old ?new]"] by simp
    then have "IsStatusConditionTrue ?old ConditionReady = (st = ConditionTrue)" if "distinct (map cond_Type ?old)"
      using that find_distinct_type t by (fastforce simp: IsStatusConditionTrue_def cond_content_def)
    then show ?thesis
      using None assms by (intro exI[of _ ?old] exI[of _ c]) (auto simp: report_def quiet_def)
  next
    case (Some p)
    then obtain ts where a: "ApplyCondition ?old [?new] = Some ([preserve_time ?old ?new], ts)"
      by (auto simp: ApplyCondition_def Let_def split: if_splits)
    let ?cs = "merge_entry (preserve_time ?old ?new) ?old"
    let ?n = "obj\<lparr>net_Conditions := ?cs\<rparr>"
    have "FindStatusCondition ?cs ConditionReady = Some (preserve_time ?old ?new)"
      using merge_entry_find_same[of "preserve_time ?old ?new" ?old] t by simp
    moreover have "cond_Status (preserve_time ?old ?new) = st"
      using cond_content_preserve_time[of ?old ?new] t by (simp add: cond_content_def)
    ultimately have "IsStatusConditionTrue ?cs ConditionReady = (st = ConditionTrue)"
      by (simp add: IsStatusConditionTrue_def)
    moreover have "report obj st reason message c = (Inr (), set_network ?n c)"
      using assms k a by (simp add: report_def apply_network_conditions_def io_map_err_def)
    moreover have "find_network (set_network ?n c) req = Some ?n"
      using find_set_network[of c ?n obj] assms(2) k by simp
    ultimately show ?thesis
      using assms(1) distinct_merge_entry by (intro exI[of _ ?cs] exI[of _ "set_network ?n c"]) (auto simp: quiet_def)
  qed
qed

lemma updateFinalizers_runs:
  assumes "cl_Faults c = []" and "find_network c req = Some cr"
  shows "\<exists>i c'. updateFinalizers env cr c = (Inr i, c') \<and> find_network c' req = Some i \<and> quiet c c' \<and>
    cl_Nads c' = cl_Nads c \<and> same_network i cr \<and> net_Conditions i = net_Conditions cr \<and>
    net_Deleting i = net_Deleting cr \<and>
    (net_Namespace cr = ne_Namespace env \<longrightarrow> NETATTDEFFINALIZERNAME \<in> set (net_Finalizers i))"
proof (cases "net_Namespace cr = ne_Namespace env \<and> NETATTDEFFINALIZERNAME \<notin> set (net_Finalizers cr)")
  case True
  let ?n = "cr\<lparr>net_Finalizers := net_Finalizers cr @ [NETATTDEFFINALIZERNAME]\<rparr>"
  have k: "net_key ?n = req" using find_network_key[OF assms(2)] by simp
  have "updateFinalizers env cr c = (Inr ?n, set_network ?n c)"
    using True assms k by (simp add: updateFinalizers_def update_network_def net_run Let_def)
  moreover have "find_network (set_network ?n c) req = Some ?n"
    using find_set_network[of c ?n cr] assms(2) k by simp
  ultimately show ?thesis using assms(1) by (auto simp: quiet_def same_network_def)
next
  case False
  then show ?thesis using assms
    by (intro exI[of _ cr] exI[of _ c]) (auto simp: updateFinalizers_def net_run quiet_def)
qed

lemma remove_stale_none:
  "set_option (om_Annotations (net_Meta inst) LASTNETWORKNAMESPACE) \<subseteq> {nad_Namespace nad} \<Longrightarrow>
    remove_stale inst nad = io_return inst"
  by (auto simp: remove_stale_def split: option.splits)

section \<open>Provisioning\<close>

text \<open>What rendering reads of a network.\<close>

definition same_id :: "NetworkCR \<Rightarrow> NetworkCR \<Rightarrow> bool" where
  "same_id a b \<longleftrightarrow> net_GVK a = net_GVK b \<and> net_Spec a = net_Spec b \<and> net_Name a = net_Name b \<and>
     net_Namespace a = net_Namespace b"

lemma same_id_render:
  assumes "same_id a b"
  shows "render_object env a = render_object env b" "own_attachment a = own_attachment b"
    "target_namespace a = target_namespace b" "NetworkNamespace a = NetworkNamespace b"
proof -
  have eqs: "net_GVK a = net_GVK b" "net_Spec a = net_Spec b" "net_Name a = net_Name b" "net_Namespace a = net_Namespace b"
    using assms by (simp_all add: same_id_def)
  show t: "target_namespace a = target_namespace b" and "NetworkNamespace a = NetworkNamespace b"
    by (simp_all add: target_namespace_def NetworkNamespace_def eqs)
  have "OwnerRefToString (Some a) = OwnerRefToString (Some b)" "resource_name a = resource_name b" "cni_config a = cni_config b"
    by (simp_all only: OwnerRefToString_def resource_name_def cni_config_def eqs option.case)
  then show "render_object env a = render_object env b" by (simp only: render_object_eq t eqs)
  show "own_attachment a = own_attachment b"
    by (rule ext) (simp only: own_attachment_def SetOwnerReference_def owner_reference_def eqs)
qed

lemma same_annotations_map: "same_annotations a b \<longleftrightarrow> map_of (nad_Annotations a) = map_of (nad_Annotations b)"
proof
  assume s: "same_annotations a b"
  show "map_of (nad_Annotations a) = map_of (nad_Annotations b)"
  proof
    fix k
    show "map_of (nad_Annotations a) k = map_of (nad_Annotations b) k"
      using s by (cases "k \<in> set (map fst (nad_Annotations a) @ map fst (nad_Annotations b))")
        (auto simp: same_annotations_def list_all_iff map_of_eq_None_iff[symmetric])
  qed
qed (simp add: same_annotations_def list_all_iff)

definition last_ok :: "NetworkCR \<Rightarrow> string \<Rightarrow> bool" where
  "last_ok n ns \<longleftrightarrow> set_option (om_Annotations (net_Meta n) LASTNETWORKNAMESPACE) \<subseteq> {ns}"

text \<open>The stored attachment when it needs no update.\<close>

definition settled :: "cluster \<Rightarrow> string \<times> string \<Rightarrow> NetAttDef \<Rightarrow> NetAttDef set" where
  "settled c k nad =
     {d \<in> set_option (cl_Nads c k). nad_Config d = nad_Config nad \<and> same_annotations d nad}"

text \<open>The result of a run: the attachment \<open>d\<close> is stored at \<open>k\<close> and the network is ready.\<close>

definition provisioned ::
    "cluster \<Rightarrow> net_key \<Rightarrow> NetworkCR \<Rightarrow> string \<times> string \<Rightarrow> NetAttDef \<Rightarrow> cluster \<Rightarrow> bool" where
  "provisioned c req i k nad c' \<longleftrightarrow>
     quiet c c' \<and>
     (\<exists>d. cl_Nads c' = (cl_Nads c)(k \<mapsto> d) \<and> nad_Config d = nad_Config nad \<and> same_annotations d nad \<and>
        settled c k nad \<subseteq> {d}) \<and>
     (\<exists>n. find_network c' req = Some n \<and> same_id n i \<and> net_Finalizers n = net_Finalizers i \<and>
        net_Deleting n = net_Deleting i \<and> (last_ok i (fst k) \<longrightarrow> last_ok n (fst k)) \<and>
        (distinct (map cond_Type (net_Conditions i)) \<longrightarrow>
           distinct (map cond_Type (net_Conditions n)) \<and> IsStatusConditionTrue (net_Conditions n) ConditionReady))"

lemma report_provisioned:
  assumes "cl_Faults c1 = []" and "find_network c1 req = Some obj" and "quiet c c1"
    and "cl_Nads c1 = (cl_Nads c)(k \<mapsto> d)" and "nad_Config d = nad_Config nad" and "same_annotations d nad"
    and "same_id obj i" and "net_Finalizers obj = net_Finalizers i" and "net_Deleting obj = net_Deleting i"
    and "net_Conditions obj = net_Conditions i" and "last_ok i (fst k) \<longrightarrow> last_ok obj (fst k)"
    and "settled c k nad \<subseteq> {d}"
  shows "\<exists>c'. report obj ConditionTrue reason message c1 = (Inr (), c') \<and> provisioned c req i k nad c'"
proof -
  obtain cs c' where r: "report obj ConditionTrue reason message c1 = (Inr (), c')" "quiet c1 c'"
      "cl_Nads c' = cl_Nads c1" "find_network c' req = Some (obj\<lparr>net_Conditions := cs\<rparr>)"
      "distinct (map cond_Type (net_Conditions obj)) \<longrightarrow>
       distinct (map cond_Type cs) \<and> IsStatusConditionTrue cs ConditionReady"
    using report_runs[OF assms(1,2), of ConditionTrue reason message] by auto
  have "quiet c c'" using assms(3) r(2) by (simp add: quiet_def)
  moreover have "same_id (obj\<lparr>net_Conditions := cs\<rparr>) i" using assms(7) by (simp add: same_id_def)
  moreover have "last_ok i (fst k) \<longrightarrow> last_ok (obj\<lparr>net_Conditions := cs\<rparr>) (fst k)" using assms(11) by (simp add: last_ok_def)
  ultimately have "provisioned c req i k nad c'"
    unfolding provisioned_def using r(3,4,5) assms(4,5,6,8,9,10,12) by auto
  then show ?thesis using r(1) by blast
qed

lemma create_runs:
  assumes "cl_Faults c = []" and "find_network c req = Some i" and "nad_Namespace nad \<in> set (cl_Namespaces c)"
    and "cl_Nads c (nad_key nad) = None"
  shows "\<exists>c'. provision_missing env i nad c = (Inr (), c') \<and> provisioned c req i (nad_key nad) nad c'"
proof -
  let ?c1 = "c\<lparr>cl_Nads := (cl_Nads c)(nad_key nad \<mapsto> nad)\<rparr>"
  have k: "net_key i = req" using find_network_key[OF assms(2)] .
  have created: "create_nad nad c = (Inr (), ?c1)" using assms by (simp add: create_nad_def nad_key_def)
  obtain j c2 where an: "AnnotateNetwork i LASTNETWORKNAMESPACE (nad_Namespace nad) ?c1 = (Inr j, c2)"
      "find_network c2 req = Some j" "quiet c c2" "cl_Nads c2 = cl_Nads ?c1" "same_id j i"
      "net_Finalizers j = net_Finalizers i" "net_Deleting j = net_Deleting i" "net_Conditions j = net_Conditions i"
      "last_ok i (nad_Namespace nad) \<longrightarrow> last_ok j (nad_Namespace nad)"
  proof (cases "(case om_Annotations (net_Meta i) LASTNETWORKNAMESPACE of None \<Rightarrow> [] | Some x \<Rightarrow> x) = nad_Namespace nad")
    case True
    then show ?thesis using that[of i ?c1] assms by (simp add: AnnotateNetwork_def io_return_def quiet_def same_id_def)
  next
    case False
    let ?j = "annotate_network LASTNETWORKNAMESPACE (nad_Namespace nad) i"
    have "AnnotateNetwork i LASTNETWORKNAMESPACE (nad_Namespace nad) ?c1 = (Inr ?j, set_network ?j ?c1)"
      unfolding AnnotateNetwork_def if_not_P[OF False] using assms k by simp
    moreover have "find_network (set_network ?j ?c1) req = Some ?j"
      using find_set_network[of ?c1 ?j i] assms(2) k by simp
    ultimately show ?thesis using assms
      by (intro that[of ?j "set_network ?j ?c1"])
         (simp_all add: quiet_def same_id_def annotate_network_def set_annotation_def last_ok_def)
  qed
  obtain c' where r: "report j ConditionTrue ''NetworkReady'' ready_message c2 = (Inr (), c')"
      "provisioned c req i (nad_key nad) nad c'"
    using report_provisioned[OF _ an(2,3), of "nad_key nad" nad nad i "''NetworkReady''" ready_message] an assms(1,4)
    by (auto simp: quiet_def nad_key_def same_annotations_map settled_def)
  have "provision_missing env i nad c = (Inr (), c')"
    using assms(1,3) created an(1) r(1)
    by (simp add: provision_missing_def get_namespace_def create_attachment_def net_run)
  then show ?thesis using r(2) by blast
qed

lemma update_runs:
  assumes "cl_Faults c = []" and "find_network c req = Some i" and "cl_Nads c (nad_key nad) = Some d"
    and "annotation d OwnerRefAnnotation \<in> {[], annotation nad OwnerRefAnnotation}"
  shows "\<exists>c'. update_attachment env i nad d c = (Inr (), c') \<and> provisioned c req i (nad_key nad) nad c'"
proof -
  let ?e = "nad_Config d \<noteq> nad_Config nad \<or> \<not> same_annotations d nad"
  let ?c1 = "if ?e then c\<lparr>cl_Nads := (cl_Nads c)(nad_key nad \<mapsto> nad)\<rparr> else c"
  have n: "cl_Nads ?c1 = (cl_Nads c)(nad_key nad \<mapsto> if ?e then nad else d)"
    using assms(3) by (auto simp: fun_upd_idem)
  have f: "cl_Faults ?c1 = []" "find_network ?c1 req = Some i" "quiet c ?c1" using assms(1,2) by (simp_all add: quiet_def)
  have d: "nad_Config (if ?e then nad else d) = nad_Config nad" "same_annotations (if ?e then nad else d) nad"
    by (auto simp: same_annotations_map)
  have st: "settled c (nad_key nad) nad \<subseteq> {if ?e then nad else d}" using assms(3) by (auto simp: settled_def)
  obtain c' where r: "report i ConditionTrue ''NetworkReady'' ready_message ?c1 = (Inr (), c')"
      "provisioned c req i (nad_key nad) nad c'"
    using report_provisioned[OF f n d, of i "''NetworkReady''" ready_message] st by (auto simp: same_id_def)
  have "update_attachment env i nad d c = (Inr (), c')"
    using assms(1,3,4) r(1) by (auto simp: update_attachment_def Let_def update_nad_def nad_key_def net_run)
  then show ?thesis using r(2) by blast
qed

lemma store_runs:
  assumes "cl_Faults c = []" and "find_network c req = Some i" and "nad_Namespace nad \<in> set (cl_Namespaces c)"
    and "\<forall>d\<in>set_option (cl_Nads c (nad_key nad)). annotation d OwnerRefAnnotation \<in> {[], annotation nad OwnerRefAnnotation}"
  shows "\<exists>c'. store_attachment env i nad c = (Inr (), c') \<and> provisioned c req i (nad_key nad) nad c'"
proof (cases "cl_Nads c (nad_key nad)")
  case None
  then show ?thesis using create_runs[OF assms(1-3) None, of env] assms(1)
    by (simp add: store_attachment_def get_nad_def nad_key_def net_run)
next
  case (Some d)
  then show ?thesis using update_runs[OF assms(1,2) Some, of env] assms(1,4)
    by (simp add: store_attachment_def get_nad_def nad_key_def net_run)
qed

lemma Reconcile_network_runs:
  assumes "cl_Faults c = []" and "find_network c req = Some cr" and "\<not> net_Deleting cr"
    and "NetworkNamespace cr = [] \<or> net_Namespace cr = ne_Namespace env" and "decoder_ok env"
    and "render_object env cr = Inr raw" and "prepare_attachment env raw = Inr nad"
    and "last_ok cr (target_namespace cr)" and "target_namespace cr \<in> set (cl_Namespaces c)"
    and "\<forall>d\<in>set_option (cl_Nads c (target_namespace cr, net_Name cr)).
      annotation d OwnerRefAnnotation \<in> {[], OwnerRefToString (Some cr)}"
  shows "\<exists>i c'. Reconcile_network env req c = (Inr (), c') \<and> same_network i cr \<and> net_Deleting i = net_Deleting cr \<and>
    net_Conditions i = net_Conditions cr \<and>
    (net_Namespace cr = ne_Namespace env \<longrightarrow> NETATTDEFFINALIZERNAME \<in> set (net_Finalizers i)) \<and>
    provisioned c req i (target_namespace cr, net_Name cr) nad c'"
proof -
  obtain i c1 where u: "updateFinalizers env cr c = (Inr i, c1)" "find_network c1 req = Some i" "quiet c c1"
      "cl_Nads c1 = cl_Nads c" "same_network i cr" "net_Conditions i = net_Conditions cr" "net_Deleting i = net_Deleting cr"
      "net_Namespace cr = ne_Namespace env \<longrightarrow> NETATTDEFFINALIZERNAME \<in> set (net_Finalizers i)"
    using updateFinalizers_runs[OF assms(1,2), of env] by metis
  note s = same_network_simps[OF u(5)]
  note p = prepared_key[OF assms(5-7)]
  have id: "same_id i cr" using u(5) by (simp add: same_network_def same_id_def)
  let ?nad = "own_attachment i nad"
  have ns: "nad_Namespace nad = target_namespace cr" using p(1) by (simp add: nad_key_def)
  have "remove_stale i nad = io_return i"
    by (rule remove_stale_none) (use assms(8) ns s(4) in \<open>simp add: last_ok_def\<close>)
  then have prov: "provision env i c1 = store_attachment env i ?nad c1"
    using same_id_render(1)[OF id, of env] assms(6,7) by (simp add: provision_def net_run)
  have f: "cl_Faults c1 = []" "nad_Namespace ?nad \<in> set (cl_Namespaces c1)"
    using u(3) assms(9) ns by (simp_all add: quiet_def)
  obtain c' where st: "store_attachment env i ?nad c1 = (Inr (), c')" "provisioned c1 req i (nad_key ?nad) ?nad c'"
    using store_runs[OF f(1) u(2) f(2)] assms(10) p u(4) by (auto simp: p)
  have "provisioned c req i (target_namespace cr, net_Name cr) nad c'"
    using st(2) u(3,4) p(1) unfolding provisioned_def quiet_def settled_def same_annotations_map by simp
  moreover have "Reconcile_network env req c = (Inr (), c')"
    using assms(1-4) u(1) prov st(1) by (auto simp: Reconcile_network_def get_network_def net_run)
  ultimately show ?thesis using u(5-8) by blast
qed

text \<open>
  C26: when no call fails, a network that is not under deletion, that renders, whose target namespace exists, whose attachment is
  not owned by another resource and that has recorded no other namespace than the target one is provisioned by one
  reconciliation: its attachment has the rendered configuration and annotations, no other attachment changed, the network is
  reported ready, its specification is unchanged and it has the finalizer when it lives in the operator's namespace. A further
  reconciliation succeeds too and changes no attachment. (A network that was moved has another namespace recorded; what
  then happens is shown below.)
\<close>

theorem network_provisioned:
  assumes "cl_Faults c = []" and "find_network c req = Some cr" and "\<not> net_Deleting cr"
    and "NetworkNamespace cr = [] \<or> net_Namespace cr = ne_Namespace env" and "decoder_ok env"
    and "render_object env cr = Inr raw" and "prepare_attachment env raw = Inr nad"
    and "last_ok cr (target_namespace cr)" and "target_namespace cr \<in> set (cl_Namespaces c)"
    and "\<forall>d\<in>set_option (cl_Nads c (target_namespace cr, net_Name cr)).
      annotation d OwnerRefAnnotation \<in> {[], OwnerRefToString (Some cr)}"
    and "distinct (map cond_Type (net_Conditions cr))"
  shows "\<exists>c' d n. Reconcile_network env req c = (Inr (), c') \<and>
    cl_Nads c' = (cl_Nads c)((target_namespace cr, net_Name cr) \<mapsto> d) \<and>
    nad_Config d = nad_Config nad \<and> map_of (nad_Annotations d) = map_of (nad_Annotations nad) \<and>
    find_network c' req = Some n \<and> IsStatusConditionTrue (net_Conditions n) ConditionReady \<and> net_Spec n = net_Spec cr \<and>
    (net_Namespace cr = ne_Namespace env \<longrightarrow> NETATTDEFFINALIZERNAME \<in> set (net_Finalizers n)) \<and>
    (\<exists>c''. Reconcile_network env req c' = (Inr (), c'') \<and> cl_Nads c'' = cl_Nads c')"
proof -
  let ?k = "(target_namespace cr, net_Name cr)"
  obtain i c' where r: "Reconcile_network env req c = (Inr (), c')" and i: "same_network i cr" "net_Deleting i = net_Deleting cr"
      "net_Conditions i = net_Conditions cr"
      "net_Namespace cr = ne_Namespace env \<longrightarrow> NETATTDEFFINALIZERNAME \<in> set (net_Finalizers i)"
      and p: "provisioned c req i ?k nad c'"
    using Reconcile_network_runs[OF assms(1-10)] by metis
  obtain d where d: "cl_Nads c' = (cl_Nads c)(?k \<mapsto> d)" "nad_Config d = nad_Config nad" "same_annotations d nad"
    using p unfolding provisioned_def by blast
  obtain n where n: "find_network c' req = Some n" "same_id n i" "net_Finalizers n = net_Finalizers i"
      "net_Deleting n = net_Deleting i" "last_ok i (fst ?k) \<longrightarrow> last_ok n (fst ?k)" "IsStatusConditionTrue (net_Conditions n) ConditionReady"
    using p assms(11) i(3) unfolding provisioned_def by auto
  have id: "same_id n cr" using n(2) i(1) by (simp add: same_id_def same_network_def)
  note s = same_id_render[OF id]
  have own: "OwnerRefToString (Some n) = OwnerRefToString (Some cr)" using id by (simp add: same_id_def OwnerRefToString_def)
  have nm: "net_Name n = net_Name cr" "net_Namespace n = net_Namespace cr" using id by (simp_all add: same_id_def)
  have "\<exists>j c''. Reconcile_network env req c' = (Inr (), c'') \<and> same_network j n \<and> net_Deleting j = net_Deleting n \<and>
    net_Conditions j = net_Conditions n \<and>
    (net_Namespace n = ne_Namespace env \<longrightarrow> NETATTDEFFINALIZERNAME \<in> set (net_Finalizers j)) \<and>
    provisioned c' req j (target_namespace n, net_Name n) nad c''"
  proof (rule Reconcile_network_runs[OF _ n(1) _ _ assms(5) _ assms(7)])
    show "cl_Faults c' = []" "target_namespace n \<in> set (cl_Namespaces c')"
      using p assms(9) s(3) by (simp_all add: provisioned_def quiet_def)
    show "last_ok n (target_namespace n)" using n(5) assms(8) s(3) i(1) by (simp add: last_ok_def same_network_def)
    show "\<forall>e\<in>set_option (cl_Nads c' (target_namespace n, net_Name n)).
        annotation e OwnerRefAnnotation \<in> {[], OwnerRefToString (Some n)}"
      using d(1,3) prepared_key(2)[OF assms(5-7)] nm s(3) own
      by (simp add: annotation_def same_annotations_map)
  qed (use assms(3,4,6) n(4) i(2) s nm in simp_all)
  then obtain j c'' where r2: "Reconcile_network env req c' = (Inr (), c'')" "provisioned c' req j ?k nad c''"
    using nm s(3) by auto
  have "settled c' ?k nad = {d}" using d by (auto simp: settled_def)
  then have "cl_Nads c'' = cl_Nads c'"
    using r2(2) d(1) unfolding provisioned_def by (auto simp: fun_upd_idem)
  moreover have "net_Spec n = net_Spec cr" using id by (simp add: same_id_def)
  ultimately show ?thesis using r d n r2(1) i(4) unfolding same_annotations_map by (metis (no_types, lifting))
qed

section \<open>The recorded namespace\<close>

text \<open>The attachments are \<open>N\<close> and the network is stored with its identity and metadata unchanged.\<close>

definition unchanged :: "(string \<times> string \<rightharpoonup> NetAttDef) \<Rightarrow> net_key \<Rightarrow> NetworkCR \<Rightarrow> cluster \<Rightarrow> bool" where
  "unchanged N req cr c \<longleftrightarrow> cl_Nads c = N \<and> (\<exists>n. find_network c req = Some n \<and> same_network n cr)"

lemma unchanged_blind: "fault_blind (unchanged N req cr)"
  by (simp add: fault_blind_def unchanged_def)

lemma unchanged_call:
  assumes "\<And>c. unchanged N req cr c \<Longrightarrow> unchanged N req cr (snd (m c)) \<and> (\<forall>x. fst (m c) = Inr x \<longrightarrow> R x)"
  shows "io_triple (unchanged N req cr) (api_call m) (\<lambda>x c. R x \<and> unchanged N req cr c) (unchanged N req cr)"
proof (rule io_triple_api_call[OF unchanged_blind])
  show "io_triple (unchanged N req cr) m (\<lambda>x c. R x \<and> unchanged N req cr c) (unchanged N req cr)"
    by (rule io_tripleI) (metis assms fst_conv snd_conv)+
qed

lemma unchanged_set:
  assumes "unchanged N req cr c" and "net_key n = req" and "same_network n cr"
  shows "unchanged N req cr (set_network n c)"
proof -
  obtain m where m: "find_network c req = Some m" using assms(1) by (auto simp: unchanged_def)
  have "find_network (set_network n c) req = Some n"
    using find_set_network[of c n m] m unfolding assms(2) by simp
  then show ?thesis using assms(1,3) by (simp add: unchanged_def)
qed

lemma report_unchanged:
  "io_triple (unchanged N req cr) (report obj st reason message) (\<lambda>_. unchanged N req cr) (unchanged N req cr)"
  if k: "net_key obj = req"
proof -
  have a: "io_triple (unchanged N req cr) (io_map_err NetApi (apply_network_conditions req conds))
      (\<lambda>_. unchanged N req cr) (unchanged N req cr)" for conds
    unfolding apply_network_conditions_def
  proof (rule io_triple_map_err, rule io_triple_conseq[OF unchanged_call[where R = "\<lambda>_. True"]])
    fix c assume u: "unchanged N req cr c"
    then obtain n where n: "find_network c req = Some n" "same_network n cr" by (auto simp: unchanged_def)
    have "unchanged N req cr (set_network (n\<lparr>net_Conditions := fold merge_entry conds (net_Conditions n)\<rparr>) c)"
      by (rule unchanged_set[OF u]) (use n find_network_key[OF n(1)] in \<open>auto simp: same_network_def\<close>)
    then show "unchanged N req cr (snd (case find_network c req of None \<Rightarrow> (Inl NotFound, c)
        | Some n \<Rightarrow> (Inr (), set_network (n\<lparr>net_Conditions := fold merge_entry conds (net_Conditions n)\<rparr>) c))) \<and>
      (\<forall>x. fst (case find_network c req of None \<Rightarrow> (Inl NotFound, c)
        | Some n \<Rightarrow> (Inr (), set_network (n\<lparr>net_Conditions := fold merge_entry conds (net_Conditions n)\<rparr>) c)) = Inr x \<longrightarrow> True)"
      using n by simp
  qed auto
  show ?thesis
  proof (unfold io_triple_def, intro allI impI)
    fix c assume p: "unchanged N req cr c"
    show "case report obj st reason message c of (Inl e, c') \<Rightarrow> unchanged N req cr c' | (Inr x, c') \<Rightarrow> unchanged N req cr c'"
      using p a k unfolding io_triple_def report_def by (simp split: option.splits)
  qed
qed

lemma updateFinalizers_unchanged:
  assumes "net_key i = req" and "same_network i cr"
  shows "io_triple (unchanged N req cr) (updateFinalizers env i)
    (\<lambda>j c. (net_key j = req \<and> same_network j cr) \<and> unchanged N req cr c) (unchanged N req cr)"
proof -
  let ?o = "i\<lparr>net_Finalizers := net_Finalizers i @ [NETATTDEFFINALIZERNAME]\<rparr>"
  have "io_triple (unchanged N req cr) (update_network ?o)
      (\<lambda>j c. (net_key j = req \<and> same_network j cr) \<and> unchanged N req cr c) (unchanged N req cr)"
    unfolding update_network_def
  proof (rule unchanged_call)
    fix c assume u: "unchanged N req cr c"
    then obtain n where n: "find_network c req = Some n" by (auto simp: unchanged_def)
    let ?n = "?o\<lparr>net_Deleting := net_Deleting n, net_Conditions := net_Conditions n\<rparr>"
    have nn: "net_key ?n = req" "same_network ?n cr" "net_key ?o = req" using assms by (auto simp: same_network_def)
    then have "unchanged N req cr (set_network ?n c)" using unchanged_set[OF u] by blast
    then show "unchanged N req cr (snd (case find_network c (net_key ?o) of None \<Rightarrow> (Inl NotFound, c)
        | Some old \<Rightarrow> let new = ?o\<lparr>net_Deleting := net_Deleting old, net_Conditions := net_Conditions old\<rparr> in
            (Inr new, if net_Deleting old \<and> net_Finalizers ?o = [] then drop_network (net_key ?o) c else set_network new c))) \<and>
      (\<forall>x. fst (case find_network c (net_key ?o) of None \<Rightarrow> (Inl NotFound, c)
        | Some old \<Rightarrow> let new = ?o\<lparr>net_Deleting := net_Deleting old, net_Conditions := net_Conditions old\<rparr> in
            (Inr new, if net_Deleting old \<and> net_Finalizers ?o = [] then drop_network (net_key ?o) c else set_network new c)) = Inr x \<longrightarrow>
         net_key x = req \<and> same_network x cr)"
      unfolding nn(3) using n nn(1,2) by (simp add: Let_def)
  qed
  then show ?thesis unfolding updateFinalizers_def
    using assms by (auto intro!: io_triple_return io_triple_map_err)
qed

lemma provision_blocked:
  assumes "decoder_ok env" and "net_key i = req" and "same_network i cr"
    and "om_Annotations (net_Meta cr) LASTNETWORKNAMESPACE = Some []" and "target_namespace cr \<noteq> []"
  shows "io_triple (unchanged N req cr) (provision env i) (\<lambda>_ _. False) (unchanged N req cr)"
proof (cases "render_object env i")
  case (Inl e)
  have "io_triple (unchanged N req cr) (io_bind (io_ignore (report i ConditionFalse ''NetworkAttachmentDefinitionInvalid''
      (ne_ErrorText env e))) (\<lambda>_. io_fail e)) (\<lambda>_ _. False) (unchanged N req cr)"
    by (rule io_triple_bind[OF io_triple_ignore[OF report_unchanged[OF assms(2)]]]) (rule io_triple_fail)
  then show ?thesis using Inl by (simp add: provision_def)
next
  case (Inr raw)
  have "io_triple (unchanged N req cr) (remove_stale i nad) (\<lambda>_ _. False) (unchanged N req cr)"
    if "prepare_attachment env raw = Inr nad" for nad
  proof -
    have "nad_Namespace nad = target_namespace cr"
      using prepared_key(1)[OF assms(1) Inr that] same_network_simps(3)[OF assms(3)] by (simp add: nad_key_def)
    then show ?thesis using assms(3,4,5)
      by (simp add: remove_stale_def same_network_def delete_nad_def io_triple_def io_handle_def io_fail_def)
  qed
  then show ?thesis using Inr unfolding provision_def
    by (cases "prepare_attachment env raw") (fastforce simp: io_triple_def io_bind_def io_lift_def split: prod.splits sum.splits)+
qed

text \<open>
  A network whose recorded namespace was cleared to the empty string is never provisioned again:
  every reconciliation, whatever calls fail, ends with an error before the attachment is stored, leaves all
  attachments as they are and leaves the annotation in place. The code clears the annotation so that the deletion
  is not tried again, but a present, empty annotation makes it try to delete in the empty namespace.
\<close>

theorem cleared_namespace_blocks:
  assumes "decoder_ok env" and "find_network c req = Some cr" and "\<not> net_Deleting cr"
    and "NetworkNamespace cr = [] \<or> net_Namespace cr = ne_Namespace env"
    and "om_Annotations (net_Meta cr) LASTNETWORKNAMESPACE = Some []" and "target_namespace cr \<noteq> []"
  shows "\<exists>e c' n. Reconcile_network env req c = (Inl e, c') \<and> cl_Nads c' = cl_Nads c \<and>
    find_network c' req = Some n \<and> same_network n cr"
proof -
  let ?U = "unchanged (cl_Nads c) req cr"
  have k: "net_key cr = req" using find_network_key[OF assms(2)] .
  have "io_triple ?U (io_bind (updateFinalizers env cr) (provision env)) (\<lambda>_ _. False) ?U"
    by (rule io_triple_bind[OF updateFinalizers_unchanged[OF k same_network_refl]], rule io_triple_pre, assumption)
       (use provision_blocked[OF assms(1) _ _ assms(5,6)] in auto)
  moreover obtain r0 c0 where g: "get_network req c = (r0, c0)" by fastforce
  moreover obtain fs where c0: "c0 = c\<lparr>cl_Faults := fs\<rparr>" "r0 = Inr cr \<or> r0 = Inl ApiError"
    using get_network_result[OF g assms(2)] by metis
  moreover have u0: "?U c0" using c0(1) assms(2) by (simp add: unchanged_def)
  ultimately have "case Reconcile_network env req c of (Inl e, c') \<Rightarrow> ?U c' | (Inr _, c') \<Rightarrow> False"
    using assms(3,4) by (auto simp: Reconcile_network_def io_handle_def io_fail_def io_triple_def)
  then show ?thesis by (auto simp: unchanged_def split: prod.splits sum.splits)
qed

text \<open>
  The recorded namespace is trusted: a network that lives in a namespace of its own and carries the
  annotation with the name of another namespace makes the controller delete the attachment of the same name
  there, whoever owns it, when the deletion does not fail.
\<close>

theorem recorded_namespace_trusted:
  assumes "decoder_ok env" and "cl_Faults c = []" and "find_network c req = Some cr" and "\<not> net_Deleting cr"
    and "NetworkNamespace cr = []" and "net_Namespace cr \<noteq> ne_Namespace env"
    and "om_Annotations (net_Meta cr) LASTNETWORKNAMESPACE = Some l" and "l \<noteq> []" and "l \<noteq> net_Namespace cr"
    and "render_object env cr = Inr raw" and "prepare_attachment env raw = Inr nad"
  shows "cl_Nads (snd (Reconcile_network env req c)) (l, net_Name cr) = None"
proof -
  let ?k = "(l, net_Name cr)" and ?P = "\<lambda>c. cl_Nads c (l, net_Name cr) = None"
  let ?c1 = "c\<lparr>cl_Nads := (cl_Nads c)(?k := None)\<rparr>"
  have P: "nads_pred ?P" by (simp add: nads_pred_def)
  have key: "nad_key nad = (net_Namespace cr, net_Name cr)"
    using prepared_key(1)[OF assms(1,10,11)] assms(5) by (simp add: target_namespace_def)
  then have ns: "nad_Namespace nad \<noteq> l" and ne: "nad_key nad \<noteq> ?k" using assms(9) by (auto simp: nad_key_def)
  have "io_triple ?P (create_nad (own_attachment i nad)) (\<lambda>_. ?P) ?P"
    "io_triple ?P (update_nad (own_attachment i nad)) (\<lambda>_. ?P) ?P" for i
    unfolding create_nad_def update_nad_def
    by (rule nads_step[OF P]; use ne in \<open>auto simp: nad_key_def split: option.splits\<close>)+
  then have "io_triple ?P (store_attachment env i (own_attachment i nad)) (\<lambda>_. ?P) ?P" for i
    unfolding store_attachment_def
    by (intro io_triple_handle[OF get_nad_triple[OF P]])
       (auto intro!: provision_missing_triple[OF P] update_attachment_triple[OF P] report_then_fail[OF P])
  then have t: "io_triple ?P (io_bind (clear_annotation cr) (\<lambda>i. store_attachment env i (own_attachment i nad))) (\<lambda>_. ?P) ?P"
    by (rule io_triple_bind[OF clear_annotation_triple[OF P]])
  have "?P ?c1" "?P c \<Longrightarrow> ?P c" by simp_all
  then have after: "?P (snd (io_bind (clear_annotation cr) (\<lambda>i. store_attachment env i (own_attachment i nad)) d))"
    if "?P d" for d
    using io_tripleD[OF t that] by (cases "io_bind (clear_annotation cr) (\<lambda>i. store_attachment env i (own_attachment i nad)) d")
      (auto split: sum.splits)
  have "updateFinalizers env cr = io_return cr" using assms(6) by (simp add: updateFinalizers_def)
  then have "Reconcile_network env req c = provision env cr c"
    using assms(2-5) by (simp add: Reconcile_network_def get_network_def net_run)
  also have "\<dots> = io_bind (clear_annotation cr) (\<lambda>i. store_attachment env i (own_attachment i nad))
      (if ?P c then c else ?c1)"
    using assms(2,7,8,10,11) ns by (auto simp: provision_def remove_stale_def delete_nad_def net_run split: option.splits)
  finally show ?thesis using after[of "if ?P c then c else ?c1"] by simp
qed

section \<open>Witnesses\<close>

lemma sample_rendered:
  "\<exists>raw nad. render_object sample_net_env (sample_network ns t l b) = Inr raw \<and> prepare_attachment sample_net_env raw = Inr nad \<and>
     annotation nad OwnerRefAnnotation = OwnerRefToString (Some (sample_network ns t l b)) \<and> nad_Config nad = cni_config (sample_network ns t l b)"
  by (simp add: render_object_eq prepare_attachment_def sample_net_env_def annotation_def)

theorem network_provisioned_witness:
  "\<exists>c' d. Reconcile_network sample_net_env sample_req
     (sample_net_cluster (sample_network ''sriov'' ''app'' None False) [] [''app''] []) = (Inr (), c') \<and>
     cl_Nads c' (''app'', ''net'') = Some d \<and> nad_Config d = cni_config (sample_network ''sriov'' ''app'' None False)"
proof -
  let ?n = "sample_network ''sriov'' ''app'' None False"
  let ?c = "sample_net_cluster ?n [] [''app''] []"
  obtain raw nad where r: "render_object sample_net_env ?n = Inr raw" "prepare_attachment sample_net_env raw = Inr nad"
      "nad_Config nad = cni_config ?n" using sample_rendered by blast
  have n: "target_namespace ?n = ''app''" "NetworkNamespace ?n = ''app''" "net_Name ?n = ''net''"
    by (simp_all add: target_namespace_def NetworkNamespace_def sample_network_def sample_meta_def)
  have f: "cl_Faults ?c = []" by (simp add: sample_net_cluster_def)
  have g: "\<not> net_Deleting ?n" "NetworkNamespace ?n = [] \<or> net_Namespace ?n = ne_Namespace sample_net_env"
    by (simp_all add: sample_network_def sample_net_env_def)
  have h: "last_ok ?n (target_namespace ?n)" "target_namespace ?n \<in> set (cl_Namespaces ?c)"
    "\<forall>d\<in>set_option (cl_Nads ?c (target_namespace ?n, net_Name ?n)). annotation d OwnerRefAnnotation \<in> {[], OwnerRefToString (Some ?n)}"
    "distinct (map cond_Type (net_Conditions ?n))"
    unfolding n(1) by (simp_all add: last_ok_def sample_net_cluster_def) (simp_all add: sample_network_def)
  show ?thesis
    using network_provisioned[OF f sample_find g sample_decoder_ok r(1,2) h] r(3) unfolding n by auto
qed

text \<open>The network gets there by a change to a namespace that does not exist yet.\<close>

theorem cleared_namespace_blocks_witness:
  "\<exists>c1 cr e c2. Reconcile_network sample_net_env sample_req
      (sample_net_cluster (sample_network ''sriov'' ''new'' (Some ''old'') False) [sample_nad ''old'' []] [''old''] []) = (Inr (), c1) \<and>
    find_network c1 sample_req = Some cr \<and>
    Reconcile_network sample_net_env sample_req (c1\<lparr>cl_Namespaces := [''old'', ''new'']\<rparr>) = (Inl e, c2) \<and>
    cl_Nads c2 (''new'', ''net'') = None"
proof -
  let ?c = "sample_net_cluster (sample_network ''sriov'' ''new'' (Some ''old'') False) [sample_nad ''old'' []] [''old''] []"
  let ?m = "Reconcile_network sample_net_env sample_req ?c"
  let ?c1 = "snd ?m"
  have ok: "fst ?m = Inr ()" by code_simp
  then have run: "?m = (Inr (), ?c1)" by (metis prod.collapse)
  have "case find_network ?c1 sample_req of None \<Rightarrow> False | Some n \<Rightarrow>
      \<not> net_Deleting n \<and> net_Namespace n = ne_Namespace sample_net_env \<and>
      om_Annotations (net_Meta n) LASTNETWORKNAMESPACE = Some [] \<and> target_namespace n \<noteq> []"
    by code_simp
  then obtain cr where cr: "find_network ?c1 sample_req = Some cr" "\<not> net_Deleting cr"
      "net_Namespace cr = ne_Namespace sample_net_env"
      "om_Annotations (net_Meta cr) LASTNETWORKNAMESPACE = Some []" "target_namespace cr \<noteq> []"
    by (auto split: option.splits)
  have n: "cl_Nads ?c1 (''new'', ''net'') = None" by code_simp
  have "find_network (?c1\<lparr>cl_Namespaces := [''old'', ''new'']\<rparr>) sample_req = Some cr"
    using cr(1) by (simp add: find_network_def)
  from cleared_namespace_blocks[OF sample_decoder_ok this cr(2) disjI2[OF cr(3)] cr(4,5)]
  obtain e c2 where "Reconcile_network sample_net_env sample_req (?c1\<lparr>cl_Namespaces := [''old'', ''new'']\<rparr>) = (Inl e, c2)"
      "cl_Nads c2 = cl_Nads ?c1" by auto
  then show ?thesis using run cr(1) n by metis
qed

theorem recorded_namespace_trusted_witness:
  "cl_Nads (snd (Reconcile_network sample_net_env (KindSriovNetwork, ''team-a'', ''net'')
     (sample_net_cluster (sample_network ''team-a'' [] (Some ''team-b'') False) [sample_nad ''team-b'' ''other''] [''team-a'', ''team-b''] [])))
     (''team-b'', ''net'') = None"
proof -
  let ?n = "sample_network ''team-a'' [] (Some ''team-b'') False"
  let ?c = "sample_net_cluster ?n [sample_nad ''team-b'' ''other''] [''team-a'', ''team-b''] []"
  obtain raw nad where r: "render_object sample_net_env ?n = Inr raw" "prepare_attachment sample_net_env raw = Inr nad"
    using sample_rendered by blast
  have "cl_Nads (snd (Reconcile_network sample_net_env (KindSriovNetwork, ''team-a'', ''net'') ?c)) (''team-b'', net_Name ?n) = None"
    by (rule recorded_namespace_trusted[OF sample_decoder_ok _ _ _ _ _ _ _ _ r])
       (simp_all add: sample_net_cluster_def find_network_def sample_network_def net_key_def net_kind_def sample_meta_def
         NetworkNamespace_def sample_net_env_def)
  then show ?thesis by (simp add: sample_network_def sample_meta_def)
qed

end
