(* ===== verification/Daemon.thy ===== *)
theory Daemon
  imports Drain_Controller
begin

text \<open>
  The config daemon of a node (\<^verbatim>\<open>src/pkg/daemon/daemon.go\<close> and \<^verbatim>\<open>status.go\<close>) with the counter of reboots
  (\<^verbatim>\<open>src/pkg/host/internal/reboottracker/reboot_tracker.go\<close>). Its state is the API server, the last generation
  it applied, the reboot counter on disk and a log of what it did. What the host and the plugins answer is a function of
  the log, and before every call of the API server other clients may change the cluster in any way. Restarting and
  unblocking the pods of the device plugin are actions that may fail here; theory \<open>Plugin_Pods\<close> models them.
\<close>

section \<open>State and environment\<close>

datatype platform = Baremetal | VirtualOpenStack | AWS

record SriovResult =
  sr_SyncStatus :: string
  sr_LastSyncError :: string

datatype daemon_event =
    ApiCall
  | ReadState SriovNetworkNodeState
  | OnChange string bool bool
  | ApplyPlugin string
  | RestartDevicePlugin
  | WaitAndUnblockDevicePlugin
  | UnblockDevicePlugin
  | ClearPCIAddressFolder
  | WriteConfFile SriovNetworkNodeState
  | RemoveSriovResult
  | WriteSriovSupportedNics
  | WriteTracker int int
  | RebootNode

type_synonym dlog = "daemon_event list"

record daemon_world =
  dw_Cluster :: cluster
  dw_LastAppliedGeneration :: int
  dw_Tracker :: "(int \<times> int) option"
  dw_Log :: dlog

text \<open>A plugin as the daemon sees it.\<close>

record vendor_plugin =
  pl_Name :: string
  pl_OnNodeStateChange :: "dlog \<Rightarrow> SriovNetworkNodeState \<Rightarrow> string + bool \<times> bool"
  pl_CheckStatusChanges :: "dlog \<Rightarrow> SriovNetworkNodeState \<Rightarrow> string + bool"

record daemon_env =
  de_Main :: vendor_plugin
  de_Additional :: "vendor_plugin list"
  de_Fail :: "dlog \<Rightarrow> daemon_event \<Rightarrow> string option"
  de_Others :: "dlog \<Rightarrow> cluster \<Rightarrow> cluster"
  de_DiscoverSriovDevices :: "dlog \<Rightarrow> string + InterfaceExt list"
  de_DiscoverBridges :: "dlog \<Rightarrow> string + Bridges"
  de_DiscoverRDMASubsystem :: "dlog \<Rightarrow> string + string"
  de_ServiceEnabled :: "dlog \<Rightarrow> string \<Rightarrow> string + bool"
  de_ReadSriovResult :: "dlog \<Rightarrow> string + SriovResult option"
  de_ConfModified :: "dlog \<Rightarrow> bool"
  de_ReadTracker :: "dlog \<Rightarrow> string option"
  de_UsingSystemdMode :: bool
  de_DisableDrain :: bool
  de_UseExternalDrainer :: bool
  de_ManageSoftwareBridges :: bool
  de_BlockDevicePlugin :: bool

datatype daemon_error = DaemonApi api_error | DaemonHost string | DaemonPanic panic

type_synonym 'a dio = "(daemon_world, daemon_error, 'a) stateful"

definition log_event :: "daemon_event \<Rightarrow> daemon_world \<Rightarrow> daemon_world" where
  "log_event e w = w\<lparr>dw_Log := dw_Log w @ [e]\<rparr>"

definition api :: "daemon_env \<Rightarrow> (api_error, 'a) io \<Rightarrow> 'a dio" where
  "api env m w =
     (case m (de_Others env (dw_Log w) (dw_Cluster w)) of
        (r, c) \<Rightarrow> (map_err DaemonApi r, log_event ApiCall (w\<lparr>dw_Cluster := c\<rparr>)))"

definition note_event :: "daemon_event \<Rightarrow> unit dio" where
  "note_event e w = (Inr (), log_event e w)"

definition host_act :: "daemon_env \<Rightarrow> daemon_event \<Rightarrow> unit dio" where
  "host_act env e w =
     (case de_Fail env (dw_Log w) e of None \<Rightarrow> Inr () | Some err \<Rightarrow> Inl (DaemonHost err), log_event e w)"

definition host_ask :: "(dlog \<Rightarrow> string + 'a) \<Rightarrow> 'a dio" where
  "host_ask f w = (map_err DaemonHost (f (dw_Log w)), w)"

definition read_state :: "daemon_env \<Rightarrow> string \<Rightarrow> SriovNetworkNodeState dio" where
  "read_state env nm =
     io_bind (api env (get_state nm)) (\<lambda>s. io_bind (note_event (ReadState s)) (\<lambda>_. io_return s))"

abbreviation has_anno :: "SriovNetworkNodeState \<Rightarrow> string \<Rightarrow> string \<Rightarrow> bool" where
  "has_anno s k v \<equiv> ObjectHasAnnotation (state_Meta s) k v"

definition ObjectHasAnnotationKey :: "ObjectMeta \<Rightarrow> string \<Rightarrow> bool" where
  "ObjectHasAnnotationKey m k = (om_Annotations m k \<noteq> None)"

section \<open>Reboot counter\<close>

abbreviation MaxRebootsPerGeneration :: int where "MaxRebootsPerGeneration \<equiv> 5"

definition readTrackerFile :: "daemon_env \<Rightarrow> (int \<times> int) option dio" where
  "readTrackerFile env w =
     (case de_ReadTracker env (dw_Log w) of
        Some e \<Rightarrow> (Inl (DaemonHost e), w)
      | None \<Rightarrow> (Inr (dw_Tracker w), w))"

definition writeTrackerFile :: "daemon_env \<Rightarrow> int \<Rightarrow> int \<Rightarrow> unit dio" where
  "writeTrackerFile env generation n =
     io_bind (host_act env (WriteTracker generation n)) (\<lambda>_ w. (Inr (), w\<lparr>dw_Tracker := Some (generation, n)\<rparr>))"

definition count_for :: "int \<Rightarrow> (int \<times> int) option \<Rightarrow> int" where
  "count_for generation t = (case t of None \<Rightarrow> 0 | Some (g, n) \<Rightarrow> if g \<noteq> generation then 0 else n)"

definition GetRebootCount :: "daemon_env \<Rightarrow> int \<Rightarrow> int dio" where
  "GetRebootCount env generation =
     io_bind (readTrackerFile env) (\<lambda>tracker. io_return (count_for generation tracker))"

definition IncrementRebootCounter :: "daemon_env \<Rightarrow> int \<Rightarrow> unit dio" where
  "IncrementRebootCounter env generation =
     io_bind (readTrackerFile env) (\<lambda>tracker. writeTrackerFile env generation (count_for generation tracker + 1))"

definition ResetRebootCounter :: "daemon_env \<Rightarrow> int \<Rightarrow> unit dio" where
  "ResetRebootCounter env generation = writeTrackerFile env generation 0"

section \<open>Status\<close>

definition updateStatusFromHost :: "daemon_env \<Rightarrow> SriovNetworkNodeState \<Rightarrow> SriovNetworkNodeState dio" where
  "updateStatusFromHost env s =
     io_bind (host_ask (de_DiscoverSriovDevices env)) (\<lambda>ifaces.
     io_bind (if de_ManageSoftwareBridges env then host_ask (de_DiscoverBridges env) else io_return \<lparr>bridges_OVS = []\<rparr>) (\<lambda>bridges.
     io_bind (host_ask (de_DiscoverRDMASubsystem env)) (\<lambda>mode.
       io_return (s\<lparr>state_Status := (state_Status s)\<lparr>nst_Interfaces := ifaces, nst_Bridges := bridges,
         nst_System := (nst_System (state_Status s))\<lparr>sys_RdmaMode := mode\<rparr>\<rparr>\<rparr>))))"

definition configurationOwnedConditions :: "Condition list \<Rightarrow> Condition list" where
  "configurationOwnedConditions conditions =
     (case FindStatusCondition conditions ''Progressing'' of None \<Rightarrow> [] | Some c \<Rightarrow> [c]) @
     (case FindStatusCondition conditions ''Ready'' of None \<Rightarrow> [] | Some c \<Rightarrow> [c])"

text \<open>
  \<^verbatim>\<open>ApplyStatus\<close> on the stored object: the fields of the daemon are replaced, its conditions merged; the field of
  the bridges is left out when it is empty, which removes what the daemon owned before.
\<close>

definition apply_status :: "string \<Rightarrow> SriovNetworkNodeStateStatus \<Rightarrow> Condition list \<Rightarrow> (api_error, unit) io" where
  "apply_status nm st conds =
     api_call (\<lambda>c.
       case cl_States c nm of
         None \<Rightarrow> (Inl NotFound, c)
       | Some s \<Rightarrow>
           (Inr (), c\<lparr>cl_States := (cl_States c)(nm \<mapsto>
              s\<lparr>state_Status := st\<lparr>nst_Conditions := fold merge_entry conds (state_conditions s)\<rparr>\<rparr>)\<rparr>))"

definition updateSyncState ::
    "daemon_env \<Rightarrow> SriovNetworkNodeState \<Rightarrow> string \<Rightarrow> string \<Rightarrow> bool \<Rightarrow> SriovNetworkNodeState dio" where
  "updateSyncState env desired syncStatus failedMessage waitingForDrain =
     (let desired = desired\<lparr>state_Status := (state_Status desired)\<lparr>nst_SyncStatus := syncStatus, nst_LastSyncError := failedMessage\<rparr>\<rparr>;
          nm = state_Name desired
      in
      io_bind (read_state env nm) (\<lambda>current.
      io_bind (io_gets (\<lambda>w. cl_Clock (dw_Cluster w))) (\<lambda>now.
        let desired = desired\<lparr>state_Meta := state_Meta current\<rparr>;
            statusFieldsChanged = (\<not> StatusFieldsEqual (state_Status current) (state_Status desired));
            configConditions = configurationOwnedConditions
              (state_conditions (SetNodeStateConfigurationConditions now syncStatus failedMessage waitingForDrain current));
            conditionsChanged = HasTransitions (configurationOwnedConditions (state_conditions current)) configConditions
        in
        if \<not> statusFieldsChanged \<and> \<not> conditionsChanged then io_return desired
        else
          io_bind (api env (apply_status nm (state_Status desired)
             (fst (ApplyStatus_conditions (state_conditions current) configConditions)))) (\<lambda>_.
          io_bind (read_state env nm) (\<lambda>current.
            io_return (desired\<lparr>state_Meta := state_Meta current\<rparr>))))))"

fun same_interfaces :: "InterfaceExt list \<Rightarrow> InterfaceExt list \<Rightarrow> bool" where
  "same_interfaces (c # cs) (d # ds) =
     (ie_PciAddress d = ie_PciAddress c \<and> d\<lparr>ie_VFs := []\<rparr> = c\<lparr>ie_VFs := []\<rparr> \<and> same_interfaces cs ds)"
| "same_interfaces _ _ = True"

definition shouldUpdateStatus :: "SriovNetworkNodeState \<Rightarrow> SriovNetworkNodeState \<Rightarrow> bool" where
  "shouldUpdateStatus current desired =
     (let c = state_Status current; d = state_Status desired in
      if length (nst_Interfaces c) \<noteq> length (nst_Interfaces d) then True
      else if nst_Bridges c \<noteq> nst_Bridges d then True
      else if nst_System c \<noteq> nst_System d then True
      else \<not> same_interfaces (nst_Interfaces c) (nst_Interfaces d))"

section \<open>Annotations\<close>

text \<open>The patch fills the object in memory with the stored one.\<close>

definition annotate :: "daemon_env \<Rightarrow> SriovNetworkNodeState \<Rightarrow> string \<Rightarrow> SriovNetworkNodeState dio" where
  "annotate env desired annotationState =
     io_bind (api env (get_node (state_Name desired))) (\<lambda>n.
     io_bind (api env (AnnotateNodeObject n NodeDrainAnnotation annotationState)) (\<lambda>_.
       api env (AnnotateState desired NodeStateDrainAnnotation annotationState)))"

definition remove_state_annotation :: "string \<Rightarrow> string \<Rightarrow> (api_error, unit) io" where
  "remove_state_annotation nm k =
     api_call (\<lambda>c.
       case cl_States c nm of
         None \<Rightarrow> (Inl NotFound, c)
       | Some s \<Rightarrow>
           (Inr (), c\<lparr>cl_States := (cl_States c)(nm \<mapsto>
              s\<lparr>state_Meta := (state_Meta s)\<lparr>om_Annotations := (om_Annotations (state_Meta s))(k := None)\<rparr>\<rparr>)\<rparr>))"

definition addRemoveExternalDrainerAnnotation :: "daemon_env \<Rightarrow> SriovNetworkNodeState \<Rightarrow> bool dio" where
  "addRemoveExternalDrainerAnnotation env desired =
     (let neitherExists = (\<not> ObjectHasAnnotationKey (state_Meta desired) NodeStateDrainAnnotationCurrent \<and>
                           \<not> ObjectHasAnnotationKey (state_Meta desired) NodeStateDrainAnnotation);
          bothIdle = (has_anno desired NodeStateDrainAnnotationCurrent DrainIdle \<and>
                      has_anno desired NodeStateDrainAnnotation DrainIdle);
          marked = ObjectHasAnnotationKey (state_Meta desired) NodeStateExternalDrainerAnnotation
      in
      if \<not> bothIdle \<and> \<not> neitherExists then io_return False
      else if \<not> de_UseExternalDrainer env
      then if marked
           then io_bind (api env (remove_state_annotation (state_Name desired) NodeStateExternalDrainerAnnotation)) (\<lambda>_.
                  io_return True)
           else io_return False
      else if \<not> marked
      then io_bind (api env (AnnotateState desired NodeStateExternalDrainerAnnotation ''true'')) (\<lambda>_. io_return True)
      else io_return False)"

section \<open>Decisions\<close>

text \<open>\<open>OnNodeStateChange\<close> of a plugin, with its answer in the log.\<close>

definition plugin_change :: "vendor_plugin \<Rightarrow> SriovNetworkNodeState \<Rightarrow> (bool \<times> bool) dio" where
  "plugin_change p s =
     io_bind (host_ask (\<lambda>l. pl_OnNodeStateChange p l s)) (\<lambda>(d, r).
     io_bind (note_event (OnChange (pl_Name p) d r)) (\<lambda>_. io_return (d, r)))"

fun plugins_change :: "vendor_plugin list \<Rightarrow> SriovNetworkNodeState \<Rightarrow> bool \<Rightarrow> bool \<Rightarrow> (bool \<times> bool) dio" where
  "plugins_change [] s reqReboot reqDrain = io_return (reqReboot, reqDrain)"
| "plugins_change (p # ps) s reqReboot reqDrain =
     io_bind (plugin_change p s) (\<lambda>(d, r). plugins_change ps s (reqReboot \<or> r) (reqDrain \<or> d))"

text \<open>Whether a reboot and whether a drain is required.\<close>

definition checkOnNodeStateChange :: "daemon_env \<Rightarrow> SriovNetworkNodeState \<Rightarrow> (bool \<times> bool) dio" where
  "checkOnNodeStateChange env s =
     io_bind (plugin_change (de_Main env) s) (\<lambda>(reqDrain, reqReboot).
       plugins_change (de_Additional env) s reqReboot reqDrain)"

definition show_flag :: "bool \<Rightarrow> string" where
  "show_flag b = (if b then ''true'' else ''false'')"

definition missing_services :: "bool \<Rightarrow> bool \<Rightarrow> SriovResult" where
  "missing_services serviceEnabled postNetworkServiceEnabled =
     \<lparr>sr_SyncStatus = SyncStatusFailed,
      sr_LastSyncError = ''some sriov systemd services are not available on node: sriov-config available:'' @ show_flag serviceEnabled @
        '', sriov-config-post-network available:'' @ show_flag postNetworkServiceEnabled\<rparr>"

definition CheckSystemdStatus :: "daemon_env \<Rightarrow> (SriovResult option \<times> bool) dio" where
  "CheckSystemdStatus env =
     (if \<not> de_UsingSystemdMode env then io_return (None, False)
      else
        io_bind (host_ask (\<lambda>l. de_ServiceEnabled env l ''sriov-config'')) (\<lambda>serviceEnabled.
        io_bind (host_ask (\<lambda>l. de_ServiceEnabled env l ''sriov-config-post-network'')) (\<lambda>postNetworkServiceEnabled.
          if serviceEnabled \<and> postNetworkServiceEnabled
          then io_bind (host_ask (de_ReadSriovResult env)) (\<lambda>result. io_return (result, result \<noteq> None))
          else io_return (Some (missing_services serviceEnabled postNetworkServiceEnabled), False))))"

definition writeSystemdConfigFile :: "daemon_env \<Rightarrow> SriovNetworkNodeState \<Rightarrow> bool dio" where
  "writeSystemdConfigFile env desired =
     io_bind (io_gets (\<lambda>w. de_ConfModified env (dw_Log w))) (\<lambda>modified.
     io_bind (host_act env (WriteConfFile desired)) (\<lambda>_.
     io_bind (io_when modified (host_act env RemoveSriovResult)) (\<lambda>_.
     io_bind (host_act env WriteSriovSupportedNics) (\<lambda>_.
       io_return modified))))"

fun plugins_drifted :: "vendor_plugin list \<Rightarrow> SriovNetworkNodeState \<Rightarrow> bool dio" where
  "plugins_drifted [] s = io_return False"
| "plugins_drifted (p # ps) s =
     io_bind (host_ask (\<lambda>l. pl_CheckStatusChanges p l s)) (\<lambda>changed.
       if changed then io_return True else plugins_drifted ps s)"

definition checkHostStateDrift :: "daemon_env \<Rightarrow> SriovNetworkNodeState \<Rightarrow> (bool \<times> SriovNetworkNodeState) dio" where
  "checkHostStateDrift env desired =
     (if om_Generation (state_Meta desired) = 1 \<and> ns_Interfaces (state_Spec desired) = []
      then
        io_bind (host_act env ClearPCIAddressFolder) (\<lambda>_.
          if nst_SyncStatus (state_Status desired) \<noteq> SyncStatusSucceeded \<or> nst_LastSyncError (state_Status desired) \<noteq> []
          then io_bind (updateSyncState env desired SyncStatusSucceeded [] False) (\<lambda>desired. io_return (False, desired))
          else io_return (False, desired))
      else io_bind (plugins_drifted (de_Main env # de_Additional env) desired) (\<lambda>b. io_return (b, desired)))"

text \<open>\<^verbatim>\<open>handleDrain\<close>: whether the drain is still in process, and the object after the patch.\<close>

definition handleDrain :: "daemon_env \<Rightarrow> SriovNetworkNodeState \<Rightarrow> bool \<Rightarrow> (bool \<times> SriovNetworkNodeState) dio" where
  "handleDrain env desired reqReboot =
     (let partial = (reqReboot \<and> \<not> has_anno desired NodeStateDrainAnnotation RebootRequired);
          roll_back = (if has_anno desired NodeStateDrainAnnotation DrainIdle then io_return (True, desired)
                       else io_bind (annotate env desired DrainIdle) (\<lambda>desired. io_return (True, desired)))
      in
      if has_anno desired NodeStateDrainAnnotationCurrent DrainComplete
      then if partial then roll_back else io_return (False, desired)
      else if has_anno desired NodeStateDrainAnnotationCurrent Draining
      then if partial then roll_back else io_return (True, desired)
      else if de_DisableDrain env then io_return (False, desired)
      else io_bind (annotate env desired (if reqReboot then RebootRequired else DrainRequired)) (\<lambda>desired.
             io_return (True, desired)))"

definition isDrainCompleted :: "daemon_env \<Rightarrow> bool \<Rightarrow> SriovNetworkNodeState \<Rightarrow> bool" where
  "isDrainCompleted env reqDrain desired =
     (if de_DisableDrain env then True
      else if reqDrain then has_anno desired NodeStateDrainAnnotationCurrent DrainComplete
      else if \<not> has_anno desired NodeStateDrainAnnotation DrainIdle
      then has_anno desired NodeStateDrainAnnotationCurrent DrainComplete
      else True)"

section \<open>Applying\<close>

datatype daemon_result = NoRequeue | RequeueAfter

definition reboot_limit_error :: string where
  "reboot_limit_error = ''reached maximum number of allowed reboots (5) while trying to configure node''"

definition reboot_if_allowed :: "daemon_env \<Rightarrow> SriovNetworkNodeState \<Rightarrow> daemon_result dio" where
  "reboot_if_allowed env desired =
     (let generation = om_Generation (state_Meta desired) in
      io_bind (GetRebootCount env generation) (\<lambda>rebootsCount.
        if rebootsCount \<ge> MaxRebootsPerGeneration
        then io_bind (updateSyncState env desired SyncStatusFailed reboot_limit_error False) (\<lambda>_. io_return NoRequeue)
        else
          io_bind (IncrementRebootCounter env generation) (\<lambda>_.
          io_bind (host_act env RebootNode) (\<lambda>_. io_return NoRequeue))))"

text \<open>The end of \<^verbatim>\<open>apply\<close> when no reboot is needed. Without a result under systemd the access panics.\<close>

definition finish_apply ::
    "daemon_env \<Rightarrow> SriovNetworkNodeState \<Rightarrow> SriovResult option \<Rightarrow> int \<Rightarrow> daemon_result dio" where
  "finish_apply env desired sriovResult appliedGeneration =
     io_bind
       (if de_BlockDevicePlugin env
        then if ns_Interfaces (state_Spec desired) = [] then io_return () else host_act env WaitAndUnblockDevicePlugin
        else host_act env RestartDevicePlugin) (\<lambda>_.
     io_bind (annotate env desired DrainIdle) (\<lambda>desired.
     io_bind
       (if de_UsingSystemdMode env
        then (case sriovResult of
                None \<Rightarrow> io_fail (DaemonPanic NilDereference)
              | Some r \<Rightarrow> io_return (sr_SyncStatus r, sr_LastSyncError r))
        else io_return (SyncStatusSucceeded, [])) (\<lambda>(syncStatus, lastSyncError).
     io_bind (updateStatusFromHost env desired) (\<lambda>desired.
     io_bind (updateSyncState env desired syncStatus lastSyncError False) (\<lambda>_.
     io_bind (ResetRebootCounter env appliedGeneration) (\<lambda>_ w.
       (Inr RequeueAfter, w\<lparr>dw_LastAppliedGeneration := appliedGeneration\<rparr>)))))))"

definition daemon_apply ::
    "daemon_env \<Rightarrow> SriovNetworkNodeState \<Rightarrow> bool \<Rightarrow> SriovResult option \<Rightarrow> int \<Rightarrow> daemon_result dio" where
  "daemon_apply env desired reqReboot sriovResult appliedGeneration =
     io_bind (io_when (de_BlockDevicePlugin env) (host_act env RestartDevicePlugin)) (\<lambda>_.
     io_bind (io_each (\<lambda>p. host_act env (ApplyPlugin (pl_Name p))) (de_Additional env)) (\<lambda>_.
     io_bind (io_when (\<not> reqReboot \<and> \<not> de_UsingSystemdMode env) (host_act env (ApplyPlugin (pl_Name (de_Main env))))) (\<lambda>_.
       if reqReboot then reboot_if_allowed env desired
       else finish_apply env desired sriovResult appliedGeneration)))"

section \<open>Reconcile\<close>

text \<open>The generation is already applied: only drift is looked for.\<close>

definition refresh ::
    "daemon_env \<Rightarrow> SriovNetworkNodeState \<Rightarrow> SriovNetworkNodeState \<Rightarrow> daemon_result dio" where
  "refresh env current desired =
     io_bind (io_when (shouldUpdateStatus current desired)
       (io_bind (updateSyncState env desired (nst_SyncStatus (state_Status desired)) (nst_LastSyncError (state_Status desired)) False)
         (\<lambda>_. io_return ()))) (\<lambda>_.
     io_bind (io_when (de_BlockDevicePlugin env \<and> ns_Interfaces (state_Spec desired) \<noteq> []) (host_act env UnblockDevicePlugin)) (\<lambda>_.
       io_return RequeueAfter))"

text \<open>From the drain decision on.\<close>

definition drain_and_apply ::
    "daemon_env \<Rightarrow> SriovNetworkNodeState \<Rightarrow> bool \<Rightarrow> bool \<Rightarrow> SriovResult option \<Rightarrow> int \<Rightarrow> daemon_result dio" where
  "drain_and_apply env desired reqReboot reqDrain sriovResult latest =
     io_bind
       (if reqDrain \<or> \<not> has_anno desired NodeStateDrainAnnotationCurrent DrainIdle
        then handleDrain env desired reqReboot else io_return (False, desired)) (\<lambda>(drainInProcess, desired).
       if drainInProcess
       then io_bind (updateSyncState env desired SyncStatusInProgress (nst_LastSyncError (state_Status desired)) True) (\<lambda>_.
              io_return RequeueAfter)
       else if isDrainCompleted env reqDrain desired then daemon_apply env desired reqReboot sriovResult latest
       else io_return NoRequeue)"

definition configure ::
    "daemon_env \<Rightarrow> SriovNetworkNodeState \<Rightarrow> SriovResult option \<Rightarrow> bool \<Rightarrow> int \<Rightarrow> daemon_result dio" where
  "configure env desired sriovResult resultExists latest =
     io_bind (updateSyncState env desired SyncStatusInProgress (nst_LastSyncError (state_Status desired)) False) (\<lambda>desired.
       if om_Generation (state_Meta desired) \<noteq> latest then io_return RequeueAfter
       else
         io_bind (checkOnNodeStateChange env desired) (\<lambda>(reqReboot, reqDrain).
         if de_UsingSystemdMode env
         then
           io_bind (writeSystemdConfigFile env desired) (\<lambda>modified.
             let reqDrain = (reqDrain \<or> modified \<or> \<not> resultExists); reqReboot = (reqReboot \<or> reqDrain)
             in drain_and_apply env desired reqReboot reqDrain sriovResult latest)
         else drain_and_apply env desired reqReboot reqDrain sriovResult latest))"

definition check_state :: "daemon_env \<Rightarrow> SriovNetworkNodeState \<Rightarrow> daemon_result dio" where
  "check_state env current =
     (let latest = om_Generation (state_Meta current) in
      io_bind (updateStatusFromHost env current) (\<lambda>desired.
      io_handle (CheckSystemdStatus env)
        (\<lambda>_. io_bind (updateSyncState env desired SyncStatusFailed ''unexpected error'' False) (\<lambda>_. io_return NoRequeue))
        (\<lambda>(sriovResult, resultExists).
      io_bind (io_gets dw_LastAppliedGeneration) (\<lambda>lastApplied.
        if lastApplied = latest
        then io_bind (checkHostStateDrift env desired) (\<lambda>(drifted, desired).
               if \<not> drifted then refresh env current desired
               else configure env desired sriovResult resultExists latest)
        else configure env desired sriovResult resultExists latest))))"

definition Reconcile_daemon :: "daemon_env \<Rightarrow> string \<Rightarrow> daemon_result dio" where
  "Reconcile_daemon env nm =
     io_handle (read_state env nm)
       (\<lambda>e. if e = DaemonApi NotFound then io_return NoRequeue else io_fail e)
       (\<lambda>desired.
     io_bind (addRemoveExternalDrainerAnnotation env desired) (\<lambda>changed.
       if changed then io_return NoRequeue
       else if \<not> ObjectHasAnnotationKey (state_Meta desired) NodeStateDrainAnnotationCurrent \<or>
               \<not> ObjectHasAnnotationKey (state_Meta desired) NodeStateDrainAnnotation
       then io_return NoRequeue
       else check_state env desired))"

end
