(* ===== verification/Daemon_Safety.thy ===== *)
theory Daemon_Safety
  imports Daemon
begin

text \<open>
  What the config daemon does to a node only after the node was drained, and how often it reboots the node.
\<close>

section \<open>What the log of a reconciliation must satisfy\<close>

text \<open>The metadata of the node state that was read last, and whether a plugin asked for a drain.\<close>

definition last_meta :: "dlog \<Rightarrow> ObjectMeta option" where
  "last_meta l = fold (\<lambda>e m. case e of ReadState s \<Rightarrow> Some (state_Meta s) | _ \<Rightarrow> m) l None"

definition asked_drain :: "dlog \<Rightarrow> bool" where
  "asked_drain l = list_ex (\<lambda>e. case e of OnChange _ d _ \<Rightarrow> d | _ \<Rightarrow> False) l"

abbreviation drained :: "ObjectMeta \<Rightarrow> bool" where
  "drained m \<equiv> ObjectHasAnnotation m NodeStateDrainAnnotationCurrent DrainComplete"

text \<open>When an action may follow a log.\<close>

definition action_allowed :: "dlog \<Rightarrow> daemon_event \<Rightarrow> bool" where
  "action_allowed l e =
     (case last_meta l of
        None \<Rightarrow> False
      | Some m \<Rightarrow>
          (case e of
             RebootNode \<Rightarrow> drained m \<and> ObjectHasAnnotation m NodeStateDrainAnnotation RebootRequired
           | _ \<Rightarrow> drained m \<or> (ObjectHasAnnotation m NodeStateDrainAnnotation DrainIdle \<and> \<not> asked_drain l)))"

fun changes_node :: "daemon_event \<Rightarrow> bool" where
  "changes_node (ApplyPlugin _) = True"
| "changes_node RebootNode = True"
| "changes_node _ = False"

definition safe_log :: "dlog \<Rightarrow> bool" where
  "safe_log l \<longleftrightarrow> (\<forall>pre e post. l = pre @ e # post \<longrightarrow> changes_node e \<longrightarrow> action_allowed pre e)"

lemma safe_log_snoc: "safe_log (l @ [e]) \<longleftrightarrow> safe_log l \<and> (changes_node e \<longrightarrow> action_allowed l e)"
proof
  assume a: "safe_log (l @ [e])"
  have "action_allowed pre x" if "l = pre @ x # post" "changes_node x" for pre x post
    using a that unfolding safe_log_def by (metis append.assoc append_Cons)
  then show "safe_log l \<and> (changes_node e \<longrightarrow> action_allowed l e)" using a unfolding safe_log_def by blast
next
  assume a: "safe_log l \<and> (changes_node e \<longrightarrow> action_allowed l e)"
  show "safe_log (l @ [e])" unfolding safe_log_def
  proof (intro allI impI)
    fix pre x post assume l: "l @ [e] = pre @ x # post" and c: "changes_node x"
    show "action_allowed pre x"
    proof (cases post rule: rev_cases)
      case Nil
      then show ?thesis using l c a by simp
    next
      case (snoc ys y)
      then have "l = pre @ x # ys" using l by simp
      then show ?thesis using a c unfolding safe_log_def by blast
    qed
  qed
qed

lemma last_meta_append:
  "last_meta (l @ [e]) = (case e of ReadState s \<Rightarrow> Some (state_Meta s) | _ \<Rightarrow> last_meta l)"
  by (simp add: last_meta_def split: daemon_event.splits)

lemma asked_drain_append: "asked_drain (l @ [e]) = (asked_drain l \<or> (\<exists>n r. e = OnChange n True r))"
  by (auto simp: asked_drain_def split: daemon_event.splits)

section \<open>Triples\<close>

definition quiet_event :: "daemon_event \<Rightarrow> bool" where
  "quiet_event e = (case e of ReadState _ \<Rightarrow> False | OnChange _ d _ \<Rightarrow> \<not> d | _ \<Rightarrow> \<not> changes_node e)"

definition safe_world :: "bool \<Rightarrow> daemon_world \<Rightarrow> bool" where
  "safe_world no_drain w \<longleftrightarrow> safe_log (dw_Log w) \<and> (no_drain \<longrightarrow> \<not> asked_drain (dw_Log w))"

definition knows :: "ObjectMeta \<Rightarrow> bool \<Rightarrow> daemon_world \<Rightarrow> bool" where
  "knows M no_drain w \<longleftrightarrow> safe_world no_drain w \<and> last_meta (dw_Log w) = Some M"

lemma knows_safe: "knows M nd w \<Longrightarrow> safe_world nd w" "safe_world nd w \<Longrightarrow> safe_world False w"
  by (auto simp: knows_def safe_world_def)

lemma quiet_append:
  assumes "list_all quiet_event new"
  shows "safe_log l \<Longrightarrow> safe_log (l @ new)" "last_meta (l @ new) = last_meta l" "asked_drain (l @ new) = asked_drain l"
  using assms
proof (induction new rule: rev_induct)
  case (snoc e new)
  { case 1 then show ?case using snoc by (auto simp: safe_log_snoc quiet_event_def simp flip: append_assoc split: daemon_event.splits) }
  { case 2 then show ?case using snoc by (auto simp: last_meta_append quiet_event_def simp flip: append_assoc split: daemon_event.splits) }
  { case 3 then show ?case using snoc by (auto simp: asked_drain_append quiet_event_def simp flip: append_assoc split: daemon_event.splits) }
qed simp_all

lemma quiet_triple:
  assumes "emits dw_Log quiet_event m"
  shows "io_triple (knows M nd) m (\<lambda>_. knows M nd) (safe_world False)"
    and "io_triple (safe_world nd) m (\<lambda>_. safe_world nd) (safe_world False)"
    and "io_triple (safe_world nd) m (\<lambda>_. safe_world nd) (safe_world nd)"
proof -
  have "knows M nd w' \<and> safe_world nd w'" if k: "knows M nd w" and m: "m w = (r, w')" for w r w'
  proof -
    obtain new where "dw_Log w' = dw_Log w @ new" "list_all quiet_event new" by (rule emitsE[OF assms m])
    then show ?thesis using k quiet_append[of new "dw_Log w"] by (auto simp: knows_def safe_world_def)
  qed
  then show "io_triple (knows M nd) m (\<lambda>_. knows M nd) (safe_world False)"
    by (intro io_tripleI) (auto dest: knows_safe)
  have "safe_world nd w'" if k: "safe_world nd w" and m: "m w = (r, w')" for w r w'
  proof -
    obtain new where "dw_Log w' = dw_Log w @ new" "list_all quiet_event new" by (rule emitsE[OF assms m])
    then show ?thesis using k quiet_append[of new "dw_Log w"] by (auto simp: safe_world_def)
  qed
  then show "io_triple (safe_world nd) m (\<lambda>_. safe_world nd) (safe_world False)"
    "io_triple (safe_world nd) m (\<lambda>_. safe_world nd) (safe_world nd)"
    by (intro io_tripleI; auto dest: knows_safe)+
qed

lemma quiet_api [emits_rules]: "emits dw_Log quiet_event (api env m)"
  by (rule emitsI) (auto simp: api_def log_event_def quiet_event_def split: prod.splits)

lemma quiet_ask [emits_rules]: "emits dw_Log P (host_ask f)"
  by (rule emits_quiet) (simp add: host_ask_def)

lemma quiet_note [emits_rules]: "P e \<Longrightarrow> emits dw_Log P (note_event e)"
  by (rule emitsI) (simp add: note_event_def log_event_def)

lemma quiet_act [emits_rules]: "P e \<Longrightarrow> emits dw_Log P (host_act env e)"
  by (rule emitsI) (simp add: host_act_def log_event_def)

lemma quiet_annotate [emits_rules]: "emits dw_Log quiet_event (annotate env s v)"
  unfolding annotate_def by (intro emits_rules)

lemma quiet_host_status [emits_rules]: "emits dw_Log quiet_event (updateStatusFromHost env s)"
  unfolding updateStatusFromHost_def by (intro emits_rules)

lemma quiet_systemd [emits_rules]: "emits dw_Log quiet_event (CheckSystemdStatus env)"
  unfolding CheckSystemdStatus_def by (intro emits_rules)

lemma quiet_conf [emits_rules]: "emits dw_Log quiet_event (writeSystemdConfigFile env s)"
  unfolding writeSystemdConfigFile_def by (intro emits_rules) (simp_all add: quiet_event_def)

lemma quiet_drifted [emits_rules]: "emits dw_Log quiet_event (plugins_drifted ps s)"
  by (induction ps) (auto intro!: emits_rules)

lemma quiet_external [emits_rules]: "emits dw_Log quiet_event (addRemoveExternalDrainerAnnotation env s)"
  unfolding addRemoveExternalDrainerAnnotation_def Let_def by (intro emits_rules)

lemma quiet_handle_drain [emits_rules]: "emits dw_Log quiet_event (handleDrain env s b)"
  unfolding handleDrain_def Let_def by (intro emits_rules)

lemma read_triple: "io_triple (safe_world nd) (read_state env nm) (\<lambda>s. knows (state_Meta s) nd) (safe_world False)"
  unfolding read_state_def
proof (rule io_triple_bind[OF quiet_triple(2)[OF quiet_api]])
  fix s
  show "io_triple (safe_world nd) (io_bind (note_event (ReadState s)) (\<lambda>_. io_return s)) (\<lambda>s. knows (state_Meta s) nd) (safe_world False)"
    by (rule io_tripleI) (auto simp: io_bind_def note_event_def io_return_def log_event_def knows_def safe_world_def
      safe_log_snoc last_meta_append asked_drain_append)
qed

lemma read_again_triple:
  "io_triple (knows M nd) (io_bind (api env m) (\<lambda>_. io_bind (read_state env nm) (\<lambda>c. io_return (d\<lparr>state_Meta := state_Meta c\<rparr>))))
     (\<lambda>d. knows (state_Meta d) nd) (safe_world False)"
proof (rule io_triple_weaken[OF _ knows_safe(1)], rule io_triple_bind[OF quiet_triple(2)[OF quiet_api]],
    rule io_triple_bind[OF read_triple])
  fix c
  show "io_triple (knows (state_Meta c) nd) (io_return (d\<lparr>state_Meta := state_Meta c\<rparr>)) (\<lambda>d. knows (state_Meta d) nd) (safe_world False)"
    by (rule io_triple_return) simp
qed

lemma sync_triple:
  "io_triple (safe_world nd) (updateSyncState env d st msg b) (\<lambda>d. knows (state_Meta d) nd) (safe_world False)"
  unfolding updateSyncState_def Let_def
  by (intro io_triple_bind[OF read_triple] io_triple_bind[OF quiet_triple(1)[OF emits_gets]] io_triple_if
    read_again_triple io_triple_return) simp

section \<open>Decisions\<close>

text \<open>What the daemon relies on: a plugin that asks for a reboot asks for a drain.\<close>

definition reboot_drains :: "vendor_plugin \<Rightarrow> bool" where
  "reboot_drains p \<longleftrightarrow> (\<forall>l s d r. pl_OnNodeStateChange p l s = Inr (d, r) \<longrightarrow> r \<longrightarrow> d)"

definition decided :: "ObjectMeta \<Rightarrow> bool \<times> bool \<Rightarrow> daemon_world \<Rightarrow> bool" where
  "decided M rd w \<longleftrightarrow> knows M (\<not> snd rd) w \<and> (fst rd \<longrightarrow> snd rd)"

lemma plugin_change_triple:
  assumes "reboot_drains p"
  shows "io_triple (knows M nd) (plugin_change p s) (\<lambda>(d, r) w. knows M (nd \<and> \<not> d) w \<and> (r \<longrightarrow> d)) (safe_world False)"
proof (rule io_tripleI)
  fix w e w' assume "knows M nd w" "plugin_change p s w = (Inl e, w')"
  then show "safe_world False w'"
    by (cases "pl_OnNodeStateChange p (dw_Log w) s")
      (auto simp: plugin_change_def io_bind_def host_ask_def note_event_def io_return_def knows_def safe_world_def)
next
  fix w x w' assume "knows M nd w" "plugin_change p s w = (Inr x, w')"
  then show "(\<lambda>(d, r) w. knows M (nd \<and> \<not> d) w \<and> (r \<longrightarrow> d)) x w'"
    using assms by (cases "pl_OnNodeStateChange p (dw_Log w) s")
      (auto simp: plugin_change_def io_bind_def host_ask_def note_event_def io_return_def knows_def safe_world_def log_event_def
        safe_log_snoc last_meta_append asked_drain_append reboot_drains_def split: prod.splits)
qed

lemma plugins_change_triple:
  assumes "\<forall>p\<in>set ps. reboot_drains p"
  shows "io_triple (decided M (rb, dr)) (plugins_change ps s rb dr) (decided M) (safe_world False)"
  using assms
proof (induction ps arbitrary: rb dr)
  case Nil
  then show ?case by (simp add: io_triple_return)
next
  case (Cons p ps)
  have "io_triple (decided M (rb, dr)) (plugin_change p s) (\<lambda>(d, r) w. decided M (rb \<or> r, dr \<or> d) w) (safe_world False)"
  proof (rule io_triple_pre[where b = "rb \<longrightarrow> dr" and P' = "knows M (\<not> dr)"])
    assume b: "rb \<longrightarrow> dr"
    show "io_triple (knows M (\<not> dr)) (plugin_change p s) (\<lambda>(d, r) w. decided M (rb \<or> r, dr \<or> d) w) (safe_world False)"
      by (rule io_triple_conseq[OF plugin_change_triple[where M = M and nd = "\<not> dr"]])
        (use Cons.prems b in \<open>auto simp: decided_def\<close>)
  qed (simp add: decided_def)
  then have "io_triple (decided M (rb, dr)) (io_bind (plugin_change p s) (\<lambda>(d, r). plugins_change ps s (rb \<or> r) (dr \<or> d)))
      (decided M) (safe_world False)"
    by (rule io_triple_bind_pair) (use Cons in simp)
  then show ?case by simp
qed

lemma check_triple:
  assumes "reboot_drains (de_Main env)" and "\<forall>p\<in>set (de_Additional env). reboot_drains p"
  shows "io_triple (knows M True) (checkOnNodeStateChange env s) (decided M) (safe_world False)"
  unfolding checkOnNodeStateChange_def
proof (rule io_triple_bind_pair)
  show "io_triple (knows M True) (plugin_change (de_Main env) s) (\<lambda>(d, r) w. decided M (r, d) w) (safe_world False)"
    by (rule io_triple_conseq[OF plugin_change_triple[OF assms(1), where M = M and nd = True]]) (auto simp: decided_def)
  show "io_triple (decided M (r, d)) (plugins_change (de_Additional env) s r d) (decided M) (safe_world False)" for d r
    by (rule plugins_change_triple[OF assms(2)])
qed

lemma handleDrain_done:
  assumes "\<not> de_DisableDrain env" and "handleDrain env d rb w = (Inr (False, d'), w')"
  shows "d' = d \<and> drained (state_Meta d) \<and> (rb \<longrightarrow> has_anno d NodeStateDrainAnnotation RebootRequired)"
  using assms by (auto simp: handleDrain_def Let_def io_return_def io_bind_def split: if_splits prod.splits sum.splits)

lemma handleDrain_triple:
  assumes "\<not> de_DisableDrain env"
  shows "io_triple (knows M nd) (handleDrain env d rb)
    (\<lambda>(p, d') w. knows M nd w \<and>
      (\<not> p \<longrightarrow> d' = d \<and> drained (state_Meta d) \<and> (rb \<longrightarrow> has_anno d NodeStateDrainAnnotation RebootRequired))) (safe_world False)"
proof (rule io_tripleI)
  note t = quiet_triple(1)[OF quiet_handle_drain, of M nd env d rb]
  fix w e w' assume "knows M nd w" "handleDrain env d rb w = (Inl e, w')"
  then show "safe_world False w'" using io_tripleD[OF t] by fastforce
next
  note t = quiet_triple(1)[OF quiet_handle_drain, of M nd env d rb]
  fix w x w' assume k: "knows M nd w" and h: "handleDrain env d rb w = (Inr x, w')"
  have "knows M nd w'" using io_tripleD[OF t k h] by simp
  then show "(\<lambda>(p, d') w. knows M nd w \<and>
      (\<not> p \<longrightarrow> d' = d \<and> drained (state_Meta d) \<and> (rb \<longrightarrow> has_anno d NodeStateDrainAnnotation RebootRequired))) x w'"
    using handleDrain_done[OF assms] h by (cases x) auto
qed

section \<open>Applying\<close>

definition may_apply :: "ObjectMeta \<Rightarrow> bool \<Rightarrow> bool" where
  "may_apply M nd \<longleftrightarrow> drained M \<or> (ObjectHasAnnotation M NodeStateDrainAnnotation DrainIdle \<and> nd)"

definition may_reboot :: "ObjectMeta \<Rightarrow> bool" where
  "may_reboot M \<longleftrightarrow> drained M \<and> ObjectHasAnnotation M NodeStateDrainAnnotation RebootRequired"

lemma act_triple:
  assumes "may_apply M nd" and "e = RebootNode \<longrightarrow> may_reboot M" and "changes_node e"
  shows "io_triple (knows M nd) (host_act env e) (\<lambda>_. knows M nd) (safe_world False)"
proof -
  have "knows M nd (log_event e w)" if "knows M nd w" for w
  proof -
    have "action_allowed (dw_Log w) e" using that assms
      by (cases e) (auto simp: knows_def safe_world_def action_allowed_def may_apply_def may_reboot_def)
    then show ?thesis using that assms(3) by (cases e)
      (auto simp: knows_def safe_world_def log_event_def safe_log_snoc last_meta_append asked_drain_append)
  qed
  then show ?thesis by (intro io_tripleI) (auto simp: host_act_def dest: knows_safe)
qed

lemma quiet_read_tracker [emits_rules]: "emits dw_Log quiet_event (readTrackerFile env)"
  by (rule emits_quiet) (simp add: readTrackerFile_def split: option.splits)

lemma quiet_write_tracker [emits_rules]: "emits dw_Log quiet_event (writeTrackerFile env g n)"
  unfolding writeTrackerFile_def by (intro emits_rules) (simp_all add: quiet_event_def emits_quiet)

lemma quiet_get_count [emits_rules]: "emits dw_Log quiet_event (GetRebootCount env g)"
  unfolding GetRebootCount_def by (intro emits_rules)

lemma quiet_increment [emits_rules]: "emits dw_Log quiet_event (IncrementRebootCounter env g)"
  unfolding IncrementRebootCounter_def by (intro emits_rules)

lemma reboot_triple:
  assumes "may_reboot M"
  shows "io_triple (knows M nd) (reboot_if_allowed env d) (\<lambda>_. safe_world False) (safe_world False)"
proof -
  have r: "io_triple (knows M nd) (host_act env RebootNode) (\<lambda>_. knows M nd) (safe_world False)"
    by (rule act_triple) (use assms in \<open>simp_all add: may_apply_def may_reboot_def\<close>)
  have s: "io_triple (knows M nd) (updateSyncState env d st msg b) (\<lambda>d. knows (state_Meta d) nd) (safe_world False)" for st msg b
    by (rule io_triple_weaken[OF sync_triple]) (rule knows_safe)
  show ?thesis unfolding reboot_if_allowed_def Let_def
    by (intro io_triple_bind[OF quiet_triple(1)[OF quiet_get_count]] io_triple_if io_triple_bind[OF s]
      io_triple_bind[OF quiet_triple(1)[OF quiet_increment]] io_triple_bind[OF r] io_triple_return)
      (auto dest: knows_safe)
qed

text \<open>A function that does not change the node keeps the log safe.\<close>

abbreviation harmless :: "daemon_event \<Rightarrow> bool" where
  "harmless e \<equiv> \<not> changes_node e"

lemma harmless_triple:
  assumes "emits dw_Log harmless m"
  shows "io_triple (safe_world False) m (\<lambda>_. safe_world False) (safe_world False)"
proof -
  have a: "safe_log l \<Longrightarrow> list_all harmless new \<Longrightarrow> safe_log (l @ new)" for l new
    by (induction new rule: rev_induct) (auto simp: safe_log_snoc simp flip: append_assoc)
  have "safe_world False w'" if k: "safe_world False w" and m: "m w = (r, w')" for w r w'
  proof -
    obtain new where "dw_Log w' = dw_Log w @ new" "list_all harmless new" by (rule emitsE[OF assms m])
    then show ?thesis using k a by (simp add: safe_world_def)
  qed
  then show ?thesis by (intro io_tripleI)
qed

lemma quiet_harmless: "emits dw_Log quiet_event m \<Longrightarrow> emits dw_Log harmless m"
  by (erule emits_mono) (auto simp: quiet_event_def split: daemon_event.splits)

lemma harmless_read [emits_rules]: "emits dw_Log harmless (read_state env nm)"
  unfolding read_state_def by (intro emits_rules quiet_harmless[OF quiet_api]) simp

lemma harmless_sync [emits_rules]: "emits dw_Log harmless (updateSyncState env d st msg b)"
  unfolding updateSyncState_def Let_def by (intro emits_rules quiet_harmless[OF quiet_api])

lemma harmless_finish: "emits dw_Log harmless (finish_apply env d res g)"
proof -
  have q2: "emits dw_Log harmless (if de_UsingSystemdMode env
        then (case res of None \<Rightarrow> io_fail (DaemonPanic NilDereference) | Some r \<Rightarrow> io_return (sr_SyncStatus r, sr_LastSyncError r))
        else io_return (SyncStatusSucceeded, []))"
    by (auto intro: emits_rules split: option.splits)
  show ?thesis unfolding finish_apply_def ResetRebootCounter_def
    by (intro emits_bind[OF q2] emits_rules quiet_harmless[OF quiet_annotate] quiet_harmless[OF quiet_host_status]
      quiet_harmless[OF quiet_write_tracker] emits_quiet) auto
qed

lemma harmless_refresh: "emits dw_Log harmless (refresh env c d)"
  unfolding refresh_def by (intro emits_rules) auto

lemma apply_triple:
  assumes "may_apply M nd" and "rb \<longrightarrow> may_reboot M"
  shows "io_triple (knows M nd) (daemon_apply env d rb res g) (\<lambda>_. safe_world False) (safe_world False)"
proof -
  have p: "io_triple (knows M nd) (host_act env (ApplyPlugin n)) (\<lambda>_. knows M nd) (safe_world False)" for n
    by (rule act_triple[OF assms(1)]) simp_all
  have q: "emits dw_Log quiet_event (io_when b (host_act env RestartDevicePlugin))" for b
    by (intro emits_rules) (simp add: quiet_event_def)
  have f: "io_triple (knows M nd) (finish_apply env d res g) (\<lambda>_. safe_world False) (safe_world False)"
    by (rule io_triple_weaken[OF harmless_triple[OF harmless_finish]]) (auto dest: knows_safe)
  show ?thesis unfolding daemon_apply_def
    by (intro io_triple_bind[OF quiet_triple(1)[OF q]] io_triple_bind[OF io_triple_each[OF p]]
      io_triple_bind[OF io_triple_when[OF p]] io_triple_if f reboot_triple) (use assms(2) in simp_all)
qed

lemma drain_and_apply_triple:
  assumes "\<not> de_DisableDrain env"
  shows "io_triple (decided (state_Meta d) (rb, dr)) (drain_and_apply env d rb dr res g) (\<lambda>_. safe_world False) (safe_world False)"
proof (rule io_triple_pre[where b = "rb \<longrightarrow> dr" and P' = "knows (state_Meta d) (\<not> dr)"])
  assume b: "rb \<longrightarrow> dr"
  let ?M = "state_Meta d"
  let ?post = "\<lambda>(p, d') w. knows ?M (\<not> dr) w \<and> (\<not> p \<longrightarrow> d' = d \<and>
      (isDrainCompleted env dr d \<longrightarrow> may_apply ?M (\<not> dr) \<and> (rb \<longrightarrow> may_reboot ?M)))"
  have h: "io_triple (knows ?M (\<not> dr)) (if dr \<or> \<not> has_anno d NodeStateDrainAnnotationCurrent DrainIdle
      then handleDrain env d rb else io_return (False, d)) ?post (safe_world False)"
  proof (rule io_triple_if)
    show "io_triple (knows ?M (\<not> dr)) (handleDrain env d rb) ?post (safe_world False)"
      by (rule io_triple_conseq[OF handleDrain_triple[OF assms]]) (auto simp: may_apply_def may_reboot_def)
    assume "\<not> (dr \<or> \<not> has_anno d NodeStateDrainAnnotationCurrent DrainIdle)"
    then show "io_triple (knows ?M (\<not> dr)) (io_return (False, d)) ?post (safe_world False)"
      using b assms by (intro io_triple_return) (auto simp: isDrainCompleted_def may_apply_def)
  qed
  show "io_triple (knows ?M (\<not> dr)) (drain_and_apply env d rb dr res g) (\<lambda>_. safe_world False) (safe_world False)"
    unfolding drain_and_apply_def
  proof (rule io_triple_bind_pair[OF h])
    fix p d'
    let ?pre = "\<lambda>w. knows ?M (\<not> dr) w \<and> (\<not> p \<longrightarrow> d' = d \<and>
      (isDrainCompleted env dr d \<longrightarrow> may_apply ?M (\<not> dr) \<and> (rb \<longrightarrow> may_reboot ?M)))"
    show "io_triple ?pre (if p
       then io_bind (updateSyncState env d' SyncStatusInProgress (nst_LastSyncError (state_Status d')) True) (\<lambda>_. io_return RequeueAfter)
       else if isDrainCompleted env dr d' then daemon_apply env d' rb res g else io_return NoRequeue) (\<lambda>_. safe_world False) (safe_world False)"
    proof (rule io_triple_if)
      have "emits dw_Log harmless (io_bind (updateSyncState env d' SyncStatusInProgress (nst_LastSyncError (state_Status d')) True)
          (\<lambda>_. io_return RequeueAfter))"
        by (intro emits_rules)
      then show "io_triple ?pre (io_bind (updateSyncState env d' SyncStatusInProgress (nst_LastSyncError (state_Status d')) True)
          (\<lambda>_. io_return RequeueAfter)) (\<lambda>_. safe_world False) (safe_world False)"
        by (intro io_triple_weaken[OF harmless_triple]) (auto dest: knows_safe)
      assume np: "\<not> p"
      let ?ok = "d' = d \<and> (isDrainCompleted env dr d \<longrightarrow> may_apply ?M (\<not> dr) \<and> (rb \<longrightarrow> may_reboot ?M))"
      show "io_triple ?pre (if isDrainCompleted env dr d' then daemon_apply env d' rb res g else io_return NoRequeue)
          (\<lambda>_. safe_world False) (safe_world False)"
      proof (rule io_triple_pre[where b = ?ok and P' = "knows ?M (\<not> dr)"])
        show "\<And>w. ?pre w \<Longrightarrow> ?ok \<and> knows ?M (\<not> dr) w" using np by simp
        assume ?ok
        then show "io_triple (knows ?M (\<not> dr)) (if isDrainCompleted env dr d' then daemon_apply env d' rb res g else io_return NoRequeue)
            (\<lambda>_. safe_world False) (safe_world False)"
          by (intro io_triple_if apply_triple io_triple_return) (auto dest: knows_safe)
      qed
    qed
  qed
qed (simp add: decided_def)

section \<open>Reconcile\<close>

definition plugins_drain_first :: "daemon_env \<Rightarrow> bool" where
  "plugins_drain_first env \<longleftrightarrow> reboot_drains (de_Main env) \<and> (\<forall>p\<in>set (de_Additional env). reboot_drains p)"

lemma configure_triple:
  assumes "\<not> de_DisableDrain env" and "plugins_drain_first env"
  shows "io_triple (safe_world True) (configure env d res ex g) (\<lambda>_. safe_world False) (safe_world False)"
  unfolding configure_def
proof (rule io_triple_bind[OF sync_triple])
  fix d :: SriovNetworkNodeState
  let ?M = "state_Meta d"
  have go: "io_triple (decided ?M (rb, dr)) (drain_and_apply env d rb' dr' res g) (\<lambda>_. safe_world False) (safe_world False)"
    if "dr \<longrightarrow> dr'" "rb' \<longrightarrow> rb \<or> dr'" for rb dr rb' dr'
    by (rule io_triple_weaken[OF drain_and_apply_triple[OF assms(1)]])
      (use that in \<open>auto simp: decided_def knows_def safe_world_def\<close>)
  have conf: "io_triple (decided ?M rd) (writeSystemdConfigFile env d) (\<lambda>_. decided ?M rd) (safe_world False)" for rd
    unfolding decided_def
    by (rule io_triple_pre[where b = "fst rd \<longrightarrow> snd rd" and P' = "knows ?M (\<not> snd rd)"])
      (auto intro: io_triple_conseq[OF quiet_triple(1)[OF quiet_conf]])
  have c: "io_triple (knows ?M True) (checkOnNodeStateChange env d) (\<lambda>(rb, dr) w. decided ?M (rb, dr) w) (safe_world False)"
    using check_triple[of env ?M d] assms(2) by (simp add: plugins_drain_first_def)
  show "io_triple (knows ?M True) (if om_Generation ?M \<noteq> g then io_return RequeueAfter
       else io_bind (checkOnNodeStateChange env d) (\<lambda>(reqReboot, reqDrain).
         if de_UsingSystemdMode env
         then io_bind (writeSystemdConfigFile env d) (\<lambda>modified.
             let reqDrain = reqDrain \<or> modified \<or> \<not> ex; reqReboot = reqReboot \<or> reqDrain
             in drain_and_apply env d reqReboot reqDrain res g)
         else drain_and_apply env d reqReboot reqDrain res g)) (\<lambda>_. safe_world False) (safe_world False)"
    unfolding Let_def
    by (intro io_triple_if io_triple_return io_triple_bind_pair[OF c] io_triple_bind[OF conf] go) (auto dest: knows_safe)
qed

lemma drift_triple:
  "io_triple (safe_world True) (checkHostStateDrift env d) (\<lambda>_. safe_world True) (safe_world False)"
proof -
  have c: "emits dw_Log quiet_event (host_act env ClearPCIAddressFolder)" by (intro emits_rules) (simp add: quiet_event_def)
  have b: "emits dw_Log quiet_event (io_bind (plugins_drifted (de_Main env # de_Additional env) d) (\<lambda>b. io_return (b, d)))"
    by (intro emits_rules)
  show ?thesis unfolding checkHostStateDrift_def
    by (intro io_triple_if io_triple_bind[OF quiet_triple(2)[OF c]] io_triple_bind[OF sync_triple] io_triple_return
      quiet_triple(2)[OF b]) (auto dest: knows_safe)
qed

lemma check_state_triple:
  assumes "\<not> de_DisableDrain env" and "plugins_drain_first env"
  shows "io_triple (safe_world True) (check_state env s) (\<lambda>_. safe_world False) (safe_world False)"
proof -
  note cfg = configure_triple[OF assms]
  have h: "io_triple (safe_world True) (refresh env a b) (\<lambda>_. safe_world False) (safe_world False)" for a b
    by (rule io_triple_weaken[OF harmless_triple[OF harmless_refresh]]) (rule knows_safe)
  have f: "io_triple (safe_world True) (io_bind (updateSyncState env d SyncStatusFailed ''unexpected error'' False) (\<lambda>_. io_return NoRequeue))
      (\<lambda>_. safe_world False) (safe_world False)" for d
    by (intro io_triple_bind[OF sync_triple] io_triple_return) (auto dest: knows_safe)
  have c: "io_triple (safe_world True) (CheckSystemdStatus env) (\<lambda>_. safe_world True) (safe_world True)"
    by (rule quiet_triple(3)[OF quiet_systemd])
  show ?thesis unfolding check_state_def Let_def
    by (intro io_triple_bind[OF quiet_triple(2)[OF quiet_host_status]] io_triple_handle[OF c f])
      (auto intro!: io_triple_bind[OF quiet_triple(2)[OF emits_gets]] io_triple_if cfg io_triple_bind[OF drift_triple] h split: prod.splits)
qed

lemma Reconcile_daemon_triple:
  assumes "\<not> de_DisableDrain env" and "plugins_drain_first env"
  shows "io_triple (safe_world True) (Reconcile_daemon env nm) (\<lambda>_. safe_world False) (safe_world False)"
  unfolding Reconcile_daemon_def
proof (rule io_triple_handle[OF read_triple])
  show "io_triple (safe_world False) (if e = DaemonApi NotFound then io_return NoRequeue else io_fail e)
      (\<lambda>_. safe_world False) (safe_world False)" for e
    by (intro io_triple_if io_triple_return io_triple_fail)
  fix d :: SriovNetworkNodeState
  show "io_triple (knows (state_Meta d) True) (io_bind (addRemoveExternalDrainerAnnotation env d) (\<lambda>changed.
       if changed then io_return NoRequeue
       else if \<not> ObjectHasAnnotationKey (state_Meta d) NodeStateDrainAnnotationCurrent \<or>
               \<not> ObjectHasAnnotationKey (state_Meta d) NodeStateDrainAnnotation
       then io_return NoRequeue else check_state env d)) (\<lambda>_. safe_world False) (safe_world False)"
    by (rule io_triple_weaken[OF _ knows_safe(1)[of "state_Meta d" True]],
        rule io_triple_bind[OF quiet_triple(2)[OF quiet_external, of True]])
      (intro io_triple_if io_triple_return check_state_triple[OF assms]; simp add: knows_safe)
qed

text \<open>What the log of one reconciliation shows.\<close>

lemma reconcile_drains_first:
  assumes "\<not> de_DisableDrain env" and "plugins_drain_first env" and "dw_Log w = []"
    and "Reconcile_daemon env nm w = (r, w')" and "dw_Log w' = before @ e # later" and "changes_node e"
  shows "\<exists>m. last_meta before = Some m \<and>
    (drained m \<or> (ObjectHasAnnotation m NodeStateDrainAnnotation DrainIdle \<and> \<not> asked_drain before)) \<and>
    (e = RebootNode \<longrightarrow> drained m \<and> ObjectHasAnnotation m NodeStateDrainAnnotation RebootRequired)"
proof -
  have "safe_world True w" using assms(3) by (simp add: safe_world_def safe_log_def asked_drain_def)
  from io_tripleD[OF Reconcile_daemon_triple[OF assms(1,2)] this assms(4)] have "safe_log (dw_Log w')"
    by (simp add: safe_world_def split: sum.splits)
  then have "action_allowed before e" using assms(5,6) unfolding safe_log_def by blast
  then show ?thesis using assms(6) by (cases e) (auto simp: action_allowed_def split: option.splits)
qed

section \<open>An example\<close>

definition sample_plugin :: "string \<Rightarrow> bool \<Rightarrow> bool \<Rightarrow> vendor_plugin" where
  "sample_plugin nm d r = \<lparr>pl_Name = nm, pl_OnNodeStateChange = (\<lambda>_ _. Inr (d, r)), pl_CheckStatusChanges = (\<lambda>_ _. Inr False)\<rparr>"

definition sample_daemon_env :: "bool \<Rightarrow> daemon_env" where
  "sample_daemon_env reboot =
     \<lparr>de_Main = sample_plugin ''generic'' True reboot, de_Additional = [sample_plugin ''intel'' False False],
      de_Fail = (\<lambda>_ _. None), de_Others = (\<lambda>_ c. c), de_DiscoverSriovDevices = (\<lambda>_. Inr []),
      de_DiscoverBridges = (\<lambda>_. Inr \<lparr>bridges_OVS = []\<rparr>), de_DiscoverRDMASubsystem = (\<lambda>_. Inr ''shared''),
      de_ServiceEnabled = (\<lambda>_ _. Inr False), de_ReadSriovResult = (\<lambda>_. Inr None), de_ConfModified = (\<lambda>_. False),
      de_ReadTracker = (\<lambda>_. None), de_UsingSystemdMode = False, de_DisableDrain = False, de_UseExternalDrainer = False,
      de_ManageSoftwareBridges = False, de_BlockDevicePlugin = False\<rparr>"

definition sample_daemon_world :: "string \<Rightarrow> string \<Rightarrow> daemon_world" where
  "sample_daemon_world desired current =
     \<lparr>dw_Cluster = \<lparr>cl_Nodes = [sample_node ''n1''],
        cl_States = [''n1'' \<mapsto> (sample_state ''n1'')\<lparr>state_Meta := (sample_meta ''n1'')\<lparr>om_Annotations :=
          [NodeStateDrainAnnotation \<mapsto> desired, NodeStateDrainAnnotationCurrent \<mapsto> current]\<rparr>\<rparr>],
        cl_Pools = [], cl_Faults = [], cl_Clock = 0, cl_ConfigMap = None, cl_Networks = [], cl_Nads = Map.empty, cl_Namespaces = []\<rparr>,
      dw_LastAppliedGeneration = 0, dw_Tracker = None, dw_Log = []\<rparr>"

lemmas daemon_run_defs = io_run_defs Reconcile_daemon_def check_state_def configure_def drain_and_apply_def daemon_apply_def
  reboot_if_allowed_def updateSyncState_def read_state_def api_def host_ask_def host_act_def note_event_def log_event_def
  get_state_def addRemoveExternalDrainerAnnotation_def ObjectHasAnnotation_def ObjectHasAnnotationKey_def
  updateStatusFromHost_def CheckSystemdStatus_def checkOnNodeStateChange_def plugin_change_def handleDrain_def
  isDrainCompleted_def GetRebootCount_def readTrackerFile_def writeTrackerFile_def IncrementRebootCounter_def count_for_def
  apply_status_def StatusFieldsEqual_def

lemmas sample_daemon_defs = sample_daemon_env_def sample_daemon_world_def sample_plugin_def sample_defs

lemma sample_reboots:
  "\<exists>before. dw_Log (snd (Reconcile_daemon (sample_daemon_env True) ''n1'' (sample_daemon_world RebootRequired DrainComplete))) =
     before @ [RebootNode]"
  by (simp add: daemon_run_defs sample_daemon_defs Let_def map_err_def)

lemma sample_plugins: "plugins_drain_first (sample_daemon_env b)"
  by (simp add: plugins_drain_first_def reboot_drains_def sample_daemon_env_def sample_plugin_def)

end
