(* ===== verification/Daemon_Reboots.thy ===== *)
theory Daemon_Reboots
  imports Daemon_Safety
begin

text \<open>
  How often the config daemon reboots a node. A run is a sequence of reconciliations in changing environments, with restarts
  of the daemon and any change of the cluster in between; the log and the file of the reboot counter outlive both.
\<close>

section \<open>Runs\<close>

inductive daemon_run :: "daemon_world \<Rightarrow> daemon_world \<Rightarrow> bool" where
  start: "daemon_run w w"
| reconcile: "daemon_run w w1 \<Longrightarrow> Reconcile_daemon env nm w1 = (r, w2) \<Longrightarrow> daemon_run w w2"
| outside: "daemon_run w w1 \<Longrightarrow> dw_Log w2 = dw_Log w1 \<Longrightarrow> dw_Tracker w2 = dw_Tracker w1 \<Longrightarrow> daemon_run w w2"

section \<open>Counting\<close>

definition reboots :: "dlog \<Rightarrow> nat" where
  "reboots l = length (filter (\<lambda>e. e = RebootNode) l)"

text \<open>The counter is written only for one generation and not reset.\<close>

definition counts_for :: "int \<Rightarrow> dlog \<Rightarrow> bool" where
  "counts_for g l = list_all (\<lambda>e. case e of WriteTracker g' n \<Rightarrow> g' = g \<and> n \<noteq> 0 | _ \<Rightarrow> True) l"

definition counted :: "int \<Rightarrow> dlog \<Rightarrow> daemon_world \<Rightarrow> bool" where
  "counted g start w \<longleftrightarrow>
     (\<exists>new. dw_Log w = start @ new \<and>
       (counts_for g new \<longrightarrow> int (reboots new) \<le> count_for g (dw_Tracker w) \<and> int (reboots new) \<le> MaxRebootsPerGeneration))"

lemma counts_for_append [simp]: "counts_for g (xs @ ys) \<longleftrightarrow> counts_for g xs \<and> counts_for g ys"
  by (simp add: counts_for_def)

lemma reboots_append [simp]: "reboots (xs @ ys) = reboots xs + reboots ys"
  by (simp add: reboots_def)

lemma counted_log_event:
  assumes "counted g l w" and "e \<noteq> RebootNode" and "dw_Tracker w' = dw_Tracker w" and "dw_Log w' = dw_Log w @ [e]"
  shows "counted g l w'"
proof -
  obtain new where n: "dw_Log w = l @ new"
    "counts_for g new \<longrightarrow> int (reboots new) \<le> count_for g (dw_Tracker w) \<and> int (reboots new) \<le> 5"
    using assms(1) unfolding counted_def by blast
  have "reboots (new @ [e]) = reboots new" using assms(2) by (simp add: reboots_def)
  then show ?thesis using n assms(3,4) unfolding counted_def by (intro exI[of _ "new @ [e]"]) simp
qed

lemma counted_api [keeps_rules]: "io_keeps (counted g l) (api env m)"
  by (rule io_keepsI, rule counted_log_event[where e = ApiCall]) (simp_all add: api_def log_event_def split: prod.splits)

lemma counted_ask [keeps_rules]: "io_keeps (counted g l) (host_ask f)"
  by (rule io_keeps_same) (simp add: host_ask_def)

lemma counted_note [keeps_rules]: "e \<noteq> RebootNode \<Longrightarrow> io_keeps (counted g l) (note_event e)"
  by (rule io_keepsI) (auto simp: note_event_def log_event_def elim!: counted_log_event)

lemma counted_act [keeps_rules]: "e \<noteq> RebootNode \<Longrightarrow> io_keeps (counted g l) (host_act env e)"
  by (rule io_keepsI) (auto simp: host_act_def log_event_def elim!: counted_log_event)

lemma counted_read_tracker [keeps_rules]: "io_keeps (counted g l) (readTrackerFile env)"
  by (rule io_keeps_same) (simp add: readTrackerFile_def split: option.splits)

lemma counted_reset [keeps_rules]: "io_keeps (counted g l) (ResetRebootCounter env g')"
proof (rule io_keepsI)
  fix w assume "counted g l w"
  then obtain new where n: "dw_Log w = l @ new" unfolding counted_def by blast
  have "dw_Log (snd (ResetRebootCounter env g' w)) = l @ new @ [WriteTracker g' 0]"
    using n by (simp add: ResetRebootCounter_def writeTrackerFile_def io_bind_def host_act_def log_event_def split: option.splits)
  then show "counted g l (snd (ResetRebootCounter env g' w))"
    unfolding counted_def by (intro exI[of _ "new @ [WriteTracker g' 0]"]) (simp add: counts_for_def)
qed

text \<open>The increment and the reboot after it.\<close>

lemma counted_increment:
  assumes "counted g l w" and "count_for g' (dw_Tracker w) < MaxRebootsPerGeneration"
  shows "counted g l (snd (io_bind (IncrementRebootCounter env g') (\<lambda>_. io_bind (host_act env RebootNode) (\<lambda>_. io_return NoRequeue)) w))"
    (is "counted g l (snd (?m w))")
proof -
  obtain new where n: "dw_Log w = l @ new"
    "counts_for g new \<Longrightarrow> int (reboots new) \<le> count_for g (dw_Tracker w) \<and> int (reboots new) \<le> 5"
    using assms(1) unfolding counted_def by blast
  let ?c = "count_for g' (dw_Tracker w) + 1"
  consider (unread) "snd (?m w) = w"
    | (unwritten) "dw_Log (snd (?m w)) = l @ new @ [WriteTracker g' ?c]" "dw_Tracker (snd (?m w)) = dw_Tracker w"
    | (reboot) "dw_Log (snd (?m w)) = l @ new @ [WriteTracker g' ?c, RebootNode]" "dw_Tracker (snd (?m w)) = Some (g', ?c)"
    using n(1) by (cases "de_ReadTracker env (dw_Log w)"; cases "de_Fail env (dw_Log w) (WriteTracker g' ?c)")
      (simp_all add: IncrementRebootCounter_def readTrackerFile_def writeTrackerFile_def io_bind_def io_return_def host_act_def log_event_def
        split: option.splits)
  then show ?thesis
  proof cases
    case unread
    then show ?thesis using assms(1) by simp
  next
    case unwritten
    show ?thesis unfolding counted_def
      by (intro exI[of _ "new @ [WriteTracker g' ?c]"]) (use unwritten n(2) in \<open>auto simp: reboots_def\<close>)
  next
    case reboot
    have "int (reboots (new @ [WriteTracker g' ?c, RebootNode])) \<le> count_for g (Some (g', ?c)) \<and>
        int (reboots (new @ [WriteTracker g' ?c, RebootNode])) \<le> 5" if "counts_for g (new @ [WriteTracker g' ?c, RebootNode])"
    proof -
      have "g' = g" and "counts_for g new" using that by (simp_all add: counts_for_def)
      then show ?thesis using n(2) assms(2) by (simp add: reboots_def count_for_def)
    qed
    then show ?thesis unfolding counted_def
      by (intro exI[of _ "new @ [WriteTracker g' ?c, RebootNode]"]) (use reboot in simp)
  qed
qed

lemma counted_read_state [keeps_rules]: "io_keeps (counted g l) (read_state env nm)"
  unfolding read_state_def by (intro keeps_rules) simp

lemma counted_sync [keeps_rules]: "io_keeps (counted g l) (updateSyncState env d st msg b)"
  unfolding updateSyncState_def Let_def by (intro keeps_rules)

lemma counted_reboot [keeps_rules]: "io_keeps (counted g l) (reboot_if_allowed env d)"
proof (rule io_keepsI)
  fix w assume w: "counted g l w"
  let ?g = "om_Generation (state_Meta d)"
  let ?go = "io_bind (IncrementRebootCounter env ?g) (\<lambda>_. io_bind (host_act env RebootNode) (\<lambda>_. io_return NoRequeue))"
  let ?full = "io_bind (updateSyncState env d SyncStatusFailed reboot_limit_error False) (\<lambda>_. io_return NoRequeue)"
  have full: "counted g l (snd (?full w))" using w by (metis io_keeps_def keeps_bind counted_sync keeps_return)
  have "reboot_if_allowed env d w =
      (case de_ReadTracker env (dw_Log w) of Some e \<Rightarrow> (Inl (DaemonHost e), w)
       | None \<Rightarrow> if count_for ?g (dw_Tracker w) \<ge> MaxRebootsPerGeneration then ?full w else ?go w)"
    by (simp add: reboot_if_allowed_def Let_def GetRebootCount_def readTrackerFile_def io_bind_def[of "\<lambda>w. readTrackerFile env w"]
      io_bind_def[of "io_bind (readTrackerFile env) f" for f] io_bind_def[of "readTrackerFile env"] io_return_def split: option.splits)
  then show "counted g l (snd (reboot_if_allowed env d w))"
    using w full counted_increment[OF w, of ?g env] by (simp split: option.splits)
qed

section \<open>Reconcile\<close>

lemma counted_annotate [keeps_rules]: "io_keeps (counted g l) (annotate env s v)"
  unfolding annotate_def by (intro keeps_rules)

lemma counted_host_status [keeps_rules]: "io_keeps (counted g l) (updateStatusFromHost env s)"
  unfolding updateStatusFromHost_def by (intro keeps_rules)

lemma counted_systemd [keeps_rules]: "io_keeps (counted g l) (CheckSystemdStatus env)"
  unfolding CheckSystemdStatus_def by (intro keeps_rules)

lemma counted_conf [keeps_rules]: "io_keeps (counted g l) (writeSystemdConfigFile env s)"
  unfolding writeSystemdConfigFile_def by (intro keeps_rules) simp_all

lemma counted_drifted [keeps_rules]: "io_keeps (counted g l) (plugins_drifted ps s)"
  by (induction ps) (auto intro!: keeps_rules)

lemma counted_external [keeps_rules]: "io_keeps (counted g l) (addRemoveExternalDrainerAnnotation env s)"
  unfolding addRemoveExternalDrainerAnnotation_def Let_def by (intro keeps_rules)

lemma counted_handle_drain [keeps_rules]: "io_keeps (counted g l) (handleDrain env s b)"
  unfolding handleDrain_def Let_def by (intro keeps_rules)

lemma counted_plugin_change [keeps_rules]: "io_keeps (counted g l) (plugin_change p s)"
  unfolding plugin_change_def by (intro keeps_rules) simp

lemma counted_plugins_change [keeps_rules]: "io_keeps (counted g l) (plugins_change ps s rb dr)"
  by (induction ps arbitrary: rb dr) (auto intro!: keeps_rules)

lemma counted_check [keeps_rules]: "io_keeps (counted g l) (checkOnNodeStateChange env s)"
  unfolding checkOnNodeStateChange_def by (intro keeps_rules)

lemma counted_finish [keeps_rules]: "io_keeps (counted g l) (finish_apply env d res gen)"
proof -
  have r: "io_keeps (counted g l) (if de_UsingSystemdMode env
        then (case res of None \<Rightarrow> io_fail (DaemonPanic NilDereference) | Some r \<Rightarrow> io_return (sr_SyncStatus r, sr_LastSyncError r))
        else io_return (SyncStatusSucceeded, []))"
    by (auto intro: keeps_rules split: option.splits)
  have f: "io_keeps (counted g l) (\<lambda>w. (Inr RequeueAfter, w\<lparr>dw_LastAppliedGeneration := gen\<rparr>))"
    by (rule io_keepsI) (simp add: counted_def)
  show ?thesis unfolding finish_apply_def by (intro keeps_bind[OF r] keeps_rules f) simp_all
qed

lemma counted_apply [keeps_rules]: "io_keeps (counted g l) (daemon_apply env d rb res gen)"
  unfolding daemon_apply_def by (intro keeps_rules) simp_all

lemma counted_drain_and_apply [keeps_rules]: "io_keeps (counted g l) (drain_and_apply env d rb dr res gen)"
  unfolding drain_and_apply_def by (intro keeps_rules)

lemma counted_configure [keeps_rules]: "io_keeps (counted g l) (configure env d res ex gen)"
  unfolding configure_def Let_def by (intro keeps_rules)

lemma counted_refresh [keeps_rules]: "io_keeps (counted g l) (refresh env a b)"
  unfolding refresh_def by (intro keeps_rules) simp

lemma counted_drift [keeps_rules]: "io_keeps (counted g l) (checkHostStateDrift env d)"
  unfolding checkHostStateDrift_def by (intro keeps_rules) simp

lemma counted_check_state [keeps_rules]: "io_keeps (counted g l) (check_state env s)"
  unfolding check_state_def Let_def by (intro keeps_rules)

lemma counted_reconcile [keeps_rules]: "io_keeps (counted g l) (Reconcile_daemon env nm)"
  unfolding Reconcile_daemon_def by (intro keeps_rules)

lemma run_counted: "daemon_run w w' \<Longrightarrow> counted g l w \<Longrightarrow> counted g l w'"
proof (induction rule: daemon_run.induct)
  case (reconcile w w1 env nm r w2)
  then show ?case by (auto elim: io_keepsD[OF counted_reconcile])
next
  case (outside w w1 w2)
  then show ?case by (simp add: counted_def)
qed

text \<open>
  C2: The number of reboots is bounded. Over any number of reconciliations and restarts of the daemon, with any failures and
  any changes of the cluster in between, the daemon reboots the node at most five times as long as the counter is written for
  one generation of the node state only and is not reset, which happens only when a configuration was applied without a
  reboot. The hypothesis on the counter excludes a file that was edited to a negative count.
\<close>

theorem reboots_bounded:
  assumes "daemon_run w w'" and "0 \<le> count_for g (dw_Tracker w)"
    and "dw_Log w' = dw_Log w @ new" and "counts_for g new"
  shows "int (reboots new) \<le> MaxRebootsPerGeneration \<and> int (reboots new) \<le> count_for g (dw_Tracker w')"
proof -
  have "counted g (dw_Log w) w" using assms(2) by (simp add: counted_def counts_for_def reboots_def)
  then have "counted g (dw_Log w) w'" by (rule run_counted[OF assms(1)])
  then show ?thesis using assms(3,4) by (auto simp: counted_def)
qed

theorem reboots_bounded_witness:
  "\<exists>w' new. daemon_run (sample_daemon_world RebootRequired DrainComplete) w' \<and> dw_Log w' = new \<and> reboots new = 1 \<and>
     int (reboots new) \<le> MaxRebootsPerGeneration"
proof -
  let ?w = "sample_daemon_world RebootRequired DrainComplete"
  let ?run = "Reconcile_daemon (sample_daemon_env True) ''n1'' ?w"
  have r: "daemon_run ?w (snd ?run)" by (rule daemon_run.reconcile[OF daemon_run.start surjective_pairing])
  have t: "0 \<le> count_for 1 (dw_Tracker ?w)" "dw_Log ?w = []" by (simp_all add: sample_daemon_world_def count_for_def)
  have c: "counts_for 1 (dw_Log (snd ?run))" "reboots (dw_Log (snd ?run)) = 1"
    by (simp_all add: daemon_run_defs sample_daemon_defs Let_def map_err_def counts_for_def reboots_def)
  have "int (reboots (dw_Log (snd ?run))) \<le> MaxRebootsPerGeneration"
    using reboots_bounded[OF r t(1) _ c(1)] t(2) by simp
  then show ?thesis using r c(2) by blast
qed

end
