(* ===== verification/Generic_Plugin.thy ===== *)
theory Generic_Plugin
  imports Update_Check
begin

text \<open>
  The generic plugin of the config daemon (\<^verbatim>\<open>src/pkg/plugins/generic/generic_plugin.go\<close>): when a node has to be
  drained or rebooted, which kernel arguments and drivers the configuration needs, and the script that edits the
  kernel arguments (\<^verbatim>\<open>src/bindata/scripts/kargs.sh\<close>); also the plugins for virtual platforms and for Intel NICs. What
  the host answers is a record of functions, and the order in which Go iterates over a map is part of it.
\<close>

section \<open>Kernel arguments\<close>

abbreviation KernelArgPciRealloc :: string where "KernelArgPciRealloc \<equiv> ''pci=realloc''"
abbreviation KernelArgIntelIommu :: string where "KernelArgIntelIommu \<equiv> ''intel_iommu=on''"
abbreviation KernelArgIommuPt :: string where "KernelArgIommuPt \<equiv> ''iommu=pt''"
abbreviation KernelArgRdmaShared :: string where "KernelArgRdmaShared \<equiv> ''ib_core.netns_mode=1''"
abbreviation KernelArgRdmaExclusive :: string where "KernelArgRdmaExclusive \<equiv> ''ib_core.netns_mode=0''"

definition IsKernelArgsSet :: "string \<Rightarrow> string \<Rightarrow> bool" where
  "IsKernelArgsSet cmdLine karg = list_ex (\<lambda>element. element = karg) (Fields cmdLine)"

datatype need_driver = needDriverCheckDeviceType | needDriverCheckVdpaType

record DriverState =
  ds_DriverName :: string
  ds_DeviceType :: string
  ds_VdpaType :: string
  ds_NeedDriverFunc :: need_driver
  ds_DriverLoaded :: bool

definition NeedDriverFunc :: "DriverState \<Rightarrow> SriovNetworkNodeState \<Rightarrow> bool" where
  "NeedDriverFunc driverState state =
     list_ex (\<lambda>iface. list_ex (\<lambda>g. case ds_NeedDriverFunc driverState of
           needDriverCheckDeviceType \<Rightarrow> vg_DeviceType g = ds_DeviceType driverState
         | needDriverCheckVdpaType \<Rightarrow> vg_VdpaType g = ds_VdpaType driverState) (if_VfGroups iface))
       (ns_Interfaces (state_Spec state))"

text \<open>The drivers by their number and the desired kernel arguments.\<close>

record GenericPlugin =
  gp_DesireState :: "SriovNetworkNodeState option"
  gp_DriverStateMap :: "(nat \<times> DriverState) list"
  gp_DesiredKernelArgs :: "(string \<times> bool) list"
  gp_skipVFConfiguration :: bool
  gp_skipBridgeConfiguration :: bool

datatype CPUVendor = CPUVendorIntel | CPUVendorAMD | CPUVendorARM | CPUVendorS390X

datatype command_error = CommandNotFound | CommandError string

text \<open>
  What the host answers: the kernel command line, the CPU vendor, running the script, writing the RDMA mode, the saved
  configuration of a PF, loading a module, and the orders of iteration.
\<close>

record plugin_host =
  ph_Cmdline :: "string + string"
  ph_CpuVendor :: "string + CPUVendor"
  ph_Script :: "string \<Rightarrow> string \<Rightarrow> command_error option"
  ph_SetRdma :: "string \<Rightarrow> string option"
  ph_LoadPf :: "string \<Rightarrow> string + Interface option"
  ph_LoadModule :: "string \<Rightarrow> string option"
  ph_ManageBridges :: bool
  ph_KargOrder :: "(string \<times> bool) list \<Rightarrow> (string \<times> bool) list"
  ph_DriverOrder :: "(nat \<times> DriverState) list \<Rightarrow> (nat \<times> DriverState) list"

datatype plugin_error =
    PluginPanic panic
  | HostFailed string
  | UnexpectedRdmaMode string

definition NewGenericPlugin :: "plugin_host \<Rightarrow> bool \<Rightarrow> bool \<Rightarrow> plugin_error + GenericPlugin" where
  "NewGenericPlugin host skipVF skipBridge =
     res_bind (map_err HostFailed (ph_Cmdline host)) (\<lambda>kargs.
       Inr \<lparr>gp_DesireState = None,
            gp_DriverStateMap =
              [(0, \<lparr>ds_DriverName = ''vfio_pci'', ds_DeviceType = DeviceTypeVfioPci, ds_VdpaType = [],
                   ds_NeedDriverFunc = needDriverCheckDeviceType, ds_DriverLoaded = False\<rparr>),
               (1, \<lparr>ds_DriverName = ''virtio_vdpa'', ds_DeviceType = DeviceTypeNetDevice, ds_VdpaType = VdpaTypeVirtio,
                   ds_NeedDriverFunc = needDriverCheckVdpaType, ds_DriverLoaded = False\<rparr>),
               (2, \<lparr>ds_DriverName = ''vhost_vdpa'', ds_DeviceType = DeviceTypeNetDevice, ds_VdpaType = VdpaTypeVhost,
                   ds_NeedDriverFunc = needDriverCheckVdpaType, ds_DriverLoaded = False\<rparr>)],
            gp_DesiredKernelArgs =
              [(KernelArgPciRealloc, IsKernelArgsSet kargs KernelArgPciRealloc),
               (KernelArgIntelIommu, IsKernelArgsSet kargs KernelArgIntelIommu),
               (KernelArgIommuPt, IsKernelArgsSet kargs KernelArgIommuPt),
               (KernelArgRdmaShared, False), (KernelArgRdmaExclusive, False)],
            gp_skipVFConfiguration = skipVF, gp_skipBridgeConfiguration = skipBridge\<rparr>)"

text \<open>Assignment to a map that keeps the order in which keys were added.\<close>

fun put_karg :: "string \<Rightarrow> bool \<Rightarrow> (string \<times> bool) list \<Rightarrow> (string \<times> bool) list" where
  "put_karg k v [] = [(k, v)]"
| "put_karg k v ((j, w) # xs) = (if j = k then (k, v) # xs else (j, w) # put_karg k v xs)"

definition enableDesiredKernelArgs :: "string \<Rightarrow> GenericPlugin \<Rightarrow> GenericPlugin" where
  "enableDesiredKernelArgs karg p = p\<lparr>gp_DesiredKernelArgs := put_karg karg True (gp_DesiredKernelArgs p)\<rparr>"

definition disableDesiredKernelArgs :: "string \<Rightarrow> GenericPlugin \<Rightarrow> GenericPlugin" where
  "disableDesiredKernelArgs karg p = p\<lparr>gp_DesiredKernelArgs := put_karg karg False (gp_DesiredKernelArgs p)\<rparr>"

fun kargs_differ :: "string \<Rightarrow> (string \<times> bool) list \<Rightarrow> bool" where
  "kargs_differ kargs [] = False"
| "kargs_differ kargs ((karg, kargState) # rest) =
     (if kargState \<and> \<not> IsKernelArgsSet kargs karg then True
      else if \<not> kargState \<and> IsKernelArgsSet kargs karg then True
      else kargs_differ kargs rest)"

definition shouldUpdateKernelArgs :: "plugin_host \<Rightarrow> GenericPlugin \<Rightarrow> plugin_error + bool" where
  "shouldUpdateKernelArgs host p =
     res_bind (map_err HostFailed (ph_Cmdline host)) (\<lambda>kargs.
       Inr (kargs_differ kargs (ph_KargOrder host (gp_DesiredKernelArgs p))))"

definition editKernelArg :: "plugin_host \<Rightarrow> string \<Rightarrow> string \<Rightarrow> plugin_error + unit" where
  "editKernelArg host mode karg =
     (case ph_Script host mode karg of
        Some (CommandError e) \<Rightarrow> Inl (HostFailed e)
      | Some CommandNotFound \<Rightarrow> Inr ()
      | None \<Rightarrow> Inr ())"

text \<open>The loop of \<^verbatim>\<open>syncDesiredKernelArgs\<close>, with the edits that were run.\<close>

fun sync_kargs ::
    "plugin_host \<Rightarrow> string \<Rightarrow> (string \<times> bool) list \<Rightarrow> bool \<Rightarrow> (string \<times> string) list \<times> (plugin_error + bool)" where
  "sync_kargs host kargs [] needReboot = ([], Inr needReboot)"
| "sync_kargs host kargs ((karg, kargState) # rest) needReboot =
     (let mode = (if kargState then ''add'' else ''remove'') in
      case editKernelArg host mode karg of
        Inl e \<Rightarrow> ([(mode, karg)], Inl e)
      | Inr _ \<Rightarrow>
          let needReboot =
                (if kargState then (if \<not> IsKernelArgsSet kargs karg then True else needReboot)
                 else if IsKernelArgsSet kargs karg then True else needReboot)
          in case sync_kargs host kargs rest needReboot of (edits, r) \<Rightarrow> ((mode, karg) # edits, r))"

definition syncDesiredKernelArgs ::
    "plugin_host \<Rightarrow> GenericPlugin \<Rightarrow> (string \<times> string) list \<times> (plugin_error + bool)" where
  "syncDesiredKernelArgs host p =
     (case ph_Cmdline host of
        Inl e \<Rightarrow> ([], Inl (HostFailed e))
      | Inr kargs \<Rightarrow> sync_kargs host kargs (ph_KargOrder host (gp_DesiredKernelArgs p)) False)"

definition addVfioDesiredKernelArg :: "plugin_host \<Rightarrow> SriovNetworkNodeState \<Rightarrow> GenericPlugin \<Rightarrow> GenericPlugin" where
  "addVfioDesiredKernelArg host state p =
     (case map_of (gp_DriverStateMap p) 0 of
        None \<Rightarrow> p
      | Some driverState \<Rightarrow>
          if \<not> ds_DriverLoaded driverState \<and> NeedDriverFunc driverState state
          then case (case ph_CpuVendor host of Inl _ \<Rightarrow> CPUVendorIntel | Inr v \<Rightarrow> v) of
                 CPUVendorIntel \<Rightarrow> enableDesiredKernelArgs KernelArgIommuPt (enableDesiredKernelArgs KernelArgIntelIommu p)
               | CPUVendorAMD \<Rightarrow> enableDesiredKernelArgs KernelArgIommuPt p
               | CPUVendorARM \<Rightarrow> p
               | CPUVendorS390X \<Rightarrow> p
          else p)"

definition configRdmaKernelArg ::
    "plugin_host \<Rightarrow> SriovNetworkNodeState \<Rightarrow> GenericPlugin \<Rightarrow> GenericPlugin \<times> (plugin_error + unit)" where
  "configRdmaKernelArg host state p =
     (let mode = sys_RdmaMode (ns_System (state_Spec state));
          set = (case ph_SetRdma host mode of None \<Rightarrow> Inr () | Some e \<Rightarrow> Inl (HostFailed e))
      in if mode = [] then (disableDesiredKernelArgs KernelArgRdmaShared (disableDesiredKernelArgs KernelArgRdmaExclusive p), set)
         else if mode = ''shared''
         then (disableDesiredKernelArgs KernelArgRdmaExclusive (enableDesiredKernelArgs KernelArgRdmaShared p), set)
         else if mode = ''exclusive''
         then (disableDesiredKernelArgs KernelArgRdmaShared (enableDesiredKernelArgs KernelArgRdmaExclusive p), set)
         else (p, Inl (UnexpectedRdmaMode mode)))"

definition needRebootNode ::
    "plugin_host \<Rightarrow> SriovNetworkNodeState \<Rightarrow> GenericPlugin \<Rightarrow> GenericPlugin \<times> (string \<times> string) list \<times> (plugin_error + bool)" where
  "needRebootNode host state p =
     (case configRdmaKernelArg host state (addVfioDesiredKernelArg host state p) of
        (p, Inl e) \<Rightarrow> (p, [], Inl e)
      | (p, Inr _) \<Rightarrow> (case syncDesiredKernelArgs host p of (edits, r) \<Rightarrow> (p, edits, r)))"

section \<open>Drain decision\<close>

text \<open>The inner loop over the desired interfaces: whether the address was found, and whether a drain is needed.\<close>

fun iface_needs_drain :: "InterfaceExt \<Rightarrow> Interface list \<Rightarrow> bool \<Rightarrow> panic + bool \<times> bool" where
  "iface_needs_drain ifaceStatus [] configured = Inr (configured, False)"
| "iface_needs_drain ifaceStatus (iface # rest) configured =
     (if if_PciAddress iface = ie_PciAddress ifaceStatus
      then if ie_NumVfs ifaceStatus = 0 then Inr (True, False)
           else res_bind (NeedToUpdateSriov iface ifaceStatus) (\<lambda>b.
                  if b then Inr (True, True) else iface_needs_drain ifaceStatus rest True)
      else iface_needs_drain ifaceStatus rest configured)"

fun needToUpdateVFs ::
    "(string \<Rightarrow> string + Interface option) \<Rightarrow> Interface list \<Rightarrow> InterfaceExt list \<Rightarrow> panic + bool" where
  "needToUpdateVFs load desired [] = Inr False"
| "needToUpdateVFs load desired (ifaceStatus # rest) =
     res_bind (iface_needs_drain ifaceStatus desired False) (\<lambda>(configured, drain).
       if drain then Inr True
       else if \<not> configured \<and> ie_NumVfs ifaceStatus > 0
       then case load (ie_PciAddress ifaceStatus) of
              Inl _ \<Rightarrow> needToUpdateVFs load desired rest
            | Inr None \<Rightarrow> needToUpdateVFs load desired rest
            | Inr (Some pfStatus) \<Rightarrow>
                if if_ExternallyManaged pfStatus then needToUpdateVFs load desired rest else Inr True
       else needToUpdateVFs load desired rest)"

definition shouldConfigureBridges :: "plugin_host \<Rightarrow> GenericPlugin \<Rightarrow> bool" where
  "shouldConfigureBridges host p = (ph_ManageBridges host \<and> \<not> gp_skipBridgeConfiguration p)"

definition needDrainNode ::
    "plugin_host \<Rightarrow> GenericPlugin \<Rightarrow> SriovNetworkNodeStateSpec \<Rightarrow> SriovNetworkNodeStateStatus \<Rightarrow> panic + bool" where
  "needDrainNode host p desired current =
     res_bind (needToUpdateVFs (ph_LoadPf host) (ns_Interfaces desired) (nst_Interfaces current)) (\<lambda>b.
       if b then Inr True
       else if shouldConfigureBridges host p then Inr (NeedToUpdateBridges (ns_Bridges desired) (nst_Bridges current))
       else Inr False)"

section \<open>Operations of the plugin\<close>

text \<open>
  \<^verbatim>\<open>OnNodeStateChange\<close>: the plugin after it, the edits of kernel arguments that were run, and drain, reboot and the
  error; a panic ends the daemon.
\<close>

definition gen_OnNodeStateChange ::
    "plugin_host \<Rightarrow> SriovNetworkNodeState \<Rightarrow> GenericPlugin \<Rightarrow>
     panic + GenericPlugin \<times> (string \<times> string) list \<times> bool \<times> bool \<times> plugin_error option" where
  "gen_OnNodeStateChange host new p =
     (let p = p\<lparr>gp_DesireState := Some new\<rparr> in
      res_bind (needDrainNode host p (state_Spec new) (state_Status new)) (\<lambda>needDrain.
        case needRebootNode host new p of
          (p, edits, Inl e) \<Rightarrow> Inr (p, edits, needDrain, False, Some e)
        | (p, edits, Inr needReboot) \<Rightarrow> Inr (p, edits, (if needReboot then True else needDrain), needReboot, None)))"

definition rdmaModeNeedsUpdate :: "SriovNetworkNodeState \<Rightarrow> bool" where
  "rdmaModeNeedsUpdate state =
     (if sys_RdmaMode (ns_System (state_Spec state)) = [] then False
      else sys_RdmaMode (ns_System (state_Spec state)) \<noteq> sys_RdmaMode (nst_System (state_Status state)))"

fun iface_changed :: "Interface \<Rightarrow> InterfaceExt list \<Rightarrow> panic + bool" where
  "iface_changed iface [] = Inr False"
| "iface_changed iface (ifaceStatus # rest) =
     (if if_PciAddress iface = ie_PciAddress ifaceStatus \<and> \<not> if_ExternallyManaged iface
      then NeedToUpdateSriov iface ifaceStatus
      else iface_changed iface rest)"

fun ifaces_changed :: "InterfaceExt list \<Rightarrow> Interface list \<Rightarrow> panic + bool" where
  "ifaces_changed status [] = Inr False"
| "ifaces_changed status (iface # rest) =
     res_bind (iface_changed iface status) (\<lambda>b. if b then Inr True else ifaces_changed status rest)"

definition gen_CheckStatusChanges :: "plugin_host \<Rightarrow> GenericPlugin \<Rightarrow> SriovNetworkNodeState \<Rightarrow> plugin_error + bool" where
  "gen_CheckStatusChanges host p current =
     res_bind (map_err PluginPanic (ifaces_changed (nst_Interfaces (state_Status current)) (ns_Interfaces (state_Spec current))))
       (\<lambda>b.
     if b then Inr True
     else if shouldConfigureBridges host p \<and>
             NeedToUpdateBridges (ns_Bridges (state_Spec current)) (nst_Bridges (state_Status current)) then Inr True
     else if rdmaModeNeedsUpdate current then Inr True
     else shouldUpdateKernelArgs host p)"

text \<open>\<^verbatim>\<open>syncDriverState\<close>: the drivers after it, the modules that were loaded, and the error.\<close>

fun load_drivers ::
    "plugin_host \<Rightarrow> SriovNetworkNodeState \<Rightarrow> (nat \<times> DriverState) list \<Rightarrow> (nat \<times> DriverState) list \<Rightarrow>
     (nat \<times> DriverState) list \<times> string list \<times> plugin_error option" where
  "load_drivers host state [] drivers = (drivers, [], None)"
| "load_drivers host state ((n, driverState) # rest) drivers =
     (if \<not> ds_DriverLoaded driverState \<and> NeedDriverFunc driverState state
      then case ph_LoadModule host (ds_DriverName driverState) of
             Some e \<Rightarrow> (drivers, [], Some (HostFailed e))
           | None \<Rightarrow>
               (case load_drivers host state rest
                   (map (\<lambda>(j, d). if j = n then (j, d\<lparr>ds_DriverLoaded := True\<rparr>) else (j, d)) drivers) of
                  (drivers, loaded, e) \<Rightarrow> (drivers, ds_DriverName driverState # loaded, e))
      else load_drivers host state rest drivers)"

definition syncDriverState :: "plugin_host \<Rightarrow> GenericPlugin \<Rightarrow> GenericPlugin \<times> string list \<times> (plugin_error + unit)" where
  "syncDriverState host p =
     (case gp_DesireState p of
        None \<Rightarrow> (p, [], Inl (PluginPanic NilDereference))
      | Some state \<Rightarrow>
          (case load_drivers host state (ph_DriverOrder host (gp_DriverStateMap p)) (gp_DriverStateMap p) of
             (drivers, loaded, e) \<Rightarrow>
               (p\<lparr>gp_DriverStateMap := drivers\<rparr>, loaded, case e of None \<Rightarrow> Inr () | Some e \<Rightarrow> Inl e)))"

text \<open>
  \<^verbatim>\<open>SetRDMASubsystem\<close> of \<^verbatim>\<open>src/pkg/host/internal/network/network.go\<close>: the file is removed (\<open>remove\<close> is the error, with
  whether it is \<^verbatim>\<open>ErrNotExist\<close>) or written with the given text.
\<close>

definition SetRDMASubsystem :: "(bool \<times> string) option \<Rightarrow> (string \<Rightarrow> string option) \<Rightarrow> string \<Rightarrow> string option" where
  "SetRDMASubsystem remove write mode =
     (if mode = []
      then (case remove of None \<Rightarrow> None | Some (notExist, e) \<Rightarrow> if notExist then None else Some e)
      else
        let modeValue = (if mode = ''exclusive'' then 0 else 1) in
        case write (''# This file is managed by sriov-network-operator do not edit.'' @ [CHR 0x0A] @
                    ''options ib_core netns_mode='' @ itoa modeValue @ [CHR 0x0A]) of
          None \<Rightarrow> None
        | Some e \<Rightarrow> Some (''failed to write sriov_network_operator_modules_config.conf: '' @ e))"

section \<open>Virtual and Intel plugins\<close>

datatype vfio_load = vfio_unloaded | vfio_loading | vfio_loaded

record VirtualPlugin =
  vp_DesireState :: "SriovNetworkNodeState option"
  vp_LastState :: "SriovNetworkNodeState option"
  vp_LoadVfioDriver :: vfio_load

definition NewVirtualPlugin :: VirtualPlugin where
  "NewVirtualPlugin = \<lparr>vp_DesireState = None, vp_LastState = None, vp_LoadVfioDriver = vfio_unloaded\<rparr>"

definition needVfioDriver :: "SriovNetworkNodeState \<Rightarrow> bool" where
  "needVfioDriver state =
     list_ex (\<lambda>iface. list_ex (\<lambda>g. vg_DeviceType g = DeviceTypeVfioPci) (if_VfGroups iface))
       (ns_Interfaces (state_Spec state))"

fun virt_needDrainNode :: "plugin_host \<Rightarrow> Interface list \<Rightarrow> InterfaceExt list \<Rightarrow> bool" where
  "virt_needDrainNode host desired [] = False"
| "virt_needDrainNode host desired (ifaceStatus # rest) =
     (if list_ex (\<lambda>iface. if_PciAddress iface = ie_PciAddress ifaceStatus) desired
      then virt_needDrainNode host desired rest
      else case ph_LoadPf host (ie_PciAddress ifaceStatus) of
             Inl _ \<Rightarrow> virt_needDrainNode host desired rest
           | Inr None \<Rightarrow> virt_needDrainNode host desired rest
           | Inr (Some pfStatus) \<Rightarrow>
               if if_ExternallyManaged pfStatus then virt_needDrainNode host desired rest else True)"

definition virt_OnNodeStateChange :: "plugin_host \<Rightarrow> SriovNetworkNodeState \<Rightarrow> VirtualPlugin \<Rightarrow> VirtualPlugin \<times> bool \<times> bool" where
  "virt_OnNodeStateChange host new p =
     (let p = p\<lparr>vp_DesireState := Some new\<rparr>;
          p = (if vp_LoadVfioDriver p \<noteq> vfio_loaded \<and> needVfioDriver new then p\<lparr>vp_LoadVfioDriver := vfio_loading\<rparr> else p)
      in (p, virt_needDrainNode host (ns_Interfaces (state_Spec new)) (nst_Interfaces (state_Status new)), False))"

definition intel_OnNodeStateChange :: "SriovNetworkNodeState \<Rightarrow> bool \<times> bool" where
  "intel_OnNodeStateChange _ = (False, False)"

section \<open>The script that edits the kernel arguments\<close>

text \<open>
  \<^verbatim>\<open>kargs.sh\<close>: \<open>args\<close> is the running command line, \<open>pending\<close> the arguments of the boot entry, printed on one line.
  \<^verbatim>\<open>grep\<close> reads the argument as a pattern, in which a dot stands for any character. \<open>del\<close> is the tool's removal of an
  argument.
\<close>

fun re_prefix :: "string \<Rightarrow> string \<Rightarrow> bool" where
  "re_prefix [] s = True"
| "re_prefix (p # ps) [] = False"
| "re_prefix (p # ps) (c # cs) = ((p = CHR ''.'' \<or> p = c) \<and> re_prefix ps cs)"

fun grep_line :: "string \<Rightarrow> string \<Rightarrow> bool" where
  "grep_line t [] = re_prefix t []"
| "grep_line t (c # cs) = (re_prefix t (c # cs) \<or> grep_line t cs)"

definition kargs_sh ::
    "(string \<Rightarrow> string list \<Rightarrow> string list) \<Rightarrow> bool \<Rightarrow> string \<Rightarrow> string \<Rightarrow> string \<Rightarrow> string list \<Rightarrow> string list" where
  "kargs_sh del is_os_ubuntu command t args pending =
     (if is_os_ubuntu then pending
      else if command = ''add''
      then if \<not> contains_str args t
           then if \<not> grep_line t (join_with '' '' pending) then pending @ [t] else pending
           else pending
      else if command = ''remove''
      then if contains_str args t
           then if grep_line t (join_with '' '' pending) then del t pending else pending
           else pending
      else pending)"

definition run_edits ::
    "(string \<Rightarrow> string list \<Rightarrow> string list) \<Rightarrow> bool \<Rightarrow> string \<Rightarrow> (string \<times> string) list \<Rightarrow> string list \<Rightarrow> string list" where
  "run_edits del ubuntu args edits = fold (\<lambda>(mode, t) pending. kargs_sh del ubuntu mode t args pending) edits"

section \<open>Convergence of the kernel arguments\<close>

lemma contains_append: "contains_str s t \<Longrightarrow> contains_str (u @ s) t"
  unfolding contains_str_iff by (metis append_assoc)

lemma contains_prefix: "contains_str (t @ s) t"
  unfolding contains_str_iff by (metis append_Nil)

lemma fields_from_contained: "w \<in> set (fields_from word s) \<Longrightarrow> contains_str (word @ s) w"
proof (induction word s rule: fields_from.induct)
  case (1 word)
  then show ?case using contains_prefix[of word "[]"] by (simp split: if_splits)
next
  case (2 word c cs)
  let ?n = "space_len (c # cs)"
  show ?case
  proof (cases "?n = 0")
    case True
    then show ?thesis using 2 by (simp add: Let_def)
  next
    case False
    then consider "w = word" | "w \<in> set (fields_from [] (drop (?n - 1) cs))"
      using 2(3) by (auto simp: Let_def split: if_splits)
    then show ?thesis
    proof cases
      case 1
      then show ?thesis using contains_prefix[of word "c # cs"] by simp
    next
      case 2
      then have "contains_str (drop (?n - 1) cs) w" using "2.IH"(2)[OF refl False] by simp
      then have "contains_str ((word @ c # take (?n - 1) cs) @ drop (?n - 1) cs) w" by (rule contains_append)
      then show ?thesis by simp
    qed
  qed
qed

lemma Fields_contained: "w \<in> set (Fields s) \<Longrightarrow> contains_str s w"
  unfolding Fields_def using fields_from_contained[of w "[]" s] by simp

lemma re_prefix_refl: "re_prefix t (t @ s)"
  by (induction t) auto

lemma grep_append: "grep_line t s \<Longrightarrow> grep_line t (u @ s)"
  by (induction u) auto

lemma re_prefix_grep: "re_prefix t s \<Longrightarrow> grep_line t s"
  by (cases s) auto

lemma grep_member: "t \<in> set P \<Longrightarrow> grep_line t (join_with '' '' P)"
proof (induction P rule: induct_list012)
  case (2 w)
  then show ?case using re_prefix_grep[OF re_prefix_refl[of t "[]"]] by simp
next
  case (3 w v P)
  then consider "t = w" | "t \<in> set (v # P)" by auto
  then show ?case
  proof cases
    case 1
    then show ?thesis using re_prefix_grep[OF re_prefix_refl] by simp
  next
    case 2
    then have "grep_line t ((w @ '' '') @ join_with '' '' (v # P))" by (intro grep_append 3(2))
    then show ?thesis by simp
  qed
qed simp

lemma IsKernelArgsSet_iff: "IsKernelArgsSet s k \<longleftrightarrow> k \<in> set (Fields s)"
  by (auto simp: IsKernelArgsSet_def list_ex_iff)

lemma kargs_differ_iff: "kargs_differ args ks \<longleftrightarrow> (\<exists>(k, s) \<in> set ks. IsKernelArgsSet args k \<noteq> s)"
  by (induction args ks rule: kargs_differ.induct) auto

definition karg_edit :: "string \<times> bool \<Rightarrow> string \<times> string" where
  "karg_edit p = (if snd p then ''add'' else ''remove'', fst p)"

lemma karg_edit_pair [simp]: "karg_edit (t, s) = (if s then ''add'' else ''remove'', t)"
  by (simp add: karg_edit_def)

lemma sync_kargs_Inr:
  "sync_kargs host args ks need = (edits, Inr r) \<Longrightarrow> r = (need \<or> kargs_differ args ks) \<and> edits = map karg_edit ks"
  by (induction host args ks need arbitrary: edits rule: sync_kargs.induct)
    (auto simp: Let_def karg_edit_def split: sum.splits prod.splits if_splits)

text \<open>
  No argument occurs only as a part of other arguments when it is edited: then the tests of the script, which look for
  the text of the argument, are tests for the argument.
\<close>

fun clean_run :: "(string \<Rightarrow> string list \<Rightarrow> string list) \<Rightarrow> string \<Rightarrow> (string \<times> string) list \<Rightarrow> string list \<Rightarrow> bool" where
  "clean_run del args [] pending = True"
| "clean_run del args ((mode, t) # edits) pending =
     ((contains_str args t \<longrightarrow> t \<in> set (Fields args)) \<and>
      (grep_line t (join_with '' '' pending) \<longrightarrow> t \<in> set pending) \<and>
      clean_run del args edits (kargs_sh del False mode t args pending))"

lemma kargs_sh_clean:
  assumes "contains_str args t \<longrightarrow> t \<in> set (Fields args)" and "grep_line t (join_with '' '' P) \<longrightarrow> t \<in> set P"
    and "t \<in> set P \<longleftrightarrow> t \<in> set (Fields args)" and "\<forall>t P. set (del t P) = set P - {t}"
    and "mode = (if s then ''add'' else ''remove'')"
  shows "x \<in> set (kargs_sh del False mode t args P) \<longleftrightarrow> (if x = t then s else x \<in> set P)"
proof -
  have d: "set (del t P) = set P - {t}" using assms(4) by blast
  show ?thesis
  proof (cases s)
    case True
    then show ?thesis using assms(1,2,3,5) by (auto simp: kargs_sh_def)
  next
    case False
    then have m: "kargs_sh del False mode t args P =
        (if contains_str args t then if grep_line t (join_with '' '' P) then del t P else P else P)"
      using assms(5) by (simp add: kargs_sh_def)
    show ?thesis unfolding m using d assms(3) Fields_contained[of t args] grep_member[of t P] False by auto
  qed
qed

lemma run_edits_clean:
  assumes "clean_run del args (map karg_edit ks) P" and "distinct (map fst ks)"
    and "\<forall>k\<in>fst ` set ks. k \<in> set P \<longleftrightarrow> k \<in> set (Fields args)" and "\<forall>t P. set (del t P) = set P - {t}"
  shows "x \<in> set (run_edits del False args (map karg_edit ks) P) \<longleftrightarrow>
    (case map_of ks x of Some s \<Rightarrow> s | None \<Rightarrow> x \<in> set P)"
  using assms(1-3)
proof (induction ks arbitrary: P)
  case (Cons p ks)
  obtain t s where p: "p = (t, s)" by fastforce
  let ?m = "if s then ''add'' else ''remove''" and ?P = "kargs_sh del False (if s then ''add'' else ''remove'') t args P"
  have e: "y \<in> set ?P \<longleftrightarrow> (if y = t then s else y \<in> set P)" for y
    by (rule kargs_sh_clean[OF _ _ _ assms(4) refl]) (use Cons.prems p in auto)
  have ih: "x \<in> set (run_edits del False args (map karg_edit ks) ?P) \<longleftrightarrow>
      (case map_of ks x of Some s \<Rightarrow> s | None \<Rightarrow> x \<in> set ?P)"
  proof (rule Cons.IH)
    show "clean_run del args (map karg_edit ks) ?P" using Cons.prems(1) by (simp add: p split del: if_split)
    show "distinct (map fst ks)" using Cons.prems(2) by simp
    show "\<forall>k\<in>fst ` set ks. k \<in> set ?P \<longleftrightarrow> k \<in> set (Fields args)" using Cons.prems(2,3) e by (auto simp: p)
  qed
  have n: "map_of ks t = None" using Cons.prems(2) by (simp add: p map_of_eq_None_iff)
  have r: "run_edits del False args (map karg_edit (p # ks)) P = run_edits del False args (map karg_edit ks) ?P"
    by (simp add: p run_edits_def)
  show ?case unfolding r unfolding ih e using n by (cases "x = t") (simp_all add: p)
qed (simp add: run_edits_def)

text \<open>The arguments that a plugin created on a command line wants for a node state.\<close>

definition wanted_kargs :: "plugin_host \<Rightarrow> string \<Rightarrow> SriovNetworkNodeState \<Rightarrow> (string \<times> bool) list" where
  "wanted_kargs host args state =
     (let mode = sys_RdmaMode (ns_System (state_Spec state));
          cpu = (case ph_CpuVendor host of Inl _ \<Rightarrow> CPUVendorIntel | Inr v \<Rightarrow> v)
      in [(KernelArgPciRealloc, IsKernelArgsSet args KernelArgPciRealloc),
          (KernelArgIntelIommu, IsKernelArgsSet args KernelArgIntelIommu \<or> (needVfioDriver state \<and> cpu = CPUVendorIntel)),
          (KernelArgIommuPt, IsKernelArgsSet args KernelArgIommuPt \<or> (needVfioDriver state \<and> cpu \<in> {CPUVendorIntel, CPUVendorAMD})),
          (KernelArgRdmaShared, mode = ''shared''), (KernelArgRdmaExclusive, mode = ''exclusive'')])"

lemma add_vfio_fresh:
  assumes "NewGenericPlugin host sv sb = Inr p" and "ph_Cmdline host = Inr args"
  shows "gp_DesiredKernelArgs (addVfioDesiredKernelArg host state p) =
    take 3 (wanted_kargs host args state) @ [(KernelArgRdmaShared, False), (KernelArgRdmaExclusive, False)]"
proof -
  have v: "NeedDriverFunc \<lparr>ds_DriverName = n, ds_DeviceType = DeviceTypeVfioPci, ds_VdpaType = [],
                   ds_NeedDriverFunc = needDriverCheckDeviceType, ds_DriverLoaded = False\<rparr> state = needVfioDriver state" for n
    by (simp add: NeedDriverFunc_def needVfioDriver_def)
  show ?thesis
    using assms by (auto simp: NewGenericPlugin_def addVfioDesiredKernelArg_def v wanted_kargs_def Let_def
      enableDesiredKernelArgs_def split: sum.splits CPUVendor.splits)
qed

lemma rdma_kargs:
  assumes "configRdmaKernelArg host state p = (q, Inr u)"
    and "gp_DesiredKernelArgs p = take 3 (wanted_kargs host args state) @ [(KernelArgRdmaShared, a), (KernelArgRdmaExclusive, b)]"
  shows "gp_DesiredKernelArgs q = wanted_kargs host args state"
  using assms by (auto simp: configRdmaKernelArg_def Let_def wanted_kargs_def enableDesiredKernelArgs_def
    disableDesiredKernelArgs_def split: if_splits)

lemma need_reboot_fresh:
  assumes "NewGenericPlugin host sv sb = Inr p" and "ph_Cmdline host = Inr args"
    and "needRebootNode host state p = (q, edits, Inr r)"
  shows "gp_DesiredKernelArgs q = wanted_kargs host args state \<and>
    sync_kargs host args (ph_KargOrder host (wanted_kargs host args state)) False = (edits, Inr r)"
proof -
  obtain p' u where c: "configRdmaKernelArg host state (addVfioDesiredKernelArg host state p) = (p', Inr u)"
    and s: "syncDesiredKernelArgs host p' = (edits, Inr r)" "q = p'"
    using assms(3) by (auto simp: needRebootNode_def split: prod.splits sum.splits)
  have "gp_DesiredKernelArgs q = wanted_kargs host args state"
    using rdma_kargs[OF c add_vfio_fresh[OF assms(1,2)]] s(2) by simp
  then show ?thesis using s assms(2) by (simp add: syncDesiredKernelArgs_def)
qed

lemma sync_kargs_total:
  "ph_Script host = (\<lambda>_ _. None) \<Longrightarrow>
    sync_kargs host args ks need = (map karg_edit ks, Inr (need \<or> kargs_differ args ks))"
  by (induction host args ks need rule: sync_kargs.induct) (auto simp: editKernelArg_def Let_def)

definition kargs_wrong :: "string \<Rightarrow> (string \<times> bool) list \<Rightarrow> bool" where
  "kargs_wrong args ks \<longleftrightarrow> (\<exists>(k, s) \<in> set ks. (k \<in> set (Fields args)) \<noteq> s)"

lemma kargs_differ_wrong: "mset ks' = mset ks \<Longrightarrow> kargs_differ args ks' \<longleftrightarrow> kargs_wrong args ks"
  by (auto simp: kargs_differ_iff kargs_wrong_def IsKernelArgsSet_iff dest: mset_eq_setD)

lemma fresh_need_reboot:
  assumes "ph_Script host = (\<lambda>_ _. None)" and "\<forall>xs. mset (ph_KargOrder host xs) = mset xs"
    and "NewGenericPlugin host sv sb = Inr p" and "ph_Cmdline host = Inr args"
    and "configRdmaKernelArg host state (addVfioDesiredKernelArg host state p) = (q, Inr u)"
  shows "\<exists>q edits. needRebootNode host state p = (q, edits, Inr (kargs_wrong args (wanted_kargs host args state)))"
proof -
  have "gp_DesiredKernelArgs q = wanted_kargs host args state"
    using rdma_kargs[OF assms(5) add_vfio_fresh[OF assms(3,4)]] .
  moreover have "kargs_differ args (ph_KargOrder host (wanted_kargs host args state)) \<longleftrightarrow> kargs_wrong args (wanted_kargs host args state)"
    using assms(2) by (intro kargs_differ_wrong) blast
  ultimately show ?thesis
    using assms(4,5) sync_kargs_total[OF assms(1)] by (simp add: needRebootNode_def syncDesiredKernelArgs_def)
qed

lemma wanted_kargs_stable:
  assumes "\<not> kargs_wrong args' (wanted_kargs host args state)" and "ph_CpuVendor host' = ph_CpuVendor host"
  shows "\<not> kargs_wrong args' (wanted_kargs host' args' state)"
  using assms by (simp add: wanted_kargs_def kargs_wrong_def Let_def IsKernelArgsSet_iff)

lemma wanted_kargs_same:
  assumes "set (Fields args') = set (Fields args)" and "ph_CpuVendor host' = ph_CpuVendor host"
  shows "wanted_kargs host' args' state = wanted_kargs host args state"
  using assms by (simp add: wanted_kargs_def Let_def IsKernelArgsSet_iff)

lemma run_edits_ubuntu: "run_edits del True args edits P = P"
  unfolding run_edits_def by (induction edits) (auto simp: kargs_sh_def)

lemma wanted_kargs_distinct: "distinct (map fst (wanted_kargs host args state))"
  by (simp add: wanted_kargs_def Let_def)

lemma map_of_permuted:
  assumes "mset xs = mset ys" and "distinct (map fst ys)"
  shows "distinct (map fst xs) \<and> map_of xs = map_of ys"
proof -
  have "distinct (map fst xs)" using assms by (metis mset_eq_imp_distinct_iff mset_map)
  moreover have "set xs = set ys" using assms(1) by (rule mset_eq_setD)
  ultimately show ?thesis using assms(2) map_of_eqI[of xs ys] by (metis (no_types, lifting) ext map_of_eq_None_iff map_of_eq_Some_iff option.exhaust)
qed

text \<open>
  C32: the kernel arguments converge, except on Ubuntu. A plugin that starts on a node asks for a reboot exactly when an argument of the
  running command line is not as wanted. When the script runs without an error, the boot entry agreed with
  the running command line and no edited argument occurs only as a part of others, then after the reboot a plugin that starts
  again asks for no reboot, because the wanted arguments are in effect; on Ubuntu, where the script does nothing, it asks for
  the same reboot again.
\<close>

theorem kernel_args_converge:
  assumes "ph_Cmdline host = Inr args" and "ph_Script host = (\<lambda>_ _. None)"
    and "\<forall>xs. mset (ph_KargOrder host xs) = mset xs"
    and "NewGenericPlugin host sv sb = Inr p" and "needRebootNode host state p = (q, edits, Inr needReboot)"
    and "\<forall>t P. set (del t P) = set P - {t}" and "set pending = set (Fields args)" and "ubuntu \<or> clean_run del args edits pending"
    and "set (Fields args') = set (run_edits del ubuntu args edits pending)"
    and "host' = host\<lparr>ph_Cmdline := Inr args'\<rparr>" and "NewGenericPlugin host' sv sb = Inr p'"
  shows "(needReboot \<longleftrightarrow> kargs_wrong args (wanted_kargs host args state)) \<and>
    shouldUpdateKernelArgs host q = Inr needReboot \<and>
    (kargs_wrong args' (wanted_kargs host args state) \<longleftrightarrow> ubuntu \<and> needReboot) \<and>
    shouldUpdateKernelArgs host' q = Inr (ubuntu \<and> needReboot) \<and>
    (\<exists>q' edits'. needRebootNode host' state p' = (q', edits', Inr (ubuntu \<and> needReboot)))"
proof -
  let ?ks = "wanted_kargs host args state" and ?os = "ph_KargOrder host (wanted_kargs host args state)"
  have q: "gp_DesiredKernelArgs q = ?ks" and s: "sync_kargs host args ?os False = (edits, Inr needReboot)"
    using need_reboot_fresh[OF assms(4,1,5)] by blast+
  have m: "mset ?os = mset ?ks" using assms(3) by blast
  note o = map_of_permuted[OF m wanted_kargs_distinct]
  have e: "edits = map karg_edit ?os" "needReboot = kargs_wrong args ?ks" using sync_kargs_Inr[OF s] kargs_differ_wrong[OF m] by auto
  have settled: "\<not> kargs_wrong args' ?ks" if "\<not> ubuntu"
  proof -
    have "k \<in> set (Fields args') \<longleftrightarrow> s" if "(k, s) \<in> set ?ks" for k s
      using run_edits_clean[of del args ?os pending k] assms(6,7,8,9) o e(1) \<open>\<not> ubuntu\<close> map_of_is_SomeI[OF wanted_kargs_distinct that]
      by auto
    then show ?thesis by (auto simp: kargs_wrong_def)
  qed
  have same: "set (Fields args') = set (Fields args)" if ubuntu using that assms(7,9) by (simp add: run_edits_ubuntu)
  have k': "kargs_wrong args' ?ks \<longleftrightarrow> ubuntu \<and> needReboot" using settled same e(2) by (cases ubuntu) (auto simp: kargs_wrong_def)
  have w': "kargs_wrong args' (wanted_kargs host' args' state) \<longleftrightarrow> ubuntu \<and> needReboot"
  proof (cases ubuntu)
    case True
    then show ?thesis using k' wanted_kargs_same[OF same, of host' host state] assms(10) by simp
  next
    case False
    then show ?thesis using wanted_kargs_stable[OF settled, of host'] assms(10) by simp
  qed
  obtain r u where "configRdmaKernelArg host state (addVfioDesiredKernelArg host state p) = (r, Inr u)"
    using assms(5) by (auto simp: needRebootNode_def split: prod.splits sum.splits)
  then obtain r' u' where "configRdmaKernelArg host' state (addVfioDesiredKernelArg host' state p') = (r', Inr u')"
    using assms(10) by (auto simp: configRdmaKernelArg_def Let_def split: if_splits option.splits)
  then have "\<exists>q' edits'. needRebootNode host' state p' = (q', edits', Inr (kargs_wrong args' (wanted_kargs host' args' state)))"
    by (rule fresh_need_reboot[rotated 4]) (use assms(2,3,10,11) in simp_all)
  moreover have "shouldUpdateKernelArgs host q = Inr needReboot" "shouldUpdateKernelArgs host' q = Inr (ubuntu \<and> needReboot)"
    using q assms(1,10) kargs_differ_wrong[OF m] e(2) k' by (simp_all add: shouldUpdateKernelArgs_def)
  ultimately show ?thesis using e(2) k' w' by auto
qed

definition sample_plugin_host :: "string \<Rightarrow> plugin_host" where
  "sample_plugin_host args =
     \<lparr>ph_Cmdline = Inr args, ph_CpuVendor = Inr CPUVendorIntel, ph_Script = (\<lambda>_ _. None), ph_SetRdma = (\<lambda>_. None),
      ph_LoadPf = (\<lambda>_. Inr None), ph_LoadModule = (\<lambda>_. None), ph_ManageBridges = False,
      ph_KargOrder = (\<lambda>xs. xs), ph_DriverOrder = (\<lambda>xs. xs)\<rparr>"

definition sample_vfio_state :: SriovNetworkNodeState where
  "sample_vfio_state = (sample_state ''n'')
     \<lparr>state_Spec := \<lparr>ns_Interfaces = [sample_interface\<lparr>if_VfGroups := map (\<lambda>g. g\<lparr>vg_DeviceType := DeviceTypeVfioPci\<rparr>) (if_VfGroups sample_interface)\<rparr>],
        ns_Bridges = \<lparr>bridges_OVS = []\<rparr>, ns_System = \<lparr>sys_RdmaMode = [], sys_OvsConfig = []\<rparr>\<rparr>\<rparr>"

definition fresh_decision :: "plugin_host \<Rightarrow> SriovNetworkNodeState \<Rightarrow> (string \<times> string) list \<times> (plugin_error + bool)" where
  "fresh_decision host state =
     (case NewGenericPlugin host False False of
        Inl e \<Rightarrow> ([], Inl e)
      | Inr p \<Rightarrow> snd (needRebootNode host state p))"

theorem kernel_args_converge_witness:
  "set (Fields ''quiet intel_iommu=on iommu=pt'') =
     set (run_edits removeAll False ''quiet'' (fst (fresh_decision (sample_plugin_host ''quiet'') sample_vfio_state)) [''quiet'']) \<and>
   snd (fresh_decision (sample_plugin_host ''quiet'') sample_vfio_state) = Inr True \<and>
   snd (fresh_decision (sample_plugin_host ''quiet intel_iommu=on iommu=pt'') sample_vfio_state) = Inr False"
proof -
  let ?h = "sample_plugin_host ''quiet''" and ?h' = "sample_plugin_host ''quiet intel_iommu=on iommu=pt''"
  obtain p where p: "NewGenericPlugin ?h False False = Inr p" by (simp add: NewGenericPlugin_def sample_plugin_host_def)
  obtain p' where p': "NewGenericPlugin ?h' False False = Inr p'" by (simp add: NewGenericPlugin_def sample_plugin_host_def)
  let ?edits = "[(''remove'', KernelArgPciRealloc), (''add'', KernelArgIntelIommu), (''add'', KernelArgIommuPt),
    (''remove'', KernelArgRdmaShared), (''remove'', KernelArgRdmaExclusive)]"
  have f: "fresh_decision ?h sample_vfio_state = (?edits, Inr True)" by code_simp
  then obtain q where q: "needRebootNode ?h sample_vfio_state p = (q, ?edits, Inr True)"
    by (cases "needRebootNode ?h sample_vfio_state p") (simp add: fresh_decision_def p)
  have "clean_run removeAll ''quiet'' ?edits [''quiet'']" by code_simp
  then have c: "False \<or> clean_run removeAll ''quiet'' ?edits [''quiet'']" by simp
  have r: "set (Fields ''quiet intel_iommu=on iommu=pt'') = set (run_edits removeAll False ''quiet'' ?edits [''quiet''])"
    by code_simp
  have "\<exists>q' edits'. needRebootNode ?h' sample_vfio_state p' = (q', edits', Inr (False \<and> True))"
    by (rule conjunct2[OF conjunct2[OF conjunct2[OF conjunct2[OF kernel_args_converge[OF _ _ _ p q _ _ c r _ p']]]]])
      (simp_all add: sample_plugin_host_def, code_simp)
  then show ?thesis using f p' r by (auto simp: fresh_decision_def)
qed

text \<open>
  A command line in which a wanted argument occurs only as a part of another one is never repaired: with
  \<^verbatim>\<open>intel_iommu=on,sm_on\<close> the plugin asks for a reboot at every start, while the script, which looks for the text of the
  argument, leaves the boot entry as it is.
\<close>

theorem near_miss_reboots_again:
  "(let args = ''quiet iommu=pt intel_iommu=on,sm_on'' in
    case fresh_decision (sample_plugin_host args) sample_vfio_state of
      (edits, r) \<Rightarrow> r = Inr True \<and> (''add'', KernelArgIntelIommu) \<in> set edits \<and>
        run_edits removeAll False args edits (Fields args) = Fields args)"
  by code_simp

end
