(* ===== verification/Host_Io.thy ===== *)
theory Host_Io
  imports Io_Monad Update_Check
begin

text \<open>
  The host as the config daemon changes it: a log of the actions that were tried and the saved configuration of the PFs
  (\<^verbatim>\<open>src/pkg/host/store/store.go\<close>). What an action or a question answers is a function of the log, so a theorem
  for all such functions holds for every behaviour of the kernel, the drivers and the libraries. On top of it the
  binding of drivers (\<^verbatim>\<open>src/pkg/host/internal/kernel/kernel.go\<close>) and VDPA devices
  (\<^verbatim>\<open>src/pkg/host/internal/vdpa/vdpa.go\<close>).

  The predicate \<open>only\<close> says that a function tries only actions of a given kind; its rules follow the structure of the
  functions.
\<close>

section \<open>Actions and answers\<close>

datatype host_error = Errno string | HostMsg string | HostPanic panic | Joined "host_error list"

fun is_errno :: "string \<Rightarrow> host_error \<Rightarrow> bool" where
  "is_errno n (Errno m) = (m = n)"
| "is_errno n (HostMsg _) = False"
| "is_errno n (HostPanic _) = False"
| "is_errno n (Joined es) = list_ex (is_errno n) es"

datatype host_action =
    WriteNumVfs string int
  | WriteOverride string string string
  | ProbeDriver string string
  | BindDriver string string string
  | UnbindDriver string string string
  | LinkSetMTU string int
  | DevLinkSetEswitchMode string string
  | SetDevlinkParam string string string
  | EnableHwTcOffload string
  | LinkSetVfHardwareAddr string int string
  | ConfigureVfGUID string string int
  | LinkSetUp string
  | AddDisableNMUdevRule string
  | AddPersistPFNameUdevRule string string
  | AddVfRepresentorUdevRule string string string string
  | RemoveDisableNMUdevRule string
  | RemoveVfRepresentorUdevRule string
  | RemovePersistPFNameUdevRule string
  | LoadUdevRules
  | DetachFromManagedBridge string
  | VDPANewDev string bool
  | VDPADelDev string
  | SaveStatus Interface
  | RemoveStatus string
  | ConfigureBridges Bridges Bridges
  | LoadKernelModule string

type_synonym hlog = "host_action list"

record host_state =
  hs_Log :: hlog
  hs_Store :: "string \<rightharpoonup> Interface"

record host_env =
  he_Fail :: "hlog \<Rightarrow> host_action \<Rightarrow> host_error option"
  he_TotalVfs :: "hlog \<Rightarrow> string \<Rightarrow> int"
  he_VFconfigured :: "hlog \<Rightarrow> string \<Rightarrow> int"
  he_VFList :: "hlog \<Rightarrow> string \<Rightarrow> host_error + string list"
  he_VFID :: "hlog \<Rightarrow> string \<Rightarrow> host_error + int"
  he_DriverLink :: "hlog \<Rightarrow> string \<Rightarrow> string \<Rightarrow> host_error + string"
  he_HasOverride :: "hlog \<Rightarrow> string \<Rightarrow> string \<Rightarrow> host_error + bool"
  he_HasNumVfs :: "hlog \<Rightarrow> string \<Rightarrow> bool"
  he_IommuGroup :: "hlog \<Rightarrow> string \<Rightarrow> host_error option"
  he_Devlink :: "hlog \<Rightarrow> string \<Rightarrow> host_error + string"
  he_DevlinkParam :: "hlog \<Rightarrow> string \<Rightarrow> string \<Rightarrow> host_error + string"
  he_PfDriver :: "hlog \<Rightarrow> string \<Rightarrow> host_error + string"
  he_Mtu :: "hlog \<Rightarrow> string \<Rightarrow> int"
  he_Link :: "hlog \<Rightarrow> string \<Rightarrow> host_error + string \<times> bool"
  he_PhysPortName :: "hlog \<Rightarrow> string \<Rightarrow> host_error + string"
  he_PhysSwitchID :: "hlog \<Rightarrow> string \<Rightarrow> host_error + string"
  he_VFReady :: "hlog \<Rightarrow> string \<Rightarrow> host_error option"
  he_VFLinks :: "hlog \<Rightarrow> string \<Rightarrow> int \<Rightarrow> host_error option"
  he_VdpaDev :: "hlog \<Rightarrow> string \<Rightarrow> host_error option"
  he_LoadError :: "hlog \<Rightarrow> string \<Rightarrow> host_error option"
  he_ManageBridges :: bool
  he_ParallelNicConfig :: bool
  he_InitialState :: SriovNetworkNodeState

type_synonym 'a hio = "(host_state, host_error, 'a) stateful"

definition fail_if :: "host_error option \<Rightarrow> 'a hio \<Rightarrow> 'a hio" where
  "fail_if e m = (case e of None \<Rightarrow> m | Some e \<Rightarrow> io_fail e)"

definition act :: "host_env \<Rightarrow> host_action \<Rightarrow> unit hio" where
  "act env a h =
     (case he_Fail env (hs_Log h) a of None \<Rightarrow> Inr () | Some e \<Rightarrow> Inl e, h\<lparr>hs_Log := hs_Log h @ [a]\<rparr>)"

definition ask :: "(hlog \<Rightarrow> host_error + 'a) \<Rightarrow> 'a hio" where
  "ask f h = (f (hs_Log h), h)"

definition tell :: "(hlog \<Rightarrow> 'a) \<Rightarrow> 'a hio" where
  "tell f h = (Inr (f (hs_Log h)), h)"

definition checked :: "(hlog \<Rightarrow> host_error option) \<Rightarrow> unit hio" where
  "checked f = ask (\<lambda>l. case f l of None \<Rightarrow> Inr () | Some e \<Rightarrow> Inl e)"

text \<open>Go on after an error; a panic ends the process.\<close>

definition rescue :: "'a hio \<Rightarrow> (host_error \<Rightarrow> 'b hio) \<Rightarrow> ('a \<Rightarrow> 'b hio) \<Rightarrow> 'b hio" where
  "rescue m g f = io_handle m (\<lambda>e. case e of HostPanic p \<Rightarrow> io_fail (HostPanic p) | _ \<Rightarrow> g e) f"

section \<open>Saved configuration of the PFs\<close>

text \<open>Encoding and decoding of the file is \<^verbatim>\<open>encoding/json\<close>; a write that fails leaves the file as it was.\<close>

definition SaveLastPfAppliedStatus :: "host_env \<Rightarrow> Interface \<Rightarrow> unit hio" where
  "SaveLastPfAppliedStatus env i =
     io_bind (act env (SaveStatus i)) (\<lambda>_ h. (Inr (), h\<lparr>hs_Store := (hs_Store h)(if_PciAddress i \<mapsto> i)\<rparr>))"

definition RemovePfAppliedStatus :: "host_env \<Rightarrow> string \<Rightarrow> unit hio" where
  "RemovePfAppliedStatus env pciAddress =
     io_bind (act env (RemoveStatus pciAddress)) (\<lambda>_ h. (Inr (), h\<lparr>hs_Store := (hs_Store h)(pciAddress := None)\<rparr>))"

definition LoadPfsStatus :: "host_env \<Rightarrow> string \<Rightarrow> Interface option hio" where
  "LoadPfsStatus env pciAddress h =
     (case he_LoadError env (hs_Log h) pciAddress of
        Some e \<Rightarrow> (Inl e, h)
      | None \<Rightarrow> (Inr (hs_Store h pciAddress), h))"

section \<open>Drivers\<close>

abbreviation BusPci :: string where "BusPci \<equiv> ''pci''"
abbreviation BusVdpa :: string where "BusVdpa \<equiv> ''vdpa''"

definition getDriverByBusAndDevice :: "host_env \<Rightarrow> string \<Rightarrow> string \<Rightarrow> string hio" where
  "getDriverByBusAndDevice env bus device = ask (\<lambda>l. he_DriverLink env l bus device)"

definition UnbindDriverByBusAndDevice :: "host_env \<Rightarrow> string \<Rightarrow> string \<Rightarrow> unit hio" where
  "UnbindDriverByBusAndDevice env bus device =
     io_bind (getDriverByBusAndDevice env bus device) (\<lambda>driver.
       if driver = [] then io_return () else act env (UnbindDriver bus device driver))"

definition Unbind :: "host_env \<Rightarrow> string \<Rightarrow> unit hio" where
  "Unbind env pciAddr = UnbindDriverByBusAndDevice env BusPci pciAddr"

definition setDriverOverride :: "host_env \<Rightarrow> string \<Rightarrow> string \<Rightarrow> string \<Rightarrow> unit hio" where
  "setDriverOverride env bus device override =
     io_bind (ask (\<lambda>l. he_HasOverride env l bus device)) (\<lambda>b.
       if b then act env (WriteOverride bus device override) else io_return ())"

definition BindDefaultDriver :: "host_env \<Rightarrow> string \<Rightarrow> unit hio" where
  "BindDefaultDriver env pciAddr =
     io_bind (getDriverByBusAndDevice env BusPci pciAddr) (\<lambda>curDriver.
       if curDriver \<noteq> [] \<and> \<not> StringInArray curDriver DpdkDrivers then io_return ()
       else
         io_bind (io_when (curDriver \<noteq> []) (UnbindDriverByBusAndDevice env BusPci pciAddr)) (\<lambda>_.
         io_bind (setDriverOverride env BusPci pciAddr []) (\<lambda>_.
           act env (ProbeDriver BusPci pciAddr))))"

definition BindDriverByBusAndDevice :: "host_env \<Rightarrow> string \<Rightarrow> string \<Rightarrow> string \<Rightarrow> unit hio" where
  "BindDriverByBusAndDevice env bus device driver =
     io_bind (getDriverByBusAndDevice env bus device) (\<lambda>curDriver.
       if curDriver \<noteq> [] \<and> curDriver = driver then io_return ()
       else
         io_bind (io_when (curDriver \<noteq> []) (UnbindDriverByBusAndDevice env bus device)) (\<lambda>_.
         io_bind (setDriverOverride env bus device driver) (\<lambda>_.
         io_bind (act env (BindDriver bus device driver)) (\<lambda>_.
           setDriverOverride env bus device []))))"

definition BindDpdkDriver :: "host_env \<Rightarrow> string \<Rightarrow> string \<Rightarrow> unit hio" where
  "BindDpdkDriver env pciAddr driver =
     io_handle (BindDriverByBusAndDevice env BusPci pciAddr driver)
       (\<lambda>e. io_bind (tell (\<lambda>l. he_IommuGroup env l pciAddr)) (\<lambda>inner.
          case inner of Some ie \<Rightarrow> io_fail ie | None \<Rightarrow> io_fail e))
       io_return"

definition RebindVfToDefaultDriver :: "host_env \<Rightarrow> string \<Rightarrow> unit hio" where
  "RebindVfToDefaultDriver env vfAddr = io_bind (Unbind env vfAddr) (\<lambda>_. BindDefaultDriver env vfAddr)"

definition UnbindDriverIfNeeded :: "host_env \<Rightarrow> string \<Rightarrow> bool \<Rightarrow> unit hio" where
  "UnbindDriverIfNeeded env vfAddr isRdma = io_when isRdma (Unbind env vfAddr)"

definition HasDriver :: "host_env \<Rightarrow> string \<Rightarrow> (bool \<times> string) hio" where
  "HasDriver env pciAddr =
     io_handle (getDriverByBusAndDevice env BusPci pciAddr)
       (\<lambda>_. io_return (False, []))
       (\<lambda>driver. io_return (if driver \<noteq> [] then (True, driver) else (False, [])))"

section \<open>VDPA devices\<close>

definition generateVDPADevName :: "string \<Rightarrow> string" where
  "generateVDPADevName pciAddr = ''vdpa:'' @ pciAddr"

definition vdpaTypeToDriver :: "string \<Rightarrow> string" where
  "vdpaTypeToDriver t =
     (if t = VdpaTypeVhost then ''vhost_vdpa'' else if t = VdpaTypeVirtio then ''virtio_vdpa'' else [])"

definition vdpaDriverToType :: "string \<Rightarrow> string" where
  "vdpaDriverToType d =
     (if d = ''vhost_vdpa'' then VdpaTypeVhost else if d = ''virtio_vdpa'' then VdpaTypeVirtio else [])"

definition CreateVDPADevice :: "host_env \<Rightarrow> string \<Rightarrow> string \<Rightarrow> unit hio" where
  "CreateVDPADevice env pciAddr vdpaType =
     (let name = generateVDPADevName pciAddr; driver = vdpaTypeToDriver vdpaType in
      if driver = [] then io_fail (HostMsg (''unknown VDPA device type: '' @ vdpaType))
      else
        io_bind (tell (\<lambda>l. he_VdpaDev env l name)) (\<lambda>e.
        io_bind
          (case e of
             None \<Rightarrow> io_return ()
           | Some e \<Rightarrow>
               if \<not> is_errno ''ENODEV'' e then io_fail e
               else io_handle (act env (VDPANewDev pciAddr True))
                      (\<lambda>e. if \<not> is_errno ''ENOTSUP'' e then io_fail e else act env (VDPANewDev pciAddr False))
                      io_return) (\<lambda>_.
          BindDriverByBusAndDevice env BusVdpa name driver)))"

definition DeleteVDPADevice :: "host_env \<Rightarrow> string \<Rightarrow> unit hio" where
  "DeleteVDPADevice env pciAddr =
     io_handle (act env (VDPADelDev pciAddr))
       (\<lambda>e. if is_errno ''ENODEV'' e \<or> is_errno ''ENOENT'' e then io_return () else io_fail e)
       io_return"

definition DiscoverVDPAType :: "host_env \<Rightarrow> string \<Rightarrow> string hio" where
  "DiscoverVDPAType env pciAddr =
     io_bind (tell (\<lambda>l. he_VdpaDev env l (generateVDPADevName pciAddr))) (\<lambda>e.
       if e \<noteq> None then io_return []
       else io_handle (getDriverByBusAndDevice env BusVdpa (generateVDPADevName pciAddr))
              (\<lambda>_. io_return [])
              (\<lambda>driver. io_return (if driver = [] then [] else vdpaDriverToType driver)))"

section \<open>Which actions a function tries\<close>

fun saves :: "string \<Rightarrow> host_action \<Rightarrow> bool" where
  "saves a (SaveStatus i) = (if_PciAddress i = a)"
| "saves a _ = False"

definition grows :: "(host_action \<Rightarrow> bool) \<Rightarrow> host_state \<Rightarrow> host_state \<Rightarrow> bool" where
  "grows P h h' \<longleftrightarrow>
     (\<exists>new. hs_Log h' = hs_Log h @ new \<and> list_all P new \<and>
        (\<forall>a. list_all (\<lambda>x. \<not> saves a x) new \<longrightarrow> hs_Store h' a \<in> {hs_Store h a, None}))"

definition only :: "(host_action \<Rightarrow> bool) \<Rightarrow> 'a hio \<Rightarrow> bool" where
  "only P m \<longleftrightarrow> (\<forall>h. grows P h (snd (m h)))"

named_theorems only_rules \<open>which actions an operation tries\<close>

lemma grows_refl: "grows P h h"
  by (simp add: grows_def)

lemma grows_trans:
  assumes "grows P h h'" and "grows P h' h''"
  shows "grows P h h''"
proof -
  obtain new where n: "hs_Log h' = hs_Log h @ new" "list_all P new"
    "\<And>a. list_all (\<lambda>x. \<not> saves a x) new \<Longrightarrow> hs_Store h' a \<in> {hs_Store h a, None}"
    using assms(1) unfolding grows_def by blast
  obtain new' where n': "hs_Log h'' = hs_Log h' @ new'" "list_all P new'"
    "\<And>a. list_all (\<lambda>x. \<not> saves a x) new' \<Longrightarrow> hs_Store h'' a \<in> {hs_Store h' a, None}"
    using assms(2) unfolding grows_def by blast
  show ?thesis unfolding grows_def
    by (rule exI[of _ "new @ new'"]) (use n n' in fastforce)
qed

lemma grows_mono: "grows P h h' \<Longrightarrow> (\<And>a. P a \<Longrightarrow> Q a) \<Longrightarrow> grows Q h h'"
  unfolding grows_def by (meson list.pred_mono_strong)

lemma only_mono: "only P m \<Longrightarrow> (\<And>a. P a \<Longrightarrow> Q a) \<Longrightarrow> only Q m"
  unfolding only_def by (meson grows_mono)

lemma only_return [only_rules]: "only P (io_return x)"
  by (simp add: only_def io_return_def grows_refl)

lemma only_fail [only_rules]: "only P (io_fail e)"
  by (simp add: only_def io_fail_def grows_refl)

lemma only_lift [only_rules]: "only P (io_lift r)"
  by (simp add: only_def io_lift_def grows_refl)

lemma only_ask [only_rules]: "only P (ask f)"
  by (simp add: only_def ask_def grows_refl)

lemma only_tell [only_rules]: "only P (tell f)"
  by (simp add: only_def tell_def grows_refl)

lemma only_checked [only_rules]: "only P (checked f)"
  by (simp add: checked_def only_ask)

lemma only_load [only_rules]: "only P (LoadPfsStatus env a)"
  by (simp add: only_def LoadPfsStatus_def grows_refl split: option.splits)

lemma only_handle [only_rules]:
  assumes "only P m" and "\<And>e. only P (g e)" and "\<And>x. only P (f x)"
  shows "only P (io_handle m g f)"
  unfolding only_def
proof
  fix h
  obtain r h' where m: "m h = (r, h')" by (cases "m h")
  have 1: "grows P h h'" using assms(1) m unfolding only_def by (metis snd_conv)
  have "grows P h' (snd (io_handle m g f h))"
    using m assms(2,3) by (cases r) (simp_all add: io_handle_def only_def)
  with 1 show "grows P h (snd (io_handle m g f h))" by (rule grows_trans)
qed

lemma io_bind_handle: "io_bind m f = io_handle m io_fail f"
  by (rule ext) (simp add: io_bind_def io_handle_def io_fail_def split: prod.split sum.split)

lemma only_bind [only_rules]: "only P m \<Longrightarrow> (\<And>x. only P (f x)) \<Longrightarrow> only P (io_bind m f)"
  unfolding io_bind_handle by (intro only_handle only_fail) auto

text \<open>The answer of a question can be used in what follows it.\<close>

lemma only_bind_ask:
  "(\<And>l x. f l = Inr x \<Longrightarrow> only P (g x)) \<Longrightarrow> only P (io_bind (ask f) g)"
  unfolding only_def io_bind_def ask_def by (auto simp: grows_refl split: sum.splits)

lemma only_bind_tell: "(\<And>l. only P (g (f l))) \<Longrightarrow> only P (io_bind (tell f) g)"
  unfolding only_def io_bind_def tell_def by simp

lemma only_map_err [only_rules]: "only P m \<Longrightarrow> only P (io_map_err g m)"
  unfolding only_def io_map_err_def by (simp add: case_prod_unfold)

lemma only_ignore [only_rules]: "only P m \<Longrightarrow> only P (io_ignore m)"
  unfolding only_def io_ignore_def by (simp add: case_prod_unfold)

lemma only_when [only_rules]: "(b \<Longrightarrow> only P m) \<Longrightarrow> only P (io_when b m)"
  by (simp add: io_when_def only_return)

lemma only_if [only_rules]: "(b \<Longrightarrow> only P m) \<Longrightarrow> (\<not> b \<Longrightarrow> only P n) \<Longrightarrow> only P (if b then m else n)"
  by simp

lemma only_rescue [only_rules]:
  "only P m \<Longrightarrow> (\<And>e. only P (g e)) \<Longrightarrow> (\<And>x. only P (f x)) \<Longrightarrow> only P (rescue m g f)"
  unfolding rescue_def by (intro only_handle) (auto intro: only_fail split: host_error.splits)

lemma only_each [only_rules]: "(\<And>x. x \<in> set xs \<Longrightarrow> only P (f x)) \<Longrightarrow> only P (io_each f xs)"
  by (induction xs) (auto intro: only_return only_bind)

lemma only_option [only_rules]:
  "(o' = None \<Longrightarrow> only P m) \<Longrightarrow> (\<And>x. o' = Some x \<Longrightarrow> only P (f x)) \<Longrightarrow> only P (case o' of None \<Rightarrow> m | Some x \<Rightarrow> f x)"
  by (cases o') simp_all

lemma only_pair [only_rules]: "(\<And>x y. p = (x, y) \<Longrightarrow> only P (f x y)) \<Longrightarrow> only P (case p of (x, y) \<Rightarrow> f x y)"
  by (cases p) simp

lemma only_act: "P a \<Longrightarrow> only P (act env a)"
  unfolding only_def grows_def act_def by auto

lemma only_save: "P (SaveStatus i) \<Longrightarrow> only P (SaveLastPfAppliedStatus env i)"
  unfolding only_def grows_def SaveLastPfAppliedStatus_def io_bind_def act_def
  by (auto split: option.splits)

lemma only_remove: "P (RemoveStatus a) \<Longrightarrow> only P (RemovePfAppliedStatus env a)"
  unfolding only_def grows_def RemovePfAppliedStatus_def io_bind_def act_def
  by (auto split: option.splits)

end
