(* ===== verification/Sriov_Host.thy ===== *)
theory Sriov_Host
  imports Host_Io
begin

text \<open>
  Configuring the PFs and VFs of a node (\<^verbatim>\<open>src/pkg/host/internal/sriov/sriov.go\<close>): number of VFs, eswitch mode,
  MTU, udev rules, drivers of the VFs, and resetting a PF that has no configuration any more. With
  \<^verbatim>\<open>ParallelNicConfig\<close> each PF is configured by its own goroutine; here a goroutine runs to its end when it is
  started, and the goroutines of a reset run in the order of the list.
\<close>

section \<open>Number of VFs and eswitch mode\<close>

definition SetNetdevMTU :: "host_env \<Rightarrow> string \<Rightarrow> int \<Rightarrow> unit hio" where
  "SetNetdevMTU env pciAddr mtu = (if mtu \<le> 0 then io_return () else act env (LinkSetMTU pciAddr mtu))"

definition SetSriovNumVfs :: "host_env \<Rightarrow> string \<Rightarrow> int \<Rightarrow> unit hio" where
  "SetSriovNumVfs env pciAddr numVfs =
     io_bind (tell (\<lambda>l. he_HasNumVfs env l pciAddr)) (\<lambda>ex.
       if numVfs = 0 \<and> \<not> ex then io_return ()
       else io_bind (act env (WriteNumVfs pciAddr 0)) (\<lambda>_.
         if numVfs = 0 then io_return () else act env (WriteNumVfs pciAddr numVfs)))"

definition GetNicSriovMode :: "host_env \<Rightarrow> string \<Rightarrow> string hio" where
  "GetNicSriovMode env pciAddress =
     tell (\<lambda>l. case he_Devlink env l pciAddress of
         Inl _ \<Rightarrow> ESwithModeLegacy
       | Inr mode \<Rightarrow> if mode \<noteq> [] then mode else ESwithModeLegacy)"

definition SetNicSriovMode :: "host_env \<Rightarrow> string \<Rightarrow> string \<Rightarrow> unit hio" where
  "SetNicSriovMode env pciAddress mode =
     io_bind (ask (\<lambda>l. he_Devlink env l pciAddress)) (\<lambda>_. act env (DevLinkSetEswitchMode pciAddress mode))"

definition encapTypeToLinkType :: "string \<Rightarrow> string" where
  "encapTypeToLinkType encapType =
     (if encapType = ''ether'' then LinkTypeETH else if encapType = ''infiniband'' then LinkTypeIB else [])"

definition GetLinkType :: "host_env \<Rightarrow> string \<Rightarrow> string hio" where
  "GetLinkType env name =
     tell (\<lambda>l. case he_Link env l name of Inl _ \<Rightarrow> [] | Inr (encap, _) \<Rightarrow> encapTypeToLinkType encap)"

definition detachUplinkAndVFRepresentorsFromBridge :: "host_env \<Rightarrow> string \<Rightarrow> unit hio" where
  "detachUplinkAndVFRepresentorsFromBridge env pciAddr =
     (if \<not> he_ManageBridges env then io_return () else act env (DetachFromManagedBridge pciAddr))"

definition unbindAllVFsOnPF :: "host_env \<Rightarrow> string \<Rightarrow> unit hio" where
  "unbindAllVFsOnPF env addr =
     io_bind (ask (\<lambda>l. he_VFList env l addr)) (\<lambda>vfAddrs. io_each (Unbind env) vfAddrs)"

text \<open>Waiting for the links of the VFs asks until they are there or the time is over.\<close>

definition waitForVFLinks :: "host_env \<Rightarrow> string \<Rightarrow> int \<Rightarrow> unit hio" where
  "waitForVFLinks env pciAddr expectedNum =
     (if expectedNum = 0 then io_return () else checked (\<lambda>l. he_VFLinks env l pciAddr expectedNum))"

definition setEswitchModeAndNumVFsMlx :: "host_env \<Rightarrow> string \<Rightarrow> string \<Rightarrow> int \<Rightarrow> unit hio" where
  "setEswitchModeAndNumVFsMlx env pciAddr desiredEswitchMode numVFs =
     io_bind (GetNicSriovMode env pciAddr) (\<lambda>mode.
     io_bind (io_when (mode \<noteq> ESwithModeLegacy)
       (io_bind (detachUplinkAndVFRepresentorsFromBridge env pciAddr) (\<lambda>_.
        io_bind (unbindAllVFsOnPF env pciAddr) (\<lambda>_.
          SetNicSriovMode env pciAddr ESwithModeLegacy)))) (\<lambda>_.
     io_bind (SetSriovNumVfs env pciAddr numVFs) (\<lambda>_.
     io_bind (waitForVFLinks env pciAddr numVFs) (\<lambda>_.
     io_when (desiredEswitchMode = ESwithModeSwitchDev)
       (io_bind (unbindAllVFsOnPF env pciAddr) (\<lambda>_.
          SetNicSriovMode env pciAddr desiredEswitchMode))))))"

definition setEswitchModeAndNumVFsIce :: "host_env \<Rightarrow> string \<Rightarrow> string \<Rightarrow> int \<Rightarrow> unit hio" where
  "setEswitchModeAndNumVFsIce env pciAddr desiredEswitchMode numVFs =
     io_bind (GetNicSriovMode env pciAddr) (\<lambda>mode.
     io_bind (io_when (mode \<noteq> desiredEswitchMode)
       (io_bind (SetSriovNumVfs env pciAddr 0) (\<lambda>_. SetNicSriovMode env pciAddr desiredEswitchMode))) (\<lambda>_.
       SetSriovNumVfs env pciAddr numVFs))"

definition setEswitchModeAndNumVFs :: "host_env \<Rightarrow> string \<Rightarrow> string \<Rightarrow> int \<Rightarrow> unit hio" where
  "setEswitchModeAndNumVFs env pciAddr desiredEswitchMode numVFs =
     io_bind (ask (\<lambda>l. he_PfDriver env l pciAddr)) (\<lambda>pfDriverName.
       if pfDriverName = ''ice'' then setEswitchModeAndNumVFsIce env pciAddr desiredEswitchMode numVFs
       else setEswitchModeAndNumVFsMlx env pciAddr desiredEswitchMode numVFs)"

definition ResetSriovDevice :: "host_env \<Rightarrow> InterfaceExt \<Rightarrow> unit hio" where
  "ResetSriovDevice env ifaceStatus =
     (let addr = ie_PciAddress ifaceStatus in
      if ie_LinkType ifaceStatus = LinkTypeETH
      then
        let (mtu, eswitchMode) =
              (case GetInterfaceStateByPciAddress (he_InitialState env) addr of
                 Some is \<Rightarrow> (ie_Mtu is, GetEswitchModeFromStatus is)
               | None \<Rightarrow> (1500, ESwithModeLegacy))
        in io_bind (SetNetdevMTU env addr mtu) (\<lambda>_. setEswitchModeAndNumVFs env addr eswitchMode 0)
      else if ie_LinkType ifaceStatus = LinkTypeIB
      then io_bind (SetSriovNumVfs env addr 0) (\<lambda>_. SetNetdevMTU env addr 2048)
      else io_return ())"

section \<open>The PF\<close>

definition addUdevRules :: "host_env \<Rightarrow> Interface \<Rightarrow> unit hio" where
  "addUdevRules env iface =
     io_bind (act env (AddDisableNMUdevRule (if_PciAddress iface))) (\<lambda>_.
       io_when (GetEswitchModeFromSpec iface = ESwithModeSwitchDev)
         (act env (AddPersistPFNameUdevRule (if_PciAddress iface) (if_Name iface))))"

definition addVfRepresentorUdevRule :: "host_env \<Rightarrow> Interface \<Rightarrow> unit hio" where
  "addVfRepresentorUdevRule env iface =
     (if GetEswitchModeFromSpec iface = ESwithModeSwitchDev
      then
        io_handle (ask (\<lambda>l. he_PhysPortName env l (if_Name iface))) (\<lambda>_. io_return ()) (\<lambda>portName.
        io_handle (ask (\<lambda>l. he_PhysSwitchID env l (if_Name iface))) (\<lambda>_. io_return ()) (\<lambda>switchID.
          act env (AddVfRepresentorUdevRule (if_PciAddress iface) (if_Name iface) switchID portName)))
      else io_return ())"

definition removeUdevRules :: "host_env \<Rightarrow> string \<Rightarrow> unit hio" where
  "removeUdevRules env pciAddress =
     io_bind (act env (RemoveDisableNMUdevRule pciAddress)) (\<lambda>_.
     io_bind (act env (RemoveVfRepresentorUdevRule pciAddress)) (\<lambda>_.
       act env (RemovePersistPFNameUdevRule pciAddress)))"

definition createVFs :: "host_env \<Rightarrow> Interface \<Rightarrow> unit hio" where
  "createVFs env iface =
     (let addr = if_PciAddress iface; expectedEswitchMode = GetEswitchModeFromSpec iface in
      io_bind (tell (\<lambda>l. he_VFconfigured env l addr)) (\<lambda>n.
      io_bind (GetNicSriovMode env addr) (\<lambda>mode.
        if n = if_NumVfs iface \<and> mode = expectedEswitchMode then io_return ()
        else
          io_bind (io_when (expectedEswitchMode = ESwithModeSwitchDev) (detachUplinkAndVFRepresentorsFromBridge env addr)) (\<lambda>_.
            setEswitchModeAndNumVFs env addr expectedEswitchMode (if_NumVfs iface)))))"

definition configureHWOptionsForSwitchdev :: "host_env \<Rightarrow> Interface \<Rightarrow> unit hio" where
  "configureHWOptionsForSwitchdev env iface =
     (let addr = if_PciAddress iface in
      if GetEswitchModeFromSpec iface \<noteq> ESwithModeSwitchDev then io_return ()
      else
        io_bind (act env (EnableHwTcOffload (if_Name iface))) (\<lambda>_.
        io_handle (ask (\<lambda>l. he_DevlinkParam env l addr ''flow_steering_mode''))
          (\<lambda>e. if is_errno ''EINVAL'' e \<or> is_errno ''ENODEV'' e then io_return () else io_fail e)
          (\<lambda>current.
             if current = [] \<or> current = ''smfs'' then io_return ()
             else
               io_bind (GetNicSriovMode env addr) (\<lambda>mode.
               io_bind (io_when (mode \<noteq> ESwithModeLegacy) (setEswitchModeAndNumVFs env addr ESwithModeLegacy 0)) (\<lambda>_.
                 io_handle (act env (SetDevlinkParam addr ''flow_steering_mode'' ''smfs''))
                   (\<lambda>e. if is_errno ''ENOTSUP'' e then io_return () else io_fail e)
                   io_return)))))"

definition configSriovPFDevice :: "host_env \<Rightarrow> Interface \<Rightarrow> unit hio" where
  "configSriovPFDevice env iface =
     (let addr = if_PciAddress iface in
      io_bind (tell (\<lambda>l. he_TotalVfs env l addr)) (\<lambda>totalVfs.
        if if_NumVfs iface > totalVfs then io_fail (HostMsg ''cannot config SRIOV device: NumVfs is larger than TotalVfs'')
        else
          io_bind (configureHWOptionsForSwitchdev env iface) (\<lambda>_.
          io_bind (removeUdevRules env addr) (\<lambda>_.
          io_bind (addUdevRules env iface) (\<lambda>_.
          io_bind (createVFs env iface) (\<lambda>_.
          io_bind (addVfRepresentorUdevRule env iface) (\<lambda>_.
          io_bind (tell (\<lambda>l. he_Mtu env l addr)) (\<lambda>mtu.
            io_when (if_Mtu iface > 0 \<and> if_Mtu iface > mtu) (SetNetdevMTU env addr (if_Mtu iface))))))))))"

definition checkExternallyManagedPF :: "host_env \<Rightarrow> Interface \<Rightarrow> unit hio" where
  "checkExternallyManagedPF env iface =
     (let addr = if_PciAddress iface in
      io_bind (tell (\<lambda>l. he_VFconfigured env l addr)) (\<lambda>currentNumVfs.
        if if_NumVfs iface > currentNumVfs then io_fail (HostMsg ''not enough VFs on an externally managed PF'')
        else
          io_bind (GetNicSriovMode env addr) (\<lambda>mode.
            if mode \<noteq> GetEswitchModeFromSpec iface then io_fail (HostMsg ''eswitch mode of an externally managed PF'')
            else
              io_bind (tell (\<lambda>l. he_Mtu env l addr)) (\<lambda>mtu.
                if if_Mtu iface > 0 \<and> if_Mtu iface > mtu then io_fail (HostMsg ''MTU of an externally managed PF'')
                else io_return ()))))"

section \<open>The VFs\<close>

fun find_group :: "int \<Rightarrow> VfGroup list \<Rightarrow> panic + VfGroup option" where
  "find_group vfID [] = Inr None"
| "find_group vfID (g # gs) =
     res_bind (IndexInRange vfID (vg_VfRange g)) (\<lambda>b. if b then Inr (Some g) else find_group vfID gs)"

text \<open>GUID or MAC address of a VF that has a kernel driver.\<close>

definition config_vf_address :: "host_env \<Rightarrow> Interface \<Rightarrow> string \<Rightarrow> int \<Rightarrow> unit hio" where
  "config_vf_address env iface addr vfID =
     io_bind (HasDriver env addr) (\<lambda>(yes, d).
       if yes \<and> \<not> StringInArray d DpdkDrivers
       then
         io_bind (if if_LinkType iface = [] then GetLinkType env (if_Name iface) else io_return (if_LinkType iface)) (\<lambda>linkType.
           if equal_fold linkType LinkTypeIB
           then io_bind (act env (ConfigureVfGUID addr (if_PciAddress iface) vfID)) (\<lambda>_. Unbind env addr)
           else
             io_bind (io_handle (checked (\<lambda>l. he_VFReady env l addr))
                (\<lambda>_. io_bind (RebindVfToDefaultDriver env addr) (\<lambda>_. checked (\<lambda>l. he_VFReady env l addr)))
                io_return) (\<lambda>_.
             io_bind (ask (\<lambda>l. he_VFID env l addr)) (\<lambda>vfID.
               act env (LinkSetVfHardwareAddr (if_Name iface) vfID addr))))
       else io_return ())"

definition config_vf_group :: "host_env \<Rightarrow> Interface \<Rightarrow> string \<Rightarrow> VfGroup \<Rightarrow> unit hio" where
  "config_vf_group env iface addr g =
     (let switchdev = (GetEswitchModeFromSpec iface = ESwithModeSwitchDev) in
      io_bind (UnbindDriverIfNeeded env addr (vg_IsRdma g)) (\<lambda>_.
      io_bind (io_when (switchdev \<and> vg_VdpaType g = []) (DeleteVDPADevice env addr)) (\<lambda>_.
        if \<not> StringInArray (vg_DeviceType g) DpdkDrivers
        then
          io_bind (BindDefaultDriver env addr) (\<lambda>_.
          io_bind (io_when (vg_Mtu g > 0) (SetNetdevMTU env addr (vg_Mtu g))) (\<lambda>_.
            io_when (switchdev \<and> vg_VdpaType g \<noteq> []) (CreateVDPADevice env addr (vg_VdpaType g))))
        else BindDpdkDriver env addr (vg_DeviceType g))))"

definition config_vf :: "host_env \<Rightarrow> Interface \<Rightarrow> string \<Rightarrow> unit hio" where
  "config_vf env iface addr =
     io_bind (HasDriver env addr) (\<lambda>(hasDriver, _).
     io_bind (io_when (\<not> hasDriver) (BindDefaultDriver env addr)) (\<lambda>_.
     io_bind (ask (\<lambda>l. he_VFID env l addr)) (\<lambda>vfID.
     io_bind (io_lift (map_err HostPanic (find_group vfID (if_VfGroups iface)))) (\<lambda>found.
       case found of
         None \<Rightarrow> io_return ()
       | Some g \<Rightarrow> io_bind (config_vf_address env iface addr vfID) (\<lambda>_. config_vf_group env iface addr g)))))"

text \<open>An error while listing the VFs is only logged, and then there is no VF to configure.\<close>

definition configSriovVFDevices :: "host_env \<Rightarrow> Interface \<Rightarrow> unit hio" where
  "configSriovVFDevices env iface =
     io_when (if_NumVfs iface > 0)
       (io_bind (tell (\<lambda>l. case he_VFList env l (if_PciAddress iface) of Inl _ \<Rightarrow> [] | Inr vfs \<Rightarrow> vfs)) (\<lambda>vfAddrs.
        io_bind (ask (\<lambda>l. he_Link env l (if_Name iface))) (\<lambda>_.
          io_each (config_vf env iface) vfAddrs)))"

definition configSriovDevice :: "host_env \<Rightarrow> Interface \<Rightarrow> bool \<Rightarrow> unit hio" where
  "configSriovDevice env iface skipVFConfiguration =
     io_bind (io_when (\<not> if_ExternallyManaged iface) (configSriovPFDevice env iface)) (\<lambda>_.
       if skipVFConfiguration
       then if if_ExternallyManaged iface then io_return () else unbindAllVFsOnPF env (if_PciAddress iface)
       else
         io_bind (io_when (if_ExternallyManaged iface) (checkExternallyManagedPF env iface)) (\<lambda>_.
         io_bind (configSriovVFDevices env iface) (\<lambda>_.
         io_bind (ask (\<lambda>l. he_Link env l (if_Name iface))) (\<lambda>(_, up).
           io_when (\<not> up) (act env (LinkSetUp (if_Name iface)))))))"

section \<open>All interfaces\<close>

definition skipSriovConfig :: "host_env \<Rightarrow> Interface \<Rightarrow> InterfaceExt \<Rightarrow> bool hio" where
  "skipSriovConfig env iface ifaceStatus =
     io_bind (io_lift (map_err HostPanic (NeedToUpdateSriov iface ifaceStatus))) (\<lambda>need.
       if \<not> need then io_bind (SaveLastPfAppliedStatus env iface) (\<lambda>_. io_return True)
       else io_return False)"

type_synonym to_configure = "(Interface \<times> InterfaceExt) list"

text \<open>The loop over the desired interfaces for one status.\<close>

fun match_ifaces ::
    "host_env \<Rightarrow> InterfaceExt \<Rightarrow> Interface list \<Rightarrow> bool \<Rightarrow> to_configure \<Rightarrow> (bool \<times> to_configure) hio" where
  "match_ifaces env ifaceStatus [] configured acc = io_return (configured, acc)"
| "match_ifaces env ifaceStatus (iface # rest) configured acc =
     (if if_PciAddress iface = ie_PciAddress ifaceStatus
      then io_bind (skipSriovConfig env iface ifaceStatus) (\<lambda>skip.
             if skip then io_return (True, acc)
             else match_ifaces env ifaceStatus rest True (acc @ [(iface, ifaceStatus)]))
      else match_ifaces env ifaceStatus rest configured acc)"

fun getConfigureAndReset ::
    "host_env \<Rightarrow> Interface list \<Rightarrow> InterfaceExt list \<Rightarrow> to_configure \<Rightarrow> InterfaceExt list \<Rightarrow>
     (to_configure \<times> InterfaceExt list) hio" where
  "getConfigureAndReset env interfaces [] toBeConfigured toBeResetted = io_return (toBeConfigured, toBeResetted)"
| "getConfigureAndReset env interfaces (ifaceStatus # rest) toBeConfigured toBeResetted =
     io_bind (match_ifaces env ifaceStatus interfaces False toBeConfigured) (\<lambda>(configured, toBeConfigured).
       getConfigureAndReset env interfaces rest toBeConfigured
         (if configured then toBeResetted else toBeResetted @ [ifaceStatus]))"

definition configSriovInterfaces :: "host_env \<Rightarrow> bool \<Rightarrow> to_configure \<Rightarrow> unit hio" where
  "configSriovInterfaces env skipVFConfiguration interfaces =
     io_each (\<lambda>(iface, ifaceStatus).
         rescue (configSriovDevice env iface skipVFConfiguration)
           (\<lambda>e. io_bind (io_when (\<not> if_ExternallyManaged iface) (io_ignore (ResetSriovDevice env ifaceStatus))) (\<lambda>_. io_fail e))
           (\<lambda>_. SaveLastPfAppliedStatus env iface))
       interfaces"

text \<open>The body of a goroutine ends with its error, if any; an error of the reset replaces that of the configuration.\<close>

definition config_goroutine :: "host_env \<Rightarrow> bool \<Rightarrow> Interface \<times> InterfaceExt \<Rightarrow> host_error option hio" where
  "config_goroutine env skipVFConfiguration p =
     (case p of (iface, ifaceStatus) \<Rightarrow>
        rescue (configSriovDevice env iface skipVFConfiguration)
          (\<lambda>e. if if_ExternallyManaged iface then io_return (Some e)
               else io_handle (ResetSriovDevice env ifaceStatus) (\<lambda>re. io_return (Some re)) (\<lambda>_. io_return (Some e)))
          (\<lambda>_. io_return None))"

definition join_error :: "host_error list \<Rightarrow> host_error option \<Rightarrow> host_error list" where
  "join_error es e = (case e of None \<Rightarrow> es | Some e \<Rightarrow> es @ [e])"

fun config_all :: "host_env \<Rightarrow> bool \<Rightarrow> to_configure \<Rightarrow> host_error list \<Rightarrow> host_error list hio" where
  "config_all env skipVF [] es = io_return es"
| "config_all env skipVF (p # rest) es =
     io_bind (config_goroutine env skipVF p) (\<lambda>e.
     io_bind (SaveLastPfAppliedStatus env (fst p)) (\<lambda>_.
       config_all env skipVF rest (join_error es e)))"

definition configSriovInterfacesInParallel :: "host_env \<Rightarrow> bool \<Rightarrow> to_configure \<Rightarrow> unit hio" where
  "configSriovInterfacesInParallel env skipVFConfiguration interfaces =
     io_bind (config_all env skipVFConfiguration interfaces []) (\<lambda>es.
       if es = [] then io_return () else io_fail (Joined es))"

definition checkForConfigAndReset :: "host_env \<Rightarrow> InterfaceExt \<Rightarrow> unit hio" where
  "checkForConfigAndReset env ifaceStatus =
     (let addr = ie_PciAddress ifaceStatus in
      io_bind (LoadPfsStatus env addr) (\<lambda>saved.
        case saved of
          None \<Rightarrow> io_return ()
        | Some pfStatus \<Rightarrow>
            if if_ExternallyManaged pfStatus then RemovePfAppliedStatus env addr
            else
              io_bind (removeUdevRules env addr) (\<lambda>_.
              io_bind (io_when (ie_NumVfs ifaceStatus > 0) (ResetSriovDevice env ifaceStatus)) (\<lambda>_.
                RemovePfAppliedStatus env addr))))"

definition resetSriovInterfaces :: "host_env \<Rightarrow> InterfaceExt list \<Rightarrow> unit hio" where
  "resetSriovInterfaces env interfaces = io_each (checkForConfigAndReset env) interfaces"

fun reset_all :: "host_env \<Rightarrow> InterfaceExt list \<Rightarrow> host_error list \<Rightarrow> host_error list hio" where
  "reset_all env [] es = io_return es"
| "reset_all env (i # rest) es =
     io_handle (checkForConfigAndReset env i) (\<lambda>e. reset_all env rest (es @ [e])) (\<lambda>_. reset_all env rest es)"

definition resetSriovInterfacesInParallel :: "host_env \<Rightarrow> InterfaceExt list \<Rightarrow> unit hio" where
  "resetSriovInterfacesInParallel env interfaces =
     io_bind (reset_all env interfaces []) (\<lambda>es. if es = [] then io_return () else io_fail (Joined es))"

definition ConfigSriovInterfaces :: "host_env \<Rightarrow> Interface list \<Rightarrow> InterfaceExt list \<Rightarrow> bool \<Rightarrow> unit hio" where
  "ConfigSriovInterfaces env interfaces ifaceStatuses skipVFConfiguration =
     io_bind (io_map_err (\<lambda>e. case e of HostPanic p \<Rightarrow> HostPanic p | _ \<Rightarrow> HostMsg ''cannot get a list of interfaces to configure'')
       (getConfigureAndReset env interfaces ifaceStatuses [] [])) (\<lambda>(toBeConfigured, toBeResetted).
     io_bind (if he_ParallelNicConfig env then configSriovInterfacesInParallel env skipVFConfiguration toBeConfigured
              else configSriovInterfaces env skipVFConfiguration toBeConfigured) (\<lambda>_.
     io_bind (io_when (ContainsSwitchdevInterface interfaces \<and> toBeConfigured \<noteq> [])
       (io_map_err (\<lambda>_. HostMsg ''failed to reload udev rules'') (act env LoadUdevRules))) (\<lambda>_.
       io_map_err (\<lambda>_. HostMsg ''cannot reset sriov interfaces'')
         (if he_ParallelNicConfig env then resetSriovInterfacesInParallel env toBeResetted
          else resetSriovInterfaces env toBeResetted))))"

section \<open>Virtual platforms\<close>

definition config_virtual :: "host_env \<Rightarrow> Interface \<times> InterfaceExt \<Rightarrow> unit hio" where
  "config_virtual env p =
     (let iface = fst p; addr = if_PciAddress (fst p) in
      if if_NumVfs iface > 0
      then
        if if_NumVfs iface > 1 then io_fail (HostMsg ''NumVfs > 1'')
        else case if_VfGroups iface of
          [g] \<Rightarrow>
            io_bind (io_lift (map_err HostPanic (IndexInRange 0 (vg_VfRange g)))) (\<lambda>b.
              if \<not> b then io_fail (HostMsg ''VF ID is not in the range'')
              else
                io_bind (if StringInArray (vg_DeviceType g) DpdkDrivers then BindDpdkDriver env addr (vg_DeviceType g)
                         else BindDefaultDriver env addr) (\<lambda>_.
                  SaveLastPfAppliedStatus env iface))
        | _ \<Rightarrow> io_fail (HostMsg ''unexpected number of VFGroups'')
      else io_return ())"

definition reset_virtual :: "host_env \<Rightarrow> InterfaceExt \<Rightarrow> unit hio" where
  "reset_virtual env iface =
     io_bind (LoadPfsStatus env (ie_PciAddress iface)) (\<lambda>saved.
       case saved of
         None \<Rightarrow> io_return ()
       | Some pfStatus \<Rightarrow>
           if if_ExternallyManaged pfStatus then io_return ()
           else io_bind (BindDefaultDriver env (ie_PciAddress iface)) (\<lambda>_. RemovePfAppliedStatus env (ie_PciAddress iface)))"

definition ConfigSriovDevicesVirtual :: "host_env \<Rightarrow> Interface list \<Rightarrow> InterfaceExt list \<Rightarrow> unit hio" where
  "ConfigSriovDevicesVirtual env interfaces ifaceStatuses =
     io_bind (io_map_err (\<lambda>e. case e of HostPanic p \<Rightarrow> HostPanic p | _ \<Rightarrow> HostMsg ''cannot get a list of interfaces to configure'')
       (getConfigureAndReset env interfaces ifaceStatuses [] [])) (\<lambda>(toBeConfigured, toBeResetted).
     io_bind (io_each (config_virtual env) toBeConfigured) (\<lambda>_.
       io_each (reset_virtual env) toBeResetted))"

end
