(* ===== verification/Host_Footprint.thy ===== *)
theory Host_Footprint
  imports Sriov_Host
begin

text \<open>
  Which devices the configuration of the host touches: the actions for one PF stay on the PF, its network interface and
  its VFs; of an externally managed PF they stay on its link and its VFs; and whether a PF is touched at all.
\<close>

section \<open>Targets of an action\<close>

text \<open>
  What an action changes: a PCI device (its number of VFs, driver, MTU, eswitch mode, devlink parameters, vdpa
  device, bridge port and the udev rules written for its address), a network interface by its name (offload settings,
  the udev rules that fix its name), the administrative state of its link, and the table a PF keeps of the addresses
  and GUIDs of its VFs. The bridges of the node and the reload of all udev rules are not targets of a single device.
\<close>

datatype target =
    Device string
  | Netdev string
  | LinkState string
  | VfTable string

definition bus_device :: "string \<Rightarrow> string \<Rightarrow> string" where
  "bus_device bus d = (if bus = BusVdpa then drop 5 d else d)"

fun act_targets :: "host_action \<Rightarrow> target set" where
  "act_targets (WriteNumVfs a _) = {Device a}"
| "act_targets (WriteOverride bus d _) = {Device (bus_device bus d)}"
| "act_targets (ProbeDriver bus d) = {Device (bus_device bus d)}"
| "act_targets (BindDriver bus d _) = {Device (bus_device bus d)}"
| "act_targets (UnbindDriver bus d _) = {Device (bus_device bus d)}"
| "act_targets (LinkSetMTU a _) = {Device a}"
| "act_targets (DevLinkSetEswitchMode a _) = {Device a}"
| "act_targets (SetDevlinkParam a _ _) = {Device a}"
| "act_targets (EnableHwTcOffload n) = {Netdev n}"
| "act_targets (LinkSetVfHardwareAddr n _ vf) = {VfTable n, Device vf}"
| "act_targets (ConfigureVfGUID vf pf _) = {VfTable pf, Device vf}"
| "act_targets (LinkSetUp n) = {LinkState n}"
| "act_targets (AddDisableNMUdevRule a) = {Device a}"
| "act_targets (AddPersistPFNameUdevRule a n) = {Device a, Netdev n}"
| "act_targets (AddVfRepresentorUdevRule a n _ _) = {Device a, Netdev n}"
| "act_targets (RemoveDisableNMUdevRule a) = {Device a}"
| "act_targets (RemoveVfRepresentorUdevRule a) = {Device a}"
| "act_targets (RemovePersistPFNameUdevRule a) = {Device a}"
| "act_targets (DetachFromManagedBridge a) = {Device a}"
| "act_targets (VDPANewDev a _) = {Device a}"
| "act_targets (VDPADelDev a) = {Device a}"
| "act_targets LoadUdevRules = {}"
| "act_targets (SaveStatus _) = {}"
| "act_targets (RemoveStatus _) = {}"
| "act_targets (ConfigureBridges _ _) = {}"
| "act_targets (LoadKernelModule _) = {}"

text \<open>Actions on targets of a set that save no configuration.\<close>

definition on_devices :: "target set \<Rightarrow> host_action \<Rightarrow> bool" where
  "on_devices A a \<longleftrightarrow> act_targets a \<subseteq> A \<and> (\<forall>b. \<not> saves b a) \<and> (\<forall>x y. a \<noteq> ConfigureBridges x y)"

definition vfs_of :: "host_env \<Rightarrow> string \<Rightarrow> string set" where
  "vfs_of env pf = {v. \<exists>l vs. he_VFList env l pf = Inr vs \<and> v \<in> set vs}"

text \<open>The VFs of a PF, the table kept of them, and everything that belongs to a PF of an address and a name.\<close>

definition vf_targets :: "host_env \<Rightarrow> string \<Rightarrow> target set" where
  "vf_targets env pf = Device ` vfs_of env pf"

definition pf_targets :: "host_env \<Rightarrow> string \<Rightarrow> string \<Rightarrow> target set" where
  "pf_targets env pf nm = {Device pf, Netdev nm, LinkState nm, VfTable nm, VfTable pf} \<union> vf_targets env pf"

definition pf_devices :: "host_env \<Rightarrow> Interface \<Rightarrow> target set" where
  "pf_devices env i = pf_targets env (if_PciAddress i) (if_Name i)"

lemma vf_targets_iff [simp]:
  "Device v \<in> vf_targets env pf \<longleftrightarrow> v \<in> vfs_of env pf"
  "Netdev n \<notin> vf_targets env pf" "LinkState n \<notin> vf_targets env pf" "VfTable n \<notin> vf_targets env pf"
  by (auto simp: vf_targets_def)

lemma on_devices_iff [simp]:
  "on_devices A a \<longleftrightarrow> act_targets a \<subseteq> A \<and> (\<forall>b. \<not> saves b a) \<and> (\<forall>x y. a \<noteq> ConfigureBridges x y)"
  by (simp add: on_devices_def)

lemma bus_device_simps [simp]: "bus_device BusPci d = d" "bus_device BusVdpa (generateVDPADevName d) = d"
  by (simp_all add: bus_device_def generateVDPADevName_def)

section \<open>Drivers\<close>

lemma only_unbind_bus [only_rules]: "Device (bus_device bus d) \<in> A \<Longrightarrow> only (on_devices A) (UnbindDriverByBusAndDevice env bus d)"
  unfolding UnbindDriverByBusAndDevice_def getDriverByBusAndDevice_def by (intro only_rules only_act) auto

lemma only_unbind [only_rules]: "Device d \<in> A \<Longrightarrow> only (on_devices A) (Unbind env d)"
  unfolding Unbind_def by (intro only_rules) simp

lemma only_override [only_rules]: "Device (bus_device bus d) \<in> A \<Longrightarrow> only (on_devices A) (setDriverOverride env bus d ov)"
  unfolding setDriverOverride_def by (intro only_rules only_act) auto

lemma only_bind_default [only_rules]: "Device d \<in> A \<Longrightarrow> only (on_devices A) (BindDefaultDriver env d)"
  unfolding BindDefaultDriver_def getDriverByBusAndDevice_def by (intro only_rules only_act) auto

lemma only_bind_bus [only_rules]: "Device (bus_device bus d) \<in> A \<Longrightarrow> only (on_devices A) (BindDriverByBusAndDevice env bus d drv)"
  unfolding BindDriverByBusAndDevice_def getDriverByBusAndDevice_def by (intro only_rules only_act) auto

lemma only_bind_dpdk [only_rules]: "Device d \<in> A \<Longrightarrow> only (on_devices A) (BindDpdkDriver env d drv)"
  unfolding BindDpdkDriver_def by (intro only_rules) auto

lemma only_rebind [only_rules]: "Device d \<in> A \<Longrightarrow> only (on_devices A) (RebindVfToDefaultDriver env d)"
  unfolding RebindVfToDefaultDriver_def by (intro only_rules) auto

lemma only_unbind_if_needed [only_rules]: "Device d \<in> A \<Longrightarrow> only (on_devices A) (UnbindDriverIfNeeded env d b)"
  unfolding UnbindDriverIfNeeded_def by (intro only_rules)

lemma only_has_driver [only_rules]: "only P (HasDriver env d)"
  unfolding HasDriver_def getDriverByBusAndDevice_def by (intro only_rules)

lemma only_create_vdpa [only_rules]: "Device d \<in> A \<Longrightarrow> only (on_devices A) (CreateVDPADevice env d t)"
  unfolding CreateVDPADevice_def Let_def by (intro only_rules only_act) auto

lemma only_delete_vdpa [only_rules]: "Device d \<in> A \<Longrightarrow> only (on_devices A) (DeleteVDPADevice env d)"
  unfolding DeleteVDPADevice_def by (intro only_rules only_act) auto

section \<open>PF\<close>

lemma only_mtu [only_rules]: "Device d \<in> A \<Longrightarrow> only (on_devices A) (SetNetdevMTU env d n)"
  unfolding SetNetdevMTU_def by (intro only_rules only_act) auto

lemma only_num_vfs [only_rules]: "Device d \<in> A \<Longrightarrow> only (on_devices A) (SetSriovNumVfs env d n)"
  unfolding SetSriovNumVfs_def by (intro only_rules only_act) auto

lemma only_get_mode [only_rules]: "only P (GetNicSriovMode env d)"
  unfolding GetNicSriovMode_def by (intro only_rules)

lemma only_link_type [only_rules]: "only P (GetLinkType env d)"
  unfolding GetLinkType_def by (intro only_rules)

lemma only_set_mode [only_rules]: "Device d \<in> A \<Longrightarrow> only (on_devices A) (SetNicSriovMode env d m)"
  unfolding SetNicSriovMode_def by (intro only_rules only_act) auto

lemma only_detach [only_rules]: "Device d \<in> A \<Longrightarrow> only (on_devices A) (detachUplinkAndVFRepresentorsFromBridge env d)"
  unfolding detachUplinkAndVFRepresentorsFromBridge_def by (intro only_rules only_act) auto

lemma only_unbind_all [only_rules]: "vf_targets env d \<subseteq> A \<Longrightarrow> only (on_devices A) (unbindAllVFsOnPF env d)"
  unfolding unbindAllVFsOnPF_def by (intro only_bind_ask only_each only_unbind) (auto simp: vf_targets_def vfs_of_def)

lemma only_wait [only_rules]: "only P (waitForVFLinks env d n)"
  unfolding waitForVFLinks_def by (intro only_rules)

lemma only_mlx [only_rules]: "insert (Device d) (vf_targets env d) \<subseteq> A \<Longrightarrow> only (on_devices A) (setEswitchModeAndNumVFsMlx env d m n)"
  unfolding setEswitchModeAndNumVFsMlx_def by (intro only_rules) auto

lemma only_ice [only_rules]: "Device d \<in> A \<Longrightarrow> only (on_devices A) (setEswitchModeAndNumVFsIce env d m n)"
  unfolding setEswitchModeAndNumVFsIce_def by (intro only_rules) auto

lemma only_set_vfs [only_rules]: "insert (Device d) (vf_targets env d) \<subseteq> A \<Longrightarrow> only (on_devices A) (setEswitchModeAndNumVFs env d m n)"
  unfolding setEswitchModeAndNumVFs_def by (intro only_rules) auto

lemma only_reset_device [only_rules]:
  "insert (Device (ie_PciAddress s)) (vf_targets env (ie_PciAddress s)) \<subseteq> A \<Longrightarrow> only (on_devices A) (ResetSriovDevice env s)"
  unfolding ResetSriovDevice_def Let_def by (intro only_rules) auto

lemma only_remove_udev [only_rules]: "Device d \<in> A \<Longrightarrow> only (on_devices A) (removeUdevRules env d)"
  unfolding removeUdevRules_def by (intro only_rules only_act) auto

lemma only_add_udev [only_rules]: "{Device (if_PciAddress i), Netdev (if_Name i)} \<subseteq> A \<Longrightarrow> only (on_devices A) (addUdevRules env i)"
  unfolding addUdevRules_def by (intro only_rules only_act) auto

lemma only_representor [only_rules]: "{Device (if_PciAddress i), Netdev (if_Name i)} \<subseteq> A \<Longrightarrow> only (on_devices A) (addVfRepresentorUdevRule env i)"
  unfolding addVfRepresentorUdevRule_def by (intro only_rules only_act) auto

lemma only_create_vfs [only_rules]: "pf_devices env i \<subseteq> A \<Longrightarrow> only (on_devices A) (createVFs env i)"
  unfolding createVFs_def Let_def by (intro only_rules) (auto simp: pf_devices_def pf_targets_def)

lemma only_hw_options [only_rules]: "pf_devices env i \<subseteq> A \<Longrightarrow> only (on_devices A) (configureHWOptionsForSwitchdev env i)"
  unfolding configureHWOptionsForSwitchdev_def Let_def by (intro only_rules only_act) (auto simp: pf_devices_def pf_targets_def)

lemma only_config_pf [only_rules]: "pf_devices env i \<subseteq> A \<Longrightarrow> only (on_devices A) (configSriovPFDevice env i)"
  unfolding configSriovPFDevice_def Let_def by (intro only_rules) (auto simp: pf_devices_def pf_targets_def)

lemma only_check_external [only_rules]: "only P (checkExternallyManagedPF env i)"
  unfolding checkExternallyManagedPF_def Let_def by (intro only_rules)

section \<open>VFs\<close>

lemma only_vf_address [only_rules]: "{Device addr, VfTable (if_Name i), VfTable (if_PciAddress i)} \<subseteq> A \<Longrightarrow> only (on_devices A) (config_vf_address env i addr n)"
  unfolding config_vf_address_def by (intro only_rules only_act) auto

lemma only_vf_group [only_rules]: "Device addr \<in> A \<Longrightarrow> only (on_devices A) (config_vf_group env i addr g)"
  unfolding config_vf_group_def Let_def by (intro only_rules) auto

lemma only_config_vf [only_rules]: "{Device addr, VfTable (if_Name i), VfTable (if_PciAddress i)} \<subseteq> A \<Longrightarrow> only (on_devices A) (config_vf env i addr)"
  unfolding config_vf_def by (intro only_rules) auto

lemma vfs_listed: "Inr vs = he_VFList env l pf \<Longrightarrow> x \<in> set vs \<Longrightarrow> x \<in> vfs_of env pf"
  unfolding vfs_of_def by (metis (mono_tags, lifting) mem_Collect_eq)

lemma only_config_vfs [only_rules]:
  "{VfTable (if_Name i), VfTable (if_PciAddress i)} \<union> vf_targets env (if_PciAddress i) \<subseteq> A \<Longrightarrow>
    only (on_devices A) (configSriovVFDevices env i)"
  unfolding configSriovVFDevices_def
  by (intro only_when only_bind_tell only_rules) (auto simp: vf_targets_def dest: vfs_listed)

text \<open>
  What the configuration of one interface touches: of an externally managed PF only the link, which is set up, and the
  addresses and GUIDs of its VFs.
\<close>

definition touched :: "host_env \<Rightarrow> Interface \<Rightarrow> target set" where
  "touched env i =
     (if if_ExternallyManaged i
      then {LinkState (if_Name i), VfTable (if_Name i), VfTable (if_PciAddress i)} \<union> vf_targets env (if_PciAddress i)
      else pf_devices env i)"

lemma only_config_device [only_rules]: "touched env i \<subseteq> A \<Longrightarrow> only (on_devices A) (configSriovDevice env i skip)"
  unfolding configSriovDevice_def by (intro only_rules only_act) (auto simp: touched_def pf_devices_def pf_targets_def split: if_splits)

section \<open>All interfaces\<close>

text \<open>Actions that avoid a set of targets, save the configuration of given PFs only and change no bridge.\<close>

definition avoids :: "target set \<Rightarrow> string set \<Rightarrow> host_action \<Rightarrow> bool" where
  "avoids D C a \<longleftrightarrow> act_targets a \<inter> D = {} \<and> (\<forall>b. saves b a \<longrightarrow> b \<in> C) \<and>
     (\<forall>x y. a = ConfigureBridges x y \<longrightarrow> \<not> NeedToUpdateBridges x y)"

lemma on_devices_avoids: "only (on_devices (- D)) m \<Longrightarrow> only (avoids D C) m"
  by (erule only_mono) (auto simp: avoids_def)

lemma avoids_save [only_rules]: "if_PciAddress i \<in> C \<Longrightarrow> only (avoids D C) (SaveLastPfAppliedStatus env i)"
  by (rule only_save) (simp add: avoids_def)

lemma avoids_remove [only_rules]: "only (avoids D C) (RemovePfAppliedStatus env a)"
  by (rule only_remove) (simp add: avoids_def)

lemma avoids_config_device:
  "touched env i \<inter> D = {} \<Longrightarrow> only (avoids D C) (configSriovDevice env i skip)"
  by (intro on_devices_avoids only_rules) auto

lemma avoids_reset_device:
  "insert (Device (ie_PciAddress s)) (vf_targets env (ie_PciAddress s)) \<inter> D = {} \<Longrightarrow> only (avoids D C) (ResetSriovDevice env s)"
  by (intro on_devices_avoids only_rules) auto

lemma avoids_match [only_rules]:
  "\<forall>i\<in>set ifs. if_PciAddress i \<in> C \<Longrightarrow> only (avoids D C) (match_ifaces env st ifs c acc)"
proof (induction ifs arbitrary: c acc)
  case (Cons i ifs)
  then have "only (avoids D C) (skipSriovConfig env i st)" unfolding skipSriovConfig_def by (intro only_rules) simp
  then show ?case using Cons by (auto intro!: only_rules)
qed (simp add: only_return)

lemma avoids_getConfigure:
  "\<forall>i\<in>set ifs. if_PciAddress i \<in> C \<Longrightarrow> only (avoids D C) (getConfigureAndReset env ifs sts tbc tbr)"
  by (induction sts arbitrary: tbc tbr) (auto intro!: only_rules)

text \<open>What is to be configured and what is to be reset.\<close>

definition needs_config :: "Interface list \<Rightarrow> InterfaceExt \<Rightarrow> Interface \<Rightarrow> bool" where
  "needs_config ifs st i \<longleftrightarrow> i \<in> set ifs \<and> if_PciAddress i = ie_PciAddress st \<and> NeedToUpdateSriov i st = Inr True"

definition unconfigured :: "Interface list \<Rightarrow> InterfaceExt \<Rightarrow> bool" where
  "unconfigured ifs st \<longleftrightarrow> (\<forall>i\<in>set ifs. if_PciAddress i \<noteq> ie_PciAddress st)"

lemma match_ifaces_result:
  "match_ifaces env st ifs c acc h = (Inr (c', acc'), h') \<Longrightarrow>
    c' = (c \<or> \<not> unconfigured ifs st) \<and> (\<forall>(i, s)\<in>set acc'. (i, s) \<in> set acc \<or> (s = st \<and> needs_config ifs st i))"
proof (induction ifs arbitrary: c acc h)
  case (Cons i ifs)
  show ?case
  proof (cases "if_PciAddress i = ie_PciAddress st")
    case True
    then obtain skip h1 where s: "skipSriovConfig env i st h = (Inr skip, h1)"
      and r: "(if skip then io_return (True, acc) else match_ifaces env st ifs True (acc @ [(i, st)])) h1 = (Inr (c', acc'), h')"
      using Cons.prems by (auto simp: io_bind_def split: prod.splits sum.splits)
    show ?thesis
    proof (cases skip)
      case True
      then show ?thesis using r \<open>if_PciAddress i = ie_PciAddress st\<close> by (auto simp: io_return_def unconfigured_def)
    next
      case False
      then have n: "NeedToUpdateSriov i st = Inr True"
        using s by (cases "NeedToUpdateSriov i st")
          (auto simp: skipSriovConfig_def io_bind_def io_lift_def io_return_def split: prod.splits sum.splits if_splits)
      show ?thesis using Cons.IH[of True "acc @ [(i, st)]" h1] r False n True
        by (fastforce simp: unconfigured_def needs_config_def)
    qed
  next
    case False
    then show ?thesis using Cons by (fastforce simp: unconfigured_def needs_config_def)
  qed
qed (auto simp: io_return_def unconfigured_def)

lemma getConfigure_result:
  "getConfigureAndReset env ifs sts tbc tbr h = (Inr (tbc', tbr'), h') \<Longrightarrow>
    tbr' = tbr @ filter (unconfigured ifs) sts \<and>
    (\<forall>(i, s)\<in>set tbc'. (i, s) \<in> set tbc \<or> (s \<in> set sts \<and> needs_config ifs s i))"
proof (induction sts arbitrary: tbc tbr h)
  case (Cons st sts)
  obtain c acc h1 where m: "match_ifaces env st ifs False tbc h = (Inr (c, acc), h1)"
    and r: "getConfigureAndReset env ifs sts acc (if c then tbr else tbr @ [st]) h1 = (Inr (tbc', tbr'), h')"
    using Cons.prems by (auto simp: io_bind_def split: prod.splits sum.splits)
  show ?case using Cons.IH[OF r] match_ifaces_result[OF m] by fastforce
qed (simp add: io_return_def)

definition config_safe :: "host_env \<Rightarrow> target set \<Rightarrow> string set \<Rightarrow> Interface \<times> InterfaceExt \<Rightarrow> bool" where
  "config_safe env D C p \<longleftrightarrow>
     touched env (fst p) \<inter> D = {} \<and> if_PciAddress (fst p) = ie_PciAddress (snd p) \<and> if_PciAddress (fst p) \<in> C"

lemma config_safe_reset:
  "config_safe env D C (i, s) \<Longrightarrow> \<not> if_ExternallyManaged i \<Longrightarrow> only (avoids D C) (ResetSriovDevice env s)"
  by (rule avoids_reset_device) (auto simp: config_safe_def touched_def pf_devices_def pf_targets_def)

lemma config_safe_device:
  "config_safe env D C (i, s) \<Longrightarrow> only (avoids D C) (configSriovDevice env i skip)"
  "config_safe env D C (i, s) \<Longrightarrow> only (avoids D C) (SaveLastPfAppliedStatus env i)"
  unfolding config_safe_def fst_conv snd_conv by (blast intro: avoids_config_device avoids_save)+

lemma avoids_config_interfaces:
  assumes "\<forall>p\<in>set tbc. config_safe env D C p"
  shows "only (avoids D C) (configSriovInterfaces env skip tbc)"
proof -
  have "config_safe env D C (i, s)" if "(i, s) \<in> set tbc" for i s using assms that by blast
  then show ?thesis unfolding configSriovInterfaces_def
    by (auto intro!: only_each only_rescue only_bind only_when only_ignore only_fail
      intro: config_safe_device config_safe_reset)
qed

lemma avoids_config_all:
  "\<forall>p\<in>set tbc. config_safe env D C p \<Longrightarrow> only (avoids D C) (config_all env skip tbc es)"
proof (induction tbc arbitrary: es)
  case (Cons p tbc)
  obtain i s where p: "p = (i, s)" by (cases p)
  have c: "config_safe env D C (i, s)" using Cons.prems p by simp
  then have "only (avoids D C) (config_goroutine env skip p)" unfolding config_goroutine_def p
    by (auto intro!: only_rescue only_if only_handle only_return config_safe_device(1)[OF c] config_safe_reset[OF c])
  moreover have "only (avoids D C) (SaveLastPfAppliedStatus env (fst p))" using config_safe_device(2)[OF c] p by simp
  ultimately show ?case using Cons by (auto intro!: only_bind)
qed (simp add: only_return)

lemma avoids_config_parallel:
  "\<forall>p\<in>set tbc. config_safe env D C p \<Longrightarrow> only (avoids D C) (configSriovInterfacesInParallel env skip tbc)"
  unfolding configSriovInterfacesInParallel_def by (intro only_rules avoids_config_all)

text \<open>
  Resetting depends on the saved configuration: nothing is done for a PF that the operator did not configure, and next
  to nothing for an externally managed one.
\<close>

definition reset_safe :: "host_env \<Rightarrow> target set \<Rightarrow> InterfaceExt \<Rightarrow> bool" where
  "reset_safe env D st \<longleftrightarrow>
     insert (Device (ie_PciAddress st)) (if ie_NumVfs st > 0 then vf_targets env (ie_PciAddress st) else {}) \<inter> D = {}"

definition foreign_pf :: "host_state \<Rightarrow> string \<Rightarrow> bool" where
  "foreign_pf h a \<longleftrightarrow> (case hs_Store h a of None \<Rightarrow> True | Some pf \<Rightarrow> if_ExternallyManaged pf)"

lemma grows_foreign: "grows (avoids D C) h h' \<Longrightarrow> foreign_pf h a \<Longrightarrow> a \<notin> C \<Longrightarrow> foreign_pf h' a"
proof -
  assume g: "grows (avoids D C) h h'" and f: "foreign_pf h a" and a: "a \<notin> C"
  then obtain new where "list_all (avoids D C) new"
    "list_all (\<lambda>x. \<not> saves a x) new \<longrightarrow> hs_Store h' a \<in> {hs_Store h a, None}"
    unfolding grows_def by blast
  moreover from this(1) have "list_all (\<lambda>x. \<not> saves a x) new" using a by (auto simp: avoids_def list_all_iff)
  ultimately show "foreign_pf h' a" using f by (auto simp: foreign_pf_def)
qed

lemma grows_reset_one:
  assumes "reset_safe env D st \<or> foreign_pf h (ie_PciAddress st)"
  shows "grows (avoids D C) h (snd (checkForConfigAndReset env st h))"
proof -
  let ?a = "ie_PciAddress st"
  let ?go = "\<lambda>saved. case saved of None \<Rightarrow> io_return () | Some pf \<Rightarrow>
      if if_ExternallyManaged pf then RemovePfAppliedStatus env ?a
      else io_bind (removeUdevRules env ?a) (\<lambda>_. io_bind (io_when (ie_NumVfs st > 0) (ResetSriovDevice env st)) (\<lambda>_.
        RemovePfAppliedStatus env ?a))"
  have u: "checkForConfigAndReset env st h = io_bind (LoadPfsStatus env ?a) ?go h"
    by (simp add: checkForConfigAndReset_def Let_def)
  show ?thesis
  proof (cases "he_LoadError env (hs_Log h) ?a")
    case None
    then have e: "checkForConfigAndReset env st h = ?go (hs_Store h ?a) h"
      unfolding u by (simp add: io_bind_def LoadPfsStatus_def)
    have "only (avoids D C) (?go (hs_Store h ?a))"
    proof (cases "foreign_pf h ?a")
      case True
      then show ?thesis by (auto simp: foreign_pf_def intro!: only_rules split: option.splits)
    next
      case False
      then have "reset_safe env D st" using assms by blast
      then have "only (avoids D C) (removeUdevRules env ?a)"
        "ie_NumVfs st > 0 \<Longrightarrow> only (avoids D C) (ResetSriovDevice env st)"
        by (auto simp: reset_safe_def intro!: on_devices_avoids only_rules split: if_splits)
      then show ?thesis by (intro only_rules)
    qed
    then show ?thesis unfolding e by (simp add: only_def)
  next
    case (Some e)
    then show ?thesis unfolding u by (simp add: io_bind_def LoadPfsStatus_def grows_refl)
  qed
qed

definition resets_safe :: "host_env \<Rightarrow> target set \<Rightarrow> string set \<Rightarrow> InterfaceExt list \<Rightarrow> host_state \<Rightarrow> bool" where
  "resets_safe env D C sts h \<longleftrightarrow>
     (\<forall>st\<in>set sts. reset_safe env D st \<or> (foreign_pf h (ie_PciAddress st) \<and> ie_PciAddress st \<notin> C))"

lemma resets_safe_grows: "resets_safe env D C sts h \<Longrightarrow> grows (avoids D C) h h' \<Longrightarrow> resets_safe env D C sts h'"
  unfolding resets_safe_def using grows_foreign by blast

lemma resets_safe_Cons:
  "resets_safe env D C (st # sts) h \<Longrightarrow>
    grows (avoids D C) h (snd (checkForConfigAndReset env st h)) \<and>
    resets_safe env D C sts (snd (checkForConfigAndReset env st h))"
  using grows_reset_one[of env D st h C] resets_safe_grows[of env D C sts h]
  by (auto simp: resets_safe_def)

lemma grows_reset_interfaces:
  "resets_safe env D C sts h \<Longrightarrow> grows (avoids D C) h (snd (resetSriovInterfaces env sts h))"
  unfolding resetSriovInterfaces_def
proof (induction sts arbitrary: h)
  case (Cons st sts)
  obtain r h1 where m: "checkForConfigAndReset env st h = (r, h1)" by (cases "checkForConfigAndReset env st h")
  have g: "grows (avoids D C) h h1" and n: "resets_safe env D C sts h1" using resets_safe_Cons[OF Cons.prems] m by simp_all
  show ?case using g grows_trans[OF g Cons.IH[OF n]] m by (cases r) (simp_all add: io_bind_def)
qed (simp add: io_return_def grows_refl)

lemma grows_reset_all:
  "resets_safe env D C sts h \<Longrightarrow> grows (avoids D C) h (snd (reset_all env sts es h))"
proof (induction sts arbitrary: h es)
  case (Cons st sts)
  obtain r h1 where m: "checkForConfigAndReset env st h = (r, h1)" by (cases "checkForConfigAndReset env st h")
  have g: "grows (avoids D C) h h1" and n: "resets_safe env D C sts h1" using resets_safe_Cons[OF Cons.prems] m by simp_all
  show ?case using grows_trans[OF g Cons.IH[OF n]] m by (cases r) (simp_all add: io_handle_def)
qed (simp add: io_return_def grows_refl)

lemma grows_bind:
  assumes "grows P h (snd (m h))"
    and "\<And>x h'. m h = (Inr x, h') \<Longrightarrow> grows P h h' \<Longrightarrow> grows P h' (snd (f x h'))"
  shows "grows P h (snd (io_bind m f h))"
proof -
  obtain r h' where m: "m h = (r, h')" by (cases "m h")
  then have g: "grows P h h'" using assms(1) by simp
  show ?thesis
  proof (cases r)
    case (Inl e)
    then show ?thesis using m g by (simp add: io_bind_def)
  next
    case (Inr x)
    then have "grows P h' (snd (f x h'))" using assms(2) m g by blast
    then show ?thesis using grows_trans[OF g] m Inr by (simp add: io_bind_def)
  qed
qed

lemma grows_only: "only P m \<Longrightarrow> grows P h (snd (m h))"
  by (simp add: only_def)

lemma snd_map_err: "snd (io_map_err g m h) = snd (m h)"
  by (simp add: io_map_err_def case_prod_unfold)

lemma map_err_Inr: "io_map_err g m h = (Inr x, h') \<longleftrightarrow> m h = (Inr x, h')"
  by (cases "m h") (simp add: io_map_err_def)

lemma grows_ConfigSriovInterfaces:
  assumes "\<And>st i. st \<in> set sts \<Longrightarrow> needs_config ifs st i \<Longrightarrow> touched env i \<inter> D = {}"
    and "\<And>st. st \<in> set sts \<Longrightarrow> unconfigured ifs st \<Longrightarrow> reset_safe env D st \<or> foreign_pf h (ie_PciAddress st)"
  shows "grows (avoids D (if_PciAddress ` set ifs)) h (snd (ConfigSriovInterfaces env ifs sts skip h))"
proof -
  let ?C = "if_PciAddress ` set ifs"
  have get: "only (avoids D ?C) (getConfigureAndReset env ifs sts [] [])" by (rule avoids_getConfigure) simp
  have rest: "grows (avoids D ?C) h' (snd (io_bind
      (if he_ParallelNicConfig env then configSriovInterfacesInParallel env skip tbc else configSriovInterfaces env skip tbc)
      (\<lambda>_. io_bind (io_when (ContainsSwitchdevInterface ifs \<and> tbc \<noteq> [])
         (io_map_err (\<lambda>_. HostMsg ''failed to reload udev rules'') (act env LoadUdevRules))) (\<lambda>_.
       io_map_err (\<lambda>_. HostMsg ''cannot reset sriov interfaces'')
         (if he_ParallelNicConfig env then resetSriovInterfacesInParallel env tbr else resetSriovInterfaces env tbr))) h'))"
    if m: "getConfigureAndReset env ifs sts [] [] h = (Inr (tbc, tbr), h')" and g: "grows (avoids D ?C) h h'" for tbc tbr h'
  proof (rule grows_bind)
    have tbr: "tbr = filter (unconfigured ifs) sts" and tbc: "\<forall>(i, s)\<in>set tbc. s \<in> set sts \<and> needs_config ifs s i"
      using getConfigure_result[OF m] by auto
    have "\<forall>p\<in>set tbc. config_safe env D ?C p"
      using tbc assms(1) by (fastforce simp: config_safe_def needs_config_def)
    then show "grows (avoids D ?C) h' (snd ((if he_ParallelNicConfig env then configSriovInterfacesInParallel env skip tbc
        else configSriovInterfaces env skip tbc) h'))"
      using avoids_config_parallel avoids_config_interfaces by (auto intro: grows_only)
    fix x h2 assume g2: "grows (avoids D ?C) h' h2"
    show "grows (avoids D ?C) h2 (snd (io_bind (io_when (ContainsSwitchdevInterface ifs \<and> tbc \<noteq> [])
         (io_map_err (\<lambda>_. HostMsg ''failed to reload udev rules'') (act env LoadUdevRules))) (\<lambda>_.
       io_map_err (\<lambda>_. HostMsg ''cannot reset sriov interfaces'')
         (if he_ParallelNicConfig env then resetSriovInterfacesInParallel env tbr else resetSriovInterfaces env tbr)) h2))"
    proof (rule grows_bind)
      show "grows (avoids D ?C) h2 (snd (io_when (ContainsSwitchdevInterface ifs \<and> tbc \<noteq> [])
         (io_map_err (\<lambda>_. HostMsg ''failed to reload udev rules'') (act env LoadUdevRules)) h2))"
        by (intro grows_only only_rules only_act) (simp add: avoids_def)
      fix y h3 assume g3: "grows (avoids D ?C) h2 h3"
      have "resets_safe env D ?C tbr h"
        using assms(2) by (auto simp: tbr resets_safe_def unconfigured_def)
      then have s: "resets_safe env D ?C tbr h3" using g g2 g3 resets_safe_grows by blast
      have "grows (avoids D ?C) h3 (snd (resetSriovInterfacesInParallel env tbr h3))"
        unfolding resetSriovInterfacesInParallel_def
        by (rule grows_bind) (auto intro: grows_reset_all[OF s] simp: io_return_def io_fail_def grows_refl)
      then show "grows (avoids D ?C) h3 (snd (io_map_err (\<lambda>_. HostMsg ''cannot reset sriov interfaces'')
         (if he_ParallelNicConfig env then resetSriovInterfacesInParallel env tbr else resetSriovInterfaces env tbr) h3))"
        using grows_reset_interfaces[OF s] by (simp add: snd_map_err)
    qed
  qed
  show ?thesis unfolding ConfigSriovInterfaces_def
    by (rule grows_bind) (use grows_only[OF get] rest in \<open>auto simp: snd_map_err map_err_Inr\<close>)
qed

end
