(* ===== verification/Plugin_Apply.thy ===== *)
theory Plugin_Apply
  imports Generic_Plugin Host_Footprint
begin

text \<open>
  Applying the configuration: \<^verbatim>\<open>Apply\<close> of the generic and the virtual plugin, and how it fits the drain decision
  of the generic plugin: when the plugin asks for no drain, applying the configuration does not touch a PF that has
  VFs, nor its VFs.
\<close>

section \<open>Apply\<close>

fun host_error_of :: "plugin_error \<Rightarrow> host_error" where
  "host_error_of (PluginPanic p) = HostPanic p"
| "host_error_of (HostFailed e) = HostMsg e"
| "host_error_of (UnexpectedRdmaMode m) = HostMsg (''unexpected rdma mode: '' @ m)"

text \<open>\<open>chroot\<close> is the error of changing the root, which is not done under systemd.\<close>

definition gen_Apply ::
    "plugin_host \<Rightarrow> host_env \<Rightarrow> bool \<Rightarrow> string option \<Rightarrow> GenericPlugin \<Rightarrow> host_state \<Rightarrow>
     GenericPlugin \<times> (host_error + unit) \<times> host_state" where
  "gen_Apply host env usingSystemdMode chroot p h =
     (case syncDriverState host p of (p, loaded, r) \<Rightarrow>
        let h = h\<lparr>hs_Log := hs_Log h @ map LoadKernelModule loaded\<rparr> in
        case r of
          Inl e \<Rightarrow> (p, Inl (host_error_of e), h)
        | Inr _ \<Rightarrow>
            (case (gp_DesireState p, if usingSystemdMode then None else chroot) of
               (None, _) \<Rightarrow> (p, Inl (HostPanic NilDereference), h)
             | (Some s, Some e) \<Rightarrow> (p, Inl (HostMsg e), h)
             | (Some s, None) \<Rightarrow>
                 (case ConfigSriovInterfaces env (ns_Interfaces (state_Spec s)) (nst_Interfaces (state_Status s))
                     (gp_skipVFConfiguration p) h of
                    (Inl e, h) \<Rightarrow>
                      ((if is_errno ''ENOMEM'' e then enableDesiredKernelArgs KernelArgPciRealloc p else p), Inl e, h)
                  | (Inr _, h) \<Rightarrow>
                      if shouldConfigureBridges host p
                      then (case act env (ConfigureBridges (ns_Bridges (state_Spec s)) (nst_Bridges (state_Status s))) h of
                              (r, h) \<Rightarrow> (p, r, h))
                      else (p, Inr (), h))))"

definition virt_load_vfio :: "plugin_host \<Rightarrow> VirtualPlugin \<Rightarrow> VirtualPlugin \<times> string list \<times> string option" where
  "virt_load_vfio host p =
     (if vp_LoadVfioDriver p = vfio_loading
      then case ph_LoadModule host ''vfio enable_unsafe_noiommu_mode=1'' of
             Some e \<Rightarrow> (p, [], Some e)
           | None \<Rightarrow>
               (case ph_LoadModule host ''vfio_pci'' of
                  Some e \<Rightarrow> (p, [''vfio enable_unsafe_noiommu_mode=1''], Some e)
                | None \<Rightarrow> (p\<lparr>vp_LoadVfioDriver := vfio_loaded\<rparr>, [''vfio enable_unsafe_noiommu_mode=1'', ''vfio_pci''], None))
      else (p, [], None))"

definition virt_Apply ::
    "plugin_host \<Rightarrow> host_env \<Rightarrow> string option \<Rightarrow> VirtualPlugin \<Rightarrow> host_state \<Rightarrow>
     VirtualPlugin \<times> (host_error + unit) \<times> host_state" where
  "virt_Apply host env chroot p h =
     (case virt_load_vfio host p of (p, loaded, e) \<Rightarrow>
        let h = h\<lparr>hs_Log := hs_Log h @ map LoadKernelModule loaded\<rparr> in
        case (e, vp_DesireState p) of
          (Some e, _) \<Rightarrow> (p, Inl (HostMsg e), h)
        | (None, None) \<Rightarrow> (p, Inl (HostPanic NilDereference), h)
        | (None, Some new) \<Rightarrow>
            if (case vp_LastState p of None \<Rightarrow> False
                | Some prev \<Rightarrow> ns_Interfaces (state_Spec prev) = ns_Interfaces (state_Spec new))
            then (p, Inr (), h)
            else case chroot of
              Some e \<Rightarrow> (p, Inl (HostMsg e), h)
            | None \<Rightarrow>
                (case ConfigSriovDevicesVirtual env (ns_Interfaces (state_Spec new)) (nst_Interfaces (state_Status new)) h of
                   (Inl e, h) \<Rightarrow> (p, Inl e, h)
                 | (Inr _, h) \<Rightarrow> (p\<lparr>vp_LastState := Some new\<rparr>, Inr (), h)))"

section \<open>The drain decision\<close>

lemma iface_needs_drain_False:
  assumes "iface_needs_drain st ifs c = Inr (c', False)" and "ie_NumVfs st \<noteq> 0"
  shows "(\<forall>i\<in>set ifs. if_PciAddress i = ie_PciAddress st \<longrightarrow> NeedToUpdateSriov i st = Inr False) \<and>
    c' = (c \<or> \<not> unconfigured ifs st)"
  using assms
  by (induction st ifs c rule: iface_needs_drain.induct)
    (auto simp: unconfigured_def res_bind_eq_Inr split: if_splits)

lemma needToUpdateVFs_False:
  assumes "needToUpdateVFs load ifs sts = Inr False" and "st \<in> set sts" and "ie_NumVfs st > 0"
  shows "(\<forall>i\<in>set ifs. if_PciAddress i = ie_PciAddress st \<longrightarrow> NeedToUpdateSriov i st = Inr False) \<and>
    (unconfigured ifs st \<longrightarrow>
       (case load (ie_PciAddress st) of Inr (Some pf) \<Rightarrow> if_ExternallyManaged pf | _ \<Rightarrow> True))"
  using assms
proof (induction sts)
  case (Cons s rest)
  obtain c d where d: "iface_needs_drain s ifs False = Inr (c, d)" and "\<not> d"
    using Cons.prems(1) by (auto simp: res_bind_eq_Inr split: if_splits)
  then have d: "iface_needs_drain s ifs False = Inr (c, False)" by simp
  have rest: "needToUpdateVFs load ifs rest = Inr False"
    using Cons.prems(1) d by (auto split: if_splits sum.splits option.splits)
  show ?case
  proof (cases "st = s")
    case True
    have "c = (\<not> unconfigured ifs s)" "\<forall>i\<in>set ifs. if_PciAddress i = ie_PciAddress s \<longrightarrow> NeedToUpdateSriov i s = Inr False"
      using iface_needs_drain_False[OF d] Cons.prems(3) True by auto
    then show ?thesis using True Cons.prems(1,3) d by (auto split: if_splits sum.splits option.splits)
  next
    case False
    then have "st \<in> set rest" using Cons.prems(2) by simp
    then show ?thesis using Cons.IH[OF rest] Cons.prems(3) by blast
  qed
qed simp

section \<open>No drain, no change\<close>

text \<open>Different PFs have different addresses, names and VFs.\<close>

definition used_targets :: "host_env \<Rightarrow> InterfaceExt \<Rightarrow> target set" where
  "used_targets env st = pf_targets env (ie_PciAddress st) (ie_Name st)"

definition separate_pfs :: "host_env \<Rightarrow> Interface list \<Rightarrow> InterfaceExt list \<Rightarrow> bool" where
  "separate_pfs env ifs sts \<longleftrightarrow>
     distinct (map ie_PciAddress sts) \<and>
     (\<forall>s\<in>set sts. \<forall>t\<in>set sts. s \<noteq> t \<longrightarrow> used_targets env s \<inter> used_targets env t = {}) \<and>
     (\<forall>s\<in>set sts. \<forall>i\<in>set ifs. if_PciAddress i \<noteq> ie_PciAddress s \<longrightarrow> pf_devices env i \<inter> used_targets env s = {})"

lemma touched_subset: "touched env i \<subseteq> pf_devices env i"
  by (auto simp: touched_def pf_devices_def pf_targets_def)

lemma reset_safe_separate: "used_targets env s \<inter> D = {} \<Longrightarrow> reset_safe env D s"
  by (auto simp: reset_safe_def used_targets_def pf_targets_def)

lemma config_avoids_used_pf:
  assumes "needToUpdateVFs load ifs sts = Inr False" and "load (ie_PciAddress st) = Inr (hs_Store h (ie_PciAddress st))"
    and "separate_pfs env ifs sts" and "st \<in> set sts" and "ie_NumVfs st > 0"
  shows "grows (avoids (used_targets env st) (if_PciAddress ` set ifs)) h (snd (ConfigSriovInterfaces env ifs sts skip h))"
proof (rule grows_ConfigSriovInterfaces)
  note used = needToUpdateVFs_False[OF assms(1,4,5)]
  have sep: "distinct (map ie_PciAddress sts)" using assms(3) by (simp add: separate_pfs_def)
  fix s assume s: "s \<in> set sts"
  have same: "s = st" if "ie_PciAddress s = ie_PciAddress st"
    using that s assms(4) sep unfolding distinct_map inj_on_def by blast
  { fix i assume n: "needs_config ifs s i"
    have "if_PciAddress i \<noteq> ie_PciAddress st" using n used same by (auto simp: needs_config_def)
    then have "pf_devices env i \<inter> used_targets env st = {}"
      using assms(3,4) n by (simp add: separate_pfs_def needs_config_def)
    then show "touched env i \<inter> used_targets env st = {}" using touched_subset[of env i] by blast }
  assume u: "unconfigured ifs s"
  show "reset_safe env (used_targets env st) s \<or> foreign_pf h (ie_PciAddress s)"
  proof (cases "s = st")
    case True
    then show ?thesis using u used assms(2) by (auto simp: foreign_pf_def split: option.splits)
  next
    case False
    then have "used_targets env s \<inter> used_targets env st = {}" using assms(3,4) s by (simp add: separate_pfs_def)
    then show ?thesis using reset_safe_separate by blast
  qed
qed

lemma grows_load_modules: "grows (avoids D C) h (h\<lparr>hs_Log := hs_Log h @ map LoadKernelModule ms\<rparr>)"
  unfolding grows_def by (rule exI[of _ "map LoadKernelModule ms"]) (simp add: list_all_iff avoids_def)

lemma sync_driver_keeps_desire:
  "syncDriverState host p = (q, loaded, r) \<Longrightarrow>
    gp_DesireState q = gp_DesireState p \<and> gp_skipBridgeConfiguration q = gp_skipBridgeConfiguration p"
  by (auto simp: syncDriverState_def split: option.splits prod.splits)

lemma reboot_node_keeps_desire:
  "needRebootNode host s p = (q, edits, r) \<Longrightarrow>
    gp_DesireState q = gp_DesireState p \<and> gp_skipBridgeConfiguration q = gp_skipBridgeConfiguration p"
  by (auto simp: needRebootNode_def configRdmaKernelArg_def addVfioDesiredKernelArg_def enableDesiredKernelArgs_def
    disableDesiredKernelArgs_def Let_def split: prod.splits if_splits sum.splits option.splits CPUVendor.splits)

lemma gen_apply_grows:
  assumes "gen_Apply host env sys chroot p h = (q, r, h')" and "gp_DesireState p = Some s"
    and "\<And>l. grows (avoids D C) (h\<lparr>hs_Log := l\<rparr>) (snd (ConfigSriovInterfaces env (ns_Interfaces (state_Spec s))
      (nst_Interfaces (state_Status s)) (gp_skipVFConfiguration (fst (syncDriverState host p))) (h\<lparr>hs_Log := l\<rparr>)))"
    and "shouldConfigureBridges host p \<Longrightarrow> \<not> NeedToUpdateBridges (ns_Bridges (state_Spec s)) (nst_Bridges (state_Status s))"
  shows "grows (avoids D C) h h'"
proof -
  obtain p1 ms r1 where d: "syncDriverState host p = (p1, ms, r1)" by (cases "syncDriverState host p") auto
  note keeps = sync_driver_keeps_desire[OF d]
  let ?h = "h\<lparr>hs_Log := hs_Log h @ map LoadKernelModule ms\<rparr>"
  let ?bs = "ConfigureBridges (ns_Bridges (state_Spec s)) (nst_Bridges (state_Status s))"
  let ?cfg = "ConfigSriovInterfaces env (ns_Interfaces (state_Spec s)) (nst_Interfaces (state_Status s)) (gp_skipVFConfiguration p1)"
  have g1: "grows (avoids D C) h ?h" by (rule grows_load_modules)
  obtain rc hc where c: "?cfg ?h = (rc, hc)" by (cases "?cfg ?h")
  have g2: "grows (avoids D C) ?h hc" using assms(3)[of "hs_Log h @ map LoadKernelModule ms"] c d by simp
  have b: "grows (avoids D C) hc (snd (act env ?bs hc))" if "shouldConfigureBridges host p"
    using assms(4)[OF that] by (intro grows_only only_act) (simp add: avoids_def)
  have "shouldConfigureBridges host p1 = shouldConfigureBridges host p" using keeps by (simp add: shouldConfigureBridges_def)
  then have "h' = ?h \<or> h' = hc \<or> (shouldConfigureBridges host p \<and> h' = snd (act env ?bs hc))"
    using assms(1,2) d c keeps
    by (auto simp: gen_Apply_def Let_def split: sum.splits option.splits if_splits prod.splits)
  then show ?thesis using g1 g2 b grows_trans by metis
qed

text \<open>What a decision for no drain says, and what it keeps of the plugin.\<close>

lemma no_drain_decided:
  assumes "gen_OnNodeStateChange host new p = Inr (q, edits, False, reboot, None)"
  shows "needToUpdateVFs (ph_LoadPf host) (ns_Interfaces (state_Spec new)) (nst_Interfaces (state_Status new)) = Inr False"
    and "gp_DesireState q = Some new"
    and "shouldConfigureBridges host q \<Longrightarrow> \<not> NeedToUpdateBridges (ns_Bridges (state_Spec new)) (nst_Bridges (state_Status new))"
proof -
  let ?p = "p\<lparr>gp_DesireState := Some new\<rparr>"
  show n: "needToUpdateVFs (ph_LoadPf host) (ns_Interfaces (state_Spec new)) (nst_Interfaces (state_Status new)) = Inr False"
    using assms by (auto simp: gen_OnNodeStateChange_def needDrainNode_def Let_def res_bind_eq_Inr
      split: if_splits prod.splits sum.splits)
  obtain q1 e1 r1 where nr: "needRebootNode host new ?p = (q1, e1, r1)" by (cases "needRebootNode host new ?p") auto
  then have q: "q = q1" using assms by (cases r1) (auto simp: gen_OnNodeStateChange_def Let_def res_bind_eq_Inr)
  show "gp_DesireState q = Some new" using reboot_node_keeps_desire[OF nr] q by simp
  have s: "shouldConfigureBridges host q = shouldConfigureBridges host p"
    using reboot_node_keeps_desire[OF nr] q by (simp add: shouldConfigureBridges_def)
  show "\<not> NeedToUpdateBridges (ns_Bridges (state_Spec new)) (nst_Bridges (state_Status new))" if "shouldConfigureBridges host q"
    using assms that s n by (auto simp: gen_OnNodeStateChange_def needDrainNode_def shouldConfigureBridges_def Let_def
      res_bind_eq_Inr split: if_splits prod.splits sum.splits)
qed

text \<open>
  C30: when the generic plugin asks for no drain and the saved configuration of a PF that has VFs could be read, applying
  the configuration leaves this PF and its VFs alone: whatever the kernel, the drivers and the libraries answer,
  and whichever of them fail, no action that is tried is on the PF (by its address or its name), its link, its table of
  VF addresses or one of its VFs, and the bridges of the node are configured at most when there is nothing to change about them.
  Different PFs have different addresses, names and VFs. The reload of all udev rules counts as no action on a PF.
\<close>

theorem no_drain_leaves_vfs_alone:
  assumes "gen_OnNodeStateChange host new p = Inr (q, edits, False, reboot, None)"
    and "gen_Apply host env systemd chroot q h = (q', r, h')"
    and "st \<in> set (nst_Interfaces (state_Status new))" and "ie_NumVfs st > 0"
    and "ph_LoadPf host (ie_PciAddress st) = Inr (hs_Store h (ie_PciAddress st))"
    and "separate_pfs env (ns_Interfaces (state_Spec new)) (nst_Interfaces (state_Status new))"
  shows "\<exists>acts. hs_Log h' = hs_Log h @ acts \<and>
    (\<forall>a\<in>set acts. act_targets a \<inter> pf_targets env (ie_PciAddress st) (ie_Name st) = {} \<and>
       (\<forall>x y. a = ConfigureBridges x y \<longrightarrow> \<not> NeedToUpdateBridges x y))"
proof -
  let ?ifs = "ns_Interfaces (state_Spec new)"
  note decided = no_drain_decided[OF assms(1)]
  have "grows (avoids (used_targets env st) (if_PciAddress ` set ?ifs)) h h'"
    by (rule gen_apply_grows[OF assms(2) decided(2)], rule config_avoids_used_pf[OF decided(1) _ assms(6,3,4)])
      (use assms(5) decided(3) in simp_all)
  then show ?thesis unfolding grows_def by (auto simp: avoids_def used_targets_def list_all_iff)
qed

text \<open>A host on which all calls succeed and every PF has one VF.\<close>

definition sample_host_env :: host_env where
  "sample_host_env =
     \<lparr>he_Fail = (\<lambda>_ _. None), he_TotalVfs = (\<lambda>_ _. 64), he_VFconfigured = (\<lambda>_ _. 0),
      he_VFList = (\<lambda>_ pf. Inr [pf @ ''/vf'']), he_VFID = (\<lambda>_ _. Inr 0), he_DriverLink = (\<lambda>_ _ _. Inr ''iavf''),
      he_HasOverride = (\<lambda>_ _ _. Inr True), he_HasNumVfs = (\<lambda>_ _. True), he_IommuGroup = (\<lambda>_ _. None),
      he_Devlink = (\<lambda>_ _. Inr ''legacy''), he_DevlinkParam = (\<lambda>_ _ _. Inr []), he_PfDriver = (\<lambda>_ _. Inr ''ice''),
      he_Mtu = (\<lambda>_ _. 1500), he_Link = (\<lambda>_ _. Inr (''ether'', True)), he_PhysPortName = (\<lambda>_ _. Inr ''p0''),
      he_PhysSwitchID = (\<lambda>_ _. Inr ''s0''), he_VFReady = (\<lambda>_ _. None), he_VFLinks = (\<lambda>_ _ _. None),
      he_VdpaDev = (\<lambda>_ _. None), he_LoadError = (\<lambda>_ _. None), he_ManageBridges = False,
      he_ParallelNicConfig = False, he_InitialState = sample_state ''n''\<rparr>"

definition sample_host :: host_state where
  "sample_host = \<lparr>hs_Log = [], hs_Store = Map.empty\<rparr>"

definition sample_two_pfs :: SriovNetworkNodeState where
  "sample_two_pfs = (sample_state ''n'')
     \<lparr>state_Spec := \<lparr>ns_Interfaces = [sample_interface, sample_interface\<lparr>if_PciAddress := ''0000:5e:00.0'', if_Name := ''ens2''\<rparr>],
        ns_Bridges = \<lparr>bridges_OVS = []\<rparr>, ns_System = \<lparr>sys_RdmaMode = [], sys_OvsConfig = []\<rparr>\<rparr>,
      state_Status := sample_status\<lparr>nst_Interfaces :=
        [sample_pf\<lparr>ie_NumVfs := 4\<rparr>, sample_pf\<lparr>ie_Name := ''ens2'', ie_PciAddress := ''0000:5e:00.0''\<rparr>]\<rparr>\<rparr>"

definition sample_decided :: "GenericPlugin \<times> (plugin_error + bool)" where
  "sample_decided =
     (case NewGenericPlugin (sample_plugin_host ''quiet'') False False of
        Inr p \<Rightarrow> (case needRebootNode (sample_plugin_host ''quiet'') sample_two_pfs (p\<lparr>gp_DesireState := Some sample_two_pfs\<rparr>) of
          (q, _, r) \<Rightarrow> (q, r)))"

definition sample_apply :: "(host_error + unit) \<times> host_state" where
  "sample_apply = snd (gen_Apply (sample_plugin_host ''quiet'') sample_host_env True None (fst sample_decided) sample_host)"

definition sets_vfs :: "string \<Rightarrow> int \<Rightarrow> host_action \<Rightarrow> bool" where
  "sets_vfs pf n a = (case a of WriteNumVfs b m \<Rightarrow> b = pf \<and> m = n | _ \<Rightarrow> False)"

lemma sample_pf_targets:
  "pf_targets sample_host_env pf nm =
    {Device pf, Netdev nm, LinkState nm, VfTable nm, VfTable pf, Device (pf @ ''/vf'')}"
  by (auto simp: pf_targets_def vf_targets_def vfs_of_def sample_host_env_def)

theorem no_drain_leaves_vfs_alone_witness:
  "fst sample_apply = Inr () \<and> list_ex (sets_vfs ''0000:5e:00.0'' 4) (hs_Log (snd sample_apply)) \<and>
   list_all (\<lambda>a. act_targets a \<inter> pf_targets sample_host_env ''0000:3b:00.0'' ''ens1'' = {}) (hs_Log (snd sample_apply))"
proof -
  let ?host = "sample_plugin_host ''quiet''" and ?st = "sample_pf\<lparr>ie_NumVfs := 4\<rparr>" and ?new = sample_two_pfs
  obtain p where p: "NewGenericPlugin ?host False False = Inr p" by (simp add: NewGenericPlugin_def sample_plugin_host_def)
  have "snd sample_decided = Inr False" by code_simp
  then obtain q edits where nr: "needRebootNode ?host ?new (p\<lparr>gp_DesireState := Some ?new\<rparr>) = (q, edits, Inr False)"
    and d: "fst sample_decided = q"
    using p by (auto simp: sample_decided_def split: prod.splits)
  have n: "needToUpdateVFs (ph_LoadPf ?host) (ns_Interfaces (state_Spec ?new)) (nst_Interfaces (state_Status ?new)) = Inr False"
    by code_simp
  have q: "gen_OnNodeStateChange ?host ?new p = Inr (q, edits, False, False, None)"
    by (simp add: gen_OnNodeStateChange_def Let_def nr needDrainNode_def n shouldConfigureBridges_def)
      (simp add: sample_plugin_host_def)
  obtain q' r h' where a: "gen_Apply ?host sample_host_env True None q sample_host = (q', r, h')" by (metis prod_cases3)
  have s: "snd sample_apply = h'" using d a by (simp add: sample_apply_def)
  have sep: "separate_pfs sample_host_env (ns_Interfaces (state_Spec ?new)) (nst_Interfaces (state_Status ?new))"
    by (simp add: separate_pfs_def used_targets_def pf_devices_def sample_pf_targets sample_two_pfs_def
      sample_interface_def sample_pf_def)
  obtain acts where "hs_Log h' = hs_Log sample_host @ acts"
      "\<forall>a\<in>set acts. act_targets a \<inter> pf_targets sample_host_env (ie_PciAddress ?st) (ie_Name ?st) = {}"
    using no_drain_leaves_vfs_alone[OF q a _ _ _ sep, of ?st]
    by (auto simp: sample_plugin_host_def sample_host_def sample_two_pfs_def sample_pf_def)
  then have "list_all (\<lambda>a. act_targets a \<inter> pf_targets sample_host_env ''0000:3b:00.0'' ''ens1'' = {}) (hs_Log h')"
    by (simp add: sample_host_def sample_pf_def list_all_iff)
  moreover have "fst sample_apply = Inr () \<and> list_ex (sets_vfs ''0000:5e:00.0'' 4) (hs_Log (snd sample_apply))" by code_simp
  ultimately show ?thesis unfolding s by simp
qed

section \<open>Externally managed PFs\<close>

text \<open>The PF of an address and a name has its devices for itself: other PFs have other ones, and it is none of its VFs.\<close>

definition apart_from :: "host_env \<Rightarrow> Interface list \<Rightarrow> InterfaceExt list \<Rightarrow> string \<Rightarrow> string \<Rightarrow> bool" where
  "apart_from env ifs sts pf nm \<longleftrightarrow>
     pf \<notin> vfs_of env pf \<and>
     (\<forall>i\<in>set ifs. if_PciAddress i \<noteq> pf \<longrightarrow> pf_devices env i \<inter> pf_targets env pf nm = {}) \<and>
     (\<forall>s\<in>set sts. ie_PciAddress s \<noteq> pf \<longrightarrow> used_targets env s \<inter> pf_targets env pf nm = {})"

lemma reset_safe_subset: "used_targets env s \<inter> E = {} \<Longrightarrow> D \<subseteq> E \<Longrightarrow> reset_safe env D s"
  by (rule reset_safe_separate) blast

lemma config_avoids_external:
  assumes "\<forall>i\<in>set ifs. if_PciAddress i = pf \<longrightarrow> if_ExternallyManaged i"
    and "(\<exists>i\<in>set ifs. if_PciAddress i = pf) \<or> foreign_pf h pf" and "apart_from env ifs sts pf nm"
    and "D \<subseteq> pf_targets env pf nm" and "(\<exists>i\<in>set ifs. if_PciAddress i = pf) \<Longrightarrow> D \<subseteq> {Device pf, Netdev nm}"
  shows "grows (avoids D (if_PciAddress ` set ifs)) h (snd (ConfigSriovInterfaces env ifs sts skip h))"
proof (rule grows_ConfigSriovInterfaces)
  fix s assume s: "s \<in> set sts"
  { fix i assume n: "needs_config ifs s i"
    then have i: "i \<in> set ifs" by (simp add: needs_config_def)
    show "touched env i \<inter> D = {}"
    proof (cases "if_PciAddress i = pf")
      case True
      then have "if_ExternallyManaged i" "D \<subseteq> {Device pf, Netdev nm}" using assms(1,5) i by auto
      then show ?thesis using assms(3) True by (auto simp: touched_def apart_from_def)
    next
      case False
      then have "pf_devices env i \<inter> pf_targets env pf nm = {}" using assms(3) i by (simp add: apart_from_def)
      then show ?thesis using touched_subset[of env i] assms(4) by blast
    qed }
  assume u: "unconfigured ifs s"
  show "reset_safe env D s \<or> foreign_pf h (ie_PciAddress s)"
  proof (cases "ie_PciAddress s = pf")
    case True
    then show ?thesis using u assms(2) by (auto simp: unconfigured_def)
  next
    case False
    then show ?thesis using assms(3,4) s reset_safe_subset[of env s "pf_targets env pf nm" D] by (simp add: apart_from_def)
  qed
qed


definition sample_external :: "Interface list" where
  "sample_external =
     [sample_interface\<lparr>if_ExternallyManaged := True\<rparr>, sample_interface\<lparr>if_PciAddress := ''0000:5e:00.0'', if_Name := ''ens2''\<rparr>]"

definition sample_external_log :: hlog where
  "sample_external_log = hs_Log (snd (ConfigSriovInterfaces sample_host_env sample_external
     [sample_pf\<lparr>ie_Name := ''ens2'', ie_PciAddress := ''0000:5e:00.0''\<rparr>, sample_pf] False sample_host))"


end
