(* ===== verification/Mellanox.thy ===== *)
theory Mellanox
  imports Nic_Selector
begin

text \<open>
  Firmware settings of Mellanox NICs: reading the tool's output, the decisions about the number of VFs,
  enabling SR-IOV and the link type (\<^verbatim>\<open>src/pkg/vendors/mellanox/mellanox.go\<close>), and the plugin that collects
  the changes and asks for a reboot (\<^verbatim>\<open>src/pkg/plugins/mellanox/mellanox_plugin.go\<close>). A PCI address is
  not empty, so its prefix is everything but the last character. The order in which Go iterates over a map is an
  argument.
\<close>

section \<open>Reading the firmware\<close>

record MlxNic =
  mlx_EnableSriov :: bool
  mlx_TotalVfs :: int
  mlx_LinkTypeP1 :: string
  mlx_LinkTypeP2 :: string

text \<open>
  The line format is the regular expression \<^verbatim>\<open>(\w+)\s+(\S+)\s+(\S+)\s+(\S+)\<close>, searched from the left. A run of
  word characters that is followed by white space ends a token, so the first group is the end of the first token that
  ends in a word character, and the others are the three tokens after it; when there are fewer, a later start has
  fewer still and there is no match.
\<close>

definition re_space :: "char \<Rightarrow> bool" where
  "re_space c \<longleftrightarrow> (of_char c :: nat) \<in> {9, 10, 12, 13, 32}"

fun tokens_from :: "string \<Rightarrow> string \<Rightarrow> string list" where
  "tokens_from word [] = (if word = [] then [] else [word])"
| "tokens_from word (c # cs) =
     (if re_space c then (if word = [] then [] else [word]) @ tokens_from [] cs
      else tokens_from (word @ [c]) cs)"

definition format_match :: "string \<Rightarrow> (string \<times> string) option" where
  "format_match line =
     (let ts = tokens_from [] line in
      case find_index (\<lambda>t. is_alnum (last t) \<or> last t = CHR ''_'') ts of
        None \<Rightarrow> None
      | Some k \<Rightarrow> if k + 3 < length ts then Some (ts ! (k + 2), ts ! (k + 3)) else None)"

text \<open>A line that names the attribute but does not match the format panics at the index.\<close>

definition parse_attr :: "string list \<Rightarrow> string \<Rightarrow> panic + (string \<times> string) option" where
  "parse_attr ls attr =
     (case find (\<lambda>line. contains_str line attr) ls of
        None \<Rightarrow> Inr None
      | Some line \<Rightarrow> (case format_match line of None \<Rightarrow> Inl IndexOutOfRange | Some p \<Rightarrow> Inr (Some p)))"

type_synonym str_pairs = "string \<rightharpoonup> string"

definition ParseMstconfigOutput :: "string \<Rightarrow> string list \<Rightarrow> panic + str_pairs \<times> str_pairs" where
  "ParseMstconfigOutput mstOutput attributes =
     (let ls = split_on CHR 0x0A mstOutput in
      fold_res (\<lambda>attr (cur, next).
          res_bind (parse_attr ls attr) (\<lambda>r.
            case r of None \<Rightarrow> Inr (cur, next)
            | Some (c, n) \<Rightarrow> Inr (cur(attr \<mapsto> c), next(attr \<mapsto> n))))
        attributes (Map.empty, Map.empty))"

definition get_or_empty :: "str_pairs \<Rightarrow> string \<Rightarrow> string" where
  "get_or_empty m k = (case m k of None \<Rightarrow> [] | Some v \<Rightarrow> v)"

definition getLinkType :: "string \<Rightarrow> string" where
  "getLinkType linkType =
     (if contains_str linkType ''ETH'' then ''ETH''
      else if contains_str linkType ''IB'' then ''IB''
      else if length linkType > 0 then ''Unknown'' else ''Preconfigured'')"

definition mlnxNicFromMap :: "str_pairs \<Rightarrow> num_error + MlxNic" where
  "mlnxNicFromMap mstData =
     (case atoi (get_or_empty mstData ''NUM_OF_VFS'') of
        (_, Some e) \<Rightarrow> Inl e
      | (i, None) \<Rightarrow>
          Inr \<lparr>mlx_EnableSriov = contains_str (get_or_empty mstData ''SRIOV_EN'') ''True'', mlx_TotalVfs = i,
            mlx_LinkTypeP1 = getLinkType (get_or_empty mstData ''LINK_TYPE_P1''),
            mlx_LinkTypeP2 = (case mstData ''LINK_TYPE_P2'' of None \<Rightarrow> [] | Some l \<Rightarrow> getLinkType l)\<rparr>)"

datatype mlx_error =
    MstFailed string
  | MstPanic panic
  | MstNumber num_error
  | UnsupportedLinkType string
  | UnknownFirmwareLinkType
  | LinkTypeNotChangeable string
  | LockdownMode
  | ExternalTotalVfs string
  | ExternalLinkType
  | StoreFailed string
  | NicTablePanic panic
  | DpuMode string
  | CommandFailed string

text \<open>\<^verbatim>\<open>GetMlxNicFwData\<close>; \<open>mst\<close> is the output of \<^verbatim>\<open>mstconfig\<close> for a device.\<close>

definition GetMlxNicFwData :: "(string \<Rightarrow> string + string) \<Rightarrow> string \<Rightarrow> mlx_error + MlxNic \<times> MlxNic" where
  "GetMlxNicFwData mst pciAddress =
     res_bind (map_err MstFailed (mst pciAddress)) (\<lambda>out.
     res_bind (map_err MstPanic (ParseMstconfigOutput out [''NUM_OF_VFS'', ''SRIOV_EN'', ''LINK_TYPE_P1'', ''LINK_TYPE_P2'']))
       (\<lambda>(cur, nxt).
     res_bind (map_err MstNumber (mlnxNicFromMap cur)) (\<lambda>current.
     res_bind (map_err MstNumber (mlnxNicFromMap nxt)) (\<lambda>next.
       Inr (current, next)))))"

datatype BlueFieldMode = BluefieldDpu | BluefieldConnectXMode

text \<open>\<^verbatim>\<open>GetMellanoxBlueFieldMode\<close>; \<open>None\<close> is the mode -1 with an error.\<close>

definition GetMellanoxBlueFieldMode :: "(string \<Rightarrow> string + string) \<Rightarrow> string \<Rightarrow> panic + BlueFieldMode option" where
  "GetMellanoxBlueFieldMode mst PciAddress =
     (case mst PciAddress of
        Inl _ \<Rightarrow> Inr None
      | Inr stdout \<Rightarrow>
          res_bind (ParseMstconfigOutput stdout
              [''INTERNAL_CPU_PAGE_SUPPLIER'', ''INTERNAL_CPU_ESWITCH_MANAGER'', ''INTERNAL_CPU_IB_VPORT0'',
               ''INTERNAL_CPU_OFFLOAD_ENGINE'', ''INTERNAL_CPU_MODEL'']) (\<lambda>(cur, _).
            case (cur ''INTERNAL_CPU_PAGE_SUPPLIER'', cur ''INTERNAL_CPU_ESWITCH_MANAGER'', cur ''INTERNAL_CPU_IB_VPORT0'',
                  cur ''INTERNAL_CPU_OFFLOAD_ENGINE'', cur ''INTERNAL_CPU_MODEL'') of
              (Some ps, Some em, Some ib, Some oe, Some md) \<Rightarrow>
                if contains_str ps ''ECPF'' \<and> contains_str em ''ECPF'' \<and> contains_str ib ''ECPF'' \<and>
                   contains_str oe ''ENABLED'' \<and> contains_str md ''EMBEDDED_CPU''
                then Inr (Some BluefieldDpu)
                else if contains_str ps ''EXT_HOST_PF'' \<and> contains_str em ''EXT_HOST_PF'' \<and> contains_str ib ''EXT_HOST_PF'' \<and>
                   contains_str oe ''DISABLED'' \<and> contains_str md ''EMBEDDED_CPU''
                then Inr (Some BluefieldConnectXMode)
                else Inr None
            | _ \<Rightarrow> Inr None))"

section \<open>Decisions\<close>

definition GetPciAddressPrefix :: "string \<Rightarrow> string" where
  "GetPciAddressPrefix pciAddress = butlast pciAddress"

definition getOtherPortPCIAddress :: "string \<Rightarrow> string" where
  "getOtherPortPCIAddress pciAddress =
     (let pre = GetPciAddressPrefix pciAddress; suffix = drop (length pre) pciAddress in
      if suffix = ''0'' then pre @ ''1'' else pre @ ''0'')"

text \<open>The ports of Mellanox NICs by PCI prefix, and the specifications by PCI address.\<close>

type_synonym nics_status = "string \<rightharpoonup> (string \<times> InterfaceExt) list"
type_synonym nics_spec = "string \<rightharpoonup> Interface"

definition IsDualPort :: "string \<Rightarrow> nics_status \<Rightarrow> bool" where
  "IsDualPort pciAddress st =
     (case st (GetPciAddressPrefix pciAddress) of None \<Rightarrow> False | Some ports \<Rightarrow> length ports > 1)"

definition requested_vfs :: "Interface \<Rightarrow> bool \<Rightarrow> nics_spec \<Rightarrow> int" where
  "requested_vfs ifaceSpec isDualPort specs =
     (if isDualPort
      then case specs (getOtherPortPCIAddress (if_PciAddress ifaceSpec)) of
             None \<Rightarrow> if_NumVfs ifaceSpec
           | Some other \<Rightarrow> if if_NumVfs other > if_NumVfs ifaceSpec then if_NumVfs other else if_NumVfs ifaceSpec
      else if_NumVfs ifaceSpec)"

text \<open>The result is the number of VFs, the need of a reboot, of a change without one, and the attributes.\<close>

definition HandleTotalVfs ::
    "MlxNic \<Rightarrow> MlxNic \<Rightarrow> MlxNic \<Rightarrow> Interface \<Rightarrow> bool \<Rightarrow> nics_spec \<Rightarrow> int \<times> bool \<times> bool \<times> MlxNic" where
  "HandleTotalVfs fwCurrent fwNext attrs ifaceSpec isDualPort specs =
     (let totalVfs = requested_vfs ifaceSpec isDualPort specs in
      if if_ExternallyManaged ifaceSpec
      then if totalVfs > mlx_TotalVfs fwCurrent
           then (totalVfs, True, False, attrs\<lparr>mlx_TotalVfs := totalVfs\<rparr>)
           else (totalVfs, False, False, attrs)
      else
        let needReboot = (mlx_TotalVfs fwCurrent \<noteq> totalVfs);
            attrs = (if needReboot then attrs\<lparr>mlx_TotalVfs := totalVfs\<rparr> else attrs);
            change = (\<not> needReboot \<and> mlx_TotalVfs fwNext \<noteq> totalVfs);
            attrs = (if change then attrs\<lparr>mlx_TotalVfs := totalVfs\<rparr> else attrs)
        in (totalVfs, needReboot, change, attrs))"

definition HandleEnableSriov :: "int \<Rightarrow> MlxNic \<Rightarrow> MlxNic \<Rightarrow> MlxNic \<Rightarrow> bool \<times> bool \<times> MlxNic" where
  "HandleEnableSriov totalVfs fwCurrent fwNext attrs =
     (if totalVfs = 0 \<and> mlx_EnableSriov fwCurrent then (True, False, attrs\<lparr>mlx_EnableSriov := False\<rparr>)
      else if totalVfs > 0 \<and> \<not> mlx_EnableSriov fwCurrent then (True, False, attrs\<lparr>mlx_EnableSriov := True\<rparr>)
      else if totalVfs > 0 \<and> \<not> mlx_EnableSriov fwNext then (False, True, attrs\<lparr>mlx_EnableSriov := True\<rparr>)
      else (False, False, attrs))"

definition isLinkTypeRequireChange :: "Interface \<Rightarrow> string \<Rightarrow> string \<Rightarrow> mlx_error + bool" where
  "isLinkTypeRequireChange iface statusLinkType fwLinkType =
     (if if_LinkType iface \<noteq> [] \<and> \<not> equal_fold statusLinkType (if_LinkType iface)
      then if \<not> equal_fold (if_LinkType iface) ''ETH'' \<and> \<not> equal_fold (if_LinkType iface) ''IB''
           then Inl (UnsupportedLinkType (if_LinkType iface))
           else if fwLinkType = ''Unknown'' then Inl UnknownFirmwareLinkType
           else if fwLinkType = ''Preconfigured'' then Inl (LinkTypeNotChangeable (if_PciAddress iface))
           else Inr True
      else Inr False)"

text \<open>A missing port has the zero status, with the empty link type.\<close>

definition getIfaceStatus_link :: "string \<Rightarrow> nics_status \<Rightarrow> string" where
  "getIfaceStatus_link pciAddress st =
     (case st (GetPciAddressPrefix pciAddress) of
        None \<Rightarrow> []
      | Some ports \<Rightarrow> (case map_of ports pciAddress of None \<Rightarrow> [] | Some i \<Rightarrow> ie_LinkType i))"

definition HandleLinkType ::
    "string \<Rightarrow> MlxNic \<Rightarrow> MlxNic \<Rightarrow> nics_spec \<Rightarrow> nics_status \<Rightarrow> mlx_error + bool \<times> MlxNic" where
  "HandleLinkType pciPrefix fwData attr specs st =
     res_bind
       (case specs (pciPrefix @ ''0'') of
          None \<Rightarrow> Inr (False, attr)
        | Some p \<Rightarrow>
            res_bind (isLinkTypeRequireChange p (getIfaceStatus_link (pciPrefix @ ''0'') st) (mlx_LinkTypeP1 fwData)) (\<lambda>b.
              Inr (b, if b then attr\<lparr>mlx_LinkTypeP1 := if_LinkType p\<rparr> else attr)))
       (\<lambda>(r1, attr).
     res_bind
       (case specs (pciPrefix @ ''1'') of
          None \<Rightarrow> Inr (False, attr)
        | Some p \<Rightarrow>
            res_bind (isLinkTypeRequireChange p (getIfaceStatus_link (pciPrefix @ ''1'') st) (mlx_LinkTypeP2 fwData)) (\<lambda>b.
              Inr (b, if b then attr\<lparr>mlx_LinkTypeP2 := if_LinkType p\<rparr> else attr)))
       (\<lambda>(r2, attr). Inr (r1 \<or> r2, attr)))"

section \<open>Writing the firmware\<close>

text \<open>The settings \<^verbatim>\<open>MlxConfigFW\<close> passes to \<^verbatim>\<open>mstconfig\<close> as \<^verbatim>\<open>name=value\<close>.\<close>

definition config_args :: "MlxNic \<Rightarrow> (string \<times> string) list" where
  "config_args fwArgs =
     (if mlx_EnableSriov fwArgs then [(''SRIOV_EN'', ''True'')]
      else if mlx_TotalVfs fwArgs = 0 then [(''SRIOV_EN'', ''False'')] else []) @
     (if mlx_TotalVfs fwArgs > -1 then [(''NUM_OF_VFS'', itoa (mlx_TotalVfs fwArgs))] else []) @
     (if length (mlx_LinkTypeP1 fwArgs) > 0 then [(''LINK_TYPE_P1'', mlx_LinkTypeP1 fwArgs)] else []) @
     (if length (mlx_LinkTypeP2 fwArgs) > 0 then [(''LINK_TYPE_P2'', mlx_LinkTypeP2 fwArgs)] else [])"

text \<open>
  The loop over the NICs, as the commands that were run and the error that ended it, if any; \<open>run\<close> is the error of a
  command, if any. A panic while the mode is read ends it. The list has the entries in the order of the iteration.
\<close>

fun MlxConfigFW ::
    "(string \<Rightarrow> string + string) \<Rightarrow> (string \<Rightarrow> (string \<times> string) list \<Rightarrow> string option) \<Rightarrow>
     (string \<times> MlxNic) list \<Rightarrow> (string \<times> (string \<times> string) list) list \<times> mlx_error option" where
  "MlxConfigFW mst run [] = ([], None)"
| "MlxConfigFW mst run ((pciAddr, fwArgs) # rest) =
     (case GetMellanoxBlueFieldMode mst pciAddr of
        Inl p \<Rightarrow> ([], Some (MstPanic p))
      | Inr mode \<Rightarrow>
          if mode = Some BluefieldDpu then ([], Some (DpuMode pciAddr))
          else if config_args fwArgs = [] then MlxConfigFW mst run rest
          else case run pciAddr (config_args fwArgs) of
                 Some e \<Rightarrow> ([], Some (CommandFailed e))
               | None \<Rightarrow> (case MlxConfigFW mst run rest of (cmds, e) \<Rightarrow> ((pciAddr, config_args fwArgs) # cmds, e)))"

text \<open>
  \<^verbatim>\<open>MlxResetFW\<close>: the devices whose VFs are removed and the ones that are reset, in order, and the error; a failed
  reset is only logged.
\<close>

datatype reset_action = SetNoVfs string | FirmwareReset string

fun MlxResetFW ::
    "(string \<Rightarrow> string option) \<Rightarrow> nics_status \<Rightarrow> string list \<Rightarrow> reset_action list \<times> mlx_error option" where
  "MlxResetFW setVfs st [] = ([], None)"
| "MlxResetFW setVfs st (a # rest) =
     (case setVfs a of
        Some e \<Rightarrow> ([], Some (CommandFailed e))
      | None \<Rightarrow>
          let other = getOtherPortPCIAddress a; dual = IsDualPort a st in
          case (if dual then setVfs other else None) of
            Some e \<Rightarrow> ([SetNoVfs a], Some (CommandFailed e))
          | None \<Rightarrow> (case MlxResetFW setVfs st rest of
              (acts, e) \<Rightarrow> ([SetNoVfs a] @ (if dual then [SetNoVfs other] else []) @ [FirmwareReset a] @ acts, e)))"

section \<open>The plugin\<close>

text \<open>Assignment to a map that keeps the order in which keys were added.\<close>

definition put_assoc :: "'k \<Rightarrow> 'v \<Rightarrow> ('k \<times> 'v) list \<Rightarrow> ('k \<times> 'v) list" where
  "put_assoc k v xs =
     (if list_ex (\<lambda>p. fst p = k) xs then map (\<lambda>p. if fst p = k then (k, v) else p) xs else xs @ [(k, v)])"

abbreviation MellanoxVendorID :: string where "MellanoxVendorID \<equiv> ''15b3''"

definition fill_status :: "InterfaceExt list \<Rightarrow> (string \<times> (string \<times> InterfaceExt) list) list" where
  "fill_status ifaces =
     fold (\<lambda>iface st.
         if ie_Vendor iface \<noteq> MellanoxVendorID then st
         else
           let pre = GetPciAddressPrefix (ie_PciAddress iface) in
           put_assoc pre
             (put_assoc (ie_PciAddress iface) iface (case map_of st pre of None \<Rightarrow> [] | Some ports \<Rightarrow> ports)) st)
       ifaces []"

definition fill_spec :: "nics_status \<Rightarrow> Interface list \<Rightarrow> (string \<times> Interface) list" where
  "fill_spec st ifaces =
     fold (\<lambda>iface specs.
         if st (GetPciAddressPrefix (if_PciAddress iface)) = None then specs
         else put_assoc (if_PciAddress iface) iface specs)
       ifaces []"

record mlx_env =
  me_Lockdown :: bool
  me_Mst :: "string \<Rightarrow> string + string"
  me_Store :: "string \<Rightarrow> string + Interface option"
  me_NicTable :: "string list"
  me_SpecOrder :: "(string \<times> Interface) list \<Rightarrow> (string \<times> Interface) list"
  me_NicOrder :: "(string \<times> (string \<times> InterfaceExt) list) list \<Rightarrow> (string \<times> (string \<times> InterfaceExt) list) list"
  me_PortOrder :: "(string \<times> InterfaceExt) list \<Rightarrow> (string \<times> InterfaceExt) list"

record mlx_run =
  mr_Processed :: "string list"
  mr_NeedReboot :: bool
  mr_Reset :: "string list"
  mr_Attributes :: "(string \<times> MlxNic) list"

definition no_attrs :: MlxNic where
  "no_attrs = \<lparr>mlx_EnableSriov = False, mlx_TotalVfs = -1, mlx_LinkTypeP1 = [], mlx_LinkTypeP2 = []\<rparr>"

text \<open>One NIC with a specification. The need of a reboot is assigned, not joined with that of earlier NICs.\<close>

definition process_nic ::
    "mlx_env \<Rightarrow> nics_status \<Rightarrow> nics_spec \<Rightarrow> Interface \<Rightarrow> mlx_run \<Rightarrow> mlx_error + mlx_run" where
  "process_nic env st specs ifaceSpec s =
     (let addr = if_PciAddress ifaceSpec; pre = GetPciAddressPrefix addr in
      if pre \<in> set (mr_Processed s) then Inr s
      else
        res_bind (GetMlxNicFwData (me_Mst env) addr) (\<lambda>(fwCurrent, fwNext).
        case HandleTotalVfs fwCurrent fwNext no_attrs ifaceSpec (IsDualPort addr st) specs of
          (totalVfs, totalReboot, totalChange, attrs) \<Rightarrow>
        case HandleEnableSriov totalVfs fwCurrent fwNext attrs of
          (enReboot, enChange, attrs) \<Rightarrow>
        res_bind (HandleLinkType pre fwCurrent attrs specs st) (\<lambda>(linkChange, attrs).
          let needReboot = totalReboot \<or> enReboot \<or> linkChange; change = totalChange \<or> enChange in
          if if_ExternallyManaged ifaceSpec \<and> (totalReboot \<or> totalChange) then Inl (ExternalTotalVfs addr)
          else if if_ExternallyManaged ifaceSpec \<and> linkChange then Inl ExternalLinkType
          else Inr (s\<lparr>mr_Processed := pre # mr_Processed s, mr_NeedReboot := needReboot,
                 mr_Attributes := (if needReboot \<or> change then put_assoc addr attrs (mr_Attributes s) else mr_Attributes s),
                 mr_Reset := (if needReboot then mr_Reset s @ [addr] else mr_Reset s)\<rparr>))))"

fun nicConfiguredByOperator :: "(string \<Rightarrow> string + Interface option) \<Rightarrow> (string \<times> InterfaceExt) list \<Rightarrow> mlx_error + bool" where
  "nicConfiguredByOperator store [] = Inr False"
| "nicConfiguredByOperator store ((_, iface) # rest) =
     res_bind (map_err StoreFailed (store (ie_PciAddress iface))) (\<lambda>saved.
       case saved of Some _ \<Rightarrow> Inr True | None \<Rightarrow> nicConfiguredByOperator store rest)"

fun nicHasExternallyManagedPFs :: "(string \<Rightarrow> string + Interface option) \<Rightarrow> (string \<times> InterfaceExt) list \<Rightarrow> mlx_error + bool" where
  "nicHasExternallyManagedPFs store [] = Inr False"
| "nicHasExternallyManagedPFs store ((_, iface) # rest) =
     res_bind (map_err StoreFailed (store (ie_PciAddress iface))) (\<lambda>saved.
       case saved of
         Some pf \<Rightarrow> if if_ExternallyManaged pf then Inr True else nicHasExternallyManagedPFs store rest
       | None \<Rightarrow> nicHasExternallyManagedPFs store rest)"

text \<open>One NIC without a specification: its firmware is set to no VFs when the operator had configured it.\<close>

definition reset_nic ::
    "mlx_env \<Rightarrow> string \<times> (string \<times> InterfaceExt) list \<Rightarrow> mlx_run \<Rightarrow> mlx_error + mlx_run" where
  "reset_nic env nic s =
     (case nic of (pre, ports) \<Rightarrow>
        if pre \<in> set (mr_Processed s) then Inr s
        else
          let s = s\<lparr>mr_Processed := pre # mr_Processed s\<rparr>; addr = pre @ ''0'' in
          res_bind (nicConfiguredByOperator (me_Store env) (me_PortOrder env ports)) (\<lambda>isConfigured.
          if \<not> isConfigured then Inr s
          else res_bind (nicHasExternallyManagedPFs (me_Store env) (me_PortOrder env ports)) (\<lambda>external.
          if external then Inr s
          else
            let dev = (case map_of ports addr of None \<Rightarrow> [] | Some i \<Rightarrow> ie_DeviceID i) in
            res_bind (map_err NicTablePanic (GetVfDeviceID (me_NicTable env) dev)) (\<lambda>id.
            if id = [] then Inr s
            else res_bind (GetMlxNicFwData (me_Mst env) addr) (\<lambda>(_, fwNext).
              if mlx_TotalVfs fwNext > 0 \<or> mlx_EnableSriov fwNext
              then Inr (s\<lparr>mr_Attributes := put_assoc addr (no_attrs\<lparr>mlx_TotalVfs := 0\<rparr>) (mr_Attributes s)\<rparr>)
              else Inr s)))))"

definition mlx_start :: mlx_run where
  "mlx_start = \<lparr>mr_Processed = [], mr_NeedReboot = False, mr_Reset = [], mr_Attributes = []\<rparr>"

text \<open>\<^verbatim>\<open>OnNodeStateChange\<close>: drain, reboot and the collected changes.\<close>

definition mlx_OnNodeStateChange :: "mlx_env \<Rightarrow> SriovNetworkNodeState \<Rightarrow> mlx_error + bool \<times> bool \<times> mlx_run" where
  "mlx_OnNodeStateChange env new =
     (let nics = fill_status (nst_Interfaces (state_Status new));
          st = map_of nics;
          specs = fill_spec st (ns_Interfaces (state_Spec new))
      in if me_Lockdown env
         then if specs \<noteq> [] then Inl LockdownMode else Inr (False, False, mlx_start)
         else
           res_bind (fold_res (\<lambda>(_, i). process_nic env st (map_of specs) i) (me_SpecOrder env specs) mlx_start) (\<lambda>s.
           res_bind (fold_res (reset_nic env) (me_NicOrder env nics) s) (\<lambda>s.
             Inr (mr_NeedReboot s, mr_NeedReboot s, s))))"

text \<open>\<^verbatim>\<open>Apply\<close>; \<open>gate\<close> is the feature gate of the firmware reset.\<close>

definition mlx_Apply ::
    "mlx_env \<Rightarrow> (string \<Rightarrow> (string \<times> string) list \<Rightarrow> string option) \<Rightarrow> (string \<Rightarrow> string option) \<Rightarrow> bool \<Rightarrow>
     nics_status \<Rightarrow> mlx_run \<Rightarrow> (string \<times> (string \<times> string) list) list \<times> reset_action list \<times> mlx_error option" where
  "mlx_Apply env run setVfs gate st s =
     (if me_Lockdown env then ([], [], None)
      else case MlxConfigFW (me_Mst env) run (mr_Attributes s) of
             (cmds, Some e) \<Rightarrow> (cmds, [], Some e)
           | (cmds, None) \<Rightarrow>
               if gate then (case MlxResetFW setVfs st (mr_Reset s) of (acts, e) \<Rightarrow> (cmds, acts, e))
               else (cmds, [], None))"

section \<open>Convergence\<close>

text \<open>What is relied on of \<^verbatim>\<open>mstconfig set\<close>: the named settings get the given values, for the next boot.\<close>

definition mst_sets :: "((string \<times> string) list \<Rightarrow> MlxNic \<Rightarrow> MlxNic) \<Rightarrow> bool" where
  "mst_sets tool \<longleftrightarrow>
     (\<forall>args fw. mlx_EnableSriov (tool args fw) =
        (case map_of args ''SRIOV_EN'' of None \<Rightarrow> mlx_EnableSriov fw | Some v \<Rightarrow> v = ''True'') \<and>
      mlx_TotalVfs (tool args fw) =
        (case map_of args ''NUM_OF_VFS'' of None \<Rightarrow> mlx_TotalVfs fw | Some v \<Rightarrow> fst (atoi v)))"

lemma config_args_lookup:
  "map_of (config_args a) ''SRIOV_EN'' =
     (if mlx_EnableSriov a then Some ''True'' else if mlx_TotalVfs a = 0 then Some ''False'' else None)"
  "map_of (config_args a) ''NUM_OF_VFS'' = (if mlx_TotalVfs a > -1 then Some (itoa (mlx_TotalVfs a)) else None)"
  by (auto simp: config_args_def)

text \<open>The VF count and the SR-IOV switch that are asked for, together with the decisions.\<close>

definition vf_decision :: "MlxNic \<Rightarrow> MlxNic \<Rightarrow> Interface \<Rightarrow> bool \<Rightarrow> nics_spec \<Rightarrow> bool \<times> bool \<times> MlxNic" where
  "vf_decision cur nxt i dual specs =
     (case HandleTotalVfs cur nxt no_attrs i dual specs of (totalVfs, r1, c1, a) \<Rightarrow>
      case HandleEnableSriov totalVfs cur nxt a of (r2, c2, a) \<Rightarrow> (r1 \<or> r2, c1 \<or> c2, a))"

lemma vf_decision_eq:
  assumes "\<not> if_ExternallyManaged i" and "requested_vfs i dual specs = n" and "n > 0"
  shows "vf_decision cur nxt i dual specs =
    (mlx_TotalVfs cur \<noteq> n \<or> \<not> mlx_EnableSriov cur,
     (mlx_TotalVfs cur = n \<and> mlx_TotalVfs nxt \<noteq> n) \<or> (mlx_EnableSriov cur \<and> \<not> mlx_EnableSriov nxt),
     no_attrs\<lparr>mlx_TotalVfs := (if mlx_TotalVfs cur = n \<and> mlx_TotalVfs nxt = n then -1 else n),
       mlx_EnableSriov := (\<not> mlx_EnableSriov cur \<or> \<not> mlx_EnableSriov nxt)\<rparr>)"
  using assms by (auto simp: vf_decision_def HandleTotalVfs_def HandleEnableSriov_def Let_def no_attrs_def)

text \<open>A port whose link type is not the requested one.\<close>

definition link_differs :: "string \<Rightarrow> nics_spec \<Rightarrow> nics_status \<Rightarrow> bool" where
  "link_differs pre specs st \<longleftrightarrow>
     (\<exists>port\<in>{pre @ ''0'', pre @ ''1''}. \<exists>i. specs port = Some i \<and> if_LinkType i \<noteq> [] \<and>
        \<not> equal_fold (getIfaceStatus_link port st) (if_LinkType i))"

lemma link_change_eq: "isLinkTypeRequireChange i l fw = Inr b \<Longrightarrow> b \<longleftrightarrow> if_LinkType i \<noteq> [] \<and> \<not> equal_fold l (if_LinkType i)"
  by (auto simp: isLinkTypeRequireChange_def split: if_splits)

lemma HandleLinkType_Inr:
  assumes "HandleLinkType pre fw a specs st = Inr (b, a')"
  shows "(b \<longleftrightarrow> link_differs pre specs st) \<and> mlx_TotalVfs a' = mlx_TotalVfs a \<and> mlx_EnableSriov a' = mlx_EnableSriov a"
  using assms
  by (auto simp: HandleLinkType_def link_differs_def res_bind_eq_Inr split: option.splits if_splits dest!: link_change_eq)

lemma HandleLinkType_same: "\<not> link_differs pre specs st \<Longrightarrow> HandleLinkType pre fw a specs st = Inr (False, a)"
  by (auto simp: HandleLinkType_def link_differs_def isLinkTypeRequireChange_def split: option.splits)

lemma process_nic_eq:
  assumes "GetMlxNicFwData (me_Mst env) (if_PciAddress i) = Inr (cur, nxt)" and "\<not> if_ExternallyManaged i"
    and "GetPciAddressPrefix (if_PciAddress i) \<notin> set (mr_Processed s)"
    and "vf_decision cur nxt i (IsDualPort (if_PciAddress i) st) specs = (reboot, change, a)"
  shows "process_nic env st specs i s =
    res_bind (HandleLinkType (GetPciAddressPrefix (if_PciAddress i)) cur a specs st) (\<lambda>(link, a).
      Inr (s\<lparr>mr_Processed := GetPciAddressPrefix (if_PciAddress i) # mr_Processed s, mr_NeedReboot := reboot \<or> link,
        mr_Attributes := (if reboot \<or> link \<or> change then put_assoc (if_PciAddress i) a (mr_Attributes s) else mr_Attributes s),
        mr_Reset := (if reboot \<or> link then mr_Reset s @ [if_PciAddress i] else mr_Reset s)\<rparr>))"
  using assms by (auto simp: process_nic_def vf_decision_def Let_def disj_assoc split: prod.splits)

text \<open>What the next boot has when the collected attributes of a NIC are written.\<close>

definition next_boot ::
    "((string \<times> string) list \<Rightarrow> MlxNic \<Rightarrow> MlxNic) \<Rightarrow> (string \<times> MlxNic) list \<Rightarrow> string \<Rightarrow> MlxNic \<Rightarrow> MlxNic" where
  "next_boot tool attrs addr nxt = (case map_of attrs addr of None \<Rightarrow> nxt | Some a \<Rightarrow> tool (config_args a) nxt)"

lemma map_of_put_assoc: "map_of (put_assoc k v xs) = (map_of xs)(k \<mapsto> v)"
proof -
  have "map_of (map (\<lambda>p. if fst p = k then (k, v) else p) xs) j =
      (if j = k \<and> k \<in> fst ` set xs then Some v else map_of xs j)" for j
    by (induction xs) (auto split: if_splits)
  moreover have "map_of xs k = None" if "\<not> list_ex (\<lambda>p. fst p = k) xs"
    using that by (auto simp: list_ex_iff map_of_eq_None_iff)
  ultimately show ?thesis
    by (auto simp: put_assoc_def fun_eq_iff list_ex_iff map_add_def image_iff split: option.splits)
qed

text \<open>
  C33: the firmware settings of one NIC converge. For a NIC that the operator manages and that is to have VFs, the step of the plugin for
  this NIC asks for a reboot, and for a reset of the NIC, exactly when the running firmware has another number of VFs or SR-IOV disabled or a port has
  another link type than requested; writing the collected attributes makes the next boot have the requested number of VFs
  with SR-IOV enabled; and after that boot, with the requested link types, the step asks for nothing and collects nothing.
  (How the plugin joins the answers for several NICs is not part of this: it forgets reboots.)
\<close>

theorem firmware_converges:
  assumes "mst_sets tool" and "\<not> if_ExternallyManaged i"
    and "requested_vfs i (IsDualPort (if_PciAddress i) st) specs = n" and "0 < n" and "n \<le> max_int64"
    and "GetPciAddressPrefix (if_PciAddress i) \<notin> set (mr_Processed s)" and "map_of (mr_Attributes s) (if_PciAddress i) = None"
    and "GetMlxNicFwData (me_Mst env) (if_PciAddress i) = Inr (cur, nxt)" and "process_nic env st specs i s = Inr s'"
    and "nxt' = next_boot tool (mr_Attributes s') (if_PciAddress i) nxt"
    and "GetMlxNicFwData (me_Mst env') (if_PciAddress i) = Inr (nxt', nxt')"
    and "\<not> link_differs (GetPciAddressPrefix (if_PciAddress i)) specs st'"
    and "IsDualPort (if_PciAddress i) st' = IsDualPort (if_PciAddress i) st"
  shows "(mr_NeedReboot s' \<longleftrightarrow> mlx_TotalVfs cur \<noteq> n \<or> \<not> mlx_EnableSriov cur \<or>
      link_differs (GetPciAddressPrefix (if_PciAddress i)) specs st) \<and>
    mr_Reset s' = mr_Reset s @ (if mr_NeedReboot s' then [if_PciAddress i] else []) \<and>
    mlx_TotalVfs nxt' = n \<and> mlx_EnableSriov nxt' \<and>
    process_nic env' st' specs i s =
      Inr (s\<lparr>mr_Processed := GetPciAddressPrefix (if_PciAddress i) # mr_Processed s, mr_NeedReboot := False\<rparr>)"
proof -
  let ?pre = "GetPciAddressPrefix (if_PciAddress i)" and ?dual = "IsDualPort (if_PciAddress i) st"
  note e = vf_decision_eq[OF assms(2,3,4)]
  have v: "fst (atoi (itoa n)) = n" using atoi_itoa[of n] assms(4,5) by (simp add: min_int64_def)
  have t: "mlx_EnableSriov (tool args fw) =
        (case map_of args ''SRIOV_EN'' of None \<Rightarrow> mlx_EnableSriov fw | Some v \<Rightarrow> v = ''True'')"
      "mlx_TotalVfs (tool args fw) =
        (case map_of args ''NUM_OF_VFS'' of None \<Rightarrow> mlx_TotalVfs fw | Some v \<Rightarrow> fst (atoi v))" for args fw
    using assms(1) unfolding mst_sets_def by blast+
  obtain reboot change a where d: "vf_decision cur nxt i ?dual specs = (reboot, change, a)" by (metis prod_cases3)
  obtain link a' where l: "HandleLinkType ?pre cur a specs st = Inr (link, a')"
    and s': "s' = s\<lparr>mr_Processed := ?pre # mr_Processed s, mr_NeedReboot := reboot \<or> link,
        mr_Attributes := (if reboot \<or> link \<or> change then put_assoc (if_PciAddress i) a' (mr_Attributes s) else mr_Attributes s),
        mr_Reset := (if reboot \<or> link then mr_Reset s @ [if_PciAddress i] else mr_Reset s)\<rparr>"
    using assms(9) process_nic_eq[OF assms(8,2,6) d] by (auto simp: res_bind_eq_Inr)
  note la = HandleLinkType_Inr[OF l]
  have dec: "reboot \<longleftrightarrow> mlx_TotalVfs cur \<noteq> n \<or> \<not> mlx_EnableSriov cur"
      "change \<longleftrightarrow> (mlx_TotalVfs cur = n \<and> mlx_TotalVfs nxt \<noteq> n) \<or> (mlx_EnableSriov cur \<and> \<not> mlx_EnableSriov nxt)"
    using d unfolding e[of cur nxt] by blast+
  have ta: "mlx_TotalVfs a' = (if mlx_TotalVfs cur = n \<and> mlx_TotalVfs nxt = n then -1 else n)"
      "mlx_EnableSriov a' \<longleftrightarrow> \<not> mlx_EnableSriov cur \<or> \<not> mlx_EnableSriov nxt"
    using d la unfolding e[of cur nxt] by auto
  have wr: "mlx_TotalVfs (tool (config_args a') nxt) = n \<and> mlx_EnableSriov (tool (config_args a') nxt)"
    using assms(4) v by (simp add: t config_args_lookup ta)
  have n': "nxt' = (if reboot \<or> link \<or> change then tool (config_args a') nxt else nxt)"
    using assms(7,10) by (simp add: s' next_boot_def map_of_put_assoc)
  have nx: "mlx_TotalVfs nxt' = n" "mlx_EnableSriov nxt'"
    using wr dec unfolding n' by auto
  have d': "vf_decision nxt' nxt' i (IsDualPort (if_PciAddress i) st') specs = (False, False, no_attrs)"
    using e[of nxt' nxt'] nx assms(13) by (simp add: no_attrs_def)
  have "process_nic env' st' specs i s = Inr (s\<lparr>mr_Processed := ?pre # mr_Processed s, mr_NeedReboot := False\<rparr>)"
    using process_nic_eq[OF assms(11,2,6) d'] HandleLinkType_same[OF assms(12)] by simp
  moreover have "mr_NeedReboot s' \<longleftrightarrow> reboot \<or> link_differs ?pre specs st" using la s' by simp
  moreover have "mr_Reset s' = mr_Reset s @ (if mr_NeedReboot s' then [if_PciAddress i] else [])" using s' by simp
  ultimately show ?thesis using nx dec(1) by blast
qed

definition sample_mst_tool :: "(string \<times> string) list \<Rightarrow> MlxNic \<Rightarrow> MlxNic" where
  "sample_mst_tool args fw = fw\<lparr>
     mlx_EnableSriov := (case map_of args ''SRIOV_EN'' of None \<Rightarrow> mlx_EnableSriov fw | Some v \<Rightarrow> v = ''True''),
     mlx_TotalVfs := (case map_of args ''NUM_OF_VFS'' of None \<Rightarrow> mlx_TotalVfs fw | Some v \<Rightarrow> fst (atoi v))\<rparr>"

definition mst_sample :: "string \<Rightarrow> string \<Rightarrow> string" where
  "mst_sample vfs en = ''NUM_OF_VFS 0 '' @ vfs @ '' '' @ vfs @ [CHR 0x0A] @ ''SRIOV_EN False(0) '' @ en @ '' '' @ en"

definition sample_firmware :: "string \<Rightarrow> string \<Rightarrow> mlx_env" where
  "sample_firmware vfs en =
     \<lparr>me_Lockdown = False, me_Mst = (\<lambda>_. Inr (mst_sample vfs en)),
      me_Store = (\<lambda>_. Inr None), me_NicTable = [], me_SpecOrder = (\<lambda>x. x), me_NicOrder = (\<lambda>x. x), me_PortOrder = (\<lambda>x. x)\<rparr>"

definition sample_nic :: "int \<Rightarrow> bool \<Rightarrow> MlxNic" where
  "sample_nic vfs en = \<lparr>mlx_EnableSriov = en, mlx_TotalVfs = vfs, mlx_LinkTypeP1 = ''Preconfigured'', mlx_LinkTypeP2 = []\<rparr>"

definition sample_step :: "string \<Rightarrow> string \<Rightarrow> mlx_error + mlx_run" where
  "sample_step vfs en =
     process_nic (sample_firmware vfs en) Map.empty [if_PciAddress sample_interface \<mapsto> sample_interface] sample_interface mlx_start"

theorem firmware_converges_witness:
  "(\<exists>s'. sample_step ''0'' ''False(0)'' = Inr s' \<and> mr_NeedReboot s' \<and>
      next_boot sample_mst_tool (mr_Attributes s') (if_PciAddress sample_interface) (sample_nic 0 False) =
        sample_nic 4 True) \<and>
   (\<exists>s'. sample_step ''4'' ''True(1)'' = Inr s' \<and> \<not> mr_NeedReboot s' \<and> mr_Attributes s' = [])"
proof -
  let ?i = sample_interface and ?st = "Map.empty :: nics_status"
  let ?specs = "[if_PciAddress ?i \<mapsto> ?i]"
  have m: "mst_sets sample_mst_tool" by (simp add: mst_sets_def sample_mst_tool_def)
  have i: "\<not> if_ExternallyManaged ?i" "requested_vfs ?i (IsDualPort (if_PciAddress ?i) ?st) ?specs = 4" "(0::int) < 4" "4 \<le> max_int64"
    by (simp_all add: sample_interface_def requested_vfs_def IsDualPort_def max_int64_def)
  have s: "GetPciAddressPrefix (if_PciAddress ?i) \<notin> set (mr_Processed mlx_start)" "map_of (mr_Attributes mlx_start) (if_PciAddress ?i) = None"
    by (simp_all add: mlx_start_def)
  have f0: "GetMlxNicFwData (me_Mst (sample_firmware ''0'' ''False(0)'')) (if_PciAddress ?i) =
      Inr (sample_nic 0 False, sample_nic 0 False)" by code_simp
  have f4: "GetMlxNicFwData (me_Mst (sample_firmware ''4'' ''True(1)'')) (if_PciAddress ?i) =
      Inr (sample_nic 4 True, sample_nic 4 True)" by code_simp
  have l: "\<not> link_differs (GetPciAddressPrefix (if_PciAddress ?i)) ?specs ?st"
    by (auto simp: link_differs_def sample_interface_def)
  have "isl (sample_step ''0'' ''False(0)'') = False" by code_simp
  then obtain s1 where p: "sample_step ''0'' ''False(0)'' = Inr s1" by (cases "sample_step ''0'' ''False(0)''") auto
  have "(case sample_step ''0'' ''False(0)'' of Inr s1 \<Rightarrow> next_boot sample_mst_tool (mr_Attributes s1) (if_PciAddress ?i) (sample_nic 0 False)
      | Inl _ \<Rightarrow> no_attrs) = sample_nic 4 True" by code_simp
  then have n: "sample_nic 4 True =
      next_boot sample_mst_tool (mr_Attributes s1) (if_PciAddress ?i) (sample_nic 0 False)" using p by simp
  note c = firmware_converges[OF m i s f0 p[unfolded sample_step_def] n f4 l refl]
  have "mr_NeedReboot s1" using c by (simp add: sample_nic_def)
  moreover have "sample_step ''4'' ''True(1)'' = Inr (mlx_start\<lparr>mr_Processed := GetPciAddressPrefix (if_PciAddress ?i) # mr_Processed mlx_start, mr_NeedReboot := False\<rparr>)"
    unfolding sample_step_def using c by blast
  ultimately show ?thesis using p n by (auto simp: mlx_start_def)
qed

section \<open>Several NICs\<close>

definition sample_mlx_env :: "((string \<times> Interface) list \<Rightarrow> (string \<times> Interface) list) \<Rightarrow> mlx_env" where
  "sample_mlx_env ord =
     \<lparr>me_Lockdown = False,
      me_Mst = (\<lambda>a. if a = ''0000:3b:00.0'' then Inr (mst_sample ''0'' ''False(0)'') else Inr (mst_sample ''4'' ''True(1)'')),
      me_Store = (\<lambda>_. Inr None), me_NicTable = [], me_SpecOrder = ord, me_NicOrder = (\<lambda>x. x), me_PortOrder = (\<lambda>x. x)\<rparr>"

definition sample_mlx_state :: SriovNetworkNodeState where
  "sample_mlx_state = (sample_state ''n'')
     \<lparr>state_Spec := \<lparr>ns_Interfaces = [sample_interface, sample_interface\<lparr>if_PciAddress := ''0000:5e:00.0''\<rparr>],
        ns_Bridges = \<lparr>bridges_OVS = []\<rparr>, ns_System = \<lparr>sys_RdmaMode = [], sys_OvsConfig = []\<rparr>\<rparr>,
      state_Status := sample_status\<lparr>nst_Interfaces :=
        [sample_pf\<lparr>ie_Vendor := MellanoxVendorID\<rparr>,
         sample_pf\<lparr>ie_Vendor := MellanoxVendorID, ie_PciAddress := ''0000:5e:00.0''\<rparr>]\<rparr>\<rparr>"

text \<open>
  Whether the plugin asks for a reboot depends on the order in which the map of specifications is
  iterated: of two NICs, one of which needs a reboot to get its VFs, the reboot is asked for when that NIC comes last and
  is forgotten when it comes first, although its firmware is going to be changed.
\<close>

theorem mellanox_reboot_forgotten:
  "(case mlx_OnNodeStateChange (sample_mlx_env (\<lambda>x. x)) sample_mlx_state of
      Inr (drain, reboot, s) \<Rightarrow> \<not> drain \<and> \<not> reboot \<and> mr_Reset s = [''0000:3b:00.0''] \<and> map fst (mr_Attributes s) = [''0000:3b:00.0'']
    | Inl _ \<Rightarrow> False) \<and>
   (case mlx_OnNodeStateChange (sample_mlx_env rev) sample_mlx_state of
      Inr (drain, reboot, s) \<Rightarrow> drain \<and> reboot \<and> mr_Reset s = [''0000:3b:00.0'']
    | Inl _ \<Rightarrow> False)"
  by code_simp

text \<open>
  The firmware of an externally managed NIC is changed when SR-IOV is disabled in it: only the number of VFs and the
  link type are refused.
\<close>

lemma external_firmware_changed:
  assumes "if_ExternallyManaged i" and "if_LinkType i = []" and "GetMlxNicFwData (me_Mst env) (if_PciAddress i) = Inr (cur, nxt)"
    and "\<not> mlx_EnableSriov cur" and "0 < if_NumVfs i" and "if_NumVfs i \<le> mlx_TotalVfs cur"
    and "\<not> IsDualPort (if_PciAddress i) st" and "specs = [if_PciAddress i \<mapsto> i]" and "mr_Processed s = []"
  shows "\<exists>s'. process_nic env st specs i s = Inr s' \<and> mr_NeedReboot s' \<and>
    map_of (mr_Attributes s') (if_PciAddress i) = Some (no_attrs\<lparr>mlx_EnableSriov := True\<rparr>)"
proof -
  have l: "HandleLinkType pre cur a [if_PciAddress i \<mapsto> i] st = Inr (False, a)" for pre a
    using assms(2) by (auto simp: HandleLinkType_def isLinkTypeRequireChange_def)
  show ?thesis using assms
    by (simp add: process_nic_def Let_def HandleTotalVfs_def HandleEnableSriov_def requested_vfs_def l map_of_put_assoc)
qed

end
