(* ===== verification/K8s_Plugin.thy ===== *)
theory K8s_Plugin
  imports Io_Monad Update_Check Pool_Config Samples
begin

text \<open>
  The systemd units that the Kubernetes plugin installs (\<^verbatim>\<open>src/pkg/plugins/k8s/k8s_plugin.go\<close>) through
  \<^verbatim>\<open>src/pkg/host/internal/service/service.go\<close>. The host is its unit files, the units that are enabled and a schedule
  of failing calls. The parsers of YAML and of unit files and the template engine are parameters.
\<close>

section \<open>The host\<close>

record UnitOption =
  uo_Section :: string
  uo_Name :: string
  uo_Value :: string

record Service =
  sv_Name :: string
  sv_Path :: string
  sv_Content :: string

record service_host =
  sh_Files :: "string \<rightharpoonup> string"
  sh_Enabled :: "string list"
  sh_Faults :: "bool list"

datatype service_error = FileNotExist | CallFailed | BadUnit | BadManifest | NilService

type_synonym 'a svc = "(service_host, service_error, 'a) stateful"

definition sys_call :: "'a svc \<Rightarrow> 'a svc" where
  "sys_call m s =
     (case sh_Faults s of
        [] \<Rightarrow> m s
      | b # bs \<Rightarrow> (let s' = s\<lparr>sh_Faults := bs\<rparr> in if b then (Inl CallFailed, s') else m s'))"

lemma sys_call_ok [simp]: "sh_Faults s = [] \<Longrightarrow> sys_call m s = m s"
  by (simp add: sys_call_def)

definition os_Stat :: "string \<Rightarrow> unit svc" where
  "os_Stat p = sys_call (\<lambda>s. (if sh_Files s p = None then Inl FileNotExist else Inr (), s))"

definition os_ReadFile :: "string \<Rightarrow> string svc" where
  "os_ReadFile p = sys_call (\<lambda>s. (case sh_Files s p of None \<Rightarrow> Inl FileNotExist | Some d \<Rightarrow> Inr d, s))"

definition os_WriteFile :: "string \<Rightarrow> string \<Rightarrow> unit svc" where
  "os_WriteFile p d = sys_call (\<lambda>s. (Inr (), s\<lparr>sh_Files := (sh_Files s)(p \<mapsto> d)\<rparr>))"

text \<open>Changing the root and making a directory only succeed or fail.\<close>

definition os_other :: "unit svc" where
  "os_other = sys_call (io_return ())"

definition systemctl_is_enabled :: "string \<Rightarrow> unit svc" where
  "systemctl_is_enabled nm = sys_call (\<lambda>s. (if nm \<in> set (sh_Enabled s) then Inr () else Inl CallFailed, s))"

definition systemctl_reenable :: "string \<Rightarrow> unit svc" where
  "systemctl_reenable nm = sys_call (\<lambda>s. (Inr (), s\<lparr>sh_Enabled := List.insert nm (sh_Enabled s)\<rparr>))"

section \<open>Services\<close>

text \<open>\<^verbatim>\<open>filepath.Base\<close> of a path that does not end in a slash.\<close>

definition base_name :: "string \<Rightarrow> string" where
  "base_name p = rev (takeWhile (\<lambda>c. c \<noteq> CHR ''/'') (rev p))"

definition IsServiceExist :: "string \<Rightarrow> bool svc" where
  "IsServiceExist servicePath =
     io_handle (os_Stat servicePath)
       (\<lambda>e. if e = FileNotExist then io_return False else io_fail e) (\<lambda>_. io_return True)"

definition IsServiceEnabled :: "string \<Rightarrow> bool svc" where
  "IsServiceEnabled servicePath =
     io_bind (IsServiceExist servicePath) (\<lambda>exist.
       if \<not> exist then io_return False
       else io_bind os_other (\<lambda>_.
         io_handle (systemctl_is_enabled (base_name servicePath)) (\<lambda>_. io_return False) (\<lambda>_. io_return True)))"

definition ReadService :: "string \<Rightarrow> Service svc" where
  "ReadService servicePath =
     io_bind (os_ReadFile servicePath) (\<lambda>d.
       io_return \<lparr>sv_Name = base_name servicePath, sv_Path = servicePath, sv_Content = d\<rparr>)"

definition EnableService :: "Service \<Rightarrow> unit svc" where
  "EnableService service =
     io_bind (os_WriteFile (sv_Path service) (sv_Content service)) (\<lambda>_.
     io_bind os_other (\<lambda>_. systemctl_reenable (sv_Name service)))"

definition WriteServiceDropin :: "Service \<Rightarrow> unit svc" where
  "WriteServiceDropin service =
     io_bind os_other (\<lambda>_. os_WriteFile (sv_Path service) (sv_Content service))"

text \<open>Whether the first unit lacks an option of the second; \<open>parse\<close> is \<^verbatim>\<open>unit.DeserializeOptions\<close>.\<close>

definition CompareServices :: "(string \<Rightarrow> UnitOption list option) \<Rightarrow> Service \<Rightarrow> Service \<Rightarrow> service_error + bool" where
  "CompareServices parse a b =
     (case parse (sv_Content a) of
        None \<Rightarrow> Inl BadUnit
      | Some optsA \<Rightarrow>
          (case parse (sv_Content b) of
             None \<Rightarrow> Inl BadUnit
           | Some optsB \<Rightarrow> Inr (\<not> list_all (\<lambda>optB. list_ex (\<lambda>optA. optA = optB) optsA) optsB)))"

fun append_options :: "UnitOption list \<Rightarrow> UnitOption list \<Rightarrow> UnitOption list" where
  "append_options opts [] = opts"
| "append_options opts (x # xs) = append_options (if list_ex (\<lambda>y. y = x) opts then opts else opts @ [x]) xs"

definition appendToService ::
    "(string \<Rightarrow> UnitOption list option) \<Rightarrow> (UnitOption list \<Rightarrow> string) \<Rightarrow> Service \<Rightarrow> UnitOption list \<Rightarrow> service_error + Service" where
  "appendToService parse print service options =
     (case parse (sv_Content service) of
        None \<Rightarrow> Inl BadUnit
      | Some serviceOptions \<Rightarrow> Inr (service\<lparr>sv_Content := print (append_options serviceOptions options)\<rparr>))"

definition UpdateSystemService ::
    "(string \<Rightarrow> UnitOption list option) \<Rightarrow> (UnitOption list \<Rightarrow> string) \<Rightarrow> Service \<Rightarrow> unit svc" where
  "UpdateSystemService parse print serviceObj =
     io_bind (ReadService (sv_Path serviceObj)) (\<lambda>systemService.
       case parse (sv_Content serviceObj) of
         None \<Rightarrow> io_fail BadUnit
       | Some serviceOptions \<Rightarrow>
           io_bind (io_lift (appendToService parse print systemService serviceOptions)) EnableService)"

section \<open>Options of OVS\<close>

text \<open>\<^verbatim>\<open>%q\<close> on a text whose characters beyond ASCII are printable.\<close>

definition hex_digit :: "nat \<Rightarrow> char" where
  "hex_digit n = ''0123456789abcdef'' ! n"

definition quote_char :: "char \<Rightarrow> string" where
  "quote_char c =
     (let bs = CHR 0x5C; n = (of_char c :: nat) in
      if c = CHR 0x22 \<or> c = bs then [bs, c]
      else if n = 7 then [bs, CHR ''a''] else if n = 8 then [bs, CHR ''b''] else if n = 9 then [bs, CHR ''t'']
      else if n = 10 then [bs, CHR ''n''] else if n = 11 then [bs, CHR ''v''] else if n = 12 then [bs, CHR ''f'']
      else if n = 13 then [bs, CHR ''r'']
      else if n < 32 \<or> n = 127 then [bs, CHR ''x'', hex_digit (n div 16), hex_digit (n mod 16)]
      else [c])"

definition go_quote :: "string \<Rightarrow> string" where
  "go_quote s = CHR 0x22 # concat (map quote_char s) @ [CHR 0x22]"

definition escape_percent :: "string \<Rightarrow> string" where
  "escape_percent v = concat (map (\<lambda>c. if c = CHR ''%'' then ''%%'' else [c]) v)"

text \<open>The configuration is a map: the association list is taken in the order of its keys.\<close>

definition RenderOtherOvsConfigOption :: "(string \<times> string) list \<Rightarrow> ovs_error + string \<times> string" where
  "RenderOtherOvsConfigOption ovsConfig =
     (let keys = sort (map fst ovsConfig) in
      res_bind (ValidateOvsConfig ovsConfig) (\<lambda>_.
        Inr (join_with '' '' keys,
             concat (map (\<lambda>key. go_quote (''other_config:'' @ key @ ''='' @ escape_percent (the (map_of ovsConfig key))) @ '' '') keys))))"

section \<open>Manifests\<close>

text \<open>
  The manifests of the image, parsed: an injection manifest has a name and drop-ins with a name and contents, a service
  manifest a name and contents. \<open>mn_Render\<close> executes a template on the identifiers and the options.
\<close>

record manifest_env =
  mn_Injection :: "string \<Rightarrow> (string \<times> (string \<times> string) list) option"
  mn_Service :: "string \<Rightarrow> (string \<times> string) option"
  mn_Render :: "string \<Rightarrow> string \<Rightarrow> string \<Rightarrow> string option"
  mn_Parse :: "string \<Rightarrow> UnitOption list option"
  mn_UsingSystemdMode :: bool

definition ReadOvsServiceInjectionManifestFile ::
    "manifest_env \<Rightarrow> string \<Rightarrow> (string \<times> string) list \<Rightarrow> service_error + Service" where
  "ReadOvsServiceInjectionManifestFile env filePath ovsConfig =
     (case mn_Injection env filePath of
        None \<Rightarrow> Inl BadManifest
      | Some (nm, dropins) \<Rightarrow>
          res_bind (map_err (\<lambda>_. BadManifest) (RenderOtherOvsConfigOption ovsConfig)) (\<lambda>(externalIds, otherOvsConfig).
            case dropins of
              [] \<Rightarrow> Inl NilService
            | (dname, contents) # _ \<Rightarrow>
                (case mn_Render env contents externalIds otherOvsConfig of
                   None \<Rightarrow> Inl BadManifest
                 | Some srv \<Rightarrow>
                     Inr \<lparr>sv_Name = nm, sv_Path = ''/usr/lib/systemd/system/'' @ nm @ ''.d/'' @ dname, sv_Content = srv\<rparr>)))"

definition ReadServiceManifestFile :: "manifest_env \<Rightarrow> string \<Rightarrow> service_error + Service" where
  "ReadServiceManifestFile env p =
     (case mn_Service env p of
        None \<Rightarrow> Inl BadManifest
      | Some (nm, contents) \<Rightarrow> Inr \<lparr>sv_Name = nm, sv_Path = ''/etc/systemd/system/'' @ nm, sv_Content = contents\<rparr>)"

abbreviation ovsUnitFile :: string where
  "ovsUnitFile \<equiv> ''bindata/manifests/switchdev-config/ovs-units/ovs-vswitchd.service.yaml''"
abbreviation sriovUnitFile :: string where
  "sriovUnitFile \<equiv> ''bindata/manifests/sriov-config-service/kubernetes/sriov-config-service.yaml''"
abbreviation sriovPostNetworkUnitFile :: string where
  "sriovPostNetworkUnitFile \<equiv> ''bindata/manifests/sriov-config-service/kubernetes/sriov-config-post-network-service.yaml''"
abbreviation ovsMainServicePath :: string where
  "ovsMainServicePath \<equiv> ''/usr/lib/systemd/system/ovs-vswitchd.service''"

section \<open>The plugin\<close>

record updateTargetReq =
  ut_update :: bool
  ut_reboot :: bool

abbreviation no_update :: updateTargetReq where
  "no_update \<equiv> \<lparr>ut_update = False, ut_reboot = False\<rparr>"

definition SetNeedReboot :: updateTargetReq where
  "SetNeedReboot = \<lparr>ut_update = True, ut_reboot = True\<rparr>"

record k8sUpdateTarget =
  kt_sriovScript :: updateTargetReq
  kt_sriovPostNetworkScript :: updateTargetReq
  kt_openVSwitch :: updateTargetReq

definition target_needReboot :: "k8sUpdateTarget \<Rightarrow> bool" where
  "target_needReboot u = (ut_reboot (kt_sriovScript u) \<or> ut_reboot (kt_sriovPostNetworkScript u) \<or> ut_reboot (kt_openVSwitch u))"

definition target_reset :: k8sUpdateTarget where
  "target_reset = \<lparr>kt_sriovScript = no_update, kt_sriovPostNetworkScript = no_update, kt_openVSwitch = no_update\<rparr>"

record K8sPlugin =
  kp_openVSwitchService :: "Service option"
  kp_sriovService :: "Service option"
  kp_sriovPostNetworkService :: "Service option"
  kp_updateTarget :: k8sUpdateTarget

definition NewK8sPlugin :: K8sPlugin where
  "NewK8sPlugin = \<lparr>kp_openVSwitchService = None, kp_sriovService = None, kp_sriovPostNetworkService = None,
     kp_updateTarget = target_reset\<rparr>"

text \<open>The state is the plugin and the host.\<close>

type_synonym 'a kio = "(K8sPlugin \<times> service_host, service_error, 'a) stateful"

definition on_host :: "'a svc \<Rightarrow> 'a kio" where
  "on_host m = (\<lambda>(p, h). case m h of (r, h') \<Rightarrow> (r, p, h'))"

definition edit_plugin :: "(K8sPlugin \<Rightarrow> K8sPlugin) \<Rightarrow> unit kio" where
  "edit_plugin f = (\<lambda>(p, h). (Inr (), f p, h))"

definition loaded_service :: "(K8sPlugin \<Rightarrow> Service option) \<Rightarrow> Service kio" where
  "loaded_service f = (\<lambda>(p, h). (case f p of None \<Rightarrow> Inl NilService | Some s \<Rightarrow> Inr s, p, h))"

definition readManifestFiles :: "manifest_env \<Rightarrow> (string \<times> string) list \<Rightarrow> unit kio" where
  "readManifestFiles env ovsConfig =
     io_bind (io_lift (ReadOvsServiceInjectionManifestFile env ovsUnitFile ovsConfig)) (\<lambda>s.
     io_bind (edit_plugin (\<lambda>p. p\<lparr>kp_openVSwitchService := Some s\<rparr>)) (\<lambda>_.
     io_bind (io_lift (ReadServiceManifestFile env sriovUnitFile)) (\<lambda>s.
     io_bind (edit_plugin (\<lambda>p. p\<lparr>kp_sriovService := Some s\<rparr>)) (\<lambda>_.
     io_bind (io_lift (ReadServiceManifestFile env sriovPostNetworkUnitFile)) (\<lambda>s.
       edit_plugin (\<lambda>p. p\<lparr>kp_sriovPostNetworkService := Some s\<rparr>))))))"

definition isDropinNeedUpdate :: "manifest_env \<Rightarrow> Service \<Rightarrow> bool svc" where
  "isDropinNeedUpdate env service =
     io_handle (ReadService (sv_Path service)) (\<lambda>_. io_return True)
       (\<lambda>existing. case CompareServices (mn_Parse env) existing service of
          Inl _ \<Rightarrow> io_return True | Inr needChange \<Rightarrow> io_return needChange)"

definition isSystemDServiceNeedUpdate :: "manifest_env \<Rightarrow> Service \<Rightarrow> bool svc" where
  "isSystemDServiceNeedUpdate env serviceObj =
     io_handle (ReadService (sv_Path serviceObj)) (\<lambda>_. io_return False)
       (\<lambda>systemService. case CompareServices (mn_Parse env) systemService serviceObj of
          Inl _ \<Rightarrow> io_return False | Inr needChange \<Rightarrow> io_return needChange)"

definition ovsServiceStateUpdate :: "manifest_env \<Rightarrow> unit kio" where
  "ovsServiceStateUpdate env =
     io_bind (on_host (IsServiceExist ovsMainServicePath)) (\<lambda>exist.
       if \<not> exist then io_return ()
       else io_bind (loaded_service kp_openVSwitchService) (\<lambda>s.
         io_bind (on_host (isDropinNeedUpdate env s)) (\<lambda>need.
           if \<not> need then io_return ()
           else edit_plugin (\<lambda>p. p\<lparr>kp_updateTarget := (kp_updateTarget p)\<lparr>kt_openVSwitch := SetNeedReboot\<rparr>\<rparr>))))"

text \<open>One of the two services of the operator; \<open>set\<close> marks its target.\<close>

definition service_state_update ::
    "manifest_env \<Rightarrow> (K8sPlugin \<Rightarrow> Service option) \<Rightarrow> (k8sUpdateTarget \<Rightarrow> k8sUpdateTarget) \<Rightarrow> unit kio" where
  "service_state_update env srv mark =
     io_bind (loaded_service srv) (\<lambda>s.
     io_bind (on_host (IsServiceEnabled (sv_Path s))) (\<lambda>isServiceEnabled.
     io_bind (if \<not> isServiceEnabled then io_return True else on_host (isSystemDServiceNeedUpdate env s)) (\<lambda>need.
       if need then edit_plugin (\<lambda>p. p\<lparr>kp_updateTarget := mark (kp_updateTarget p)\<rparr>) else io_return ())))"

definition sriovServicesStateUpdate :: "manifest_env \<Rightarrow> unit kio" where
  "sriovServicesStateUpdate env =
     io_bind (service_state_update env kp_sriovService (\<lambda>u. u\<lparr>kt_sriovScript := SetNeedReboot\<rparr>)) (\<lambda>_.
       service_state_update env kp_sriovPostNetworkService (\<lambda>u. u\<lparr>kt_sriovPostNetworkScript := SetNeedReboot\<rparr>))"

text \<open>Drain and reboot.\<close>

definition k8s_OnNodeStateChange :: "manifest_env \<Rightarrow> SriovNetworkNodeState \<Rightarrow> (bool \<times> bool) kio" where
  "k8s_OnNodeStateChange env new =
     io_bind (readManifestFiles env (sys_OvsConfig (ns_System (state_Spec new)))) (\<lambda>_.
     io_bind (edit_plugin (\<lambda>p. p\<lparr>kp_updateTarget := target_reset\<rparr>)) (\<lambda>_.
       if \<not> mn_UsingSystemdMode env \<and> \<not> IsSwitchdevModeSpec (state_Spec new) then io_return (False, False)
       else
         io_bind (io_when (IsSwitchdevModeSpec (state_Spec new)) (ovsServiceStateUpdate env)) (\<lambda>_.
         io_bind (io_when (mn_UsingSystemdMode env) (sriovServicesStateUpdate env)) (\<lambda>_.
         io_bind (io_gets (\<lambda>(p, _). target_needReboot (kp_updateTarget p))) (\<lambda>b. io_return (b, b))))))"

definition update_service :: "(K8sPlugin \<Rightarrow> Service option) \<Rightarrow> (k8sUpdateTarget \<Rightarrow> updateTargetReq) \<Rightarrow> unit kio" where
  "update_service srv target =
     io_bind (io_gets (\<lambda>(p, _). ut_update (target (kp_updateTarget p)))) (\<lambda>need.
       io_when need (io_bind (loaded_service srv) (\<lambda>s. on_host (EnableService s))))"

definition updateSriovServices :: "unit kio" where
  "updateSriovServices =
     io_bind (update_service kp_sriovService kt_sriovScript) (\<lambda>_.
       update_service kp_sriovPostNetworkService kt_sriovPostNetworkScript)"

definition updateOVSService :: "unit kio" where
  "updateOVSService =
     io_bind (io_gets (\<lambda>(p, _). ut_update (kt_openVSwitch (kp_updateTarget p)))) (\<lambda>need.
       io_when need (io_bind (loaded_service kp_openVSwitchService) (\<lambda>s. on_host (WriteServiceDropin s))))"

definition k8s_Apply :: "manifest_env \<Rightarrow> unit kio" where
  "k8s_Apply env =
     io_bind (io_when (mn_UsingSystemdMode env) updateSriovServices) (\<lambda>_. updateOVSService)"

section \<open>On a host where no call fails\<close>

definition unit_lacks :: "manifest_env \<Rightarrow> string \<Rightarrow> Service \<Rightarrow> service_error + bool" where
  "unit_lacks env d s = CompareServices (mn_Parse env) (s\<lparr>sv_Content := d\<rparr>) s"

definition dropin_outdated :: "manifest_env \<Rightarrow> service_host \<Rightarrow> Service \<Rightarrow> bool" where
  "dropin_outdated env h s =
     (case sh_Files h (sv_Path s) of None \<Rightarrow> True | Some d \<Rightarrow> unit_lacks env d s \<noteq> Inr False)"

definition service_outdated :: "manifest_env \<Rightarrow> service_host \<Rightarrow> Service \<Rightarrow> bool" where
  "service_outdated env h s =
     (case sh_Files h (sv_Path s) of
        None \<Rightarrow> True
      | Some d \<Rightarrow> base_name (sv_Path s) \<notin> set (sh_Enabled h) \<or> unit_lacks env d s = Inr True)"

definition enabled_host :: "Service \<Rightarrow> service_host \<Rightarrow> service_host" where
  "enabled_host s h = h\<lparr>sh_Files := (sh_Files h)(sv_Path s \<mapsto> sv_Content s), sh_Enabled := List.insert (sv_Name s) (sh_Enabled h)\<rparr>"

definition dropin_host :: "Service \<Rightarrow> service_host \<Rightarrow> service_host" where
  "dropin_host s h = h\<lparr>sh_Files := (sh_Files h)(sv_Path s \<mapsto> sv_Content s)\<rparr>"

named_theorems service_run \<open>operations on a host where no call fails\<close>

lemmas kio_defs = io_run_defs on_host_def edit_plugin_def loaded_service_def

lemma unit_lacks_read:
  "CompareServices (mn_Parse env) \<lparr>sv_Name = n, sv_Path = p, sv_Content = d\<rparr> s = unit_lacks env d s"
  by (simp add: unit_lacks_def CompareServices_def)

lemma unit_lacks_same: "mn_Parse env (sv_Content s) \<noteq> None \<Longrightarrow> unit_lacks env (sv_Content s) s = Inr False"
  by (auto simp: unit_lacks_def CompareServices_def list_all_iff list_ex_iff)

lemma run_exist [service_run]: "sh_Faults h = [] \<Longrightarrow> IsServiceExist p h = (Inr (sh_Files h p \<noteq> None), h)"
  by (simp add: IsServiceExist_def os_Stat_def io_run_defs)

lemma run_enabled [service_run]:
  "sh_Faults h = [] \<Longrightarrow> IsServiceEnabled p h = (Inr (sh_Files h p \<noteq> None \<and> base_name p \<in> set (sh_Enabled h)), h)"
  by (simp add: IsServiceEnabled_def run_exist os_other_def systemctl_is_enabled_def io_run_defs)

lemma run_dropin [service_run]: "sh_Faults h = [] \<Longrightarrow> isDropinNeedUpdate env s h = (Inr (dropin_outdated env h s), h)"
  by (simp add: isDropinNeedUpdate_def ReadService_def os_ReadFile_def dropin_outdated_def unit_lacks_read io_run_defs
    split: option.splits sum.splits)

lemma run_need_update [service_run]:
  "sh_Faults h = [] \<Longrightarrow> isSystemDServiceNeedUpdate env s h =
     (Inr (case sh_Files h (sv_Path s) of None \<Rightarrow> False | Some d \<Rightarrow> unit_lacks env d s = Inr True), h)"
  by (simp add: isSystemDServiceNeedUpdate_def ReadService_def os_ReadFile_def unit_lacks_read io_run_defs
    split: option.splits sum.splits)

lemma run_enable [service_run]: "sh_Faults h = [] \<Longrightarrow> EnableService s h = (Inr (), enabled_host s h)"
  by (simp add: EnableService_def os_WriteFile_def os_other_def systemctl_reenable_def enabled_host_def io_run_defs)

lemma run_write_dropin [service_run]: "sh_Faults h = [] \<Longrightarrow> WriteServiceDropin s h = (Inr (), dropin_host s h)"
  by (simp add: WriteServiceDropin_def os_WriteFile_def os_other_def dropin_host_def io_run_defs)

lemma run_service_update [service_run]:
  assumes "sh_Faults h = []" and "srv p = Some s"
  shows "service_state_update env srv mark (p, h) =
    (Inr (), if service_outdated env h s then p\<lparr>kp_updateTarget := mark (kp_updateTarget p)\<rparr> else p, h)"
  using assms by (auto simp: service_state_update_def service_outdated_def service_run kio_defs split: option.splits)

lemma run_ovs_update [service_run]:
  assumes "sh_Faults h = []" and "kp_openVSwitchService p = Some s"
  shows "ovsServiceStateUpdate env (p, h) =
    (Inr (), if sh_Files h ovsMainServicePath \<noteq> None \<and> dropin_outdated env h s
             then p\<lparr>kp_updateTarget := (kp_updateTarget p)\<lparr>kt_openVSwitch := SetNeedReboot\<rparr>\<rparr> else p, h)"
  using assms by (simp add: ovsServiceStateUpdate_def service_run kio_defs)

text \<open>The services of a configuration: the drop-in of OVS and the two services of the operator.\<close>

definition manifests_read :: "manifest_env \<Rightarrow> SriovNetworkNodeState \<Rightarrow> Service \<Rightarrow> Service \<Rightarrow> Service \<Rightarrow> bool" where
  "manifests_read env new ovs a b \<longleftrightarrow>
     ReadOvsServiceInjectionManifestFile env ovsUnitFile (sys_OvsConfig (ns_System (state_Spec new))) = Inr ovs \<and>
     ReadServiceManifestFile env sriovUnitFile = Inr a \<and> ReadServiceManifestFile env sriovPostNetworkUnitFile = Inr b"

definition targets :: "manifest_env \<Rightarrow> SriovNetworkNodeState \<Rightarrow> service_host \<Rightarrow> Service \<Rightarrow> Service \<Rightarrow> Service \<Rightarrow> bool \<times> bool \<times> bool" where
  "targets env new h ovs a b =
     (mn_UsingSystemdMode env \<and> service_outdated env h a,
      mn_UsingSystemdMode env \<and> service_outdated env h b,
      IsSwitchdevModeSpec (state_Spec new) \<and> sh_Files h ovsMainServicePath \<noteq> None \<and> dropin_outdated env h ovs)"

definition target_for :: "bool \<Rightarrow> updateTargetReq" where
  "target_for b = (if b then SetNeedReboot else no_update)"

definition plugin_for :: "Service \<Rightarrow> Service \<Rightarrow> Service \<Rightarrow> bool \<times> bool \<times> bool \<Rightarrow> K8sPlugin" where
  "plugin_for ovs a b t = (case t of (ta, tb, to) \<Rightarrow>
     \<lparr>kp_openVSwitchService = Some ovs, kp_sriovService = Some a, kp_sriovPostNetworkService = Some b,
      kp_updateTarget = \<lparr>kt_sriovScript = target_for ta, kt_sriovPostNetworkScript = target_for tb, kt_openVSwitch = target_for to\<rparr>\<rparr>)"

lemma run_decide:
  assumes "sh_Faults h = []" and "manifests_read env new ovs a b"
  shows "k8s_OnNodeStateChange env new (p, h) =
    (case targets env new h ovs a b of (ta, tb, to) \<Rightarrow>
       (Inr (ta \<or> tb \<or> to, ta \<or> tb \<or> to), plugin_for ovs a b (ta, tb, to), h))"
proof -
  have m: "readManifestFiles env (sys_OvsConfig (ns_System (state_Spec new))) (p, h) =
      (Inr (), p\<lparr>kp_openVSwitchService := Some ovs, kp_sriovService := Some a, kp_sriovPostNetworkService := Some b\<rparr>, h)"
    using assms(2) by (simp add: readManifestFiles_def manifests_read_def kio_defs)
  show ?thesis unfolding k8s_OnNodeStateChange_def
    using assms(1) m by (auto simp: io_bind_def[of "readManifestFiles env c" for c] io_run_defs edit_plugin_def
      sriovServicesStateUpdate_def service_run targets_def target_needReboot_def SetNeedReboot_def target_reset_def
      target_for_def plugin_for_def)
qed

lemma run_apply:
  assumes "sh_Faults h = []"
  shows "k8s_Apply env (plugin_for ovs a b (mn_UsingSystemdMode env \<and> ta, mn_UsingSystemdMode env \<and> tb, to), h) =
    (Inr (), plugin_for ovs a b (mn_UsingSystemdMode env \<and> ta, mn_UsingSystemdMode env \<and> tb, to),
     (if to then dropin_host ovs else id) ((if mn_UsingSystemdMode env \<and> tb then enabled_host b else id)
       ((if mn_UsingSystemdMode env \<and> ta then enabled_host a else id) h)))"
proof -
  have f: "sh_Faults (enabled_host s h') = []" if "sh_Faults h' = []" for s h' using that by (simp add: enabled_host_def)
  show ?thesis using assms
    by (simp add: k8s_Apply_def updateSriovServices_def update_service_def updateOVSService_def plugin_for_def target_for_def
      SetNeedReboot_def kio_defs service_run f)
qed

section \<open>Convergence\<close>

lemma base_name_append: "CHR ''/'' \<notin> set nm \<Longrightarrow> base_name (p @ CHR ''/'' # nm) = nm"
proof -
  assume "CHR ''/'' \<notin> set nm"
  then have "takeWhile (\<lambda>c. c \<noteq> CHR ''/'') (rev nm @ CHR ''/'' # rev p) = rev nm" by (subst takeWhile_append2) auto
  then show ?thesis by (simp add: base_name_def)
qed

lemma injection_path:
  assumes "ReadOvsServiceInjectionManifestFile env f cfg = Inr ovs"
  shows "take 4 (sv_Path ovs) = ''/usr''"
proof -
  obtain nm dropins where i: "mn_Injection env f = Some (nm, dropins)"
    using assms by (auto simp: ReadOvsServiceInjectionManifestFile_def split: option.splits)
  obtain ids other where r: "RenderOtherOvsConfigOption cfg = Inr (ids, other)"
    using assms i by (cases "RenderOtherOvsConfigOption cfg") (auto simp: ReadOvsServiceInjectionManifestFile_def)
  show ?thesis using assms i r by (auto simp: ReadOvsServiceInjectionManifestFile_def split: option.splits list.splits)
qed

lemma manifest_paths:
  assumes "manifests_read env new ovs a b"
  shows "take 4 (sv_Path ovs) = ''/usr''" "sv_Path a = ''/etc/systemd/system'' @ CHR ''/'' # sv_Name a"
    "sv_Path b = ''/etc/systemd/system'' @ CHR ''/'' # sv_Name b"
  using assms injection_path by (auto simp: manifests_read_def ReadServiceManifestFile_def split: option.splits)

lemma enabled_up_to_date:
  assumes "mn_Parse env (sv_Content s) \<noteq> None" and "base_name (sv_Path s) = sv_Name s"
  shows "\<not> service_outdated env (enabled_host s h) s"
  using unit_lacks_same[OF assms(1)] assms(2) by (simp add: service_outdated_def enabled_host_def)

lemma dropin_up_to_date: "mn_Parse env (sv_Content s) \<noteq> None \<Longrightarrow> \<not> dropin_outdated env (dropin_host s h) s"
  using unit_lacks_same[of env s] by (simp add: dropin_outdated_def dropin_host_def)

lemma outdated_frame:
  assumes "sh_Files h' (sv_Path s) = sh_Files h (sv_Path s)" and "set (sh_Enabled h) \<subseteq> set (sh_Enabled h')"
  shows "\<not> service_outdated env h s \<Longrightarrow> \<not> service_outdated env h' s" "dropin_outdated env h' s = dropin_outdated env h s"
  using assms by (auto simp: service_outdated_def dropin_outdated_def split: option.splits)

lemma written_elsewhere:
  "sv_Path s \<noteq> q \<Longrightarrow> sh_Files (enabled_host s h) q = sh_Files h q" "sv_Path s \<noteq> q \<Longrightarrow> sh_Files (dropin_host s h) q = sh_Files h q"
  "sh_Enabled (dropin_host s h) = sh_Enabled h" "set (sh_Enabled (enabled_host s h)) = insert (sv_Name s) (set (sh_Enabled h))"
  "sh_Faults (enabled_host s h) = sh_Faults h" "sh_Faults (dropin_host s h) = sh_Faults h"
  by (simp_all add: enabled_host_def dropin_host_def)

text \<open>The host after the units that are out of date were written.\<close>

definition applied_host :: "Service \<Rightarrow> Service \<Rightarrow> Service \<Rightarrow> bool \<times> bool \<times> bool \<Rightarrow> service_host \<Rightarrow> service_host" where
  "applied_host ovs a b t h = (case t of (ta, tb, to) \<Rightarrow>
     (if to then dropin_host ovs else id) ((if tb then enabled_host b else id) ((if ta then enabled_host a else id) h)))"

definition separate :: "Service \<Rightarrow> Service \<Rightarrow> Service \<Rightarrow> bool" where
  "separate ovs a b \<longleftrightarrow> sv_Path a \<noteq> sv_Path b \<and> sv_Path ovs \<noteq> sv_Path a \<and> sv_Path ovs \<noteq> sv_Path b \<and>
     sv_Path a \<noteq> ovsMainServicePath \<and> sv_Path b \<noteq> ovsMainServicePath \<and>
     base_name (sv_Path a) = sv_Name a \<and> base_name (sv_Path b) = sv_Name b"

lemma manifests_separate:
  assumes "manifests_read env new ovs a b" and "sv_Name a \<noteq> sv_Name b" "CHR ''/'' \<notin> set (sv_Name a)" "CHR ''/'' \<notin> set (sv_Name b)"
  shows "separate ovs a b"
proof -
  note paths = manifest_paths[OF assms(1)]
  have "take 4 (sv_Path a) = ''/etc''" "take 4 (sv_Path b) = ''/etc''" unfolding paths(2,3) by simp_all
  then have "sv_Path ovs \<noteq> sv_Path a" "sv_Path ovs \<noteq> sv_Path b" using paths(1) by auto
  moreover have "sv_Path a \<noteq> sv_Path b" "sv_Path a \<noteq> ovsMainServicePath" "sv_Path b \<noteq> ovsMainServicePath"
    using assms(2) unfolding paths(2,3) by simp_all
  moreover have "base_name (sv_Path a) = sv_Name a" "base_name (sv_Path b) = sv_Name b"
    unfolding paths(2,3) by (rule base_name_append[OF assms(3)]) (rule base_name_append[OF assms(4)])
  ultimately show ?thesis by (simp add: separate_def)
qed

lemma applied_targets:
  assumes t: "targets env new h ovs a b = (ta, tb, to)" and sep: "separate ovs a b"
    and parse: "mn_Parse env (sv_Content ovs) \<noteq> None" "mn_Parse env (sv_Content a) \<noteq> None" "mn_Parse env (sv_Content b) \<noteq> None"
  shows "targets env new (applied_host ovs a b (ta, tb, to) h) ovs a b = (False, False, False)"
proof -
  define h1 where "h1 = (if ta then enabled_host a else id) h"
  define h2 where "h2 = (if tb then enabled_host b else id) h1"
  define h3 where "h3 = (if to then dropin_host ovs else id) h2"
  have ne: "sv_Path a \<noteq> sv_Path b" "sv_Path b \<noteq> sv_Path a" "sv_Path ovs \<noteq> sv_Path a" "sv_Path ovs \<noteq> sv_Path b"
    "sv_Path a \<noteq> sv_Path ovs" "sv_Path b \<noteq> sv_Path ovs" "sv_Path a \<noteq> ovsMainServicePath" "sv_Path b \<noteq> ovsMainServicePath"
    and base: "base_name (sv_Path a) = sv_Name a" "base_name (sv_Path b) = sv_Name b"
    using sep by (auto simp: separate_def)
  have a1: "\<not> service_outdated env h1 a" if "mn_UsingSystemdMode env"
    using that t enabled_up_to_date[OF parse(2) base(1)] by (auto simp: targets_def h1_def)
  have a3: "\<not> service_outdated env h3 a" if "mn_UsingSystemdMode env"
    by (rule outdated_frame(1)[OF _ _ a1[OF that]]) (auto simp: h3_def h2_def written_elsewhere ne)
  have b2: "\<not> service_outdated env h2 b" if s: "mn_UsingSystemdMode env"
  proof (cases tb)
    case False
    then have "\<not> service_outdated env h b" using t s by (simp add: targets_def)
    then show ?thesis by (rule outdated_frame(1)[rotated 2]) (auto simp: h2_def h1_def False written_elsewhere ne)
  qed (use enabled_up_to_date[OF parse(3) base(2)] in \<open>simp add: h2_def\<close>)
  have b3: "\<not> service_outdated env h3 b" if "mn_UsingSystemdMode env"
    by (rule outdated_frame(1)[OF _ _ b2[OF that]]) (auto simp: h3_def written_elsewhere ne)
  have o2: "dropin_outdated env h2 ovs = dropin_outdated env h ovs"
    by (rule outdated_frame(2)) (auto simp: h2_def h1_def written_elsewhere ne)
  have m2: "sh_Files h2 ovsMainServicePath = sh_Files h ovsMainServicePath" by (simp add: h2_def h1_def written_elsewhere ne)
  have o3: "\<not> (IsSwitchdevModeSpec (state_Spec new) \<and> sh_Files h3 ovsMainServicePath \<noteq> None \<and> dropin_outdated env h3 ovs)"
    using t o2 m2 dropin_up_to_date[OF parse(1)] by (cases to) (auto simp: targets_def h3_def)
  have "applied_host ovs a b (ta, tb, to) h = h3" by (simp add: applied_host_def h3_def h2_def h1_def)
  then show ?thesis using a3 b3 o3 by (auto simp: targets_def)
qed

text \<open>
  C7: The Kubernetes plugin converges. When no call fails, it asks for a drain exactly when it asks for a reboot, applying
  succeeds, changes nothing when no reboot was asked for, and afterwards, on the same node state, the plugin asks for nothing:
  a node is not rebooted again for its units.
\<close>

theorem k8s_plugin_converges:
  assumes "sh_Faults h = []" and "manifests_read env new ovs a b"
    and "mn_Parse env (sv_Content ovs) \<noteq> None" "mn_Parse env (sv_Content a) \<noteq> None" "mn_Parse env (sv_Content b) \<noteq> None"
    and "sv_Name a \<noteq> sv_Name b" "CHR ''/'' \<notin> set (sv_Name a)" "CHR ''/'' \<notin> set (sv_Name b)"
  shows "\<exists>need p1 p2 p3 h2. k8s_OnNodeStateChange env new (p, h) = (Inr (need, need), p1, h) \<and>
    k8s_Apply env (p1, h) = (Inr (), p2, h2) \<and> (\<not> need \<longrightarrow> h2 = h) \<and>
    k8s_OnNodeStateChange env new (p2, h2) = (Inr (False, False), p3, h2)"
proof -
  obtain ta tb to where t: "targets env new h ovs a b = (ta, tb, to)" by (cases "targets env new h ovs a b") auto
  let ?t = "(ta, tb, to)" and ?h = "applied_host ovs a b (ta, tb, to) h"
  have sysd: "ta \<longleftrightarrow> mn_UsingSystemdMode env \<and> ta" "tb \<longleftrightarrow> mn_UsingSystemdMode env \<and> tb" using t by (auto simp: targets_def)
  have f: "sh_Faults ?h = []" using assms(1) by (simp add: applied_host_def written_elsewhere)
  have applied: "k8s_Apply env (plugin_for ovs a b ?t, h) = (Inr (), plugin_for ovs a b ?t, ?h)"
    using run_apply[OF assms(1), of env ovs a b ta tb to] sysd by (simp add: applied_host_def cong: if_cong)
  have "targets env new ?h ovs a b = (False, False, False)"
    by (rule applied_targets[OF t manifests_separate[OF assms(2,6-8)] assms(3-5)])
  then have "k8s_OnNodeStateChange env new (plugin_for ovs a b ?t, ?h) = (Inr (False, False), plugin_for ovs a b (False, False, False), ?h)"
    using run_decide[OF f assms(2)] by simp
  moreover have "\<not> (ta \<or> tb \<or> to) \<longrightarrow> ?h = h" by (simp add: applied_host_def)
  moreover have "k8s_OnNodeStateChange env new (p, h) = (Inr (ta \<or> tb \<or> to, ta \<or> tb \<or> to), plugin_for ovs a b ?t, h)"
    using run_decide[OF assms(1,2)] t by simp
  ultimately show ?thesis using applied by metis
qed

definition sample_manifests :: manifest_env where
  "sample_manifests =
     \<lparr>mn_Injection = (\<lambda>_. Some (''ovs-vswitchd.service'', [(''10-hw-offload.conf'', ''[Service]'')])),
      mn_Service = (\<lambda>p. if p = sriovUnitFile then Some (''sriov-config.service'', ''a'') else Some (''sriov-config-post-network.service'', ''b'')),
      mn_Render = (\<lambda>t _ _. Some t), mn_Parse = (\<lambda>c. Some [\<lparr>uo_Section = ''Service'', uo_Name = ''ExecStart'', uo_Value = c\<rparr>]),
      mn_UsingSystemdMode = True\<rparr>"

definition sample_service_host :: service_host where
  "sample_service_host = \<lparr>sh_Files = Map.empty, sh_Enabled = [], sh_Faults = []\<rparr>"

theorem k8s_plugin_converges_witness:
  "\<exists>p1 p2 p3 h2. k8s_OnNodeStateChange sample_manifests (sample_state ''n1'') (NewK8sPlugin, sample_service_host) =
      (Inr (True, True), p1, sample_service_host) \<and>
    k8s_Apply sample_manifests (p1, sample_service_host) = (Inr (), p2, h2) \<and>
    k8s_OnNodeStateChange sample_manifests (sample_state ''n1'') (p2, h2) = (Inr (False, False), p3, h2)"
proof -
  let ?ovs = "\<lparr>sv_Name = ''ovs-vswitchd.service'', sv_Path = ''/usr/lib/systemd/system/ovs-vswitchd.service.d/10-hw-offload.conf'', sv_Content = ''[Service]''\<rparr>"
  let ?a = "\<lparr>sv_Name = ''sriov-config.service'', sv_Path = ''/etc/systemd/system/sriov-config.service'', sv_Content = ''a''\<rparr>"
  let ?b = "\<lparr>sv_Name = ''sriov-config-post-network.service'', sv_Path = ''/etc/systemd/system/sriov-config-post-network.service'', sv_Content = ''b''\<rparr>"
  have m: "manifests_read sample_manifests (sample_state ''n1'') ?ovs ?a ?b"
    by (simp add: manifests_read_def ReadOvsServiceInjectionManifestFile_def ReadServiceManifestFile_def sample_manifests_def
      RenderOtherOvsConfigOption_def sample_state_def ValidateOvsConfig_def)
  have n: "fst (k8s_OnNodeStateChange sample_manifests (sample_state ''n1'') (NewK8sPlugin, sample_service_host)) = Inr (True, True)"
    by (simp add: run_decide[OF _ m] sample_service_host_def targets_def service_outdated_def) (simp add: sample_manifests_def)
  have f: "sh_Faults sample_service_host = []" by (simp add: sample_service_host_def)
  have "\<exists>need p1 p2 p3 h2. k8s_OnNodeStateChange sample_manifests (sample_state ''n1'') (NewK8sPlugin, sample_service_host) = (Inr (need, need), p1, sample_service_host) \<and>
    k8s_Apply sample_manifests (p1, sample_service_host) = (Inr (), p2, h2) \<and> (\<not> need \<longrightarrow> h2 = sample_service_host) \<and>
    k8s_OnNodeStateChange sample_manifests (sample_state ''n1'') (p2, h2) = (Inr (False, False), p3, h2)"
    by (rule k8s_plugin_converges[OF f m]) (simp_all add: sample_manifests_def)
  then show ?thesis using n by auto
qed

end
