(* ===== verification/Daemon_Plugins.thy ===== *)
theory Daemon_Plugins
  imports Daemon_Reboots Plugin_Apply Mellanox K8s_Plugin
begin

text \<open>
  The plugins that the config daemon loads (\<^verbatim>\<open>src/pkg/daemon/plugin.go\<close> and \<open>GetVendorPlugins\<close> of the platforms under
  \<^verbatim>\<open>src/pkg/platform\<close>), and that each of them asks for a drain when it asks for a reboot, which the daemon relies on.
\<close>

section \<open>Decisions of the plugins\<close>

text \<open>The interface: what a plugin decides about a node state, in the situation in which it is asked.\<close>

locale plugin_decision =
  fixes decide :: "'c \<Rightarrow> SriovNetworkNodeState \<Rightarrow> string + bool \<times> bool"
  assumes reboot_with_drain: "decide c s = Inr (d, r) \<Longrightarrow> r \<Longrightarrow> d"
begin

lemma as_plugin:
  "reboot_drains \<lparr>pl_Name = nm, pl_OnNodeStateChange = (\<lambda>l. decide (f l)), pl_CheckStatusChanges = chk\<rparr>"
  by (auto simp: reboot_drains_def intro: reboot_with_drain)

end

definition generic_decide :: "plugin_host \<times> GenericPlugin \<Rightarrow> SriovNetworkNodeState \<Rightarrow> string + bool \<times> bool" where
  "generic_decide = (\<lambda>(host, p) new.
     case gen_OnNodeStateChange host new p of
       Inr (_, _, d, r, None) \<Rightarrow> Inr (d, r)
     | _ \<Rightarrow> Inl ''generic'')"

definition virtual_decide :: "plugin_host \<times> VirtualPlugin \<Rightarrow> SriovNetworkNodeState \<Rightarrow> string + bool \<times> bool" where
  "virtual_decide = (\<lambda>(host, p) new. Inr (snd (virt_OnNodeStateChange host new p)))"

definition intel_decide :: "unit \<Rightarrow> SriovNetworkNodeState \<Rightarrow> string + bool \<times> bool" where
  "intel_decide = (\<lambda>_ new. Inr (intel_OnNodeStateChange new))"

definition mellanox_decide :: "mlx_env \<Rightarrow> SriovNetworkNodeState \<Rightarrow> string + bool \<times> bool" where
  "mellanox_decide env new =
     (case mlx_OnNodeStateChange env new of Inl _ \<Rightarrow> Inl ''mellanox'' | Inr (d, r, _) \<Rightarrow> Inr (d, r))"

definition k8s_decide :: "manifest_env \<times> K8sPlugin \<times> service_host \<Rightarrow> SriovNetworkNodeState \<Rightarrow> string + bool \<times> bool" where
  "k8s_decide = (\<lambda>(env, s) new. map_err (\<lambda>_. ''k8s'') (fst (k8s_OnNodeStateChange env new s)))"

lemma generic_reboot_drains:
  assumes "gen_OnNodeStateChange host new p = Inr (q, edits, d, r, None)" and "r"
  shows "d"
proof -
  let ?p = "p\<lparr>gp_DesireState := Some new\<rparr>"
  obtain x where x: "needDrainNode host ?p (state_Spec new) (state_Status new) = Inr x"
    using assms(1) by (auto simp: gen_OnNodeStateChange_def Let_def res_bind_eq_Inr)
  obtain q1 e1 b where "needRebootNode host new ?p = (q1, e1, b)" by (cases "needRebootNode host new ?p")
  then show ?thesis using assms x by (cases b) (auto simp: gen_OnNodeStateChange_def Let_def split: if_splits)
qed

interpretation generic_plugin: plugin_decision generic_decide
  by unfold_locales (auto simp: generic_decide_def split: sum.splits option.splits prod.splits dest: generic_reboot_drains)

interpretation virtual_plugin: plugin_decision virtual_decide
  by unfold_locales (auto simp: virtual_decide_def virt_OnNodeStateChange_def Let_def)

interpretation intel_plugin: plugin_decision intel_decide
  by unfold_locales (simp add: intel_decide_def intel_OnNodeStateChange_def)

interpretation mellanox_plugin: plugin_decision mellanox_decide
  by unfold_locales
    (auto simp: mellanox_decide_def mlx_OnNodeStateChange_def Let_def res_bind_eq_Inr split: sum.splits if_splits)

lemma k8s_drain_is_reboot: "k8s_OnNodeStateChange env new s = (Inr (d, r), s') \<Longrightarrow> d = r"
  by (auto simp: k8s_OnNodeStateChange_def io_run_defs split: prod.splits sum.splits if_splits)

interpretation k8s_plugin: plugin_decision k8s_decide
proof
  fix c new d r assume a: "k8s_decide c new = Inr (d, r)" and "r"
  obtain env s where c: "c = (env, s)" by (cases c)
  obtain x s' where x: "k8s_OnNodeStateChange env new s = (x, s')" by (cases "k8s_OnNodeStateChange env new s")
  have "x = Inr (d, r)" using a c x by (cases x) (auto simp: k8s_decide_def)
  then show d using k8s_drain_is_reboot x \<open>r\<close> by blast
qed

section \<open>Loading\<close>

datatype plugin_kind = GenericKind | VirtualKind | IntelKind | MellanoxKind | K8sKind

fun kind_name :: "plugin_kind \<Rightarrow> string" where
  "kind_name GenericKind = ''generic''"
| "kind_name VirtualKind = ''virtual''"
| "kind_name IntelKind = ''intel''"
| "kind_name MellanoxKind = ''mellanox''"
| "kind_name K8sKind = ''k8s''"

datatype load_error = UnknownCluster string | MainPluginDisabled string | PluginFailed plugin_error

definition VendorPluginMap :: "string \<Rightarrow> plugin_kind option" where
  "VendorPluginMap v = (if v = ''8086'' then Some IntelKind else if v = ''15b3'' then Some MellanoxKind else None)"

text \<open>The loaded plugins are collected in a map by name; \<open>order\<close> is its iteration order.\<close>

definition loadVendorPlugins :: "(plugin_kind list \<Rightarrow> plugin_kind list) \<Rightarrow> InterfaceExt list \<Rightarrow> plugin_kind list" where
  "loadVendorPlugins order ifaces =
     order (fold (\<lambda>iface loaded.
         case VendorPluginMap (ie_Vendor iface) of
           None \<Rightarrow> loaded
         | Some k \<Rightarrow> if list_ex (\<lambda>k'. kind_name k' = kind_name k) loaded then loaded else loaded @ [k]) ifaces [])"

definition GetVendorPlugins ::
    "platform \<Rightarrow> string \<Rightarrow> plugin_host \<Rightarrow> (plugin_kind list \<Rightarrow> plugin_kind list) \<Rightarrow> InterfaceExt list \<Rightarrow>
     load_error + plugin_kind \<times> plugin_kind list" where
  "GetVendorPlugins platform clusterType host order ifaces =
     (if platform = Baremetal
      then
        let additionalPlugins = loadVendorPlugins order ifaces in
        if clusterType \<noteq> ''openshift'' \<and> clusterType \<noteq> ''kubernetes'' then Inl (UnknownCluster clusterType)
        else
          let additionalPlugins = (if clusterType = ''kubernetes'' then additionalPlugins @ [K8sKind] else additionalPlugins) in
          res_bind (map_err PluginFailed (NewGenericPlugin host False False)) (\<lambda>_. Inr (GenericKind, additionalPlugins))
      else Inr (VirtualKind, []))"

definition isPluginDisabled :: "string \<Rightarrow> string list \<Rightarrow> bool" where
  "isPluginDisabled pluginName disabledPlugins = list_ex (\<lambda>p. p = pluginName) disabledPlugins"

definition loadPlugins ::
    "load_error + plugin_kind \<times> plugin_kind list \<Rightarrow> string list \<Rightarrow> load_error + plugin_kind \<times> plugin_kind list" where
  "loadPlugins vendorPlugins disabledPlugins =
     res_bind vendorPlugins (\<lambda>(mainPlugin, additionalPlugins).
       if isPluginDisabled (kind_name mainPlugin) disabledPlugins then Inl (MainPluginDisabled (kind_name mainPlugin))
       else Inr (mainPlugin, filter (\<lambda>k. \<not> isPluginDisabled (kind_name k) disabledPlugins) additionalPlugins))"

text \<open>In which situation each plugin is asked: what the host answers and what the plugin remembers, by the log.\<close>

record plugin_worlds =
  pw_Generic :: "dlog \<Rightarrow> plugin_host \<times> GenericPlugin"
  pw_Virtual :: "dlog \<Rightarrow> plugin_host \<times> VirtualPlugin"
  pw_Mellanox :: "dlog \<Rightarrow> mlx_env"
  pw_K8s :: "dlog \<Rightarrow> manifest_env \<times> K8sPlugin \<times> service_host"

fun plugin_of :: "plugin_worlds \<Rightarrow> plugin_kind \<Rightarrow> vendor_plugin" where
  "plugin_of w GenericKind =
     \<lparr>pl_Name = ''generic'', pl_OnNodeStateChange = (\<lambda>l. generic_decide (pw_Generic w l)),
      pl_CheckStatusChanges = (\<lambda>l s. case pw_Generic w l of (host, p) \<Rightarrow> map_err (\<lambda>_. ''generic'') (gen_CheckStatusChanges host p s))\<rparr>"
| "plugin_of w VirtualKind =
     \<lparr>pl_Name = ''virtual'', pl_OnNodeStateChange = (\<lambda>l. virtual_decide (pw_Virtual w l)), pl_CheckStatusChanges = (\<lambda>_ _. Inr False)\<rparr>"
| "plugin_of w IntelKind =
     \<lparr>pl_Name = ''intel'', pl_OnNodeStateChange = (\<lambda>_. intel_decide ()), pl_CheckStatusChanges = (\<lambda>_ _. Inr False)\<rparr>"
| "plugin_of w MellanoxKind =
     \<lparr>pl_Name = ''mellanox'', pl_OnNodeStateChange = (\<lambda>l. mellanox_decide (pw_Mellanox w l)), pl_CheckStatusChanges = (\<lambda>_ _. Inr False)\<rparr>"
| "plugin_of w K8sKind =
     \<lparr>pl_Name = ''k8s'', pl_OnNodeStateChange = (\<lambda>l. k8s_decide (pw_K8s w l)), pl_CheckStatusChanges = (\<lambda>_ _. Inr False)\<rparr>"

lemma plugin_of_drains: "reboot_drains (plugin_of w k)"
  by (cases k) (simp_all add: generic_plugin.as_plugin virtual_plugin.as_plugin intel_plugin.as_plugin mellanox_plugin.as_plugin
    k8s_plugin.as_plugin)

text \<open>The daemon runs with the plugins that were loaded.\<close>

definition runs_loaded :: "daemon_env \<Rightarrow> plugin_worlds \<Rightarrow> load_error + plugin_kind \<times> plugin_kind list \<Rightarrow> bool" where
  "runs_loaded env w loaded =
     (case loaded of Inl _ \<Rightarrow> False
      | Inr (k, ks) \<Rightarrow> de_Main env = plugin_of w k \<and> de_Additional env = map (plugin_of w) ks)"

lemma loaded_drain_first: "runs_loaded env w loaded \<Longrightarrow> plugins_drain_first env"
  by (auto simp: runs_loaded_def plugins_drain_first_def plugin_of_drains split: sum.splits)

lemma loaded_main_enabled:
  "loadPlugins v disabled = Inr (k, ks) \<Longrightarrow> \<not> isPluginDisabled (kind_name k) disabled \<and>
     (\<forall>x\<in>set ks. \<not> isPluginDisabled (kind_name x) disabled)"
  by (auto simp: loadPlugins_def res_bind_eq_Inr split: if_splits)

section \<open>The daemon drains first\<close>

text \<open>
  C1: The daemon drains first. In one reconciliation with the plugins that the platform loads, whatever calls fail, whatever
  the plugins find on the host and whatever other clients do to the cluster in between, a plugin is applied or the node
  rebooted only in one of two situations: the node state that was read last says that its drain is complete, or it asks
  for no drain and no plugin asked for one. A reboot needs the first, and that the drain was requested as the full one
  that a reboot needs. Drains must not be disabled.
\<close>

theorem daemon_drains_first:
  assumes "\<not> de_DisableDrain env" and "dw_Log w = []"
    and "runs_loaded env worlds (loadPlugins (GetVendorPlugins platform clusterType host order ifaces) disabled)"
    and "Reconcile_daemon env nm w = (r, w')" and "dw_Log w' = before @ e # later" and "changes_node e"
  shows "\<exists>m. last_meta before = Some m \<and>
    (drained m \<or> (ObjectHasAnnotation m NodeStateDrainAnnotation DrainIdle \<and> \<not> asked_drain before)) \<and>
    (e = RebootNode \<longrightarrow> drained m \<and> ObjectHasAnnotation m NodeStateDrainAnnotation RebootRequired)"
  by (rule reconcile_drains_first[OF assms(1) loaded_drain_first[OF assms(3)] assms(2,4-6)])

definition sample_worlds :: plugin_worlds where
  "sample_worlds =
     \<lparr>pw_Generic = (\<lambda>_. (sample_plugin_host [], \<lparr>gp_DesireState = None, gp_DriverStateMap = [], gp_DesiredKernelArgs = [],
        gp_skipVFConfiguration = False, gp_skipBridgeConfiguration = False\<rparr>)),
      pw_Virtual = (\<lambda>_. (sample_plugin_host [], NewVirtualPlugin)), pw_Mellanox = (\<lambda>_. sample_mlx_env (\<lambda>x. x)),
      pw_K8s = (\<lambda>_. (sample_manifests, NewK8sPlugin, sample_service_host))\<rparr>"

definition sample_aws_env :: daemon_env where
  "sample_aws_env = (sample_daemon_env False)\<lparr>de_Main := plugin_of sample_worlds VirtualKind, de_Additional := [],
     de_Fail := (\<lambda>_ e. if e = RestartDevicePlugin then Some ''timed out'' else None)\<rparr>"

lemma finish_without_restart:
  "\<not> de_BlockDevicePlugin env \<Longrightarrow> de_Fail env (dw_Log w) RestartDevicePlugin = Some e \<Longrightarrow>
     finish_apply env d res g w = (Inl (DaemonHost e), log_event RestartDevicePlugin w)"
  by (simp add: finish_apply_def io_bind_def host_act_def)

lemmas sample_aws_defs = sample_aws_env_def sample_worlds_def virtual_decide_def virt_OnNodeStateChange_def

lemma sample_applies:
  "\<exists>before later. dw_Log (snd (Reconcile_daemon sample_aws_env ''n1'' (sample_daemon_world DrainRequired DrainComplete))) =
     before @ ApplyPlugin ''virtual'' # later"
proof -
  have "ApplyPlugin ''virtual'' \<in>
      set (dw_Log (snd (Reconcile_daemon sample_aws_env ''n1'' (sample_daemon_world DrainRequired DrainComplete))))"
    by (simp add: finish_without_restart daemon_run_defs sample_aws_defs sample_daemon_defs Let_def map_err_def)
  then show ?thesis by (rule split_list)
qed

theorem daemon_drains_first_witness:
  "\<exists>before later m. dw_Log (snd (Reconcile_daemon sample_aws_env ''n1'' (sample_daemon_world DrainRequired DrainComplete))) =
     before @ ApplyPlugin ''virtual'' # later \<and> last_meta before = Some m \<and>
     (drained m \<or> (ObjectHasAnnotation m NodeStateDrainAnnotation DrainIdle \<and> \<not> asked_drain before))"
proof -
  let ?run = "Reconcile_daemon sample_aws_env ''n1'' (sample_daemon_world DrainRequired DrainComplete)"
  obtain before later where b: "dw_Log (snd ?run) = before @ ApplyPlugin ''virtual'' # later" using sample_applies by blast
  have e: "\<not> de_DisableDrain sample_aws_env" "dw_Log (sample_daemon_world DrainRequired DrainComplete) = []"
    by (simp_all add: sample_aws_env_def sample_daemon_env_def sample_daemon_world_def)
  have l: "runs_loaded sample_aws_env sample_worlds
      (loadPlugins (GetVendorPlugins AWS ''kubernetes'' (sample_plugin_host []) (\<lambda>x. x) []) [])"
    by (simp add: runs_loaded_def sample_aws_env_def loadPlugins_def GetVendorPlugins_def isPluginDisabled_def)
  from daemon_drains_first[OF e l surjective_pairing b] show ?thesis using b by auto
qed

end
