(* ===== verification/Infiniband.thy ===== *)
theory Infiniband
  imports Sriov_Prelude "HOL-Library.Word"
begin

unbundle bit_operations_syntax

text \<open>
  GUIDs of InfiniBand VFs (\<^verbatim>\<open>src/pkg/host/internal/infiniband\<close>): 64-bit numbers, their text as a hardware address, the
  configuration file with lists or ranges of GUIDs per PF, and the GUID of a VF. The parsed file, the links of the host and
  the lookup of a PCI address are parameters.
\<close>

section \<open>Hardware addresses of the standard library\<close>

type_synonym HardwareAddr = "8 word list"

definition hex_value :: "char \<Rightarrow> nat option" where
  "hex_value c =
     (let n = (of_char c :: nat) in
      if 48 \<le> n \<and> n \<le> 57 then Some (n - 48)
      else if 97 \<le> n \<and> n \<le> 102 then Some (n - 87)
      else if 65 \<le> n \<and> n \<le> 70 then Some (n - 55)
      else None)"

definition xtoi2 :: "string \<Rightarrow> char option \<Rightarrow> 8 word option" where
  "xtoi2 s e =
     (if length s > 2 \<and> e \<noteq> Some (s ! 2) then None
      else case s of
             a # b # _ \<Rightarrow>
               (case (hex_value a, hex_value b) of (Some h, Some l) \<Rightarrow> Some (of_nat (16 * h + l)) | _ \<Rightarrow> None)
           | _ \<Rightarrow> None)"

fun octets :: "nat \<Rightarrow> char \<Rightarrow> string \<Rightarrow> HardwareAddr option" where
  "octets 0 e s = Some []"
| "octets (Suc n) e s =
     (case xtoi2 s (Some e) of
        None \<Rightarrow> None
      | Some b \<Rightarrow> (case octets n e (drop 3 s) of None \<Rightarrow> None | Some bs \<Rightarrow> Some (b # bs)))"

fun octet_pairs :: "nat \<Rightarrow> char \<Rightarrow> string \<Rightarrow> HardwareAddr option" where
  "octet_pairs 0 e s = Some []"
| "octet_pairs (Suc n) e s =
     (case xtoi2 (take 2 s) None of
        None \<Rightarrow> None
      | Some a \<Rightarrow>
          (case xtoi2 (drop 2 s) (Some e) of
             None \<Rightarrow> None
           | Some b \<Rightarrow> (case octet_pairs n e (drop 5 s) of None \<Rightarrow> None | Some bs \<Rightarrow> Some (a # b # bs))))"

definition ParseMAC :: "string \<Rightarrow> HardwareAddr option" where
  "ParseMAC s =
     (if length s < 14 then None
      else if s ! 2 = CHR '':'' \<or> s ! 2 = CHR ''-''
      then
        if (length s + 1) mod 3 \<noteq> 0 then None
        else let n = (length s + 1) div 3 in
             if n \<noteq> 6 \<and> n \<noteq> 8 \<and> n \<noteq> 20 then None else octets n (s ! 2) s
      else if s ! 4 = CHR ''.''
      then
        if (length s + 1) mod 5 \<noteq> 0 then None
        else let n = 2 * (length s + 1) div 5 in
             if n \<noteq> 6 \<and> n \<noteq> 8 \<and> n \<noteq> 20 then None else octet_pairs (n div 2) (s ! 4) s
      else None)"

definition hex_char :: "nat \<Rightarrow> char" where
  "hex_char n = ''0123456789abcdef'' ! n"

definition octet_text :: "8 word \<Rightarrow> string" where
  "octet_text b = [hex_char (unat (drop_bit 4 b)), hex_char (unat (b AND 15))]"

definition HardwareAddr_String :: "HardwareAddr \<Rightarrow> string" where
  "HardwareAddr_String ha = join_with '':'' (map octet_text ha)"

section \<open>GUIDs\<close>

type_synonym GUID = "64 word"

datatype guid_error =
    BadAddress string
  | BadLength string
  | ConfigMissing
  | ConfigUnreadable
  | LinksFailed string
  | BothNames
  | NoName
  | NoLink string
  | NoPciAddress string
  | NoGuids
  | BothGuidsAndRange
  | HalfRange
  | ReversedRange
  | GuidPanic panic
  | NoPool string
  | NoAllocation string int
  | NetlinkFailed string

fun join_octets :: "nat \<Rightarrow> HardwareAddr \<Rightarrow> GUID \<Rightarrow> GUID" where
  "join_octets idx [] guid = guid"
| "join_octets idx (octet # ha) guid = join_octets (idx + 1) ha (guid OR push_bit (8 * (7 - idx)) (ucast octet))"

definition ParseGUID :: "string \<Rightarrow> guid_error + GUID" where
  "ParseGUID s =
     (case ParseMAC s of
        None \<Rightarrow> Inl (BadAddress s)
      | Some ha \<Rightarrow> if length ha \<noteq> 8 then Inl (BadLength s) else Inr (join_octets 0 ha 0))"

fun split_octets :: "nat \<Rightarrow> GUID \<Rightarrow> HardwareAddr \<Rightarrow> HardwareAddr" where
  "split_octets 0 val ha = ha"
| "split_octets (Suc n) val ha = split_octets n (drop_bit 8 val) (ucast (val AND 0xff) # ha)"

definition HardwareAddr_of :: "GUID \<Rightarrow> HardwareAddr" where
  "HardwareAddr_of g = split_octets 8 g []"

definition GUID_String :: "GUID \<Rightarrow> string" where
  "GUID_String g = HardwareAddr_String (HardwareAddr_of g)"

text \<open>\<open>rnd i n\<close> is the \<open>i\<close>-th call of \<^verbatim>\<open>rand.Intn(n)\<close>.\<close>

definition generateRandomGUID :: "(nat \<Rightarrow> nat \<Rightarrow> nat) \<Rightarrow> HardwareAddr" where
  "generateRandomGUID rnd = of_nat (1 + rnd 0 0xfe) # map (\<lambda>i. of_nat (rnd i 0x100)) [1..<8]"

section \<open>Configuration\<close>

record GUIDRangeJSON =
  gj_Start :: string
  gj_End :: string

record ibPfGUIDJSONConfig =
  ib_PciAddress :: string
  ib_PfGUID :: string
  ib_GUIDs :: "string list"
  ib_GUIDsRange :: "GUIDRangeJSON option"

record GUIDRange =
  gr_Start :: GUID
  gr_End :: GUID

record ibPfGUIDConfig =
  pg_GUIDs :: "GUID list"
  pg_GUIDRange :: "GUIDRange option"

record ib_host =
  ih_Links :: "string + (HardwareAddr \<times> string) list"
  ih_PciAddress :: "string \<Rightarrow> string + string"
  ih_Config :: "guid_error + ibPfGUIDJSONConfig list"

definition getPfPciAddressFromRawConfig ::
    "ibPfGUIDJSONConfig \<Rightarrow> (HardwareAddr \<times> string) list \<Rightarrow> (string \<Rightarrow> string + string) \<Rightarrow> guid_error + string" where
  "getPfPciAddressFromRawConfig raw links pciOf =
     (if ib_PciAddress raw \<noteq> [] \<and> ib_PfGUID raw \<noteq> [] then Inl BothNames
      else if ib_PciAddress raw = [] \<and> ib_PfGUID raw = [] then Inl NoName
      else if ib_PciAddress raw \<noteq> [] then Inr (ib_PciAddress raw)
      else case find (\<lambda>(ha, _). HardwareAddr_String ha = ib_PfGUID raw) links of
             Some (_, nm) \<Rightarrow> map_err NoPciAddress (pciOf nm)
           | None \<Rightarrow> Inl (NoLink (ib_PfGUID raw)))"

fun parse_guids :: "string list \<Rightarrow> guid_error + GUID list" where
  "parse_guids [] = Inr []"
| "parse_guids (s # ss) = res_bind (ParseGUID s) (\<lambda>g. res_bind (parse_guids ss) (\<lambda>gs. Inr (g # gs)))"

text \<open>The GUIDs of one entry. Reading a missing range would panic.\<close>

definition entry_config :: "ibPfGUIDJSONConfig \<Rightarrow> guid_error + ibPfGUIDConfig" where
  "entry_config raw =
     (let some_end_missing = (case ib_GUIDsRange raw of None \<Rightarrow> True | Some r \<Rightarrow> gj_Start r = [] \<or> gj_End r = []);
          half = (case ib_GUIDsRange raw of None \<Rightarrow> False
                  | Some r \<Rightarrow> (gj_Start r \<noteq> [] \<and> gj_End r = []) \<or> (gj_Start r = [] \<and> gj_End r \<noteq> []))
      in
      if ib_GUIDs raw = [] \<and> some_end_missing then Inl NoGuids
      else if ib_GUIDs raw \<noteq> [] \<and> ib_GUIDsRange raw \<noteq> None then Inl BothGuidsAndRange
      else if half then Inl HalfRange
      else if ib_GUIDs raw \<noteq> []
      then res_bind (parse_guids (ib_GUIDs raw)) (\<lambda>gs. Inr \<lparr>pg_GUIDs = gs, pg_GUIDRange = None\<rparr>)
      else case ib_GUIDsRange raw of
             None \<Rightarrow> Inl (GuidPanic NilDereference)
           | Some r \<Rightarrow>
               res_bind (ParseGUID (gj_Start r)) (\<lambda>rangeStart.
               res_bind (ParseGUID (gj_End r)) (\<lambda>rangeEnd.
                 if rangeEnd < rangeStart then Inl ReversedRange
                 else Inr \<lparr>pg_GUIDs = [], pg_GUIDRange = Some \<lparr>gr_Start = rangeStart, gr_End = rangeEnd\<rparr>\<rparr>)))"

fun parse_entries ::
    "(HardwareAddr \<times> string) list \<Rightarrow> (string \<Rightarrow> string + string) \<Rightarrow> ibPfGUIDJSONConfig list \<Rightarrow> (string \<rightharpoonup> ibPfGUIDConfig) \<Rightarrow>
     guid_error + (string \<rightharpoonup> ibPfGUIDConfig)" where
  "parse_entries links pciOf [] configs = Inr configs"
| "parse_entries links pciOf (raw # raws) configs =
     res_bind (getPfPciAddressFromRawConfig raw links pciOf) (\<lambda>pciAddress.
     res_bind (entry_config raw) (\<lambda>c. parse_entries links pciOf raws (configs(pciAddress \<mapsto> c))))"

definition getIbGUIDConfig :: "ib_host \<Rightarrow> guid_error + (string \<rightharpoonup> ibPfGUIDConfig)" where
  "getIbGUIDConfig host =
     res_bind (map_err LinksFailed (ih_Links host)) (\<lambda>links.
     res_bind (ih_Config host) (\<lambda>rawConfigs. parse_entries links (ih_PciAddress host) rawConfigs Map.empty))"

section \<open>GUIDs of VFs\<close>

definition GetVFGUID :: "(string \<rightharpoonup> ibPfGUIDConfig) \<Rightarrow> string \<Rightarrow> int \<Rightarrow> guid_error + HardwareAddr" where
  "GetVFGUID configs pfPciAddr vfID =
     (case configs pfPciAddr of
        None \<Rightarrow> Inl (NoPool pfPciAddr)
      | Some config \<Rightarrow>
          if pg_GUIDs config \<noteq> []
          then if vfID \<ge> int (length (pg_GUIDs config)) then Inl (NoAllocation pfPciAddr vfID)
               else if vfID < 0 then Inl (GuidPanic IndexOutOfRange)
               else Inr (HardwareAddr_of (pg_GUIDs config ! nat vfID))
          else case pg_GUIDRange config of
                 Some r \<Rightarrow>
                   (let nextGUID = gr_Start r + word_of_int vfID in
                    if nextGUID > gr_End r then Inl (NoAllocation pfPciAddr vfID) else Inr (HardwareAddr_of nextGUID))
               | None \<Rightarrow> Inl (NoPool pfPciAddr))"

text \<open>The object: no pool when the configuration file does not exist.\<close>

definition New_infiniband :: "ib_host \<Rightarrow> guid_error + (string \<rightharpoonup> ibPfGUIDConfig) option" where
  "New_infiniband host =
     (case getIbGUIDConfig host of
        Inr configs \<Rightarrow> Inr (Some configs)
      | Inl ConfigMissing \<Rightarrow> Inr None
      | Inl e \<Rightarrow> Inl e)"

datatype guid_call = SetVfNodeGUID int HardwareAddr | SetVfPortGUID int HardwareAddr

text \<open>The calls of netlink that are made, and the result; \<open>fails\<close> is the answer of netlink.\<close>

definition applyVfGUIDToInterface ::
    "(guid_call \<Rightarrow> string option) \<Rightarrow> HardwareAddr \<Rightarrow> int \<Rightarrow> guid_call list \<times> (guid_error + unit)" where
  "applyVfGUIDToInterface fails guid vfID =
     (case fails (SetVfNodeGUID vfID guid) of
        Some e \<Rightarrow> ([SetVfNodeGUID vfID guid], Inl (NetlinkFailed e))
      | None \<Rightarrow>
          ([SetVfNodeGUID vfID guid, SetVfPortGUID vfID guid],
           case fails (SetVfPortGUID vfID guid) of Some e \<Rightarrow> Inl (NetlinkFailed e) | None \<Rightarrow> Inr ()))"

definition ConfigureVfGUID ::
    "(nat \<Rightarrow> nat \<Rightarrow> nat) \<Rightarrow> (guid_call \<Rightarrow> string option) \<Rightarrow> (string \<rightharpoonup> ibPfGUIDConfig) option \<Rightarrow> string \<Rightarrow> int \<Rightarrow>
     guid_call list \<times> (guid_error + unit)" where
  "ConfigureVfGUID rnd fails guidPool pfAddr vfID =
     (case guidPool of
        None \<Rightarrow> applyVfGUIDToInterface fails (generateRandomGUID rnd) vfID
      | Some configs \<Rightarrow>
          (case GetVFGUID configs pfAddr vfID of
             Inl e \<Rightarrow> ([], Inl e)
           | Inr guid \<Rightarrow> applyVfGUIDToInterface fails guid vfID))"

section \<open>Round trip\<close>

lemma hex_value_char: "n < 16 \<Longrightarrow> hex_value (hex_char n) = Some n"
proof -
  have "\<forall>n<16. hex_value (hex_char n) = Some n" by code_simp
  then show "n < 16 \<Longrightarrow> hex_value (hex_char n) = Some n" by blast
qed

lemma octet_nibbles: "16 * unat (drop_bit 4 (b :: 8 word)) + unat (b AND 15) = unat b" "unat (drop_bit 4 b) < 16" "unat (b AND 15) < 16"
proof -
  have m: "unat (b AND 15) = unat b mod 16"
  proof -
    have "b AND 15 = take_bit 4 b" by (simp add: take_bit_eq_mask mask_eq_exp_minus_1)
    then show ?thesis by (simp add: unat_mod_distrib take_bit_eq_mod)
  qed
  show "16 * unat (drop_bit 4 (b :: 8 word)) + unat (b AND 15) = unat b"
    by (simp add: m unat_div_distrib drop_bit_eq_div)
  have "unat b < 2 ^ LENGTH(8)" by (rule unsigned_less)
  then show "unat (drop_bit 4 b) < 16" by (simp add: unat_div_distrib drop_bit_eq_div less_mult_imp_div_less)
  show "unat (b AND 15) < 16" by (simp add: m)
qed

lemma xtoi2_octet: "rest = [] \<or> hd rest = e \<Longrightarrow> xtoi2 (octet_text b @ rest) (Some e) = Some b"
  by (cases rest) (auto simp: xtoi2_def octet_text_def hex_value_char octet_nibbles)

lemma low_octet: "(ucast (v AND 0xff) :: 8 word) = ucast (v :: GUID)"
proof -
  have m: "(0xff :: GUID) = mask 8" by (simp add: mask_eq_exp_minus_1)
  show ?thesis unfolding m by (rule bit_word_eqI) (simp add: bit_simps)
qed

lemma split_octets_eq: "split_octets n v ha = map (\<lambda>k. ucast (drop_bit (8 * k) v)) (rev [0..<n]) @ ha"
proof (induction n arbitrary: v ha)
  case (Suc n)
  have "map (\<lambda>k. ucast (drop_bit (8 * k) (drop_bit 8 v)) :: 8 word) (rev [0..<n]) @ [ucast v] =
      map (\<lambda>k. ucast (drop_bit (8 * k) v)) (rev [0..<Suc n])"
    by (simp add: upt_conv_Cons[of 0 "Suc n"] map_Suc_upt[symmetric] rev_map add.commute del: upt_Suc)
  then show ?case using Suc by (simp add: low_octet)
qed simp

lemma bit_octet:
  "bit (push_bit k (ucast (ucast (drop_bit k g) :: 8 word) :: GUID)) n \<longleftrightarrow> k \<le> n \<and> n < k + 8 \<and> n < 64 \<and> bit g n" for g :: GUID
  by (auto simp: bit_simps)

lemma bit_join_octets:
  "bit (join_octets idx ha acc) n \<longleftrightarrow>
     bit acc n \<or> (\<exists>i<length ha. bit (push_bit (8 * (7 - (idx + i))) (ucast (ha ! i) :: GUID)) n)"
proof (induction ha arbitrary: idx acc)
  case (Cons b ha)
  have "(\<exists>i<length (b # ha). bit (push_bit (8 * (7 - (idx + i))) (ucast ((b # ha) ! i) :: GUID)) n) \<longleftrightarrow>
      bit (push_bit (8 * (7 - idx)) (ucast b :: GUID)) n \<or>
      (\<exists>i<length ha. bit (push_bit (8 * (7 - (idx + 1 + i))) (ucast (ha ! i) :: GUID)) n)"
    unfolding length_Cons Ex_less_Suc2 nth_Cons_0 nth_Cons_Suc by simp
  then show ?case using Cons by (simp add: bit_or_iff disj_assoc)
qed simp

lemma join_octets_split: "join_octets 0 (split_octets 8 g []) 0 = g"
proof (rule bit_word_eqI)
  fix n assume "n < LENGTH(64)"
  then have n: "n < 64" by simp
  have l: "length (split_octets 8 g []) = 8" by (simp add: split_octets_eq)
  have o: "split_octets 8 g [] ! i = ucast (drop_bit (8 * (7 - i)) g)" if "i < 8" for i
    using that by (simp add: split_octets_eq rev_nth)
  have "bit (join_octets 0 (split_octets 8 g []) 0) n \<longleftrightarrow>
      (\<exists>i<8. 8 * (7 - i) \<le> n \<and> n < 8 * (7 - i) + 8 \<and> bit g n)"
    unfolding bit_join_octets l using n by (auto simp: o bit_octet)
  moreover have "\<exists>i<8. 8 * (7 - i) \<le> n \<and> n < 8 * (7 - i) + 8" using n by (intro exI[of _ "7 - n div 8"]) auto
  ultimately show "bit (join_octets 0 (split_octets 8 g []) 0) n = bit g n" by blast
qed

lemma address_text_Cons:
  "ha \<noteq> [] \<Longrightarrow> HardwareAddr_String (b # ha) = octet_text b @ CHR '':'' # HardwareAddr_String ha"
  by (simp add: HardwareAddr_String_def join_with_Cons)

lemma octet_text_length [simp]: "length (octet_text b) = 2"
  by (simp add: octet_text_def)

lemma octets_text: "octets (length ha) (CHR '':'') (HardwareAddr_String ha) = Some ha"
proof (induction ha)
  case (Cons b ha)
  show ?case
  proof (cases ha)
    case Nil
    then show ?thesis using xtoi2_octet[of "[]" "CHR '':''" b] by (simp add: HardwareAddr_String_def)
  next
    case (Cons c cs)
    then have t: "HardwareAddr_String (b # ha) = octet_text b @ CHR '':'' # HardwareAddr_String ha" by (simp add: address_text_Cons)
    show ?thesis using Cons.IH xtoi2_octet[of "CHR '':'' # HardwareAddr_String ha" "CHR '':''" b] unfolding t by simp
  qed
qed simp

lemma address_text_length: "ha \<noteq> [] \<Longrightarrow> length (HardwareAddr_String ha) + 1 = 3 * length ha"
proof (induction ha)
  case (Cons b ha)
  then show ?case by (cases ha) (auto simp: address_text_Cons, simp add: HardwareAddr_String_def)
qed simp

lemma ParseMAC_String:
  assumes "length ha = 6 \<or> length ha = 8 \<or> length ha = 20"
  shows "ParseMAC (HardwareAddr_String ha) = Some ha"
proof -
  let ?s = "HardwareAddr_String ha"
  obtain b c cs where ha: "ha = b # c # cs" using assms by (auto simp: length_Suc_conv numeral_eq_Suc)
  have l: "length ?s + 1 = 3 * length ha" by (rule address_text_length) (use ha in simp)
  have c: "?s ! 2 = CHR '':''" using ha by (simp add: address_text_Cons nth_append)
  have "\<not> length ?s < 14" "(length ?s + 1) mod 3 = 0" "(length ?s + 1) div 3 = length ha" using l assms by auto
  then show ?thesis using assms c octets_text[of ha] unfolding ParseMAC_def Let_def by simp
qed

text \<open>
  C36: GUIDs survive printing: the text of a GUID parses back to it.
\<close>

theorem guid_roundtrip: "ParseGUID (GUID_String g) = Inr g"
proof -
  have l: "length (HardwareAddr_of g) = 8" by (simp add: HardwareAddr_of_def split_octets_eq)
  have "ParseMAC (GUID_String g) = Some (HardwareAddr_of g)"
    unfolding GUID_String_def by (rule ParseMAC_String) (simp add: l)
  then show ?thesis by (simp add: ParseGUID_def l) (simp add: HardwareAddr_of_def join_octets_split)
qed

section \<open>Allocation\<close>

definition config_ok :: "ibPfGUIDConfig \<Rightarrow> bool" where
  "config_ok c =
     (case pg_GUIDRange c of
        None \<Rightarrow> pg_GUIDs c \<noteq> []
      | Some r \<Rightarrow> pg_GUIDs c = [] \<and> gr_Start r \<le> gr_End r)"

lemma parse_guids_length: "parse_guids ss = Inr gs \<Longrightarrow> length gs = length ss"
  by (induction ss arbitrary: gs) (auto simp: res_bind_eq_Inr)

lemma entry_config_ok: "entry_config raw = Inr c \<Longrightarrow> config_ok c"
  by (auto simp: entry_config_def config_ok_def Let_def res_bind_eq_Inr split: if_splits option.splits dest!: parse_guids_length)

lemma parse_entries_ok:
  "parse_entries links pciOf raws configs = Inr configs' \<Longrightarrow> (\<forall>c\<in>ran configs. config_ok c) \<Longrightarrow> \<forall>c\<in>ran configs'. config_ok c"
proof (induction raws arbitrary: configs)
  case (Cons raw raws)
  then obtain pci c where c: "entry_config raw = Inr c" "parse_entries links pciOf raws (configs(pci \<mapsto> c)) = Inr configs'"
    by (auto simp: res_bind_eq_Inr)
  have "\<forall>c\<in>ran (configs(pci \<mapsto> c)). config_ok c"
    using Cons.prems(2) entry_config_ok[OF c(1)] by (auto simp: ran_def split: if_splits)
  then show ?case using Cons.IH c(2) by blast
qed simp

lemma configs_ok: "getIbGUIDConfig host = Inr configs \<Longrightarrow> configs pf = Some c \<Longrightarrow> config_ok c"
  using parse_entries_ok[of _ _ _ Map.empty configs] by (auto simp: getIbGUIDConfig_def res_bind_eq_Inr ranI)

text \<open>How many VFs of a PF have a GUID, and the GUID of each.\<close>

definition capacity :: "ibPfGUIDConfig \<Rightarrow> int" where
  "capacity c =
     (case pg_GUIDRange c of None \<Rightarrow> int (length (pg_GUIDs c)) | Some r \<Rightarrow> uint (gr_End r) - uint (gr_Start r) + 1)"

definition guid_at :: "ibPfGUIDConfig \<Rightarrow> int \<Rightarrow> GUID" where
  "guid_at c vf = (case pg_GUIDRange c of None \<Rightarrow> pg_GUIDs c ! nat vf | Some r \<Rightarrow> gr_Start r + word_of_int vf)"

definition no_wrap :: "ibPfGUIDConfig \<Rightarrow> int \<Rightarrow> bool" where
  "no_wrap c vf = (case pg_GUIDRange c of None \<Rightarrow> True | Some r \<Rightarrow> uint (gr_Start r) + vf < 2 ^ 64)"

lemma uint_add_small: "0 \<le> vf \<Longrightarrow> uint (a :: GUID) + vf < 2 ^ 64 \<Longrightarrow> uint (a + word_of_int vf) = uint a + vf"
proof -
  assume a: "0 \<le> vf" "uint a + vf < 2 ^ 64"
  have "vf < 2 ^ 64" using a uint_ge_0[of a] by linarith
  then have "uint (word_of_int vf :: GUID) = vf" using a by (simp add: uint_word_of_int)
  then show ?thesis using a by (simp add: uint_word_ariths(1))
qed

lemma get_guid:
  assumes "config_ok c" and "configs pf = Some c" and "0 \<le> vf" and "no_wrap c vf"
  shows "GetVFGUID configs pf vf =
    (if vf < capacity c then Inr (HardwareAddr_of (guid_at c vf)) else Inl (NoAllocation pf vf))"
proof (cases "pg_GUIDRange c")
  case None
  then show ?thesis using assms by (simp add: GetVFGUID_def config_ok_def capacity_def guid_at_def)
next
  case (Some r)
  have "uint (gr_Start r + word_of_int vf) = uint (gr_Start r) + vf"
    by (rule uint_add_small) (use assms Some in \<open>simp_all add: no_wrap_def\<close>)
  then have "gr_End r < gr_Start r + word_of_int vf \<longleftrightarrow> \<not> vf < capacity c"
    using Some by (simp add: word_less_def capacity_def) linarith
  then show ?thesis using Some assms by (simp add: GetVFGUID_def config_ok_def guid_at_def)
qed

lemma HardwareAddr_of_inj: "HardwareAddr_of g = HardwareAddr_of h \<Longrightarrow> g = h"
  unfolding HardwareAddr_of_def by (metis join_octets_split)

lemma capacity_no_wrap: "vf < capacity c \<Longrightarrow> no_wrap c vf"
proof (cases "pg_GUIDRange c")
  case (Some r)
  have "uint (gr_End r) < 2 ^ 64" using uint_lt2p[of "gr_End r"] by simp
  then show "vf < capacity c \<Longrightarrow> no_wrap c vf" using Some by (simp add: capacity_def no_wrap_def)
qed (simp add: no_wrap_def)

lemma guid_at_inj:
  assumes "0 \<le> v" "v < w" "w < capacity c"
  shows "guid_at c v = guid_at c w \<longleftrightarrow> pg_GUIDRange c = None \<and> pg_GUIDs c ! nat v = pg_GUIDs c ! nat w"
proof (cases "pg_GUIDRange c")
  case None
  then show ?thesis by (simp add: guid_at_def)
next
  case (Some r)
  have "uint (gr_Start r + word_of_int v) = uint (gr_Start r) + v" "uint (gr_Start r + word_of_int w) = uint (gr_Start r) + w"
    using assms Some capacity_no_wrap[of w c] capacity_no_wrap[of v c] by (auto simp: no_wrap_def intro!: uint_add_small)
  then show ?thesis using assms(2) Some by (auto simp: guid_at_def)
qed

text \<open>
  C35: An accepted configuration allocates GUIDs. For every PF that it names at least one VF has a GUID; a VF gets the entry
  of the list or the number of the range at its index, and an error exactly when the index is at least the size of the list
  or range, as long as the sum of the start of the range and the index does not overflow 64 bits. Two VFs of a PF get the
  same GUID exactly when the PF has a list that repeats the GUID, which is accepted; a range never gives a GUID twice.
\<close>

theorem vf_guids_allocated:
  assumes "getIbGUIDConfig host = Inr configs" and "configs pf = Some c"
  shows "0 < capacity c \<and>
    (\<forall>vf. 0 \<le> vf \<and> no_wrap c vf \<longrightarrow> GetVFGUID configs pf vf =
      (if vf < capacity c then Inr (HardwareAddr_of (guid_at c vf)) else Inl (NoAllocation pf vf))) \<and>
    (\<forall>v w. 0 \<le> v \<and> v < w \<and> w < capacity c \<longrightarrow>
      (GetVFGUID configs pf v = GetVFGUID configs pf w \<longleftrightarrow>
       pg_GUIDRange c = None \<and> pg_GUIDs c ! nat v = pg_GUIDs c ! nat w))"
proof (intro conjI allI impI)
  have ok: "config_ok c" by (rule configs_ok[OF assms])
  then show "0 < capacity c" by (auto simp: config_ok_def capacity_def word_le_def split: option.splits)
  show "GetVFGUID configs pf vf = (if vf < capacity c then Inr (HardwareAddr_of (guid_at c vf)) else Inl (NoAllocation pf vf))"
    if "0 \<le> vf \<and> no_wrap c vf" for vf
    using get_guid[of c configs pf, OF ok assms(2)] that by blast
  fix v w assume vw: "0 \<le> v \<and> v < w \<and> w < capacity c"
  then have "GetVFGUID configs pf v = Inr (HardwareAddr_of (guid_at c v))" "GetVFGUID configs pf w = Inr (HardwareAddr_of (guid_at c w))"
    using get_guid[of c configs pf, OF ok assms(2)] capacity_no_wrap[of v c] capacity_no_wrap[of w c] by auto
  then have "GetVFGUID configs pf v = GetVFGUID configs pf w \<longleftrightarrow> guid_at c v = guid_at c w" using HardwareAddr_of_inj by auto
  then show "GetVFGUID configs pf v = GetVFGUID configs pf w \<longleftrightarrow> pg_GUIDRange c = None \<and> pg_GUIDs c ! nat v = pg_GUIDs c ! nat w"
    using guid_at_inj[of v w c] vw by simp
qed

definition sample_ib_host :: "string \<Rightarrow> string \<Rightarrow> ib_host" where
  "sample_ib_host first final =
     \<lparr>ih_Links = Inr [], ih_PciAddress = (\<lambda>_. Inl ''none''),
      ih_Config = Inr [\<lparr>ib_PciAddress = ''0000:3b:00.0'', ib_PfGUID = [], ib_GUIDs = [],
        ib_GUIDsRange = Some \<lparr>gj_Start = first, gj_End = final\<rparr>\<rparr>]\<rparr>"

definition sample_vf_guid :: "string \<Rightarrow> string \<Rightarrow> int \<Rightarrow> guid_error + HardwareAddr" where
  "sample_vf_guid first final vf =
     res_bind (getIbGUIDConfig (sample_ib_host first final)) (\<lambda>configs. GetVFGUID configs ''0000:3b:00.0'' vf)"

theorem vf_guids_allocated_witness:
  "sample_vf_guid ''00:11:22:33:44:55:66:fe'' ''00:11:22:33:44:55:66:ff'' 1 = Inr [0, 0x11, 0x22, 0x33, 0x44, 0x55, 0x66, 0xff] \<and>
   sample_vf_guid ''00:11:22:33:44:55:66:fe'' ''00:11:22:33:44:55:66:ff'' 0 \<noteq> sample_vf_guid ''00:11:22:33:44:55:66:fe'' ''00:11:22:33:44:55:66:ff'' 1"
proof -
  let ?first = "''00:11:22:33:44:55:66:fe''" and ?final = "''00:11:22:33:44:55:66:ff''" and ?pf = "''0000:3b:00.0''"
  let ?r = "\<lparr>gr_Start = 0x112233445566fe, gr_End = 0x112233445566ff\<rparr>"
  let ?c = "\<lparr>pg_GUIDs = [], pg_GUIDRange = Some ?r\<rparr>"
  have p: "ParseGUID ?first = Inr 0x112233445566fe" "ParseGUID ?final = Inr 0x112233445566ff" by code_simp+
  have g: "getIbGUIDConfig (sample_ib_host ?first ?final) = Inr [?pf \<mapsto> ?c]"
    by (simp add: getIbGUIDConfig_def sample_ib_host_def getPfPciAddressFromRawConfig_def entry_config_def p)
  have "capacity ?c = 2" by (simp add: capacity_def)
  then have "GetVFGUID [?pf \<mapsto> ?c] ?pf 0 \<noteq> GetVFGUID [?pf \<mapsto> ?c] ?pf 1"
    using vf_guids_allocated[OF g, of ?pf ?c] by simp
  moreover have "sample_vf_guid ?first ?final 1 = Inr [0, 0x11, 0x22, 0x33, 0x44, 0x55, 0x66, 0xff]" by code_simp
  ultimately show ?thesis by (simp add: sample_vf_guid_def g)
qed

text \<open>
  The end of a range is not respected when the sum overflows: an accepted range of two GUIDs that ends at the largest
  GUID gives its third VF the all-zero GUID, which is outside the range and no valid GUID.
\<close>

theorem guid_range_wraps:
  "sample_vf_guid ''ff:ff:ff:ff:ff:ff:ff:fe'' ''ff:ff:ff:ff:ff:ff:ff:ff'' 2 = Inr [0, 0, 0, 0, 0, 0, 0, 0]"
  by code_simp

end
