(* ===== verification/Ovs.thy ===== *)
theory Ovs
  imports Io_Monad Api_Types Samples "HOL-Library.AList"
begin

text \<open>
  The managed OVS bridges of a host (\<^verbatim>\<open>src/pkg/host/internal/bridge\<close>): the store of bridge configurations, which is a cache
  in front of a file, and the functions that create, query, remove and clean up bridges through the client of OVSDB.
  The database is a parameter: what a transaction answers, what other programs do to the tables before each call, which
  calls fail and which UUIDs are drawn.
\<close>

section \<open>Database\<close>

record BridgeEntry =
  be_UUID :: string
  be_Name :: string
  be_DatapathType :: string
  be_ExternalIDs :: str_map
  be_OtherConfig :: str_map
  be_Ports :: "string list"
  be_FailMode :: "string option"

record InterfaceEntry =
  in_UUID :: string
  in_Name :: string
  in_Type :: string
  in_Error :: "string option"
  in_Options :: str_map
  in_ExternalIDs :: str_map
  in_OtherConfig :: str_map
  in_MTURequest :: "int option"

record PortEntry =
  po_UUID :: string
  po_Name :: string
  po_Interfaces :: "string list"

record OpenvSwitchEntry =
  ovs_UUID :: string
  ovs_Bridges :: "string list"

record ovsdb =
  db_Root :: "OpenvSwitchEntry list"
  db_Bridges :: "BridgeEntry list"
  db_Interfaces :: "InterfaceEntry list"
  db_Ports :: "PortEntry list"

definition HasPort :: "BridgeEntry \<Rightarrow> string \<Rightarrow> bool" where
  "HasPort b portUUID = (portUUID \<in> set (be_Ports b))"

text \<open>The operations that a transaction is made of; a row is named by its UUID.\<close>

datatype ovs_op =
    InsertBridge BridgeEntry
  | InsertInterface InterfaceEntry
  | InsertPort PortEntry
  | DeleteBridge string
  | DeleteInterface string
  | DeletePort string
  | RootInsert string string
  | RootDelete string string
  | PortsInsert string string
  | PortsDelete string string

datatype ovs_error =
    OvsFailed string
  | StoreFailed string
  | UnsupportedUplinks
  | RootMissing
  | BridgeNotCreated
  | InterfaceBroken string

type_synonym bridge_map = "(string \<times> OVSConfigExt) list"

record ovs_world =
  ow_Db :: ovsdb
  ow_Cache :: "bridge_map option"
  ow_File :: "bridge_map option"
  ow_Calls :: nat

record ovs_env =
  ov_Fail :: "nat \<Rightarrow> string option"
  ov_Others :: "nat \<Rightarrow> ovsdb \<Rightarrow> ovsdb"
  ov_Transact :: "ovs_op list \<Rightarrow> ovsdb \<Rightarrow> string + ovsdb"
  ov_NewString :: "nat \<Rightarrow> string"
  ov_Order :: "bridge_map \<Rightarrow> bridge_map"

type_synonym 'a ovs_io = "(ovs_world, ovs_error, 'a) stateful"

text \<open>A call of the database, and an access to the file of the store.\<close>

definition ovs_call :: "ovs_env \<Rightarrow> (ovsdb \<Rightarrow> ovs_error + 'a \<times> ovsdb) \<Rightarrow> 'a ovs_io" where
  "ovs_call env f w =
     (let n = ow_Calls w; db = ov_Others env n (ow_Db w); w = w\<lparr>ow_Calls := n + 1, ow_Db := db\<rparr> in
      case ov_Fail env n of
        Some e \<Rightarrow> (Inl (OvsFailed e), w)
      | None \<Rightarrow> (case f db of Inl e \<Rightarrow> (Inl e, w) | Inr (x, db') \<Rightarrow> (Inr x, w\<lparr>ow_Db := db'\<rparr>)))"

definition file_call :: "ovs_env \<Rightarrow> (bridge_map option \<Rightarrow> 'a \<times> bridge_map option) \<Rightarrow> 'a ovs_io" where
  "file_call env f w =
     (let n = ow_Calls w; w = w\<lparr>ow_Calls := n + 1\<rparr> in
      case ov_Fail env n of
        Some e \<Rightarrow> (Inl (StoreFailed e), w)
      | None \<Rightarrow> (case f (ow_File w) of (x, file) \<Rightarrow> (Inr x, w\<lparr>ow_File := file\<rparr>)))"

definition ovs_read :: "ovs_env \<Rightarrow> (ovsdb \<Rightarrow> 'a) \<Rightarrow> 'a ovs_io" where
  "ovs_read env f = ovs_call env (\<lambda>db. Inr (f db, db))"

definition NewString :: "ovs_env \<Rightarrow> string ovs_io" where
  "NewString env w = (Inr (ov_NewString env (ow_Calls w)), w\<lparr>ow_Calls := ow_Calls w + 1\<rparr>)"

definition getClient :: "ovs_env \<Rightarrow> unit ovs_io" where
  "getClient env = ovs_read env (\<lambda>_. ())"

section \<open>Store\<close>

definition set_cache :: "bridge_map \<Rightarrow> unit ovs_io" where
  "set_cache m w = (Inr (), w\<lparr>ow_Cache := Some m\<rparr>)"

definition readStoreFile :: "ovs_env \<Rightarrow> bridge_map ovs_io" where
  "readStoreFile env = file_call env (\<lambda>file. (case file of None \<Rightarrow> [] | Some m \<Rightarrow> m, file))"

definition writeStoreFile :: "ovs_env \<Rightarrow> bridge_map \<Rightarrow> unit ovs_io" where
  "writeStoreFile env m = file_call env (\<lambda>_. ((), Some m))"

text \<open>The map of the cache; \<^verbatim>\<open>ensureStoreDirExist\<close> comes before the file is read.\<close>

definition ensureCacheIsLoaded :: "ovs_env \<Rightarrow> bridge_map ovs_io" where
  "ensureCacheIsLoaded env =
     io_bind (io_gets ow_Cache) (\<lambda>cache.
       case cache of
         Some m \<Rightarrow> io_return m
       | None \<Rightarrow>
           io_bind (file_call env (\<lambda>file. ((), file))) (\<lambda>_.
           io_bind (readStoreFile env) (\<lambda>m.
           io_bind (set_cache m) (\<lambda>_. io_return m))))"

definition GetManagedOVSBridges :: "ovs_env \<Rightarrow> bridge_map ovs_io" where
  "GetManagedOVSBridges env = io_bind (ensureCacheIsLoaded env) (\<lambda>m. io_return (ov_Order env m))"

definition GetManagedOVSBridge :: "ovs_env \<Rightarrow> string \<Rightarrow> OVSConfigExt option ovs_io" where
  "GetManagedOVSBridge env nm = io_bind (ensureCacheIsLoaded env) (\<lambda>m. io_return (map_of m nm))"

text \<open>A changed map is written to the file; when this fails the cache is put back.\<close>

definition store_map :: "ovs_env \<Rightarrow> bridge_map \<Rightarrow> bridge_map \<Rightarrow> unit ovs_io" where
  "store_map env old new =
     io_bind (set_cache new) (\<lambda>_.
     io_handle (writeStoreFile env new) (\<lambda>e. io_bind (set_cache old) (\<lambda>_. io_fail e)) io_return)"

definition AddManagedOVSBridge :: "ovs_env \<Rightarrow> OVSConfigExt \<Rightarrow> unit ovs_io" where
  "AddManagedOVSBridge env br =
     io_bind (ensureCacheIsLoaded env) (\<lambda>m. store_map env m (AList.update (oe_Name br) br m))"

definition RemoveManagedOVSBridge :: "ovs_env \<Rightarrow> string \<Rightarrow> unit ovs_io" where
  "RemoveManagedOVSBridge env nm =
     io_bind (ensureCacheIsLoaded env) (\<lambda>m. store_map env m (AList.delete nm m))"

section \<open>Queries\<close>

definition find_bridge :: "ovsdb \<Rightarrow> string \<Rightarrow> BridgeEntry option" where
  "find_bridge db nm = find (\<lambda>b. be_Name b = nm) (db_Bridges db)"

definition find_interface :: "ovsdb \<Rightarrow> string \<Rightarrow> InterfaceEntry option" where
  "find_interface db nm = find (\<lambda>i. in_Name i = nm) (db_Interfaces db)"

definition getBridgeByName :: "ovs_env \<Rightarrow> string \<Rightarrow> BridgeEntry option ovs_io" where
  "getBridgeByName env nm = ovs_read env (\<lambda>db. find_bridge db nm)"

definition getInterfaceByName :: "ovs_env \<Rightarrow> string \<Rightarrow> InterfaceEntry option ovs_io" where
  "getInterfaceByName env nm = ovs_read env (\<lambda>db. find_interface db nm)"

definition getPortByInterface :: "ovs_env \<Rightarrow> InterfaceEntry \<Rightarrow> PortEntry option ovs_io" where
  "getPortByInterface env iface = ovs_read env (\<lambda>db. find (\<lambda>p. in_UUID iface \<in> set (po_Interfaces p)) (db_Ports db))"

definition getBridgeByPort :: "ovs_env \<Rightarrow> PortEntry \<Rightarrow> BridgeEntry option ovs_io" where
  "getBridgeByPort env port = ovs_read env (\<lambda>db. find (\<lambda>b. po_UUID port \<in> set (be_Ports b)) (db_Bridges db))"

definition getRootObj :: "ovs_env \<Rightarrow> OpenvSwitchEntry ovs_io" where
  "getRootObj env =
     io_bind (ovs_read env db_Root) (\<lambda>ovsList. case ovsList of [] \<Rightarrow> io_fail RootMissing | r # _ \<Rightarrow> io_return r)"

definition getInterfaceNamesOnBridge :: "ovs_env \<Rightarrow> BridgeEntry \<Rightarrow> string list ovs_io" where
  "getInterfaceNamesOnBridge env bridge =
     io_bind (ovs_read env db_Ports) (\<lambda>ports.
     io_bind (ovs_read env db_Interfaces) (\<lambda>interfaces.
       let interfaceIDs = concat (map po_Interfaces (filter (\<lambda>p. HasPort bridge (po_UUID p)) ports)) in
       io_return (sort (map in_Name (filter (\<lambda>i. in_UUID i \<in> set interfaceIDs) interfaces)))))"

definition isVFRepresentorName :: "string \<Rightarrow> string \<Rightarrow> bool" where
  "isVFRepresentorName interfaceName pfName =
     (if \<not> has_prefix interfaceName (pfName @ ''_'') then False
      else let vfIndex = drop (length pfName + 1) interfaceName in
           if vfIndex = [] then False
           else case atoi vfIndex of (n, err) \<Rightarrow> err = None \<and> n \<ge> 0 \<and> \<not> has_prefix vfIndex ''+'')"

section \<open>Changes\<close>

definition execTransaction :: "ovs_env \<Rightarrow> ovs_op list \<Rightarrow> unit ovs_io" where
  "execTransaction env ops =
     ovs_call env (\<lambda>db. case ov_Transact env ops db of Inl e \<Rightarrow> Inl (OvsFailed e) | Inr db' \<Rightarrow> Inr ((), db'))"

definition createBridge :: "ovs_env \<Rightarrow> BridgeEntry \<Rightarrow> unit ovs_io" where
  "createBridge env br =
     io_bind (getRootObj env) (\<lambda>rootObj.
       execTransaction env [InsertBridge br, RootInsert (ovs_UUID rootObj) (be_UUID br)])"

fun check_interface :: "ovs_env \<Rightarrow> string \<Rightarrow> nat \<Rightarrow> unit ovs_io" where
  "check_interface env nm 0 = io_return ()"
| "check_interface env nm (Suc n) =
     io_bind (getInterfaceByName env nm) (\<lambda>iface.
       case iface of
         None \<Rightarrow> io_fail (OvsFailed ''not found'')
       | Some i \<Rightarrow>
           (case in_Error i of Some e \<Rightarrow> io_fail (InterfaceBroken e) | None \<Rightarrow> check_interface env nm n))"

definition addInterface :: "ovs_env \<Rightarrow> BridgeEntry \<Rightarrow> InterfaceEntry \<Rightarrow> unit ovs_io" where
  "addInterface env br iface =
     io_bind (NewString env) (\<lambda>portUUID.
     io_bind (execTransaction env
       [InsertInterface iface, InsertPort \<lparr>po_UUID = portUUID, po_Name = in_Name iface, po_Interfaces = [in_UUID iface]\<rparr>,
        PortsInsert (be_UUID br) portUUID]) (\<lambda>_.
       check_interface env (in_Name iface) 2))"

definition deleteBridgeByName :: "ovs_env \<Rightarrow> string \<Rightarrow> unit ovs_io" where
  "deleteBridgeByName env brName =
     io_bind (getBridgeByName env brName) (\<lambda>br.
       case br of
         None \<Rightarrow> io_return ()
       | Some br \<Rightarrow>
           io_bind (getRootObj env) (\<lambda>rootObj.
             execTransaction env [DeleteBridge (be_UUID br), RootDelete (ovs_UUID rootObj) (be_UUID br)]))"

definition deleteInterfaceByName :: "ovs_env \<Rightarrow> string \<Rightarrow> unit ovs_io" where
  "deleteInterfaceByName env ifaceName =
     io_bind (getInterfaceByName env ifaceName) (\<lambda>iface.
       case iface of
         None \<Rightarrow> io_return ()
       | Some iface \<Rightarrow>
           io_bind (getPortByInterface env iface) (\<lambda>port.
             case port of
               None \<Rightarrow> execTransaction env [DeleteInterface (in_UUID iface)]
             | Some port \<Rightarrow>
                 io_bind (getBridgeByPort env port) (\<lambda>bridge.
                   execTransaction env ([DeleteInterface (in_UUID iface), DeletePort (po_UUID port)] @
                     (case bridge of None \<Rightarrow> [] | Some bridge \<Rightarrow> [PortsDelete (be_UUID bridge) (po_UUID port)])))))"

section \<open>Bridges\<close>

definition updateMap :: "str_map \<Rightarrow> str_map \<Rightarrow> str_map" where
  "updateMap old new = (\<lambda>k. if old k = None then None else new k)"

definition bridge_config :: "BridgeEntry \<Rightarrow> OVSConfigExt \<Rightarrow> OVSBridgeConfig" where
  "bridge_config bridge knownConfig =
     \<lparr>br_DatapathType = be_DatapathType bridge,
      br_ExternalIDs = updateMap (br_ExternalIDs (oe_Bridge knownConfig)) (be_ExternalIDs bridge),
      br_OtherConfig = updateMap (br_OtherConfig (oe_Bridge knownConfig)) (be_OtherConfig bridge),
      br_FailMode = (case be_FailMode bridge of None \<Rightarrow> [] | Some m \<Rightarrow> m)\<rparr>"

definition uplink_config :: "InterfaceEntry \<Rightarrow> OVSUplinkConfigExt \<Rightarrow> OVSUplinkConfigExt" where
  "uplink_config iface known =
     \<lparr>ue_PciAddress = ue_PciAddress known, ue_Name = ue_Name known,
      ue_Interface = \<lparr>oi_Type = in_Type iface,
        oi_Options = updateMap (oi_Options (ue_Interface known)) (in_Options iface),
        oi_ExternalIDs = updateMap (oi_ExternalIDs (ue_Interface known)) (in_ExternalIDs iface),
        oi_OtherConfig = updateMap (oi_OtherConfig (ue_Interface known)) (in_OtherConfig iface),
        oi_MTURequest = in_MTURequest iface\<rparr>\<rparr>"

definition getCurrentBridgeState :: "ovs_env \<Rightarrow> OVSConfigExt \<Rightarrow> OVSConfigExt option ovs_io" where
  "getCurrentBridgeState env knownConfig =
     io_bind (getBridgeByName env (oe_Name knownConfig)) (\<lambda>bridge.
       case bridge of
         None \<Rightarrow> io_return None
       | Some bridge \<Rightarrow>
           let currentConfig = \<lparr>oe_Name = be_Name bridge, oe_Bridge = bridge_config bridge knownConfig, oe_Uplinks = []\<rparr> in
           (case oe_Uplinks knownConfig of
              [] \<Rightarrow> io_return (Some currentConfig)
            | uplink # _ \<Rightarrow>
                io_bind (getInterfaceByName env (ue_Name uplink)) (\<lambda>iface.
                  case iface of
                    None \<Rightarrow> io_return (Some currentConfig)
                  | Some iface \<Rightarrow>
                      if in_Error iface \<noteq> None then io_return (Some currentConfig)
                      else
                        io_bind (getPortByInterface env iface) (\<lambda>port.
                          case port of
                            None \<Rightarrow> io_return (Some currentConfig)
                          | Some port \<Rightarrow>
                              if \<not> HasPort bridge (po_UUID port) then io_return (Some currentConfig)
                              else io_return (Some (currentConfig\<lparr>oe_Uplinks := [uplink_config iface uplink]\<rparr>))))))"

definition ensureInternalInterface :: "ovs_env \<Rightarrow> BridgeEntry \<Rightarrow> unit ovs_io" where
  "ensureInternalInterface env bridge =
     io_bind (getInterfaceByName env (be_Name bridge)) (\<lambda>existing.
       let add = io_bind (NewString env) (\<lambda>u. addInterface env bridge
             \<lparr>in_UUID = u, in_Name = be_Name bridge, in_Type = ''internal'', in_Error = None, in_Options = Map.empty,
              in_ExternalIDs = Map.empty, in_OtherConfig = Map.empty, in_MTURequest = None\<rparr>)
       in
       case existing of
         None \<Rightarrow> add
       | Some i \<Rightarrow>
           if in_Error i \<noteq> None then io_bind (deleteInterfaceByName env (be_Name bridge)) (\<lambda>_. add)
           else io_return ())"

text \<open>The tables are made to match: the uplink is taken off its bridge, the bridge made again unless it is kept.\<close>

definition recreate :: "ovs_env \<Rightarrow> OVSConfigExt \<Rightarrow> OVSUplinkConfigExt \<Rightarrow> bool \<Rightarrow> unit ovs_io" where
  "recreate env conf uplink keepBridge =
     io_bind (deleteInterfaceByName env (ue_Name uplink)) (\<lambda>_.
     io_bind (io_when (\<not> keepBridge)
       (io_bind (deleteBridgeByName env (oe_Name conf)) (\<lambda>_.
        io_bind (NewString env) (\<lambda>u. createBridge env
          \<lparr>be_UUID = u, be_Name = oe_Name conf, be_DatapathType = br_DatapathType (oe_Bridge conf),
           be_ExternalIDs = br_ExternalIDs (oe_Bridge conf), be_OtherConfig = br_OtherConfig (oe_Bridge conf), be_Ports = [],
           be_FailMode = (if br_FailMode (oe_Bridge conf) = [] then None else Some (br_FailMode (oe_Bridge conf)))\<rparr>)))) (\<lambda>_.
     io_bind (getBridgeByName env (oe_Name conf)) (\<lambda>bridge.
       case bridge of
         None \<Rightarrow> io_fail BridgeNotCreated
       | Some bridge \<Rightarrow>
           io_bind (ensureInternalInterface env bridge) (\<lambda>_.
           io_bind (NewString env) (\<lambda>u. addInterface env bridge
             \<lparr>in_UUID = u, in_Name = ue_Name uplink, in_Type = oi_Type (ue_Interface uplink), in_Error = None,
              in_Options = oi_Options (ue_Interface uplink), in_ExternalIDs = oi_ExternalIDs (ue_Interface uplink),
              in_OtherConfig = oi_OtherConfig (ue_Interface uplink), in_MTURequest = oi_MTURequest (ue_Interface uplink)\<rparr>)))))"

definition CreateOVSBridge :: "ovs_env \<Rightarrow> OVSConfigExt \<Rightarrow> unit ovs_io" where
  "CreateOVSBridge env conf =
     (case oe_Uplinks conf of
        [uplink] \<Rightarrow>
          io_bind (getClient env) (\<lambda>_.
          io_bind (GetManagedOVSBridge env (oe_Name conf)) (\<lambda>knownConfig.
          io_bind (io_when (knownConfig \<noteq> Some conf) (AddManagedOVSBridge env conf)) (\<lambda>_.
            case knownConfig of
              None \<Rightarrow> recreate env conf uplink False
            | Some known \<Rightarrow>
                io_bind (getCurrentBridgeState env known) (\<lambda>currentState.
                  case currentState of
                    None \<Rightarrow> recreate env conf uplink False
                  | Some cur \<Rightarrow>
                      if cur = conf then io_return ()
                      else recreate env conf uplink (oe_Bridge conf = oe_Bridge cur)))))
      | _ \<Rightarrow> io_fail UnsupportedUplinks)"

fun bridge_states :: "ovs_env \<Rightarrow> bridge_map \<Rightarrow> OVSConfigExt list ovs_io" where
  "bridge_states env [] = io_return []"
| "bridge_states env ((_, known) # rest) =
     io_bind (getCurrentBridgeState env known) (\<lambda>cur.
     io_bind (bridge_states env rest) (\<lambda>curs. io_return (case cur of None \<Rightarrow> curs | Some c \<Rightarrow> c # curs)))"

definition GetOVSBridges :: "ovs_env \<Rightarrow> OVSConfigExt list ovs_io" where
  "GetOVSBridges env =
     io_bind (GetManagedOVSBridges env) (\<lambda>knownConfigs.
       if knownConfigs = [] then io_return []
       else
         io_bind (getClient env) (\<lambda>_.
         io_bind (bridge_states env knownConfigs) (\<lambda>result. io_return (sort_key oe_Name result))))"

definition RemoveOVSBridge :: "ovs_env \<Rightarrow> string \<Rightarrow> unit ovs_io" where
  "RemoveOVSBridge env bridgeName =
     io_bind (GetManagedOVSBridge env bridgeName) (\<lambda>brConf.
       case brConf of
         None \<Rightarrow> io_return ()
       | Some brConf \<Rightarrow>
           io_bind (getClient env) (\<lambda>_.
           io_bind (getCurrentBridgeState env brConf) (\<lambda>currentState.
           io_bind (io_when (currentState \<noteq> None) (deleteBridgeByName env (oe_Name brConf))) (\<lambda>_.
             RemoveManagedOVSBridge env (oe_Name brConf)))))"

definition find_uplink :: "bridge_map \<Rightarrow> string \<Rightarrow> (OVSConfigExt \<times> string) option" where
  "find_uplink knownConfigs pciAddress =
     (let ups = concat (map (\<lambda>(_, kc). map (\<lambda>u. (kc, u)) (oe_Uplinks kc)) knownConfigs) in
      map_option (\<lambda>(kc, u). (kc, ue_Name u)) (find (\<lambda>(_, u). ue_PciAddress u = pciAddress \<and> ue_Name u \<noteq> []) ups))"

definition DetachUplinkAndVFRepresentorsFromOVSBridge :: "ovs_env \<Rightarrow> string \<Rightarrow> unit ovs_io" where
  "DetachUplinkAndVFRepresentorsFromOVSBridge env pciAddress =
     io_bind (GetManagedOVSBridges env) (\<lambda>knownConfigs.
       case find_uplink knownConfigs pciAddress of
         None \<Rightarrow> io_return ()
       | Some (brConf, pfName) \<Rightarrow>
           io_bind (getClient env) (\<lambda>_.
           io_bind (getBridgeByName env (oe_Name brConf)) (\<lambda>bridge.
             case bridge of
               None \<Rightarrow> RemoveManagedOVSBridge env (oe_Name brConf)
             | Some bridge \<Rightarrow>
                 io_bind (getInterfaceNamesOnBridge env bridge) (\<lambda>interfaceNames.
                 io_bind (io_each (deleteInterfaceByName env) (filter (\<lambda>n. isVFRepresentorName n pfName) interfaceNames)) (\<lambda>_.
                   deleteInterfaceByName env pfName)))))"

section \<open>All bridges\<close>

definition DiscoverBridges :: "ovs_env \<Rightarrow> Bridges ovs_io" where
  "DiscoverBridges env = io_bind (GetOVSBridges env) (\<lambda>bs. io_return \<lparr>bridges_OVS = bs\<rparr>)"

definition ConfigureBridges :: "ovs_env \<Rightarrow> Bridges \<Rightarrow> Bridges \<Rightarrow> unit ovs_io" where
  "ConfigureBridges env bridgesSpec bridgesStatus =
     (if bridges_OVS bridgesSpec = [] \<and> bridges_OVS bridgesStatus = [] then io_return ()
      else
        io_bind (io_each (\<lambda>curBr.
            if list_ex (\<lambda>desiredBr. oe_Name curBr = oe_Name desiredBr) (bridges_OVS bridgesSpec) then io_return ()
            else RemoveOVSBridge env (oe_Name curBr)) (bridges_OVS bridgesStatus)) (\<lambda>_.
          io_each (CreateOVSBridge env) (bridges_OVS bridgesSpec)))"

definition DetachUplinkAndVFRepresentorsFromManagedBridge :: "ovs_env \<Rightarrow> string \<Rightarrow> unit ovs_io" where
  "DetachUplinkAndVFRepresentorsFromManagedBridge env pciAddr = DetachUplinkAndVFRepresentorsFromOVSBridge env pciAddr"

end
