(* ===== verification/Ovs_Bridges.thy ===== *)
theory Ovs_Bridges
  imports Ovs
begin

text \<open>
  What the functions on managed OVS bridges achieve, given what OVSDB documents about transactions (RFC 7047 and the schema
  of OVS): the operations are carried out in order, rows that are no longer referenced are removed, a successful
  transaction leaves names and UUIDs unique and references valid, and an inserted row has a new UUID.
\<close>

section \<open>Transactions\<close>

definition with_ports :: "(string list \<Rightarrow> string list) \<Rightarrow> string \<Rightarrow> BridgeEntry list \<Rightarrow> BridgeEntry list" where
  "with_ports f u bs = map (\<lambda>b. if be_UUID b = u then b\<lparr>be_Ports := f (be_Ports b)\<rparr> else b) bs"

definition with_root :: "(string list \<Rightarrow> string list) \<Rightarrow> string \<Rightarrow> OpenvSwitchEntry list \<Rightarrow> OpenvSwitchEntry list" where
  "with_root f u os = map (\<lambda>r. if ovs_UUID r = u then r\<lparr>ovs_Bridges := f (ovs_Bridges r)\<rparr> else r) os"

fun apply_op :: "ovs_op \<Rightarrow> ovsdb \<Rightarrow> ovsdb" where
  "apply_op (InsertBridge b) db = db\<lparr>db_Bridges := db_Bridges db @ [b]\<rparr>"
| "apply_op (InsertInterface i) db = db\<lparr>db_Interfaces := db_Interfaces db @ [i]\<rparr>"
| "apply_op (InsertPort p) db = db\<lparr>db_Ports := db_Ports db @ [p]\<rparr>"
| "apply_op (DeleteBridge u) db = db\<lparr>db_Bridges := filter (\<lambda>b. be_UUID b \<noteq> u) (db_Bridges db)\<rparr>"
| "apply_op (DeleteInterface u) db = db\<lparr>db_Interfaces := filter (\<lambda>i. in_UUID i \<noteq> u) (db_Interfaces db)\<rparr>"
| "apply_op (DeletePort u) db = db\<lparr>db_Ports := filter (\<lambda>p. po_UUID p \<noteq> u) (db_Ports db)\<rparr>"
| "apply_op (RootInsert r u) db = db\<lparr>db_Root := with_root (List.insert u) r (db_Root db)\<rparr>"
| "apply_op (RootDelete r u) db = db\<lparr>db_Root := with_root (removeAll u) r (db_Root db)\<rparr>"
| "apply_op (PortsInsert b u) db = db\<lparr>db_Bridges := with_ports (List.insert u) b (db_Bridges db)\<rparr>"
| "apply_op (PortsDelete b u) db = db\<lparr>db_Bridges := with_ports (removeAll u) b (db_Bridges db)\<rparr>"

definition rooted :: "ovsdb \<Rightarrow> string \<Rightarrow> bool" where
  "rooted db u = list_ex (\<lambda>r. u \<in> set (ovs_Bridges r)) (db_Root db)"

definition collect :: "ovsdb \<Rightarrow> ovsdb" where
  "collect db =
     (let bs = filter (\<lambda>b. rooted db (be_UUID b)) (db_Bridges db);
          ps = filter (\<lambda>p. list_ex (\<lambda>b. HasPort b (po_UUID p)) bs) (db_Ports db);
          ifs = filter (\<lambda>i. list_ex (\<lambda>p. in_UUID i \<in> set (po_Interfaces p)) ps) (db_Interfaces db)
      in db\<lparr>db_Bridges := bs, db_Ports := ps, db_Interfaces := ifs\<rparr>)"

definition ovsdb_apply :: "ovs_op list \<Rightarrow> ovsdb \<Rightarrow> ovsdb" where
  "ovsdb_apply ops db = collect (fold apply_op ops db)"

definition intact :: "ovsdb \<Rightarrow> bool" where
  "intact db \<longleftrightarrow>
     distinct (map be_Name (db_Bridges db)) \<and> distinct (map in_Name (db_Interfaces db)) \<and>
     distinct (map po_Name (db_Ports db)) \<and> distinct (map be_UUID (db_Bridges db)) \<and>
     list_all (\<lambda>b. rooted db (be_UUID b)) (db_Bridges db) \<and>
     list_all (\<lambda>p. set (po_Interfaces p) \<subseteq> set (map in_UUID (db_Interfaces db))) (db_Ports db)"

fun new_uuid :: "ovsdb \<Rightarrow> ovs_op \<Rightarrow> bool" where
  "new_uuid db (InsertBridge b) = (be_UUID b \<notin> set (map be_UUID (db_Bridges db)))"
| "new_uuid db (InsertInterface i) = (in_UUID i \<notin> set (map in_UUID (db_Interfaces db)))"
| "new_uuid db (InsertPort p) = (po_UUID p \<notin> set (map po_UUID (db_Ports db)))"
| "new_uuid db _ = True"

definition ovsdb_server :: "(ovs_op list \<Rightarrow> ovsdb \<Rightarrow> string + ovsdb) \<Rightarrow> bool" where
  "ovsdb_server transact \<longleftrightarrow>
     (\<forall>ops db db'. transact ops db = Inr db' \<longrightarrow> db' = ovsdb_apply ops db \<and> intact db' \<and> list_all (new_uuid db) ops)"

text \<open>No other program changes the tables.\<close>

definition undisturbed :: "ovs_env \<Rightarrow> bool" where
  "undisturbed env \<longleftrightarrow> (\<forall>n db. ov_Others env n db = db)"

section \<open>Bridges that stay\<close>

text \<open>A row of the bridge table with a property that does not depend on its ports.\<close>

definition has_row :: "(BridgeEntry \<Rightarrow> bool) \<Rightarrow> string \<Rightarrow> ovsdb \<Rightarrow> bool" where
  "has_row Q u db \<longleftrightarrow> rooted db u \<and> (\<exists>b\<in>set (db_Bridges db). be_UUID b = u \<and> Q b)"

definition port_blind :: "(BridgeEntry \<Rightarrow> bool) \<Rightarrow> bool" where
  "port_blind Q \<longleftrightarrow> (\<forall>b ps. Q (b\<lparr>be_Ports := ps\<rparr>) = Q b)"

fun spares :: "string \<Rightarrow> ovs_op \<Rightarrow> bool" where
  "spares u (DeleteBridge v) = (v \<noteq> u)"
| "spares u (RootDelete _ v) = (v \<noteq> u)"
| "spares u _ = True"

lemma rooted_with_root:
  assumes "rooted db u" and "\<And>xs. u \<in> set xs \<Longrightarrow> u \<in> set (f xs)"
  shows "rooted (db\<lparr>db_Root := with_root f r (db_Root db)\<rparr>) u"
proof -
  obtain x where x: "x \<in> set (db_Root db)" "u \<in> set (ovs_Bridges x)" using assms(1) by (auto simp: rooted_def list_ex_iff)
  let ?x = "if ovs_UUID x = r then x\<lparr>ovs_Bridges := f (ovs_Bridges x)\<rparr> else x"
  have "?x \<in> set (with_root f r (db_Root db))" using x(1) unfolding with_root_def set_map by (rule imageI)
  moreover have "u \<in> set (ovs_Bridges ?x)" using x(2) assms(2) by auto
  ultimately show ?thesis unfolding rooted_def list_ex_iff by auto
qed

lemma has_row_with_ports:
  assumes "has_row Q u db" and "port_blind Q"
  shows "has_row Q u (db\<lparr>db_Bridges := with_ports f v (db_Bridges db)\<rparr>)"
proof -
  obtain b where b: "b \<in> set (db_Bridges db)" "be_UUID b = u" "Q b" using assms(1) unfolding has_row_def by blast
  let ?b = "if be_UUID b = v then b\<lparr>be_Ports := f (be_Ports b)\<rparr> else b"
  have "?b \<in> set (with_ports f v (db_Bridges db))" using b(1) unfolding with_ports_def set_map by (rule imageI)
  moreover have "be_UUID ?b = u \<and> Q ?b" using b(2,3) assms(2) by (simp add: port_blind_def)
  ultimately show ?thesis using assms(1) unfolding has_row_def by (auto simp: rooted_def)
qed

lemma has_row_op:
  assumes "has_row Q u db" and "port_blind Q" and "spares u x"
  shows "has_row Q u (apply_op x db)"
proof (cases x)
  case (RootInsert r v)
  then show ?thesis using assms(1) rooted_with_root[of db u "List.insert v" r] by (simp add: has_row_def)
next
  case (RootDelete r v)
  then show ?thesis using assms rooted_with_root[of db u "removeAll v" r] by (simp add: has_row_def)
qed (use assms has_row_with_ports in \<open>auto simp: has_row_def rooted_def\<close>)

lemma has_row_apply:
  assumes "has_row Q u db" and "port_blind Q" and "list_all (spares u) ops"
  shows "has_row Q u (ovsdb_apply ops db)"
proof -
  have "has_row Q u (fold apply_op ops db)" using assms by (induction ops arbitrary: db) (auto intro: has_row_op)
  then show ?thesis by (auto simp: ovsdb_apply_def has_row_def collect_def Let_def rooted_def)
qed

text \<open>A bridge with the requested configuration.\<close>

definition has_bridge :: "OVSConfigExt \<Rightarrow> string \<Rightarrow> ovsdb \<Rightarrow> bool" where
  "has_bridge conf = has_row (\<lambda>b. be_Name b = oe_Name conf \<and> bridge_config b conf = oe_Bridge conf)"

fun keeps_bridges :: "ovs_op \<Rightarrow> bool" where
  "keeps_bridges (DeleteBridge _) = False"
| "keeps_bridges (RootDelete _ _) = False"
| "keeps_bridges _ = True"

lemma updateMap_same: "updateMap m m = m"
  by (auto simp: updateMap_def fun_eq_iff)

lemma updateMap_again: "updateMap (updateMap k b) b = updateMap k b"
  by (auto simp: updateMap_def fun_eq_iff)

lemma has_bridge_apply:
  assumes "has_bridge conf u db" and "list_all keeps_bridges ops"
  shows "has_bridge conf u (ovsdb_apply ops db)"
proof -
  have "keeps_bridges x \<Longrightarrow> spares u x" for x by (cases x) auto
  then have "list_all (spares u) ops" using assms(2) by (auto simp: list_all_iff)
  then show ?thesis using assms(1) unfolding has_bridge_def by (intro has_row_apply) (auto simp: port_blind_def bridge_config_def)
qed

lemmas has_bridge_defs = has_bridge_def has_row_def

section \<open>Triples\<close>

text \<open>Properties of the tables and of the store, which is its cache and its file; nothing is said when a call fails.\<close>

type_synonym ovs_store = "bridge_map option \<times> bridge_map option"

definition on :: "(ovsdb \<Rightarrow> ovs_store \<Rightarrow> bool) \<Rightarrow> ovs_world \<Rightarrow> bool" where
  "on P w = P (ow_Db w) (ow_Cache w, ow_File w)"

abbreviation gives ::
    "(ovsdb \<Rightarrow> ovs_store \<Rightarrow> bool) \<Rightarrow> 'a ovs_io \<Rightarrow> ('a \<Rightarrow> ovsdb \<Rightarrow> ovs_store \<Rightarrow> bool) \<Rightarrow> bool" where
  "gives P m Q \<equiv> io_triple (on P) m (\<lambda>x. on (Q x)) (\<lambda>_. True)"

lemma gives_conseq:
  "gives P' m Q' \<Longrightarrow> (\<And>db c. P db c \<Longrightarrow> P' db c) \<Longrightarrow> (\<And>x db c. Q' x db c \<Longrightarrow> Q x db c) \<Longrightarrow> gives P m Q"
  by (erule io_triple_conseq) (auto simp: on_def)

lemma gives_bind: "gives P m R \<Longrightarrow> (\<And>x. gives (R x) (f x) Q) \<Longrightarrow> gives P (io_bind m f) Q"
  by (rule io_triple_bind)

lemma gives_return: "(\<And>db c. P db c \<Longrightarrow> Q x db c) \<Longrightarrow> gives P (io_return x) Q"
  by (rule io_triple_return) (simp add: on_def)

lemma gives_fail: "gives P (io_fail e) Q"
  by (rule io_triple_fail) simp

lemma gives_pure: "(\<And>db c. P db c \<Longrightarrow> b) \<Longrightarrow> (b \<Longrightarrow> gives P m Q) \<Longrightarrow> gives P m Q"
  by (rule io_triple_pre[where b = b]) (auto simp: on_def)

lemma gives_read:
  assumes "undisturbed env"
  shows "gives P (ovs_read env f) (\<lambda>x db c. P db c \<and> f db = x)"
  using assms by (intro io_tripleI) (auto simp: ovs_read_def ovs_call_def Let_def on_def undisturbed_def split: option.splits)

lemma gives_exec:
  assumes "undisturbed env" and "ovsdb_server (ov_Transact env)"
  shows "gives P (execTransaction env ops)
    (\<lambda>_ db' c. \<exists>db. P db c \<and> db' = ovsdb_apply ops db \<and> intact db' \<and> list_all (new_uuid db) ops)"
proof (rule io_tripleI)
  fix w x w' assume p: "on P w" and e: "execTransaction env ops w = (Inr x, w')"
  obtain db' where t: "ov_Transact env ops (ow_Db w) = Inr db'" and w': "ow_Db w' = db'" "ow_Cache w' = ow_Cache w" "ow_File w' = ow_File w"
    using e assms(1) by (auto simp: execTransaction_def ovs_call_def Let_def undisturbed_def split: option.splits sum.splits)
  then show "on (\<lambda>db' c. \<exists>db. P db c \<and> db' = ovsdb_apply ops db \<and> intact db' \<and> list_all (new_uuid db) ops) w'"
    using p assms(2) unfolding on_def ovsdb_server_def by metis
qed simp

lemma gives_uuid: "gives P (NewString env) (\<lambda>_. P)"
  by (rule io_tripleI) (auto simp: NewString_def on_def)

lemma gives_root: "undisturbed env \<Longrightarrow> gives P (getRootObj env) (\<lambda>r db c. P db c \<and> r \<in> set (db_Root db))"
  unfolding getRootObj_def
  by (rule gives_bind[OF gives_read], assumption)
    (auto split: list.splits intro!: gives_fail gives_return)

section \<open>Creating a bridge\<close>

definition good :: "(ovsdb \<Rightarrow> bool) \<Rightarrow> (ovs_store \<Rightarrow> bool) \<Rightarrow> ovsdb \<Rightarrow> ovs_store \<Rightarrow> bool" where
  "good Q C db c \<longleftrightarrow> intact db \<and> Q db \<and> C c"

text \<open>A property of the tables that no transaction without a removal of a bridge destroys.\<close>

definition stays :: "(ovsdb \<Rightarrow> bool) \<Rightarrow> bool" where
  "stays Q \<longleftrightarrow> (\<forall>ops db. Q db \<longrightarrow> list_all keeps_bridges ops \<longrightarrow> Q (ovsdb_apply ops db))"

lemma stays_has_bridge: "stays (has_bridge conf u)" "stays (\<lambda>_. True)"
  by (auto simp: stays_def has_bridge_apply)

lemma gives_exec_good:
  assumes "undisturbed env" "ovsdb_server (ov_Transact env)" "stays Q" "list_all keeps_bridges ops"
  shows "gives (good Q C) (execTransaction env ops) (\<lambda>_. good Q C)"
  by (rule gives_conseq[OF gives_exec[OF assms(1,2), where P = "good Q C"]])
    (use assms(3,4) in \<open>auto simp: good_def stays_def\<close>)

lemma gives_delete_interface:
  assumes "undisturbed env" "ovsdb_server (ov_Transact env)" "stays Q"
  shows "gives (good Q C) (deleteInterfaceByName env nm) (\<lambda>_. good Q C)"
proof -
  have r: "gives (good Q C) (ovs_read env f) (\<lambda>_. good Q C)" for f :: "ovsdb \<Rightarrow> 'b"
    by (rule gives_conseq[OF gives_read[OF assms(1)]]) auto
  show ?thesis
    unfolding deleteInterfaceByName_def getInterfaceByName_def getPortByInterface_def getBridgeByPort_def
    by (auto split: option.splits intro!: gives_bind[OF r] gives_return gives_exec_good[OF assms])
qed

lemma gives_check: "undisturbed env \<Longrightarrow> gives P (check_interface env nm n) (\<lambda>_. P)"
proof (induction n)
  case (Suc n)
  have r: "gives P (getInterfaceByName env nm) (\<lambda>_. P)"
    unfolding getInterfaceByName_def by (rule gives_conseq[OF gives_read[OF Suc.prems]]) auto
  show ?case by (auto split: option.splits intro!: gives_bind[OF r] gives_fail Suc)
qed (simp add: gives_return)

text \<open>An interface of a bridge, with its port.\<close>

definition attached :: "string \<Rightarrow> InterfaceEntry \<Rightarrow> ovsdb \<Rightarrow> bool" where
  "attached u i db \<longleftrightarrow>
     i \<in> set (db_Interfaces db) \<and>
     (\<exists>b\<in>set (db_Bridges db). be_UUID b = u \<and>
       (\<exists>p. find (\<lambda>p. in_UUID i \<in> set (po_Interfaces p)) (db_Ports db) = Some p \<and> HasPort b (po_UUID p)))"

lemma find_append_fresh: "(\<And>x. x \<in> set xs \<Longrightarrow> \<not> P x) \<Longrightarrow> P y \<Longrightarrow> find P (xs @ [y]) = Some y"
  by (induction xs) auto

lemma find_filter: "find P xs = Some y \<Longrightarrow> Q y \<Longrightarrow> (\<And>x. x \<in> set xs \<Longrightarrow> P x \<Longrightarrow> x = y) \<Longrightarrow> find P (filter Q xs) = Some y"
  by (induction xs) (auto split: if_splits)

lemma attach_ops:
  assumes "intact db" and "b \<in> set (db_Bridges db)" and "in_UUID i \<notin> set (map in_UUID (db_Interfaces db))"
  shows "attached (be_UUID b) i (ovsdb_apply
    [InsertInterface i, InsertPort \<lparr>po_UUID = pu, po_Name = nm, po_Interfaces = [in_UUID i]\<rparr>, PortsInsert (be_UUID b) pu] db)"
proof -
  let ?p = "\<lparr>po_UUID = pu, po_Name = nm, po_Interfaces = [in_UUID i]\<rparr>" and ?b = "b\<lparr>be_Ports := List.insert pu (be_Ports b)\<rparr>"
  let ?db = "db\<lparr>db_Interfaces := db_Interfaces db @ [i], db_Ports := db_Ports db @ [?p],
    db_Bridges := with_ports (List.insert pu) (be_UUID b) (db_Bridges db)\<rparr>"
  let ?bs = "filter (\<lambda>b. rooted db (be_UUID b)) (with_ports (List.insert pu) (be_UUID b) (db_Bridges db))"
  have r: "rooted ?db u = rooted db u" for u by (simp add: rooted_def)
  have "?b \<in> set (with_ports (List.insert pu) (be_UUID b) (db_Bridges db))" using assms(2) by (auto simp: with_ports_def image_iff)
  moreover have "rooted db (be_UUID b)" using assms(1,2) by (auto simp: intact_def list_all_iff)
  ultimately have b: "?b \<in> set ?bs" by simp
  have none: "in_UUID i \<notin> set (po_Interfaces p)" if "p \<in> set (db_Ports db)" for p
    using that assms(1,3) by (auto simp: intact_def list_all_iff)
  have ref: "list_ex (\<lambda>b. HasPort b pu) ?bs" using b by (auto simp: list_ex_iff HasPort_def intro!: bexI[of _ ?b])
  let ?ps = "filter (\<lambda>p. list_ex (\<lambda>b. HasPort b (po_UUID p)) ?bs) (db_Ports db @ [?p])"
  have f: "find (\<lambda>p. in_UUID i \<in> set (po_Interfaces p)) ?ps = Some ?p"
    by (rule find_filter[OF find_append_fresh]) (use none ref in auto)
  then have p: "?p \<in> set ?ps" by (simp add: ref)
  have "collect ?db = db\<lparr>db_Bridges := ?bs, db_Ports := ?ps,
      db_Interfaces := filter (\<lambda>i. list_ex (\<lambda>p. in_UUID i \<in> set (po_Interfaces p)) ?ps) (db_Interfaces db @ [i])\<rparr>"
    by (simp add: collect_def Let_def r)
  then have t: "db_Bridges (collect ?db) = ?bs" "db_Ports (collect ?db) = ?ps"
    "db_Interfaces (collect ?db) = filter (\<lambda>i. list_ex (\<lambda>p. in_UUID i \<in> set (po_Interfaces p)) ?ps) (db_Interfaces db @ [i])"
    by simp_all
  have "list_ex (\<lambda>p. in_UUID i \<in> set (po_Interfaces p)) ?ps" unfolding list_ex_iff[of _ ?ps] by (rule bexI[OF _ p]) simp
  then have i: "i \<in> set (db_Interfaces (collect ?db))" unfolding t(3) set_filter by simp
  have "attached (be_UUID b) i (collect ?db)"
    unfolding attached_def t(1,2) by (intro conjI i bexI[OF _ b] exI[of _ ?p] f) (simp_all add: HasPort_def)
  then show ?thesis by (simp add: ovsdb_apply_def)
qed

lemma gives_add:
  assumes "undisturbed env" "ovsdb_server (ov_Transact env)"
  shows "gives (good (has_bridge conf (be_UUID br)) C) (addInterface env br i)
    (\<lambda>_. good (\<lambda>db. has_bridge conf (be_UUID br) db \<and> attached (be_UUID br) i db) C)"
  unfolding addInterface_def
proof (intro gives_bind[OF gives_uuid], rule gives_bind[OF _ gives_check[OF assms(1)]])
  fix pu
  let ?ops = "[InsertInterface i, InsertPort \<lparr>po_UUID = pu, po_Name = in_Name i, po_Interfaces = [in_UUID i]\<rparr>, PortsInsert (be_UUID br) pu]"
  have "attached (be_UUID br) i (ovsdb_apply ?ops db)"
    if g: "good (has_bridge conf (be_UUID br)) C db c" and nu: "list_all (new_uuid db) ?ops" for db c
  proof -
    obtain b where b: "b \<in> set (db_Bridges db)" "be_UUID b = be_UUID br" using g by (auto simp: good_def has_bridge_defs)
    show ?thesis using attach_ops[of db b i pu "in_Name i"] b g nu by (simp add: good_def)
  qed
  moreover have "has_bridge conf (be_UUID br) (ovsdb_apply ?ops db)" if "good (has_bridge conf (be_UUID br)) C db c" for db c
    using that by (auto simp: good_def intro: has_bridge_apply)
  ultimately show "gives (good (has_bridge conf (be_UUID br)) C) (execTransaction env ?ops)
      (\<lambda>_. good (\<lambda>db. has_bridge conf (be_UUID br) db \<and> attached (be_UUID br) i db) C)"
    by (intro gives_conseq[OF gives_exec[OF assms, where P = "good (has_bridge conf (be_UUID br)) C"]]) (auto simp: good_def)
qed

lemma rooted_new: "r \<in> set (db_Root db) \<Longrightarrow> rooted (db\<lparr>db_Root := with_root (List.insert u) (ovs_UUID r) (db_Root db)\<rparr>) u"
  unfolding rooted_def with_root_def list_ex_iff by (auto intro!: bexI[of _ "r\<lparr>ovs_Bridges := List.insert u (ovs_Bridges r)\<rparr>"])

lemma gives_create:
  assumes "undisturbed env" "ovsdb_server (ov_Transact env)"
    and "be_Name br = oe_Name conf" "bridge_config br conf = oe_Bridge conf"
  shows "gives (good (\<lambda>_. True) C) (createBridge env br) (\<lambda>_. good (has_bridge conf (be_UUID br)) C)"
  unfolding createBridge_def
proof (rule gives_bind[OF gives_root[OF assms(1)]])
  fix r :: OpenvSwitchEntry
  let ?ops = "[InsertBridge br, RootInsert (ovs_UUID r) (be_UUID br)]"
  have "has_bridge conf (be_UUID br) (ovsdb_apply ?ops db)" if "r \<in> set (db_Root db)" for db
  proof -
    have "rooted (db\<lparr>db_Bridges := db_Bridges db @ [br], db_Root := with_root (List.insert (be_UUID br)) (ovs_UUID r) (db_Root db)\<rparr>) (be_UUID br)"
      using rooted_new[OF that, of "be_UUID br"] by (simp add: rooted_def)
    then show ?thesis using assms(3,4)
      by (auto simp: ovsdb_apply_def has_bridge_defs collect_def Let_def rooted_def)
  qed
  then show "gives (\<lambda>db c. good (\<lambda>_. True) C db c \<and> r \<in> set (db_Root db)) (execTransaction env ?ops)
      (\<lambda>_. good (has_bridge conf (be_UUID br)) C)"
    by (intro gives_conseq[OF gives_exec[OF assms(1,2), where P = "\<lambda>db c. good (\<lambda>_. True) C db c \<and> r \<in> set (db_Root db)"]])
      (auto simp: good_def)
qed

lemma gives_delete_bridge:
  assumes "undisturbed env" "ovsdb_server (ov_Transact env)"
  shows "gives (good (\<lambda>_. True) C) (deleteBridgeByName env nm) (\<lambda>_. good (\<lambda>_. True) C)"
proof -
  let ?P = "good (\<lambda>_. True) C"
  have r: "gives ?P (getBridgeByName env nm) (\<lambda>_. ?P)"
    unfolding getBridgeByName_def by (rule gives_conseq[OF gives_read[OF assms(1)]]) auto
  have o: "gives ?P (getRootObj env) (\<lambda>_. ?P)" by (rule gives_conseq[OF gives_root[OF assms(1), where P = ?P]]) auto
  have e: "gives ?P (execTransaction env ops) (\<lambda>_. ?P)" for ops
    by (rule gives_conseq[OF gives_exec[OF assms, where P = ?P]]) (auto simp: good_def)
  show ?thesis unfolding deleteBridgeByName_def
    by (auto split: option.splits intro!: gives_bind[OF r] gives_bind[OF o] gives_return e)
qed

lemma gives_internal:
  assumes "undisturbed env" "ovsdb_server (ov_Transact env)"
  shows "gives (good (has_bridge conf (be_UUID br)) C) (ensureInternalInterface env br) (\<lambda>_. good (has_bridge conf (be_UUID br)) C)"
proof -
  let ?P = "good (has_bridge conf (be_UUID br)) C"
  have r: "gives ?P (getInterfaceByName env nm) (\<lambda>_. ?P)" for nm
    unfolding getInterfaceByName_def by (rule gives_conseq[OF gives_read[OF assms(1)]]) auto
  have a: "gives ?P (addInterface env br i) (\<lambda>_. ?P)" for i
    by (rule gives_conseq[OF gives_add[OF assms]]) (auto simp: good_def)
  note d = gives_delete_interface[OF assms stays_has_bridge(1)]
  show ?thesis unfolding ensureInternalInterface_def Let_def
    by (auto split: option.splits intro!: gives_bind[OF r] gives_bind[OF gives_uuid] gives_bind[OF d] a gives_return)
qed

text \<open>The bridge is there with its uplink.\<close>

definition configured :: "OVSConfigExt \<Rightarrow> OVSUplinkConfigExt \<Rightarrow> ovsdb \<Rightarrow> bool" where
  "configured conf uplink db \<longleftrightarrow>
     (\<exists>u i. has_bridge conf u db \<and> attached u i db \<and> in_Name i = ue_Name uplink \<and> in_Error i = None \<and>
       uplink_config i uplink = uplink)"

lemma gives_find_bridge:
  assumes "undisturbed env"
  shows "gives (good (\<lambda>db. \<exists>u. has_bridge conf u db) C) (getBridgeByName env (oe_Name conf))
    (\<lambda>b. case b of None \<Rightarrow> \<lambda>_ _. False | Some b \<Rightarrow> good (has_bridge conf (be_UUID b)) C)"
proof -
  have "\<exists>b. find_bridge db (oe_Name conf) = Some b \<and> has_bridge conf (be_UUID b) db" if i: "intact db" and h: "has_bridge conf u db" for db u
  proof -
    obtain b where b: "b \<in> set (db_Bridges db)" "be_Name b = oe_Name conf" "be_UUID b = u" using h by (auto simp: has_bridge_defs)
    then obtain b' where f: "find_bridge db (oe_Name conf) = Some b'"
      unfolding find_bridge_def by (cases "find (\<lambda>b. be_Name b = oe_Name conf) (db_Bridges db)") (auto simp: find_None_iff)
    then have "b' \<in> set (db_Bridges db)" "be_Name b' = oe_Name conf" by (auto simp: find_bridge_def find_Some_iff)
    then have "b' = b" using b i by (auto simp: intact_def distinct_map inj_on_def)
    then show ?thesis using f b h by blast
  qed
  then show ?thesis unfolding getBridgeByName_def
    by (intro gives_conseq[OF gives_read[OF assms, where P = "good (\<lambda>db. \<exists>u. has_bridge conf u db) C"]])
      (fastforce simp: good_def split: option.splits)+
qed

lemma gives_recreate:
  assumes "undisturbed env" "ovsdb_server (ov_Transact env)"
  shows "gives (good (\<lambda>db. keep \<longrightarrow> (\<exists>u. has_bridge conf u db)) C) (recreate env conf uplink keep) (\<lambda>_. good (configured conf uplink) C)"
proof -
  let ?new = "\<lambda>u. \<lparr>be_UUID = u, be_Name = oe_Name conf, be_DatapathType = br_DatapathType (oe_Bridge conf),
      be_ExternalIDs = br_ExternalIDs (oe_Bridge conf), be_OtherConfig = br_OtherConfig (oe_Bridge conf), be_Ports = [],
      be_FailMode = (if br_FailMode (oe_Bridge conf) = [] then None else Some (br_FailMode (oe_Bridge conf)))\<rparr>"
  let ?Q = "\<lambda>db. keep \<longrightarrow> (\<exists>u. has_bridge conf u db)"
  have q: "stays ?Q" unfolding stays_def using has_bridge_apply by blast
  have n: "bridge_config (?new u) conf = oe_Bridge conf" for u by (simp add: bridge_config_def updateMap_same)
  have c: "gives (good (\<lambda>_. True) C) (createBridge env (?new u)) (\<lambda>_. good (\<lambda>db. \<exists>u. has_bridge conf u db) C)" for u
    by (rule gives_conseq[OF gives_create[OF assms _ n, where C = C]]) (auto simp: good_def)
  have w: "gives (good ?Q C) (io_when (\<not> keep) (io_bind (deleteBridgeByName env (oe_Name conf)) (\<lambda>_.
      io_bind (NewString env) (\<lambda>u. createBridge env (?new u))))) (\<lambda>_. good (\<lambda>db. \<exists>u. has_bridge conf u db) C)"
  proof (cases keep)
    case True
    then show ?thesis by (auto simp: io_when_def good_def intro!: gives_return)
  next
    case False
    then have "good ?Q C = good (\<lambda>_. True) C" by (auto simp: good_def fun_eq_iff)
    moreover have "gives (good (\<lambda>_. True) C) (io_bind (deleteBridgeByName env (oe_Name conf)) (\<lambda>_.
      io_bind (NewString env) (\<lambda>u. createBridge env (?new u)))) (\<lambda>_. good (\<lambda>db. \<exists>u. has_bridge conf u db) C)"
      by (intro gives_bind[OF gives_delete_bridge[OF assms]] gives_bind[OF gives_uuid] c)
    ultimately show ?thesis using False by (simp add: io_when_def del: if_split)
  qed
  have up: "uplink_config \<lparr>in_UUID = u, in_Name = nm, in_Type = oi_Type (ue_Interface uplink), in_Error = None,
              in_Options = oi_Options (ue_Interface uplink), in_ExternalIDs = oi_ExternalIDs (ue_Interface uplink),
              in_OtherConfig = oi_OtherConfig (ue_Interface uplink), in_MTURequest = oi_MTURequest (ue_Interface uplink)\<rparr> uplink = uplink" for u nm
    by (simp add: uplink_config_def updateMap_same)
  have a: "gives (good (has_bridge conf (be_UUID br)) C) (addInterface env br i) (\<lambda>_. good (configured conf uplink) C)"
    if "in_Name i = ue_Name uplink" "in_Error i = None" "uplink_config i uplink = uplink" for br i
    by (rule gives_conseq[OF gives_add[OF assms, where C = C]]) (use that in \<open>auto simp: good_def configured_def\<close>)
  have f: "gives (\<lambda>_ _. False) (io_fail BridgeNotCreated) Q" for Q :: "unit \<Rightarrow> ovsdb \<Rightarrow> ovs_store \<Rightarrow> bool" by (rule gives_fail)
  show ?thesis unfolding recreate_def
  proof (intro gives_bind[OF gives_delete_interface[OF assms q]] gives_bind[OF w] gives_bind[OF gives_find_bridge[OF assms(1)]])
    fix b
    show "gives (case b of None \<Rightarrow> \<lambda>_ _. False | Some b \<Rightarrow> good (has_bridge conf (be_UUID b)) C)
       (case b of None \<Rightarrow> io_fail BridgeNotCreated
        | Some bridge \<Rightarrow> io_bind (ensureInternalInterface env bridge) (\<lambda>_. io_bind (NewString env) (\<lambda>u. addInterface env bridge
             \<lparr>in_UUID = u, in_Name = ue_Name uplink, in_Type = oi_Type (ue_Interface uplink), in_Error = None,
              in_Options = oi_Options (ue_Interface uplink), in_ExternalIDs = oi_ExternalIDs (ue_Interface uplink),
              in_OtherConfig = oi_OtherConfig (ue_Interface uplink), in_MTURequest = oi_MTURequest (ue_Interface uplink)\<rparr>)))
       (\<lambda>_. good (configured conf uplink) C)"
      by (cases b) (auto intro!: f gives_bind[OF gives_internal[OF assms]] gives_bind[OF gives_uuid] a up)
  qed
qed

section \<open>The state of a bridge\<close>

definition uplink_state :: "ovsdb \<Rightarrow> BridgeEntry \<Rightarrow> OVSUplinkConfigExt list \<Rightarrow> OVSUplinkConfigExt list" where
  "uplink_state db b uplinks =
     (case uplinks of
        [] \<Rightarrow> []
      | up # _ \<Rightarrow>
          (case find_interface db (ue_Name up) of
             None \<Rightarrow> []
           | Some i \<Rightarrow>
               if in_Error i \<noteq> None then []
               else case find (\<lambda>p. in_UUID i \<in> set (po_Interfaces p)) (db_Ports db) of
                      None \<Rightarrow> []
                    | Some p \<Rightarrow> if HasPort b (po_UUID p) then [uplink_config i up] else []))"

definition current_state :: "ovsdb \<Rightarrow> OVSConfigExt \<Rightarrow> OVSConfigExt option" where
  "current_state db known =
     (case find_bridge db (oe_Name known) of
        None \<Rightarrow> None
      | Some b \<Rightarrow> Some \<lparr>oe_Name = be_Name b, oe_Bridge = bridge_config b known, oe_Uplinks = uplink_state db b (oe_Uplinks known)\<rparr>)"

lemma gives_state:
  assumes "undisturbed env"
  shows "gives P (getCurrentBridgeState env known) (\<lambda>x db c. P db c \<and> x = current_state db known)"
  unfolding getCurrentBridgeState_def getBridgeByName_def getInterfaceByName_def getPortByInterface_def Let_def
  by (auto split: option.splits list.splits if_splits intro!: gives_bind[OF gives_read[OF assms]] gives_return
    simp: current_state_def uplink_state_def)

lemma find_interface_intact: "intact db \<Longrightarrow> i \<in> set (db_Interfaces db) \<Longrightarrow> find_interface db (in_Name i) = Some i"
proof -
  assume a: "intact db" "i \<in> set (db_Interfaces db)"
  obtain j where j: "find_interface db (in_Name i) = Some j" using a(2) unfolding find_interface_def
    by (cases "find (\<lambda>j. in_Name j = in_Name i) (db_Interfaces db)") (auto simp: find_None_iff)
  then have "j \<in> set (db_Interfaces db)" "in_Name j = in_Name i" by (auto simp: find_interface_def find_Some_iff)
  then have "j = i" using a by (auto simp: intact_def distinct_map inj_on_def)
  then show ?thesis using j by simp
qed

lemma find_bridge_intact: "intact db \<Longrightarrow> b \<in> set (db_Bridges db) \<Longrightarrow> find_bridge db (be_Name b) = Some b"
proof -
  assume a: "intact db" "b \<in> set (db_Bridges db)"
  obtain j where j: "find_bridge db (be_Name b) = Some j" using a(2) unfolding find_bridge_def
    by (cases "find (\<lambda>j. be_Name j = be_Name b) (db_Bridges db)") (auto simp: find_None_iff)
  then have "j \<in> set (db_Bridges db)" "be_Name j = be_Name b" by (auto simp: find_bridge_def find_Some_iff)
  then have "j = b" using a by (auto simp: intact_def distinct_map inj_on_def)
  then show ?thesis using j by simp
qed

lemma configured_state:
  assumes "intact db" and "configured conf uplink db" and "oe_Uplinks conf = [uplink]"
  shows "current_state db conf = Some conf"
proof -
  obtain u i where h: "has_bridge conf u db" and a: "attached u i db" and n: "in_Name i = ue_Name uplink" "in_Error i = None"
    "uplink_config i uplink = uplink" using assms(2) unfolding configured_def by blast
  obtain b where b: "b \<in> set (db_Bridges db)" "be_UUID b = u" "be_Name b = oe_Name conf" "bridge_config b conf = oe_Bridge conf"
    using h unfolding has_bridge_defs by blast
  obtain b' p where i: "i \<in> set (db_Interfaces db)" and b': "b' \<in> set (db_Bridges db)" "be_UUID b' = u"
    and p: "find (\<lambda>p. in_UUID i \<in> set (po_Interfaces p)) (db_Ports db) = Some p" "HasPort b' (po_UUID p)"
    using a unfolding attached_def by blast
  have "b' = b" using b(1,2) b' assms(1) by (auto simp: intact_def distinct_map inj_on_def)
  then have "uplink_state db b [uplink] = [uplink]"
    using find_interface_intact[OF assms(1) i] n p by (simp add: uplink_state_def)
  moreover have "find_bridge db (oe_Name conf) = Some b" using find_bridge_intact[OF assms(1) b(1)] b(3) by simp
  ultimately show ?thesis using b(3,4) assms(3) by (simp add: current_state_def)
qed

lemma bridge_config_again: "oe_Bridge conf = bridge_config b known \<Longrightarrow> bridge_config b conf = bridge_config b known"
  by (simp add: bridge_config_def updateMap_again)

lemma uplink_config_again: "uplink_config i (uplink_config i up) = uplink_config i up"
  by (simp add: uplink_config_def updateMap_again)

lemma state_again:
  assumes "current_state db known = Some conf"
  shows "current_state db conf = Some conf"
proof -
  obtain b where b: "find_bridge db (oe_Name known) = Some b"
    and c: "conf = \<lparr>oe_Name = be_Name b, oe_Bridge = bridge_config b known, oe_Uplinks = uplink_state db b (oe_Uplinks known)\<rparr>"
    using assms by (auto simp: current_state_def split: option.splits)
  have nm: "be_Name b = oe_Name known" using b by (auto simp: find_bridge_def find_Some_iff)
  have "bridge_config b conf = bridge_config b known" by (rule bridge_config_again) (simp add: c)
  moreover have "uplink_state db b (oe_Uplinks conf) = oe_Uplinks conf"
    unfolding c by (auto simp: uplink_state_def uplink_config_again split: list.splits option.splits)
      (simp_all add: uplink_config_def updateMap_again)
  ultimately show ?thesis using b nm by (simp add: current_state_def c)
qed

section \<open>The store\<close>

text \<open>What the store holds, and that every configuration is stored under its name.\<close>

definition stored :: "ovs_store \<Rightarrow> bridge_map" where
  "stored c = (case c of (Some m, _) \<Rightarrow> m | (None, Some m) \<Rightarrow> m | (None, None) \<Rightarrow> [])"

definition keyed :: "bridge_map \<Rightarrow> bool" where
  "keyed m \<longleftrightarrow> (\<forall>k v. map_of m k = Some v \<longrightarrow> oe_Name v = k)"

definition remembers :: "OVSConfigExt \<Rightarrow> ovs_store \<Rightarrow> bool" where
  "remembers conf c \<longleftrightarrow> (\<exists>m. fst c = Some m \<and> keyed m \<and> map_of m (oe_Name conf) = Some conf)"

lemma gives_load:
  "gives (\<lambda>db c. P db \<and> keyed (stored c)) (ensureCacheIsLoaded env) (\<lambda>m db c. P db \<and> fst c = Some m \<and> keyed m)"
  by (rule io_tripleI)
    (auto simp: ensureCacheIsLoaded_def readStoreFile_def file_call_def set_cache_def io_run_defs on_def stored_def Let_def
      split: option.splits prod.splits)

lemma gives_lookup:
  "gives (\<lambda>db c. P db \<and> keyed (stored c)) (GetManagedOVSBridge env nm)
     (\<lambda>x db c. P db \<and> (\<exists>m. fst c = Some m \<and> keyed m \<and> map_of m nm = x))"
  unfolding GetManagedOVSBridge_def by (intro gives_bind[OF gives_load] gives_return) auto

lemma gives_store:
  assumes "keyed new"
  shows "gives (\<lambda>db c. P db) (store_map env old new) (\<lambda>_ db c. P db \<and> fst c = Some new \<and> keyed new)"
  using assms by (intro io_tripleI)
    (auto simp: store_map_def writeStoreFile_def file_call_def set_cache_def io_run_defs on_def Let_def
      split: option.splits prod.splits)

lemma gives_remember: "gives (\<lambda>db c. P db \<and> keyed (stored c)) (AddManagedOVSBridge env conf) (\<lambda>_ db c. P db \<and> remembers conf c)"
  unfolding AddManagedOVSBridge_def
proof (rule gives_bind[OF gives_load])
  fix m
  show "gives (\<lambda>db c. P db \<and> fst c = Some m \<and> keyed m) (store_map env m (AList.update (oe_Name conf) conf m)) (\<lambda>_ db c. P db \<and> remembers conf c)"
  proof (rule gives_pure[where b = "keyed m"])
    assume "keyed m"
    then have "keyed (AList.update (oe_Name conf) conf m)" by (auto simp: keyed_def update_conv')
    then show "gives (\<lambda>db c. P db \<and> fst c = Some m \<and> keyed m) (store_map env m (AList.update (oe_Name conf) conf m)) (\<lambda>_ db c. P db \<and> remembers conf c)"
      by (intro gives_conseq[OF gives_store[where P = P]]) (auto simp: remembers_def update_conv')
  qed simp
qed

section \<open>The contract of creation\<close>

text \<open>The bridge is current and remembered.\<close>

abbreviation created :: "OVSConfigExt \<Rightarrow> unit \<Rightarrow> ovsdb \<Rightarrow> ovs_store \<Rightarrow> bool" where
  "created conf \<equiv> \<lambda>_ db c. current_state db conf = Some conf \<and> remembers conf c"

lemma gives_again:
  assumes "undisturbed env" "ovsdb_server (ov_Transact env)" and "oe_Uplinks conf = [uplink]"
  shows "gives (\<lambda>db c. intact db \<and> remembers conf c \<and> (keep \<longrightarrow> (\<exists>u. has_bridge conf u db))) (recreate env conf uplink keep) (created conf)"
  by (rule gives_conseq[OF gives_recreate[OF assms(1,2), where C = "remembers conf"]]) (auto simp: good_def configured_state[OF _ _ assms(3)])

lemma kept_bridge:
  assumes "intact db" and "current_state db known = Some cur" and "oe_Name known = oe_Name conf" "oe_Bridge conf = oe_Bridge cur"
  shows "\<exists>u. has_bridge conf u db"
proof -
  obtain b where b: "find_bridge db (oe_Name known) = Some b" "oe_Bridge cur = bridge_config b known"
    using assms(2) by (auto simp: current_state_def split: option.splits)
  then have "b \<in> set (db_Bridges db)" "be_Name b = oe_Name conf" using assms(3) by (auto simp: find_bridge_def find_Some_iff)
  moreover have "bridge_config b conf = oe_Bridge conf" using bridge_config_again[of conf b known] b(2) assms(4) by simp
  ultimately show ?thesis using assms(1) by (auto simp: has_bridge_defs intact_def list_all_iff)
qed

lemma gives_reconfigure:
  assumes "undisturbed env" "ovsdb_server (ov_Transact env)" and "oe_Uplinks conf = [uplink]" and "oe_Name known = oe_Name conf"
  shows "gives (\<lambda>db c. intact db \<and> remembers conf c)
      (io_bind (getCurrentBridgeState env known) (\<lambda>currentState.
         case currentState of
           None \<Rightarrow> recreate env conf uplink False
         | Some cur \<Rightarrow> if cur = conf then io_return () else recreate env conf uplink (oe_Bridge conf = oe_Bridge cur))) (created conf)"
proof (rule gives_bind[OF gives_state[OF assms(1)]])
  fix x
  show "gives (\<lambda>db c. (intact db \<and> remembers conf c) \<and> x = current_state db known)
      (case x of None \<Rightarrow> recreate env conf uplink False
       | Some cur \<Rightarrow> if cur = conf then io_return () else recreate env conf uplink (oe_Bridge conf = oe_Bridge cur)) (created conf)"
    using assms(4) by (auto split: option.splits intro!: gives_return gives_conseq[OF gives_again[OF assms(1-3)]]
      state_again[OF sym] kept_bridge[of _ known])
qed

lemma gives_note:
  "gives (\<lambda>db c. intact db \<and> (\<exists>m. fst c = Some m \<and> keyed m \<and> map_of m (oe_Name conf) = x))
      (io_when (x \<noteq> Some conf) (AddManagedOVSBridge env conf)) (\<lambda>_ db c. intact db \<and> remembers conf c)"
proof (cases "x = Some conf")
  case False
  then show ?thesis
    by (simp add: io_when_def) (rule gives_conseq[OF gives_remember[where P = intact]], auto simp: stored_def split: prod.splits)
qed (auto simp: io_when_def remembers_def intro!: gives_return)

lemma gives_after_lookup:
  assumes "undisturbed env" "ovsdb_server (ov_Transact env)" and "oe_Uplinks conf = [uplink]"
  shows "gives (\<lambda>db c. intact db \<and> (\<exists>m. fst c = Some m \<and> keyed m \<and> map_of m (oe_Name conf) = x))
    (io_bind (io_when (x \<noteq> Some conf) (AddManagedOVSBridge env conf)) (\<lambda>_.
       case x of
         None \<Rightarrow> recreate env conf uplink False
       | Some known \<Rightarrow>
           io_bind (getCurrentBridgeState env known) (\<lambda>currentState.
             case currentState of
               None \<Rightarrow> recreate env conf uplink False
             | Some cur \<Rightarrow> if cur = conf then io_return () else recreate env conf uplink (oe_Bridge conf = oe_Bridge cur)))) (created conf)"
proof (rule gives_pure[where b = "\<forall>k. x = Some k \<longrightarrow> oe_Name k = oe_Name conf"])
  have fresh: "gives (\<lambda>db c. intact db \<and> remembers conf c) (recreate env conf uplink False) (created conf)"
    by (rule gives_conseq[OF gives_again[OF assms]]) simp_all
  assume nm: "\<forall>k. x = Some k \<longrightarrow> oe_Name k = oe_Name conf"
  show "gives (\<lambda>db c. intact db \<and> (\<exists>m. fst c = Some m \<and> keyed m \<and> map_of m (oe_Name conf) = x))
    (io_bind (io_when (x \<noteq> Some conf) (AddManagedOVSBridge env conf)) (\<lambda>_.
       case x of
         None \<Rightarrow> recreate env conf uplink False
       | Some known \<Rightarrow>
           io_bind (getCurrentBridgeState env known) (\<lambda>currentState.
             case currentState of
               None \<Rightarrow> recreate env conf uplink False
             | Some cur \<Rightarrow> if cur = conf then io_return () else recreate env conf uplink (oe_Bridge conf = oe_Bridge cur)))) (created conf)"
  proof (cases x)
    case None
    show ?thesis unfolding None option.case by (rule gives_bind[OF gives_note fresh])
  next
    case (Some k)
    then have "oe_Name k = oe_Name conf" using nm by simp
    then show ?thesis unfolding Some option.case by (rule gives_bind[OF gives_note gives_reconfigure[OF assms]])
  qed
next
  show "\<forall>k. x = Some k \<longrightarrow> oe_Name k = oe_Name conf"
    if "intact db \<and> (\<exists>m. fst c = Some m \<and> keyed m \<and> map_of m (oe_Name conf) = x)" for db and c :: ovs_store
    using that by (auto simp: keyed_def)
qed

lemma gives_create_bridge:
  assumes e: "undisturbed env" "ovsdb_server (ov_Transact env)"
  shows "gives (\<lambda>db c. intact db \<and> keyed (stored c)) (CreateOVSBridge env conf) (created conf)"
proof (cases "\<exists>uplink. oe_Uplinks conf = [uplink]")
  case True
  then obtain uplink where up: "oe_Uplinks conf = [uplink]" by blast
  have client: "gives (\<lambda>db c. intact db \<and> keyed (stored c)) (getClient env) (\<lambda>_ db c. intact db \<and> keyed (stored c))"
    unfolding getClient_def by (rule gives_conseq[OF gives_read[OF e(1)]]) auto
  show ?thesis unfolding CreateOVSBridge_def up list.case
    by (intro gives_bind[OF client] gives_bind[OF gives_lookup] gives_after_lookup[OF e up])
next
  case False
  then show ?thesis by (auto simp: CreateOVSBridge_def split: list.splits intro!: gives_fail)
qed

text \<open>An environment in which no call fails and no other program changes the tables.\<close>

definition calm :: "ovs_env \<Rightarrow> bool" where
  "calm env \<longleftrightarrow> (\<forall>n. ov_Fail env n = None) \<and> undisturbed env"

lemma calm_read: "calm env \<Longrightarrow> ovs_read env f w = (Inr (f (ow_Db w)), w\<lparr>ow_Calls := ow_Calls w + 1\<rparr>)"
  by (simp add: calm_def undisturbed_def ovs_read_def ovs_call_def Let_def)

lemma calm_state: "calm env \<Longrightarrow> \<exists>n. getCurrentBridgeState env known w = (Inr (current_state (ow_Db w) known), w\<lparr>ow_Calls := n\<rparr>)"
  unfolding getCurrentBridgeState_def getBridgeByName_def getInterfaceByName_def getPortByInterface_def
  by (auto simp: calm_read io_bind_def io_return_def Let_def current_state_def uplink_state_def split: option.splits list.splits)

lemma calm_create:
  assumes "calm env" and "current_state (ow_Db w) conf = Some conf" and "remembers conf (ow_Cache w, ow_File w)"
    and "oe_Uplinks conf = [uplink]"
  shows "\<exists>n. CreateOVSBridge env conf w = (Inr (), w\<lparr>ow_Calls := n\<rparr>)"
proof -
  obtain m where m: "ow_Cache w = Some m" "map_of m (oe_Name conf) = Some conf" using assms(3) by (auto simp: remembers_def)
  obtain n where n: "getCurrentBridgeState env conf (w\<lparr>ow_Calls := Suc (ow_Calls w)\<rparr>) = (Inr (Some conf), w\<lparr>ow_Calls := n\<rparr>)"
    using calm_state[OF assms(1), of conf "w\<lparr>ow_Calls := Suc (ow_Calls w)\<rparr>"] assms(2) by auto
  show ?thesis using m n
    by (intro exI[of _ n]) (simp add: CreateOVSBridge_def assms(4) getClient_def calm_read[OF assms(1)] GetManagedOVSBridge_def ensureCacheIsLoaded_def io_run_defs)
qed

text \<open>
  C8: A created bridge is the requested one. When creating a bridge succeeds, whatever existed before, with bridges or uplinks
  in the way, also when other calls failed in earlier attempts, then the query of the managed bridge reports exactly the
  requested configuration with its uplink, and creating it again succeeds and changes neither the database nor the store.
\<close>

theorem created_bridge_is_current:
  assumes "undisturbed env" and "ovsdb_server (ov_Transact env)" and "intact (ow_Db w)" and "keyed (stored (ow_Cache w, ow_File w))"
    and "CreateOVSBridge env conf w = (Inr (), w')" and "calm env'"
  shows "(\<exists>n. getCurrentBridgeState env' conf w' = (Inr (Some conf), w'\<lparr>ow_Calls := n\<rparr>)) \<and>
    (\<exists>n. CreateOVSBridge env' conf w' = (Inr (), w'\<lparr>ow_Calls := n\<rparr>))"
proof -
  have "on (\<lambda>db c. intact db \<and> keyed (stored c)) w" using assms(3,4) by (simp add: on_def)
  from io_tripleD[OF gives_create_bridge[OF assms(1,2)] this assms(5)]
  have c: "current_state (ow_Db w') conf = Some conf" "remembers conf (ow_Cache w', ow_File w')" by (simp_all add: on_def)
  obtain uplink where up: "oe_Uplinks conf = [uplink]"
    using assms(5) by (auto simp: CreateOVSBridge_def io_fail_def split: list.splits)
  show ?thesis using calm_state[OF assms(6), of conf w'] c(1) calm_create[OF assms(6) c up] by simp
qed

definition ref_transact :: "ovs_op list \<Rightarrow> ovsdb \<Rightarrow> string + ovsdb" where
  "ref_transact ops db =
     (if intact (ovsdb_apply ops db) \<and> list_all (new_uuid db) ops then Inr (ovsdb_apply ops db) else Inl ''constraint violation'')"

definition sample_ovs_env :: ovs_env where
  "sample_ovs_env = \<lparr>ov_Fail = (\<lambda>_. None), ov_Others = (\<lambda>_ db. db), ov_Transact = ref_transact,
     ov_NewString = (\<lambda>n. replicate n (CHR ''u'')), ov_Order = (\<lambda>m. m)\<rparr>"

definition sample_ovs_world :: ovs_world where
  "sample_ovs_world = \<lparr>ow_Db = \<lparr>db_Root = [\<lparr>ovs_UUID = ''root'', ovs_Bridges = []\<rparr>], db_Bridges = [], db_Interfaces = [], db_Ports = []\<rparr>,
     ow_Cache = None, ow_File = None, ow_Calls = 0\<rparr>"

definition sample_ovs_conf :: OVSConfigExt where
  "sample_ovs_conf = \<lparr>oe_Name = ''br0'',
     oe_Bridge = \<lparr>br_DatapathType = ''netdev'', br_ExternalIDs = Map.empty, br_OtherConfig = Map.empty, br_FailMode = []\<rparr>,
     oe_Uplinks = [\<lparr>ue_PciAddress = ''0000:3b:00.0'', ue_Name = ''ens1'',
       ue_Interface = \<lparr>oi_Type = [], oi_Options = Map.empty, oi_ExternalIDs = Map.empty, oi_OtherConfig = Map.empty, oi_MTURequest = None\<rparr>\<rparr>]\<rparr>"

definition sample_ovs_noted :: ovs_world where
  "sample_ovs_noted = sample_ovs_world\<lparr>ow_Cache := Some [(''br0'', sample_ovs_conf)], ow_File := Some [(''br0'', sample_ovs_conf)], ow_Calls := 4\<rparr>"

lemma sample_ovs_started:
  "CreateOVSBridge sample_ovs_env sample_ovs_conf sample_ovs_world =
     recreate sample_ovs_env sample_ovs_conf (hd (oe_Uplinks sample_ovs_conf)) False sample_ovs_noted"
  by (simp add: CreateOVSBridge_def getClient_def GetManagedOVSBridge_def ensureCacheIsLoaded_def readStoreFile_def
    writeStoreFile_def file_call_def set_cache_def store_map_def AddManagedOVSBridge_def ovs_read_def ovs_call_def io_run_defs
    sample_ovs_env_def sample_ovs_world_def sample_ovs_conf_def sample_ovs_noted_def Let_def eval_nat_numeral)

lemma sample_ovs_created: "fst (CreateOVSBridge sample_ovs_env sample_ovs_conf sample_ovs_world) = Inr ()"
  unfolding sample_ovs_started by code_simp

theorem created_bridge_is_current_witness:
  "\<exists>n w'. CreateOVSBridge sample_ovs_env sample_ovs_conf sample_ovs_world = (Inr (), w') \<and>
     getCurrentBridgeState sample_ovs_env sample_ovs_conf w' = (Inr (Some sample_ovs_conf), w'\<lparr>ow_Calls := n\<rparr>)"
proof -
  obtain w' where w': "CreateOVSBridge sample_ovs_env sample_ovs_conf sample_ovs_world = (Inr (), w')"
    using sample_ovs_created by (cases "CreateOVSBridge sample_ovs_env sample_ovs_conf sample_ovs_world") simp
  have e: "undisturbed sample_ovs_env" "calm sample_ovs_env" "ovsdb_server (ov_Transact sample_ovs_env)"
    by (simp_all add: undisturbed_def calm_def sample_ovs_env_def ovsdb_server_def ref_transact_def)
  have i: "intact (ow_Db sample_ovs_world)" "keyed (stored (ow_Cache sample_ovs_world, ow_File sample_ovs_world))"
    by (simp_all add: sample_ovs_world_def intact_def stored_def keyed_def)
  from created_bridge_is_current[OF e(1,3) i w' e(2)] show ?thesis using w' by blast
qed

end
