(* ===== verification/Ovs_Safety.thy ===== *)
theory Ovs_Safety
  imports Ovs_Bridges
begin

text \<open>
  What the functions on managed bridges leave alone: a bridge that is neither requested nor in the store keeps its row,
  whichever calls fail. The store itself survives a restart.
\<close>

section \<open>Foreign bridges\<close>

abbreviation same_bridge :: "BridgeEntry \<Rightarrow> BridgeEntry \<Rightarrow> bool" where
  "same_bridge b0 b \<equiv> b\<lparr>be_Ports := []\<rparr> = b0\<lparr>be_Ports := []\<rparr>"

definition foreign_kept :: "BridgeEntry \<Rightarrow> ovs_world \<Rightarrow> bool" where
  "foreign_kept b0 w \<longleftrightarrow>
     intact (ow_Db w) \<and> has_row (same_bridge b0) (be_UUID b0) (ow_Db w) \<and>
     keyed (stored (ow_Cache w, ow_File w)) \<and> map_of (stored (ow_Cache w, ow_File w)) (be_Name b0) = None"

lemma kept_other_uuid:
  assumes "foreign_kept b0 w" and "find_bridge (ow_Db w) nm = Some b" and "nm \<noteq> be_Name b0"
  shows "be_UUID b \<noteq> be_UUID b0"
proof
  assume u: "be_UUID b = be_UUID b0"
  obtain b1 where b1: "b1 \<in> set (db_Bridges (ow_Db w))" "be_UUID b1 = be_UUID b0" "same_bridge b0 b1"
    using assms(1) by (auto simp: foreign_kept_def has_row_def)
  have b: "b \<in> set (db_Bridges (ow_Db w))" "be_Name b = nm" using assms(2) by (auto simp: find_bridge_def find_Some_iff)
  have "b = b1" using b(1) b1(1,2) u assms(1) by (auto simp: foreign_kept_def intact_def distinct_map inj_on_def)
  moreover have "be_Name b1 = be_Name b0" using arg_cong[OF b1(3), of be_Name] by simp
  ultimately show False using b(2) assms(3) by simp
qed

abbreviation keeps_foreign :: "BridgeEntry \<Rightarrow> 'a ovs_io \<Rightarrow> bool" where
  "keeps_foreign b0 \<equiv> io_keeps (foreign_kept b0)"

lemma kept_calls [simp]: "foreign_kept b0 (w\<lparr>ow_Calls := n\<rparr>) = foreign_kept b0 w"
  by (simp add: foreign_kept_def)

lemma kept_tables: "foreign_kept b0 w \<Longrightarrow> intact db \<and> has_row (same_bridge b0) (be_UUID b0) db \<Longrightarrow> foreign_kept b0 (w\<lparr>ow_Calls := n, ow_Db := db\<rparr>)"
  by (simp add: foreign_kept_def)

lemma undisturbed_call:
  assumes "undisturbed env"
  shows "snd (ovs_call env f w) = w\<lparr>ow_Calls := ow_Calls w + 1\<rparr> \<or>
    (\<exists>x db. f (ow_Db w) = Inr (x, db) \<and> snd (ovs_call env f w) = w\<lparr>ow_Calls := ow_Calls w + 1, ow_Db := db\<rparr>)"
proof (cases "f (ow_Db w)")
  case (Inr p)
  then show ?thesis using assms by (cases p) (simp add: ovs_call_def undisturbed_def Let_def split: option.split)
qed (use assms in \<open>simp add: ovs_call_def undisturbed_def Let_def split: option.split\<close>)

lemma keeps_call:
  assumes "undisturbed env"
    and "\<And>w x db. foreign_kept b0 w \<Longrightarrow> f (ow_Db w) = Inr (x, db) \<Longrightarrow> intact db \<and> has_row (same_bridge b0) (be_UUID b0) db"
  shows "keeps_foreign b0 (ovs_call env f)"
proof (rule io_keepsI)
  fix w assume w: "foreign_kept b0 w"
  from undisturbed_call[OF assms(1), of f w] show "foreign_kept b0 (snd (ovs_call env f w))"
  proof (elim disjE exE conjE)
    fix x db assume f: "f (ow_Db w) = Inr (x, db)"
      and s: "snd (ovs_call env f w) = w\<lparr>ow_Calls := ow_Calls w + 1, ow_Db := db\<rparr>"
    show ?thesis unfolding s by (rule kept_tables[OF w assms(2)[OF w f]])
  qed (simp add: w)
qed

lemma keeps_read: "undisturbed env \<Longrightarrow> keeps_foreign b0 (ovs_read env f)"
  unfolding ovs_read_def by (rule keeps_call) (auto simp: foreign_kept_def)

lemma keeps_exec:
  assumes "undisturbed env" and "ovsdb_server (ov_Transact env)" and "list_all (spares (be_UUID b0)) ops"
  shows "keeps_foreign b0 (execTransaction env ops)"
  unfolding execTransaction_def
proof (rule keeps_call[OF assms(1)])
  fix w x db assume w: "foreign_kept b0 w"
    and t: "(case ov_Transact env ops (ow_Db w) of Inl e \<Rightarrow> Inl (OvsFailed e) | Inr db' \<Rightarrow> Inr ((), db')) = Inr (x, db)"
  then have "ov_Transact env ops (ow_Db w) = Inr db" by (auto split: sum.splits)
  then have "db = ovsdb_apply ops (ow_Db w)" "intact db" using assms(2) by (auto simp: ovsdb_server_def)
  moreover have "has_row (same_bridge b0) (be_UUID b0) (ovsdb_apply ops (ow_Db w))"
    by (rule has_row_apply) (use w assms(3) in \<open>auto simp: foreign_kept_def port_blind_def\<close>)
  ultimately show "intact db \<and> has_row (same_bridge b0) (be_UUID b0) db" by simp
qed

lemma keeps_uuid: "keeps_foreign b0 (NewString env)"
  by (rule io_keepsI) (simp add: NewString_def foreign_kept_def)

section \<open>Queries and changes\<close>

lemma keeps_option: "(x = None \<Longrightarrow> io_keeps I m) \<Longrightarrow> (\<And>y. x = Some y \<Longrightarrow> io_keeps I (f y)) \<Longrightarrow>
    io_keeps I (case x of None \<Rightarrow> m | Some y \<Rightarrow> f y)"
  by (cases x) auto

lemmas keeps_queries = keeps_return keeps_fail keeps_if keeps_when keeps_option keeps_uuid keeps_gets

lemma keeps_root: "undisturbed env \<Longrightarrow> keeps_foreign b0 (getRootObj env)"
  unfolding getRootObj_def by (intro keeps_bind keeps_read) (auto split: list.splits intro: keeps_return keeps_fail)

lemma keeps_state: "undisturbed env \<Longrightarrow> keeps_foreign b0 (getCurrentBridgeState env known)"
  unfolding getCurrentBridgeState_def getBridgeByName_def getInterfaceByName_def getPortByInterface_def Let_def
  by (intro keeps_bind keeps_read keeps_queries; (assumption | simp)?)
    (auto split: list.splits intro!: keeps_bind keeps_read keeps_queries)

lemma keeps_delete_interface:
  assumes "undisturbed env" "ovsdb_server (ov_Transact env)"
  shows "keeps_foreign b0 (deleteInterfaceByName env nm)"
  unfolding deleteInterfaceByName_def getInterfaceByName_def getPortByInterface_def getBridgeByPort_def
  by (intro keeps_bind keeps_read[OF assms(1)] keeps_queries keeps_exec[OF assms]) (auto split: option.splits)

lemma keeps_check: "undisturbed env \<Longrightarrow> keeps_foreign b0 (check_interface env nm n)"
  by (induction n) (auto simp: getInterfaceByName_def split: option.splits intro!: keeps_bind keeps_read keeps_queries)

lemma keeps_add:
  assumes "undisturbed env" "ovsdb_server (ov_Transact env)"
  shows "keeps_foreign b0 (addInterface env br i)"
  unfolding addInterface_def by (intro keeps_bind keeps_uuid keeps_exec[OF assms] keeps_check[OF assms(1)]) simp

lemma keeps_create:
  assumes "undisturbed env" "ovsdb_server (ov_Transact env)"
  shows "keeps_foreign b0 (createBridge env br)"
  unfolding createBridge_def by (intro keeps_bind keeps_root[OF assms(1)] keeps_exec[OF assms]) simp

lemma keeps_internal:
  assumes "undisturbed env" "ovsdb_server (ov_Transact env)"
  shows "keeps_foreign b0 (ensureInternalInterface env br)"
  unfolding ensureInternalInterface_def getInterfaceByName_def Let_def
  by (intro keeps_bind keeps_read[OF assms(1)] keeps_queries keeps_add[OF assms] keeps_delete_interface[OF assms])

text \<open>A bridge is removed by the UUID of the row that was read, which is not that of the foreign bridge.\<close>

lemma keeps_delete_bridge:
  assumes e: "undisturbed env" "ovsdb_server (ov_Transact env)" and "nm \<noteq> be_Name b0"
  shows "keeps_foreign b0 (deleteBridgeByName env nm)"
proof (rule io_keepsI)
  fix w assume w: "foreign_kept b0 w"
  obtain r w1 where r: "getBridgeByName env nm w = (r, w1)" by (cases "getBridgeByName env nm w")
  have w1: "foreign_kept b0 w1" using io_keepsD[OF keeps_read[OF e(1)] w] r unfolding getBridgeByName_def by blast
  have x: "r = Inr x \<Longrightarrow> x = find_bridge (ow_Db w) nm" for x
    using r e(1) by (auto simp: getBridgeByName_def ovs_read_def ovs_call_def undisturbed_def Let_def split: option.splits)
  have del: "keeps_foreign b0 (io_bind (getRootObj env) (\<lambda>rootObj.
      execTransaction env [DeleteBridge (be_UUID br), RootDelete (ovs_UUID rootObj) (be_UUID br)]))"
    if "find_bridge (ow_Db w) nm = Some br" for br
    by (intro keeps_bind keeps_root[OF e(1)] keeps_exec[OF e]) (use kept_other_uuid[OF w that assms(3)] in simp)
  show "foreign_kept b0 (snd (deleteBridgeByName env nm w))"
    using r w1 x del unfolding deleteBridgeByName_def
    by (cases r) (auto simp: io_bind_def[of "getBridgeByName env nm"] io_return_def io_keeps_def split: option.splits)
qed

lemma keeps_recreate:
  assumes e: "undisturbed env" "ovsdb_server (ov_Transact env)" and "oe_Name conf \<noteq> be_Name b0"
  shows "keeps_foreign b0 (recreate env conf uplink keep)"
  unfolding recreate_def getBridgeByName_def
  by (intro keeps_bind keeps_read[OF e(1)] keeps_queries keeps_add[OF e] keeps_delete_interface[OF e] keeps_internal[OF e]
    keeps_create[OF e] keeps_delete_bridge[OF e assms(3)])

section \<open>The store\<close>

text \<open>A change of the store writes the file while the cache holds the new map; a failure puts the old map back.\<close>

definition lacks :: "string \<Rightarrow> bridge_map \<Rightarrow> bool" where
  "lacks nm m \<longleftrightarrow> keyed m \<and> map_of m nm = None"

lemma kept_cache: "foreign_kept b0 w \<Longrightarrow> lacks (be_Name b0) m \<Longrightarrow> foreign_kept b0 (w\<lparr>ow_Cache := Some m\<rparr>)"
  by (simp add: foreign_kept_def lacks_def stored_def)

lemma kept_cache_file: "foreign_kept b0 w \<Longrightarrow> lacks (be_Name b0) m \<Longrightarrow> foreign_kept b0 (w\<lparr>ow_Cache := Some m, ow_Calls := n, ow_File := file\<rparr>)"
  by (simp add: foreign_kept_def lacks_def stored_def)

lemma keeps_store:
  assumes "lacks (be_Name b0) old" and "lacks (be_Name b0) new"
  shows "keeps_foreign b0 (store_map env old new)"
proof (rule io_keepsI)
  fix w assume w: "foreign_kept b0 w"
  show "foreign_kept b0 (snd (store_map env old new w))"
    using kept_cache[OF w assms(1)] kept_cache_file[OF w assms(2)]
    by (cases "ov_Fail env (ow_Calls w)")
      (simp_all add: store_map_def writeStoreFile_def file_call_def set_cache_def io_run_defs Let_def foreign_kept_def)
qed

lemma load_foreign:
  "io_triple (foreign_kept b0) (ensureCacheIsLoaded env) (\<lambda>m w. lacks (be_Name b0) m \<and> foreign_kept b0 w) (foreign_kept b0)"
  by (rule io_tripleI)
    (auto simp: ensureCacheIsLoaded_def readStoreFile_def file_call_def set_cache_def io_run_defs stored_def Let_def lacks_def
      foreign_kept_def split: option.splits prod.splits)

lemma keeps_triple: "io_keeps I m \<longleftrightarrow> io_triple I m (\<lambda>_. I) I"
proof -
  have "(case p of (Inl e, s) \<Rightarrow> I s | (Inr x, s) \<Rightarrow> I s) = I (snd p)" for p :: "('b + 'c) \<times> 'a"
    by (cases p; cases "fst p") auto
  then show ?thesis unfolding io_keeps_def io_triple_def by simp
qed

lemma keeps_load:
  assumes "\<And>m. lacks (be_Name b0) m \<Longrightarrow> keeps_foreign b0 (f m)"
  shows "keeps_foreign b0 (io_bind (ensureCacheIsLoaded env) f)"
  unfolding keeps_triple
proof (rule io_triple_bind[OF load_foreign])
  fix m
  show "io_triple (\<lambda>w. lacks (be_Name b0) m \<and> foreign_kept b0 w) (f m) (\<lambda>_. foreign_kept b0) (foreign_kept b0)"
    using assms[of m] unfolding keeps_triple by (auto simp: io_triple_def)
qed

lemma keeps_note: "oe_Name conf \<noteq> be_Name b0 \<Longrightarrow> keeps_foreign b0 (AddManagedOVSBridge env conf)"
  unfolding AddManagedOVSBridge_def by (intro keeps_load keeps_store) (auto simp: lacks_def keyed_def update_conv')

lemma keeps_forget: "keeps_foreign b0 (RemoveManagedOVSBridge env nm)"
  unfolding RemoveManagedOVSBridge_def by (intro keeps_load keeps_store) (auto simp: lacks_def keyed_def delete_conv')

text \<open>What is found under a name has this name, which is not that of the foreign bridge.\<close>

lemma keeps_lookup:
  assumes "\<And>x. (\<And>c. x = Some c \<Longrightarrow> oe_Name c = nm \<and> nm \<noteq> be_Name b0) \<Longrightarrow> keeps_foreign b0 (f x)"
  shows "keeps_foreign b0 (io_bind (GetManagedOVSBridge env nm) f)"
proof -
  have "io_bind (GetManagedOVSBridge env nm) f = io_bind (ensureCacheIsLoaded env) (\<lambda>m. f (map_of m nm))"
    by (rule ext) (simp add: GetManagedOVSBridge_def io_bind_def io_return_def split: prod.split sum.split)
  moreover have "keeps_foreign b0 (io_bind (ensureCacheIsLoaded env) (\<lambda>m. f (map_of m nm)))"
    by (intro keeps_load assms) (auto simp: lacks_def keyed_def)
  ultimately show ?thesis by simp
qed

section \<open>The handlers\<close>

lemma keeps_client: "undisturbed env \<Longrightarrow> keeps_foreign b0 (getClient env)"
  unfolding getClient_def by (rule keeps_read)

lemma keeps_create_bridge:
  assumes e: "undisturbed env" "ovsdb_server (ov_Transact env)" and n: "oe_Name conf \<noteq> be_Name b0"
  shows "keeps_foreign b0 (CreateOVSBridge env conf)"
proof (cases "\<exists>uplink. oe_Uplinks conf = [uplink]")
  case True
  then obtain uplink where up: "oe_Uplinks conf = [uplink]" by blast
  show ?thesis unfolding CreateOVSBridge_def up list.case
    by (intro keeps_bind[of _ "getClient env"] keeps_client[OF e(1)] keeps_lookup keeps_bind keeps_queries keeps_note[OF n]
      keeps_state[OF e(1)] keeps_recreate[OF e n])
next
  case False
  then show ?thesis by (auto simp: CreateOVSBridge_def split: list.splits intro!: keeps_fail)
qed

lemma keeps_remove_bridge:
  assumes e: "undisturbed env" "ovsdb_server (ov_Transact env)"
  shows "keeps_foreign b0 (RemoveOVSBridge env nm)"
  unfolding RemoveOVSBridge_def
proof (rule keeps_lookup)
  fix x :: "OVSConfigExt option" assume x: "\<And>c. x = Some c \<Longrightarrow> oe_Name c = nm \<and> nm \<noteq> be_Name b0"
  show "keeps_foreign b0 (case x of None \<Rightarrow> io_return () | Some brConf \<Rightarrow>
      io_bind (getClient env) (\<lambda>_. io_bind (getCurrentBridgeState env brConf) (\<lambda>currentState.
      io_bind (io_when (currentState \<noteq> None) (deleteBridgeByName env (oe_Name brConf))) (\<lambda>_.
        RemoveManagedOVSBridge env (oe_Name brConf)))))"
    by (intro keeps_bind keeps_queries keeps_client[OF e(1)] keeps_state[OF e(1)] keeps_delete_bridge[OF e] keeps_forget) (use x in auto)
qed

lemma keeps_configure:
  assumes e: "undisturbed env" "ovsdb_server (ov_Transact env)"
    and n: "be_Name b0 \<notin> set (map oe_Name (bridges_OVS bridgesSpec))"
  shows "keeps_foreign b0 (ConfigureBridges env bridgesSpec bridgesStatus)"
  unfolding ConfigureBridges_def
  by (intro keeps_if keeps_bind keeps_each keeps_return keeps_remove_bridge[OF e] keeps_create_bridge[OF e]) (use n in \<open>metis imageI set_map\<close>)

text \<open>
  C9: Bridges of others are left alone. Configuring the bridges of a node, with whichever calls failing in between, keeps every
  bridge whose name is neither requested nor in the store of managed bridges: its row stays, with the same UUID, name
  and settings (its ports excepted, since a requested uplink is taken off the bridge it is on), and it does not become managed.
\<close>

theorem foreign_bridges_kept:
  assumes "undisturbed env" and "ovsdb_server (ov_Transact env)" and "intact (ow_Db w)" and "keyed (stored (ow_Cache w, ow_File w))"
    and "b0 \<in> set (db_Bridges (ow_Db w))" and "be_Name b0 \<notin> set (map oe_Name (bridges_OVS bridgesSpec))"
    and "map_of (stored (ow_Cache w, ow_File w)) (be_Name b0) = None"
    and "ConfigureBridges env bridgesSpec bridgesStatus w = (r, w')"
  shows "list_ex (\<lambda>b. b\<lparr>be_Ports := be_Ports b0\<rparr> = b0) (db_Bridges (ow_Db w')) \<and> rooted (ow_Db w') (be_UUID b0) \<and>
    map_of (stored (ow_Cache w', ow_File w')) (be_Name b0) = None"
proof -
  have "foreign_kept b0 w" using assms(3-5,7) by (auto simp: foreign_kept_def has_row_def intact_def list_all_iff)
  then have k: "foreign_kept b0 w'" by (rule io_keepsD[OF keeps_configure[OF assms(1,2,6)] _ assms(8)])
  then obtain b where b: "b \<in> set (db_Bridges (ow_Db w'))" "same_bridge b0 b" by (auto simp: foreign_kept_def has_row_def)
  have "b\<lparr>be_Ports := be_Ports b0\<rparr> = b0" using arg_cong[OF b(2), of "be_Ports_update (\<lambda>_. be_Ports b0)"] by simp
  then show ?thesis using b(1) k by (auto simp: list_ex_iff foreign_kept_def has_row_def)
qed

definition foreign_bridge :: BridgeEntry where
  "foreign_bridge = \<lparr>be_UUID = ''x'', be_Name = ''br-ext'', be_DatapathType = ''system'', be_ExternalIDs = Map.empty,
     be_OtherConfig = Map.empty, be_Ports = [], be_FailMode = Some ''secure''\<rparr>"

definition sample_foreign_world :: ovs_world where
  "sample_foreign_world = sample_ovs_noted\<lparr>ow_Db := (ow_Db sample_ovs_noted)
     \<lparr>db_Root := [\<lparr>ovs_UUID = ''root'', ovs_Bridges = [''x'']\<rparr>], db_Bridges := [foreign_bridge]\<rparr>\<rparr>"

theorem foreign_bridges_kept_witness:
  "list_ex (\<lambda>b. b\<lparr>be_Ports := be_Ports foreign_bridge\<rparr> = foreign_bridge)
     (db_Bridges (ow_Db (snd (ConfigureBridges sample_ovs_env \<lparr>bridges_OVS = []\<rparr> \<lparr>bridges_OVS = [sample_ovs_conf]\<rparr> sample_foreign_world))))"
proof -
  obtain r w' where w': "ConfigureBridges sample_ovs_env \<lparr>bridges_OVS = []\<rparr> \<lparr>bridges_OVS = [sample_ovs_conf]\<rparr> sample_foreign_world = (r, w')"
    by (cases "ConfigureBridges sample_ovs_env \<lparr>bridges_OVS = []\<rparr> \<lparr>bridges_OVS = [sample_ovs_conf]\<rparr> sample_foreign_world")
  have e: "undisturbed sample_ovs_env" "ovsdb_server (ov_Transact sample_ovs_env)"
    by (simp_all add: undisturbed_def sample_ovs_env_def ovsdb_server_def ref_transact_def)
  have i: "intact (ow_Db sample_foreign_world)" "keyed (stored (ow_Cache sample_foreign_world, ow_File sample_foreign_world))"
    "foreign_bridge \<in> set (db_Bridges (ow_Db sample_foreign_world))"
    "map_of (stored (ow_Cache sample_foreign_world, ow_File sample_foreign_world)) (be_Name foreign_bridge) = None"
    by (simp_all add: sample_foreign_world_def sample_ovs_noted_def sample_ovs_world_def foreign_bridge_def intact_def stored_def
      keyed_def rooted_def sample_ovs_conf_def)
  show ?thesis using foreign_bridges_kept[OF e i(1,2,3) _ i(4) w'] w' by simp
qed

end
