(* ===== verification/Manifests.thy ===== *)
theory Manifests
  imports Sriov_Prelude "HOL-Library.Finite_Map"
begin

text \<open>
  Objects of the API server as trees of maps, lists and strings, the accessors of \<^verbatim>\<open>unstructured\<close> that the operator uses on
  them, and the rules that merge an object of the cluster with its new version (\<^verbatim>\<open>src/pkg/apply/merge.go\<close>).
\<close>

section \<open>Objects\<close>

datatype json =
    JNull
  | JBool bool
  | JInt int
  | JStr string
  | JList "json list"
  | JMap "(string, json) fmap"

type_synonym uobj = "(string, json) fmap"

datatype manifest_error =
    NotAMap
  | NotAString
  | NotASlice
  | ManifestPanic
  | WebhookNameMissing
  | SecretsUnsupported

section \<open>Nested fields\<close>

fun nested_get :: "json \<Rightarrow> string list \<Rightarrow> manifest_error + json option" where
  "nested_get val [] = Inr (Some val)"
| "nested_get JNull (f # fs) = Inr None"
| "nested_get (JMap m) (f # fs) = (case fmlookup m f of None \<Rightarrow> Inr None | Some val \<Rightarrow> nested_get val fs)"
| "nested_get _ (f # fs) = Inl NotAMap"

definition NestedFieldNoCopy :: "uobj \<Rightarrow> string list \<Rightarrow> manifest_error + json option" where
  "NestedFieldNoCopy obj fields = nested_get (JMap obj) fields"

definition NestedString :: "uobj \<Rightarrow> string list \<Rightarrow> manifest_error + string option" where
  "NestedString obj fields =
     res_bind (NestedFieldNoCopy obj fields) (\<lambda>val.
       case val of None \<Rightarrow> Inr None | Some (JStr s) \<Rightarrow> Inr (Some s) | Some _ \<Rightarrow> Inl NotAString)"

definition NestedSlice :: "uobj \<Rightarrow> string list \<Rightarrow> manifest_error + json list option" where
  "NestedSlice obj fields =
     res_bind (NestedFieldNoCopy obj fields) (\<lambda>val.
       case val of None \<Rightarrow> Inr None | Some (JList l) \<Rightarrow> Inr (Some l) | Some _ \<Rightarrow> Inl NotASlice)"

text \<open>A nil map and an empty one are the same to all callers; an explicit null is an empty string.\<close>

fun coerced :: "json \<Rightarrow> string" where
  "coerced (JStr s) = s"
| "coerced _ = []"

fun is_string_or_null :: "json \<Rightarrow> bool" where
  "is_string_or_null (JStr s) = True"
| "is_string_or_null JNull = True"
| "is_string_or_null _ = False"

definition NestedNullCoercingStringMap :: "uobj \<Rightarrow> string list \<Rightarrow> manifest_error + (string, string) fmap" where
  "NestedNullCoercingStringMap obj fields =
     res_bind (NestedFieldNoCopy obj fields) (\<lambda>val.
       case val of
         None \<Rightarrow> Inr fmempty
       | Some JNull \<Rightarrow> Inr fmempty
       | Some (JMap m) \<Rightarrow> if fmpred (\<lambda>_. is_string_or_null) m then Inr (fmmap coerced m) else Inl NotAString
       | Some _ \<Rightarrow> Inl NotAMap)"

fun SetNestedField :: "uobj \<Rightarrow> json \<Rightarrow> string list \<Rightarrow> manifest_error + uobj" where
  "SetNestedField obj val [] = Inl ManifestPanic"
| "SetNestedField obj val [f] = Inr (fmupd f val obj)"
| "SetNestedField obj val (f # g # fs) =
     (case fmlookup obj f of
        None \<Rightarrow> res_bind (SetNestedField fmempty val (g # fs)) (\<lambda>m. Inr (fmupd f (JMap m) obj))
      | Some (JMap m) \<Rightarrow> res_bind (SetNestedField m val (g # fs)) (\<lambda>m. Inr (fmupd f (JMap m) obj))
      | Some _ \<Rightarrow> Inl NotAMap)"

fun RemoveNestedField :: "uobj \<Rightarrow> string list \<Rightarrow> uobj" where
  "RemoveNestedField obj [] = obj"
| "RemoveNestedField obj [f] = fmdrop f obj"
| "RemoveNestedField obj (f # g # fs) =
     (case fmlookup obj f of Some (JMap m) \<Rightarrow> fmupd f (JMap (RemoveNestedField m (g # fs))) obj | _ \<Rightarrow> obj)"

text \<open>Callers that ignore the error of a setter.\<close>

definition set_field :: "uobj \<Rightarrow> json \<Rightarrow> string list \<Rightarrow> uobj" where
  "set_field obj val fields = (case SetNestedField obj val fields of Inl _ \<Rightarrow> obj | Inr obj' \<Rightarrow> obj')"

section \<open>Metadata\<close>

definition getNestedString :: "uobj \<Rightarrow> string list \<Rightarrow> string" where
  "getNestedString obj fields = (case NestedString obj fields of Inr (Some s) \<Rightarrow> s | _ \<Rightarrow> [])"

definition GetName :: "uobj \<Rightarrow> string" where "GetName obj = getNestedString obj [''metadata'', ''name'']"
definition GetNamespace :: "uobj \<Rightarrow> string" where "GetNamespace obj = getNestedString obj [''metadata'', ''namespace'']"
definition GetKind :: "uobj \<Rightarrow> string" where "GetKind obj = getNestedString obj [''kind'']"
definition GetResourceVersion :: "uobj \<Rightarrow> string" where
  "GetResourceVersion obj = getNestedString obj [''metadata'', ''resourceVersion'']"

definition SetResourceVersion :: "string \<Rightarrow> uobj \<Rightarrow> uobj" where
  "SetResourceVersion v obj =
     (if v = [] then RemoveNestedField obj [''metadata'', ''resourceVersion'']
      else set_field obj (JStr v) [''metadata'', ''resourceVersion''])"

definition get_strings :: "string \<Rightarrow> uobj \<Rightarrow> (string, string) fmap" where
  "get_strings f obj = (case NestedNullCoercingStringMap obj [''metadata'', f] of Inl _ \<Rightarrow> fmempty | Inr m \<Rightarrow> m)"

definition set_strings :: "string \<Rightarrow> (string, string) fmap \<Rightarrow> uobj \<Rightarrow> uobj" where
  "set_strings f m obj = set_field obj (JMap (fmmap JStr m)) [''metadata'', f]"

abbreviation GetAnnotations :: "uobj \<Rightarrow> (string, string) fmap" where "GetAnnotations \<equiv> get_strings ''annotations''"
abbreviation GetLabels :: "uobj \<Rightarrow> (string, string) fmap" where "GetLabels \<equiv> get_strings ''labels''"
abbreviation SetAnnotations :: "(string, string) fmap \<Rightarrow> uobj \<Rightarrow> uobj" where "SetAnnotations \<equiv> set_strings ''annotations''"

definition GroupVersionKind :: "uobj \<Rightarrow> string \<times> string \<times> string" where
  "GroupVersionKind obj =
     (let gv = getNestedString obj [''apiVersion'']; kind = GetKind obj in
      if gv = [] \<or> gv = ''/'' then ([], [], kind)
      else case split_on (CHR ''/'') gv of
          [v] \<Rightarrow> ([], v, kind)
        | [g, v] \<Rightarrow> (g, v, kind)
        | _ \<Rightarrow> ([], [], []))"

definition of_kind :: "string \<Rightarrow> string \<Rightarrow> uobj \<Rightarrow> bool" where
  "of_kind g k obj = (case GroupVersionKind obj of (g', _, k') \<Rightarrow> g' = g \<and> k' = k)"

section \<open>Merging\<close>

definition mergeStrings :: "string \<Rightarrow> uobj \<Rightarrow> uobj \<Rightarrow> uobj" where
  "mergeStrings f current updated =
     (let m = fmadd (get_strings f current) (get_strings f updated) in
      if m = fmempty then updated else set_strings f m updated)"

definition mergeAnnotations :: "uobj \<Rightarrow> uobj \<Rightarrow> uobj" where "mergeAnnotations = mergeStrings ''annotations''"
definition mergeLabels :: "uobj \<Rightarrow> uobj \<Rightarrow> uobj" where "mergeLabels = mergeStrings ''labels''"

definition MergeMetadataForUpdate :: "uobj \<Rightarrow> uobj \<Rightarrow> uobj" where
  "MergeMetadataForUpdate current updated =
     SetResourceVersion (GetResourceVersion current) (mergeLabels current (mergeAnnotations current updated))"

abbreviation deploymentRevisionAnnotation :: string where
  "deploymentRevisionAnnotation \<equiv> ''deployment.kubernetes.io/revision''"

definition MergeDeploymentForUpdate :: "uobj \<Rightarrow> uobj \<Rightarrow> uobj" where
  "MergeDeploymentForUpdate current updated =
     (if of_kind ''apps'' ''Deployment'' updated
      then SetAnnotations
        (case fmlookup (GetAnnotations current) deploymentRevisionAnnotation of
           None \<Rightarrow> GetAnnotations updated
         | Some anno \<Rightarrow> fmupd deploymentRevisionAnnotation anno (GetAnnotations updated)) updated
      else updated)"

definition MergeServiceForUpdate :: "uobj \<Rightarrow> uobj \<Rightarrow> manifest_error + uobj" where
  "MergeServiceForUpdate current updated =
     (if of_kind [] ''Service'' updated
      then res_bind (NestedString current [''spec'', ''clusterIP'']) (\<lambda>clusterIP.
        case clusterIP of
          None \<Rightarrow> Inr updated
        | Some ip \<Rightarrow> SetNestedField updated (JStr ip) [''spec'', ''clusterIP''])
      else Inr updated)"

definition keep_slice :: "string \<Rightarrow> uobj \<Rightarrow> uobj \<Rightarrow> manifest_error + uobj" where
  "keep_slice f current updated =
     res_bind (NestedSlice current [f]) (\<lambda>l. Inr (case l of None \<Rightarrow> updated | Some l \<Rightarrow> set_field updated (JList l) [f]))"

definition MergeServiceAccountForUpdate :: "uobj \<Rightarrow> uobj \<Rightarrow> manifest_error + uobj" where
  "MergeServiceAccountForUpdate current updated =
     (if of_kind [] ''ServiceAccount'' updated
      then res_bind (keep_slice ''secrets'' current updated) (keep_slice ''imagePullSecrets'' current)
      else Inr updated)"

fun findByName :: "json list \<Rightarrow> string \<Rightarrow> manifest_error + uobj option" where
  "findByName [] nm = Inr None"
| "findByName (JMap m # objs) nm = (if fmlookup m ''name'' = Some (JStr nm) then Inr (Some m) else findByName objs nm)"
| "findByName (_ # objs) nm = Inl ManifestPanic"

text \<open>A webhook without a CA bundle takes that of the webhook of this name in the cluster.\<close>

definition take_bundle :: "json list \<Rightarrow> uobj \<Rightarrow> manifest_error + uobj" where
  "take_bundle currentWebhooks updateWebhookMap =
     res_bind (NestedString updateWebhookMap [''name'']) (\<lambda>nm.
       case nm of
         None \<Rightarrow> Inl WebhookNameMissing
       | Some webhookName \<Rightarrow>
           res_bind (findByName currentWebhooks webhookName) (\<lambda>currentWebhook.
             case currentWebhook of
               None \<Rightarrow> Inr updateWebhookMap
             | Some cm \<Rightarrow>
                 res_bind (NestedString cm [''clientConfig'', ''caBundle'']) (\<lambda>currentCABundle.
                   case currentCABundle of
                     None \<Rightarrow> Inr updateWebhookMap
                   | Some ca \<Rightarrow> Inr (set_field updateWebhookMap (JStr ca) [''clientConfig'', ''caBundle'']))))"

text \<open>One webhook: \<open>None\<close> when the whole merge of webhooks is given up without an error.\<close>

definition merge_webhook :: "json list \<Rightarrow> json \<Rightarrow> manifest_error + json option" where
  "merge_webhook currentWebhooks updatedWebhook =
     (case updatedWebhook of
        JMap m \<Rightarrow>
          (case NestedString m [''clientConfig'', ''caBundle''] of
             Inl _ \<Rightarrow> Inr None
           | Inr caBundle \<Rightarrow>
               if caBundle \<noteq> None \<and> caBundle \<noteq> Some [] then Inr (Some (JMap m))
               else res_bind (take_bundle currentWebhooks m) (\<lambda>m. Inr (Some (JMap m))))
      | _ \<Rightarrow> Inl ManifestPanic)"

fun merge_webhooks :: "json list \<Rightarrow> json list \<Rightarrow> manifest_error + json list option" where
  "merge_webhooks currentWebhooks [] = Inr (Some [])"
| "merge_webhooks currentWebhooks (w # ws) =
     res_bind (merge_webhook currentWebhooks w) (\<lambda>r.
       case r of
         None \<Rightarrow> Inr None
       | Some w' \<Rightarrow> res_bind (merge_webhooks currentWebhooks ws) (\<lambda>ws'. Inr (map_option ((#) w') ws')))"

definition is_webhook_config :: "uobj \<Rightarrow> bool" where
  "is_webhook_config obj \<longleftrightarrow> of_kind ''admissionregistration.k8s.io'' ''ValidatingWebhookConfiguration'' obj \<or>
     of_kind ''admissionregistration.k8s.io'' ''MutatingWebhookConfiguration'' obj"

definition MergeWebhookForUpdate :: "uobj \<Rightarrow> uobj \<Rightarrow> manifest_error + uobj" where
  "MergeWebhookForUpdate current updated =
     (if \<not> is_webhook_config updated then Inr updated
      else
        res_bind (NestedSlice updated [''webhooks'']) (\<lambda>updatedWebhooks.
          case updatedWebhooks of
            None \<Rightarrow> Inr updated
          | Some updatedWebhooks \<Rightarrow>
              res_bind (NestedSlice current [''webhooks'']) (\<lambda>currentWebhooks.
                case currentWebhooks of
                  None \<Rightarrow> Inr updated
                | Some currentWebhooks \<Rightarrow>
                    res_bind (merge_webhooks currentWebhooks updatedWebhooks) (\<lambda>merged.
                      case merged of
                        None \<Rightarrow> Inr updated
                      | Some merged \<Rightarrow> SetNestedField updated (JList merged) [''webhooks'']))))"

definition MergeObjectForUpdate :: "uobj \<Rightarrow> uobj \<Rightarrow> manifest_error + uobj" where
  "MergeObjectForUpdate current updated =
     res_bind (MergeServiceForUpdate current (MergeDeploymentForUpdate current updated)) (\<lambda>updated.
     res_bind (MergeServiceAccountForUpdate current updated) (\<lambda>updated.
     res_bind (MergeWebhookForUpdate current updated) (\<lambda>updated.
       Inr (MergeMetadataForUpdate current updated))))"

definition IsObjectSupported :: "uobj \<Rightarrow> manifest_error + unit" where
  "IsObjectSupported obj =
     (if of_kind [] ''ServiceAccount'' obj
      then res_bind (NestedSlice obj [''secrets'']) (\<lambda>secrets.
        if secrets \<noteq> None \<and> secrets \<noteq> Some [] then Inl SecretsUnsupported else Inr ())
      else Inr ())"

section \<open>Fields of a merged object\<close>

lemma nested_one [simp]: "nested_get (JMap obj) [f] = Inr (fmlookup obj f)"
  by (simp split: option.split)

lemma set_one [simp]: "set_field obj val [f] = fmupd f val obj"
  by (simp add: set_field_def)

text \<open>An object whose metadata is a map.\<close>

lemma set_meta: "fmlookup obj ''metadata'' = Some (JMap m) \<Longrightarrow> set_field obj val [''metadata'', f] = fmupd ''metadata'' (JMap (fmupd f val m)) obj"
  by (simp add: set_field_def)

lemma named_meta: "GetName obj \<noteq> [] \<Longrightarrow> \<exists>m. fmlookup obj ''metadata'' = Some (JMap m)"
  by (cases "fmlookup obj ''metadata''"; cases "the (fmlookup obj ''metadata'')")
    (auto simp: GetName_def getNestedString_def NestedString_def NestedFieldNoCopy_def)

text \<open>The string maps of the metadata depend on one field of it.\<close>

definition string_map :: "json option \<Rightarrow> (string, string) fmap" where
  "string_map v = (case v of Some (JMap m) \<Rightarrow> if fmpred (\<lambda>_. is_string_or_null) m then fmmap coerced m else fmempty | _ \<Rightarrow> fmempty)"

lemma get_strings_meta: "fmlookup obj ''metadata'' = Some (JMap m) \<Longrightarrow> get_strings f obj = string_map (fmlookup m f)"
  by (auto simp: get_strings_def NestedNullCoercingStringMap_def NestedFieldNoCopy_def string_map_def split: option.splits json.splits)

lemma string_map_JStr [simp]: "string_map (Some (JMap (fmmap JStr m))) = m"
proof -
  have "fmpred (\<lambda>_. is_string_or_null) (fmmap JStr m)" by (auto simp: fmpred_iff)
  moreover have "fmmap coerced (fmmap JStr m) = m" by (rule fmap_ext) (simp add: option.map_comp comp_def option.map_ident)
  ultimately show ?thesis by (simp add: string_map_def)
qed

lemma string_meta: "fmlookup obj ''metadata'' = Some (JMap m) \<Longrightarrow> getNestedString obj [''metadata'', f] = (case fmlookup m f of Some (JStr s) \<Rightarrow> s | _ \<Rightarrow> [])"
  by (auto simp: getNestedString_def NestedString_def NestedFieldNoCopy_def split: option.splits json.splits)

lemma top_string: "getNestedString obj [f] = (case fmlookup obj f of Some (JStr s) \<Rightarrow> s | _ \<Rightarrow> [])"
  by (auto simp: getNestedString_def NestedString_def NestedFieldNoCopy_def split: option.splits json.splits)

lemma fmupd_same: "fmlookup m k = Some v \<Longrightarrow> fmupd k v m = m"
  by (rule fmap_ext) auto

lemma fmadd_empty_right: "fmadd m n = fmempty \<Longrightarrow> n = fmempty"
  by (metis fmdom_add fmdom_empty fmrestrict_fset_dom fmrestrict_fset_null sup_eq_bot_iff)

lemma merge_strings_meta:
  assumes "fmlookup obj ''metadata'' = Some (JMap m)"
  obtains m' where "mergeStrings f current obj = fmupd ''metadata'' (JMap m') obj"
    "string_map (fmlookup m' f) = fmadd (get_strings f current) (string_map (fmlookup m f))"
    "\<forall>g. g \<noteq> f \<longrightarrow> fmlookup m' g = fmlookup m g"
proof -
  let ?s = "fmadd (get_strings f current) (string_map (fmlookup m f))"
  show thesis
  proof (cases "?s = fmempty")
    case True
    then have "string_map (fmlookup m f) = fmempty" using fmadd_empty_right by blast
    with True assms show thesis
      by (intro that[of m]) (auto simp: mergeStrings_def get_strings_meta[OF assms] fmupd_same)
  next
    case False
    with assms show thesis
      by (intro that[of "fmupd f (JMap (fmmap JStr ?s)) m"])
        (auto simp: mergeStrings_def get_strings_meta[OF assms] set_strings_def set_meta Let_def simp del: fmmap_add)
  qed
qed

lemma set_version_meta:
  assumes "fmlookup obj ''metadata'' = Some (JMap m)"
  obtains m' where "SetResourceVersion v obj = fmupd ''metadata'' (JMap m') obj"
    "(case fmlookup m' ''resourceVersion'' of Some (JStr s) \<Rightarrow> s | _ \<Rightarrow> []) = v"
    "\<forall>g. g \<noteq> ''resourceVersion'' \<longrightarrow> fmlookup m' g = fmlookup m g"
proof (cases "v = []")
  case True
  with assms show thesis by (intro that[of "fmdrop ''resourceVersion'' m"]) (auto simp: SetResourceVersion_def)
next
  case False
  with assms show thesis by (intro that[of "fmupd ''resourceVersion'' (JStr v) m"]) (auto simp: SetResourceVersion_def set_meta)
qed

lemma metadata_merged:
  assumes "fmlookup obj ''metadata'' = Some (JMap m)"
  obtains m' where "MergeMetadataForUpdate current obj = fmupd ''metadata'' (JMap m') obj"
    "string_map (fmlookup m' ''annotations'') = fmadd (GetAnnotations current) (string_map (fmlookup m ''annotations''))"
    "string_map (fmlookup m' ''labels'') = fmadd (GetLabels current) (string_map (fmlookup m ''labels''))"
    "(case fmlookup m' ''resourceVersion'' of Some (JStr s) \<Rightarrow> s | _ \<Rightarrow> []) = GetResourceVersion current"
    "\<And>g. g \<notin> {''annotations'', ''labels'', ''resourceVersion''} \<Longrightarrow> fmlookup m' g = fmlookup m g"
proof -
  obtain m1 where m1: "mergeStrings ''annotations'' current obj = fmupd ''metadata'' (JMap m1) obj"
    "string_map (fmlookup m1 ''annotations'') = fmadd (GetAnnotations current) (string_map (fmlookup m ''annotations''))"
    "\<forall>g. g \<noteq> ''annotations'' \<longrightarrow> fmlookup m1 g = fmlookup m g"
    by (rule merge_strings_meta[OF assms, of "''annotations''" current])
  let ?o1 = "fmupd ''metadata'' (JMap m1) obj"
  have o1: "fmlookup ?o1 ''metadata'' = Some (JMap m1)" by simp
  obtain m2 where m2: "mergeStrings ''labels'' current ?o1 = fmupd ''metadata'' (JMap m2) ?o1"
    "string_map (fmlookup m2 ''labels'') = fmadd (GetLabels current) (string_map (fmlookup m1 ''labels''))"
    "\<forall>g. g \<noteq> ''labels'' \<longrightarrow> fmlookup m2 g = fmlookup m1 g"
    by (rule merge_strings_meta[OF o1, of "''labels''" current])
  let ?o2 = "fmupd ''metadata'' (JMap m2) ?o1"
  have o2: "fmlookup ?o2 ''metadata'' = Some (JMap m2)" by simp
  obtain m3 where m3: "SetResourceVersion (GetResourceVersion current) ?o2 = fmupd ''metadata'' (JMap m3) ?o2"
    "(case fmlookup m3 ''resourceVersion'' of Some (JStr s) \<Rightarrow> s | _ \<Rightarrow> []) = GetResourceVersion current"
    "\<forall>g. g \<noteq> ''resourceVersion'' \<longrightarrow> fmlookup m3 g = fmlookup m2 g"
    by (rule set_version_meta[OF o2, of "GetResourceVersion current"])
  have u: "MergeMetadataForUpdate current obj = fmupd ''metadata'' (JMap m3) obj"
    unfolding MergeMetadataForUpdate_def mergeLabels_def mergeAnnotations_def m1(1) m2(1) m3(1) by (rule fmap_ext) simp
  show thesis
  proof (rule that[OF u])
    show "string_map (fmlookup m3 ''annotations'') = fmadd (GetAnnotations current) (string_map (fmlookup m ''annotations''))"
      using m1(2) by (simp add: m2(3) m3(3))
    show "string_map (fmlookup m3 ''labels'') = fmadd (GetLabels current) (string_map (fmlookup m ''labels''))"
      using m2(2) by (simp add: m1(3) m3(3))
    show "fmlookup m3 g = fmlookup m g" if "g \<notin> {''annotations'', ''labels'', ''resourceVersion''}" for g
      using that m1(3) m2(3) m3(3) by simp
  qed (rule m3(2))
qed

text \<open>The merges for single kinds change few fields.\<close>

lemma get_set: "SetNestedField obj val fs = Inr obj' \<Longrightarrow> nested_get (JMap obj') fs = Inr (Some val)"
  by (induction obj val fs arbitrary: obj' rule: SetNestedField.induct) (auto split: option.splits json.splits simp: res_bind_eq_Inr)

lemma set_elsewhere: "SetNestedField obj val (f # fs) = Inr obj' \<Longrightarrow> g \<noteq> f \<Longrightarrow> fmlookup obj' g = fmlookup obj g"
  by (cases fs) (auto simp: res_bind_eq_Inr split: option.splits json.splits)

definition agree_but :: "string list \<Rightarrow> uobj \<Rightarrow> uobj \<Rightarrow> bool" where
  "agree_but fs a b \<longleftrightarrow> (\<forall>g. g \<notin> set fs \<longrightarrow> fmlookup b g = fmlookup a g)"

lemma agree_refl [simp]: "agree_but fs a a"
  by (simp add: agree_but_def)

lemma agree_trans: "agree_but fs a b \<Longrightarrow> agree_but gs b c \<Longrightarrow> agree_but (fs @ gs) a c"
  by (simp add: agree_but_def)

lemma agree_kind: "agree_but fs a b \<Longrightarrow> ''apiVersion'' \<notin> set fs \<Longrightarrow> ''kind'' \<notin> set fs \<Longrightarrow> GroupVersionKind b = GroupVersionKind a"
  by (simp add: GroupVersionKind_def GetKind_def top_string agree_but_def)

lemma service_agrees: "MergeServiceForUpdate current a = Inr b \<Longrightarrow> agree_but [''spec''] a b"
  by (auto simp: MergeServiceForUpdate_def agree_but_def res_bind_eq_Inr simp del: SetNestedField.simps
    intro: set_elsewhere split: if_splits option.splits)

lemma keep_slice_agrees: "keep_slice f current a = Inr b \<Longrightarrow> agree_but [f] a b"
  by (auto simp: keep_slice_def agree_but_def res_bind_eq_Inr split: option.splits)

lemma account_agrees: "MergeServiceAccountForUpdate current a = Inr b \<Longrightarrow> agree_but [''secrets'', ''imagePullSecrets''] a b"
  using agree_trans[OF keep_slice_agrees[of "''secrets''"] keep_slice_agrees[of "''imagePullSecrets''"]]
  by (auto simp: MergeServiceAccountForUpdate_def res_bind_eq_Inr split: if_splits)

lemma webhook_agrees: "MergeWebhookForUpdate current a = Inr b \<Longrightarrow> agree_but [''webhooks''] a b"
  by (auto simp: MergeWebhookForUpdate_def res_bind_eq_Inr simp del: SetNestedField.simps split: if_splits option.splits)
    (auto simp: agree_but_def)

lemma deployment_meta:
  assumes "fmlookup obj ''metadata'' = Some (JMap m)"
  obtains m' where "MergeDeploymentForUpdate current obj = fmupd ''metadata'' (JMap m') obj"
    "string_map (fmlookup m' ''annotations'') =
       (case fmlookup (GetAnnotations current) deploymentRevisionAnnotation of
          Some anno \<Rightarrow> if of_kind ''apps'' ''Deployment'' obj then fmupd deploymentRevisionAnnotation anno (string_map (fmlookup m ''annotations''))
            else string_map (fmlookup m ''annotations'')
        | None \<Rightarrow> string_map (fmlookup m ''annotations''))"
    "\<forall>g. g \<noteq> ''annotations'' \<longrightarrow> fmlookup m' g = fmlookup m g"
proof (cases "of_kind ''apps'' ''Deployment'' obj")
  case True
  let ?s = "case fmlookup (GetAnnotations current) deploymentRevisionAnnotation of None \<Rightarrow> GetAnnotations obj
    | Some anno \<Rightarrow> fmupd deploymentRevisionAnnotation anno (GetAnnotations obj)"
  have "MergeDeploymentForUpdate current obj = fmupd ''metadata'' (JMap (fmupd ''annotations'' (JMap (fmmap JStr ?s)) m)) obj"
    by (simp only: MergeDeploymentForUpdate_def True if_True set_strings_def set_meta[OF assms])
  then show thesis
    by (rule that) (simp_all only: fmupd_lookup if_True string_map_JStr True get_strings_meta[OF assms] split: option.split, simp_all)
next
  case False
  then show thesis using assms by (intro that[of m]) (auto simp: MergeDeploymentForUpdate_def fmupd_same split: option.split)
qed

section \<open>CA bundles\<close>

abbreviation ca_of :: "uobj \<Rightarrow> string" where
  "ca_of m \<equiv> getNestedString m [''clientConfig'', ''caBundle'']"

definition fields_of :: "json option \<Rightarrow> uobj" where
  "fields_of v = (case v of Some (JMap m) \<Rightarrow> m | _ \<Rightarrow> fmempty)"

text \<open>The bundle that was injected into the webhook of the same name in the cluster.\<close>

definition injected :: "json list \<Rightarrow> uobj \<Rightarrow> string option" where
  "injected cws m =
     (case findByName cws (getNestedString m [''name'']) of
        Inr (Some cm) \<Rightarrow> (case NestedString cm [''clientConfig'', ''caBundle''] of Inr ca \<Rightarrow> ca | Inl _ \<Rightarrow> None)
      | _ \<Rightarrow> None)"

text \<open>
  The merged webhook: the new version, with the injected bundle when it has none of its own. A client configuration
  that is an explicit null cannot take one.
\<close>

fun with_bundle :: "json list \<Rightarrow> json \<Rightarrow> json" where
  "with_bundle cws (JMap m) =
     (case injected cws m of
        Some ca \<Rightarrow>
          if ca_of m = [] \<and> fmlookup m ''clientConfig'' \<noteq> Some JNull
          then JMap (fmupd ''clientConfig'' (JMap (fmupd ''caBundle'' (JStr ca) (fields_of (fmlookup m ''clientConfig'')))) m)
          else JMap m
      | None \<Rightarrow> JMap m)"
| "with_bundle cws w = w"

text \<open>A webhook whose bundle is a string, or that has none.\<close>

fun webhook_readable :: "json \<Rightarrow> bool" where
  "webhook_readable (JMap m) = (\<not> isl (NestedString m [''clientConfig'', ''caBundle'']))"
| "webhook_readable _ = False"

lemma readable_config:
  assumes "webhook_readable (JMap m)"
  obtains "fmlookup m ''clientConfig'' = None" | "fmlookup m ''clientConfig'' = Some JNull" | n where "fmlookup m ''clientConfig'' = Some (JMap n)"
  using assms by (cases "fmlookup m ''clientConfig''"; cases "the (fmlookup m ''clientConfig'')")
    (auto simp: NestedString_def NestedFieldNoCopy_def)

lemma set_bundle:
  assumes "webhook_readable (JMap m)"
  shows "set_field m (JStr ca) [''clientConfig'', ''caBundle''] =
    (if fmlookup m ''clientConfig'' = Some JNull then m
     else fmupd ''clientConfig'' (JMap (fmupd ''caBundle'' (JStr ca) (fields_of (fmlookup m ''clientConfig'')))) m)"
  by (rule readable_config[OF assms]) (simp_all add: set_field_def fields_of_def)

lemma take_bundle_exact:
  assumes "take_bundle cws m = Inr m'" and "webhook_readable (JMap m)" and "ca_of m = []"
  shows "JMap m' = with_bundle cws (JMap m)"
proof -
  obtain nm where nm: "NestedString m [''name''] = Inr (Some nm)"
    using assms(1) by (auto simp: take_bundle_def res_bind_eq_Inr split: option.splits)
  then have name: "getNestedString m [''name''] = nm" by (simp add: getNestedString_def)
  obtain x where x: "findByName cws nm = Inr x" using assms(1) nm by (cases "findByName cws nm") (auto simp: take_bundle_def)
  show ?thesis
  proof (cases x)
    case None
    then show ?thesis using assms nm x name by (simp add: take_bundle_def injected_def)
  next
    case (Some cm)
    obtain c where c: "NestedString cm [''clientConfig'', ''caBundle''] = Inr c"
      using assms(1) nm x Some by (cases "NestedString cm [''clientConfig'', ''caBundle'']") (auto simp: take_bundle_def)
    have "injected cws m = c" using x Some name c by (simp add: injected_def)
    then show ?thesis using assms(1,3) nm x Some c set_bundle[OF assms(2)] by (cases c) (auto simp: take_bundle_def)
  qed
qed

lemma merge_webhook_exact:
  assumes "merge_webhook cws w = Inr r"
  shows "r = (if webhook_readable w then Some (with_bundle cws w) else None)"
proof -
  obtain m where m: "w = JMap m" using assms by (cases w) (auto simp: merge_webhook_def)
  show ?thesis
  proof (cases "NestedString m [''clientConfig'', ''caBundle'']")
    case (Inl e)
    then show ?thesis using assms m by (simp add: merge_webhook_def)
  next
    case (Inr ca)
    have b: "ca_of m = (case ca of None \<Rightarrow> [] | Some s \<Rightarrow> s)" using Inr by (simp add: getNestedString_def split: option.splits)
    show ?thesis
    proof (cases "ca \<noteq> None \<and> ca \<noteq> Some []")
      case True
      then show ?thesis using assms m b Inr by (auto simp: merge_webhook_def split: option.splits)
    next
      case False
      then obtain m' where m': "take_bundle cws m = Inr m'" "r = Some (JMap m')"
        using assms m Inr by (auto simp: merge_webhook_def res_bind_eq_Inr)
      have "ca_of m = []" using False b by auto
      then show ?thesis using take_bundle_exact[OF m'(1)] m'(2) m Inr by simp
    qed
  qed
qed

lemma merge_webhooks_exact:
  "merge_webhooks cws ws = Inr r \<Longrightarrow> r = (if list_all webhook_readable ws then Some (map (with_bundle cws) ws) else None)"
proof (induction ws arbitrary: r)
  case (Cons w ws)
  obtain x where x: "merge_webhook cws w = Inr x" using Cons.prems(1) by (cases "merge_webhook cws w") auto
  note x' = merge_webhook_exact[OF x]
  show ?case
  proof (cases "webhook_readable w")
    case True
    then obtain y where y: "merge_webhooks cws ws = Inr y" "r = map_option ((#) (with_bundle cws w)) y"
      using Cons.prems(1) x x' by (cases "merge_webhooks cws ws") auto
    then show ?thesis using Cons.IH[OF y(1)] True by simp
  next
    case False
    then show ?thesis using Cons.prems x x' by simp
  qed
qed simp

section \<open>The merged object\<close>

text \<open>The annotations of the new version, with the revision of a deployment taken from the cluster.\<close>

definition revised :: "uobj \<Rightarrow> uobj \<Rightarrow> (string, string) fmap" where
  "revised current updated =
     (case fmlookup (GetAnnotations current) deploymentRevisionAnnotation of
        Some anno \<Rightarrow> if of_kind ''apps'' ''Deployment'' updated then fmupd deploymentRevisionAnnotation anno (GetAnnotations updated)
          else GetAnnotations updated
      | None \<Rightarrow> GetAnnotations updated)"

lemma merged_shape:
  assumes "MergeObjectForUpdate current updated = Inr u" and "fmlookup updated ''metadata'' = Some (JMap m)"
  obtains a b c d m' where "fmlookup u ''metadata'' = Some (JMap m')"
    "string_map (fmlookup m' ''annotations'') = fmadd (GetAnnotations current) (revised current updated)"
    "string_map (fmlookup m' ''labels'') = fmadd (GetLabels current) (GetLabels updated)"
    "(case fmlookup m' ''resourceVersion'' of Some (JStr s) \<Rightarrow> s | _ \<Rightarrow> []) = GetResourceVersion current"
    "\<forall>g. g \<notin> {''annotations'', ''labels'', ''resourceVersion''} \<longrightarrow> fmlookup m' g = fmlookup m g"
    "agree_but [''metadata''] updated a" "MergeServiceForUpdate current a = Inr b" "MergeServiceAccountForUpdate current b = Inr c"
    "MergeWebhookForUpdate current c = Inr d" "agree_but [''metadata''] d u"
proof -
  obtain m1 where m1: "MergeDeploymentForUpdate current updated = fmupd ''metadata'' (JMap m1) updated"
    "string_map (fmlookup m1 ''annotations'') =
       (case fmlookup (GetAnnotations current) deploymentRevisionAnnotation of
          Some anno \<Rightarrow> if of_kind ''apps'' ''Deployment'' updated
            then fmupd deploymentRevisionAnnotation anno (string_map (fmlookup m ''annotations'')) else string_map (fmlookup m ''annotations'')
        | None \<Rightarrow> string_map (fmlookup m ''annotations''))"
    "\<forall>g. g \<noteq> ''annotations'' \<longrightarrow> fmlookup m1 g = fmlookup m g"
    by (rule deployment_meta[OF assms(2)])
  let ?a = "fmupd ''metadata'' (JMap m1) updated"
  obtain b c d where s: "MergeServiceForUpdate current ?a = Inr b" "MergeServiceAccountForUpdate current b = Inr c"
    "MergeWebhookForUpdate current c = Inr d" "u = MergeMetadataForUpdate current d"
    using assms(1) m1(1) by (auto simp: MergeObjectForUpdate_def res_bind_eq_Inr)
  have "agree_but ([''spec''] @ [''secrets'', ''imagePullSecrets''] @ [''webhooks'']) ?a d"
    by (rule agree_trans[OF service_agrees[OF s(1)] agree_trans[OF account_agrees[OF s(2)] webhook_agrees[OF s(3)]]])
  then have d: "fmlookup d ''metadata'' = Some (JMap m1)" by (simp add: agree_but_def)
  obtain m2 where m2: "MergeMetadataForUpdate current d = fmupd ''metadata'' (JMap m2) d"
    "string_map (fmlookup m2 ''annotations'') = fmadd (GetAnnotations current) (string_map (fmlookup m1 ''annotations''))"
    "string_map (fmlookup m2 ''labels'') = fmadd (GetLabels current) (string_map (fmlookup m1 ''labels''))"
    "(case fmlookup m2 ''resourceVersion'' of Some (JStr s) \<Rightarrow> s | _ \<Rightarrow> []) = GetResourceVersion current"
    "\<forall>g. g \<notin> {''annotations'', ''labels'', ''resourceVersion''} \<longrightarrow> fmlookup m2 g = fmlookup m1 g"
    using metadata_merged[OF d, of current] by blast
  have g: "get_strings f updated = string_map (fmlookup m f)" for f by (rule get_strings_meta[OF assms(2)])
  show thesis
  proof (rule that[OF _ _ _ m2(4) _ _ s(1-3)])
    show "fmlookup u ''metadata'' = Some (JMap m2)" "agree_but [''metadata''] d u" using s(4) m2(1) by (simp_all add: agree_but_def)
    show "agree_but [''metadata''] updated ?a" by (simp add: agree_but_def)
    show "string_map (fmlookup m2 ''annotations'') = fmadd (GetAnnotations current) (revised current updated)"
      unfolding revised_def g m2(2) m1(2) ..
    show "string_map (fmlookup m2 ''labels'') = fmadd (GetLabels current) (GetLabels updated)" using m2(3) m1(3) by (simp add: g)
    show "\<forall>g. g \<notin> {''annotations'', ''labels'', ''resourceVersion''} \<longrightarrow> fmlookup m2 g = fmlookup m g" using m2(5) m1(3) by simp
  qed
qed

lemma string_elsewhere:
  assumes "fmlookup u ''metadata'' = Some (JMap m')" "fmlookup updated ''metadata'' = Some (JMap m)" "fmlookup m' f = fmlookup m f"
  shows "getNestedString u [''metadata'', f] = getNestedString updated [''metadata'', f]"
  unfolding string_meta[OF assms(1)] string_meta[OF assms(2)] assms(3) ..

lemma kind_same: "GroupVersionKind b = GroupVersionKind a \<Longrightarrow> of_kind g k b = of_kind g k a"
  by (simp add: of_kind_def)

lemma service_exact:
  assumes "MergeServiceForUpdate current a = Inr b" and "of_kind [] ''Service'' a"
    and "NestedString current [''spec'', ''clusterIP''] = Inr (Some ip)"
  shows "fmlookup b ''spec'' = Some (JMap (fmupd ''clusterIP'' (JStr ip) (fields_of (fmlookup a ''spec''))))"
  using assms by (auto simp: MergeServiceForUpdate_def fields_of_def split: option.splits json.splits)

lemma service_other:
  assumes "MergeServiceForUpdate current a = Inr b"
    and "\<not> of_kind [] ''Service'' a \<or> NestedString current [''spec'', ''clusterIP''] = Inr None"
  shows "b = a"
  using assms by (auto simp: MergeServiceForUpdate_def split: if_splits)

lemma webhooks_exact:
  assumes "MergeWebhookForUpdate current c = Inr d" and "is_webhook_config c"
    and "fmlookup current ''webhooks'' = Some (JList cws)" "fmlookup c ''webhooks'' = Some (JList ws)"
  shows "fmlookup d ''webhooks'' = Some (JList (if list_all webhook_readable ws then map (with_bundle cws) ws else ws))"
proof -
  have s: "NestedSlice c [''webhooks''] = Inr (Some ws)" "NestedSlice current [''webhooks''] = Inr (Some cws)"
    using assms(3,4) by (simp_all add: NestedSlice_def NestedFieldNoCopy_def)
  then obtain r where r: "merge_webhooks cws ws = Inr r" using assms(1,2) by (auto simp: MergeWebhookForUpdate_def res_bind_eq_Inr)
  then show ?thesis using assms s merge_webhooks_exact[OF r] by (auto simp: MergeWebhookForUpdate_def)
qed

lemma webhooks_other:
  assumes "MergeWebhookForUpdate current c = Inr d"
    and "\<not> (is_webhook_config c \<and> (\<exists>cws. fmlookup current ''webhooks'' = Some (JList cws)) \<and> (\<exists>ws. fmlookup c ''webhooks'' = Some (JList ws)))"
  shows "d = c"
  using assms
  by (auto simp: MergeWebhookForUpdate_def NestedSlice_def NestedFieldNoCopy_def split: if_splits option.splits json.splits)

lemma revised_lookup:
  "fmlookup (fmadd (GetAnnotations current) (revised current updated)) k =
     (if of_kind ''apps'' ''Deployment'' updated \<and> k = deploymentRevisionAnnotation \<and>
         fmlookup (GetAnnotations current) k \<noteq> None
      then fmlookup (GetAnnotations current) k
      else fmlookup (fmadd (GetAnnotations current) (GetAnnotations updated)) k)"
  by (auto simp: revised_def split: option.splits)

lemma merged_identity:
  assumes "MergeObjectForUpdate current updated = Inr u" and "GetName updated \<noteq> []"
  shows "GroupVersionKind u = GroupVersionKind updated \<and> GetName u = GetName updated \<and> GetNamespace u = GetNamespace updated"
proof -
  obtain m where m: "fmlookup updated ''metadata'' = Some (JMap m)" using named_meta[OF assms(2)] by blast
  obtain a b c d m' where u: "fmlookup u ''metadata'' = Some (JMap m')"
    "\<forall>g. g \<notin> {''annotations'', ''labels'', ''resourceVersion''} \<longrightarrow> fmlookup m' g = fmlookup m g"
    and s: "agree_but [''metadata''] updated a" "MergeServiceForUpdate current a = Inr b" "MergeServiceAccountForUpdate current b = Inr c"
    "MergeWebhookForUpdate current c = Inr d" "agree_but [''metadata''] d u"
    by (rule merged_shape[OF assms(1) m])
  note agrees = agree_trans[OF s(1) agree_trans[OF service_agrees[OF s(2)] agree_trans[OF account_agrees[OF s(3)]
    agree_trans[OF webhook_agrees[OF s(4)] s(5)]]]]
  have "GetName u = GetName updated" "GetNamespace u = GetNamespace updated"
    unfolding GetName_def GetNamespace_def by (rule string_elsewhere[OF u(1) m]; use u(2) in simp)+
  then show ?thesis using agree_kind[OF agrees] by simp
qed

text \<open>
  C16: An update keeps what others put on an object. When the new version of a named object is merged with the object of the
  cluster, the result has the labels and annotations of both, where the new version wins, except for the revision
  of a deployment; it has the resource version of the cluster, so that a concurrent change is noticed; its name, namespace and
  kind are those of the new version.
\<close>

theorem merge_keeps_metadata:
  assumes "MergeObjectForUpdate current updated = Inr u" and "GetName updated \<noteq> []"
  shows "GetLabels u = fmadd (GetLabels current) (GetLabels updated) \<and>
    (\<forall>k. fmlookup (GetAnnotations u) k =
      (if of_kind ''apps'' ''Deployment'' updated \<and> k = deploymentRevisionAnnotation \<and> fmlookup (GetAnnotations current) k \<noteq> None
       then fmlookup (GetAnnotations current) k
       else fmlookup (fmadd (GetAnnotations current) (GetAnnotations updated)) k)) \<and>
    GetResourceVersion u = GetResourceVersion current \<and>
    GroupVersionKind u = GroupVersionKind updated \<and> GetName u = GetName updated \<and> GetNamespace u = GetNamespace updated"
proof -
  obtain m where m: "fmlookup updated ''metadata'' = Some (JMap m)" using named_meta[OF assms(2)] by blast
  obtain a b c d m' where u: "fmlookup u ''metadata'' = Some (JMap m')"
    "string_map (fmlookup m' ''annotations'') = fmadd (GetAnnotations current) (revised current updated)"
    "string_map (fmlookup m' ''labels'') = fmadd (GetLabels current) (GetLabels updated)"
    "(case fmlookup m' ''resourceVersion'' of Some (JStr s) \<Rightarrow> s | _ \<Rightarrow> []) = GetResourceVersion current"
    "\<forall>g. g \<notin> {''annotations'', ''labels'', ''resourceVersion''} \<longrightarrow> fmlookup m' g = fmlookup m g"
    and s: "agree_but [''metadata''] updated a" "MergeServiceForUpdate current a = Inr b" "MergeServiceAccountForUpdate current b = Inr c"
    "MergeWebhookForUpdate current c = Inr d" "agree_but [''metadata''] d u"
    by (rule merged_shape[OF assms(1) m])
  have l: "GetLabels u = fmadd (GetLabels current) (GetLabels updated)" using u(3) by (simp add: get_strings_meta[OF u(1)])
  have a: "GetAnnotations u = fmadd (GetAnnotations current) (revised current updated)"
    unfolding get_strings_meta[OF u(1)] u(2) ..
  have v: "GetResourceVersion u = GetResourceVersion current" using u(4) by (simp add: GetResourceVersion_def[of u] string_meta[OF u(1)])
  show ?thesis using merged_identity[OF assms] l v unfolding a revised_lookup by simp
qed

lemma account_exact:
  assumes "MergeServiceAccountForUpdate current b = Inr c" and "f = ''secrets'' \<or> f = ''imagePullSecrets''"
  shows "fmlookup c f =
    (if of_kind [] ''ServiceAccount'' b \<and> (\<exists>l. fmlookup current f = Some (JList l)) then fmlookup current f else fmlookup b f)"
proof (cases "of_kind [] ''ServiceAccount'' b")
  case True
  obtain x where x: "keep_slice ''secrets'' current b = Inr x" "keep_slice ''imagePullSecrets'' current x = Inr c"
    using assms(1) True by (auto simp: MergeServiceAccountForUpdate_def res_bind_eq_Inr)
  then show ?thesis using assms(2) True
    by (auto simp: keep_slice_def res_bind_eq_Inr NestedSlice_def NestedFieldNoCopy_def split: option.splits json.splits)
qed (use assms in \<open>simp add: MergeServiceAccountForUpdate_def\<close>)

text \<open>The top-level fields that the cluster fills in, and that are taken over from it.\<close>

definition has_ip :: "uobj \<Rightarrow> uobj \<Rightarrow> bool" where
  "has_ip current updated \<longleftrightarrow>
     of_kind [] ''Service'' updated \<and> (\<exists>ip. NestedString current [''spec'', ''clusterIP''] = Inr (Some ip))"

definition has_list :: "string \<Rightarrow> uobj \<Rightarrow> bool" where
  "has_list f obj \<longleftrightarrow> (\<exists>l. fmlookup obj f = Some (JList l))"

definition filled_in :: "uobj \<Rightarrow> uobj \<Rightarrow> string \<Rightarrow> bool" where
  "filled_in current updated g \<longleftrightarrow>
     (g = ''spec'' \<and> has_ip current updated) \<or>
     (g \<in> {''secrets'', ''imagePullSecrets''} \<and> of_kind [] ''ServiceAccount'' updated \<and> has_list g current) \<or>
     (g = ''webhooks'' \<and> is_webhook_config updated \<and> has_list g current \<and> has_list g updated)"

text \<open>The stages of a merge, with the kind of the object carried through them.\<close>

lemma merged_stages:
  assumes "MergeObjectForUpdate current updated = Inr u" and "GetName updated \<noteq> []"
  obtains a b c d where "agree_but [''metadata''] updated a" "MergeServiceForUpdate current a = Inr b"
    "MergeServiceAccountForUpdate current b = Inr c" "MergeWebhookForUpdate current c = Inr d" "agree_but [''metadata''] d u"
    "\<And>g k. of_kind g k a = of_kind g k updated" "\<And>g k. of_kind g k b = of_kind g k updated"
    "is_webhook_config c = is_webhook_config updated"
proof -
  obtain m where m: "fmlookup updated ''metadata'' = Some (JMap m)" using named_meta[OF assms(2)] by blast
  obtain a b c d where s: "agree_but [''metadata''] updated a" "MergeServiceForUpdate current a = Inr b"
    "MergeServiceAccountForUpdate current b = Inr c" "MergeWebhookForUpdate current c = Inr d" "agree_but [''metadata''] d u"
    using merged_shape[OF assms(1) m] by metis
  note b = service_agrees[OF s(2)] and c = account_agrees[OF s(3)]
  have "GroupVersionKind a = GroupVersionKind updated" "GroupVersionKind b = GroupVersionKind a" "GroupVersionKind c = GroupVersionKind b"
    by (rule agree_kind[OF s(1)] agree_kind[OF b] agree_kind[OF c]; simp)+
  then show thesis using that[OF s] by (simp add: of_kind_def is_webhook_config_def)
qed

lemma merged_fields:
  assumes "MergeObjectForUpdate current updated = Inr u" and "GetName updated \<noteq> []"
  shows "has_ip current updated \<Longrightarrow> NestedString current [''spec'', ''clusterIP''] = Inr (Some ip) \<Longrightarrow>
      fmlookup u ''spec'' = Some (JMap (fmupd ''clusterIP'' (JStr ip) (fields_of (fmlookup updated ''spec''))))" (is "_ \<Longrightarrow> _ \<Longrightarrow> ?ip")
    and "f \<in> {''secrets'', ''imagePullSecrets''} \<Longrightarrow> filled_in current updated f \<Longrightarrow> fmlookup u f = fmlookup current f"
    and "is_webhook_config updated \<Longrightarrow> fmlookup current ''webhooks'' = Some (JList cws) \<Longrightarrow> fmlookup updated ''webhooks'' = Some (JList ws) \<Longrightarrow>
      fmlookup u ''webhooks'' = Some (JList (if list_all webhook_readable ws then map (with_bundle cws) ws else ws))"
    and "g \<noteq> ''metadata'' \<Longrightarrow> \<not> filled_in current updated g \<Longrightarrow> fmlookup u g = fmlookup updated g"
proof -
  obtain a b c d where s: "agree_but [''metadata''] updated a" "MergeServiceForUpdate current a = Inr b"
    "MergeServiceAccountForUpdate current b = Inr c" "MergeWebhookForUpdate current c = Inr d" "agree_but [''metadata''] d u"
    and k: "\<And>g k. of_kind g k a = of_kind g k updated" "\<And>g k. of_kind g k b = of_kind g k updated" "is_webhook_config c = is_webhook_config updated"
    by (rule merged_stages[OF assms]) blast
  note ag = s(1,5) service_agrees[OF s(2)] account_agrees[OF s(3)] webhook_agrees[OF s(4)]
  show ?ip if "has_ip current updated" "NestedString current [''spec'', ''clusterIP''] = Inr (Some ip)"
    using service_exact[OF s(2), of ip] that ag by (simp add: k has_ip_def agree_but_def)
  show "fmlookup u f = fmlookup current f" if "f \<in> {''secrets'', ''imagePullSecrets''}" "filled_in current updated f"
    using account_exact[OF s(3), of f] that ag by (auto simp: k filled_in_def has_list_def agree_but_def)
  have w: "fmlookup c ''webhooks'' = fmlookup updated ''webhooks''" using ag by (simp add: agree_but_def)
  show "fmlookup u ''webhooks'' = Some (JList (if list_all webhook_readable ws then map (with_bundle cws) ws else ws))"
    if "is_webhook_config updated" "fmlookup current ''webhooks'' = Some (JList cws)" "fmlookup updated ''webhooks'' = Some (JList ws)"
    using webhooks_exact[OF s(4), of cws ws] that w k(3) s(5) by (simp add: agree_but_def)
  show "fmlookup u g = fmlookup updated g" if g: "g \<noteq> ''metadata''" "\<not> filled_in current updated g"
  proof -
    consider "g = ''spec''" | "g \<in> {''secrets'', ''imagePullSecrets''}" | "g = ''webhooks''"
      | "g \<noteq> ''spec'' \<and> g \<notin> {''secrets'', ''imagePullSecrets''} \<and> g \<noteq> ''webhooks''" by argo
    then show ?thesis
    proof cases
      case 1
      then have "b = a" using g(2) s(2) k(1)
        by (intro service_other[OF s(2)]) (auto simp: filled_in_def has_ip_def MergeServiceForUpdate_def res_bind_eq_Inr split: if_splits)
      then show ?thesis using 1 ag by (simp add: agree_but_def)
    next
      case 2
      then have "\<not> (of_kind [] ''ServiceAccount'' updated \<and> has_list g current)" using g(2) by (auto simp: filled_in_def)
      moreover have "g = ''secrets'' \<or> g = ''imagePullSecrets''" using 2 by simp
      note account_exact[OF s(3) this]
      ultimately have "fmlookup c g = fmlookup b g" unfolding k(2) has_list_def by argo
      moreover have "fmlookup u g = fmlookup c g" "fmlookup b g = fmlookup updated g" using 2 ag by (auto simp: agree_but_def)
      ultimately show ?thesis by simp
    next
      case 3
      then have "\<not> (is_webhook_config updated \<and> has_list ''webhooks'' current \<and> has_list ''webhooks'' updated)"
        using g(2) by (simp add: filled_in_def)
      then have "d = c" using k(3) w by (intro webhooks_other[OF s(4)]) (simp add: has_list_def)
      then show ?thesis using 3 w s(5) by (simp add: agree_but_def)
    next
      case 4
      then show ?thesis using ag g(1) by (simp add: agree_but_def)
    qed
  qed
qed

text \<open>
  C17: An update keeps what the cluster filled in, and nothing else. The spec of a service is that of the new version with the
  cluster IP of the existing service; a service account has the lists of secrets and image pull secrets of the existing
  one; every webhook of a webhook configuration is that of the new version, and when it comes without a CA bundle
  it has the one that was injected into the existing webhook of this name. (When the bundle of some webhook in the new version is not a
  string, the code gives up and all webhooks are those of the new version.) Every other field is that of the new version,
  where nothing was filled in also the ones named; in the metadata only annotations, labels and the resource version may differ.
\<close>

theorem merge_keeps_contents:
  assumes "MergeObjectForUpdate current updated = Inr u" and "GetName updated \<noteq> []"
  shows "(of_kind [] ''Service'' updated \<and> NestedString current [''spec'', ''clusterIP''] = Inr (Some ip) \<longrightarrow>
      fmlookup u ''spec'' = Some (JMap (fmupd ''clusterIP'' (JStr ip) (fields_of (fmlookup updated ''spec''))))) \<and>
    (of_kind [] ''ServiceAccount'' updated \<and> f \<in> {''secrets'', ''imagePullSecrets''} \<and> fmlookup current f = Some (JList l) \<longrightarrow>
      fmlookup u f = Some (JList l)) \<and>
    (is_webhook_config updated \<and> fmlookup current ''webhooks'' = Some (JList cws) \<and> fmlookup updated ''webhooks'' = Some (JList ws) \<longrightarrow>
      fmlookup u ''webhooks'' = Some (JList (if list_all webhook_readable ws then map (with_bundle cws) ws else ws))) \<and>
    (g \<noteq> ''metadata'' \<and> \<not> filled_in current updated g \<longrightarrow> fmlookup u g = fmlookup updated g) \<and>
    (\<exists>m m'. fmlookup updated ''metadata'' = Some (JMap m) \<and> fmlookup u ''metadata'' = Some (JMap m') \<and>
      agree_but [''annotations'', ''labels'', ''resourceVersion''] m m')"
proof -
  obtain m where m: "fmlookup updated ''metadata'' = Some (JMap m)" using named_meta[OF assms(2)] by blast
  obtain m' where "fmlookup u ''metadata'' = Some (JMap m')"
    "\<forall>g. g \<notin> {''annotations'', ''labels'', ''resourceVersion''} \<longrightarrow> fmlookup m' g = fmlookup m g"
    using merged_shape[OF assms(1) m] by metis
  then have "\<exists>m m'. fmlookup updated ''metadata'' = Some (JMap m) \<and> fmlookup u ''metadata'' = Some (JMap m') \<and>
      agree_but [''annotations'', ''labels'', ''resourceVersion''] m m'" using m by (auto simp: agree_but_def)
  moreover have "filled_in current updated f"
    if "of_kind [] ''ServiceAccount'' updated" "f \<in> {''secrets'', ''imagePullSecrets''}" "fmlookup current f = Some (JList l)"
    using that by (auto simp: filled_in_def has_list_def)
  ultimately show ?thesis using merged_fields[OF assms] by (simp add: has_ip_def)
qed

definition sample_webhook :: "string \<Rightarrow> (string \<times> string) list \<Rightarrow> string list \<Rightarrow> json list \<Rightarrow> uobj" where
  "sample_webhook rv labels ca ws = fmap_of_list [(''apiVersion'', JStr ''admissionregistration.k8s.io/v1''),
     (''kind'', JStr ''MutatingWebhookConfiguration''),
     (''metadata'', JMap (fmap_of_list [(''name'', JStr ''operator-webhook-config''), (''resourceVersion'', JStr rv),
       (''labels'', JMap (fmap_of_list (map (\<lambda>(k, v). (k, JStr v)) labels)))])),
     (''webhooks'', JList (JMap (fmap_of_list [(''name'', JStr ''operator-webhook.sriovnetwork.openshift.io''),
       (''clientConfig'', JMap (fmap_of_list (map (\<lambda>c. (''caBundle'', JStr c)) ca)))]) # ws))]"

abbreviation sample_injected :: uobj where "sample_injected \<equiv> sample_webhook ''7'' [(''team'', ''net'')] [''CA''] []"
abbreviation sample_rendered_webhook :: uobj where "sample_rendered_webhook \<equiv> sample_webhook [] [(''app'', ''sriov'')] [] []"

lemma sample_merge: "\<not> isl (MergeObjectForUpdate sample_injected sample_rendered_webhook)" "GetName sample_rendered_webhook \<noteq> []"
  by code_simp+

theorem merge_keeps_metadata_witness:
  "\<exists>u. MergeObjectForUpdate sample_injected sample_rendered_webhook = Inr u \<and>
     fmlookup (GetLabels u) ''team'' = Some ''net'' \<and> fmlookup (GetLabels u) ''app'' = Some ''sriov'' \<and> GetResourceVersion u = ''7''"
proof -
  obtain u where u: "MergeObjectForUpdate sample_injected sample_rendered_webhook = Inr u"
    using sample_merge(1) by (cases "MergeObjectForUpdate sample_injected sample_rendered_webhook") auto
  have "GetLabels sample_injected = fmap_of_list [(''team'', ''net'')]" "GetLabels sample_rendered_webhook = fmap_of_list [(''app'', ''sriov'')]"
    "GetResourceVersion sample_injected = ''7''"
    by code_simp+
  then show ?thesis using merge_keeps_metadata[OF u sample_merge(2)] u by (simp add: fmlookup_of_list)
qed

definition sample_hook :: "string list \<Rightarrow> json" where
  "sample_hook ca = JMap (fmap_of_list [(''name'', JStr ''operator-webhook.sriovnetwork.openshift.io''),
     (''clientConfig'', JMap (fmap_of_list (map (\<lambda>c. (''caBundle'', JStr c)) ca)))])"

theorem merge_keeps_contents_witness:
  "\<exists>u. MergeObjectForUpdate sample_injected sample_rendered_webhook = Inr u \<and>
     fmlookup u ''webhooks'' = Some (JList [sample_hook [''CA'']])"
proof -
  obtain u where u: "MergeObjectForUpdate sample_injected sample_rendered_webhook = Inr u"
    using sample_merge(1) by (cases "MergeObjectForUpdate sample_injected sample_rendered_webhook") auto
  have c: "is_webhook_config sample_rendered_webhook" "list_all webhook_readable [sample_hook []]"
    "map (with_bundle [sample_hook [''CA'']]) [sample_hook []] = [sample_hook [''CA'']]" by code_simp+
  have w: "fmlookup sample_injected ''webhooks'' = Some (JList [sample_hook [''CA'']])"
    "fmlookup sample_rendered_webhook ''webhooks'' = Some (JList [sample_hook []])"
    by (simp_all add: sample_webhook_def sample_hook_def)
  have "fmlookup u ''webhooks'' = Some (JList [sample_hook [''CA'']])"
    using merge_keeps_contents[OF u sample_merge(2), THEN conjunct2, THEN conjunct2, THEN conjunct1, rule_format,
      OF conjI[OF c(1) conjI[OF w]]] c(2,3) by simp
  then show ?thesis using u by blast
qed

end
