(* ===== verification/Tls.thy ===== *)
theory Tls
  imports Sriov_Prelude
begin

text \<open>
  TLS settings of the webhooks and the metrics exporter (\<^verbatim>\<open>src/pkg/utils/tls.go\<close>): names of cipher suites and curves are
  checked, insecure cipher suites are left out, and curves are passed on as numbers. The tables of cipher suites and versions
  belong to other libraries and are parameters.
\<close>

section \<open>Standard library\<close>

fun skip_spaces :: "nat \<Rightarrow> string \<Rightarrow> string" where
  "skip_spaces 0 s = s"
| "skip_spaces (Suc n) s = (if s = [] \<or> space_len s = 0 then s else skip_spaces n (drop (space_len s) s))"

definition trim_left :: "string \<Rightarrow> string" where
  "trim_left s = skip_spaces (length s) s"

fun trim_right :: "string \<Rightarrow> string" where
  "trim_right [] = []"
| "trim_right (c # cs) = (if trim_left (c # cs) = [] then [] else c # trim_right cs)"

definition TrimSpace :: "string \<Rightarrow> string" where
  "TrimSpace s = trim_right (trim_left s)"

text \<open>\<^verbatim>\<open>strconv.ParseUint\<close> in base ten with 16 bits.\<close>

definition ParseUint16 :: "string \<Rightarrow> num_error + nat" where
  "ParseUint16 s =
     (if s = [] \<or> \<not> list_all is_digit s then Inl ErrSyntax
      else if digits_val s \<ge> 2 ^ 16 then Inl ErrRange else Inr (digits_val s))"

section \<open>Settings\<close>

record TLSConfig =
  tc_CipherSuites :: string
  tc_MinTLSVersion :: string
  tc_CurvePreferences :: string

datatype tls_error =
    UnknownCipher string
  | BadTlsVersion string
  | OldTlsVersion string
  | UnknownCurve string
  | BadCurveId string

record TLSProfileSpec =
  tp_Ciphers :: "string list"
  tp_Groups :: "string list"
  tp_MinTLSVersion :: string

record tls_lib =
  tl_CipherSuite :: "string \<Rightarrow> nat option"
  tl_OpenSSLToIANA :: "string \<Rightarrow> string list"
  tl_InsecureCipherSuites :: "nat list"
  tl_TLSVersion :: "string \<Rightarrow> nat option"
  tl_ServerTLSVersion :: "string \<Rightarrow> nat option"
  tl_TLSProfiles :: "string \<Rightarrow> TLSProfileSpec option"
  tl_ShouldHonor :: "string \<Rightarrow> bool"

definition curveNameToID :: "(string \<times> nat) list" where
  "curveNameToID = [(''X25519'', 29), (''secp256r1'', 23), (''secp384r1'', 24), (''secp521r1'', 25), (''X25519MLKEM768'', 4588)]"

fun curve_ids :: "string list \<Rightarrow> tls_error + nat list" where
  "curve_ids [] = Inr []"
| "curve_ids (name # names) =
     (let name = TrimSpace name in
      if name = [] then curve_ids names
      else case map_of curveNameToID name of
          None \<Rightarrow> Inl (UnknownCurve name)
        | Some i \<Rightarrow> res_bind (curve_ids names) (\<lambda>ids. Inr (i # ids)))"

definition CurveNamesToIDs :: "string \<Rightarrow> tls_error + string" where
  "CurveNamesToIDs curveNames =
     (if curveNames = [] then Inr []
      else res_bind (curve_ids (split_on (CHR '','') curveNames)) (\<lambda>ids.
        Inr (join_with '','' (map (\<lambda>i. itoa (int i)) ids))))"

fun parse_ids :: "string list \<Rightarrow> tls_error + nat list" where
  "parse_ids [] = Inr []"
| "parse_ids (part # parts) =
     (let part = TrimSpace part in
      if part = [] then parse_ids parts
      else case ParseUint16 part of
          Inl _ \<Rightarrow> Inl (BadCurveId part)
        | Inr v \<Rightarrow> res_bind (parse_ids parts) (\<lambda>vs. Inr (v # vs)))"

definition ParseCurvePreferencesFromIDs :: "string \<Rightarrow> tls_error + nat list" where
  "ParseCurvePreferencesFromIDs curveIDs = (if curveIDs = [] then Inr [] else parse_ids (split_on (CHR '','') curveIDs))"

text \<open>The name and the number of a cipher suite; a name in the format of OpenSSL is converted.\<close>

definition iana_cipher :: "tls_lib \<Rightarrow> string \<Rightarrow> tls_error + string \<times> nat" where
  "iana_cipher lib c =
     (case tl_CipherSuite lib c of
        Some cipherID \<Rightarrow> Inr (c, cipherID)
      | None \<Rightarrow>
          (case tl_OpenSSLToIANA lib c of
             [ianaName] \<Rightarrow>
               (case tl_CipherSuite lib ianaName of None \<Rightarrow> Inl (UnknownCipher c) | Some cipherID \<Rightarrow> Inr (ianaName, cipherID))
           | _ \<Rightarrow> Inl (UnknownCipher c)))"

fun CipherSuitesToIANAAndSecure :: "tls_lib \<Rightarrow> string list \<Rightarrow> tls_error + string list" where
  "CipherSuitesToIANAAndSecure lib [] = Inr []"
| "CipherSuitesToIANAAndSecure lib (c # cs) =
     res_bind (iana_cipher lib c) (\<lambda>(ianaName, cipherID).
     res_bind (CipherSuitesToIANAAndSecure lib cs) (\<lambda>rest.
       Inr (if cipherID \<in> set (tl_InsecureCipherSuites lib) then rest else ianaName # rest)))"

abbreviation VersionTLS12 :: nat where "VersionTLS12 \<equiv> 0x303"

definition BuildTLSConfig :: "tls_lib \<Rightarrow> string \<Rightarrow> string \<Rightarrow> string \<Rightarrow> tls_error + TLSConfig option" where
  "BuildTLSConfig lib cipherSuites minVersion curvePreferences =
     (if cipherSuites = [] \<and> minVersion = [] \<and> curvePreferences = [] then Inr None
      else
        res_bind (if cipherSuites = [] then Inr []
                  else res_bind (CipherSuitesToIANAAndSecure lib (split_on (CHR '','') cipherSuites)) (\<lambda>secure. Inr (join_with '','' secure))) (\<lambda>ciphers.
        res_bind (if minVersion = [] then Inr []
                  else case tl_TLSVersion lib minVersion of
                      None \<Rightarrow> Inl (BadTlsVersion minVersion)
                    | Some v \<Rightarrow> if v < VersionTLS12 then Inl (OldTlsVersion minVersion) else Inr minVersion) (\<lambda>minV.
        res_bind (if curvePreferences = [] then Inr []
                  else res_bind (CurveNamesToIDs curvePreferences) (\<lambda>numericIDs. Inr (if numericIDs = [] then [] else curvePreferences))) (\<lambda>curves.
          Inr (Some \<lparr>tc_CipherSuites = ciphers, tc_MinTLSVersion = minV, tc_CurvePreferences = curves\<rparr>)))))"

definition ParseCipherSuites :: "tls_lib \<Rightarrow> string \<Rightarrow> tls_error + nat list" where
  "ParseCipherSuites lib cipherSuites =
     (if cipherSuites = [] then Inr []
      else fold_res (\<lambda>cipher result.
        case tl_CipherSuite lib (TrimSpace cipher) of None \<Rightarrow> Inl (UnknownCipher cipher) | Some i \<Rightarrow> Inr (result @ [i]))
        (split_on (CHR '','') cipherSuites) [])"

definition ParseTLSMinVersion :: "tls_lib \<Rightarrow> string \<Rightarrow> tls_error + nat" where
  "ParseTLSMinVersion lib version =
     (if version = [] then Inr VersionTLS12
      else case tl_ServerTLSVersion lib version of None \<Rightarrow> Inl (BadTlsVersion version) | Some v \<Rightarrow> Inr v)"

text \<open>
  The profile of an OpenShift cluster (\<^verbatim>\<open>src/pkg/orchestrator/openshift/tlsprofile.go\<close>): a profile has a type, and a
  specification when the type is custom.
\<close>

record APIServer =
  as_TLSAdherence :: string
  as_TLSSecurityProfile :: "(string \<times> TLSProfileSpec option) option"

definition profile_spec :: "tls_lib \<Rightarrow> string \<times> TLSProfileSpec option \<Rightarrow> TLSProfileSpec option" where
  "profile_spec lib profile =
     (case profile of (typ, custom) \<Rightarrow>
        if typ = ''Custom'' then custom
        else if typ \<in> {''Old'', ''Intermediate'', ''Modern''} then tl_TLSProfiles lib typ else None)"

definition GetTLSConfig :: "tls_lib \<Rightarrow> APIServer \<Rightarrow> tls_error + TLSConfig option" where
  "GetTLSConfig lib apiServer =
     (if \<not> tl_ShouldHonor lib (as_TLSAdherence apiServer) then Inr None
      else case as_TLSSecurityProfile apiServer of
          None \<Rightarrow> Inr None
        | Some profile \<Rightarrow>
            (case profile_spec lib profile of
               None \<Rightarrow> Inr None
             | Some spec \<Rightarrow> BuildTLSConfig lib (join_with '','' (tp_Ciphers spec)) (tp_MinTLSVersion spec) (join_with '','' (tp_Groups spec))))"

section \<open>Curves\<close>

lemma digits_not_space: "is_digit c \<Longrightarrow> space_len (c # cs) = 0"
  by (simp add: is_digit_def space_len_def byte_at_def)

lemma trim_digits: "s \<noteq> [] \<Longrightarrow> list_all is_digit s \<Longrightarrow> TrimSpace s = s"
proof -
  have l: "trim_left t = t" if "list_all is_digit t" for t
    using that digits_not_space by (cases t) (auto simp: trim_left_def)
  have "trim_right t = t" if "list_all is_digit t" for t
    using that by (induction t) (use l in auto)
  then show "list_all is_digit s \<Longrightarrow> TrimSpace s = s" using l by (simp add: TrimSpace_def)
qed

lemma itoa_digits: "list_all is_digit (itoa (int n))" "itoa (int n) \<noteq> []" "digits_val (itoa (int n)) = n"
  by (simp_all add: itoa_def itoa_nat_digits itoa_nat_nonempty digits_val_itoa_nat)

lemma parse_ids_itoa: "list_all (\<lambda>n. n < 2 ^ 16) ids \<Longrightarrow> parse_ids (map (\<lambda>i. itoa (int i)) ids) = Inr ids"
  by (induction ids) (simp_all add: trim_digits itoa_digits ParseUint16_def)

lemma curve_ids_small: "curve_ids names = Inr ids \<Longrightarrow> list_all (\<lambda>n. n < 2 ^ 16) ids"
proof (induction names arbitrary: ids)
  case (Cons name names)
  have small: "map_of curveNameToID nm = Some i \<Longrightarrow> i < 2 ^ 16" for nm i by (auto simp: curveNameToID_def split: if_splits)
  show ?case using Cons small by (auto simp: Let_def res_bind_eq_Inr split: if_splits option.splits)
qed simp

lemma split_join: "ws \<noteq> [] \<Longrightarrow> list_all (\<lambda>w. c \<notin> set w) ws \<Longrightarrow> split_on c (join_with [c] ws) = ws"
proof (induction ws rule: induct_list012)
  case (3 w v ws)
  then show ?case by (simp add: split_on_append_sep)
qed (simp_all add: split_on_no_sep)

lemma curve_ids_eq:
  "curve_ids names = Inr ids \<Longrightarrow> ids = map (\<lambda>n. the (map_of curveNameToID n)) (filter (\<lambda>n. n \<noteq> []) (map TrimSpace names))"
  by (induction names arbitrary: ids) (auto simp: Let_def res_bind_eq_Inr split: if_splits option.splits)

lemma comma_notin_itoa: "CHR '','' \<notin> set (itoa (int n))"
  using itoa_digits(1)[of n] by (auto simp: list_all_iff is_digit_def)

lemma join_nonempty: "list_all (\<lambda>w. w \<noteq> []) ws \<Longrightarrow> join_with sep ws = [] \<longleftrightarrow> ws = []"
  by (cases "(sep, ws)" rule: join_with.cases) auto

text \<open>
  Curves arrive as they were named. When the operator converts a list of curve names into numbers for the webhooks, the
  webhooks read back exactly the numbers of the named curves, in their order.
\<close>

theorem curves_roundtrip:
  assumes "CurveNamesToIDs names = Inr s"
  shows "ParseCurvePreferencesFromIDs s =
    Inr (map (\<lambda>n. the (map_of curveNameToID n)) (filter (\<lambda>n. n \<noteq> []) (map TrimSpace (split_on (CHR '','') names))))"
proof (cases "names = []")
  case True
  then show ?thesis using assms by (simp add: CurveNamesToIDs_def ParseCurvePreferencesFromIDs_def TrimSpace_def trim_left_def)
next
  case False
  then obtain ids where ids: "curve_ids (split_on (CHR '','') names) = Inr ids" "s = join_with '','' (map (\<lambda>i. itoa (int i)) ids)"
    using assms by (auto simp: CurveNamesToIDs_def res_bind_eq_Inr)
  have "ParseCurvePreferencesFromIDs s = Inr ids"
  proof (cases "ids = []")
    case False
    then have "s \<noteq> []" using ids(2) by (simp add: join_nonempty list_all_iff itoa_digits(2))
    moreover have "split_on (CHR '','') s = map (\<lambda>i. itoa (int i)) ids"
      unfolding ids(2) using False by (intro split_join) (auto simp: list_all_iff comma_notin_itoa)
    ultimately show ?thesis using parse_ids_itoa[OF curve_ids_small[OF ids(1)]] by (simp add: ParseCurvePreferencesFromIDs_def)
  qed (simp add: ids(2) ParseCurvePreferencesFromIDs_def)
  then show ?thesis using curve_ids_eq[OF ids(1)] by simp
qed

theorem curves_roundtrip_witness:
  "CurveNamesToIDs ''X25519, secp256r1'' = Inr ''29,23'' \<and> ParseCurvePreferencesFromIDs ''29,23'' = Inr [29, 23]"
proof -
  have c: "CurveNamesToIDs ''X25519, secp256r1'' = Inr ''29,23''" by code_simp
  moreover have "map (\<lambda>n. the (map_of curveNameToID n)) (filter (\<lambda>n. n \<noteq> []) (map TrimSpace (split_on (CHR '','') ''X25519, secp256r1''))) = [29, 23]"
    by code_simp
  ultimately show ?thesis using curves_roundtrip[OF c] by simp
qed

section \<open>Accepted settings\<close>

lemma ciphers_secure:
  "CipherSuitesToIANAAndSecure lib cs = Inr names \<Longrightarrow>
     list_all (\<lambda>n. \<exists>i. tl_CipherSuite lib n = Some i \<and> i \<notin> set (tl_InsecureCipherSuites lib)) names"
proof (induction cs arbitrary: names)
  case (Cons c cs)
  obtain n i rest where n: "iana_cipher lib c = Inr (n, i)" "CipherSuitesToIANAAndSecure lib cs = Inr rest"
    "names = (if i \<in> set (tl_InsecureCipherSuites lib) then rest else n # rest)"
    using Cons.prems by (auto simp: res_bind_eq_Inr)
  have "tl_CipherSuite lib n = Some i" using n(1) by (auto simp: iana_cipher_def split: option.splits list.splits)
  then show ?case using Cons.IH[OF n(2)] n(3) by simp
qed simp

text \<open>
  Accepted TLS settings are safe. Settings that the operator accepts, from its environment or from the profile of the cluster,
  list only cipher suites that are known and not insecure, have no minimum version below TLS 1.2, and name only curves that can be
  converted for the webhooks.
\<close>

theorem tls_config_safe:
  assumes "BuildTLSConfig lib cipherSuites minVersion curvePreferences = Inr (Some cfg)"
  shows "(\<exists>names. tc_CipherSuites cfg = join_with '','' names \<and>
      list_all (\<lambda>n. \<exists>i. tl_CipherSuite lib n = Some i \<and> i \<notin> set (tl_InsecureCipherSuites lib)) names) \<and>
    (tc_MinTLSVersion cfg = [] \<or> (\<exists>v. tl_TLSVersion lib (tc_MinTLSVersion cfg) = Some v \<and> v \<ge> VersionTLS12)) \<and>
    (\<exists>ids. CurveNamesToIDs (tc_CurvePreferences cfg) = Inr ids)"
proof -
  obtain ciphers minV curves where c: "cfg = \<lparr>tc_CipherSuites = ciphers, tc_MinTLSVersion = minV, tc_CurvePreferences = curves\<rparr>"
    and a: "(if cipherSuites = [] then Inr [] else res_bind (CipherSuitesToIANAAndSecure lib (split_on (CHR '','') cipherSuites))
      (\<lambda>secure. Inr (join_with '','' secure))) = (Inr ciphers :: tls_error + string)"
    and b: "(if minVersion = [] then Inr [] else case tl_TLSVersion lib minVersion of None \<Rightarrow> Inl (BadTlsVersion minVersion)
      | Some v \<Rightarrow> if v < VersionTLS12 then Inl (OldTlsVersion minVersion) else Inr minVersion) = Inr minV"
    and d: "(if curvePreferences = [] then Inr [] else res_bind (CurveNamesToIDs curvePreferences)
      (\<lambda>numericIDs. Inr (if numericIDs = [] then [] else curvePreferences))) = Inr curves"
    using assms by (auto simp: BuildTLSConfig_def res_bind_eq_Inr split: if_splits)
  have "\<exists>names. ciphers = join_with '','' names \<and>
      list_all (\<lambda>n. \<exists>i. tl_CipherSuite lib n = Some i \<and> i \<notin> set (tl_InsecureCipherSuites lib)) names"
  proof (cases "cipherSuites = []")
    case True
    then show ?thesis using a by (intro exI[of _ "[]"]) simp
  qed (use a ciphers_secure in \<open>auto simp: res_bind_eq_Inr\<close>)
  moreover have "minV = [] \<or> (\<exists>v. tl_TLSVersion lib minV = Some v \<and> v \<ge> VersionTLS12)"
    using b by (auto split: if_splits option.splits)
  moreover have "\<exists>ids. CurveNamesToIDs curves = Inr ids"
    using d by (auto simp: res_bind_eq_Inr CurveNamesToIDs_def split: if_splits)
  ultimately show ?thesis using c by simp
qed

definition sample_tls_lib :: tls_lib where
  "sample_tls_lib = \<lparr>tl_CipherSuite = map_of [(''TLS_AES_128_GCM_SHA256'', 0x1301), (''TLS_RSA_WITH_RC4_128_SHA'', 5)],
     tl_OpenSSLToIANA = (\<lambda>_. []), tl_InsecureCipherSuites = [5], tl_TLSVersion = map_of [(''VersionTLS10'', 0x301), (''VersionTLS12'', 0x303)],
     tl_ServerTLSVersion = map_of [(''VersionTLS10'', 0x301), (''VersionTLS12'', 0x303)],
     tl_TLSProfiles = map_of [(''Old'', \<lparr>tp_Ciphers = [''TLS_AES_128_GCM_SHA256''], tp_Groups = [], tp_MinTLSVersion = ''VersionTLS10''\<rparr>)],
     tl_ShouldHonor = (\<lambda>a. a = ''StrictAllComponents'')\<rparr>"

theorem tls_config_safe_witness:
  "\<exists>cfg. BuildTLSConfig sample_tls_lib ''TLS_AES_128_GCM_SHA256,TLS_RSA_WITH_RC4_128_SHA'' ''VersionTLS12'' ''X25519'' = Inr (Some cfg) \<and>
     (\<exists>ids. CurveNamesToIDs (tc_CurvePreferences cfg) = Inr ids)"
proof -
  have "BuildTLSConfig sample_tls_lib ''TLS_AES_128_GCM_SHA256,TLS_RSA_WITH_RC4_128_SHA'' ''VersionTLS12'' ''X25519'' =
      Inr (Some \<lparr>tc_CipherSuites = ''TLS_AES_128_GCM_SHA256'', tc_MinTLSVersion = ''VersionTLS12'', tc_CurvePreferences = ''X25519''\<rparr>)"
    by code_simp
  from tls_config_safe[OF this] this show ?thesis by blast
qed

end
