(* ===== verification/Feature_Gate.thy ===== *)
theory Feature_Gate
  imports Sriov_Prelude "HOL-Library.Finite_Map"
begin

text \<open>
  Feature gates (\<^verbatim>\<open>src/pkg/featuregate/featuregate.go\<close>): the state of each feature, set from the operator configuration over
  the defaults. The order in which Go iterates over the map is an argument of the printing function.
\<close>

abbreviation ParallelNicConfigFeatureGate :: string where "ParallelNicConfigFeatureGate \<equiv> ''parallelNicConfig''"
abbreviation ResourceInjectorMatchConditionFeatureGate :: string where
  "ResourceInjectorMatchConditionFeatureGate \<equiv> ''resourceInjectorMatchCondition''"
abbreviation MetricsExporterFeatureGate :: string where "MetricsExporterFeatureGate \<equiv> ''metricsExporter''"
abbreviation ManageSoftwareBridgesFeatureGate :: string where "ManageSoftwareBridgesFeatureGate \<equiv> ''manageSoftwareBridges''"
abbreviation BlockDevicePluginUntilConfiguredFeatureGate :: string where
  "BlockDevicePluginUntilConfiguredFeatureGate \<equiv> ''blockDevicePluginUntilConfigured''"
abbreviation MellanoxFirmwareResetFeatureGate :: string where "MellanoxFirmwareResetFeatureGate \<equiv> ''mellanoxFirmwareReset''"

definition DefaultFeatureStates :: "(string, bool) fmap" where
  "DefaultFeatureStates = fmap_of_list
     [(ParallelNicConfigFeatureGate, False), (ResourceInjectorMatchConditionFeatureGate, False),
      (MetricsExporterFeatureGate, False), (ManageSoftwareBridgesFeatureGate, False),
      (BlockDevicePluginUntilConfiguredFeatureGate, True), (MellanoxFirmwareResetFeatureGate, True)]"

record featureGate =
  fg_state :: "(string, bool) fmap"
  fg_defaultFeatures :: "(string, bool) fmap"

definition NewWithDefaultFeatures :: "(string, bool) fmap \<Rightarrow> featureGate" where
  "NewWithDefaultFeatures defaults = \<lparr>fg_state = fmempty, fg_defaultFeatures = defaults\<rparr>"

definition New_featureGate :: featureGate where
  "New_featureGate = NewWithDefaultFeatures DefaultFeatureStates"

definition fg_IsEnabled :: "featureGate \<Rightarrow> string \<Rightarrow> bool" where
  "fg_IsEnabled fg feature = (fmlookup (fg_state fg) feature = Some True)"

definition fg_Init :: "(string, bool) fmap \<Rightarrow> featureGate \<Rightarrow> featureGate" where
  "fg_Init features fg = fg\<lparr>fg_state := fmadd (fg_defaultFeatures fg) features\<rparr>"

definition fg_String :: "((string, bool) fmap \<Rightarrow> string list) \<Rightarrow> featureGate \<Rightarrow> string" where
  "fg_String order fg =
     join_with '', '' (map (\<lambda>k. k @ '':'' @ (if fmlookup (fg_state fg) k = Some True then ''true'' else ''false'')) (order (fg_state fg)))"

lemma enabled_after_init:
  "fg_IsEnabled (fg_Init features fg) f \<longleftrightarrow>
     (case fmlookup features f of Some b \<Rightarrow> b | None \<Rightarrow> fmlookup (fg_defaultFeatures fg) f = Some True)"
  by (auto simp: fg_IsEnabled_def fg_Init_def split: option.splits)

end
