(* ===== verification/Operator_Objects.thy ===== *)
theory Operator_Objects
  imports Io_Monad Manifests Tls Feature_Gate Status_Patcher Samples "HOL-Library.AList"
begin

text \<open>
  What the operator configuration controller works with: the objects of the API server by group, kind, namespace and name,
  the operator configuration itself and the feature gates; rendering of a directory of manifests
  (\<^verbatim>\<open>src/pkg/render/render.go\<close>), and creating, updating and deleting a rendered object
  (\<^verbatim>\<open>src/pkg/apply/apply.go\<close>). Each call of the API server takes the next entry of a schedule of failures. What the server
  stores for a submitted object, with its defaults and its own fields, is a parameter, and so are the files of the
  manifests, the template engine and the YAML decoder, the conversions of the scheme and the setter of owner references.
\<close>

section \<open>World\<close>

datatype object_error = ObjFault | ObjNotFound | ObjExists | ObjConflict

datatype operator_error =
    OpApi object_error
  | OpManifest manifest_error
  | ObjectNoName
  | OpRender string
  | OpConvert string
  | OpOwner string
  | OpTls tls_error
  | SystemdModeOnHypershift
  | OpJoin operator_error operator_error

type_synonym obj_key = "string \<times> string \<times> string \<times> string"

definition key_of :: "uobj \<Rightarrow> obj_key" where
  "key_of obj = (case GroupVersionKind obj of (g, _, k) \<Rightarrow> (g, k, GetNamespace obj, GetName obj))"

record operator_cr = SriovOperatorConfig +
  cr_Finalizers :: "string list"
  cr_Deleting :: bool
  cr_Conditions :: "Condition list"

record operator_world =
  pw_Objects :: "obj_key \<rightharpoonup> uobj"
  pw_Config :: "operator_cr option"
  pw_APIServer :: "APIServer option"
  pw_Gate :: featureGate
  pw_Faults :: "bool list"
  pw_Clock :: int

record op_env =
  opn_Getenv :: "string \<Rightarrow> string"
  opn_Namespace :: string
  opn_ClusterTypeVar :: string
  opn_ResourcePrefix :: string
  opn_UseExternalDrainer :: bool
  opn_Openshift :: bool
  opn_Hypershift :: bool
  opn_Tls :: tls_lib
  opn_Order :: "(string \<times> string) list \<Rightarrow> (string \<times> string) list"
  opn_Walk :: "string \<Rightarrow> string + string list"
  opn_Template :: "string \<Rightarrow> uobj \<Rightarrow> string + string"
  opn_Decode :: "string \<Rightarrow> string + uobj option list"
  opn_Admit :: "uobj option \<Rightarrow> uobj \<Rightarrow> uobj"
  opn_SetOwner :: "operator_cr \<Rightarrow> uobj \<Rightarrow> string + uobj"
  opn_ToTyped :: "string \<Rightarrow> uobj \<Rightarrow> string + uobj"
  opn_FromTyped :: "string \<Rightarrow> uobj \<Rightarrow> string + uobj"
  opn_DeepDerivative :: "json option \<Rightarrow> json option \<Rightarrow> bool"
  opn_ErrorText :: "operator_error \<Rightarrow> string"

type_synonym 'a oio = "(operator_world, operator_error, 'a) stateful"

definition op_call :: "(operator_world \<Rightarrow> (object_error + 'a) \<times> operator_world) \<Rightarrow> 'a oio" where
  "op_call f w =
     (case pw_Faults w of
        True # bs \<Rightarrow> (Inl (OpApi ObjFault), w\<lparr>pw_Faults := bs\<rparr>)
      | bs \<Rightarrow> (case f (w\<lparr>pw_Faults := tl bs\<rparr>) of (r, w') \<Rightarrow> (map_err OpApi r, w')))"

definition get_object :: "obj_key \<Rightarrow> uobj oio" where
  "get_object key = op_call (\<lambda>w. (case pw_Objects w key of None \<Rightarrow> Inl ObjNotFound | Some obj \<Rightarrow> Inr obj, w))"

definition create_object :: "op_env \<Rightarrow> uobj \<Rightarrow> unit oio" where
  "create_object env obj = op_call (\<lambda>w.
     if pw_Objects w (key_of obj) \<noteq> None then (Inl ObjExists, w)
     else (Inr (), w\<lparr>pw_Objects := (pw_Objects w)(key_of obj \<mapsto> opn_Admit env None obj)\<rparr>))"

definition update_object :: "op_env \<Rightarrow> uobj \<Rightarrow> unit oio" where
  "update_object env obj = op_call (\<lambda>w.
     case pw_Objects w (key_of obj) of
       None \<Rightarrow> (Inl ObjNotFound, w)
     | Some old \<Rightarrow>
         if GetResourceVersion obj \<noteq> [] \<and> GetResourceVersion obj \<noteq> GetResourceVersion old then (Inl ObjConflict, w)
         else (Inr (), w\<lparr>pw_Objects := (pw_Objects w)(key_of obj \<mapsto> opn_Admit env (Some old) obj)\<rparr>))"

definition delete_object :: "obj_key \<Rightarrow> unit oio" where
  "delete_object key = op_call (\<lambda>w.
     case pw_Objects w key of
       None \<Rightarrow> (Inl ObjNotFound, w)
     | Some _ \<Rightarrow> (Inr (), w\<lparr>pw_Objects := (pw_Objects w)(key := None)\<rparr>))"

definition not_found :: "operator_error \<Rightarrow> bool" where
  "not_found e \<longleftrightarrow> e = OpApi ObjNotFound"

section \<open>Applying and deleting\<close>

definition DeleteObject :: "uobj \<Rightarrow> unit oio" where
  "DeleteObject obj =
     (if GetName obj = [] then io_fail ObjectNoName
      else
        io_bind (io_lift (map_err OpManifest (IsObjectSupported obj))) (\<lambda>_.
        io_handle (get_object (key_of obj))
          (\<lambda>e. if not_found e then io_return () else io_fail e)
          (\<lambda>existing. delete_object (key_of obj))))"

definition ApplyObject :: "op_env \<Rightarrow> uobj \<Rightarrow> unit oio" where
  "ApplyObject env obj =
     (if GetName obj = [] then io_fail ObjectNoName
      else
        io_bind (io_lift (map_err OpManifest (IsObjectSupported obj))) (\<lambda>_.
        io_handle (get_object (key_of obj))
          (\<lambda>e. if not_found e then create_object env obj else io_fail e)
          (\<lambda>existing.
            io_bind (io_lift (map_err OpManifest (MergeObjectForUpdate existing obj))) (\<lambda>obj.
              if existing \<noteq> obj then update_object env obj else io_return ()))))"

section \<open>Rendering\<close>

definition RenderFileTemplate :: "op_env \<Rightarrow> string \<Rightarrow> uobj \<Rightarrow> string + uobj list" where
  "RenderFileTemplate env path d =
     res_bind (opn_Template env path d) (\<lambda>rendered.
       if TrimSpace rendered = [] then Inr []
       else res_bind (opn_Decode env rendered) (\<lambda>docs. Inr (List.map_filter (\<lambda>u. u) docs)))"

definition is_manifest :: "string \<Rightarrow> bool" where
  "is_manifest path \<longleftrightarrow> has_suffix path ''.yml'' \<or> has_suffix path ''.yaml'' \<or> has_suffix path ''.json''"

definition RenderDir :: "op_env \<Rightarrow> string \<Rightarrow> uobj \<Rightarrow> string + uobj list" where
  "RenderDir env manifestDir d =
     res_bind (opn_Walk env manifestDir) (\<lambda>paths.
       fold_res (\<lambda>path out. if is_manifest path then res_bind (RenderFileTemplate env path d) (\<lambda>objs. Inr (out @ objs)) else Inr out)
         paths [])"

definition renderManifests :: "op_env \<Rightarrow> string \<Rightarrow> uobj \<Rightarrow> uobj list oio" where
  "renderManifests env path d = io_lift (map_err OpRender (RenderDir env path d))"

section \<open>Settings\<close>

definition GetImagePullSecrets :: "op_env \<Rightarrow> string list" where
  "GetImagePullSecrets env =
     (let s = opn_Getenv env ''IMAGE_PULL_SECRETS'' in if s \<noteq> [] then split_on (CHR '','') s else [])"

definition GetDefaultNodeSelector :: "(string \<times> string) list" where
  "GetDefaultNodeSelector = [(''node-role.kubernetes.io/worker'', []), (''kubernetes.io/os'', ''linux'')]"

abbreviation SriovDevicePluginLabel :: string where "SriovDevicePluginLabel \<equiv> ''sriovnetwork.openshift.io/device-plugin''"

definition GetNodeSelectorForDevicePlugin :: "operator_cr \<Rightarrow> (string \<times> string) list" where
  "GetNodeSelectorForDevicePlugin dc =
     (let sel = ocs_ConfigDaemonNodeSelector (opc_Spec dc) in
      if sel = [] then [(''kubernetes.io/os'', ''linux''), (SriovDevicePluginLabel, ''Enabled'')]
      else AList.update SriovDevicePluginLabel ''Enabled'' sel)"

definition json_strings :: "(string \<times> string) list \<Rightarrow> json" where
  "json_strings m = JMap (fmap_of_list (map (\<lambda>(k, v). (k, JStr v)) m))"

definition json_list :: "string list \<Rightarrow> json" where
  "json_list xs = JList (map JStr xs)"

text \<open>The settings of the cluster's profile, read from the API server of an OpenShift cluster.\<close>

definition orchestrator_tls :: "op_env \<Rightarrow> TLSConfig option oio" where
  "orchestrator_tls env =
     (if \<not> opn_Openshift env then io_return None
      else
        io_bind (op_call (\<lambda>w. (case pw_APIServer w of None \<Rightarrow> Inl ObjNotFound | Some a \<Rightarrow> Inr a, w))) (\<lambda>apiServer.
          io_lift (map_err OpTls (GetTLSConfig (opn_Tls env) apiServer))))"

definition getTLSTemplateData :: "op_env \<Rightarrow> TLSConfig oio" where
  "getTLSTemplateData env =
     (let ciphers = opn_Getenv env ''TLS_CIPHER_SUITES''; minV = opn_Getenv env ''TLS_MIN_VERSION'';
          curves = opn_Getenv env ''TLS_CURVE_PREFERENCES'';
          none = \<lparr>tc_CipherSuites = [], tc_MinTLSVersion = [], tc_CurvePreferences = []\<rparr>
      in
      io_bind (if ciphers \<noteq> [] \<or> minV \<noteq> [] \<or> curves \<noteq> []
               then io_bind (io_lift (map_err OpTls (BuildTLSConfig (opn_Tls env) ciphers minV curves))) (\<lambda>c.
                 io_return (case c of None \<Rightarrow> none | Some c \<Rightarrow> c))
               else io_return none) (\<lambda>result.
      io_bind (orchestrator_tls env) (\<lambda>tlsConfig.
        let result = (case tlsConfig of None \<Rightarrow> result | Some c \<Rightarrow> c) in
        if tc_CurvePreferences result \<noteq> []
        then io_bind (io_lift (map_err OpTls (CurveNamesToIDs (tc_CurvePreferences result)))) (\<lambda>ids.
          io_return (result\<lparr>tc_CurvePreferences := ids\<rparr>))
        else io_return result)))"

definition tls_data :: "TLSConfig \<Rightarrow> (string \<times> json) list" where
  "tls_data c = [(''TLSCipherSuites'', JStr (tc_CipherSuites c)), (''TLSMinVersion'', JStr (tc_MinTLSVersion c)),
     (''TLSCurvePreferences'', JStr (tc_CurvePreferences c))]"

end
