(* ===== verification/Operator_Config.thy ===== *)
theory Operator_Config
  imports Operator_Objects Nic_Selector
begin

text \<open>
  The operator configuration controller (\<^verbatim>\<open>src/controllers/sriovoperatorconfig_controller.go\<close> and the parts of
  \<^verbatim>\<open>helper.go\<close> that it calls): it deploys or removes the webhooks, the config daemon, the device plugin, the metrics exporter
  and, on OpenShift, the machine config of the systemd service, and reports the result as a condition. The order in which Go
  iterates over the map of webhooks is part of the environment. An empty node selector stands for a nil one as well.
\<close>

section \<open>Constants\<close>

abbreviation ConfigDaemonPath :: string where "ConfigDaemonPath \<equiv> ''./bindata/manifests/daemon''"
abbreviation InjectorWebHookPath :: string where "InjectorWebHookPath \<equiv> ''./bindata/manifests/webhook''"
abbreviation OperatorWebHookPath :: string where "OperatorWebHookPath \<equiv> ''./bindata/manifests/operator-webhook''"
abbreviation MetricsExporterPath :: string where "MetricsExporterPath \<equiv> ''./bindata/manifests/metrics-exporter''"
abbreviation SystemdServiceOcpPath :: string where "SystemdServiceOcpPath \<equiv> ''./bindata/manifests/sriov-config-service/openshift''"
abbreviation PluginPath :: string where "PluginPath \<equiv> ''./bindata/manifests/plugins''"
abbreviation InjectorWebHookName :: string where "InjectorWebHookName \<equiv> ''network-resources-injector-config''"
abbreviation OperatorWebHookName :: string where "OperatorWebHookName \<equiv> ''sriov-operator-webhook-config''"
abbreviation OPERATORCONFIGFINALIZERNAME :: string where
  "OPERATORCONFIGFINALIZERNAME \<equiv> ''operatorconfig.finalizers.sriovnetwork.openshift.io''"
abbreviation SystemdConfigurationMode :: string where "SystemdConfigurationMode \<equiv> ''systemd''"

definition webhooks :: "(string \<times> string) list" where
  "webhooks = [(InjectorWebHookName, InjectorWebHookPath), (OperatorWebHookName, OperatorWebHookPath)]"

definition machine_config_key :: obj_key where
  "machine_config_key = (''machineconfiguration.openshift.io'', ''MachineConfig'', [], ''sriov-config-service'')"

section \<open>Single objects\<close>

definition cluster_kind :: "string \<Rightarrow> bool" where
  "cluster_kind kind \<longleftrightarrow> kind \<in> {''ClusterRole'', ''ClusterRoleBinding'', ''MutatingWebhookConfiguration'',
     ''ValidatingWebhookConfiguration'', ''MachineConfig''}"

definition syncK8sResource :: "op_env \<Rightarrow> operator_cr \<Rightarrow> uobj \<Rightarrow> unit oio" where
  "syncK8sResource env cr obj =
     io_bind (if cluster_kind (GetKind obj) then io_return obj else io_lift (map_err OpOwner (opn_SetOwner env cr obj))) (\<lambda>obj.
       ApplyObject env obj)"

definition deleteK8sResource :: "uobj \<Rightarrow> unit oio" where
  "deleteK8sResource obj = DeleteObject obj"

definition deleteK8sResources :: "uobj list \<Rightarrow> unit oio" where
  "deleteK8sResources objs = io_each deleteK8sResource objs"

definition deleteWebhookObject :: "uobj \<Rightarrow> unit oio" where
  "deleteWebhookObject obj = deleteK8sResource obj"

definition updateDaemonsetNodeSelector :: "op_env \<Rightarrow> (string \<times> string) list \<Rightarrow> uobj \<Rightarrow> operator_error + uobj" where
  "updateDaemonsetNodeSelector env nodeSelector obj =
     (if nodeSelector = [] then Inr obj
      else
        res_bind (map_err OpConvert (opn_ToTyped env ''DaemonSet'' obj)) (\<lambda>ds.
          map_err OpConvert (opn_FromTyped env ''DaemonSet''
            (set_field ds (json_strings nodeSelector) [''spec'', ''template'', ''spec'', ''nodeSelector'']))))"

definition syncDaemonSet :: "op_env \<Rightarrow> operator_cr \<Rightarrow> uobj \<Rightarrow> unit oio" where
  "syncDaemonSet env dc inp =
     io_bind (io_lift (map_err OpOwner (opn_SetOwner env dc inp))) (\<lambda>inp.
     io_handle (get_object (key_of inp))
       (\<lambda>e. if not_found e then create_object env inp else io_fail e)
       (\<lambda>ds.
         if nested_get (JMap inp) [''metadata'', ''ownerReferences''] = nested_get (JMap ds) [''metadata'', ''ownerReferences''] \<and>
            opn_DeepDerivative env (fmlookup inp ''spec'') (fmlookup ds ''spec'')
         then io_return () else update_object env inp))"

definition syncDsObject :: "op_env \<Rightarrow> operator_cr \<Rightarrow> uobj \<Rightarrow> unit oio" where
  "syncDsObject env dc obj =
     (let kind = GetKind obj in
      if kind \<in> {''ServiceAccount'', ''Role'', ''RoleBinding''}
      then io_bind (io_lift (map_err OpOwner (opn_SetOwner env dc obj))) (ApplyObject env)
      else if kind = ''DaemonSet''
      then io_bind (io_lift (map_err OpConvert (opn_ToTyped env ''DaemonSet'' obj))) (syncDaemonSet env dc)
      else io_return ())"

section \<open>Components\<close>

abbreviation enabled :: "string \<Rightarrow> bool oio" where
  "enabled feature \<equiv> io_gets (\<lambda>w. fg_IsEnabled (pw_Gate w) feature)"

definition syncPluginDaemonObjs :: "op_env \<Rightarrow> operator_cr \<Rightarrow> unit oio" where
  "syncPluginDaemonObjs env dc =
     io_bind (enabled BlockDevicePluginUntilConfiguredFeatureGate) (\<lambda>blocked.
     io_bind (renderManifests env PluginPath (fmap_of_list
       [(''Namespace'', JStr (opn_Namespace env)),
        (''SRIOVDevicePluginImage'', JStr (opn_Getenv env ''SRIOV_DEVICE_PLUGIN_IMAGE'')),
        (''SRIOVNetworkConfigDaemonImage'', JStr (opn_Getenv env ''SRIOV_NETWORK_CONFIG_DAEMON_IMAGE'')),
        (''ReleaseVersion'', JStr (opn_Getenv env ''RELEASEVERSION'')),
        (''ResourcePrefix'', JStr (opn_ResourcePrefix env)),
        (''ImagePullSecrets'', json_list (GetImagePullSecrets env)),
        (''NodeSelectorField'', json_strings (GetNodeSelectorForDevicePlugin dc)),
        (''UseCDI'', JBool (ocs_UseCDI (opc_Spec dc))),
        (''BlockDevicePluginUntilConfigured'', JBool blocked)])) (\<lambda>objs.
       io_each (syncDsObject env dc) objs))"

definition config_daemon_data :: "op_env \<Rightarrow> operator_cr \<Rightarrow> bool \<Rightarrow> bool \<Rightarrow> uobj" where
  "config_daemon_data env dc parallel bridges =
     (let sp = opc_Spec dc; path = opn_Getenv env ''SRIOV_CNI_BIN_PATH'' in
      fmap_of_list
       ([(''Image'', JStr (opn_Getenv env ''SRIOV_NETWORK_CONFIG_DAEMON_IMAGE'')),
         (''Namespace'', JStr (opn_Namespace env)),
         (''SRIOVCNIImage'', JStr (opn_Getenv env ''SRIOV_CNI_IMAGE'')),
         (''SRIOVInfiniBandCNIImage'', JStr (opn_Getenv env ''SRIOV_INFINIBAND_CNI_IMAGE'')),
         (''OVSCNIImage'', JStr (opn_Getenv env ''OVS_CNI_IMAGE'')),
         (''RDMACNIImage'', JStr (opn_Getenv env ''RDMA_CNI_IMAGE'')),
         (''ReleaseVersion'', JStr (opn_Getenv env ''RELEASEVERSION'')),
         (''ClusterType'', JStr (opn_ClusterTypeVar env)),
         (''DevMode'', JStr (opn_Getenv env ''DEV_MODE'')),
         (''UseExternalDrainer'', JBool (opn_UseExternalDrainer env)),
         (''ImagePullSecrets'', json_list (GetImagePullSecrets env)),
         (''UsedSystemdMode'', JBool (ocs_ConfigurationMode sp = SystemdConfigurationMode)),
         (''ParallelNicConfig'', JBool parallel),
         (''ManageSoftwareBridges'', JBool bridges),
         (''CNIBinPath'', JStr (if path = [] then ''/var/lib/cni/bin'' else path))] @
        (if ocs_DisablePlugins sp = [] then [] else [(''DisablePlugins'', JStr (join_with '','' (ocs_DisablePlugins sp)))]) @
        [(''ConfigDaemonEnvVars'', json_strings (ocs_ConfigDaemonEnvVars sp))]))"

definition syncConfigDaemonSet :: "op_env \<Rightarrow> operator_cr \<Rightarrow> unit oio" where
  "syncConfigDaemonSet env dc =
     io_bind (enabled ParallelNicConfigFeatureGate) (\<lambda>parallel.
     io_bind (enabled ManageSoftwareBridgesFeatureGate) (\<lambda>bridges.
     io_bind (renderManifests env ConfigDaemonPath (config_daemon_data env dc parallel bridges)) (\<lambda>objs.
       io_each (\<lambda>obj.
         io_bind (if GetKind obj = ''DaemonSet''
                  then io_lift (updateDaemonsetNodeSelector env (ocs_ConfigDaemonNodeSelector (opc_Spec dc)) obj)
                  else io_return obj) (syncK8sResource env dc)) objs)))"

definition is_true :: "op_env \<Rightarrow> string \<Rightarrow> bool" where
  "is_true env v \<longleftrightarrow> to_lower (opn_Getenv env v) = ''true''"

definition metrics_data :: "op_env \<Rightarrow> operator_cr \<Rightarrow> TLSConfig \<Rightarrow> uobj" where
  "metrics_data env dc tls = fmap_of_list
     ([(''Image'', JStr (opn_Getenv env ''METRICS_EXPORTER_IMAGE'')),
       (''Namespace'', JStr (opn_Namespace env)),
       (''ImagePullSecrets'', json_list (GetImagePullSecrets env)),
       (''MetricsExporterSecretName'', JStr (opn_Getenv env ''METRICS_EXPORTER_SECRET_NAME'')),
       (''MetricsExporterPort'', JStr (opn_Getenv env ''METRICS_EXPORTER_PORT'')),
       (''MetricsExporterKubeRbacProxyImage'', JStr (opn_Getenv env ''METRICS_EXPORTER_KUBE_RBAC_PROXY_IMAGE'')),
       (''IsOpenshift'', JBool (opn_Openshift env)),
       (''IsPrometheusOperatorInstalled'', JBool (is_true env ''METRICS_EXPORTER_PROMETHEUS_OPERATOR_ENABLED'')),
       (''PrometheusOperatorDeployRules'', JBool (is_true env ''METRICS_EXPORTER_PROMETHEUS_DEPLOY_RULES'')),
       (''PrometheusOperatorServiceAccount'', JStr (opn_Getenv env ''METRICS_EXPORTER_PROMETHEUS_OPERATOR_SERVICE_ACCOUNT'')),
       (''PrometheusOperatorNamespace'', JStr (opn_Getenv env ''METRICS_EXPORTER_PROMETHEUS_OPERATOR_NAMESPACE''))] @
      tls_data tls @
      [(''NodeSelectorField'', json_strings (if ocs_ConfigDaemonNodeSelector (opc_Spec dc) = [] then GetDefaultNodeSelector
          else ocs_ConfigDaemonNodeSelector (opc_Spec dc)))])"

definition syncMetricsExporter :: "op_env \<Rightarrow> operator_cr \<Rightarrow> unit oio" where
  "syncMetricsExporter env dc =
     io_bind (getTLSTemplateData env) (\<lambda>tls.
     io_bind (renderManifests env MetricsExporterPath (metrics_data env dc tls)) (\<lambda>objs.
     io_bind (enabled MetricsExporterFeatureGate) (\<lambda>on.
       if on then io_each (syncK8sResource env dc) objs else deleteK8sResources objs)))"

section \<open>Webhooks\<close>

definition port_or_default :: "op_env \<Rightarrow> string \<Rightarrow> string" where
  "port_or_default env v = (let p = opn_Getenv env v in if p = [] then ''6443'' else p)"

definition webhook_data :: "op_env \<Rightarrow> string \<Rightarrow> bool \<Rightarrow> TLSConfig \<Rightarrow> uobj" where
  "webhook_data env nm matchCondition tls = fmap_of_list
     ([(''Namespace'', JStr (opn_Namespace env)),
       (''SRIOVMutatingWebhookName'', JStr nm),
       (''NetworkResourcesInjectorImage'', JStr (opn_Getenv env ''NETWORK_RESOURCES_INJECTOR_IMAGE'')),
       (''SriovNetworkWebhookImage'', JStr (opn_Getenv env ''SRIOV_NETWORK_WEBHOOK_IMAGE'')),
       (''ReleaseVersion'', JStr (opn_Getenv env ''RELEASEVERSION'')),
       (''ClusterType'', JStr (opn_ClusterTypeVar env)),
       (''DevMode'', JStr (opn_Getenv env ''DEV_MODE'')),
       (''ImagePullSecrets'', json_list (GetImagePullSecrets env)),
       (''CertManagerEnabled'', JBool (is_true env ''ADMISSION_CONTROLLERS_CERTIFICATES_CERT_MANAGER_ENABLED'')),
       (''OperatorWebhookSecretName'', JStr (opn_Getenv env ''ADMISSION_CONTROLLERS_CERTIFICATES_OPERATOR_SECRET_NAME'')),
       (''OperatorWebhookCA'', JStr (opn_Getenv env ''ADMISSION_CONTROLLERS_CERTIFICATES_OPERATOR_CA_CRT'')),
       (''InjectorWebhookSecretName'', JStr (opn_Getenv env ''ADMISSION_CONTROLLERS_CERTIFICATES_INJECTOR_SECRET_NAME'')),
       (''InjectorWebhookCA'', JStr (opn_Getenv env ''ADMISSION_CONTROLLERS_CERTIFICATES_INJECTOR_CA_CRT'')),
       (''OperatorWebhookNetworkPolicyPort'', JStr (port_or_default env ''OPERATOR_WEBHOOK_NETWORK_POLICY_PORT'')),
       (''InjectorWebhookNetworkPolicyPort'', JStr (port_or_default env ''INJECTOR_WEBHOOK_NETWORK_POLICY_PORT'')),
       (''ExternalControlPlane'', JBool (opn_Openshift env \<and> opn_Hypershift env)),
       (ResourceInjectorMatchConditionFeatureGate, JBool matchCondition)] @
      tls_data tls)"

definition webhook_enabled :: "operator_cr \<Rightarrow> string \<Rightarrow> bool" where
  "webhook_enabled dc path \<longleftrightarrow>
     (path = InjectorWebHookPath \<longrightarrow> ocs_EnableInjector (opc_Spec dc)) \<and>
     (path = OperatorWebHookPath \<longrightarrow> ocs_EnableOperatorWebhook (opc_Spec dc))"

definition sync_webhook :: "op_env \<Rightarrow> operator_cr \<Rightarrow> TLSConfig \<Rightarrow> string \<times> string \<Rightarrow> unit oio" where
  "sync_webhook env dc tls nmpath =
     (case nmpath of (nm, path) \<Rightarrow>
        io_bind (enabled ResourceInjectorMatchConditionFeatureGate) (\<lambda>mc.
        io_bind (renderManifests env path (webhook_data env nm mc tls)) (\<lambda>objs.
          if \<not> webhook_enabled dc path then io_each deleteWebhookObject objs
          else io_each (syncK8sResource env dc) objs)))"

definition syncWebhookObjs :: "op_env \<Rightarrow> operator_cr \<Rightarrow> unit oio" where
  "syncWebhookObjs env dc =
     io_bind (getTLSTemplateData env) (\<lambda>tls. io_each (sync_webhook env dc tls) (opn_Order env webhooks))"

definition unstructured :: "string \<Rightarrow> string \<Rightarrow> uobj" where
  "unstructured kind nm = fmap_of_list [(''apiVersion'', JStr ''admissionregistration.k8s.io/v1''), (''kind'', JStr kind),
     (''metadata'', JMap (fmap_of_list [(''name'', JStr nm)]))]"

definition webhook_configs :: "uobj list" where
  "webhook_configs = [unstructured ''MutatingWebhookConfiguration'' OperatorWebHookName,
     unstructured ''ValidatingWebhookConfiguration'' OperatorWebHookName,
     unstructured ''MutatingWebhookConfiguration'' InjectorWebHookName]"

text \<open>\<^verbatim>\<open>errors.Join\<close>: all three deletions are tried, and the errors are collected.\<close>

fun delete_joined :: "uobj list \<Rightarrow> operator_error option \<Rightarrow> unit oio" where
  "delete_joined [] err = (case err of None \<Rightarrow> io_return () | Some e \<Rightarrow> io_fail e)"
| "delete_joined (obj # objs) err =
     io_handle (deleteWebhookObject obj)
       (\<lambda>e. delete_joined objs (Some (case err of None \<Rightarrow> e | Some e0 \<Rightarrow> OpJoin e0 e)))
       (\<lambda>_. delete_joined objs err)"

definition deleteAllWebhooks :: "unit oio" where
  "deleteAllWebhooks = delete_joined webhook_configs None"

section \<open>Systemd service on OpenShift\<close>

definition setLabelInsideObject :: "op_env \<Rightarrow> operator_cr \<Rightarrow> uobj list \<Rightarrow> unit oio" where
  "setLabelInsideObject env cr objs =
     (let sel = ocs_ConfigDaemonNodeSelector (opc_Spec cr) in
      io_each (\<lambda>obj.
        io_bind (if GetKind obj = ''MachineConfig'' \<and> sel \<noteq> []
                 then io_lift (res_bind (map_err OpConvert (opn_ToTyped env ''ControllerConfig'' obj)) (\<lambda>mc.
                   map_err OpConvert (opn_FromTyped env ''ControllerConfig'' (set_field mc (json_strings sel) [''metadata'', ''labels'']))))
                 else io_return obj) (syncK8sResource env cr)) objs)"

definition syncOpenShiftSystemdService :: "op_env \<Rightarrow> operator_cr \<Rightarrow> unit oio" where
  "syncOpenShiftSystemdService env cr =
     (if ocs_ConfigurationMode (opc_Spec cr) \<noteq> SystemdConfigurationMode
      then io_handle (get_object machine_config_key)
             (\<lambda>e. if not_found e then io_return () else io_fail e)
             (\<lambda>_. delete_object machine_config_key)
      else io_bind (renderManifests env SystemdServiceOcpPath (fmap_of_list [(''LogLevel'', JInt (ocs_LogLevel (opc_Spec cr)))]))
             (setLabelInsideObject env cr))"

section \<open>The operator configuration\<close>

definition get_config :: "operator_cr oio" where
  "get_config = op_call (\<lambda>w. (case pw_Config w of None \<Rightarrow> Inl ObjNotFound | Some c \<Rightarrow> Inr c, w))"

text \<open>An object under deletion goes away with its last finalizer.\<close>

definition store_config :: "operator_cr \<Rightarrow> operator_world \<Rightarrow> operator_world" where
  "store_config c w = w\<lparr>pw_Config := (if cr_Deleting c \<and> cr_Finalizers c = [] then None else Some c)\<rparr>"

definition change_config :: "(operator_cr \<Rightarrow> operator_cr) \<Rightarrow> unit oio" where
  "change_config f = op_call (\<lambda>w. case pw_Config w of None \<Rightarrow> (Inl ObjNotFound, w) | Some c \<Rightarrow> (Inr (), store_config (f c) w))"

definition applyReadyCondition :: "op_env \<Rightarrow> operator_cr \<Rightarrow> operator_error option \<Rightarrow> unit oio" where
  "applyReadyCondition env config reconcileErr =
     io_bind (io_gets pw_Clock) (\<lambda>now.
       let cond = (case reconcileErr of
           None \<Rightarrow> NewCondition now ConditionReady ConditionTrue ''OperatorConfigReady'' ''SriovOperatorConfig reconciled successfully''
             (om_Generation (opc_Meta config))
         | Some e \<Rightarrow> NewCondition now ConditionReady ConditionFalse
             (if e = SystemdModeOnHypershift then ''UnsupportedConfiguration'' else ''OperatorConfigSyncFailed'')
             (opn_ErrorText env e) (om_Generation (opc_Meta config)))
       in case ApplyCondition (cr_Conditions config) [cond] of
            None \<Rightarrow> io_return ()
          | Some (conds, _) \<Rightarrow>
              io_handle (change_config (\<lambda>c. c\<lparr>cr_Conditions := fold merge_entry conds (cr_Conditions c)\<rparr>))
                (\<lambda>e. if not_found e then io_return () else io_fail e) io_return)"

definition syncOperatorConfigFinalizers :: "operator_cr \<Rightarrow> operator_cr oio" where
  "syncOperatorConfigFinalizers defaultConfig =
     (if StringInArray OPERATORCONFIGFINALIZERNAME (cr_Finalizers defaultConfig) then io_return defaultConfig
      else
        io_bind (change_config (\<lambda>c. c\<lparr>cr_Finalizers := cr_Finalizers defaultConfig @ [OPERATORCONFIGFINALIZERNAME]\<rparr>)) (\<lambda>_.
          get_config))"

definition handleSriovOperatorConfigDeletion :: "operator_cr \<Rightarrow> bool oio" where
  "handleSriovOperatorConfigDeletion defaultConfig =
     (if StringInArray OPERATORCONFIGFINALIZERNAME (cr_Finalizers defaultConfig)
      then
        io_bind deleteAllWebhooks (\<lambda>_.
        io_bind (change_config (\<lambda>c. defaultConfig\<lparr>cr_Finalizers :=
            fst (RemoveString OPERATORCONFIGFINALIZERNAME (cr_Finalizers defaultConfig)), cr_Conditions := cr_Conditions c\<rparr>)) (\<lambda>_.
          io_return False))
      else io_return False)"

text \<open>The body between reading the configuration and the deferred condition; the result is whether to requeue.\<close>

definition reconcile_config :: "op_env \<Rightarrow> operator_cr \<Rightarrow> bool oio" where
  "reconcile_config env defaultConfig =
     (if cr_Deleting defaultConfig then handleSriovOperatorConfigDeletion defaultConfig
      else
        io_bind (syncOperatorConfigFinalizers defaultConfig) (\<lambda>dc.
        io_bind (\<lambda>w. (Inr (), w\<lparr>pw_Gate := fg_Init (fmap_of_list (ocs_FeatureGates (opc_Spec dc))) (pw_Gate w)\<rparr>)) (\<lambda>_.
        io_bind (op_call (\<lambda>w. (Inr (), w))) (\<lambda>policyList.
        io_bind (syncWebhookObjs env dc) (\<lambda>_.
        io_bind (syncConfigDaemonSet env dc) (\<lambda>_.
        io_bind (syncPluginDaemonObjs env dc) (\<lambda>_.
        io_bind (syncMetricsExporter env dc) (\<lambda>_.
        io_bind (io_when (opn_Openshift env)
          (if ocs_ConfigurationMode (opc_Spec dc) = SystemdConfigurationMode \<and> opn_Hypershift env
           then io_fail SystemdModeOnHypershift else syncOpenShiftSystemdService env dc)) (\<lambda>_.
          io_return True)))))))))"

definition Reconcile_operator_config :: "op_env \<Rightarrow> bool oio" where
  "Reconcile_operator_config env =
     io_handle get_config (\<lambda>e. if not_found e then io_return False else io_fail e) (\<lambda>defaultConfig.
     io_handle (reconcile_config env defaultConfig)
       (\<lambda>e. io_handle (applyReadyCondition env defaultConfig (Some e)) (\<lambda>ce. io_fail (OpJoin e ce)) (\<lambda>_. io_fail e))
       (\<lambda>requeue. io_bind (applyReadyCondition env defaultConfig None) (\<lambda>_. io_return requeue)))"

end
