(* ===== verification/Operator_Safety.thy ===== *)
theory Operator_Safety
  imports Operator_Config
begin

text \<open>
  What the operator configuration controller guarantees, whichever calls fail: the webhook configurations never outlive the
  operator configuration, a successful reconciliation deploys exactly the enabled webhooks, and settings that are refused stop
  it before anything is deployed.
\<close>

section \<open>What the synchronisation of objects leaves alone\<close>

definition keeps_part :: "(operator_world \<Rightarrow> 'p) \<Rightarrow> 'a oio \<Rightarrow> bool" where
  "keeps_part part m \<longleftrightarrow> (\<forall>w. part (snd (m w)) = part w)"

named_theorems part_rules \<open>operations that leave a part of the world alone\<close>

lemma keeps_partI: "(\<And>w. part (snd (m w)) = part w) \<Longrightarrow> keeps_part part m"
  by (simp add: keeps_part_def)

lemma keeps_partD: "keeps_part part m \<Longrightarrow> m w = (r, w') \<Longrightarrow> part w' = part w"
  unfolding keeps_part_def by (metis snd_conv)

lemma op_call_cases:
  obtains (fault) bs where "op_call f w = (Inl (OpApi ObjFault), w\<lparr>pw_Faults := bs\<rparr>)"
  | (run) bs where "op_call f w = (case f (w\<lparr>pw_Faults := bs\<rparr>) of (r, w') \<Rightarrow> (map_err OpApi r, w'))"
proof (cases "pw_Faults w")
  case Nil
  then show thesis using run[of "[]"] by (simp add: op_call_def)
next
  case (Cons b bs)
  then show thesis using fault[of bs] run[of bs] by (cases b) (simp_all add: op_call_def)
qed

lemma part_basic [part_rules]:
  "keeps_part part (io_return x)" "keeps_part part (io_fail e)" "keeps_part part (io_gets g)" "keeps_part part (io_lift r)"
  by (rule keeps_partI, simp add: io_run_defs)+

lemma part_handle [part_rules]:
  assumes "keeps_part part m" and "\<And>e. keeps_part part (h e)" and "\<And>x. keeps_part part (f x)"
  shows "keeps_part part (io_handle m h f)"
proof (rule keeps_partI)
  fix w
  obtain r w1 where m: "m w = (r, w1)" by (cases "m w")
  show "part (snd (io_handle m h f w)) = part w"
    using keeps_partD[OF assms(1) m] assms(2,3) m by (cases r) (simp_all add: io_handle_def keeps_part_def)
qed

lemma part_bind [part_rules]:
  assumes "keeps_part part m" and "\<And>x. keeps_part part (f x)"
  shows "keeps_part part (io_bind m f)"
proof -
  have "io_bind m f = io_handle m io_fail f"
    by (rule ext) (simp add: io_bind_def io_handle_def io_fail_def split: prod.split sum.split)
  then show ?thesis using assms by (auto intro: part_rules)
qed

lemma part_if [part_rules]: "(b \<Longrightarrow> keeps_part part m) \<Longrightarrow> (\<not> b \<Longrightarrow> keeps_part part n) \<Longrightarrow> keeps_part part (if b then m else n)"
  by simp

lemma part_when [part_rules]: "keeps_part part m \<Longrightarrow> keeps_part part (io_when b m)"
  by (simp add: io_when_def part_basic)

lemma part_each [part_rules]: "(\<And>x. keeps_part part (f x)) \<Longrightarrow> keeps_part part (io_each f xs)"
  by (induction xs) (auto intro: part_rules)

text \<open>
  The interface: a part of the world that is neither the objects nor the schedule of failures. No function that deploys or
  removes objects changes it.
\<close>

locale unrelated_part =
  fixes part :: "operator_world \<Rightarrow> 'p"
  assumes part_faults: "part (w\<lparr>pw_Faults := bs\<rparr>) = part w"
    and part_objects: "part (w\<lparr>pw_Objects := objs\<rparr>) = part w"
begin

lemma part_call [part_rules]:
  assumes "\<And>w. part (snd (f w)) = part w"
  shows "keeps_part part (op_call f)"
proof (rule keeps_partI)
  fix w
  show "part (snd (op_call f w)) = part w"
  proof (cases rule: op_call_cases[of f w])
    case (run bs)
    then show ?thesis using assms[of "w\<lparr>pw_Faults := bs\<rparr>"] by (cases "f (w\<lparr>pw_Faults := bs\<rparr>)") (simp add: part_faults)
  qed (simp add: part_faults)
qed

lemma part_objects_calls [part_rules]:
  "keeps_part part (get_object k)" "keeps_part part (create_object env obj)" "keeps_part part (update_object env obj)"
  "keeps_part part (delete_object k)"
  unfolding get_object_def create_object_def update_object_def delete_object_def
  by (rule part_call; simp add: part_objects split: option.split)+

lemma part_apply [part_rules]: "keeps_part part (ApplyObject env obj)" "keeps_part part (DeleteObject obj)"
  unfolding ApplyObject_def DeleteObject_def by (intro part_rules)+

lemma part_sync [part_rules]:
  "keeps_part part (syncK8sResource env cr obj)" "keeps_part part (syncDaemonSet env cr obj)" "keeps_part part (syncDsObject env cr obj)"
  "keeps_part part (deleteWebhookObject obj)" "keeps_part part (deleteK8sResources objs)" "keeps_part part (renderManifests env path d)"
  unfolding syncK8sResource_def syncDaemonSet_def syncDsObject_def deleteWebhookObject_def deleteK8sResources_def deleteK8sResource_def
    renderManifests_def Let_def
  by (intro part_rules)+

lemma part_tls [part_rules]: "keeps_part part (getTLSTemplateData env)"
  unfolding getTLSTemplateData_def orchestrator_tls_def Let_def by (intro part_rules) simp

lemma part_components [part_rules]:
  "keeps_part part (syncPluginDaemonObjs env cr)" "keeps_part part (syncConfigDaemonSet env cr)" "keeps_part part (syncMetricsExporter env cr)"
  "keeps_part part (sync_webhook env cr tls np)" "keeps_part part (syncOpenShiftSystemdService env cr)"
  unfolding syncPluginDaemonObjs_def syncConfigDaemonSet_def syncMetricsExporter_def sync_webhook_def syncOpenShiftSystemdService_def
    setLabelInsideObject_def Let_def case_prod_beta
  by (intro part_rules)+

lemma part_webhooks [part_rules]: "keeps_part part (syncWebhookObjs env cr)"
  unfolding syncWebhookObjs_def by (intro part_rules)

lemma part_joined [part_rules]: "keeps_part part (delete_joined objs err)"
  by (induction objs err rule: delete_joined.induct) (auto split: option.split intro: part_rules)

end

interpretation config: unrelated_part pw_Config
  by unfold_locales simp_all

interpretation gate: unrelated_part pw_Gate
  by unfold_locales simp_all

abbreviation keeps_config :: "'a oio \<Rightarrow> bool" where
  "keeps_config \<equiv> keeps_part pw_Config"

section \<open>Webhook configurations and the finalizer\<close>

definition hook_keys :: "obj_key set" where
  "hook_keys = key_of ` set webhook_configs"

definition no_hooks :: "operator_world \<Rightarrow> bool" where
  "no_hooks w \<longleftrightarrow> (\<forall>k\<in>hook_keys. pw_Objects w k = None)"

definition finalized :: "operator_world \<Rightarrow> bool" where
  "finalized w \<longleftrightarrow> (\<exists>c. pw_Config w = Some c \<and> OPERATORCONFIGFINALIZERNAME \<in> set (cr_Finalizers c))"

text \<open>The invariant: a webhook configuration only exists while the finalizer keeps the operator configuration.\<close>

definition hooks_guarded :: "operator_world \<Rightarrow> bool" where
  "hooks_guarded w \<longleftrightarrow> no_hooks w \<or> finalized w"

lemma StringInArray_mem: "StringInArray s xs \<longleftrightarrow> s \<in> set xs"
  by (simp add: StringInArray_def list_ex_iff)

lemma config_finalized:
  assumes "keeps_config m"
  shows "io_keeps finalized m"
proof (rule io_keepsI)
  fix w assume "finalized w"
  moreover have "pw_Config (snd (m w)) = pw_Config w" by (rule keeps_partD[OF assms, of w "fst (m w)"]) simp
  ultimately show "finalized (snd (m w))" by (simp add: finalized_def)
qed

text \<open>Deleting removes the object and no other.\<close>

lemma get_outcome:
  "get_object k w = (r, w') \<Longrightarrow> pw_Objects w' = pw_Objects w \<and> (r = Inl (OpApi ObjNotFound) \<longrightarrow> pw_Objects w k = None) \<and>
     (\<forall>obj. r = Inr obj \<longrightarrow> pw_Objects w k = Some obj)"
  by (auto simp: get_object_def op_call_def split: list.splits bool.splits option.splits)

lemma delete_outcome:
  "delete_object k w = (r, w') \<Longrightarrow> (pw_Objects w' = pw_Objects w \<and> r \<noteq> Inr ()) \<or> pw_Objects w' = (pw_Objects w)(k := None)"
  by (auto simp: delete_object_def op_call_def split: list.splits bool.splits option.splits)

lemma DeleteObject_outcome:
  assumes "DeleteObject obj w = (r, w')"
  shows "(pw_Objects w' = pw_Objects w \<and> (r = Inr () \<longrightarrow> pw_Objects w (key_of obj) = None)) \<or>
    pw_Objects w' = (pw_Objects w)(key_of obj := None)"
proof (cases "GetName obj = [] \<or> isl (IsObjectSupported obj)")
  case True
  then show ?thesis using assms by (auto simp: DeleteObject_def io_run_defs isl_def split: if_splits)
next
  case False
  then have run: "DeleteObject obj w = io_handle (get_object (key_of obj)) (\<lambda>e. if not_found e then io_return () else io_fail e)
      (\<lambda>existing. delete_object (key_of obj)) w"
    by (cases "IsObjectSupported obj") (simp_all add: DeleteObject_def io_run_defs)
  obtain r1 w1 where g: "get_object (key_of obj) w = (r1, w1)" by (cases "get_object (key_of obj) w")
  note o1 = get_outcome[OF g]
  show ?thesis
  proof (cases r1)
    case (Inl e)
    then show ?thesis using assms run g o1 by (auto simp: io_run_defs not_found_def split: if_splits)
  next
    case (Inr existing)
    then have "delete_object (key_of obj) w1 = (r, w')" using assms run g by (simp add: io_handle_def)
    from delete_outcome[OF this] show ?thesis using o1 by auto
  qed
qed

definition absent :: "obj_key set \<Rightarrow> operator_world \<Rightarrow> bool" where
  "absent K w \<longleftrightarrow> (\<forall>k\<in>K. pw_Objects w k = None)"

lemma delete_absent: "io_triple (absent K) (DeleteObject obj) (\<lambda>_. absent (insert (key_of obj) K)) (absent K)"
  by (rule io_tripleI; drule DeleteObject_outcome) (auto simp: absent_def)

lemma delete_joined_absent:
  "delete_joined objs err w = (r, w') \<Longrightarrow> absent K w \<Longrightarrow> r = Inr () \<Longrightarrow> absent (K \<union> key_of ` set objs) w' \<and> err = None"
proof (induction objs err arbitrary: w K rule: delete_joined.induct)
  case (1 err)
  then show ?case by (auto simp: io_run_defs split: option.splits)
next
  case (2 obj objs err)
  obtain r1 w1 where d: "DeleteObject obj w = (r1, w1)" by (cases "DeleteObject obj w")
  show ?case
  proof (cases r1)
    case (Inl e)
    then have run: "delete_joined objs (Some (case err of None \<Rightarrow> e | Some e0 \<Rightarrow> OpJoin e0 e)) w1 = (r, w')"
      using 2(3) d by (simp add: io_handle_def deleteWebhookObject_def deleteK8sResource_def)
    have "absent {} w1" by (simp add: absent_def)
    from 2(1)[OF run this 2(5)] show ?thesis by simp
  next
    case (Inr x)
    then have run: "delete_joined objs err w1 = (r, w')" using 2(3) d by (simp add: io_handle_def deleteWebhookObject_def deleteK8sResource_def)
    have "absent (insert (key_of obj) K) w1" using io_tripleD[OF delete_absent 2(4) d] Inr by simp
    from 2(2)[OF run this 2(5)] show ?thesis by (simp add: Un_insert_left Un_insert_right)
  qed
qed

text \<open>Writing the operator configuration changes no object.\<close>

lemma change_outcome:
  assumes "change_config f w = (r, w')"
  shows "pw_Objects w' = pw_Objects w \<and>
    (pw_Config w' = pw_Config w \<and> r \<noteq> Inr () \<or>
     (\<exists>c. pw_Config w = Some c \<and> pw_Config w' = (if cr_Deleting (f c) \<and> cr_Finalizers (f c) = [] then None else Some (f c))))"
  using assms by (auto simp: change_config_def op_call_def store_config_def split: list.splits bool.splits option.splits)

lemma change_guarded:
  assumes "\<And>c. OPERATORCONFIGFINALIZERNAME \<in> set (cr_Finalizers c) \<Longrightarrow> OPERATORCONFIGFINALIZERNAME \<in> set (cr_Finalizers (f c))"
  shows "io_keeps hooks_guarded (change_config f)"
proof (rule io_keepsI)
  fix w assume g: "hooks_guarded w"
  obtain r w' where c: "change_config f w = (r, w')" by (cases "change_config f w")
  have "finalized w'" if fin: "finalized w"
  proof -
    obtain x where x: "pw_Config w = Some x" "OPERATORCONFIGFINALIZERNAME \<in> set (cr_Finalizers x)" using fin by (auto simp: finalized_def)
    have "OPERATORCONFIGFINALIZERNAME \<in> set (cr_Finalizers (f x))" by (rule assms[OF x(2)])
    moreover from this have "cr_Finalizers (f x) \<noteq> []" by (cases "cr_Finalizers (f x)") simp_all
    ultimately show ?thesis using change_outcome[OF c] x by (auto simp: finalized_def)
  qed
  then show "hooks_guarded (snd (change_config f w))"
    using change_outcome[OF c] g unfolding c hooks_guarded_def no_hooks_def by auto
qed

lemma ready_guarded: "io_keeps hooks_guarded (applyReadyCondition env cfg err)"
  unfolding applyReadyCondition_def Let_def
  by (intro keeps_bind keeps_gets) (auto split: option.splits intro!: keeps_return keeps_fail keeps_handle keeps_if change_guarded)

lemma get_config_outcome:
  "get_config w = (r, w') \<Longrightarrow> pw_Objects w' = pw_Objects w \<and> pw_Config w' = pw_Config w \<and> (\<forall>c. r = Inr c \<longrightarrow> pw_Config w = Some c)"
  by (auto simp: get_config_def op_call_def split: list.splits bool.splits option.splits)

lemma get_config_guarded: "io_keeps hooks_guarded get_config"
proof (rule io_keepsI)
  fix w assume "hooks_guarded w"
  then show "hooks_guarded (snd (get_config w))"
    using get_config_outcome[of w "fst (get_config w)" "snd (get_config w)"] by (simp add: hooks_guarded_def no_hooks_def finalized_def)
qed

text \<open>Adding the finalizer comes before any object is deployed.\<close>

lemma finalizers_triple:
  "io_triple (\<lambda>w. pw_Config w = Some cfg \<and> \<not> cr_Deleting cfg \<and> hooks_guarded w) (syncOperatorConfigFinalizers cfg) (\<lambda>_. finalized) hooks_guarded"
proof (cases "StringInArray OPERATORCONFIGFINALIZERNAME (cr_Finalizers cfg)")
  case True
  then show ?thesis unfolding syncOperatorConfigFinalizers_def if_P[OF True]
    by (intro io_triple_return) (auto simp: finalized_def StringInArray_mem)
next
  case False
  let ?f = "\<lambda>c. c\<lparr>cr_Finalizers := cr_Finalizers cfg @ [OPERATORCONFIGFINALIZERNAME]\<rparr>"
  have change: "io_triple (\<lambda>w. pw_Config w = Some cfg \<and> \<not> cr_Deleting cfg \<and> hooks_guarded w) (change_config ?f) (\<lambda>_. finalized) hooks_guarded"
    by (rule io_tripleI; drule change_outcome) (auto simp: finalized_def hooks_guarded_def no_hooks_def)
  have get: "io_triple finalized get_config (\<lambda>_. finalized) hooks_guarded"
    by (rule io_tripleI; drule get_config_outcome) (auto simp: finalized_def hooks_guarded_def)
  show ?thesis unfolding syncOperatorConfigFinalizers_def if_not_P[OF False] by (rule io_triple_bind[OF change get])
qed

lemma deletion_triple:
  "io_triple (\<lambda>w. pw_Config w = Some cfg \<and> hooks_guarded w) (handleSriovOperatorConfigDeletion cfg) (\<lambda>_. hooks_guarded) hooks_guarded"
proof (cases "StringInArray OPERATORCONFIGFINALIZERNAME (cr_Finalizers cfg)")
  case True
  have del: "io_triple (\<lambda>w. pw_Config w = Some cfg \<and> hooks_guarded w) deleteAllWebhooks (\<lambda>_. no_hooks) hooks_guarded"
  proof (rule io_tripleI)
    fix w x w' assume w: "pw_Config w = Some cfg \<and> hooks_guarded w" and run: "deleteAllWebhooks w = (Inr x, w')"
    have "absent ({} \<union> key_of ` set webhook_configs) w' \<and> (None :: operator_error option) = None"
      by (rule delete_joined_absent[OF run[unfolded deleteAllWebhooks_def]]) (simp_all add: absent_def)
    then show "no_hooks w'" by (simp add: no_hooks_def hook_keys_def absent_def)
  next
    fix w e w' assume w: "pw_Config w = Some cfg \<and> hooks_guarded w" and run: "deleteAllWebhooks w = (Inl e, w')"
    have "pw_Config w' = pw_Config w" by (rule keeps_partD[OF config.part_joined run[unfolded deleteAllWebhooks_def]])
    then show "hooks_guarded w'" using w True by (auto simp: hooks_guarded_def finalized_def StringInArray_mem)
  qed
  have upd: "io_triple no_hooks (change_config f) (\<lambda>_. hooks_guarded) hooks_guarded" for f
    by (rule io_tripleI; drule change_outcome) (auto simp: hooks_guarded_def no_hooks_def)
  show ?thesis unfolding handleSriovOperatorConfigDeletion_def if_P[OF True]
    by (intro io_triple_bind[OF del] io_triple_bind[OF upd] io_triple_return)
next
  case False
  then show ?thesis unfolding handleSriovOperatorConfigDeletion_def if_not_P[OF False] by (intro io_triple_return) simp
qed

lemma gate_guarded: "keeps_config (\<lambda>w. (Inr (), w\<lparr>pw_Gate := f w\<rparr>))"
  by (rule keeps_partI) simp

lemma deploy_guarded:
  assumes "keeps_config m"
  shows "io_triple finalized m (\<lambda>_. hooks_guarded) hooks_guarded"
proof (rule io_tripleI)
  fix w e w' assume "finalized w" "m w = (Inl e, w')"
  then show "hooks_guarded w'" using io_keepsD[OF config_finalized[OF assms]] by (simp add: hooks_guarded_def)
next
  fix w x w' assume "finalized w" "m w = (Inr x, w')"
  then show "hooks_guarded w'" using io_keepsD[OF config_finalized[OF assms]] by (simp add: hooks_guarded_def)
qed

lemma reconcile_guarded:
  "io_triple (\<lambda>w. pw_Config w = Some cfg \<and> hooks_guarded w) (reconcile_config env cfg) (\<lambda>_. hooks_guarded) hooks_guarded"
proof (cases "cr_Deleting cfg")
  case True
  then show ?thesis unfolding reconcile_config_def by (simp add: deletion_triple)
next
  case False
  have "io_triple (\<lambda>w. pw_Config w = Some cfg \<and> hooks_guarded w) (syncOperatorConfigFinalizers cfg) (\<lambda>_. finalized) hooks_guarded"
    by (rule io_triple_weaken[OF finalizers_triple]) (use False in simp)
  then show ?thesis unfolding reconcile_config_def if_not_P[OF False]
    by (rule io_triple_bind) (intro deploy_guarded part_bind part_rules gate_guarded, simp)
qed

lemma Reconcile_operator_guarded: "io_keeps hooks_guarded (Reconcile_operator_config env)"
proof (rule io_keepsI)
  fix w assume g: "hooks_guarded w"
  obtain r w1 where get: "get_config w = (r, w1)" by (cases "get_config w")
  have g1: "hooks_guarded w1" by (rule io_keepsD[OF get_config_guarded g get])
  show "hooks_guarded (snd (Reconcile_operator_config env w))"
  proof (cases r)
    case (Inl e)
    then show ?thesis using get g1 by (simp add: Reconcile_operator_config_def io_run_defs)
  next
    case (Inr cfg)
    then have c1: "pw_Config w1 = Some cfg" using get_config_outcome[OF get] by simp
    obtain r2 w2 where rec: "reconcile_config env cfg w1 = (r2, w2)" by (cases "reconcile_config env cfg w1")
    have g2: "hooks_guarded w2" using io_tripleD[OF reconcile_guarded _ rec] c1 g1 by (cases r2) auto
    obtain r3 w3 where fin: "applyReadyCondition env cfg (case r2 of Inl e \<Rightarrow> Some e | Inr _ \<Rightarrow> None) w2 = (r3, w3)"
      by (cases "applyReadyCondition env cfg (case r2 of Inl e \<Rightarrow> Some e | Inr _ \<Rightarrow> None) w2")
    have "hooks_guarded w3" by (rule io_keepsD[OF ready_guarded g2 fin])
    moreover have "snd (Reconcile_operator_config env w) = w3"
      using get Inr rec fin by (cases r2; cases r3) (simp_all add: Reconcile_operator_config_def io_run_defs)
    ultimately show ?thesis by simp
  qed
qed

text \<open>
  Runs of the operator: reconciliations in changing environments, and what users do to the operator configuration, which is created
  without our finalizer, edited, and deleted; an object with finalizers is only marked, one without goes away.
\<close>

inductive operator_run :: "operator_world \<Rightarrow> operator_world \<Rightarrow> bool" where
  start: "operator_run w w"
| reconcile: "operator_run w w1 \<Longrightarrow> Reconcile_operator_config env w1 = (r, w2) \<Longrightarrow> operator_run w w2"
| create: "operator_run w w1 \<Longrightarrow> pw_Config w1 = None \<Longrightarrow> \<not> cr_Deleting c \<Longrightarrow> operator_run w (w1\<lparr>pw_Config := Some c\<rparr>)"
| edit: "operator_run w w1 \<Longrightarrow> pw_Config w1 = Some c \<Longrightarrow> operator_run w (w1\<lparr>pw_Config := Some (c\<lparr>opc_Spec := sp\<rparr>)\<rparr>)"
| delete: "operator_run w w1 \<Longrightarrow> pw_Config w1 = Some c \<Longrightarrow>
    operator_run w (w1\<lparr>pw_Config := (if cr_Finalizers c = [] then None else Some (c\<lparr>cr_Deleting := True\<rparr>))\<rparr>)"
| faults: "operator_run w w1 \<Longrightarrow> operator_run w (w1\<lparr>pw_Faults := fs, pw_Clock := t, pw_APIServer := a\<rparr>)"

text \<open>
  C14: The webhooks never outlive the operator configuration. In every run, whatever calls fail and whatever users do with the
  operator configuration, a webhook configuration of the operator exists only while the operator configuration carries the
  finalizer, so that it cannot go away before the webhooks are removed: the API server is never left with webhooks that nobody serves.
\<close>

theorem webhooks_never_outlive_config:
  assumes "operator_run w w'" and "hooks_guarded w"
  shows "hooks_guarded w'"
  using assms
proof (induction rule: operator_run.induct)
  case (reconcile w w1 env r w2)
  then show ?case using io_keepsD[OF Reconcile_operator_guarded] by blast
next
  case (delete w w1 c)
  then show ?case by (cases "cr_Finalizers c") (auto simp: hooks_guarded_def no_hooks_def finalized_def)
qed (auto simp: hooks_guarded_def no_hooks_def finalized_def)

section \<open>Deployed and removed objects\<close>

text \<open>Whether an object exists, after a function that works on the given keys only.\<close>

definition sets_presence :: "obj_key set \<Rightarrow> bool \<Rightarrow> unit oio \<Rightarrow> bool" where
  "sets_presence K b m \<longleftrightarrow> (\<forall>w w'. m w = (Inr (), w') \<longrightarrow>
     (\<forall>k\<in>K. (pw_Objects w' k \<noteq> None) = b) \<and> (\<forall>k. k \<notin> K \<longrightarrow> pw_Objects w' k = pw_Objects w k))"

lemma create_outcome:
  "create_object env obj w = (Inr (), w') \<Longrightarrow> pw_Objects w' = (pw_Objects w)(key_of obj \<mapsto> opn_Admit env None obj)"
  by (auto simp: create_object_def op_call_def split: list.splits bool.splits if_splits)

lemma update_outcome:
  "update_object env obj w = (Inr (), w') \<Longrightarrow> \<exists>old. pw_Objects w' = (pw_Objects w)(key_of obj \<mapsto> opn_Admit env (Some old) obj)"
  by (auto simp: update_object_def op_call_def split: list.splits bool.splits if_splits option.splits)

lemma merged_key: "MergeObjectForUpdate current obj = Inr u \<Longrightarrow> GetName obj \<noteq> [] \<Longrightarrow> key_of u = key_of obj"
  using merged_identity[of current obj u] by (simp add: key_of_def)

lemma apply_presence: "sets_presence {key_of obj} True (ApplyObject env obj)"
  unfolding sets_presence_def
proof (intro allI impI)
  fix w w' assume run: "ApplyObject env obj w = (Inr (), w')"
  have nm: "GetName obj \<noteq> []" "\<not> isl (IsObjectSupported obj)"
    using run by (auto simp: ApplyObject_def io_run_defs isl_def split: if_splits)
  obtain r1 w1 where g: "get_object (key_of obj) w = (r1, w1)" by (cases "get_object (key_of obj) w")
  have run: "(case r1 of Inl e \<Rightarrow> if not_found e then create_object env obj else io_fail e
     | Inr existing \<Rightarrow> io_bind (io_lift (map_err OpManifest (MergeObjectForUpdate existing obj)))
         (\<lambda>obj. if existing \<noteq> obj then update_object env obj else io_return ())) w1 = (Inr (), w')"
    using run nm g by (cases "IsObjectSupported obj"; cases r1) (simp_all add: ApplyObject_def io_run_defs)
  note o1 = get_outcome[OF g]
  have "\<exists>v. pw_Objects w' = (pw_Objects w)(key_of obj \<mapsto> v)"
  proof (cases r1)
    case (Inl e)
    then have "create_object env obj w1 = (Inr (), w')" using run by (auto simp: io_run_defs split: if_splits)
    from create_outcome[OF this] show ?thesis using o1 by auto
  next
    case (Inr existing)
    then obtain u where u: "MergeObjectForUpdate existing obj = Inr u"
      "(if existing \<noteq> u then update_object env u else io_return ()) w1 = (Inr (), w')"
      using run by (cases "MergeObjectForUpdate existing obj") (auto simp: io_run_defs)
    show ?thesis
    proof (cases "existing = u")
      case True
      then have "pw_Objects w' = pw_Objects w" "pw_Objects w (key_of obj) = Some existing" using u(2) o1 Inr by (auto simp: io_return_def)
      then show ?thesis by (intro exI[of _ existing]) auto
    next
      case False
      then have "update_object env u w1 = (Inr (), w')" using u(2) by simp
      from update_outcome[OF this] show ?thesis using o1 merged_key[OF u(1) nm(1)] by auto
    qed
  qed
  then show "(\<forall>k\<in>{key_of obj}. (pw_Objects w' k \<noteq> None) = True) \<and> (\<forall>k. k \<notin> {key_of obj} \<longrightarrow> pw_Objects w' k = pw_Objects w k)" by auto
qed

lemma delete_presence: "sets_presence {key_of obj} False (DeleteObject obj)"
  unfolding sets_presence_def by (intro allI impI; drule DeleteObject_outcome) auto

lemma presence_each:
  assumes "\<And>x. x \<in> set xs \<Longrightarrow> sets_presence {g x} b (f x)"
  shows "sets_presence (g ` set xs) b (io_each f xs)"
  using assms
proof (induction xs)
  case (Cons x xs)
  have x: "sets_presence {g x} b (f x)" and xs: "sets_presence (g ` set xs) b (io_each f xs)" using Cons by simp_all
  show ?case unfolding sets_presence_def
  proof (intro allI impI)
    fix w w' assume run: "io_each f (x # xs) w = (Inr (), w')"
    obtain w1 where w1: "f x w = (Inr (), w1)" "io_each f xs w1 = (Inr (), w')"
      using run by (auto simp: io_bind_def split: prod.splits sum.splits)
    have a: "(pw_Objects w1 (g x) \<noteq> None) = b" "\<And>k. k \<noteq> g x \<Longrightarrow> pw_Objects w1 k = pw_Objects w k"
      using x w1(1) by (auto simp: sets_presence_def)
    have c: "\<And>k. k \<in> g ` set xs \<Longrightarrow> (pw_Objects w' k \<noteq> None) = b" "\<And>k. k \<notin> g ` set xs \<Longrightarrow> pw_Objects w' k = pw_Objects w1 k"
      using xs w1(2) unfolding sets_presence_def by blast+
    show "(\<forall>k\<in>g ` set (x # xs). (pw_Objects w' k \<noteq> None) = b) \<and> (\<forall>k. k \<notin> g ` set (x # xs) \<longrightarrow> pw_Objects w' k = pw_Objects w k)"
    proof (intro conjI ballI allI impI)
      fix k assume "k \<in> g ` set (x # xs)"
      then show "(pw_Objects w' k \<noteq> None) = b" using a(1) c by (cases "k \<in> g ` set xs") auto
    qed (use a(2) c(2) in simp)
  qed
qed (simp add: sets_presence_def io_return_def)

section \<open>Webhooks as configured\<close>

text \<open>Setting the owner reference does not change what an object is called.\<close>

definition owner_setter :: "op_env \<Rightarrow> bool" where
  "owner_setter env \<longleftrightarrow> (\<forall>cr obj obj'. opn_SetOwner env cr obj = Inr obj' \<longrightarrow> key_of obj' = key_of obj)"

lemma sync_presence:
  assumes "owner_setter env"
  shows "sets_presence {key_of obj} True (syncK8sResource env dc obj)"
  unfolding sets_presence_def
proof (intro allI impI)
  fix w w' assume run: "syncK8sResource env dc obj w = (Inr (), w')"
  obtain obj' where obj': "ApplyObject env obj' w = (Inr (), w')" "key_of obj' = key_of obj"
  proof (cases "cluster_kind (GetKind obj)")
    case True
    then show thesis using run that[of obj] by (simp add: syncK8sResource_def io_run_defs)
  next
    case False
    then show thesis using run assms that
      by (cases "opn_SetOwner env dc obj") (auto simp: syncK8sResource_def io_run_defs owner_setter_def)
  qed
  then show "(\<forall>k\<in>{key_of obj}. (pw_Objects w' k \<noteq> None) = True) \<and> (\<forall>k. k \<notin> {key_of obj} \<longrightarrow> pw_Objects w' k = pw_Objects w k)"
    using apply_presence[of obj' env] by (simp add: sets_presence_def)
qed

abbreviation match_condition :: "operator_world \<Rightarrow> bool" where
  "match_condition w \<equiv> fg_IsEnabled (pw_Gate w) ResourceInjectorMatchConditionFeatureGate"

lemma sync_webhook_presence:
  assumes "owner_setter env" and "sync_webhook env dc tls (nm, path) w = (Inr (), w')"
  obtains objs where "RenderDir env path (webhook_data env nm (match_condition w) tls) = Inr objs"
    "\<forall>k\<in>key_of ` set objs. (pw_Objects w' k \<noteq> None) = webhook_enabled dc path"
    "\<forall>k. k \<notin> key_of ` set objs \<longrightarrow> pw_Objects w' k = pw_Objects w k"
proof -
  obtain objs where objs: "RenderDir env path (webhook_data env nm (match_condition w) tls) = Inr objs"
    using assms(2) by (cases "RenderDir env path (webhook_data env nm (match_condition w) tls)")
      (auto simp: sync_webhook_def renderManifests_def io_run_defs)
  let ?m = "if \<not> webhook_enabled dc path then io_each deleteWebhookObject objs else io_each (syncK8sResource env dc) objs"
  have run: "?m w = (Inr (), w')" using assms(2) objs by (simp add: sync_webhook_def renderManifests_def io_run_defs)
  have "sets_presence (key_of ` set objs) (webhook_enabled dc path) ?m"
    using presence_each[of objs key_of True "syncK8sResource env dc"] presence_each[of objs key_of False deleteWebhookObject]
      sync_presence[OF assms(1)] delete_presence by (simp add: deleteWebhookObject_def deleteK8sResource_def)
  then show thesis using that[OF objs] run unfolding sets_presence_def by blast
qed

text \<open>The manifests of the two webhooks name different objects, whatever they are rendered with.\<close>

definition manifests_apart :: "op_env \<Rightarrow> bool" where
  "manifests_apart env \<longleftrightarrow> (\<forall>mc tls as bs.
     RenderDir env InjectorWebHookPath (webhook_data env InjectorWebHookName mc tls) = Inr as \<longrightarrow>
     RenderDir env OperatorWebHookPath (webhook_data env OperatorWebHookName mc tls) = Inr bs \<longrightarrow> key_of ` set as \<inter> key_of ` set bs = {})"

definition as_configured :: "op_env \<Rightarrow> bool \<Rightarrow> bool \<Rightarrow> TLSConfig \<Rightarrow> (obj_key \<rightharpoonup> uobj) \<Rightarrow> string \<times> string \<Rightarrow> bool" where
  "as_configured env on mc tls objects nmpath =
     (case nmpath of (nm, path) \<Rightarrow>
       case RenderDir env path (webhook_data env nm mc tls) of
         Inl _ \<Rightarrow> False
       | Inr objs \<Rightarrow> list_all (\<lambda>obj. (objects (key_of obj) \<noteq> None) = on) objs)"

lemma two_webhooks:
  assumes "owner_setter env" and "io_each (sync_webhook env dc tls) [(n1, p1), (n2, p2)] w = (Inr (), w')"
    and "\<And>as bs. RenderDir env p1 (webhook_data env n1 (match_condition w) tls) = Inr as \<Longrightarrow>
      RenderDir env p2 (webhook_data env n2 (match_condition w) tls) = Inr bs \<Longrightarrow> key_of ` set as \<inter> key_of ` set bs = {}"
  shows "as_configured env (webhook_enabled dc p1) (match_condition w) tls (pw_Objects w') (n1, p1) \<and>
    as_configured env (webhook_enabled dc p2) (match_condition w) tls (pw_Objects w') (n2, p2)"
proof -
  obtain w1 where w1: "sync_webhook env dc tls (n1, p1) w = (Inr (), w1)" "sync_webhook env dc tls (n2, p2) w1 = (Inr (), w')"
    using assms(2) by (auto simp: io_bind_def io_return_def split: prod.splits sum.splits)
  have g: "match_condition w1 = match_condition w" using keeps_partD[OF gate.part_components(4) w1(1)] by simp
  obtain as where as: "RenderDir env p1 (webhook_data env n1 (match_condition w) tls) = Inr as"
    "\<forall>k\<in>key_of ` set as. (pw_Objects w1 k \<noteq> None) = webhook_enabled dc p1" by (rule sync_webhook_presence[OF assms(1) w1(1)])
  obtain bs where bs: "RenderDir env p2 (webhook_data env n2 (match_condition w) tls) = Inr bs"
    "\<forall>k\<in>key_of ` set bs. (pw_Objects w' k \<noteq> None) = webhook_enabled dc p2"
    "\<forall>k. k \<notin> key_of ` set bs \<longrightarrow> pw_Objects w' k = pw_Objects w1 k" by (rule sync_webhook_presence[OF assms(1) w1(2)]) (simp add: g)
  have "\<forall>k\<in>key_of ` set as. k \<notin> key_of ` set bs" using assms(3)[OF as(1) bs(1)] by blast
  then have "\<forall>k\<in>key_of ` set as. (pw_Objects w' k \<noteq> None) = webhook_enabled dc p1" using as(2) bs(3) by metis
  then show ?thesis using as(1) bs(1,2) by (auto simp: as_configured_def list_all_iff)
qed

text \<open>
  C15: The webhooks are deployed as configured. When the synchronisation of the webhooks succeeds, then exactly the objects of the
  webhooks that the operator configuration enables exist: all objects rendered for an enabled webhook are there, and none of those
  rendered for a disabled one, whichever of the two is visited first and whatever was deployed before.
\<close>

theorem webhooks_as_configured:
  assumes "syncWebhookObjs env dc w = (Inr (), w')" and "opn_Order env webhooks = webhooks \<or> opn_Order env webhooks = rev webhooks"
    and "owner_setter env" and "manifests_apart env"
  shows "\<exists>tls. as_configured env (ocs_EnableInjector (opc_Spec dc)) (match_condition w) tls (pw_Objects w') (InjectorWebHookName, InjectorWebHookPath) \<and>
    as_configured env (ocs_EnableOperatorWebhook (opc_Spec dc)) (match_condition w) tls (pw_Objects w') (OperatorWebHookName, OperatorWebHookPath)"
proof -
  obtain tls w1 where t: "getTLSTemplateData env w = (Inr tls, w1)" "io_each (sync_webhook env dc tls) (opn_Order env webhooks) w1 = (Inr (), w')"
    using assms(1) by (auto simp: syncWebhookObjs_def io_bind_def split: prod.splits sum.splits)
  have g: "match_condition w1 = match_condition w" using keeps_partD[OF gate.part_tls t(1)] by simp
  note apart = assms(4)[unfolded manifests_apart_def, rule_format, of "match_condition w1" tls]
  have "as_configured env (webhook_enabled dc InjectorWebHookPath) (match_condition w1) tls (pw_Objects w') (InjectorWebHookName, InjectorWebHookPath) \<and>
    as_configured env (webhook_enabled dc OperatorWebHookPath) (match_condition w1) tls (pw_Objects w') (OperatorWebHookName, OperatorWebHookPath)"
    using assms(2)
  proof
    assume "opn_Order env webhooks = webhooks"
    then have "io_each (sync_webhook env dc tls) [(InjectorWebHookName, InjectorWebHookPath), (OperatorWebHookName, OperatorWebHookPath)] w1 = (Inr (), w')"
      using t(2) by (simp only: webhooks_def)
    from two_webhooks[OF assms(3) this apart] show ?thesis .
  next
    assume "opn_Order env webhooks = rev webhooks"
    then have "io_each (sync_webhook env dc tls) [(OperatorWebHookName, OperatorWebHookPath), (InjectorWebHookName, InjectorWebHookPath)] w1 = (Inr (), w')"
      using t(2) by (simp only: webhooks_def rev.simps append.simps)
    from two_webhooks[OF assms(3) this] apart show ?thesis by (metis Int_commute)
  qed
  moreover have "webhook_enabled dc InjectorWebHookPath = ocs_EnableInjector (opc_Spec dc)"
    "webhook_enabled dc OperatorWebHookPath = ocs_EnableOperatorWebhook (opc_Spec dc)" by (simp_all add: webhook_enabled_def)
  ultimately show ?thesis using g by auto
qed

section \<open>Refused TLS profiles\<close>

lemma unknown_curve:
  "g \<in> set names \<Longrightarrow> TrimSpace g \<noteq> [] \<Longrightarrow> map_of curveNameToID (TrimSpace g) = None \<Longrightarrow> isl (curve_ids names)"
proof (induction names)
  case (Cons n names)
  then show ?case by (cases "curve_ids names") (auto simp: Let_def split: option.splits)
qed simp

definition refused_profile :: "tls_lib \<Rightarrow> TLSProfileSpec \<Rightarrow> bool" where
  "refused_profile lib sp \<longleftrightarrow>
     (tp_MinTLSVersion sp \<noteq> [] \<and> (case tl_TLSVersion lib (tp_MinTLSVersion sp) of None \<Rightarrow> True | Some v \<Rightarrow> v < VersionTLS12)) \<or>
     (list_all (\<lambda>g. CHR '','' \<notin> set g) (tp_Groups sp) \<and>
      list_ex (\<lambda>g. TrimSpace g \<noteq> [] \<and> map_of curveNameToID (TrimSpace g) = None) (tp_Groups sp))"

lemma refused_curves:
  assumes "list_all (\<lambda>g. CHR '','' \<notin> set g) gs" and "list_ex (\<lambda>g. TrimSpace g \<noteq> [] \<and> map_of curveNameToID (TrimSpace g) = None) gs"
  shows "join_with '','' gs \<noteq> [] \<and> isl (CurveNamesToIDs (join_with '','' gs))"
proof -
  have gs: "gs \<noteq> []" using assms(2) by auto
  have s: "split_on (CHR '','') (join_with '','' gs) = gs" by (rule split_join[OF gs assms(1)])
  have bad: "isl (curve_ids gs)" using assms(2) unknown_curve by (auto simp: list_ex_iff)
  have "join_with '','' gs \<noteq> []"
  proof
    assume "join_with '','' gs = []"
    then have "gs = [[]]" using s by simp
    then show False using bad by (simp add: TrimSpace_def trim_left_def)
  qed
  then show ?thesis using bad s by (auto simp: CurveNamesToIDs_def isl_def)
qed

lemma refused_profile_fails:
  assumes "tl_ShouldHonor lib (as_TLSAdherence api)" and "as_TLSSecurityProfile api = Some profile" and "profile_spec lib profile = Some sp"
    and "refused_profile lib sp"
  shows "isl (GetTLSConfig lib api)"
  using assms(4) unfolding refused_profile_def
proof
  assume v: "tp_MinTLSVersion sp \<noteq> [] \<and> (case tl_TLSVersion lib (tp_MinTLSVersion sp) of None \<Rightarrow> True | Some v \<Rightarrow> v < VersionTLS12)"
  then show ?thesis using assms(1-3)
    by (auto simp: GetTLSConfig_def BuildTLSConfig_def res_bind_def isl_def split: option.splits sum.splits)
next
  assume g: "list_all (\<lambda>g. CHR '','' \<notin> set g) (tp_Groups sp) \<and>
      list_ex (\<lambda>g. TrimSpace g \<noteq> [] \<and> map_of curveNameToID (TrimSpace g) = None) (tp_Groups sp)"
  note c = refused_curves[OF conjunct1[OF g] conjunct2[OF g]]
  then show ?thesis using assms(1-3)
    by (auto simp: GetTLSConfig_def BuildTLSConfig_def res_bind_def isl_def split: option.splits sum.splits)
qed

text \<open>What happens before the first object is touched.\<close>

lemma objects_kept [part_rules]:
  "keeps_part pw_Objects get_config" "keeps_part pw_Objects (change_config f)" "keeps_part pw_APIServer get_config"
  "keeps_part pw_APIServer (change_config f)" "keeps_part pw_Objects (op_call (\<lambda>w. (h w, w)))" "keeps_part pw_APIServer (op_call (\<lambda>w. (h w, w)))"
  unfolding get_config_def change_config_def store_config_def
  by (rule keeps_partI, auto simp: op_call_def split: list.splits bool.splits option.splits)+

lemma ready_objects: "keeps_part pw_Objects (applyReadyCondition env cfg err)"
  unfolding applyReadyCondition_def Let_def by (intro part_bind part_basic) (auto split: option.split intro!: part_rules)

lemma finalizers_kept: "keeps_part pw_Objects (syncOperatorConfigFinalizers cfg)" "keeps_part pw_APIServer (syncOperatorConfigFinalizers cfg)"
  unfolding syncOperatorConfigFinalizers_def by (intro part_rules)+

lemma tls_objects: "keeps_part pw_Objects (getTLSTemplateData env)"
  unfolding getTLSTemplateData_def orchestrator_tls_def Let_def by (intro part_rules)

lemma tls_refused:
  assumes "opn_Openshift env" and "pw_APIServer w = Some api" and "isl (GetTLSConfig (opn_Tls env) api)"
  shows "isl (fst (getTLSTemplateData env w))"
proof -
  obtain e where e: "GetTLSConfig (opn_Tls env) api = Inl e" using assms(3) by (auto simp: isl_def)
  have "isl (fst (orchestrator_tls env w))"
  proof (cases "pw_Faults w")
    case (Cons b bs)
    then show ?thesis using assms e by (cases b) (simp_all add: orchestrator_tls_def op_call_def io_run_defs)
  qed (use assms e in \<open>simp add: orchestrator_tls_def op_call_def io_run_defs\<close>)
  then obtain e' w' where orc: "orchestrator_tls env w = (Inl e', w')" by (cases "orchestrator_tls env w") (auto simp: isl_def)
  show ?thesis unfolding getTLSTemplateData_def Let_def
    by (cases "BuildTLSConfig (opn_Tls env) (opn_Getenv env ''TLS_CIPHER_SUITES'') (opn_Getenv env ''TLS_MIN_VERSION'')
      (opn_Getenv env ''TLS_CURVE_PREFERENCES'')") (auto simp: io_run_defs orc isl_def)
qed

lemma refused_reconcile:
  assumes "\<not> cr_Deleting cfg" and "opn_Openshift env" and "pw_APIServer w = Some api" and "isl (GetTLSConfig (opn_Tls env) api)"
    and "reconcile_config env cfg w = (r, w')"
  shows "isl r \<and> pw_Objects w' = pw_Objects w"
proof -
  obtain r1 w1 where f: "syncOperatorConfigFinalizers cfg w = (r1, w1)" by (cases "syncOperatorConfigFinalizers cfg w")
  have k1: "pw_Objects w1 = pw_Objects w" "pw_APIServer w1 = Some api"
    using keeps_partD[OF finalizers_kept(1) f] keeps_partD[OF finalizers_kept(2) f] assms(3) by simp_all
  show ?thesis
  proof (cases r1)
    case (Inl e)
    then show ?thesis using assms(1,5) f k1 by (auto simp: reconcile_config_def io_bind_def)
  next
    case (Inr dc)
    let ?w2 = "w1\<lparr>pw_Gate := fg_Init (fmap_of_list (ocs_FeatureGates (opc_Spec dc))) (pw_Gate w1)\<rparr>"
    obtain r3 w3 where p: "op_call (\<lambda>w. (Inr (), w)) ?w2 = (r3, w3)" by (cases "op_call (\<lambda>w. (Inr (), w)) ?w2")
    have k3: "pw_Objects w3 = pw_Objects w" "pw_APIServer w3 = Some api"
      using keeps_partD[OF objects_kept(5) p] keeps_partD[OF objects_kept(6) p] k1 by simp_all
    obtain e w4 where t: "getTLSTemplateData env w3 = (Inl e, w4)"
      using tls_refused[OF assms(2) k3(2) assms(4)] by (cases "getTLSTemplateData env w3") (auto simp: isl_def)
    have "pw_Objects w4 = pw_Objects w" using keeps_partD[OF tls_objects t] k3(1) by simp
    then show ?thesis using assms(1,5) f Inr p k3 t by (cases r3) (auto simp: reconcile_config_def syncWebhookObjs_def io_bind_def)
  qed
qed

text \<open>
  C18: A refused TLS profile stops the operator. On an OpenShift cluster whose adherence policy says that the profile of the API
  server is to be honoured, a profile with a minimum version below TLS 1.2, as the old profile has, or with a group that the
  operator does not know, makes every reconciliation of an operator configuration that is not under deletion fail before any
  object is created, updated or deleted: neither the config daemon nor the device plugin is deployed, although they do not use
  the TLS settings. (With another adherence policy, and also when none is set, the profile is ignored.)
\<close>

theorem refused_profile_blocks:
  assumes "pw_Config w = Some cfg" and "\<not> cr_Deleting cfg" and "opn_Openshift env" and "pw_APIServer w = Some api"
    and "tl_ShouldHonor (opn_Tls env) (as_TLSAdherence api)" and "as_TLSSecurityProfile api = Some profile"
    and "profile_spec (opn_Tls env) profile = Some sp" and "refused_profile (opn_Tls env) sp"
    and "Reconcile_operator_config env w = (r, w')"
  shows "isl r \<and> pw_Objects w' = pw_Objects w"
proof -
  have bad: "isl (GetTLSConfig (opn_Tls env) api)" by (rule refused_profile_fails[OF assms(5-8)])
  obtain r1 w1 where g: "get_config w = (r1, w1)" by (cases "get_config w")
  have k: "pw_Objects w1 = pw_Objects w" "pw_APIServer w1 = Some api"
    using keeps_partD[OF objects_kept(1) g] keeps_partD[OF objects_kept(3) g] assms(4) by simp_all
  show ?thesis
  proof (cases r1)
    case (Inl e)
    have "\<not> not_found e" using g Inl assms(1) by (auto simp: get_config_def op_call_def not_found_def split: list.splits bool.splits)
    then show ?thesis using g Inl k assms(9) by (auto simp: Reconcile_operator_config_def io_run_defs)
  next
    case (Inr c)
    then have c: "c = cfg" using get_config_outcome[OF g] assms(1) by simp
    obtain r2 w2 where rec: "reconcile_config env cfg w1 = (r2, w2)" by (cases "reconcile_config env cfg w1")
    obtain e where e: "r2 = Inl e" "pw_Objects w2 = pw_Objects w"
      using refused_reconcile[OF assms(2,3) k(2) bad rec] k(1) by (auto simp: isl_def)
    obtain r3 w3 where fin: "applyReadyCondition env cfg (Some e) w2 = (r3, w3)" by (cases "applyReadyCondition env cfg (Some e) w2")
    have "pw_Objects w3 = pw_Objects w" using keeps_partD[OF ready_objects fin] e(2) by simp
    then show ?thesis using assms(9) g Inr c rec e fin by (cases r3) (auto simp: Reconcile_operator_config_def io_run_defs)
  qed
qed

section \<open>Examples\<close>

definition sample_manifest :: "string \<Rightarrow> string \<Rightarrow> uobj" where
  "sample_manifest kind nm = fmap_of_list [(''apiVersion'', JStr ''admissionregistration.k8s.io/v1''), (''kind'', JStr kind),
     (''metadata'', JMap (fmap_of_list [(''name'', JStr nm)]))]"

text \<open>The template engine copies the file's name, and the decoder makes it a webhook configuration of this name.\<close>

definition sample_op_env :: op_env where
  "sample_op_env = \<lparr>opn_Getenv = (\<lambda>_. []), opn_Namespace = ''sriov'', opn_ClusterTypeVar = ''openshift'', opn_ResourcePrefix = ''openshift.io'',
     opn_UseExternalDrainer = False, opn_Openshift = True, opn_Hypershift = False, opn_Tls = sample_tls_lib, opn_Order = rev,
     opn_Walk = (\<lambda>dir. Inr (if dir = OperatorWebHookPath then [OperatorWebHookName @ ''.yaml''] else if dir = InjectorWebHookPath then [InjectorWebHookName @ ''.yaml''] else [])),
     opn_Template = (\<lambda>path _. Inr (trim_suffix path ''.yaml'')),
     opn_Decode = (\<lambda>nm. Inr [Some (sample_manifest ''MutatingWebhookConfiguration'' nm)]),
     opn_Admit = (\<lambda>_ obj. obj), opn_SetOwner = (\<lambda>_ obj. Inr obj), opn_ToTyped = (\<lambda>_ obj. Inr obj), opn_FromTyped = (\<lambda>_ obj. Inr obj),
     opn_DeepDerivative = (\<lambda>a b. a = b), opn_ErrorText = (\<lambda>_. ''failed'')\<rparr>"

definition sample_cr :: operator_cr where
  "sample_cr = \<lparr>opc_Meta = \<lparr>om_Name = ''default'', om_Namespace = ''sriov'', om_Labels = Map.empty, om_Annotations = Map.empty, om_Generation = 1,
       om_OwnerReferences = []\<rparr>,
     opc_Spec = \<lparr>ocs_ConfigDaemonNodeSelector = [], ocs_EnableInjector = False, ocs_EnableOperatorWebhook = True, ocs_LogLevel = 0,
       ocs_DisableDrain = False, ocs_EnableOvsOffload = False, ocs_ConfigurationMode = ''daemon'', ocs_UseCDI = False, ocs_DisablePlugins = [],
       ocs_FeatureGates = [], ocs_ConfigDaemonEnvVars = []\<rparr>,
     cr_Finalizers = [], cr_Deleting = False, cr_Conditions = []\<rparr>"

definition sample_op_world :: "APIServer \<Rightarrow> operator_world" where
  "sample_op_world api = \<lparr>pw_Objects = Map.empty, pw_Config = Some sample_cr, pw_APIServer = Some api, pw_Gate = New_featureGate,
     pw_Faults = [], pw_Clock = 0\<rparr>"

abbreviation legacy_api :: APIServer where "legacy_api \<equiv> \<lparr>as_TLSAdherence = [], as_TLSSecurityProfile = None\<rparr>"
abbreviation old_api :: APIServer where
  "old_api \<equiv> \<lparr>as_TLSAdherence = ''StrictAllComponents'', as_TLSSecurityProfile = Some (''Old'', None)\<rparr>"

abbreviation operator_hook_key :: obj_key where
  "operator_hook_key \<equiv> (''admissionregistration.k8s.io'', ''MutatingWebhookConfiguration'', [], OperatorWebHookName)"

lemma sample_operator_deploys:
  "pw_Objects (snd (Reconcile_operator_config sample_op_env (sample_op_world legacy_api))) operator_hook_key \<noteq> None"
  by code_simp

theorem webhooks_never_outlive_config_witness:
  "\<exists>w'. operator_run (sample_op_world legacy_api) w' \<and> pw_Objects w' operator_hook_key \<noteq> None \<and> hooks_guarded w'"
proof -
  obtain r w' where run: "Reconcile_operator_config sample_op_env (sample_op_world legacy_api) = (r, w')"
    by (cases "Reconcile_operator_config sample_op_env (sample_op_world legacy_api)")
  have orun: "operator_run (sample_op_world legacy_api) w'" by (rule operator_run.reconcile[OF operator_run.start run])
  have "hooks_guarded (sample_op_world legacy_api)" by (simp add: hooks_guarded_def no_hooks_def sample_op_world_def)
  from webhooks_never_outlive_config[OF orun this] show ?thesis using orun sample_operator_deploys run by auto
qed

lemma sample_manifest_key: "key_of (sample_manifest k nm) = (''admissionregistration.k8s.io'', k, [], nm)"
  by (simp add: key_of_def sample_manifest_def GroupVersionKind_def GetKind_def GetName_def GetNamespace_def getNestedString_def NestedString_def
    NestedFieldNoCopy_def)

lemma sample_manifests_apart: "manifests_apart sample_op_env"
proof -
  have "RenderDir sample_op_env OperatorWebHookPath d = Inr [sample_manifest ''MutatingWebhookConfiguration'' OperatorWebHookName]"
    "RenderDir sample_op_env InjectorWebHookPath d = Inr [sample_manifest ''MutatingWebhookConfiguration'' InjectorWebHookName]" for d
    by (simp_all add: RenderDir_def RenderFileTemplate_def sample_op_env_def is_manifest_def has_suffix_def trim_suffix_def TrimSpace_def
      trim_left_def space_len_def byte_at_def map_filter_simps)
  then show ?thesis by (simp add: manifests_apart_def sample_manifest_key)
qed

theorem webhooks_as_configured_witness:
  "\<exists>w' tls. syncWebhookObjs sample_op_env sample_cr (sample_op_world legacy_api) = (Inr (), w') \<and>
     as_configured sample_op_env True False tls (pw_Objects w') (OperatorWebHookName, OperatorWebHookPath)"
proof -
  have "fst (syncWebhookObjs sample_op_env sample_cr (sample_op_world legacy_api)) = Inr ()" by code_simp
  then obtain w' where run: "syncWebhookObjs sample_op_env sample_cr (sample_op_world legacy_api) = (Inr (), w')"
    by (cases "syncWebhookObjs sample_op_env sample_cr (sample_op_world legacy_api)") simp
  have e: "opn_Order sample_op_env webhooks = webhooks \<or> opn_Order sample_op_env webhooks = rev webhooks" "owner_setter sample_op_env"
    by (simp_all add: sample_op_env_def owner_setter_def)
  have "match_condition (sample_op_world legacy_api) = False" by code_simp
  moreover have "ocs_EnableOperatorWebhook (opc_Spec sample_cr)" by (simp add: sample_cr_def)
  ultimately show ?thesis using webhooks_as_configured[OF run e sample_manifests_apart] run by metis
qed

theorem refused_profile_blocks_witness:
  "isl (fst (Reconcile_operator_config sample_op_env (sample_op_world old_api))) \<and>
     pw_Objects (snd (Reconcile_operator_config sample_op_env (sample_op_world old_api))) operator_hook_key = None"
proof -
  obtain r w' where run: "Reconcile_operator_config sample_op_env (sample_op_world old_api) = (r, w')"
    by (cases "Reconcile_operator_config sample_op_env (sample_op_world old_api)")
  let ?sp = "\<lparr>tp_Ciphers = [''TLS_AES_128_GCM_SHA256''], tp_Groups = [], tp_MinTLSVersion = ''VersionTLS10''\<rparr>"
  have c: "pw_Config (sample_op_world old_api) = Some sample_cr" "\<not> cr_Deleting sample_cr" "opn_Openshift sample_op_env"
    "pw_APIServer (sample_op_world old_api) = Some old_api"
    by (simp_all add: sample_op_world_def sample_cr_def sample_op_env_def)
  have p: "tl_ShouldHonor (opn_Tls sample_op_env) (as_TLSAdherence old_api)" "as_TLSSecurityProfile old_api = Some (''Old'', None)"
    "profile_spec (opn_Tls sample_op_env) (''Old'', None) = Some ?sp" "refused_profile (opn_Tls sample_op_env) ?sp"
    by (simp_all add: sample_op_env_def sample_tls_lib_def profile_spec_def refused_profile_def)
  have "isl r \<and> pw_Objects w' = pw_Objects (sample_op_world old_api)" by (rule refused_profile_blocks[OF c p run])
  then show ?thesis using run by (simp add: sample_op_world_def)
qed

end
