(* ===== verification/Openshift.thy ===== *)
theory Openshift
  imports Daemon
begin

text \<open>
  The OpenShift orchestrator (\<^verbatim>\<open>src/pkg/orchestrator/openshift/openshift.go\<close>): before a node is drained the machine config
  pool of the node is paused, and after the last node of the pool is done it is resumed. The state is the part of the API server that this
  code uses. The machine config operator and the config daemons work at the same time: before each call others may change
  the cluster, and the call may fail without effect. Both are in the schedule, an entry per call.
\<close>

section \<open>State\<close>

record MachineConfigPool =
  mcp_Meta :: ObjectMeta
  mcp_Paused :: bool
  mcp_SpecConfiguration :: string
  mcp_StatusConfiguration :: string
  mcp_NodeSelector :: "LabelSelector option"

record OwnerReference =
  own_Kind :: string
  own_Name :: string

record MachineConfig =
  mc_OwnerReferences :: "OwnerReference list"

record openshift_cluster =
  oc_Pools :: "string \<rightharpoonup> MachineConfigPool"
  oc_Configs :: "string \<rightharpoonup> MachineConfig"
  oc_Nodes :: "Node list"
  oc_Infrastructures :: "string \<rightharpoonup> string"

text \<open>
  A hook looks up the name of the pool first, and runs the rest under a mutex: a request is a hook between the two, with the
  name of the node and of its pool. The requests and the grants are no data of the code. A grant is a node that was
  allowed to drain, with the pool that was paused for it, as long as the drain annotation of the node was not idle since.
\<close>

datatype request = Before string string | After string string

fun request_node :: "request \<Rightarrow> string" where
  "request_node (Before n p) = n"
| "request_node (After n p) = n"

record openshift_world =
  ow_Cluster :: openshift_cluster
  ow_Schedule :: "((openshift_cluster \<Rightarrow> openshift_cluster) \<times> bool) list"
  ow_Granted :: "(string \<times> string) list"
  ow_Requests :: "request list"

datatype openshift_error =
    OcApi api_error
  | OcHypershift
  | OcNoDesiredConfig string
  | OcMachineConfig api_error
  | OcNoPool
  | OcSelector
  | OcInfrastructure api_error

datatype ClusterFlavor = ClusterFlavorDefault | ClusterFlavorHypershift

type_synonym 'a oio = "(openshift_world, openshift_error, 'a) stateful"

abbreviation MachineConfigPoolPausedAnnotation :: string where
  "MachineConfigPoolPausedAnnotation \<equiv> ''sriovnetwork.openshift.io/state''"
abbreviation MachineConfigPoolPausedAnnotationIdle :: string where
  "MachineConfigPoolPausedAnnotationIdle \<equiv> ''Idle''"
abbreviation MachineConfigPoolPausedAnnotationPaused :: string where
  "MachineConfigPoolPausedAnnotationPaused \<equiv> ''Paused''"
abbreviation DesiredMachineConfigAnnotation :: string where
  "DesiredMachineConfigAnnotation \<equiv> ''machineconfiguration.openshift.io/desiredConfig''"

section \<open>Calls\<close>

text \<open>The test of the loop in \<^verbatim>\<open>AfterCompleteDrainNode\<close>: the node has a drain annotation other than idle.\<close>

definition under_configuration :: "Node \<Rightarrow> bool" where
  "under_configuration n \<longleftrightarrow>
     ObjectHasAnnotationKey (node_Meta n) NodeDrainAnnotation \<and>
     om_Annotations (node_Meta n) NodeDrainAnnotation \<noteq> Some DrainIdle"

definition still_granted :: "openshift_cluster \<Rightarrow> (string \<times> string) list \<Rightarrow> (string \<times> string) list" where
  "still_granted cl g = filter (\<lambda>(n, p). list_ex (\<lambda>nd. node_Name nd = n \<and> under_configuration nd) (oc_Nodes cl)) g"

definition others_act :: "(openshift_cluster \<Rightarrow> openshift_cluster) \<Rightarrow> openshift_world \<Rightarrow> openshift_world" where
  "others_act f w = w\<lparr>ow_Cluster := f (ow_Cluster w), ow_Granted := still_granted (f (ow_Cluster w)) (ow_Granted w)\<rparr>"

definition openshift_call ::
    "(openshift_cluster \<Rightarrow> (api_error + 'a) \<times> openshift_cluster) \<Rightarrow> (openshift_world, api_error, 'a) stateful" where
  "openshift_call m w =
     (let run = (\<lambda>w. case m (ow_Cluster w) of (r, cl) \<Rightarrow> (r, w\<lparr>ow_Cluster := cl\<rparr>)) in
      case ow_Schedule w of
        [] \<Rightarrow> run w
      | (f, fault) # rest \<Rightarrow>
          let w' = others_act f (w\<lparr>ow_Schedule := rest\<rparr>) in
          if fault then (Inl ApiError, w') else run w')"

definition fetch :: "(openshift_cluster \<Rightarrow> 'a option) \<Rightarrow> (openshift_world, api_error, 'a) stateful" where
  "fetch f = openshift_call (\<lambda>cl. (case f cl of None \<Rightarrow> Inl NotFound | Some x \<Rightarrow> Inr x, cl))"

text \<open>A merge patch changes the named field of the stored pool; the answer replaces the copy in memory.\<close>

definition patch_pool ::
    "(MachineConfigPool \<Rightarrow> MachineConfigPool) \<Rightarrow> string \<Rightarrow> (openshift_world, api_error, MachineConfigPool) stateful" where
  "patch_pool g nm = openshift_call (\<lambda>cl.
     case oc_Pools cl nm of
       None \<Rightarrow> (Inl NotFound, cl)
     | Some mcp \<Rightarrow> (Inr (g mcp), cl\<lparr>oc_Pools := (oc_Pools cl)(nm \<mapsto> g mcp)\<rparr>))"

definition mcp_Name :: "MachineConfigPool \<Rightarrow> string" where
  "mcp_Name mcp = om_Name (mcp_Meta mcp)"

definition set_mark :: "string \<Rightarrow> MachineConfigPool \<Rightarrow> MachineConfigPool" where
  "set_mark v mcp = mcp\<lparr>mcp_Meta := set_annotation MachineConfigPoolPausedAnnotation v (mcp_Meta mcp)\<rparr>"

definition set_paused :: "bool \<Rightarrow> MachineConfigPool \<Rightarrow> MachineConfigPool" where
  "set_paused b mcp = mcp\<lparr>mcp_Paused := b\<rparr>"

definition AnnotatePool :: "MachineConfigPool \<Rightarrow> string \<Rightarrow> MachineConfigPool oio" where
  "AnnotatePool mcp v =
     (if (case om_Annotations (mcp_Meta mcp) MachineConfigPoolPausedAnnotation of None \<Rightarrow> [] | Some x \<Rightarrow> x) = v
      then io_return mcp
      else io_map_err OcApi (patch_pool (set_mark v) (mcp_Name mcp)))"

definition ChangeMachineConfigPoolPause :: "MachineConfigPool \<Rightarrow> bool \<Rightarrow> MachineConfigPool oio" where
  "ChangeMachineConfigPoolPause mcp pause = io_map_err OcApi (patch_pool (set_paused pause) (mcp_Name mcp))"

section \<open>Pool of a node\<close>

definition owner_pool :: "MachineConfig \<Rightarrow> string option" where
  "owner_pool mc = map_option own_Name (find (\<lambda>owner. own_Kind owner = ''MachineConfigPool'') (mc_OwnerReferences mc))"

definition GetNodeMachinePoolName :: "ClusterFlavor \<Rightarrow> Node \<Rightarrow> string oio" where
  "GetNodeMachinePoolName flavor node =
     (if flavor = ClusterFlavorHypershift then io_fail OcHypershift
      else case om_Annotations (node_Meta node) DesiredMachineConfigAnnotation of
        None \<Rightarrow> io_fail (OcNoDesiredConfig (node_Name node))
      | Some desiredConfig \<Rightarrow>
          io_bind (io_map_err OcMachineConfig (fetch (\<lambda>cl. oc_Configs cl desiredConfig))) (\<lambda>mc.
            case owner_pool mc of None \<Rightarrow> io_fail OcNoPool | Some nm \<Rightarrow> io_return nm))"

section \<open>Before and after a drain\<close>

definition get_pool :: "string \<Rightarrow> MachineConfigPool oio" where
  "get_pool nm = io_map_err OcApi (fetch (\<lambda>cl. oc_Pools cl nm))"

definition pool_marked :: "MachineConfigPool \<Rightarrow> bool" where
  "pool_marked mcp = ObjectHasAnnotation (mcp_Meta mcp) MachineConfigPoolPausedAnnotation MachineConfigPoolPausedAnnotationPaused"

text \<open>The branch of \<^verbatim>\<open>BeforeDrainNode\<close> for a pool that carries the operator's mark.\<close>

definition pause_marked :: "MachineConfigPool \<Rightarrow> bool oio" where
  "pause_marked mcp =
     (if \<not> mcp_Paused mcp then
        if mcp_SpecConfiguration mcp = [] \<or> mcp_StatusConfiguration mcp = [] \<or>
           mcp_SpecConfiguration mcp \<noteq> mcp_StatusConfiguration mcp
        then io_return False
        else io_bind (ChangeMachineConfigPoolPause mcp True) (\<lambda>_. io_return True)
      else io_return True)"

text \<open>The rest of \<^verbatim>\<open>BeforeDrainNode\<close>: the pool is marked, paused, read again, and released when an update has started.\<close>

definition pause_unmarked :: "string \<Rightarrow> MachineConfigPool \<Rightarrow> bool oio" where
  "pause_unmarked mcpName mcp =
     (if mcp_SpecConfiguration mcp \<noteq> mcp_StatusConfiguration mcp then io_return False
      else
        io_bind (AnnotatePool mcp MachineConfigPoolPausedAnnotationPaused) (\<lambda>mcp.
        io_bind (ChangeMachineConfigPoolPause mcp True) (\<lambda>_.
        io_bind (get_pool mcpName) (\<lambda>mcp.
          if mcp_SpecConfiguration mcp \<noteq> mcp_StatusConfiguration mcp then
            io_bind (ChangeMachineConfigPoolPause mcp False) (\<lambda>mcp.
            io_bind (AnnotatePool mcp MachineConfigPoolPausedAnnotationIdle) (\<lambda>_.
              io_return False))
          else io_return True))))"

text \<open>The part under the mutex.\<close>

definition pause_pool :: "string \<Rightarrow> bool oio" where
  "pause_pool mcpName =
     io_bind (get_pool mcpName) (\<lambda>mcp. if pool_marked mcp then pause_marked mcp else pause_unmarked mcpName mcp)"

definition BeforeDrainNode :: "ClusterFlavor \<Rightarrow> Node \<Rightarrow> bool oio" where
  "BeforeDrainNode flavor node =
     (if flavor = ClusterFlavorHypershift then io_return True
      else io_bind (GetNodeMachinePoolName flavor node) pause_pool)"

text \<open>\<^verbatim>\<open>LabelSelectorAsSelector\<close> of nil selects nothing.\<close>

definition mcp_selects :: "MachineConfigPool \<Rightarrow> Node \<Rightarrow> bool" where
  "mcp_selects mcp n =
     (case mcp_NodeSelector mcp of None \<Rightarrow> False | Some ls \<Rightarrow> selector_matches ls (node_Labels n))"

definition mcp_selector_ok :: "MachineConfigPool \<Rightarrow> bool" where
  "mcp_selector_ok mcp = (case mcp_NodeSelector mcp of None \<Rightarrow> True | Some ls \<Rightarrow> LabelSelectorAsSelector_ok ls)"

text \<open>The part of \<^verbatim>\<open>AfterCompleteDrainNode\<close> under the mutex.\<close>

definition resume_pool :: "string \<Rightarrow> string \<Rightarrow> bool oio" where
  "resume_pool nodeName mcpName =
     io_bind (get_pool mcpName) (\<lambda>mcp.
       case om_Annotations (mcp_Meta mcp) MachineConfigPoolPausedAnnotation of
         None \<Rightarrow> io_return True
       | Some v \<Rightarrow>
           if v = MachineConfigPoolPausedAnnotationIdle then io_return True
           else if \<not> mcp_selector_ok mcp then io_fail OcSelector
           else
             io_bind (io_map_err OcApi (fetch (\<lambda>cl. Some (filter (mcp_selects mcp) (oc_Nodes cl))))) (\<lambda>nodesInPool.
               if list_ex (\<lambda>nodeInPool. node_Name nodeInPool \<noteq> nodeName \<and> under_configuration nodeInPool) nodesInPool
               then io_return True
               else
                 io_bind (ChangeMachineConfigPoolPause mcp False) (\<lambda>mcp.
                 io_bind (AnnotatePool mcp MachineConfigPoolPausedAnnotationIdle) (\<lambda>_.
                   io_return True))))"

definition AfterCompleteDrainNode :: "ClusterFlavor \<Rightarrow> Node \<Rightarrow> bool oio" where
  "AfterCompleteDrainNode flavor node =
     (if flavor = ClusterFlavorHypershift then io_return True
      else io_bind (GetNodeMachinePoolName flavor node) (resume_pool (node_Name node)))"

section \<open>Flavor of the cluster\<close>

definition isExternalControlPlaneCluster :: "bool oio" where
  "isExternalControlPlaneCluster =
     io_bind (io_map_err OcInfrastructure (fetch (\<lambda>cl. oc_Infrastructures cl ''cluster''))) (\<lambda>topology.
       io_return (topology = ''External''))"

definition New_flavor :: "ClusterFlavor oio" where
  "New_flavor = io_bind isExternalControlPlaneCluster (\<lambda>isHypershift.
     io_return (if isHypershift then ClusterFlavorHypershift else ClusterFlavorDefault))"

end
