(* ===== verification/Openshift_Safety.thy ===== *)
theory Openshift_Safety
  imports Openshift
begin

text \<open>
  The machine config pool of a node stays paused while the node is drained and configured. The runs have all
  the interleavings of the code: the lookup of the pool's name is outside the mutex, the rest of the two hooks is inside,
  and the other clients act before every call.
\<close>

section \<open>What the others may do\<close>

text \<open>What the operator sees of a pool, apart from the configurations.\<close>

definition pool_view :: "MachineConfigPool \<Rightarrow> string \<times> bool \<times> string option \<times> LabelSelector option" where
  "pool_view mcp =
     (mcp_Name mcp, mcp_Paused mcp, om_Annotations (mcp_Meta mcp) MachineConfigPoolPausedAnnotation, mcp_NodeSelector mcp)"

text \<open>
  The machine config operator names a configuration after its pool: \<open>owns\<close> gives the pool of a configuration name. Pools are
  stored under their names.
\<close>

definition openshift_ok :: "(string \<rightharpoonup> string) \<Rightarrow> openshift_cluster \<Rightarrow> bool" where
  "openshift_ok owns cl \<longleftrightarrow>
     (\<forall>c mc p. oc_Configs cl c = Some mc \<longrightarrow> owner_pool mc = Some p \<longrightarrow> owns c = Some p) \<and>
     (\<forall>p mcp. oc_Pools cl p = Some mcp \<longrightarrow> mcp_Name mcp = p) \<and>
     distinct (map node_Name (oc_Nodes cl))"

text \<open>
  Others change configurations, annotate nodes and add nodes. They do not pause, resume or mark pools, and keep nodes
  in their pools.
\<close>

definition allowed :: "(string \<rightharpoonup> string) \<Rightarrow> openshift_cluster \<Rightarrow> openshift_cluster \<Rightarrow> bool" where
  "allowed owns cl cl' \<longleftrightarrow>
     openshift_ok owns cl' \<and>
     (\<forall>p. map_option pool_view (oc_Pools cl' p) = map_option pool_view (oc_Pools cl p)) \<and>
     (\<forall>n\<in>set (oc_Nodes cl). \<exists>n'\<in>set (oc_Nodes cl'). node_Name n' = node_Name n \<and> node_Labels n' = node_Labels n)"

definition schedule_ok :: "(string \<rightharpoonup> string) \<Rightarrow> openshift_world \<Rightarrow> bool" where
  "schedule_ok owns w \<longleftrightarrow> (\<forall>(f, b)\<in>set (ow_Schedule w). \<forall>cl. openshift_ok owns cl \<longrightarrow> allowed owns cl (f cl))"

section \<open>Runs\<close>

text \<open>
  The node object a hook gets may be old, but its labels are those of the stored node, and its configuration is one of a
  pool that selects it.
\<close>

definition node_known :: "(string \<rightharpoonup> string) \<Rightarrow> openshift_cluster \<Rightarrow> Node \<Rightarrow> bool" where
  "node_known owns cl node \<longleftrightarrow>
     (\<exists>nd\<in>set (oc_Nodes cl). node_Name nd = node_Name node \<and> node_Labels nd = node_Labels node) \<and>
     (\<forall>c p mcp. om_Annotations (node_Meta node) DesiredMachineConfigAnnotation = Some c \<longrightarrow> owns c = Some p \<longrightarrow>
        oc_Pools cl p = Some mcp \<longrightarrow> mcp_selects mcp node)"

definition grant :: "string \<Rightarrow> string \<Rightarrow> openshift_world \<Rightarrow> openshift_world" where
  "grant n p w = w\<lparr>ow_Granted := still_granted (ow_Cluster w) ((n, p) # ow_Granted w)\<rparr>"

definition drop_request :: "request \<Rightarrow> openshift_world \<Rightarrow> openshift_world" where
  "drop_request r w = w\<lparr>ow_Requests := removeAll r (ow_Requests w)\<rparr>"

definition add_request :: "(string \<Rightarrow> request) \<Rightarrow> openshift_error + string \<Rightarrow> openshift_world \<Rightarrow> openshift_world" where
  "add_request mk r w = (case r of Inl _ \<Rightarrow> w | Inr p \<Rightarrow> w\<lparr>ow_Requests := mk p # ow_Requests w\<rparr>)"

text \<open>
  The work queue of the drain controller has at most one hook of a node in progress. The controller calls the hook after a
  drain when it has read an idle annotation, which ends the grant.
\<close>

inductive openshift_step :: "(string \<rightharpoonup> string) \<Rightarrow> openshift_world \<Rightarrow> openshift_world \<Rightarrow> bool" for owns where
  others: "allowed owns (ow_Cluster w) (f (ow_Cluster w)) \<Longrightarrow> openshift_step owns w (others_act f w)"
| before_lookup: "node_known owns (ow_Cluster w) node \<Longrightarrow> node_Name node \<notin> request_node ` set (ow_Requests w) \<Longrightarrow>
     GetNodeMachinePoolName ClusterFlavorDefault node w = (r, w') \<Longrightarrow>
     openshift_step owns w (add_request (Before (node_Name node)) r w')"
| before: "Before n p \<in> set (ow_Requests w) \<Longrightarrow> pause_pool p w = (r, w') \<Longrightarrow>
     openshift_step owns w (drop_request (Before n p) (if r = Inr True then grant n p w' else w'))"
| after_lookup: "node_Name node \<notin> fst ` set (ow_Granted w) \<Longrightarrow> node_Name node \<notin> request_node ` set (ow_Requests w) \<Longrightarrow>
     GetNodeMachinePoolName ClusterFlavorDefault node w = (r, w') \<Longrightarrow>
     openshift_step owns w (add_request (After (node_Name node)) r w')"
| after: "After n p \<in> set (ow_Requests w) \<Longrightarrow> resume_pool n p w = (r, w') \<Longrightarrow>
     openshift_step owns w (drop_request (After n p) w')"

abbreviation openshift_steps :: "(string \<rightharpoonup> string) \<Rightarrow> openshift_world \<Rightarrow> openshift_world \<Rightarrow> bool" where
  "openshift_steps owns \<equiv> (openshift_step owns)\<^sup>*\<^sup>*"

section \<open>Invariant\<close>

definition held :: "string \<Rightarrow> openshift_world \<Rightarrow> bool" where
  "held p w \<longleftrightarrow> (\<exists>mcp. oc_Pools (ow_Cluster w) p = Some mcp \<and> mcp_Paused mcp \<and> pool_marked mcp)"

definition member_of :: "openshift_cluster \<Rightarrow> string \<Rightarrow> string \<Rightarrow> bool" where
  "member_of cl n p \<longleftrightarrow>
     (\<exists>nd\<in>set (oc_Nodes cl). node_Name nd = n \<and> (\<forall>mcp. oc_Pools cl p = Some mcp \<longrightarrow> mcp_selects mcp nd))"

definition busy_node :: "openshift_cluster \<Rightarrow> string \<Rightarrow> bool" where
  "busy_node cl n \<longleftrightarrow> (\<exists>nd\<in>set (oc_Nodes cl). node_Name nd = n \<and> under_configuration nd)"

fun request_ok :: "openshift_world \<Rightarrow> request \<Rightarrow> bool" where
  "request_ok w (Before n p) = member_of (ow_Cluster w) n p"
| "request_ok w (After n p) = (n \<notin> fst ` set (ow_Granted w))"

definition openshift_inv :: "(string \<rightharpoonup> string) \<Rightarrow> openshift_world \<Rightarrow> bool" where
  "openshift_inv owns w \<longleftrightarrow>
     openshift_ok owns (ow_Cluster w) \<and> schedule_ok owns w \<and>
     (\<forall>(n, p)\<in>set (ow_Granted w). held p w \<and> member_of (ow_Cluster w) n p \<and> busy_node (ow_Cluster w) n) \<and>
     (\<forall>p mcp. oc_Pools (ow_Cluster w) p = Some mcp \<longrightarrow> mcp_Paused mcp \<longrightarrow> pool_marked mcp) \<and>
     (\<forall>r\<in>set (ow_Requests w). request_ok w r) \<and> distinct (map request_node (ow_Requests w))"

text \<open>What may be assumed of a state between the calls of the code under the mutex: others keep it.\<close>

definition stable :: "(string \<rightharpoonup> string) \<Rightarrow> (openshift_world \<Rightarrow> bool) \<Rightarrow> bool" where
  "stable owns X \<longleftrightarrow>
     (\<forall>w f s. X w \<longrightarrow> allowed owns (ow_Cluster w) (f (ow_Cluster w)) \<longrightarrow> X (others_act f (w\<lparr>ow_Schedule := s\<rparr>))) \<and>
     (\<forall>w s. X (w\<lparr>ow_Schedule := s\<rparr>) = X w)"

lemma pool_same:
  assumes "allowed owns cl cl'" and "oc_Pools cl' p = Some mcp'"
  obtains mcp where "oc_Pools cl p = Some mcp" "pool_view mcp' = pool_view mcp"
  using assms unfolding allowed_def by (metis map_option_eq_Some)

lemma view_fields:
  assumes "pool_view mcp' = pool_view mcp"
  shows "mcp_Paused mcp' = mcp_Paused mcp" "pool_marked mcp' = pool_marked mcp"
    "mcp_NodeSelector mcp' = mcp_NodeSelector mcp"
  using assms by (auto simp: pool_view_def pool_marked_def ObjectHasAnnotation_def)

lemma others_fields [simp]:
  "ow_Cluster (others_act f w) = f (ow_Cluster w)" "ow_Schedule (others_act f w) = ow_Schedule w"
  "ow_Granted (others_act f w) = still_granted (f (ow_Cluster w)) (ow_Granted w)"
  "ow_Requests (others_act f w) = ow_Requests w"
  by (simp_all add: others_act_def)

lemma still_granted_iff [simp]:
  "(n, p) \<in> set (still_granted cl g) \<longleftrightarrow> (n, p) \<in> set g \<and> busy_node cl n"
  by (auto simp: still_granted_def busy_node_def list_ex_iff)

lemma held_others: "allowed owns (ow_Cluster w) (f (ow_Cluster w)) \<Longrightarrow> held p (others_act f w) = held p w"
  unfolding held_def others_fields allowed_def
  by (smt (verit, ccfv_threshold) map_option_eq_Some view_fields(1,2))

lemma member_others:
  assumes "allowed owns cl cl'" and "member_of cl n p"
  shows "member_of cl' n p"
proof -
  obtain nd where nd: "nd \<in> set (oc_Nodes cl)" "node_Name nd = n" "\<forall>mcp. oc_Pools cl p = Some mcp \<longrightarrow> mcp_selects mcp nd"
    using assms(2) unfolding member_of_def by blast
  obtain nd' where nd': "nd' \<in> set (oc_Nodes cl')" "node_Name nd' = n" "node_Labels nd' = node_Labels nd"
    using assms(1) nd(1,2) unfolding allowed_def by blast
  have "mcp_selects mcp' nd'" if pool: "oc_Pools cl' p = Some mcp'" for mcp'
  proof -
    obtain mcp where "oc_Pools cl p = Some mcp" "pool_view mcp' = pool_view mcp" by (rule pool_same[OF assms(1) pool])
    then show ?thesis using nd(3) nd'(3) view_fields(3)[of mcp' mcp] unfolding mcp_selects_def by (simp cong: option.case_cong)
  qed
  then show ?thesis using nd'(1,2) unfolding member_of_def by blast
qed

lemma inv_others:
  assumes "openshift_inv owns w" and "allowed owns (ow_Cluster w) (f (ow_Cluster w))"
  shows "openshift_inv owns (others_act f w)"
proof -
  have "held p (others_act f w) \<and> member_of (f (ow_Cluster w)) n p \<and> busy_node (f (ow_Cluster w)) n"
    if "(n, p) \<in> set (ow_Granted (others_act f w))" for n p
    using that assms member_others[OF assms(2)] held_others[of owns w f, OF assms(2)] unfolding openshift_inv_def by auto
  moreover have "pool_marked mcp'" if pool: "oc_Pools (f (ow_Cluster w)) p = Some mcp'" "mcp_Paused mcp'" for p mcp'
  proof -
    obtain mcp where "oc_Pools (ow_Cluster w) p = Some mcp" "pool_view mcp' = pool_view mcp"
      by (rule pool_same[OF assms(2) pool(1)])
    then show ?thesis using pool(2) view_fields[of mcp' mcp] assms(1) unfolding openshift_inv_def by auto
  qed
  moreover have "openshift_ok owns (f (ow_Cluster w))" using assms(2) by (simp add: allowed_def)
  moreover have "schedule_ok owns (others_act f w)" using assms(1) by (simp add: openshift_inv_def schedule_ok_def)
  moreover have "request_ok (others_act f w) r" if "r \<in> set (ow_Requests w)" for r
  proof -
    have "request_ok w r" using assms(1) that by (simp add: openshift_inv_def)
    then show ?thesis using member_others[OF assms(2)] by (cases r) (auto simp: still_granted_def)
  qed
  moreover have "distinct (map request_node (ow_Requests w))" using assms(1) by (simp add: openshift_inv_def)
  ultimately show ?thesis unfolding openshift_inv_def others_fields by blast
qed

lemma inv_schedule:
  assumes "openshift_inv owns w" and "set s \<subseteq> set (ow_Schedule w)"
  shows "openshift_inv owns (w\<lparr>ow_Schedule := s\<rparr>)"
proof -
  have "schedule_ok owns (w\<lparr>ow_Schedule := s\<rparr>)"
    using assms unfolding openshift_inv_def schedule_ok_def by force
  moreover have "request_ok (w\<lparr>ow_Schedule := s\<rparr>) r = request_ok w r" for r by (cases r) simp_all
  ultimately show ?thesis using assms(1) by (simp add: openshift_inv_def held_def)
qed

section \<open>Calls under the mutex\<close>

definition inv_with :: "(string \<rightharpoonup> string) \<Rightarrow> (openshift_world \<Rightarrow> bool) \<Rightarrow> openshift_world \<Rightarrow> bool" where
  "inv_with owns X w \<longleftrightarrow> openshift_inv owns w \<and> X w"

lemma call_triple:
  assumes "stable owns X"
    and "\<And>w r cl. inv_with owns X w \<Longrightarrow> m (ow_Cluster w) = (r, cl) \<Longrightarrow>
      (case r of Inl e \<Rightarrow> openshift_inv owns (w\<lparr>ow_Cluster := cl\<rparr>) | Inr x \<Rightarrow> Q x (w\<lparr>ow_Cluster := cl\<rparr>))"
  shows "io_triple (inv_with owns X) (openshift_call m) Q (openshift_inv owns)"
proof (unfold io_triple_def, intro allI impI)
  fix w assume w: "inv_with owns X w"
  let ?run = "\<lambda>w. case m (ow_Cluster w) of (r, cl) \<Rightarrow> (r, w\<lparr>ow_Cluster := cl\<rparr>)"
  have run: "case ?run v of (Inl e, v') \<Rightarrow> openshift_inv owns v' | (Inr x, v') \<Rightarrow> Q x v'" if "inv_with owns X v" for v
    using assms(2)[OF that] by (auto split: prod.splits sum.splits)
  show "case openshift_call m w of (Inl e, v') \<Rightarrow> openshift_inv owns v' | (Inr x, v') \<Rightarrow> Q x v'"
  proof (cases "ow_Schedule w")
    case Nil
    then show ?thesis using run[OF w] by (simp add: openshift_call_def Let_def)
  next
    case (Cons e rest)
    obtain f b where e: "e = (f, b)" by (cases e)
    let ?v = "others_act f (w\<lparr>ow_Schedule := rest\<rparr>)"
    have a: "allowed owns (ow_Cluster w) (f (ow_Cluster w))"
      using w Cons e unfolding inv_with_def openshift_inv_def schedule_ok_def by auto
    have "openshift_inv owns (w\<lparr>ow_Schedule := rest\<rparr>)"
      using w Cons inv_schedule[of owns w rest] unfolding inv_with_def by auto
    then have i: "openshift_inv owns ?v" using a inv_others[of owns "w\<lparr>ow_Schedule := rest\<rparr>" f] by simp
    have "X ?v" using assms(1) a w unfolding stable_def inv_with_def by blast
    then have v: "inv_with owns X ?v" using i by (simp add: inv_with_def)
    have c: "openshift_call m w = (if b then (Inl ApiError, ?v) else ?run ?v)"
      using Cons e by (simp add: openshift_call_def Let_def)
    show ?thesis unfolding c using run[OF v] i by (cases b) auto
  qed
qed

text \<open>Facts about the grants that can only become weaker when grants end, and the last view of a pool.\<close>

definition shrinking :: "((string \<times> string) list \<Rightarrow> bool) \<Rightarrow> bool" where
  "shrinking R \<longleftrightarrow> (\<forall>g cl. R g \<longrightarrow> R (still_granted cl g))"

definition knows :: "((string \<times> string) list \<Rightarrow> bool) \<Rightarrow> string \<Rightarrow> MachineConfigPool \<Rightarrow> openshift_world \<Rightarrow> bool" where
  "knows R p mcp w \<longleftrightarrow> R (ow_Granted w) \<and> map_option pool_view (oc_Pools (ow_Cluster w) p) = Some (pool_view mcp)"

lemma shrinking_intros [intro]:
  "shrinking (\<lambda>g. True)" "shrinking (\<lambda>g. n \<notin> fst ` set g)" "shrinking (\<lambda>g. \<forall>n. (n, p) \<notin> set g)"
  by (auto simp: shrinking_def still_granted_def)

lemma stable_granted [intro]: "shrinking R \<Longrightarrow> stable owns (\<lambda>w. R (ow_Granted w))"
  by (simp add: stable_def shrinking_def)

lemma stable_knows [intro]: "shrinking R \<Longrightarrow> stable owns (knows R p mcp)"
  by (auto simp: stable_def shrinking_def knows_def allowed_def)

lemma get_pool_triple:
  assumes "shrinking R"
  shows "io_triple (inv_with owns (\<lambda>w. R (ow_Granted w))) (get_pool p) (\<lambda>mcp. inv_with owns (knows R p mcp)) (openshift_inv owns)"
  unfolding get_pool_def fetch_def
  by (rule io_triple_map_err, rule call_triple)
    (use assms in \<open>auto simp: inv_with_def knows_def split: option.splits\<close>)

lemma get_known_pool_triple:
  assumes "shrinking R"
  shows "io_triple (inv_with owns (knows R p mcp)) (get_pool p)
    (\<lambda>mcp'. inv_with owns (\<lambda>w. knows R p mcp' w \<and> pool_view mcp' = pool_view mcp)) (openshift_inv owns)"
  unfolding get_pool_def fetch_def
  by (rule io_triple_map_err, rule call_triple)
    (use assms in \<open>auto simp: inv_with_def knows_def split: option.splits\<close>)

text \<open>
  A patch of a pool keeps the invariant when it keeps its name and its selector, and leaves it paused and marked unless no
  grant is left for it.
\<close>

lemma inv_patched:
  assumes "openshift_inv owns w" and "oc_Pools (ow_Cluster w) p = Some mcp"
    and "mcp_Name mcp' = mcp_Name mcp" "mcp_NodeSelector mcp' = mcp_NodeSelector mcp"
    and "mcp_Paused mcp' \<Longrightarrow> pool_marked mcp'"
    and "mcp_Paused mcp' \<or> (\<forall>n. (n, p) \<notin> set (ow_Granted w))"
  shows "openshift_inv owns (w\<lparr>ow_Cluster := ow_Cluster w\<lparr>oc_Pools := (oc_Pools (ow_Cluster w))(p \<mapsto> mcp')\<rparr>\<rparr>)"
    (is "openshift_inv owns ?w")
proof -
  have member: "member_of (ow_Cluster ?w) n q" if "member_of (ow_Cluster w) n q" for n q
    using that assms(2,4) by (auto simp: member_of_def mcp_selects_def)
  have "held q ?w \<and> member_of (ow_Cluster ?w) n q \<and> busy_node (ow_Cluster ?w) n" if g: "(n, q) \<in> set (ow_Granted ?w)" for n q
  proof -
    have old: "held q w" "member_of (ow_Cluster w) n q" "busy_node (ow_Cluster w) n"
      using assms(1) g unfolding openshift_inv_def by auto
    have "held q ?w" using old(1) g assms(5,6) by (auto simp: held_def)
    moreover have "member_of (ow_Cluster ?w) n q" by (rule member[OF old(2)])
    moreover have "busy_node (ow_Cluster ?w) n" using old(3) by (simp add: busy_node_def)
    ultimately show ?thesis by simp
  qed
  moreover have "openshift_ok owns (ow_Cluster ?w)" using assms(1-3) by (auto simp: openshift_inv_def openshift_ok_def)
  moreover have "schedule_ok owns ?w" using assms(1) by (simp add: openshift_inv_def schedule_ok_def)
  moreover have "request_ok ?w r" if "r \<in> set (ow_Requests ?w)" for r
  proof -
    have "request_ok w r" using assms(1) that by (simp add: openshift_inv_def)
    then show ?thesis using member by (cases r) auto
  qed
  moreover have "distinct (map request_node (ow_Requests ?w))" using assms(1) by (simp add: openshift_inv_def)
  moreover have "\<forall>q m. oc_Pools (ow_Cluster ?w) q = Some m \<longrightarrow> mcp_Paused m \<longrightarrow> pool_marked m"
    using assms(1,5) by (auto simp: openshift_inv_def)
  ultimately show ?thesis unfolding openshift_inv_def by blast
qed

lemma patch_triple:
  assumes "shrinking R" and "mcp_Name mcp = p"
    and "\<And>m. mcp_Name (g m) = mcp_Name m \<and> mcp_NodeSelector (g m) = mcp_NodeSelector m"
    and "\<And>m. pool_view m = pool_view mcp \<Longrightarrow> pool_view (g m) = pool_view (g mcp)"
    and "mcp_Paused (g mcp) \<Longrightarrow> pool_marked (g mcp)"
    and "\<And>gr. R gr \<Longrightarrow> mcp_Paused (g mcp) \<or> (\<forall>n. (n, p) \<notin> set gr)"
  shows "io_triple (inv_with owns (knows R p mcp)) (io_map_err OcApi (patch_pool g (mcp_Name mcp)))
    (\<lambda>mcp'. inv_with owns (\<lambda>w. knows R p mcp' w \<and> pool_view mcp' = pool_view (g mcp))) (openshift_inv owns)"
  unfolding patch_pool_def assms(2)
proof (rule io_triple_map_err, rule call_triple[OF stable_knows[OF assms(1)]])
  fix w r cl
  let ?m = "\<lambda>cl. case oc_Pools cl p of None \<Rightarrow> (Inl NotFound, cl) | Some mcp \<Rightarrow> (Inr (g mcp), cl\<lparr>oc_Pools := (oc_Pools cl)(p \<mapsto> g mcp)\<rparr>)"
  assume w: "inv_with owns (knows R p mcp) w" and m: "?m (ow_Cluster w) = (r, cl)"
  obtain s where s: "oc_Pools (ow_Cluster w) p = Some s" "pool_view s = pool_view mcp"
    using w by (auto simp: inv_with_def knows_def)
  have v: "pool_view (g s) = pool_view (g mcp)" by (rule assms(4)[OF s(2)])
  have R: "R (ow_Granted w)" using w by (simp add: inv_with_def knows_def)
  have i: "openshift_inv owns (w\<lparr>ow_Cluster := ow_Cluster w\<lparr>oc_Pools := (oc_Pools (ow_Cluster w))(p \<mapsto> g s)\<rparr>\<rparr>)"
    by (rule inv_patched[OF _ s(1)])
      (use w assms(3)[of s] assms(5) assms(6)[OF R] view_fields[OF v] in \<open>auto simp: inv_with_def\<close>)
  have "r = Inr (g s)" "cl = ow_Cluster w\<lparr>oc_Pools := (oc_Pools (ow_Cluster w))(p \<mapsto> g s)\<rparr>" using m s(1) by simp_all
  then show "case r of Inl e \<Rightarrow> openshift_inv owns (w\<lparr>ow_Cluster := cl\<rparr>)
      | Inr x \<Rightarrow> inv_with owns (\<lambda>w. knows R p x w \<and> pool_view x = pool_view (g mcp)) (w\<lparr>ow_Cluster := cl\<rparr>)"
    using i v R by (simp add: inv_with_def knows_def)
qed

section \<open>The two hooks\<close>

abbreviation no_grant :: "string \<Rightarrow> (string \<times> string) list \<Rightarrow> bool" where
  "no_grant p \<equiv> \<lambda>g. \<forall>n. (n, p) \<notin> set g"

lemma view_patched [simp]:
  "mcp_Name (set_paused b m) = mcp_Name m" "mcp_NodeSelector (set_paused b m) = mcp_NodeSelector m"
  "mcp_Paused (set_paused b m) = b" "pool_marked (set_paused b m) = pool_marked m"
  "mcp_Name (set_mark v m) = mcp_Name m" "mcp_NodeSelector (set_mark v m) = mcp_NodeSelector m"
  "mcp_Paused (set_mark v m) = mcp_Paused m" "pool_marked (set_mark v m) \<longleftrightarrow> v = MachineConfigPoolPausedAnnotationPaused"
  by (simp_all add: set_paused_def set_mark_def mcp_Name_def pool_marked_def ObjectHasAnnotation_def set_annotation_def)

lemma view_set_paused: "pool_view m = pool_view m' \<Longrightarrow> pool_view (set_paused b m) = pool_view (set_paused b m')"
  by (simp add: pool_view_def set_paused_def mcp_Name_def)

lemma view_set_mark: "pool_view m = pool_view m' \<Longrightarrow> pool_view (set_mark v m) = pool_view (set_mark v m')"
  by (simp add: pool_view_def set_mark_def mcp_Name_def set_annotation_def)

lemma known_name: "inv_with owns (knows R p mcp) w \<Longrightarrow> mcp_Name mcp = p"
  unfolding inv_with_def openshift_inv_def openshift_ok_def knows_def pool_view_def by auto

lemma known_no_grant:
  assumes "inv_with owns (knows (\<lambda>g. True) p mcp) w" and "\<not> pool_marked mcp"
  shows "inv_with owns (knows (no_grant p) p mcp) w"
proof -
  have "False" if "(n, p) \<in> set (ow_Granted w)" for n
  proof -
    have "held p w" using assms(1) that unfolding inv_with_def openshift_inv_def by auto
    then obtain s where "oc_Pools (ow_Cluster w) p = Some s" "pool_marked s" unfolding held_def by blast
    moreover have "pool_view s = pool_view mcp" using assms(1) calculation(1) by (simp add: inv_with_def knows_def)
    ultimately show False using assms(2) view_fields(2)[of s mcp] by simp
  qed
  then show ?thesis using assms(1) by (auto simp: inv_with_def knows_def)
qed

lemma known_held:
  assumes "knows R p mcp w" and "mcp_Paused mcp" and "pool_marked mcp"
  shows "held p w"
proof -
  obtain s where s: "oc_Pools (ow_Cluster w) p = Some s" "pool_view s = pool_view mcp"
    using assms(1) by (auto simp: knows_def)
  show ?thesis unfolding held_def using s(1) view_fields[OF s(2)] assms(2,3) by simp
qed

definition paused_if :: "(string \<rightharpoonup> string) \<Rightarrow> string \<Rightarrow> bool \<Rightarrow> openshift_world \<Rightarrow> bool" where
  "paused_if owns p b w \<longleftrightarrow> openshift_inv owns w \<and> (b \<longrightarrow> held p w)"

lemma pause_triple:
  assumes "shrinking R" and "mcp_Name mcp = p" and "pool_marked mcp"
  shows "io_triple (inv_with owns (knows R p mcp)) (ChangeMachineConfigPoolPause mcp True)
    (\<lambda>mcp'. inv_with owns (\<lambda>w. knows R p mcp' w \<and> pool_view mcp' = pool_view (set_paused True mcp))) (openshift_inv owns)"
  unfolding ChangeMachineConfigPoolPause_def
  by (rule patch_triple[OF assms(1,2)]) (use assms(3) in \<open>auto intro: view_set_paused\<close>)

lemma resume_triple:
  assumes "mcp_Name mcp = p"
  shows "io_triple (inv_with owns (knows (no_grant p) p mcp)) (ChangeMachineConfigPoolPause mcp False)
    (\<lambda>mcp'. inv_with owns (\<lambda>w. knows (no_grant p) p mcp' w \<and> pool_view mcp' = pool_view (set_paused False mcp)))
    (openshift_inv owns)"
  unfolding ChangeMachineConfigPoolPause_def
  by (rule patch_triple[OF _ assms]) (auto intro: view_set_paused)

lemma mark_triple:
  assumes "mcp_Name mcp = p" and "v = MachineConfigPoolPausedAnnotationPaused \<or> \<not> mcp_Paused mcp"
    and "v \<noteq> []"
  shows "io_triple (inv_with owns (knows (no_grant p) p mcp)) (AnnotatePool mcp v)
    (\<lambda>mcp'. inv_with owns (\<lambda>w. knows (no_grant p) p mcp' w \<and> mcp_Name mcp' = p \<and>
        (v = MachineConfigPoolPausedAnnotationPaused \<longrightarrow> pool_marked mcp'))) (openshift_inv owns)"
proof (cases "(case om_Annotations (mcp_Meta mcp) MachineConfigPoolPausedAnnotation of None \<Rightarrow> [] | Some x \<Rightarrow> x) = v")
  case True
  then have "v = MachineConfigPoolPausedAnnotationPaused \<longrightarrow> pool_marked mcp"
    using assms(3) by (auto simp: pool_marked_def ObjectHasAnnotation_def split: option.splits)
  then show ?thesis using True assms(1) by (auto simp: AnnotatePool_def inv_with_def intro!: io_triple_return)
next
  case False
  have "io_triple (inv_with owns (knows (no_grant p) p mcp)) (io_map_err OcApi (patch_pool (set_mark v) (mcp_Name mcp)))
    (\<lambda>mcp'. inv_with owns (\<lambda>w. knows (no_grant p) p mcp' w \<and> pool_view mcp' = pool_view (set_mark v mcp))) (openshift_inv owns)"
    by (rule patch_triple[OF _ assms(1)]) (use assms(2) in \<open>auto intro: view_set_mark\<close>)
  moreover have "mcp_Name m = p \<and> (v = MachineConfigPoolPausedAnnotationPaused \<longrightarrow> pool_marked m)"
    if "pool_view m = pool_view (set_mark v mcp)" for m
    using that view_fields(2)[OF that] assms(1) by (simp add: pool_view_def)
  ultimately show ?thesis
    using False unfolding AnnotatePool_def by (auto simp: inv_with_def elim!: io_triple_conseq)
qed

lemma pause_marked_triple:
  assumes "mcp_Name mcp = p" and "pool_marked mcp"
  shows "io_triple (inv_with owns (knows (\<lambda>g. True) p mcp)) (pause_marked mcp) (paused_if owns p) (openshift_inv owns)"
proof -
  have paused: "io_triple (inv_with owns (knows (\<lambda>g. True) p mcp)) (io_return True :: bool oio) (paused_if owns p) (openshift_inv owns)"
    if "mcp_Paused mcp"
    by (rule io_triple_return) (use that assms(2) known_held in \<open>auto simp: inv_with_def paused_if_def\<close>)
  have "io_triple (inv_with owns (\<lambda>w. knows (\<lambda>g. True) p mcp' w \<and> pool_view mcp' = pool_view (set_paused True mcp)))
      (io_return True) (paused_if owns p) (openshift_inv owns)" for mcp'
    by (rule io_triple_return)
      (use assms(2) known_held[of _ p mcp'] view_fields[of mcp' "set_paused True mcp"] in \<open>auto simp: inv_with_def paused_if_def\<close>)
  then have pause: "io_triple (inv_with owns (knows (\<lambda>g. True) p mcp)) (io_bind (ChangeMachineConfigPoolPause mcp True) (\<lambda>_. io_return True))
      (paused_if owns p) (openshift_inv owns)"
    by (rule io_triple_bind[OF pause_triple[OF shrinking_intros(1) assms]])
  have refuse: "io_triple (inv_with owns (knows (\<lambda>g. True) p mcp)) (io_return False :: bool oio) (paused_if owns p) (openshift_inv owns)"
    by (rule io_triple_return) (simp add: inv_with_def paused_if_def)
  show ?thesis unfolding pause_marked_def using paused pause refuse by simp
qed

lemma release_triple:
  assumes "mcp_Name mcp = p"
  shows "io_triple (inv_with owns (knows (no_grant p) p mcp))
    (io_bind (ChangeMachineConfigPoolPause mcp False) (\<lambda>mcp.
     io_bind (AnnotatePool mcp MachineConfigPoolPausedAnnotationIdle) (\<lambda>_. io_return b)))
    (\<lambda>r w. r = b \<and> openshift_inv owns w) (openshift_inv owns)"
proof (rule io_triple_bind[OF resume_triple[OF assms]])
  fix mcp'
  have mark: "io_triple (inv_with owns (knows (no_grant p) p mcp')) (AnnotatePool mcp' MachineConfigPoolPausedAnnotationIdle)
      (\<lambda>_. openshift_inv owns) (openshift_inv owns)" if "pool_view mcp' = pool_view (set_paused False mcp)"
  proof (rule io_triple_conseq[OF mark_triple])
    show "mcp_Name mcp' = p" using that assms by (simp add: pool_view_def)
    show "MachineConfigPoolPausedAnnotationIdle = MachineConfigPoolPausedAnnotationPaused \<or> \<not> mcp_Paused mcp'"
      using view_fields(1)[OF that] by simp
  qed (auto simp: inv_with_def)
  show "io_triple (inv_with owns (\<lambda>w. knows (no_grant p) p mcp' w \<and> pool_view mcp' = pool_view (set_paused False mcp)))
      (io_bind (AnnotatePool mcp' MachineConfigPoolPausedAnnotationIdle) (\<lambda>_. io_return b))
      (\<lambda>r w. r = b \<and> openshift_inv owns w) (openshift_inv owns)"
    by (rule io_triple_pre[where b = "pool_view mcp' = pool_view (set_paused False mcp)"
            and P' = "inv_with owns (knows (no_grant p) p mcp')"])
      (simp add: inv_with_def, rule io_triple_bind[OF mark], assumption, rule io_triple_return, simp)
qed

lemma pause_unmarked_triple:
  assumes "mcp_Name mcp = p"
  shows "io_triple (inv_with owns (knows (no_grant p) p mcp)) (pause_unmarked p mcp) (paused_if owns p) (openshift_inv owns)"
proof -
  let ?I = "openshift_inv owns"
  have check: "io_triple (inv_with owns (knows (no_grant p) p mcp'))
      (if mcp_SpecConfiguration mcp' \<noteq> mcp_StatusConfiguration mcp' then
         io_bind (ChangeMachineConfigPoolPause mcp' False) (\<lambda>mcp.
         io_bind (AnnotatePool mcp MachineConfigPoolPausedAnnotationIdle) (\<lambda>_. io_return False))
       else io_return True) (paused_if owns p) ?I"
    if "mcp_Name mcp' = p" "mcp_Paused mcp'" "pool_marked mcp'" for mcp'
  proof (rule io_triple_if)
    show "io_triple (inv_with owns (knows (no_grant p) p mcp')) (io_return True) (paused_if owns p) ?I"
      by (rule io_triple_return) (use that known_held[of _ p mcp'] in \<open>auto simp: inv_with_def paused_if_def\<close>)
    show "io_triple (inv_with owns (knows (no_grant p) p mcp'))
       (io_bind (ChangeMachineConfigPoolPause mcp' False) (\<lambda>mcp.
        io_bind (AnnotatePool mcp MachineConfigPoolPausedAnnotationIdle) (\<lambda>_. io_return False))) (paused_if owns p) ?I"
      by (rule io_triple_conseq[OF release_triple[OF that(1)]]) (auto simp: paused_if_def)
  qed
  show ?thesis
    unfolding pause_unmarked_def
    apply (rule io_triple_if)
     apply (rule io_triple_return, simp add: inv_with_def paused_if_def)
    apply (rule io_triple_bind[OF mark_triple[OF assms]], simp, simp)
    subgoal for mcp1
      apply (rule io_triple_pre[where b = "mcp_Name mcp1 = p \<and> pool_marked mcp1" and P' = "inv_with owns (knows (no_grant p) p mcp1)"])
       apply (simp add: inv_with_def)
      apply (rule io_triple_bind[OF pause_triple], blast, blast, blast)
      subgoal for mcp2
        apply (rule io_triple_pre[where b = "pool_view mcp2 = pool_view (set_paused True mcp1)" and P' = "inv_with owns (knows (no_grant p) p mcp2)"])
         apply (simp add: inv_with_def)
        apply (rule io_triple_bind[OF get_known_pool_triple], blast)
        subgoal for mcp3
          apply (rule io_triple_pre[where b = "pool_view mcp3 = pool_view mcp2" and P' = "inv_with owns (knows (no_grant p) p mcp3)"])
           apply (simp add: inv_with_def)
          apply (rule check)
            apply (simp add: pool_view_def)
           apply (metis view_fields(1) view_patched(3))
          apply (metis view_fields(2) view_patched(4))
          done
        done
      done
    done
qed

lemma pause_pool_triple: "io_triple (openshift_inv owns) (pause_pool p) (paused_if owns p) (openshift_inv owns)"
proof -
  let ?known = "\<lambda>mcp. inv_with owns (knows (\<lambda>g. True) p mcp)"
  have "io_triple (?known mcp) (if pool_marked mcp then pause_marked mcp else pause_unmarked p mcp)
      (paused_if owns p) (openshift_inv owns)" for mcp
  proof (rule io_triple_pre[where b = "mcp_Name mcp = p" and P' = "?known mcp"])
    show "mcp_Name mcp = p \<and> ?known mcp w" if "?known mcp w" for w using that known_name[OF that] by simp
    assume nm: "mcp_Name mcp = p"
    show "io_triple (?known mcp) (if pool_marked mcp then pause_marked mcp else pause_unmarked p mcp)
        (paused_if owns p) (openshift_inv owns)"
      by (rule io_triple_if, rule pause_marked_triple[OF nm], assumption)
        (rule io_triple_weaken[OF pause_unmarked_triple[OF nm]], rule known_no_grant)
  qed
  then have "io_triple (inv_with owns (\<lambda>w. True)) (pause_pool p) (paused_if owns p) (openshift_inv owns)"
    unfolding pause_pool_def by (rule io_triple_bind[OF get_pool_triple[OF shrinking_intros(1)]])
  then show ?thesis by (rule io_triple_weaken) (simp add: inv_with_def)
qed

text \<open>When no other listed node is under configuration, no grant is left for the pool.\<close>

lemma listed_no_grant:
  assumes "inv_with owns (knows (\<lambda>g. n \<notin> fst ` set g) p mcp) w"
    and "\<not> list_ex (\<lambda>nd. node_Name nd \<noteq> n \<and> under_configuration nd) (filter (mcp_selects mcp) (oc_Nodes (ow_Cluster w)))"
  shows "no_grant p (ow_Granted w)"
proof (intro allI notI)
  fix m assume g: "(m, p) \<in> set (ow_Granted w)"
  have i: "openshift_inv owns w" and n: "n \<notin> fst ` set (ow_Granted w)" using assms(1) by (auto simp: inv_with_def knows_def)
  have "m \<noteq> n" using g n by force
  obtain s where s: "oc_Pools (ow_Cluster w) p = Some s" "pool_view s = pool_view mcp"
    using assms(1) by (auto simp: inv_with_def knows_def)
  have mem: "member_of (ow_Cluster w) m p" "busy_node (ow_Cluster w) m" using i g unfolding openshift_inv_def by auto
  obtain nd where nd: "nd \<in> set (oc_Nodes (ow_Cluster w))" "node_Name nd = m" "mcp_selects s nd"
    using mem(1) s(1) unfolding member_of_def by auto
  obtain nd' where nd': "nd' \<in> set (oc_Nodes (ow_Cluster w))" "node_Name nd' = m" "under_configuration nd'"
    using mem(2) unfolding busy_node_def by blast
  have "distinct (map node_Name (oc_Nodes (ow_Cluster w)))" using i by (simp add: openshift_inv_def openshift_ok_def)
  then have "nd = nd'" using nd(1,2) nd'(1,2) by (metis distinct_map inj_onD)
  moreover have "mcp_selects mcp nd" using nd(3) view_fields(3)[OF s(2)] unfolding mcp_selects_def by simp
  ultimately show False using assms(2) nd nd' \<open>m \<noteq> n\<close> by (auto simp: list_ex_iff)
qed

abbreviation known_without :: "(string \<rightharpoonup> string) \<Rightarrow> string \<Rightarrow> string \<Rightarrow> MachineConfigPool \<Rightarrow> openshift_world \<Rightarrow> bool" where
  "known_without owns n p mcp \<equiv> inv_with owns (knows (\<lambda>g. n \<notin> fst ` set g) p mcp)"

abbreviation others_busy :: "string \<Rightarrow> Node list \<Rightarrow> bool" where
  "others_busy n \<equiv> list_ex (\<lambda>nd. node_Name nd \<noteq> n \<and> under_configuration nd)"

lemma listed_triple:
  "io_triple (known_without owns n p mcp) (io_map_err OcApi (fetch (\<lambda>cl. Some (filter (mcp_selects mcp) (oc_Nodes cl)))))
    (\<lambda>ns. inv_with owns (\<lambda>w. knows (\<lambda>g. n \<notin> fst ` set g) p mcp w \<and> (\<not> others_busy n ns \<longrightarrow> no_grant p (ow_Granted w))))
    (openshift_inv owns)"
  unfolding fetch_def
  by (rule io_triple_map_err, rule call_triple, blast)
    (use listed_no_grant[of owns n p mcp] in \<open>auto simp: inv_with_def\<close>)

lemma release_last_triple:
  assumes "mcp_Name mcp = p"
  shows "io_triple
    (inv_with owns (\<lambda>w. knows (\<lambda>g. n \<notin> fst ` set g) p mcp w \<and> (\<not> others_busy n ns \<longrightarrow> no_grant p (ow_Granted w))))
    (if others_busy n ns then io_return True
     else io_bind (ChangeMachineConfigPoolPause mcp False) (\<lambda>mcp.
          io_bind (AnnotatePool mcp MachineConfigPoolPausedAnnotationIdle) (\<lambda>_. io_return True)))
    (\<lambda>_. openshift_inv owns) (openshift_inv owns)"
  by (rule io_triple_if, rule io_triple_return, simp add: inv_with_def)
    (rule io_triple_conseq[OF release_triple[OF assms]], auto simp: inv_with_def knows_def)

lemma resume_pool_triple:
  "io_triple (inv_with owns (\<lambda>w. n \<notin> fst ` set (ow_Granted w))) (resume_pool n p) (\<lambda>_. openshift_inv owns) (openshift_inv owns)"
  unfolding resume_pool_def
proof (rule io_triple_bind[OF get_pool_triple[OF shrinking_intros(2)]])
  fix mcp
  let ?I = "openshift_inv owns" and ?known = "known_without owns n p mcp"
  let ?last = "io_bind (io_map_err OcApi (fetch (\<lambda>cl. Some (filter (mcp_selects mcp) (oc_Nodes cl))))) (\<lambda>nodesInPool.
     if others_busy n nodesInPool then io_return True
     else io_bind (ChangeMachineConfigPoolPause mcp False) (\<lambda>mcp.
          io_bind (AnnotatePool mcp MachineConfigPoolPausedAnnotationIdle) (\<lambda>_. io_return True)))"
  have finish: "io_triple ?known (io_return True :: bool oio) (\<lambda>_. ?I) ?I" by (rule io_triple_return) (simp add: inv_with_def)
  have refuse: "io_triple ?known (io_fail OcSelector :: bool oio) (\<lambda>_. ?I) ?I" by (rule io_triple_fail) (simp add: inv_with_def)
  have last_part: "io_triple ?known ?last (\<lambda>_. ?I) ?I"
  proof (rule io_triple_pre[where b = "mcp_Name mcp = p" and P' = ?known])
    show "mcp_Name mcp = p \<and> ?known w" if "?known w" for w using that known_name[OF that] by simp
    show "io_triple ?known ?last (\<lambda>_. ?I) ?I" if "mcp_Name mcp = p"
      by (rule io_triple_bind[OF listed_triple release_last_triple[OF that]])
  qed
  show "io_triple ?known (case om_Annotations (mcp_Meta mcp) MachineConfigPoolPausedAnnotation of
       None \<Rightarrow> io_return True
     | Some v \<Rightarrow>
         if v = MachineConfigPoolPausedAnnotationIdle then io_return True
         else if \<not> mcp_selector_ok mcp then io_fail OcSelector else ?last) (\<lambda>_. ?I) ?I"
    using finish refuse last_part by (simp split: option.split)
qed

section \<open>Steps keep the invariant\<close>

lemma known_others:
  assumes "allowed owns cl cl'" and "node_known owns cl node"
  shows "node_known owns cl' node"
proof -
  obtain nd where "nd \<in> set (oc_Nodes cl)" "node_Name nd = node_Name node" "node_Labels nd = node_Labels node"
    using assms(2) unfolding node_known_def by blast
  then obtain nd' where nd': "nd' \<in> set (oc_Nodes cl')" "node_Name nd' = node_Name node" "node_Labels nd' = node_Labels node"
    using assms(1) unfolding allowed_def by metis
  have "mcp_selects mcp' node"
    if pool: "om_Annotations (node_Meta node) DesiredMachineConfigAnnotation = Some c" "owns c = Some p" "oc_Pools cl' p = Some mcp'"
    for c p mcp'
  proof -
    obtain mcp where m: "oc_Pools cl p = Some mcp" "pool_view mcp' = pool_view mcp" by (rule pool_same[OF assms(1) pool(3)])
    have "mcp_selects mcp node" using assms(2) pool(1,2) m(1) unfolding node_known_def by blast
    then show ?thesis unfolding mcp_selects_def view_fields(3)[OF m(2)] .
  qed
  then show ?thesis using nd' unfolding node_known_def by blast
qed

lemma stable_known: "stable owns (\<lambda>w. node_known owns (ow_Cluster w) node)"
  unfolding stable_def using known_others by auto

lemma known_member:
  assumes "node_known owns cl node" and "om_Annotations (node_Meta node) DesiredMachineConfigAnnotation = Some c"
    and "owns c = Some p"
  shows "member_of cl (node_Name node) p"
proof -
  obtain nd where nd: "nd \<in> set (oc_Nodes cl)" "node_Name nd = node_Name node" "node_Labels nd = node_Labels node"
    using assms(1) unfolding node_known_def by blast
  have "mcp_selects mcp nd" if "oc_Pools cl p = Some mcp" for mcp
    using that assms nd(3) unfolding node_known_def mcp_selects_def by metis
  then show ?thesis using nd unfolding member_of_def by blast
qed

text \<open>A lookup keeps the invariant, the requests, and what is stable; it finds the pool that owns the node's configuration.\<close>

lemma lookup_triple:
  assumes "stable owns X"
  shows "io_triple (inv_with owns X) (GetNodeMachinePoolName ClusterFlavorDefault node)
    (\<lambda>p w. inv_with owns X w \<and>
       (\<exists>c. om_Annotations (node_Meta node) DesiredMachineConfigAnnotation = Some c \<and> owns c = Some p)) (openshift_inv owns)"
proof (cases "om_Annotations (node_Meta node) DesiredMachineConfigAnnotation")
  case None
  then show ?thesis by (auto simp: GetNodeMachinePoolName_def inv_with_def intro!: io_triple_fail)
next
  case (Some c)
  have "io_triple (inv_with owns X) (io_map_err OcMachineConfig (fetch (\<lambda>cl. oc_Configs cl c)))
      (\<lambda>mc w. inv_with owns X w \<and> (\<forall>p. owner_pool mc = Some p \<longrightarrow> owns c = Some p)) (openshift_inv owns)"
    unfolding fetch_def
    by (rule io_triple_map_err, rule call_triple[OF assms])
      (auto simp: inv_with_def openshift_inv_def openshift_ok_def split: option.splits)
  moreover have "io_triple (\<lambda>w. inv_with owns X w \<and> (\<forall>p. owner_pool mc = Some p \<longrightarrow> owns c = Some p))
      (case owner_pool mc of None \<Rightarrow> io_fail OcNoPool | Some nm \<Rightarrow> io_return nm)
      (\<lambda>p w. inv_with owns X w \<and> (\<exists>d. Some c = Some d \<and> owns d = Some p)) (openshift_inv owns)" for mc
    by (cases "owner_pool mc") (auto intro!: io_triple_fail io_triple_return simp: inv_with_def)
  ultimately show ?thesis unfolding GetNodeMachinePoolName_def Some by (auto intro: io_triple_bind)
qed

lemma requests_call [simp]: "openshift_call m w = (r, w') \<Longrightarrow> ow_Requests w' = ow_Requests w"
  by (auto simp: openshift_call_def Let_def split: list.splits prod.splits if_splits)

lemma requests_lookup:
  assumes "GetNodeMachinePoolName fl node w = (r, w')"
  shows "ow_Requests w' = ow_Requests w"
  using assms
  by (auto simp: GetNodeMachinePoolName_def fetch_def io_bind_def io_map_err_def io_fail_def io_return_def
      split: if_splits option.splits prod.splits sum.splits dest: requests_call)

lemma inv_drop: "openshift_inv owns w \<Longrightarrow> openshift_inv owns (drop_request r w)"
proof -
  assume i: "openshift_inv owns w"
  have "request_ok (drop_request r w) q = request_ok w q" for q by (cases q) (simp_all add: drop_request_def)
  moreover have "distinct (map request_node (removeAll r (ow_Requests w)))"
    using i by (simp add: openshift_inv_def distinct_map_filter removeAll_filter_not_eq)
  ultimately show ?thesis using i by (auto simp: openshift_inv_def drop_request_def held_def schedule_ok_def)
qed

lemma keeps_requests_call: "io_keeps (\<lambda>w. ow_Requests w = rs) (openshift_call m)"
  by (rule io_keepsI) (metis requests_call surjective_pairing)

lemma keeps_requests:
  "io_keeps (\<lambda>w. ow_Requests w = rs) (get_pool p)"
  "io_keeps (\<lambda>w. ow_Requests w = rs) (AnnotatePool mcp v)"
  "io_keeps (\<lambda>w. ow_Requests w = rs) (ChangeMachineConfigPoolPause mcp b)"
  unfolding get_pool_def AnnotatePool_def ChangeMachineConfigPoolPause_def fetch_def patch_pool_def
  by (auto intro!: keeps_map_err keeps_requests_call keeps_return)

lemma requests_pause:
  assumes "pause_pool p w = (r, w')"
  shows "ow_Requests w' = ow_Requests w"
proof -
  have "io_keeps (\<lambda>v. ow_Requests v = ow_Requests w) (pause_pool p)"
    unfolding pause_pool_def pause_marked_def pause_unmarked_def
    by (intro keeps_bind keeps_if keeps_requests keeps_return)
  then show ?thesis using assms unfolding io_keeps_def by (metis snd_conv)
qed

lemma inv_grant:
  assumes "openshift_inv owns w" and "held p w" and "Before n p \<in> set (ow_Requests w)"
  shows "openshift_inv owns (grant n p w)"
proof -
  have f: "ow_Cluster (grant n p w) = ow_Cluster w" "ow_Requests (grant n p w) = ow_Requests w"
      "held q (grant n p w) = held q w" "schedule_ok owns (grant n p w) = schedule_ok owns w" for q
    by (simp_all add: grant_def held_def schedule_ok_def)
  have g: "(m, q) \<in> set (ow_Granted (grant n p w)) \<longleftrightarrow> ((m, q) = (n, p) \<or> (m, q) \<in> set (ow_Granted w)) \<and> busy_node (ow_Cluster w) m" for m q
    by (simp add: grant_def)
  have "request_ok w (Before n p)" using assms(1,3) unfolding openshift_inv_def by blast
  then have mem: "member_of (ow_Cluster w) n p" by simp
  have "request_ok (grant n p w) r" if r: "r \<in> set (ow_Requests w)" for r
  proof (cases r)
    case (After m q)
    have "distinct (map request_node (ow_Requests w))" "request_ok w r" using assms(1) r by (auto simp: openshift_inv_def)
    then have "m \<noteq> n" "m \<notin> fst ` set (ow_Granted w)"
      using r assms(3) After inj_onD[of request_node "set (ow_Requests w)" "After n q" "Before n p"]
      by (auto simp: distinct_map)
    then have "m \<notin> fst ` set (ow_Granted (grant n p w))" by (auto simp: g)
    then show ?thesis using After by simp
  qed (use assms(1) r f in \<open>auto simp: openshift_inv_def\<close>)
  moreover have "held q (grant n p w) \<and> member_of (ow_Cluster w) m q \<and> busy_node (ow_Cluster w) m"
    if "(m, q) \<in> set (ow_Granted (grant n p w))" for m q
    using that assms(1,2) mem f(3) unfolding g openshift_inv_def by auto
  ultimately show ?thesis using assms(1) unfolding openshift_inv_def f by blast
qed

lemma inv_add:
  assumes "openshift_inv owns w" and "request_node (mk p) \<notin> request_node ` set (ow_Requests w)" and "request_ok w (mk p)"
  shows "openshift_inv owns (add_request mk (Inr p) w)"
proof -
  have "request_ok (add_request mk (Inr p) w) r = request_ok w r" for r by (cases r) (simp_all add: add_request_def)
  then show ?thesis using assms by (auto simp: openshift_inv_def add_request_def held_def schedule_ok_def)
qed

lemma openshift_step_inv:
  assumes "openshift_step owns w w'" and "openshift_inv owns w"
  shows "openshift_inv owns w'"
  using assms
proof (induction rule: openshift_step.induct)
  case (others w f)
  then show ?case by (simp add: inv_others)
next
  case (before_lookup w node r w')
  have found: "case r of Inl e \<Rightarrow> openshift_inv owns w' | Inr p \<Rightarrow> inv_with owns (\<lambda>w. node_known owns (ow_Cluster w) node) w' \<and>
      (\<exists>c. om_Annotations (node_Meta node) DesiredMachineConfigAnnotation = Some c \<and> owns c = Some p)"
    by (rule io_tripleD[OF lookup_triple[OF stable_known] _ before_lookup(3)]) (use before_lookup in \<open>simp add: inv_with_def\<close>)
  then show ?case
  proof (cases r)
    case (Inr p)
    have k: "inv_with owns (\<lambda>w. node_known owns (ow_Cluster w) node) w'"
        "\<exists>c. om_Annotations (node_Meta node) DesiredMachineConfigAnnotation = Some c \<and> owns c = Some p"
      using found Inr by simp_all
    then have "member_of (ow_Cluster w') (node_Name node) p" using known_member[of owns _ node] by (auto simp: inv_with_def)
    then show ?thesis unfolding Inr
      by (intro inv_add) (use k(1) before_lookup(2) requests_lookup[OF before_lookup(3)] in \<open>simp_all add: inv_with_def\<close>)
  qed (simp add: add_request_def)
next
  case (before n p w r w')
  have "case r of Inl e \<Rightarrow> openshift_inv owns w' | Inr b \<Rightarrow> paused_if owns p b w'"
    by (rule io_tripleD[OF pause_pool_triple before(3,2)])
  then have "openshift_inv owns w' \<and> (r = Inr True \<longrightarrow> held p w')" by (cases r) (auto simp: paused_if_def)
  then show ?case using inv_grant[of owns w' p n] before(1) requests_pause[OF before(2)] by (auto intro: inv_drop)
next
  case (after_lookup node w r w')
  have found: "case r of Inl e \<Rightarrow> openshift_inv owns w' | Inr p \<Rightarrow> inv_with owns (\<lambda>w. node_Name node \<notin> fst ` set (ow_Granted w)) w' \<and>
      (\<exists>c. om_Annotations (node_Meta node) DesiredMachineConfigAnnotation = Some c \<and> owns c = Some p)"
    by (rule io_tripleD[OF lookup_triple[OF stable_granted[OF shrinking_intros(2)]] _ after_lookup(3)])
      (use after_lookup in \<open>simp add: inv_with_def\<close>)
  then show ?case
  proof (cases r)
    case (Inr p)
    have "inv_with owns (\<lambda>w. node_Name node \<notin> fst ` set (ow_Granted w)) w'" using found Inr by simp
    then show ?thesis unfolding Inr
      by (intro inv_add)
        (use after_lookup(2) requests_lookup[OF after_lookup(3)] in \<open>simp_all add: inv_with_def\<close>)
  qed (simp add: add_request_def)
next
  case (after n p w r w')
  have "request_ok w (After n p)" using after(1,3) unfolding openshift_inv_def by blast
  then have "n \<notin> fst ` set (ow_Granted w)" by simp
  then have "case r of Inl e \<Rightarrow> openshift_inv owns w' | Inr b \<Rightarrow> openshift_inv owns w'"
    by (intro io_tripleD[OF resume_pool_triple _ after(2)]) (simp add: inv_with_def after(3))
  then show ?case by (intro inv_drop) (simp split: sum.splits)
qed

section \<open>Pools stay paused\<close>

definition openshift_start :: "(string \<rightharpoonup> string) \<Rightarrow> openshift_world \<Rightarrow> bool" where
  "openshift_start owns w \<longleftrightarrow>
     openshift_ok owns (ow_Cluster w) \<and> schedule_ok owns w \<and> ow_Granted w = [] \<and> ow_Requests w = [] \<and>
     (\<forall>p mcp. oc_Pools (ow_Cluster w) p = Some mcp \<longrightarrow> mcp_Paused mcp \<longrightarrow> pool_marked mcp)"

lemma openshift_steps_inv: "openshift_steps owns w w' \<Longrightarrow> openshift_inv owns w \<Longrightarrow> openshift_inv owns w'"
  by (induction rule: rtranclp_induct) (auto intro: openshift_step_inv)

lemma start_inv: "openshift_start owns w \<Longrightarrow> openshift_inv owns w"
  by (simp add: openshift_start_def openshift_inv_def)

text \<open>
  C12: on OpenShift the machine config pool of a node stays paused from the moment the node is allowed to drain until its
  drain annotation is idle again. Any number of nodes may be in progress, the hooks interleave, calls fail at any point, and
  the machine config operator changes configurations at any time. A pool that is paused always carries the operator's
  mark, so that a hook that failed half-way leaves no pool that nobody would resume.
\<close>

theorem pool_paused_while_draining:
  assumes "openshift_start owns w" and "openshift_steps owns w w'"
  shows "(\<forall>(n, p)\<in>set (ow_Granted w'). \<exists>mcp. oc_Pools (ow_Cluster w') p = Some mcp \<and> mcp_Paused mcp) \<and>
    (\<forall>p mcp. oc_Pools (ow_Cluster w') p = Some mcp \<longrightarrow> mcp_Paused mcp \<longrightarrow> pool_marked mcp)"
proof -
  have "openshift_inv owns w'" by (rule openshift_steps_inv[OF assms(2) start_inv[OF assms(1)]])
  then show ?thesis unfolding openshift_inv_def held_def by fast
qed

text \<open>Two nodes of a pool drain; the first one finishes while the second one is still under configuration.\<close>

definition sample_oc_node :: "string \<Rightarrow> Node" where
  "sample_oc_node nm = annotate_node DesiredMachineConfigAnnotation ''rendered-worker''
     (annotate_node NodeDrainAnnotation DrainRequired (sample_node nm))"

definition sample_mcp :: MachineConfigPool where
  "sample_mcp = \<lparr>mcp_Meta = sample_meta ''worker'', mcp_Paused = False, mcp_SpecConfiguration = ''rendered-worker'',
     mcp_StatusConfiguration = ''rendered-worker'', mcp_NodeSelector = Some \<lparr>ls_MatchLabels = [], ls_MatchExpressions = []\<rparr>\<rparr>"

definition sample_oc :: openshift_world where
  "sample_oc = \<lparr>ow_Cluster = \<lparr>oc_Pools = [''worker'' \<mapsto> sample_mcp],
       oc_Configs = [''rendered-worker'' \<mapsto> \<lparr>mc_OwnerReferences = [\<lparr>own_Kind = ''MachineConfigPool'', own_Name = ''worker''\<rparr>]\<rparr>],
       oc_Nodes = [sample_oc_node ''a'', sample_oc_node ''b''], oc_Infrastructures = Map.empty\<rparr>,
     ow_Schedule = [], ow_Granted = [], ow_Requests = []\<rparr>"

definition sample_owns :: "string \<rightharpoonup> string" where
  "sample_owns = [''rendered-worker'' \<mapsto> ''worker'']"

definition begin_before :: "Node \<Rightarrow> openshift_world \<Rightarrow> openshift_world" where
  "begin_before node w = (case GetNodeMachinePoolName ClusterFlavorDefault node w of (r, w') \<Rightarrow> add_request (Before (node_Name node)) r w')"

definition end_before :: "string \<Rightarrow> string \<Rightarrow> openshift_world \<Rightarrow> openshift_world" where
  "end_before n p w = (case pause_pool p w of (r, w') \<Rightarrow> drop_request (Before n p) (if r = Inr True then grant n p w' else w'))"

definition begin_after :: "Node \<Rightarrow> openshift_world \<Rightarrow> openshift_world" where
  "begin_after node w = (case GetNodeMachinePoolName ClusterFlavorDefault node w of (r, w') \<Rightarrow> add_request (After (node_Name node)) r w')"

definition end_after :: "string \<Rightarrow> string \<Rightarrow> openshift_world \<Rightarrow> openshift_world" where
  "end_after n p w = (case resume_pool n p w of (r, w') \<Rightarrow> drop_request (After n p) w')"

definition make_idle :: "string \<Rightarrow> openshift_cluster \<Rightarrow> openshift_cluster" where
  "make_idle nm cl = cl\<lparr>oc_Nodes := map (\<lambda>n. if node_Name n = nm then annotate_node NodeDrainAnnotation DrainIdle n else n) (oc_Nodes cl)\<rparr>"

lemma make_idle_allowed: "openshift_ok owns cl \<Longrightarrow> allowed owns cl (make_idle nm cl)"
proof -
  have s: "node_Name (annotate_node k v n) = node_Name n" "node_Labels (annotate_node k v n) = node_Labels n" for k v n
    by (simp_all add: annotate_node_def set_annotation_def)
  have names: "map node_Name (oc_Nodes (make_idle nm cl)) = map node_Name (oc_Nodes cl)" by (simp add: make_idle_def s(1))
  have rest: "oc_Pools (make_idle nm cl) = oc_Pools cl" "oc_Configs (make_idle nm cl) = oc_Configs cl" by (simp_all add: make_idle_def)
  assume "openshift_ok owns cl"
  then have "openshift_ok owns (make_idle nm cl)" unfolding openshift_ok_def names rest .
  moreover have "\<exists>n'\<in>set (oc_Nodes (make_idle nm cl)). node_Name n' = node_Name n \<and> node_Labels n' = node_Labels n"
    if "n \<in> set (oc_Nodes cl)" for n
  proof -
    let ?n = "if node_Name n = nm then annotate_node NodeDrainAnnotation DrainIdle n else n"
    have "?n \<in> set (oc_Nodes (make_idle nm cl))" unfolding make_idle_def using that by simp
    moreover have "node_Name ?n = node_Name n \<and> node_Labels ?n = node_Labels n" by (simp add: s)
    ultimately show ?thesis by (rule bexI[rotated])
  qed
  ultimately show ?thesis by (simp add: allowed_def rest)
qed

definition sample_oc1 :: openshift_world where
  "sample_oc1 = end_before ''b'' ''worker'' (end_before ''a'' ''worker''
     (begin_before (sample_oc_node ''b'') (begin_before (sample_oc_node ''a'') sample_oc)))"

definition sample_oc2 :: openshift_world where
  "sample_oc2 = end_after ''a'' ''worker'' (begin_after (sample_oc_node ''a'') (others_act (make_idle ''a'') sample_oc1))"

lemma end_before_step: "Before n p \<in> set (ow_Requests w) \<Longrightarrow> openshift_step owns w (end_before n p w)"
  unfolding end_before_def by (cases "pause_pool p w") (simp only: prod.case, rule openshift_step.before)

lemma end_after_step: "After n p \<in> set (ow_Requests w) \<Longrightarrow> openshift_step owns w (end_after n p w)"
  by (cases "resume_pool n p w") (auto simp: end_after_def intro!: openshift_step.after)

lemma begin_after_step:
  "node_Name node \<notin> fst ` set (ow_Granted w) \<Longrightarrow> node_Name node \<notin> request_node ` set (ow_Requests w) \<Longrightarrow>
     openshift_step owns w (begin_after node w)"
  by (cases "GetNodeMachinePoolName ClusterFlavorDefault node w") (auto simp: begin_after_def intro!: openshift_step.after_lookup)

lemma begin_before_step:
  "node_known owns (ow_Cluster w) node \<Longrightarrow> node_Name node \<notin> request_node ` set (ow_Requests w) \<Longrightarrow>
     openshift_step owns w (begin_before node w)"
  by (cases "GetNodeMachinePoolName ClusterFlavorDefault node w") (auto simp: begin_before_def intro!: openshift_step.before_lookup)

lemma sample_oc_start: "openshift_start sample_owns sample_oc"
  by (auto simp: openshift_start_def openshift_ok_def schedule_ok_def sample_oc_def sample_owns_def sample_mcp_def
      mcp_Name_def sample_meta_def owner_pool_def sample_oc_node_def annotate_node_def set_annotation_def sample_node_def
      split: if_splits)

lemma sample_oc_known:
  "node_known sample_owns (ow_Cluster sample_oc) (sample_oc_node ''a'')"
  "node_known sample_owns (ow_Cluster sample_oc) (sample_oc_node ''b'')"
  by (auto simp: node_known_def sample_oc_def sample_owns_def sample_mcp_def mcp_selects_def selector_matches_def split: if_splits)

lemma sample_oc_runs: "openshift_steps sample_owns sample_oc sample_oc2"
proof -
  let ?a = "sample_oc_node ''a''" and ?b = "sample_oc_node ''b''"
  let ?w1 = "begin_before ?a sample_oc"
  let ?w2 = "begin_before ?b ?w1"
  let ?w3 = "end_before ''a'' ''worker'' ?w2"
  let ?w5 = "others_act (make_idle ''a'') sample_oc1"
  let ?w6 = "begin_after ?a ?w5"
  have cl: "ow_Cluster ?w1 = ow_Cluster sample_oc"
    by (simp add: begin_before_def GetNodeMachinePoolName_def sample_oc_def sample_oc_node_def annotate_node_def set_annotation_def
        fetch_def openshift_call_def io_bind_def io_map_err_def owner_pool_def io_return_def add_request_def)
  have n: "node_Name ?a = ''a''" "node_Name ?b = ''b''" by code_simp+
  have s1: "openshift_step sample_owns sample_oc ?w1"
    by (rule begin_before_step[OF sample_oc_known(1)]) (simp add: sample_oc_def)
  have "''b'' \<notin> request_node ` set (ow_Requests ?w1)" by code_simp
  then have s2: "openshift_step sample_owns ?w1 ?w2"
    by (intro begin_before_step) (simp_all add: cl sample_oc_known(2) n)
  have "Before ''a'' ''worker'' \<in> set (ow_Requests ?w2)" by code_simp
  then have s3: "openshift_step sample_owns ?w2 ?w3" by (rule end_before_step)
  have "Before ''b'' ''worker'' \<in> set (ow_Requests ?w3)" by code_simp
  then have s4: "openshift_step sample_owns ?w3 sample_oc1" unfolding sample_oc1_def by (rule end_before_step)
  have run: "openshift_steps sample_owns sample_oc sample_oc1"
    using s1 s2 s3 s4 by (meson rtranclp.rtrancl_refl rtranclp.rtrancl_into_rtrancl)
  have "openshift_inv sample_owns sample_oc1" by (rule openshift_steps_inv[OF run start_inv[OF sample_oc_start]])
  then have "openshift_ok sample_owns (ow_Cluster sample_oc1)" by (simp add: openshift_inv_def)
  then have s5: "openshift_step sample_owns sample_oc1 ?w5" by (intro openshift_step.others make_idle_allowed)
  have "''a'' \<notin> fst ` set (ow_Granted ?w5)" "''a'' \<notin> request_node ` set (ow_Requests ?w5)" by code_simp+
  then have s6: "openshift_step sample_owns ?w5 ?w6" by (intro begin_after_step) (simp_all only: n not_False_eq_True)
  have "After ''a'' ''worker'' \<in> set (ow_Requests ?w6)" by code_simp
  then have s7: "openshift_step sample_owns ?w6 sample_oc2" unfolding sample_oc2_def by (rule end_after_step)
  show ?thesis using run s5 s6 s7 by (meson rtranclp.rtrancl_into_rtrancl)
qed

theorem pool_paused_while_draining_witness:
  "ow_Granted sample_oc2 = [(''b'', ''worker'')] \<and>
   (\<exists>mcp. oc_Pools (ow_Cluster sample_oc2) ''worker'' = Some mcp \<and> mcp_Paused mcp \<and> pool_marked mcp)"
proof -
  have g: "ow_Granted sample_oc2 = [(''b'', ''worker'')]" by code_simp
  show ?thesis using pool_paused_while_draining[OF sample_oc_start sample_oc_runs] g by auto
qed

text \<open>
  When no call fails and no other node of the pool is under configuration, the hook after a drain resumes the pool and marks
  it idle; nothing else changes.
\<close>

lemma last_node_resumes:
  assumes "ow_Schedule w = []"
    and "om_Annotations (node_Meta node) DesiredMachineConfigAnnotation = Some c"
    and "oc_Configs (ow_Cluster w) c = Some mc" "owner_pool mc = Some p"
    and "oc_Pools (ow_Cluster w) p = Some mcp" "mcp_Name mcp = p" "pool_marked mcp" "mcp_selector_ok mcp"
    and "\<not> others_busy (node_Name node) (filter (mcp_selects mcp) (oc_Nodes (ow_Cluster w)))"
  shows "AfterCompleteDrainNode ClusterFlavorDefault node w =
    (Inr True, w\<lparr>ow_Cluster := (ow_Cluster w)\<lparr>oc_Pools := (oc_Pools (ow_Cluster w))
       (p \<mapsto> set_mark MachineConfigPoolPausedAnnotationIdle (set_paused False mcp))\<rparr>\<rparr>)"
proof -
  have m: "om_Annotations (mcp_Meta mcp) MachineConfigPoolPausedAnnotation = Some MachineConfigPoolPausedAnnotationPaused"
    using assms(7) by (auto simp: pool_marked_def ObjectHasAnnotation_def split: option.splits)
  have a: "mcp_Meta (set_paused False mcp) = mcp_Meta mcp" by (simp add: set_paused_def)
  show ?thesis
    using assms(1-6,8,9) m a
    by (simp add: AfterCompleteDrainNode_def GetNodeMachinePoolName_def resume_pool_def get_pool_def fetch_def
        openshift_call_def ChangeMachineConfigPoolPause_def AnnotatePool_def patch_pool_def io_bind_def io_map_err_def
        io_return_def)
qed

end
