(* ===== verification/Systemd.thy ===== *)
theory Systemd
  imports Daemon
begin

text \<open>
  The files that connect the config daemon and the systemd service (\<^verbatim>\<open>src/pkg/host/internal/systemd/systemd.go\<close>): the
  configuration that the service shall apply, its result and the list of supported NICs, with the daemon's writes of them.
\<close>

section \<open>Files\<close>

text \<open>
  A file system of text files and directories. Each call takes the next entry of a schedule of faults; a write that fails
  may have truncated the file before.
\<close>

datatype os_fault = Works | Fails | Truncates

datatype os_error = IsNotExist | OsError

record file_world =
  fw_Files :: "string \<rightharpoonup> string"
  fw_Dirs :: "string list"
  fw_Faults :: "os_fault list"

type_synonym 'a fio = "(file_world, os_error, 'a) stateful"

definition os_call :: "(file_world \<Rightarrow> file_world) \<Rightarrow> 'a fio \<Rightarrow> 'a fio" where
  "os_call torn m w =
     (case fw_Faults w of
        [] \<Rightarrow> m w
      | f # fs \<Rightarrow>
          let w' = w\<lparr>fw_Faults := fs\<rparr> in
          (case f of Works \<Rightarrow> m w' | Fails \<Rightarrow> (Inl OsError, w') | Truncates \<Rightarrow> (Inl OsError, torn w')))"

definition put_file :: "string \<Rightarrow> string \<Rightarrow> file_world \<Rightarrow> file_world" where
  "put_file path text w = w\<lparr>fw_Files := (fw_Files w)(path \<mapsto> text)\<rparr>"

definition os_Stat :: "string \<Rightarrow> unit fio" where
  "os_Stat path = os_call (\<lambda>w. w) (\<lambda>w.
     (if fw_Files w path \<noteq> None \<or> path \<in> set (fw_Dirs w) then Inr () else Inl IsNotExist, w))"

definition os_ReadFile :: "string \<Rightarrow> string fio" where
  "os_ReadFile path = os_call (\<lambda>w. w) (\<lambda>w. (case fw_Files w path of None \<Rightarrow> Inl IsNotExist | Some t \<Rightarrow> Inr t, w))"

definition parent_exists :: "string \<Rightarrow> file_world \<Rightarrow> bool" where
  "parent_exists path w \<longleftrightarrow> list_ex (\<lambda>d. has_prefix path (d @ ''/'')) (fw_Dirs w)"

definition os_Create :: "string \<Rightarrow> unit fio" where
  "os_Create path = os_call (\<lambda>w. w) (\<lambda>w. if parent_exists path w then (Inr (), put_file path [] w) else (Inl IsNotExist, w))"

definition os_WriteFile :: "string \<Rightarrow> string \<Rightarrow> unit fio" where
  "os_WriteFile path text =
     os_call (\<lambda>w. if parent_exists path w then put_file path [] w else w)
       (\<lambda>w. if parent_exists path w then (Inr (), put_file path text w) else (Inl IsNotExist, w))"

definition os_Mkdir :: "string \<Rightarrow> unit fio" where
  "os_Mkdir path = os_call (\<lambda>w. w) (\<lambda>w.
     if path \<in> set (fw_Dirs w) then (Inl OsError, w) else (Inr (), w\<lparr>fw_Dirs := path # fw_Dirs w\<rparr>))"

definition os_Remove :: "string \<Rightarrow> unit fio" where
  "os_Remove path = os_call (\<lambda>w. w) (\<lambda>w.
     case fw_Files w path of None \<Rightarrow> (Inl IsNotExist, w) | Some _ \<Rightarrow> (Inr (), w\<lparr>fw_Files := (fw_Files w)(path := None)\<rparr>))"

abbreviation SriovConfBasePath :: string where "SriovConfBasePath \<equiv> ''/etc/sriov-operator''"
abbreviation SriovSystemdConfigPath :: string where "SriovSystemdConfigPath \<equiv> ''/etc/sriov-operator/sriov-interface-config.yaml''"
abbreviation SriovSystemdResultPath :: string where "SriovSystemdResultPath \<equiv> ''/etc/sriov-operator/sriov-interface-result.yaml''"
abbreviation SriovSystemdSupportedNicPath :: string where
  "SriovSystemdSupportedNicPath \<equiv> ''/etc/sriov-operator/sriov-supported-nics-ids.yaml''"
abbreviation SriovSystemdServiceBinaryPath :: string where
  "SriovSystemdServiceBinaryPath \<equiv> ''/var/lib/sriov/sriov-network-config-daemon''"
abbreviation SriovServicePath :: string where "SriovServicePath \<equiv> ''/etc/systemd/system/sriov-config.service''"
abbreviation SriovPostNetworkServicePath :: string where
  "SriovPostNetworkServicePath \<equiv> ''/etc/systemd/system/sriov-config-post-network.service''"

section \<open>Configuration, result and supported NICs\<close>

record SriovConfig =
  sc_Spec :: SriovNetworkNodeStateSpec
  sc_UnsupportedNics :: bool
  sc_PlatformType :: string
  sc_ManageSoftwareBridges :: bool
  sc_OVSDBSocketPath :: string

text \<open>
  The YAML library is a parameter. Decoding a text that holds no document leaves the target as it is, the document
  \<^verbatim>\<open>null\<close> sets a pointer to nil.
\<close>

datatype 'a document = NoDocument | NullDocument | Document 'a

record yaml =
  ym_Config :: "SriovConfig \<Rightarrow> string option"
  ym_ConfigOf :: "string \<Rightarrow> SriovConfig document option"
  ym_Result :: "SriovResult \<Rightarrow> string option"
  ym_ResultOf :: "string \<Rightarrow> SriovResult document option"

datatype systemd_error = FileError os_error | YamlError

type_synonym 'a sio = "(file_world, systemd_error, 'a) stateful"

definition from_yaml :: "'a option \<Rightarrow> 'a sio" where
  "from_yaml x = (case x of None \<Rightarrow> io_fail YamlError | Some y \<Rightarrow> io_return y)"

definition file_io :: "'a fio \<Rightarrow> 'a sio" where "file_io m = io_map_err FileError m"

definition ReadConfFile :: "yaml \<Rightarrow> SriovConfig option sio" where
  "ReadConfFile y =
     io_bind (file_io (os_ReadFile SriovSystemdConfigPath)) (\<lambda>rawConfig.
     io_bind (from_yaml (ym_ConfigOf y rawConfig)) (\<lambda>d.
       io_return (case d of Document c \<Rightarrow> Some c | _ \<Rightarrow> None)))"

text \<open>
  The beginning of the three functions that write a file: whether the file had to be created. The
  directory is created when the check says that it does not exist; any other answer goes on.
\<close>

definition create_if_missing :: "string \<Rightarrow> bool sio" where
  "create_if_missing path =
     io_handle (os_Stat path)
       (\<lambda>err. if err = IsNotExist
          then
            io_bind (io_handle (os_Stat SriovConfBasePath)
               (\<lambda>err. if err = IsNotExist then file_io (os_Mkdir SriovConfBasePath) else io_return ()) io_return) (\<lambda>_.
            io_bind (file_io (os_Create path)) (\<lambda>_. io_return True))
          else io_fail (FileError err))
       (\<lambda>_. io_return False)"

definition config_of_state :: "SriovConfig \<Rightarrow> SriovNetworkNodeState \<Rightarrow> SriovConfig" where
  "config_of_state vars newState = vars\<lparr>sc_Spec := state_Spec newState\<rparr>"

text \<open>The other fields of the configuration are global variables of the daemon: \<open>vars\<close> holds them.\<close>

definition WriteConfFile_systemd :: "yaml \<Rightarrow> SriovConfig \<Rightarrow> SriovNetworkNodeState \<Rightarrow> bool sio" where
  "WriteConfFile_systemd y vars newState =
     (let sriovConfig = config_of_state vars newState in
      io_bind (create_if_missing SriovSystemdConfigPath) (\<lambda>newFile.
      io_bind (file_io (os_ReadFile SriovSystemdConfigPath)) (\<lambda>oldContent.
      io_bind (from_yaml (ym_ConfigOf y oldContent)) (\<lambda>_.
      io_bind (from_yaml (ym_Config y sriovConfig)) (\<lambda>newContent.
        if newContent = oldContent then io_return False
        else
          io_bind (file_io (os_WriteFile SriovSystemdConfigPath newContent)) (\<lambda>_.
            if newFile \<and> ns_Interfaces (sc_Spec sriovConfig) = [] then io_return False
            else io_return True))))))"

definition WriteSriovResult :: "yaml \<Rightarrow> SriovResult \<Rightarrow> unit sio" where
  "WriteSriovResult y result =
     io_bind (create_if_missing SriovSystemdResultPath) (\<lambda>_.
     io_bind (from_yaml (ym_Result y result)) (\<lambda>out.
       file_io (os_WriteFile SriovSystemdResultPath out)))"

definition zero_result :: SriovResult where
  "zero_result = \<lparr>sr_SyncStatus = [], sr_LastSyncError = []\<rparr>"

definition result_of :: "SriovResult document \<Rightarrow> SriovResult option" where
  "result_of d = (case d of NoDocument \<Rightarrow> Some zero_result | NullDocument \<Rightarrow> None | Document r \<Rightarrow> Some r)"

definition ReadSriovResult :: "yaml \<Rightarrow> SriovResult option sio" where
  "ReadSriovResult y =
     io_handle (os_Stat SriovSystemdResultPath)
       (\<lambda>err. if err = IsNotExist then io_return None else io_fail (FileError err))
       (\<lambda>_.
         io_bind (file_io (os_ReadFile SriovSystemdResultPath)) (\<lambda>rawConfig.
         io_bind (from_yaml (ym_ResultOf y rawConfig)) (\<lambda>d. io_return (result_of d))))"

text \<open>A file that is not there is no error.\<close>

definition remove_quietly :: "string \<Rightarrow> unit sio" where
  "remove_quietly path =
     io_handle (os_Remove path) (\<lambda>err. if err = IsNotExist then io_return () else io_fail (FileError err)) io_return"

definition RemoveSriovResult_systemd :: "unit sio" where
  "RemoveSriovResult_systemd = remove_quietly SriovSystemdResultPath"

definition WriteSriovSupportedNics_systemd :: "string list \<Rightarrow> unit sio" where
  "WriteSriovSupportedNics_systemd nicIdMap =
     io_bind (create_if_missing SriovSystemdSupportedNicPath) (\<lambda>_.
       file_io (os_WriteFile SriovSystemdSupportedNicPath (concat (map (\<lambda>line. line @ ''\<newline>'') nicIdMap))))"

definition ReadSriovSupportedNics :: "string list sio" where
  "ReadSriovSupportedNics =
     io_bind (file_io (os_Stat SriovSystemdSupportedNicPath)) (\<lambda>_.
     io_bind (file_io (os_ReadFile SriovSystemdSupportedNicPath)) (\<lambda>rawConfig.
       io_return (split_on CHR ''\<newline>'' rawConfig)))"

definition CleanSriovFilesFromHost :: "bool \<Rightarrow> unit sio" where
  "CleanSriovFilesFromHost isOpenShift =
     io_bind (remove_quietly SriovSystemdConfigPath) (\<lambda>_.
     io_bind (remove_quietly SriovSystemdResultPath) (\<lambda>_.
     io_bind (remove_quietly SriovSystemdSupportedNicPath) (\<lambda>_.
     io_bind (remove_quietly SriovSystemdServiceBinaryPath) (\<lambda>_.
       if \<not> isOpenShift
       then io_bind (remove_quietly SriovServicePath) (\<lambda>_. remove_quietly SriovPostNetworkServicePath)
       else io_return ()))))"

text \<open>The daemon's \<^verbatim>\<open>writeSystemdConfigFile\<close> on the files.\<close>

definition write_systemd_files :: "yaml \<Rightarrow> SriovConfig \<Rightarrow> string list \<Rightarrow> SriovNetworkNodeState \<Rightarrow> bool sio" where
  "write_systemd_files y vars nicIdMap desired =
     io_bind (WriteConfFile_systemd y vars desired) (\<lambda>systemdConfModified.
     io_bind (io_when systemdConfModified RemoveSriovResult_systemd) (\<lambda>_.
     io_bind (WriteSriovSupportedNics_systemd nicIdMap) (\<lambda>_.
       io_return systemdConfModified)))"

end
