(* ===== verification/Systemd_Service.thy ===== *)
theory Systemd_Service
  imports Systemd
begin

text \<open>
  The systemd service (\<^verbatim>\<open>src/cmd/sriov-network-config-daemon/service.go\<close>) with the platforms' choice of a plugin
  (\<^verbatim>\<open>src/pkg/platform\<close>). The plugins and the host are the record \<open>service_env\<close>; what they answer may depend on
  everything that happened before.
\<close>

section \<open>State and environment\<close>

text \<open>The plugin of a phase: the generic one, with its two options, or the virtual one.\<close>

datatype service_plugin = GenericService bool bool | VirtualService

datatype service_event =
    CheckRDMAEnabled
  | TryEnableTun
  | TryEnableVhostNet
  | WaitUdevEvents
  | PluginApplied string service_plugin SriovNetworkNodeStateSpec
  | PluginSkipped string SriovNetworkNodeStateSpec

record service_world =
  sv_Files :: file_world
  sv_NicIDMap :: "string list"
  sv_Log :: "service_event list"

datatype service_error =
    InvalidPhase
  | HostHelpersFailed string
  | ReadConfFailed "os_error option"
  | UnknownPlatform string
  | ServicePanic panic
  | SupportedNicsFailed systemd_error
  | PlatformInitFailed string
  | RemoveResultFailed systemd_error
  | ReadResultFailed systemd_error
  | UnexpectedPreResult SriovResult
  | OperationNotSupportedByPlatform
  | NewPluginFailed string
  | DiscoverFailed string
  | OnNodeStateChangeFailed string
  | ApplyFailed string
  | WriteResultFailed systemd_error

record service_env =
  sve_Yaml :: yaml
  sve_NewHostHelpers :: "string option"
  sve_NewPlugin :: "service_event list \<Rightarrow> service_plugin \<Rightarrow> string option"
  sve_PlatformInit :: "service_event list \<Rightarrow> platform \<Rightarrow> string option"
  sve_DiscoverSriovDevices :: "service_event list \<Rightarrow> string + InterfaceExt list"
  sve_DiscoverBridges :: "service_event list \<Rightarrow> string + Bridges"
  sve_OnNodeStateChange :: "service_event list \<Rightarrow> service_plugin \<Rightarrow> SriovNetworkNodeState \<Rightarrow> string option"
  sve_Apply :: "service_event list \<Rightarrow> service_plugin \<Rightarrow> SriovNetworkNodeState \<Rightarrow> string option"
  sve_InterfaceName :: "nat \<Rightarrow> string \<Rightarrow> string"
  sve_Delay :: "nat \<Rightarrow> nat"
  sve_ErrorText :: "service_error \<Rightarrow> string"

type_synonym 'a svio = "(service_world, service_error, 'a) stateful"

definition files :: "('e \<Rightarrow> service_error) \<Rightarrow> (file_world, 'e, 'a) stateful \<Rightarrow> 'a svio" where
  "files g m w = (case m (sv_Files w) of (r, f) \<Rightarrow> (map_err g r, w\<lparr>sv_Files := f\<rparr>))"

definition sv_note :: "service_event \<Rightarrow> unit svio" where
  "sv_note e w = (Inr (), w\<lparr>sv_Log := sv_Log w @ [e]\<rparr>)"

definition sv_check :: "(string \<Rightarrow> service_error) \<Rightarrow> (service_event list \<Rightarrow> string option) \<Rightarrow> unit svio" where
  "sv_check g f w = (case f (sv_Log w) of None \<Rightarrow> Inr () | Some e \<Rightarrow> Inl (g e), w)"

definition sv_ask :: "(string \<Rightarrow> service_error) \<Rightarrow> (service_event list \<Rightarrow> string + 'a) \<Rightarrow> 'a svio" where
  "sv_ask g f w = (map_err g (f (sv_Log w)), w)"

abbreviation PhasePre :: string where "PhasePre \<equiv> ''pre''"
abbreviation PhasePost :: string where "PhasePost \<equiv> ''post''"

section \<open>Configuration\<close>

definition zero_spec :: SriovNetworkNodeStateSpec where
  "zero_spec = \<lparr>ns_Interfaces = [], ns_Bridges = \<lparr>bridges_OVS = []\<rparr>, ns_System = \<lparr>sys_RdmaMode = [], sys_OvsConfig = []\<rparr>\<rparr>"

definition default_config :: SriovConfig where
  "default_config = \<lparr>sc_Spec = zero_spec, sc_UnsupportedNics = False, sc_PlatformType = ''Baremetal'',
     sc_ManageSoftwareBridges = False, sc_OVSDBSocketPath = []\<rparr>"

text \<open>
  The error of the check shadows the error of the read: the message has the former, nil when the file is there.
\<close>

definition readConf :: "service_env \<Rightarrow> (file_world, os_error option, SriovConfig option) stateful" where
  "readConf env =
     io_handle (ReadConfFile (sve_Yaml env))
       (\<lambda>_. io_handle (os_Stat SriovSystemdConfigPath)
          (\<lambda>err. if err \<noteq> IsNotExist then io_fail (Some err) else io_return (Some default_config))
          (\<lambda>_. io_fail None))
       io_return"

definition platform_New :: "string \<Rightarrow> platform option" where
  "platform_New platformType =
     (if platformType = ''Baremetal'' then Some Baremetal
      else if platformType = ''Virtual/Openstack'' then Some VirtualOpenStack
      else if platformType = ''AWS'' then Some AWS
      else None)"

definition newServiceConfig :: "service_env \<Rightarrow> (SriovConfig \<times> platform) svio" where
  "newServiceConfig env =
     (case sve_NewHostHelpers env of
        Some err \<Rightarrow> io_fail (HostHelpersFailed err)
      | None \<Rightarrow>
          io_bind (files ReadConfFailed (readConf env)) (\<lambda>sriovConfig.
            case sriovConfig of
              None \<Rightarrow> io_fail (ServicePanic NilDereference)
            | Some conf \<Rightarrow>
                (case platform_New (sc_PlatformType conf) of
                   None \<Rightarrow> io_fail (UnknownPlatform (sc_PlatformType conf))
                 | Some plat \<Rightarrow> io_return (conf, plat))))"

definition InitNicIDMapFromList :: "string list \<Rightarrow> unit svio" where
  "InitNicIDMapFromList idList w = (Inr (), w\<lparr>sv_NicIDMap := sv_NicIDMap w @ idList\<rparr>)"

definition initSupportedNics :: "unit svio" where
  "initSupportedNics = io_bind (files SupportedNicsFailed ReadSriovSupportedNics) InitNicIDMapFromList"

section \<open>Waiting for devices\<close>

abbreviation InitializationDeviceDiscoveryTimeoutSec :: nat where "InitializationDeviceDiscoveryTimeoutSec \<equiv> 60"

text \<open>The map of devices: the last entry for an address wins.\<close>

definition devices_to_wait :: "Interface list \<Rightarrow> (string \<times> string) list" where
  "devices_to_wait ifaces = fold (\<lambda>d m. (if_PciAddress d, if_Name d) # filter (\<lambda>(a, _). a \<noteq> if_PciAddress d) m) ifaces []"

text \<open>
  The loop, in seconds since the start: a round that does not end it sleeps for at least one second. The result is the
  devices that are left and the number of rounds.
\<close>

function wait_devices :: "service_env \<Rightarrow> nat \<Rightarrow> nat \<Rightarrow> (string \<times> string) list \<Rightarrow> (string \<times> string) list \<times> nat" where
  "wait_devices env now i devices =
     (if now < InitializationDeviceDiscoveryTimeoutSec
      then
        let devices = filter (\<lambda>(pciAddr, name). sve_InterfaceName env i pciAddr \<noteq> name) devices in
        if devices = [] then ([], Suc i)
        else wait_devices env (now + 1 + sve_Delay env i) (Suc i) devices
      else (devices, i))"
  by pat_completeness auto
termination
  by (relation "measure (\<lambda>(env, now, i, devices). InitializationDeviceDiscoveryTimeoutSec - now)") auto

declare wait_devices.simps [simp del]

definition waitForDevicesInitialization :: "service_env \<Rightarrow> SriovConfig \<Rightarrow> unit svio" where
  "waitForDevicesInitialization env conf =
     (if sc_PlatformType conf \<noteq> ''Baremetal'' then io_return ()
      else
        let left = wait_devices env 0 0 (devices_to_wait (ns_Interfaces (sc_Spec conf))) in
        sv_note WaitUdevEvents)"

section \<open>Plugins\<close>

definition baremetal_plugin :: "string \<Rightarrow> service_error + service_plugin option" where
  "baremetal_plugin phase =
     (if phase = PhasePre then Inr (Some (GenericService True True))
      else if phase = PhasePost then Inr (Some (GenericService False False))
      else Inl InvalidPhase)"

definition openstack_plugin :: "string \<Rightarrow> service_error + service_plugin option" where
  "openstack_plugin phase =
     (if phase = PhasePre then Inr (Some VirtualService)
      else if phase = PhasePost then Inr None
      else Inl InvalidPhase)"

definition aws_plugin :: "string \<Rightarrow> service_error + service_plugin option" where
  "aws_plugin phase = Inl OperationNotSupportedByPlatform"

fun SystemdGetVendorPlugin :: "platform \<Rightarrow> string \<Rightarrow> service_error + service_plugin option" where
  "SystemdGetVendorPlugin Baremetal phase = baremetal_plugin phase"
| "SystemdGetVendorPlugin VirtualOpenStack phase = openstack_plugin phase"
| "SystemdGetVendorPlugin AWS phase = aws_plugin phase"

definition getPlugin :: "service_env \<Rightarrow> platform \<Rightarrow> string \<Rightarrow> service_plugin option svio" where
  "getPlugin env plat phase =
     io_bind (io_lift (SystemdGetVendorPlugin plat phase)) (\<lambda>p.
       case p of
         None \<Rightarrow> io_return None
       | Some q \<Rightarrow> io_bind (sv_check NewPluginFailed (\<lambda>l. sve_NewPlugin env l q)) (\<lambda>_. io_return (Some q)))"

definition zero_meta :: ObjectMeta where
  "zero_meta = \<lparr>om_Name = [], om_Namespace = [], om_Labels = Map.empty, om_Annotations = Map.empty,
     om_Generation = 0, om_OwnerReferences = []\<rparr>"

definition getNetworkNodeState :: "service_env \<Rightarrow> SriovConfig \<Rightarrow> string \<Rightarrow> SriovNetworkNodeState svio" where
  "getNetworkNodeState env conf phase =
     io_bind (sv_ask DiscoverFailed (sve_DiscoverSriovDevices env)) (\<lambda>ifaceStatuses.
     io_bind (if phase \<noteq> PhasePre \<and> sc_ManageSoftwareBridges conf
              then sv_ask DiscoverFailed (sve_DiscoverBridges env) else io_return \<lparr>bridges_OVS = []\<rparr>) (\<lambda>bridges.
       io_return \<lparr>state_Meta = zero_meta, state_Spec = sc_Spec conf,
         state_Status = empty_status\<lparr>nst_Interfaces := ifaceStatuses, nst_Bridges := bridges\<rparr>\<rparr>))"

definition callPlugin :: "service_env \<Rightarrow> SriovConfig \<Rightarrow> platform \<Rightarrow> string \<Rightarrow> unit svio" where
  "callPlugin env conf plat phase =
     io_bind (getPlugin env plat phase) (\<lambda>configPlugin.
       case configPlugin of
         None \<Rightarrow> sv_note (PluginSkipped phase (sc_Spec conf))
       | Some p \<Rightarrow>
           io_bind (getNetworkNodeState env conf phase) (\<lambda>nodeState.
           io_bind (sv_check OnNodeStateChangeFailed (\<lambda>l. sve_OnNodeStateChange env l p nodeState)) (\<lambda>_.
           io_bind (sv_check ApplyFailed (\<lambda>l. sve_Apply env l p nodeState)) (\<lambda>_.
             sv_note (PluginApplied phase p (state_Spec nodeState))))))"

section \<open>Phases\<close>

definition phasePre :: "service_env \<Rightarrow> SriovConfig \<Rightarrow> platform \<Rightarrow> unit svio" where
  "phasePre env conf plat =
     io_bind (files RemoveResultFailed RemoveSriovResult_systemd) (\<lambda>_.
     io_bind (sv_note CheckRDMAEnabled) (\<lambda>_.
     io_bind (sv_note TryEnableTun) (\<lambda>_.
     io_bind (sv_note TryEnableVhostNet) (\<lambda>_.
       callPlugin env conf plat PhasePre))))"

definition phasePost :: "service_env \<Rightarrow> SriovConfig \<Rightarrow> platform \<Rightarrow> unit svio" where
  "phasePost env conf plat =
     io_bind (files ReadResultFailed (ReadSriovResult (sve_Yaml env))) (\<lambda>prePhaseResult.
       case prePhaseResult of
         None \<Rightarrow> io_fail (ServicePanic NilDereference)
       | Some r \<Rightarrow>
           if sr_SyncStatus r \<noteq> SyncStatusInProgress then io_fail (UnexpectedPreResult r)
           else callPlugin env conf plat PhasePost)"

definition updateResult :: "service_env \<Rightarrow> string \<Rightarrow> string \<Rightarrow> unit svio" where
  "updateResult env status msg =
     files WriteResultFailed (WriteSriovResult (sve_Yaml env) \<lparr>sr_SyncStatus = status, sr_LastSyncError = msg\<rparr>)"

text \<open>A panic ends the process: nothing is written.\<close>

definition updateSriovResultErr :: "service_env \<Rightarrow> string \<Rightarrow> service_error \<Rightarrow> unit svio" where
  "updateSriovResultErr env phase origErr =
     (case origErr of
        ServicePanic p \<Rightarrow> io_fail origErr
      | _ \<Rightarrow> io_bind (updateResult env SyncStatusFailed (phase @ '': '' @ sve_ErrorText env origErr)) (\<lambda>_. io_fail origErr))"

definition updateSriovResultOk :: "service_env \<Rightarrow> string \<Rightarrow> unit svio" where
  "updateSriovResultOk env phase =
     updateResult env (if phase = PhasePre then SyncStatusInProgress else SyncStatusSucceeded) []"

definition runServiceCmd :: "service_env \<Rightarrow> string \<Rightarrow> unit svio" where
  "runServiceCmd env phase =
     (if phase \<noteq> PhasePre \<and> phase \<noteq> PhasePost then io_fail InvalidPhase
      else
        io_bind (newServiceConfig env) (\<lambda>(conf, plat).
        io_handle initSupportedNics (updateSriovResultErr env phase) (\<lambda>_.
        io_bind (waitForDevicesInitialization env conf) (\<lambda>_.
        io_handle (sv_check PlatformInitFailed (\<lambda>l. sve_PlatformInit env l plat)) (updateSriovResultErr env phase) (\<lambda>_.
        io_handle (if phase = PhasePre then phasePre env conf plat else phasePost env conf plat)
          (updateSriovResultErr env phase) (\<lambda>_. updateSriovResultOk env phase))))))"

end
