(* ===== verification/Systemd_Safety.thy ===== *)
theory Systemd_Safety
  imports Systemd_Service
begin

text \<open>
  Properties of the systemd mode: the wait for devices ends, the configuration file is read back as it was written, and the
  result of the service is true: it says that the configuration was applied only when it was, unless a write of the daemon failed before.
\<close>

section \<open>Waiting for devices\<close>

lemma wait_devices_spec:
  assumes "wait_devices env now i devices = (left, n)"
  shows "i \<le> n \<and> n - i \<le> InitializationDeviceDiscoveryTimeoutSec - now \<and>
    left = filter (\<lambda>(a, nm). \<forall>j. i \<le> j \<and> j < n \<longrightarrow> sve_InterfaceName env j a \<noteq> nm) devices \<and>
    (left \<noteq> [] \<longrightarrow> InitializationDeviceDiscoveryTimeoutSec \<le> now + (\<Sum>j\<in>{i..<n}. 1 + sve_Delay env j))"
  using assms
proof (induction env now i devices rule: wait_devices.induct)
  case (1 env now i devices)
  let ?ds = "filter (\<lambda>(a, nm). sve_InterfaceName env i a \<noteq> nm) devices"
  show ?case
  proof (cases "now < InitializationDeviceDiscoveryTimeoutSec")
    case False
    then have "left = devices" "n = i" using 1(2) by (simp_all add: wait_devices.simps)
    moreover have "filter (\<lambda>(a, nm). \<forall>j. i \<le> j \<and> j < i \<longrightarrow> sve_InterfaceName env j a \<noteq> nm) devices = devices"
      by (rule filter_True) auto
    ultimately show ?thesis using False by simp
  next
    case early: True
    show ?thesis
    proof (cases "?ds = []")
      case True
      then have "left = []" "n = Suc i" using 1(2) early by (simp_all add: wait_devices.simps)
      moreover have "filter (\<lambda>(a, nm). \<forall>j. i \<le> j \<and> j < Suc i \<longrightarrow> sve_InterfaceName env j a \<noteq> nm) devices = []"
        using True by (auto simp: filter_empty_conv)
      ultimately show ?thesis using early by simp
    next
      case False
      have "wait_devices env (now + 1 + sve_Delay env i) (Suc i) ?ds = (left, n)"
        using 1(2) early False by (simp add: wait_devices.simps[of env now])
      then have ih: "Suc i \<le> n" "n - Suc i \<le> InitializationDeviceDiscoveryTimeoutSec - (now + 1 + sve_Delay env i)"
          "left = filter (\<lambda>(a, nm). \<forall>j. Suc i \<le> j \<and> j < n \<longrightarrow> sve_InterfaceName env j a \<noteq> nm) ?ds"
          "left \<noteq> [] \<longrightarrow> InitializationDeviceDiscoveryTimeoutSec \<le> now + 1 + sve_Delay env i + (\<Sum>j\<in>{Suc i..<n}. 1 + sve_Delay env j)"
        using 1(1)[OF early refl False] by simp_all
      have split: "(i \<le> j \<and> j < n) \<longleftrightarrow> j = i \<or> (Suc i \<le> j \<and> j < n)" for j using ih(1) by auto
      have "left = filter (\<lambda>(a, nm). \<forall>j. i \<le> j \<and> j < n \<longrightarrow> sve_InterfaceName env j a \<noteq> nm) devices"
        unfolding ih(3) filter_filter split by (rule filter_cong[OF refl]) auto
      moreover have "(\<Sum>j\<in>{i..<n}. 1 + sve_Delay env j) = 1 + sve_Delay env i + (\<Sum>j\<in>{Suc i..<n}. 1 + sve_Delay env j)"
        using ih(1) by (simp add: sum.atLeast_Suc_lessThan)
      ultimately show ?thesis using ih(1,2,4) early by auto
    qed
  qed
qed

text \<open>
  C6: the wait for devices of the systemd service ends after at most sixty rounds, whatever the host answers and however
  long a round takes. The devices it reports as missing are exactly those that did not have the requested name in any
  round, and it gives up on a device only after the full time.
\<close>

theorem device_wait_ends:
  "\<exists>left n. wait_devices env 0 0 devices = (left, n) \<and> n \<le> InitializationDeviceDiscoveryTimeoutSec \<and>
     left = filter (\<lambda>(a, nm). list_all (\<lambda>j. sve_InterfaceName env j a \<noteq> nm) [0..<n]) devices \<and>
     (left = [] \<or> InitializationDeviceDiscoveryTimeoutSec \<le> n + (\<Sum>j<n. sve_Delay env j))"
proof -
  obtain left n where w: "wait_devices env 0 0 devices = (left, n)" by (cases "wait_devices env 0 0 devices")
  have "(\<Sum>j\<in>{0..<n}. 1 + sve_Delay env j) = n + (\<Sum>j<n. sve_Delay env j)"
    unfolding sum.distrib lessThan_atLeast0 by simp
  moreover have "list_all P [0..<n] \<longleftrightarrow> (\<forall>j. 0 \<le> j \<and> j < n \<longrightarrow> P j)" for P by (auto simp: list_all_iff)
  ultimately show ?thesis using wait_devices_spec[OF w] w by auto
qed

section \<open>The configuration file\<close>

text \<open>What is documented of the YAML library: it reads back what it wrote, and an empty text holds no document.\<close>

definition yaml_ok :: "yaml \<Rightarrow> bool" where
  "yaml_ok y \<longleftrightarrow>
     (\<forall>c t. ym_Config y c = Some t \<longrightarrow> ym_ConfigOf y t = Some (Document c)) \<and> ym_ConfigOf y [] = Some NoDocument \<and>
     (\<forall>r t. ym_Result y r = Some t \<longrightarrow> ym_ResultOf y t = Some (Document r)) \<and> ym_ResultOf y [] = Some NoDocument"

lemma os_call_calm [simp]: "fw_Faults w = [] \<Longrightarrow> os_call torn m w = m w"
  by (simp add: os_call_def)

lemmas file_defs = os_Stat_def os_ReadFile_def os_Create_def os_WriteFile_def os_Mkdir_def os_Remove_def file_io_def
  io_bind_def io_handle_def io_return_def io_fail_def io_map_err_def io_when_def from_yaml_def

lemma put_file_fields [simp]:
  "fw_Faults (put_file p t w) = fw_Faults w" "fw_Dirs (put_file p t w) = fw_Dirs w"
  "fw_Files (put_file p t w) = (fw_Files w)(p \<mapsto> t)" "parent_exists q (put_file p t w) = parent_exists q w"
  by (simp_all add: put_file_def parent_exists_def)

lemma os_call_ok:
  assumes "os_call torn m w = (Inr x, w')"
  obtains fs where "m (w\<lparr>fw_Faults := fs\<rparr>) = (Inr x, w')" "fw_Faults w = [] \<longrightarrow> fs = []"
proof (cases "fw_Faults w")
  case Nil
  have "w\<lparr>fw_Faults := []\<rparr> = w" using Nil by (cases w) simp
  then show ?thesis using that[of "[]"] assms Nil by (simp only: os_call_calm simp_thms)
next
  case (Cons f fs)
  then have "m (w\<lparr>fw_Faults := fs\<rparr>) = (Inr x, w')" using assms by (cases f) (auto simp: os_call_def Let_def)
  then show ?thesis using that[of fs] Cons by simp
qed

lemma file_io_ok: "file_io m w = (Inr x, w') \<longleftrightarrow> m w = (Inr x, w')"
  by (auto simp: file_io_def io_map_err_def map_err_eq_Inr split: prod.splits)

lemma stat_cases:
  assumes "os_Stat path w = (r, w')"
  shows "fw_Files w' = fw_Files w \<and> fw_Dirs w' = fw_Dirs w \<and> (fw_Faults w = [] \<longrightarrow> fw_Faults w' = []) \<and>
    (r = Inr () \<longrightarrow> fw_Files w path \<noteq> None \<or> path \<in> set (fw_Dirs w)) \<and> (r = Inl IsNotExist \<longrightarrow> fw_Files w path = None)"
  using assms by (auto simp: os_Stat_def os_call_def Let_def split: list.splits os_fault.splits if_splits)

lemma read_ok:
  assumes "os_ReadFile path w = (Inr t, w')"
  shows "fw_Files w path = Some t \<and> fw_Files w' = fw_Files w \<and> (fw_Faults w = [] \<longrightarrow> fw_Faults w' = [])"
  using assms unfolding os_ReadFile_def by (rule os_call_ok) (auto split: option.splits)

lemma create_ok:
  assumes "os_Create path w = (Inr u, w')"
  shows "fw_Files w' = (fw_Files w)(path \<mapsto> []) \<and> (fw_Faults w = [] \<longrightarrow> fw_Faults w' = [])"
  using assms unfolding os_Create_def by (rule os_call_ok) (auto split: if_splits)

lemma write_ok:
  assumes "os_WriteFile path t w = (Inr u, w')"
  shows "fw_Files w' = (fw_Files w)(path \<mapsto> t) \<and> (fw_Faults w = [] \<longrightarrow> fw_Faults w' = [])"
  using assms unfolding os_WriteFile_def by (rule os_call_ok) (auto split: if_splits)

lemma mkdir_ok:
  assumes "os_Mkdir path w = (Inr u, w')"
  shows "fw_Files w' = fw_Files w \<and> (fw_Faults w = [] \<longrightarrow> fw_Faults w' = [])"
  using assms unfolding os_Mkdir_def by (rule os_call_ok) (auto split: if_splits)

lemma bind_ok:
  assumes "io_bind m f w = (Inr x, w')"
  obtains y v where "m w = (Inr y, v)" "f y v = (Inr x, w')"
  using assms by (auto simp: io_bind_def split: prod.splits sum.splits)

text \<open>The directory is there or was created; the file too.\<close>

lemma create_if_missing_ok:
  assumes "create_if_missing path w = (Inr new, w')"
  shows "fw_Files w' = (if new then (fw_Files w)(path \<mapsto> []) else fw_Files w) \<and> (fw_Faults w = [] \<longrightarrow> fw_Faults w' = []) \<and>
    (new \<longrightarrow> fw_Files w path = None)"
proof -
  obtain r w1 where s: "os_Stat path w = (r, w1)" by (cases "os_Stat path w")
  note stat = stat_cases[OF s]
  show ?thesis
  proof (cases "r = Inl IsNotExist")
    case True
    let ?dir = "io_handle (os_Stat SriovConfBasePath)
       (\<lambda>err. if err = IsNotExist then file_io (os_Mkdir SriovConfBasePath) else io_return ()) io_return"
    have "io_bind ?dir (\<lambda>_. io_bind (file_io (os_Create path)) (\<lambda>_. io_return True)) w1 = (Inr new, w')"
      using assms s True by (simp add: create_if_missing_def io_handle_def)
    then obtain w2 w3 where d: "?dir w1 = (Inr (), w2)" and c: "os_Create path w2 = (Inr (), w3)" and n: "new" "w' = w3"
      by (auto elim!: bind_ok simp: file_io_ok io_return_def)
    obtain q w4 where q: "os_Stat SriovConfBasePath w1 = (q, w4)" by (cases "os_Stat SriovConfBasePath w1")
    have "fw_Files w2 = fw_Files w1 \<and> (fw_Faults w1 = [] \<longrightarrow> fw_Faults w2 = [])"
      using d q stat_cases[OF q] mkdir_ok[of SriovConfBasePath w4 "()" w2]
      by (auto simp: io_handle_def io_return_def file_io_ok split: sum.splits if_splits)
    then show ?thesis using stat True create_ok[OF c] n by simp
  next
    case False
    then have "new = False" "w' = w1"
      using assms s by (auto simp: create_if_missing_def io_handle_def io_fail_def io_return_def split: sum.splits if_splits)
    then show ?thesis using stat by simp
  qed
qed

text \<open>What a successful write has done.\<close>

lemma write_conf_ok:
  assumes "WriteConfFile_systemd y vars s w = (Inr b, w')" and "yaml_ok y"
  obtains t where "ym_Config y (config_of_state vars s) = Some t" "fw_Files w' = (fw_Files w)(SriovSystemdConfigPath \<mapsto> t)"
    "fw_Faults w = [] \<longrightarrow> fw_Faults w' = []"
    "b \<longleftrightarrow> fw_Files w SriovSystemdConfigPath \<noteq> Some t \<and>
       (fw_Files w SriovSystemdConfigPath \<noteq> None \<or> ns_Interfaces (state_Spec s) \<noteq> [])"
proof -
  let ?p = SriovSystemdConfigPath
  have spec: "sc_Spec (config_of_state vars s) = state_Spec s" by (simp add: config_of_state_def)
  obtain new w1 old w2 t where c: "create_if_missing ?p w = (Inr new, w1)" and r: "os_ReadFile ?p w1 = (Inr old, w2)"
    and t: "ym_Config y (config_of_state vars s) = Some t"
    and rest: "(if t = old then io_return False
       else io_bind (file_io (os_WriteFile ?p t)) (\<lambda>_.
         if new \<and> ns_Interfaces (state_Spec s) = [] then io_return False else io_return True)) w2 = (Inr b, w')"
    using assms(1) unfolding WriteConfFile_systemd_def Let_def spec
    by (auto elim!: bind_ok simp: file_io_ok from_yaml_def io_fail_def io_return_def split: option.splits)
  note created = create_if_missing_ok[OF c] and seen = read_ok[OF r]
  have tn: "t \<noteq> []" using assms(2) t unfolding yaml_ok_def by fastforce
  have old: "fw_Files w ?p = (if new then None else Some old)" "new \<longrightarrow> old = []" using created seen by (auto split: if_splits)
  show ?thesis
  proof (cases "t = old")
    case True
    then have f: "\<not> new" "\<not> b" "w' = w2" "fw_Files w ?p = Some t"
      using rest old tn by (auto simp: io_return_def split: if_splits)
    have "(fw_Files w)(?p \<mapsto> t) = fw_Files w" using f(4) by (rule fun_upd_idem)
    then show ?thesis using that[OF t] f created seen by simp
  next
    case False
    obtain w3 where wr: "os_WriteFile ?p t w2 = (Inr (), w3)" "w' = w3" "b \<longleftrightarrow> \<not> (new \<and> ns_Interfaces (state_Spec s) = [])"
      using rest False by (auto elim!: bind_ok simp: file_io_ok io_return_def split: if_splits)
    show ?thesis using that[OF t] write_ok[OF wr(1)] wr(2,3) created seen old False by (auto split: if_splits)
  qed
qed

text \<open>
  C5: the configuration that the daemon writes for the systemd service is the one that the service reads. The write reports
  a change, which asks for a reboot, exactly when the text of the file changes, except for the first file when no
  interface is to be configured. Writing the same configuration again changes nothing and reports no change.
\<close>

theorem systemd_config_roundtrip:
  assumes "WriteConfFile_systemd y vars s w = (Inr b, w')" and "fw_Faults w = []" and "yaml_ok y"
  shows "ReadConfFile y w' = (Inr (Some (config_of_state vars s)), w') \<and>
    WriteConfFile_systemd y vars s w' = (Inr False, w') \<and>
    (b \<longleftrightarrow> fw_Files w SriovSystemdConfigPath \<noteq> fw_Files w' SriovSystemdConfigPath \<and>
       (fw_Files w SriovSystemdConfigPath \<noteq> None \<or> ns_Interfaces (state_Spec s) \<noteq> []))"
proof -
  obtain t where t: "ym_Config y (config_of_state vars s) = Some t" "fw_Files w' SriovSystemdConfigPath = Some t"
      "fw_Faults w' = []"
      "b \<longleftrightarrow> fw_Files w SriovSystemdConfigPath \<noteq> Some t \<and>
         (fw_Files w SriovSystemdConfigPath \<noteq> None \<or> ns_Interfaces (state_Spec s) \<noteq> [])"
    by (rule write_conf_ok[OF assms(1,3)]) (use assms(2) in auto)
  have d: "ym_ConfigOf y t = Some (Document (config_of_state vars s))" using assms(3) t(1) by (simp add: yaml_ok_def)
  have "ReadConfFile y w' = (Inr (Some (config_of_state vars s)), w')"
    using t(2,3) d by (simp add: ReadConfFile_def file_defs)
  moreover have "WriteConfFile_systemd y vars s w' = (Inr False, w')"
    using t d by (simp add: WriteConfFile_systemd_def create_if_missing_def Let_def file_defs)
  ultimately show ?thesis using t(2,4) by simp
qed

section \<open>The result file\<close>

text \<open>What the calls can change, whether they succeed or fail.\<close>

lemma effects:
  "os_Stat p w = (r, w') \<Longrightarrow> fw_Files w' = fw_Files w"
  "os_ReadFile p w = (q, w') \<Longrightarrow> fw_Files w' = fw_Files w"
  "os_Mkdir p w = (r, w') \<Longrightarrow> fw_Files w' = fw_Files w"
  "os_Create p w = (r, w') \<Longrightarrow> fw_Files w' \<in> {fw_Files w, (fw_Files w)(p \<mapsto> [])}"
  "os_WriteFile p t w = (r, w') \<Longrightarrow> fw_Files w' \<in> {fw_Files w, (fw_Files w)(p \<mapsto> []), (fw_Files w)(p \<mapsto> t)}"
  "os_Remove p w = (r, w') \<Longrightarrow> fw_Files w' \<in> {fw_Files w, (fw_Files w)(p := None)}"
  by (auto simp: os_Stat_def os_ReadFile_def os_Mkdir_def os_Create_def os_WriteFile_def os_Remove_def os_call_def Let_def
      split: list.splits os_fault.splits if_splits option.splits)

lemma create_effect:
  assumes "create_if_missing path w = (r, w')"
  shows "fw_Files w' \<in> {fw_Files w, (fw_Files w)(path \<mapsto> [])}"
proof -
  obtain q w1 where s: "os_Stat path w = (q, w1)" by (cases "os_Stat path w")
  obtain q2 w2 where d: "os_Stat SriovConfBasePath w1 = (q2, w2)" by (cases "os_Stat SriovConfBasePath w1")
  obtain q3 w3 where m: "os_Mkdir SriovConfBasePath w2 = (q3, w3)" by (cases "os_Mkdir SriovConfBasePath w2")
  obtain q4 w4 where c: "os_Create path w2 = (q4, w4)" by (cases "os_Create path w2")
  obtain q5 w5 where e: "os_Create path w3 = (q5, w5)" by (cases "os_Create path w3")
  have "w' \<in> {w1, w2, w3, w4, w5}"
    using assms s d m c e
    by (auto simp: create_if_missing_def io_handle_def io_bind_def io_return_def io_fail_def file_io_def io_map_err_def
        split: sum.splits if_splits prod.splits)
  then show ?thesis using effects(1)[OF s] effects(1)[OF d] effects(3)[OF m] effects(4)[OF c] effects(4)[OF e] by auto
qed

lemma write_result_effect:
  assumes "WriteSriovResult y x w = (r, w')"
  shows "fw_Files w' = fw_Files w \<or> fw_Files w' = (fw_Files w)(SriovSystemdResultPath \<mapsto> []) \<or>
    (\<exists>t. ym_Result y x = Some t \<and> fw_Files w' = (fw_Files w)(SriovSystemdResultPath \<mapsto> t))"
proof -
  let ?p = SriovSystemdResultPath
  obtain q w1 where c: "create_if_missing ?p w = (q, w1)" by (cases "create_if_missing ?p w")
  note created = create_effect[OF c]
  show ?thesis
  proof (cases "\<exists>b t. q = Inr b \<and> ym_Result y x = Some t")
    case True
    then obtain t where t: "\<exists>b. q = Inr b" "ym_Result y x = Some t" by blast
    obtain q2 w2 where wr: "os_WriteFile ?p t w1 = (q2, w2)" by (cases "os_WriteFile ?p t w1")
    have "w' = w2" using assms c t wr
      by (auto simp: WriteSriovResult_def io_bind_def from_yaml_def io_return_def file_io_def io_map_err_def)
    then show ?thesis using effects(5)[OF wr] created t(2) by auto
  next
    case False
    then have "w' = w1" using assms c
      by (auto simp: WriteSriovResult_def io_bind_def from_yaml_def io_fail_def split: sum.splits option.splits)
    then show ?thesis using created by auto
  qed
qed

section \<open>The result is true\<close>

text \<open>The configuration that the service would use, and the status that the daemon would read.\<close>

definition conf_now :: "yaml \<Rightarrow> file_world \<Rightarrow> SriovConfig option" where
  "conf_now y f =
     (case fw_Files f SriovSystemdConfigPath of
        None \<Rightarrow> Some default_config
      | Some t \<Rightarrow> (case ym_ConfigOf y t of Some (Document c) \<Rightarrow> Some c | _ \<Rightarrow> None))"

definition status_now :: "yaml \<Rightarrow> file_world \<Rightarrow> string option" where
  "status_now y f =
     (case fw_Files f SriovSystemdResultPath of
        None \<Rightarrow> None
      | Some t \<Rightarrow> (case ym_ResultOf y t of None \<Rightarrow> None | Some d \<Rightarrow> map_option sr_SyncStatus (result_of d)))"

text \<open>A phase is done for a configuration when its plugin was applied without error for the interfaces of the configuration.\<close>

fun done_event :: "string \<Rightarrow> Interface list \<Rightarrow> service_event \<Rightarrow> bool" where
  "done_event phase ifaces (PluginApplied ph p spec) = (ph = phase \<and> ns_Interfaces spec = ifaces)"
| "done_event phase ifaces (PluginSkipped ph spec) = (ph = phase \<and> ns_Interfaces spec = ifaces)"
| "done_event phase ifaces _ = False"

definition phase_done :: "string \<Rightarrow> SriovConfig \<Rightarrow> service_event list \<Rightarrow> bool" where
  "phase_done phase c l = list_ex (done_event phase (ns_Interfaces (sc_Spec c))) l"

definition status_true :: "SriovConfig \<Rightarrow> service_event list \<Rightarrow> string \<Rightarrow> bool" where
  "status_true c l st \<longleftrightarrow>
     (st = SyncStatusInProgress \<longrightarrow> phase_done PhasePre c l) \<and>
     (st = SyncStatusSucceeded \<longrightarrow> phase_done PhasePre c l \<and> phase_done PhasePost c l)"

definition service_inv :: "yaml \<Rightarrow> SriovConfig \<Rightarrow> service_world \<Rightarrow> bool" where
  "service_inv y c w \<longleftrightarrow> conf_now y (sv_Files w) = Some c \<and> (\<forall>st. status_now y (sv_Files w) = Some st \<longrightarrow> status_true c (sv_Log w) st)"

lemma phase_done_append: "phase_done ph c l \<Longrightarrow> phase_done ph c (l @ m)"
  by (simp add: phase_done_def)

lemma status_true_append: "status_true c l st \<Longrightarrow> status_true c (l @ m) st"
  by (auto simp: status_true_def intro: phase_done_append)

lemma inv_same_files: "service_inv y c w \<Longrightarrow> fw_Files f = fw_Files (sv_Files w) \<Longrightarrow> service_inv y c (w\<lparr>sv_Files := f\<rparr>)"
  by (simp add: service_inv_def conf_now_def status_now_def)

text \<open>Reading keeps everything.\<close>

definition reads :: "(file_world, 'e, 'a) stateful \<Rightarrow> bool" where
  "reads m \<longleftrightarrow> (\<forall>f. fw_Files (snd (m f)) = fw_Files f)"

lemma readsD: "reads m \<Longrightarrow> m f = (r, f') \<Longrightarrow> fw_Files f' = fw_Files f"
  unfolding reads_def by (metis snd_conv)

lemma reads_bind: "reads m \<Longrightarrow> (\<And>x. reads (k x)) \<Longrightarrow> reads (io_bind m k)"
  by (auto simp: reads_def io_bind_def split: prod.splits sum.splits) (metis snd_conv)+

lemma reads_handle: "(\<And>f r f'. m f = (r, f') \<Longrightarrow> fw_Files f' = fw_Files f) \<Longrightarrow> (\<And>e. reads (h e)) \<Longrightarrow> (\<And>x. reads (k x)) \<Longrightarrow>
    reads (io_handle m h k)"
  by (auto simp: reads_def io_handle_def split: prod.splits sum.splits)

lemma reads_simple:
  "reads (io_return x)" "reads (io_fail e)" "reads (from_yaml z)" "reads (file_io (os_Stat p))" "reads (file_io (os_ReadFile p))"
  using effects(1)[of p] effects(2)[of p]
  by (auto simp: reads_def io_return_def io_fail_def from_yaml_def file_io_def io_map_err_def split: option.splits prod.splits)

lemma reads_files: "reads (ReadConfFile y)" "reads (readConf env)" "reads (ReadSriovResult y)" "reads ReadSriovSupportedNics"
proof -
  show r: "reads (ReadConfFile y)" for y unfolding ReadConfFile_def by (intro reads_bind reads_simple)
  show "reads (readConf env)" unfolding readConf_def
    by (rule reads_handle, erule readsD[OF r], rule reads_handle, erule effects(1)) (simp_all add: reads_simple)
  show "reads (ReadSriovResult y)" unfolding ReadSriovResult_def
    by (rule reads_handle, erule effects(1)) (auto intro!: reads_bind reads_simple)
  show "reads ReadSriovSupportedNics" unfolding ReadSriovSupportedNics_def by (intro reads_bind reads_simple)
qed

text \<open>Triples for the steps of the service; the invariant also holds after errors.\<close>

abbreviation keeps_true :: "yaml \<Rightarrow> SriovConfig \<Rightarrow> 'a svio \<Rightarrow> bool" where
  "keeps_true y c m \<equiv> io_triple (service_inv y c) m (\<lambda>_. service_inv y c) (service_inv y c)"

lemma files_reads:
  assumes "reads m"
  shows "io_triple (service_inv y c) (files g m)
    (\<lambda>x w. service_inv y c w \<and> (\<exists>f f'. m f = (Inr x, f') \<and> fw_Files f = fw_Files (sv_Files w))) (service_inv y c)"
proof (rule io_tripleI)
  fix w e w' assume "service_inv y c w" "files g m w = (Inl e, w')"
  then show "service_inv y c w'"
    using readsD[OF assms] by (auto simp: files_def intro!: inv_same_files split: prod.splits)
next
  fix w x w' assume i: "service_inv y c w" and m: "files g m w = (Inr x, w')"
  obtain f where f: "m (sv_Files w) = (Inr x, f)" "w' = w\<lparr>sv_Files := f\<rparr>"
    using m by (auto simp: files_def split: prod.splits)
  have "fw_Files f = fw_Files (sv_Files w)" by (rule readsD[OF assms f(1)])
  then show "service_inv y c w' \<and> (\<exists>f f'. m f = (Inr x, f') \<and> fw_Files f = fw_Files (sv_Files w'))"
    using inv_same_files[OF i] f by force
qed

lemma readConf_ok:
  assumes "readConf env f = (Inr (Some c), f')"
  shows "conf_now (sve_Yaml env) f = Some c"
proof -
  obtain r f1 where r: "ReadConfFile (sve_Yaml env) f = (r, f1)" by (cases "ReadConfFile (sve_Yaml env) f")
  have same: "fw_Files f1 = fw_Files f" by (rule readsD[OF reads_files(1) r])
  show ?thesis
  proof (cases r)
    case (Inr x)
    then have "x = Some c" using assms r by (simp add: readConf_def io_handle_def io_return_def)
    then show ?thesis using r Inr
      by (auto simp: ReadConfFile_def conf_now_def from_yaml_def io_return_def io_fail_def file_io_ok elim!: bind_ok
          dest!: read_ok split: option.splits document.splits)
  next
    case (Inl e)
    obtain q f2 where s: "os_Stat SriovSystemdConfigPath f1 = (q, f2)" by (cases "os_Stat SriovSystemdConfigPath f1")
    have "q = Inl IsNotExist" "c = default_config"
      using assms r s Inl by (auto simp: readConf_def io_handle_def io_return_def io_fail_def split: sum.splits if_splits)
    then show ?thesis using stat_cases[OF s] same by (simp add: conf_now_def)
  qed
qed

lemma ReadSriovResult_ok:
  assumes "ReadSriovResult y f = (Inr (Some r), f')"
  shows "status_now y f = Some (sr_SyncStatus r)"
proof -
  obtain q f1 where s: "os_Stat SriovSystemdResultPath f = (q, f1)" by (cases "os_Stat SriovSystemdResultPath f")
  obtain u where q: "q = Inr u"
    using assms s by (auto simp: ReadSriovResult_def io_handle_def io_return_def io_fail_def split: sum.splits if_splits)
  obtain t f2 d where t: "os_ReadFile SriovSystemdResultPath f1 = (Inr t, f2)" "ym_ResultOf y t = Some d" "result_of d = Some r"
    using assms s q unfolding ReadSriovResult_def
    by (auto simp: io_handle_def from_yaml_def io_return_def io_fail_def file_io_ok elim!: bind_ok split: option.splits)
  show ?thesis using stat_cases[OF s] read_ok[OF t(1)] t(2,3) by (simp add: status_now_def)
qed

lemma now_cong: "fw_Files f = fw_Files f' \<Longrightarrow> conf_now y f = conf_now y f' \<and> status_now y f = status_now y f'"
  by (simp add: conf_now_def status_now_def)

lemma newServiceConfig_triple:
  "io_triple (service_inv (sve_Yaml env) c) (newServiceConfig env)
    (\<lambda>(conf, plat) w. conf = c \<and> service_inv (sve_Yaml env) c w) (service_inv (sve_Yaml env) c)"
proof (cases "sve_NewHostHelpers env")
  case None
  let ?I = "service_inv (sve_Yaml env) c"
  have body: "io_triple (\<lambda>w. ?I w \<and> (\<exists>f f'. readConf env f = (Inr x, f') \<and> fw_Files f = fw_Files (sv_Files w)))
      (case x of None \<Rightarrow> io_fail (ServicePanic NilDereference)
       | Some conf \<Rightarrow> (case platform_New (sc_PlatformType conf) of None \<Rightarrow> io_fail (UnknownPlatform (sc_PlatformType conf))
          | Some plat \<Rightarrow> io_return (conf, plat))) (\<lambda>(conf, plat) w. conf = c \<and> ?I w) ?I" for x
  proof (cases x)
    case (Some conf)
    have "conf = c" if "?I w" "readConf env f = (Inr x, f')" "fw_Files f = fw_Files (sv_Files w)" for w f f'
    proof -
      have "conf_now (sve_Yaml env) f = Some conf" using that(2) Some by (intro readConf_ok) simp
      then show ?thesis using that(1) now_cong[OF that(3), of "sve_Yaml env"] by (simp add: service_inv_def)
    qed
    then show ?thesis using Some
      by (cases "platform_New (sc_PlatformType conf)") (auto intro!: io_triple_fail io_triple_return)
  qed (auto intro!: io_triple_fail)
  show ?thesis unfolding newServiceConfig_def None option.case by (rule io_triple_bind[OF files_reads[OF reads_files(2)] body])
qed (simp add: newServiceConfig_def io_triple_fail)

lemma keeps_simple:
  "keeps_true y c (sv_note e)" "keeps_true y c (sv_check g h)" "keeps_true y c (sv_ask g q)" "keeps_true y c (InitNicIDMapFromList ids)"
  "keeps_true y c (io_return x)" "keeps_true y c (io_fail err)" "keeps_true y c (io_lift r)"
  by (auto simp: io_triple_def sv_note_def sv_check_def sv_ask_def InitNicIDMapFromList_def io_return_def io_fail_def io_lift_def
      service_inv_def intro: status_true_append split: option.splits sum.splits)

lemma keeps_files: "reads m \<Longrightarrow> keeps_true y c (files g m)"
  by (rule io_triple_conseq[OF files_reads]) auto

lemma keeps_initNics: "keeps_true y c initSupportedNics"
  unfolding initSupportedNics_def by (rule io_triple_bind[OF keeps_files[OF reads_files(4)] keeps_simple(4)])

lemma keeps_wait: "keeps_true y c (waitForDevicesInitialization env conf)"
  by (auto simp: waitForDevicesInitialization_def Let_def intro!: keeps_simple)

text \<open>A phase that must stay done while the invariant is kept.\<close>

definition done_inv :: "yaml \<Rightarrow> SriovConfig \<Rightarrow> string list \<Rightarrow> service_world \<Rightarrow> bool" where
  "done_inv y c phases w \<longleftrightarrow> service_inv y c w \<and> list_all (\<lambda>ph. phase_done ph c (sv_Log w)) phases"

lemma done_inv_simple:
  "io_triple (done_inv y c ps) (sv_note e) (\<lambda>_. done_inv y c ps) (service_inv y c)"
  "io_triple (done_inv y c ps) (sv_check g h) (\<lambda>_. done_inv y c ps) (service_inv y c)"
  "io_triple (done_inv y c ps) (sv_ask g q) (\<lambda>_. done_inv y c ps) (service_inv y c)"
  "io_triple (done_inv y c ps) (io_return x) (\<lambda>_. done_inv y c ps) (service_inv y c)"
  "io_triple (done_inv y c ps) (io_lift r) (\<lambda>_. done_inv y c ps) (service_inv y c)"
  using keeps_simple(1)[of y c e]
  by (auto simp: io_triple_def sv_note_def sv_check_def sv_ask_def io_return_def io_lift_def done_inv_def list_all_iff
      intro: phase_done_append split: option.splits sum.splits)

lemma note_done:
  assumes "done_event ph (ns_Interfaces (sc_Spec c)) e"
  shows "io_triple (done_inv y c ps) (sv_note e) (\<lambda>_. done_inv y c (ph # ps)) (service_inv y c)"
  using done_inv_simple(1)[of y c ps e] assms
  by (auto simp: io_triple_def sv_note_def done_inv_def phase_done_def)

lemma callPlugin_triple:
  "io_triple (done_inv y c ps) (callPlugin env c plat phase) (\<lambda>_. done_inv y c (phase # ps)) (service_inv y c)"
proof -
  let ?I = "done_inv y c ps" and ?E = "service_inv y c" and ?D = "\<lambda>_. done_inv y c (phase # ps)"
  have get: "io_triple ?I (getPlugin env plat phase) (\<lambda>_. ?I) ?E"
    unfolding getPlugin_def
    by (rule io_triple_bind[OF done_inv_simple(5)])
      (auto split: option.split intro!: io_triple_bind[OF done_inv_simple(2)] done_inv_simple)
  have state: "io_triple ?I (getNetworkNodeState env c phase) (\<lambda>s w. ?I w \<and> state_Spec s = sc_Spec c) ?E"
    unfolding getNetworkNodeState_def
    by (rule io_triple_bind[OF done_inv_simple(3)], rule io_triple_bind[where R = "\<lambda>_. ?I"])
      (auto intro!: done_inv_simple io_triple_return)
  have applied: "io_triple (\<lambda>w. ?I w \<and> state_Spec s = sc_Spec c)
      (io_bind (sv_check OnNodeStateChangeFailed (\<lambda>l. sve_OnNodeStateChange env l p s)) (\<lambda>_.
       io_bind (sv_check ApplyFailed (\<lambda>l. sve_Apply env l p s)) (\<lambda>_.
         sv_note (PluginApplied phase p (state_Spec s))))) ?D ?E" for p s
  proof (rule io_triple_pre[where P' = ?I and b = "state_Spec s = sc_Spec c"])
    assume "state_Spec s = sc_Spec c"
    then have "io_triple ?I (sv_note (PluginApplied phase p (state_Spec s))) ?D ?E" by (intro note_done) simp
    then show "io_triple ?I (io_bind (sv_check OnNodeStateChangeFailed (\<lambda>l. sve_OnNodeStateChange env l p s)) (\<lambda>_.
       io_bind (sv_check ApplyFailed (\<lambda>l. sve_Apply env l p s)) (\<lambda>_.
         sv_note (PluginApplied phase p (state_Spec s))))) ?D ?E"
      by (intro io_triple_bind[OF done_inv_simple(2)])
  qed simp
  have skipped: "io_triple ?I (sv_note (PluginSkipped phase (sc_Spec c))) ?D ?E" by (rule note_done) simp
  show ?thesis unfolding callPlugin_def
    by (rule io_triple_bind[OF get]) (auto split: option.split intro!: skipped io_triple_bind[OF state applied])
qed

text \<open>Writing a result that is true.\<close>

lemma updateResult_triple:
  assumes "yaml_ok (sve_Yaml env)" and "\<And>w. P w \<Longrightarrow> service_inv (sve_Yaml env) c w \<and> status_true c (sv_Log w) status"
  shows "io_triple P (updateResult env status msg) (\<lambda>_. service_inv (sve_Yaml env) c) (service_inv (sve_Yaml env) c)"
proof -
  let ?y = "sve_Yaml env" and ?r = "\<lparr>sr_SyncStatus = status, sr_LastSyncError = msg\<rparr>"
  have "service_inv ?y c w'" if run: "P w" "updateResult env status msg w = (r, w')" for w r w'
  proof -
    have i: "service_inv ?y c w" "status_true c (sv_Log w) status" using assms(2)[OF run(1)] by auto
    obtain q f where f: "WriteSriovResult ?y ?r (sv_Files w) = (q, f)" "w' = w\<lparr>sv_Files := f\<rparr>"
      using run(2) by (auto simp: updateResult_def files_def split: prod.splits)
    have e: "ym_ResultOf ?y [] = Some NoDocument" "\<And>t. ym_Result ?y ?r = Some t \<Longrightarrow> ym_ResultOf ?y t = Some (Document ?r)"
      using assms(1) by (auto simp: yaml_ok_def)
    have z: "status_true c (sv_Log w) []" by (simp add: status_true_def)
    show ?thesis using write_result_effect[OF f(1)] i f(2) e z
      by (auto simp: service_inv_def conf_now_def status_now_def result_of_def zero_result_def)
  qed
  then show ?thesis by (intro io_tripleI) auto
qed

lemma failed_triple:
  assumes "yaml_ok (sve_Yaml env)"
  shows "keeps_true (sve_Yaml env) c (updateSriovResultErr env phase e)"
proof -
  have "keeps_true (sve_Yaml env) c (updateResult env SyncStatusFailed msg)" for msg
    by (rule updateResult_triple[OF assms]) (simp add: status_true_def)
  then have "keeps_true (sve_Yaml env) c (io_bind (updateResult env SyncStatusFailed msg) (\<lambda>_. io_fail err))" for msg err
    by (rule io_triple_bind[OF _ keeps_simple(6)])
  then show ?thesis by (cases e) (auto simp: updateSriovResultErr_def intro!: keeps_simple)
qed

lemma remove_result_triple:
  "io_triple (service_inv y c) (files g RemoveSriovResult_systemd) (\<lambda>_. done_inv y c []) (service_inv y c)"
proof -
  have "service_inv y c w'" if run: "service_inv y c w" "files g RemoveSriovResult_systemd w = (r, w')" for w r w'
  proof -
    obtain q f where f: "os_Remove SriovSystemdResultPath (sv_Files w) = (q, f)" "w' = w\<lparr>sv_Files := f\<rparr>"
      using run(2)
      by (cases "os_Remove SriovSystemdResultPath (sv_Files w)")
        (auto simp: files_def RemoveSriovResult_systemd_def remove_quietly_def io_handle_def io_return_def io_fail_def
          split: sum.splits prod.splits if_splits)
    then show ?thesis using effects(6)[OF f(1)] run(1)
      by (auto simp: service_inv_def conf_now_def status_now_def)
  qed
  then show ?thesis by (intro io_tripleI) (auto simp: done_inv_def)
qed

lemma phasePre_triple:
  "io_triple (service_inv y c) (phasePre env c plat) (\<lambda>_. done_inv y c [PhasePre]) (service_inv y c)"
  unfolding phasePre_def
  by (rule io_triple_bind[OF remove_result_triple], (rule io_triple_bind[OF done_inv_simple(1)])+, rule callPlugin_triple)

lemma phasePost_triple:
  "io_triple (service_inv (sve_Yaml env) c) (phasePost env c plat) (\<lambda>_. done_inv (sve_Yaml env) c [PhasePost, PhasePre])
     (service_inv (sve_Yaml env) c)"
proof -
  let ?I = "service_inv (sve_Yaml env) c"
  let ?seen = "\<lambda>x w. ?I w \<and> (\<exists>f f'. ReadSriovResult (sve_Yaml env) f = (Inr x, f') \<and> fw_Files f = fw_Files (sv_Files w))"
  have "io_triple (?seen x)
      (case x of None \<Rightarrow> io_fail (ServicePanic NilDereference)
       | Some r \<Rightarrow> if sr_SyncStatus r \<noteq> SyncStatusInProgress then io_fail (UnexpectedPreResult r)
           else callPlugin env c plat PhasePost) (\<lambda>_. done_inv (sve_Yaml env) c [PhasePost, PhasePre]) ?I" for x
  proof (cases x)
    case (Some r)
    have "done_inv (sve_Yaml env) c [PhasePre] w" if seen: "?seen x w" "sr_SyncStatus r = SyncStatusInProgress" for w
    proof -
      obtain f f' where f: "ReadSriovResult (sve_Yaml env) f = (Inr x, f')" "fw_Files f = fw_Files (sv_Files w)" using seen(1) by blast
      have "status_now (sve_Yaml env) (sv_Files w) = Some SyncStatusInProgress"
        using ReadSriovResult_ok[of "sve_Yaml env" f r f'] f Some seen(2) now_cong[OF f(2), of "sve_Yaml env"] by simp
      then show ?thesis using seen(1) by (auto simp: done_inv_def service_inv_def status_true_def)
    qed
    then show ?thesis using Some
      by (auto intro!: io_triple_fail io_triple_weaken[OF callPlugin_triple])
  qed (auto intro!: io_triple_fail)
  then show ?thesis unfolding phasePost_def by (rule io_triple_bind[OF files_reads[OF reads_files(3)]])
qed

lemma service_triple:
  assumes "yaml_ok (sve_Yaml env)"
  shows "keeps_true (sve_Yaml env) c (runServiceCmd env phase)"
proof (cases "phase = PhasePre \<or> phase = PhasePost")
  case True
  let ?y = "sve_Yaml env"
  let ?phases = "if phase = PhasePre then [PhasePre] else [PhasePost, PhasePre]"
  have report: "io_triple (done_inv ?y c ?phases) (updateSriovResultOk env phase) (\<lambda>_. service_inv ?y c) (service_inv ?y c)"
    unfolding updateSriovResultOk_def
    by (rule updateResult_triple[OF assms]) (auto simp: done_inv_def status_true_def split: if_splits)
  have run: "io_triple (service_inv ?y c) (if phase = PhasePre then phasePre env c plat else phasePost env c plat)
      (\<lambda>_. done_inv ?y c ?phases) (service_inv ?y c)" for plat
    using phasePre_triple[of ?y c env plat] phasePost_triple[of env c plat] by simp
  have phases: "keeps_true ?y c (io_handle (if phase = PhasePre then phasePre env c plat else phasePost env c plat)
      (updateSriovResultErr env phase) (\<lambda>_. updateSriovResultOk env phase))" for plat
    by (rule io_triple_handle[OF run failed_triple[OF assms] report])
  note init = io_triple_handle[OF keeps_simple(2) failed_triple[OF assms] phases]
  note rest = io_triple_handle[OF keeps_initNics failed_triple[OF assms] io_triple_bind[OF keeps_wait init]]
  have "keeps_true ?y c (io_bind (newServiceConfig env) (\<lambda>(conf, plat).
        io_handle initSupportedNics (updateSriovResultErr env phase) (\<lambda>_.
        io_bind (waitForDevicesInitialization env conf) (\<lambda>_.
        io_handle (sv_check PlatformInitFailed (\<lambda>l. sve_PlatformInit env l plat)) (updateSriovResultErr env phase) (\<lambda>_.
        io_handle (if phase = PhasePre then phasePre env conf plat else phasePost env conf plat)
          (updateSriovResultErr env phase) (\<lambda>_. updateSriovResultOk env phase))))))"
    by (rule io_triple_bind_pair[OF newServiceConfig_triple], rule io_triple_pre) (use rest in auto)
  then show ?thesis using True unfolding runServiceCmd_def by auto
qed (auto simp: runServiceCmd_def intro!: keeps_simple)

section \<open>Runs of the systemd mode\<close>

text \<open>
  The result is true of the configuration that the service would use; a configuration file that cannot be read, which a
  failed write may leave, has no result that says the service got on with it.
\<close>

definition truthful :: "yaml \<Rightarrow> service_world \<Rightarrow> bool" where
  "truthful y w \<longleftrightarrow>
     (case conf_now y (sv_Files w) of
        Some c \<Rightarrow> service_inv y c w
      | None \<Rightarrow> status_now y (sv_Files w) \<notin> {Some SyncStatusInProgress, Some SyncStatusSucceeded})"

text \<open>
  The service runs in either phase, the daemon writes its files, and any call may fail. The last argument says whether the
  result may be out of date: a write of the daemon failed, and since then no write reported a change (and so removed the
  result) and the first phase of the service did not succeed.
\<close>

inductive systemd_run :: "yaml \<Rightarrow> service_world \<Rightarrow> service_world \<Rightarrow> bool \<Rightarrow> bool" for y w0 where
  start: "systemd_run y w0 w0 False"
| service: "systemd_run y w0 w stale \<Longrightarrow> sve_Yaml env = y \<Longrightarrow> runServiceCmd env phase w = (r, w') \<Longrightarrow>
    systemd_run y w0 w' (stale \<and> (phase \<noteq> PhasePre \<or> isl r))"
| daemon: "systemd_run y w0 w stale \<Longrightarrow> write_systemd_files y vars nicIdMap s (sv_Files w) = (r, f) \<Longrightarrow>
    systemd_run y w0 (w\<lparr>sv_Files := f\<rparr>) (case r of Inl _ \<Rightarrow> True | Inr modified \<Rightarrow> stale \<and> \<not> modified)"
| faults: "systemd_run y w0 w stale \<Longrightarrow> systemd_run y w0 (w\<lparr>sv_Files := (sv_Files w)\<lparr>fw_Faults := fs\<rparr>\<rparr>) stale"

lemma remove_ok:
  assumes "remove_quietly p f = (Inr u, f')"
  shows "fw_Files f' = (fw_Files f)(p := None)"
proof -
  obtain r f1 where r: "os_Remove p f = (r, f1)" by (cases "os_Remove p f")
  have "f' = f1" "r = Inr () \<or> r = Inl IsNotExist"
    using assms r by (auto simp: remove_quietly_def io_handle_def io_return_def io_fail_def split: sum.splits if_splits)
  then show ?thesis using r
    by (auto simp: os_Remove_def os_call_def Let_def split: list.splits os_fault.splits option.splits)
qed

lemma write_nics_ok:
  assumes "WriteSriovSupportedNics_systemd nics f = (Inr u, f')" and "p \<noteq> SriovSystemdSupportedNicPath"
  shows "fw_Files f' p = fw_Files f p"
  using assms unfolding WriteSriovSupportedNics_systemd_def
  by (auto elim!: bind_ok simp: file_io_ok dest!: create_if_missing_ok write_ok)

lemma truthfulI: "service_inv y c w \<Longrightarrow> truthful y w"
  by (simp add: truthful_def service_inv_def)

lemma write_files_inv:
  assumes "\<not> b \<Longrightarrow> truthful y w" and "yaml_ok y" and "write_systemd_files y vars nics s (sv_Files w) = (Inr b, f)"
  shows "service_inv y (config_of_state vars s) (w\<lparr>sv_Files := f\<rparr>)"
proof -
  let ?c = "config_of_state vars s"
  obtain f1 f2 where wr: "WriteConfFile_systemd y vars s (sv_Files w) = (Inr b, f1)"
    and rm: "io_when b RemoveSriovResult_systemd f1 = (Inr (), f2)"
    and nics: "WriteSriovSupportedNics_systemd nics f2 = (Inr (), f)"
    using assms(3) unfolding write_systemd_files_def by (auto elim!: bind_ok simp: io_return_def)
  obtain t where t: "ym_Config y ?c = Some t" "fw_Files f1 = (fw_Files (sv_Files w))(SriovSystemdConfigPath \<mapsto> t)"
      "b \<longleftrightarrow> fw_Files (sv_Files w) SriovSystemdConfigPath \<noteq> Some t \<and>
         (fw_Files (sv_Files w) SriovSystemdConfigPath \<noteq> None \<or> ns_Interfaces (state_Spec s) \<noteq> [])"
    by (rule write_conf_ok[OF wr assms(2)])
  have d: "ym_ConfigOf y t = Some (Document ?c)" using t(1) assms(2) by (simp add: yaml_ok_def)
  have f: "fw_Files f p = fw_Files f2 p" if "p \<noteq> SriovSystemdSupportedNicPath" for p by (rule write_nics_ok[OF nics that])
  have f2: "fw_Files f2 = (if b then (fw_Files f1)(SriovSystemdResultPath := None) else fw_Files f1)"
    using rm remove_ok[of SriovSystemdResultPath f1 "()" f2]
    by (auto simp: io_when_def RemoveSriovResult_systemd_def io_return_def)
  have conf: "conf_now y f = Some ?c" using f f2 t(2) d by (simp add: conf_now_def)
  show ?thesis
  proof (cases b)
    case True
    then have "status_now y f = None" using f f2 by (simp add: status_now_def)
    then show ?thesis using conf by (simp add: service_inv_def)
  next
    case False
    have st: "status_now y f = status_now y (sv_Files w)" using False f f2 t(2) by (simp add: status_now_def)
    obtain c where c: "conf_now y (sv_Files w) = Some c" "ns_Interfaces (sc_Spec c) = ns_Interfaces (sc_Spec ?c)"
      using False t(3) d
      by (cases "fw_Files (sv_Files w) SriovSystemdConfigPath")
        (auto simp: conf_now_def default_config_def zero_spec_def config_of_state_def)
    then have "service_inv y c w" using assms(1)[OF False] by (simp add: truthful_def)
    then show ?thesis using c conf st by (simp add: service_inv_def status_true_def phase_done_def)
  qed
qed

section \<open>The service without a configuration\<close>

lemma no_config_no_change:
  assumes "conf_now (sve_Yaml env) (sv_Files w) = None" and "runServiceCmd env phase w = (r, w')"
  shows "fw_Files (sv_Files w') = fw_Files (sv_Files w)" "sv_Log w' = sv_Log w"
proof -
  obtain q f where q: "readConf env (sv_Files w) = (q, f)" by (cases "readConf env (sv_Files w)")
  have same: "fw_Files f = fw_Files (sv_Files w)" by (rule readsD[OF reads_files(2) q])
  have "q \<noteq> Inr (Some c)" for c using readConf_ok[of env "sv_Files w" c f] q assms(1) by auto
  then have "\<exists>e. newServiceConfig env w = (Inl e, w) \<or> newServiceConfig env w = (Inl e, w\<lparr>sv_Files := f\<rparr>)"
    using q by (auto simp: newServiceConfig_def files_def io_bind_def io_fail_def split: option.splits sum.splits)
  then have "w' = w \<or> w' = w\<lparr>sv_Files := f\<rparr>"
    using assms(2) by (auto simp: runServiceCmd_def io_fail_def io_bind_def split: if_splits)
  then show "fw_Files (sv_Files w') = fw_Files (sv_Files w)" "sv_Log w' = sv_Log w" using same by auto
qed

lemma service_keeps_truthful:
  assumes "truthful (sve_Yaml env) w" and "yaml_ok (sve_Yaml env)" and "runServiceCmd env phase w = (r, w')"
  shows "truthful (sve_Yaml env) w'"
proof (cases "conf_now (sve_Yaml env) (sv_Files w)")
  case None
  then show ?thesis
    using assms(1) now_cong[OF no_config_no_change(1)[OF None assms(3)], of "sve_Yaml env"] by (simp add: truthful_def)
next
  case (Some c)
  then have "service_inv (sve_Yaml env) c w" using assms(1) by (simp add: truthful_def)
  then have "case r of Inl e \<Rightarrow> service_inv (sve_Yaml env) c w' | Inr x \<Rightarrow> service_inv (sve_Yaml env) c w'"
    using io_tripleD[OF service_triple[OF assms(2), of c phase] _ assms(3)] by blast
  then show ?thesis by (auto intro: truthfulI split: sum.splits)
qed

section \<open>The first phase makes the result true again\<close>

definition conf_is :: "yaml \<Rightarrow> SriovConfig \<Rightarrow> service_world \<Rightarrow> bool" where
  "conf_is y c w \<longleftrightarrow> conf_now y (sv_Files w) = Some c"

abbreviation keeps_conf :: "yaml \<Rightarrow> SriovConfig \<Rightarrow> 'a svio \<Rightarrow> bool" where
  "keeps_conf y c m \<equiv> io_triple (conf_is y c) m (\<lambda>_. conf_is y c) (\<lambda>_. True)"

lemma conf_is_files:
  assumes "reads m"
  shows "keeps_conf y c (files g m)"
proof (rule io_tripleI)
  fix w x w' assume c: "conf_is y c w" and r: "files g m w = (Inr x, w')"
  then have "m (sv_Files w) = (Inr x, sv_Files w')" by (auto simp: files_def split: prod.splits)
  then show "conf_is y c w'" using now_cong[OF readsD[OF assms], of _ _ _ y] c by (simp add: conf_is_def)
qed simp

lemma conf_is_simple:
  "keeps_conf y c (sv_note e)" "keeps_conf y c (sv_check g h)" "keeps_conf y c (InitNicIDMapFromList ids)" "keeps_conf y c (io_return x)"
  by (auto simp: io_triple_def conf_is_def sv_note_def sv_check_def InitNicIDMapFromList_def io_return_def split: option.splits)

lemma conf_is_new: "io_triple (\<lambda>_. True) (newServiceConfig env) (\<lambda>(conf, plat) w. conf_is (sve_Yaml env) conf w) (\<lambda>_. True)"
proof (rule io_tripleI)
  fix w x w' assume "newServiceConfig env w = (Inr x, w')"
  then obtain conf plat where x: "x = (conf, plat)" and r: "readConf env (sv_Files w) = (Inr (Some conf), sv_Files w')"
    by (auto simp: newServiceConfig_def files_def io_fail_def io_return_def elim!: bind_ok split: option.splits prod.splits)
  have "conf_now (sve_Yaml env) (sv_Files w') = conf_now (sve_Yaml env) (sv_Files w)"
    using now_cong[OF readsD[OF reads_files(2) r]] by simp
  then show "(\<lambda>(conf, plat) w. conf_is (sve_Yaml env) conf w) x w'" using readConf_ok[OF r] x by (simp add: conf_is_def)
qed simp

text \<open>An error is reported, and the service ends with it.\<close>

lemma error_ends: "io_triple (\<lambda>_. True) (updateSriovResultErr env phase e) Q (\<lambda>_. True)"
  by (auto simp: io_triple_def updateSriovResultErr_def io_bind_def io_fail_def split: service_error.splits prod.splits sum.splits)

lemma removed_result: "io_triple (conf_is y c) (files g RemoveSriovResult_systemd) (\<lambda>_. done_inv y c []) (\<lambda>_. True)"
proof (rule io_tripleI)
  fix w u w' assume c: "conf_is y c w" and r: "files g RemoveSriovResult_systemd w = (Inr u, w')"
  then have "remove_quietly SriovSystemdResultPath (sv_Files w) = (Inr u, sv_Files w')"
    by (auto simp: files_def RemoveSriovResult_systemd_def split: prod.splits)
  then have "fw_Files (sv_Files w') = (fw_Files (sv_Files w))(SriovSystemdResultPath := None)" by (rule remove_ok)
  then show "done_inv y c [] w'" using c by (simp add: done_inv_def service_inv_def conf_is_def conf_now_def status_now_def)
qed simp

lemma io_triple_error: "io_triple P m Q E \<Longrightarrow> io_triple P m Q (\<lambda>_. True)"
  by (erule io_triple_conseq) simp_all

lemma phasePre_restores:
  "io_triple (conf_is y c) (phasePre env c plat) (\<lambda>_. done_inv y c [PhasePre]) (\<lambda>_. True)"
  unfolding phasePre_def
  by (rule io_triple_bind[OF removed_result], (rule io_triple_bind[OF io_triple_error[OF done_inv_simple(1)]])+,
      rule io_triple_error[OF callPlugin_triple])

lemma pre_phase_restores:
  assumes "yaml_ok (sve_Yaml env)" and "runServiceCmd env PhasePre w = (Inr u, w')"
  shows "truthful (sve_Yaml env) w'"
proof -
  let ?y = "sve_Yaml env"
  let ?Q = "\<lambda>_. truthful ?y" and ?E = "\<lambda>_. True"
  have report: "io_triple (done_inv ?y c [PhasePre]) (updateSriovResultOk env PhasePre) ?Q ?E" for c
    unfolding updateSriovResultOk_def
    by (rule io_triple_conseq[OF updateResult_triple[OF assms(1), where P = "done_inv ?y c [PhasePre]"]])
      (auto simp: done_inv_def status_true_def intro: truthfulI)
  note pre = io_triple_handle[OF phasePre_restores error_ends report]
  note init = io_triple_handle[OF conf_is_simple(2) error_ends pre]
  have wait: "keeps_conf ?y c (waitForDevicesInitialization env conf)" for c conf
    by (auto simp: waitForDevicesInitialization_def Let_def intro!: conf_is_simple)
  have nics: "keeps_conf ?y c initSupportedNics" for c
    unfolding initSupportedNics_def by (rule io_triple_bind[OF conf_is_files[OF reads_files(4)] conf_is_simple(3)])
  note rest = io_triple_handle[OF nics error_ends io_triple_bind[OF wait init]]
  have "io_triple (\<lambda>_. True) (runServiceCmd env PhasePre) ?Q ?E"
    unfolding runServiceCmd_def by (simp, rule io_triple_bind_pair[OF conf_is_new], rule rest)
  then show ?thesis using io_tripleD assms(2) by fastforce
qed

lemma systemd_run_truthful:
  assumes "systemd_run y w0 w stale" and "yaml_ok y" and "truthful y w0"
  shows "stale \<or> truthful y w"
  using assms(1)
proof (induction rule: systemd_run.induct)
  case start
  then show ?case using assms(3) by simp
next
  case (service w stale env phase r w')
  then show ?case
    using service_keeps_truthful[of env w phase r w'] pre_phase_restores[of env w _ w'] assms(2) by (cases r) auto
next
  case (daemon w stale vars nicIdMap s r f)
  then show ?case using write_files_inv[of _ y w vars nicIdMap s f] assms(2) by (cases r) (auto intro: truthfulI)
next
  case (faults w stale fs)
  have now: "conf_now y ((sv_Files w)\<lparr>fw_Faults := fs\<rparr>) = conf_now y (sv_Files w)"
    "status_now y ((sv_Files w)\<lparr>fw_Faults := fs\<rparr>) = status_now y (sv_Files w)"
    by (simp_all add: conf_now_def status_now_def)
  have "truthful y (w\<lparr>sv_Files := (sv_Files w)\<lparr>fw_Faults := fs\<rparr>\<rparr>) = truthful y w"
    by (cases "conf_now y (sv_Files w)") (simp_all add: truthful_def service_inv_def now)
  then show ?case using faults by simp
qed

text \<open>
  C3: the result that the systemd service leaves for the daemon is true. In every run of the service in its two phases and of
  the daemon's writes, whatever calls fail and wherever, a result that says succeeded means that both phases ran
  without error for the interfaces of the configuration file as it is now. The one exception is a result that may be out of
  date: a write of the daemon failed, and since then no later write reported a change and the first phase of the service
  did not succeed.
\<close>

theorem service_result_true:
  assumes "yaml_ok y" and "fw_Files (sv_Files w) SriovSystemdConfigPath = None" "fw_Files (sv_Files w) SriovSystemdResultPath = None"
    and "systemd_run y w w' stale" and "status_now y (sv_Files w') = Some SyncStatusSucceeded"
  shows "stale \<or>
    (\<exists>c. conf_now y (sv_Files w') = Some c \<and> phase_done PhasePre c (sv_Log w') \<and> phase_done PhasePost c (sv_Log w'))"
proof -
  have "truthful y w" using assms(2,3) by (simp add: truthful_def service_inv_def conf_now_def status_now_def)
  then have "stale \<or> truthful y w'" by (rule systemd_run_truthful[OF assms(4,1)])
  then show ?thesis using assms(5) by (auto simp: truthful_def service_inv_def status_true_def split: option.splits)
qed

text \<open>A YAML library for one configuration and for results without separator in the status.\<close>

definition sample_systemd_state :: SriovNetworkNodeState where
  "sample_systemd_state = (sample_state ''n'')\<lparr>state_Spec := zero_spec\<lparr>ns_Interfaces := [sample_interface]\<rparr>\<rparr>"

definition sample_systemd_config :: SriovConfig where
  "sample_systemd_config = config_of_state default_config sample_systemd_state"

definition is_sample :: "SriovConfig \<Rightarrow> bool" where
  "is_sample c \<longleftrightarrow>
     ns_Interfaces (sc_Spec c) = [sample_interface] \<and> length (bridges_OVS (ns_Bridges (sc_Spec c))) = 0 \<and>
     sys_RdmaMode (ns_System (sc_Spec c)) = [] \<and> length (sys_OvsConfig (ns_System (sc_Spec c))) = 0 \<and>
     \<not> sc_UnsupportedNics c \<and> sc_PlatformType c = ''Baremetal'' \<and> \<not> sc_ManageSoftwareBridges c \<and> sc_OVSDBSocketPath c = []"

lemma is_sample_eq: "is_sample c \<Longrightarrow> c = sample_systemd_config"
  by (auto simp: is_sample_def sample_systemd_config_def config_of_state_def default_config_def sample_systemd_state_def
      sample_state_def zero_spec_def intro!: SriovConfig.equality SriovNetworkNodeStateSpec.equality Bridges.equality System.equality)

definition sample_yaml :: yaml where
  "sample_yaml = \<lparr>
     ym_Config = (\<lambda>c. if is_sample c then Some ''spec'' else None),
     ym_ConfigOf = (\<lambda>t. if t = [] then Some NoDocument else if t = ''spec'' then Some (Document sample_systemd_config) else None),
     ym_Result = (\<lambda>r. if CHR ''|'' \<in> set (sr_SyncStatus r) then None else Some (sr_SyncStatus r @ ''|'' @ sr_LastSyncError r)),
     ym_ResultOf = (\<lambda>t. if t = [] then Some NoDocument
       else Some (Document \<lparr>sr_SyncStatus = takeWhile (\<lambda>c. c \<noteq> CHR ''|'') t, sr_LastSyncError = tl (dropWhile (\<lambda>c. c \<noteq> CHR ''|'') t)\<rparr>))\<rparr>"

lemma sample_yaml_ok: "yaml_ok sample_yaml"
proof -
  have "takeWhile (\<lambda>c. c \<noteq> CHR ''|'') (s @ CHR ''|'' # e) = s \<and> dropWhile (\<lambda>c. c \<noteq> CHR ''|'') (s @ CHR ''|'' # e) = CHR ''|'' # e"
    if "CHR ''|'' \<notin> set s" for s e
  proof -
    have "\<forall>x\<in>set s. x \<noteq> CHR ''|''" using that by auto
    then show ?thesis by (simp add: takeWhile_append2 dropWhile_append2)
  qed
  then show ?thesis by (auto simp: yaml_ok_def sample_yaml_def dest: is_sample_eq split: if_splits)
qed

definition sample_service :: service_env where
  "sample_service = \<lparr>sve_Yaml = sample_yaml, sve_NewHostHelpers = None, sve_NewPlugin = (\<lambda>_ _. None),
     sve_PlatformInit = (\<lambda>_ _. None), sve_DiscoverSriovDevices = (\<lambda>_. Inr [sample_pf]), sve_DiscoverBridges = (\<lambda>_. Inr \<lparr>bridges_OVS = []\<rparr>),
     sve_OnNodeStateChange = (\<lambda>_ _ _. None), sve_Apply = (\<lambda>_ _ _. None), sve_InterfaceName = (\<lambda>i a. if i < 2 then [] else ''ens1''),
     sve_Delay = (\<lambda>_. 0), sve_ErrorText = (\<lambda>_. ''error'')\<rparr>"

definition sample_host :: service_world where
  "sample_host = \<lparr>sv_Files = \<lparr>fw_Files = Map.empty, fw_Dirs = [], fw_Faults = []\<rparr>, sv_NicIDMap = [], sv_Log = []\<rparr>"

definition sample_written :: service_world where
  "sample_written = sample_host\<lparr>sv_Files := snd (write_systemd_files sample_yaml default_config [''8086 1593 1889''] sample_systemd_state (sv_Files sample_host))\<rparr>"

definition sample_configured :: service_world where
  "sample_configured = snd (runServiceCmd sample_service PhasePost (snd (runServiceCmd sample_service PhasePre sample_written)))"

lemma sample_systemd_run: "systemd_run sample_yaml sample_host sample_configured False"
proof -
  let ?pre = "snd (runServiceCmd sample_service PhasePre sample_written)"
  have y: "sve_Yaml sample_service = sample_yaml" by (simp add: sample_service_def)
  have "fst (write_systemd_files sample_yaml default_config [''8086 1593 1889''] sample_systemd_state (sv_Files sample_host)) = Inr True"
    by code_simp
  then have "write_systemd_files sample_yaml default_config [''8086 1593 1889''] sample_systemd_state (sv_Files sample_host) =
      (Inr True, sv_Files sample_written)"
    by (simp add: sample_written_def prod_eq_iff)
  from systemd_run.daemon[OF systemd_run.start this] have "systemd_run sample_yaml sample_host sample_written False"
    by (simp add: sample_written_def)
  then have "systemd_run sample_yaml sample_host ?pre False"
    using systemd_run.service[OF _ y surjective_pairing] by fastforce
  then show ?thesis unfolding sample_configured_def
    using systemd_run.service[OF _ y surjective_pairing] by fastforce
qed

theorem service_result_true_witness:
  "\<exists>c. conf_now sample_yaml (sv_Files sample_configured) = Some c \<and> phase_done PhasePre c (sv_Log sample_configured) \<and>
     phase_done PhasePost c (sv_Log sample_configured)"
proof -
  have "status_now sample_yaml (sv_Files sample_configured) = Some SyncStatusSucceeded" by code_simp
  then show ?thesis using service_result_true[OF sample_yaml_ok _ _ sample_systemd_run] by (simp add: sample_host_def)
qed

theorem systemd_config_roundtrip_witness:
  "ReadConfFile sample_yaml (snd (WriteConfFile_systemd sample_yaml default_config sample_systemd_state (sv_Files sample_host))) =
     (Inr (Some sample_systemd_config), snd (WriteConfFile_systemd sample_yaml default_config sample_systemd_state (sv_Files sample_host)))"
proof -
  let ?w = "WriteConfFile_systemd sample_yaml default_config sample_systemd_state (sv_Files sample_host)"
  have "fst ?w = Inr True" by code_simp
  then have "?w = (Inr True, snd ?w)" by (metis surjective_pairing)
  then show ?thesis
    using systemd_config_roundtrip[of sample_yaml default_config sample_systemd_state "sv_Files sample_host" True "snd ?w"] sample_yaml_ok
    by (simp add: sample_host_def sample_systemd_config_def)
qed


section \<open>Faults in the protocol of the files\<close>

text \<open>
  A pending reboot is forgotten when the old result cannot be removed. The configuration file is written first; when
  the removal of the result then fails, the next attempt finds the file up to date and reports no change, and the daemon
  reads the result of the old configuration.
\<close>

theorem pending_reboot_forgotten:
  assumes "WriteConfFile_systemd y vars s f = (Inr True, f1)" and "yaml_ok y" and "fw_Faults f1 = [Fails]"
    and "fw_Files f SriovSystemdSupportedNicPath \<noteq> None" and "parent_exists SriovSystemdSupportedNicPath f1"
  shows "\<exists>f2 f3. write_systemd_files y vars nics s f = (Inl (FileError OsError), f2) \<and>
    write_systemd_files y vars nics s f2 = (Inr False, f3) \<and> conf_now y f3 = Some (config_of_state vars s) \<and>
    status_now y f3 = status_now y f"
proof -
  obtain t where t: "ym_Config y (config_of_state vars s) = Some t" "fw_Files f1 = (fw_Files f)(SriovSystemdConfigPath \<mapsto> t)"
    by (rule write_conf_ok[OF assms(1,2)])
  have d: "ym_ConfigOf y t = Some (Document (config_of_state vars s))" using assms(2) t(1) by (simp add: yaml_ok_def)
  let ?f2 = "f1\<lparr>fw_Faults := []\<rparr>"
  let ?f3 = "put_file SriovSystemdSupportedNicPath (concat (map (\<lambda>line. line @ ''\<newline>'') nics)) ?f2"
  have one: "write_systemd_files y vars nics s f = (Inl (FileError OsError), ?f2)"
    using assms(1,3)
    by (simp add: write_systemd_files_def io_bind_def io_when_def RemoveSriovResult_systemd_def remove_quietly_def io_handle_def
        os_Remove_def os_call_def io_fail_def Let_def)
  have "WriteConfFile_systemd y vars s ?f2 = (Inr False, ?f2)"
    using t d by (simp add: WriteConfFile_systemd_def create_if_missing_def Let_def file_defs)
  moreover have "parent_exists SriovSystemdSupportedNicPath ?f2" using assms(5) by (simp add: parent_exists_def)
  ultimately have "write_systemd_files y vars nics s ?f2 = (Inr False, ?f3)"
    using assms(4) t(2)
    by (simp add: write_systemd_files_def WriteSriovSupportedNics_systemd_def create_if_missing_def file_defs)
  moreover have "conf_now y ?f3 = Some (config_of_state vars s)" using t(2) d by (simp add: conf_now_def)
  moreover have "status_now y ?f3 = status_now y f" using t(2) by (simp add: status_now_def)
  ultimately show ?thesis using one by blast
qed

text \<open>A host with the result of an earlier configuration; the removal of the result is the fourth call.\<close>

definition sample_stale :: file_world where
  "sample_stale = \<lparr>fw_Files = [SriovSystemdConfigPath \<mapsto> [], SriovSystemdResultPath \<mapsto> ''Succeeded|'', SriovSystemdSupportedNicPath \<mapsto> []],
     fw_Dirs = [SriovConfBasePath], fw_Faults = [Works, Works, Works, Fails]\<rparr>"

theorem pending_reboot_forgotten_witness:
  "\<exists>f2 f3. write_systemd_files sample_yaml default_config [] sample_systemd_state sample_stale = (Inl (FileError OsError), f2) \<and>
     write_systemd_files sample_yaml default_config [] sample_systemd_state f2 = (Inr False, f3) \<and>
     conf_now sample_yaml f3 = Some sample_systemd_config \<and> status_now sample_yaml f3 = Some SyncStatusSucceeded"
proof -
  let ?w = "WriteConfFile_systemd sample_yaml default_config sample_systemd_state sample_stale"
  have "fst ?w = Inr True \<and> fw_Faults (snd ?w) = [Fails] \<and> parent_exists SriovSystemdSupportedNicPath (snd ?w)" by code_simp
  moreover have "?w = (fst ?w, snd ?w)" by simp
  ultimately have w: "?w = (Inr True, snd ?w)" "fw_Faults (snd ?w) = [Fails]" "parent_exists SriovSystemdSupportedNicPath (snd ?w)"
    by simp_all
  have n: "fw_Files sample_stale SriovSystemdSupportedNicPath \<noteq> None" by (simp add: sample_stale_def)
  have "status_now sample_yaml sample_stale = Some SyncStatusSucceeded" by code_simp
  then show ?thesis
    using pending_reboot_forgotten[OF w(1) sample_yaml_ok w(2) n w(3), of "[]"] by (simp add: sample_systemd_config_def)
qed

text \<open>
  When the first phase left no result, the second phase dereferences a nil pointer: the process ends in a
  panic and leaves no result, where it would report a failure for any other result of the first phase.
\<close>

theorem post_phase_panics:
  assumes "newServiceConfig env w = (Inr (conf, plat), w)" and "fw_Faults (sv_Files w) = []"
    and "fw_Files (sv_Files w) SriovSystemdSupportedNicPath \<noteq> None" and "\<And>l. sve_PlatformInit env l plat = None"
    and "fw_Files (sv_Files w) SriovSystemdResultPath = None" "SriovSystemdResultPath \<notin> set (fw_Dirs (sv_Files w))"
  shows "\<exists>w'. runServiceCmd env PhasePost w = (Inl (ServicePanic NilDereference), w') \<and> sv_Files w' = sv_Files w"
proof -
  obtain t where t: "fw_Files (sv_Files w) SriovSystemdSupportedNicPath = Some t" using assms(3) by auto
  have init: "initSupportedNics w = (Inr (), w\<lparr>sv_NicIDMap := sv_NicIDMap w @ split_on CHR ''\<newline>'' t\<rparr>)"
    using assms(2) t by (simp add: initSupportedNics_def files_def ReadSriovSupportedNics_def InitNicIDMapFromList_def file_defs)
  let ?w1 = "w\<lparr>sv_NicIDMap := sv_NicIDMap w @ split_on CHR ''\<newline>'' t\<rparr>"
  obtain w2 where wait: "waitForDevicesInitialization env conf ?w1 = (Inr (), w2)" "sv_Files w2 = sv_Files w"
    by (cases "sc_PlatformType conf = ''Baremetal''") (simp_all add: waitForDevicesInitialization_def sv_note_def io_return_def)
  have "files ReadResultFailed (ReadSriovResult (sve_Yaml env)) w2 = (Inr None, w2)"
    using assms(2,5,6) wait(2) by (simp add: files_def ReadSriovResult_def file_defs)
  then have post: "phasePost env conf plat w2 = (Inl (ServicePanic NilDereference), w2)"
    by (simp add: phasePost_def io_bind_def io_fail_def)
  have "runServiceCmd env PhasePost w = (Inl (ServicePanic NilDereference), w2)"
    using assms(1,4) init wait(1) post
    by (simp add: runServiceCmd_def io_bind_def io_handle_def sv_check_def updateSriovResultErr_def io_fail_def)
  then show ?thesis using wait(2) by blast
qed

definition sample_no_result :: service_world where
  "sample_no_result = sample_host\<lparr>sv_Files := \<lparr>fw_Files = [SriovSystemdSupportedNicPath \<mapsto> []], fw_Dirs = [SriovConfBasePath], fw_Faults = []\<rparr>\<rparr>"

theorem post_phase_panics_witness:
  "\<exists>w'. runServiceCmd sample_service PhasePost sample_no_result = (Inl (ServicePanic NilDereference), w') \<and>
     sv_Files w' = sv_Files sample_no_result"
proof (rule post_phase_panics)
  show "newServiceConfig sample_service sample_no_result = (Inr (default_config, Baremetal), sample_no_result)"
    by (simp add: newServiceConfig_def files_def readConf_def ReadConfFile_def file_defs sample_service_def sample_no_result_def
        sample_host_def platform_New_def default_config_def)
qed (simp_all add: sample_service_def sample_no_result_def)

end
