(* ===== verification/Plugin_Pods.thy ===== *)
theory Plugin_Pods
  imports Daemon
begin

text \<open>
  The pods of the device plugin on a node: how the config daemon restarts and unblocks them
  (\<^verbatim>\<open>src/pkg/daemon/daemon.go\<close>), and the init container that keeps the plugin of a pod from starting until it is
  unblocked (\<^verbatim>\<open>src/cmd/sriov-network-config-daemon/waitforconfig.go\<close>). The daemon set controller, the scheduler, the
  kubelet and the init containers work at the same time: what they do before each call of the daemon, and whether the call
  fails, is in a schedule.
\<close>

section \<open>Pods and their init container\<close>

text \<open>
  The init container sets an annotation on its pod (it reads the pod and patches it, and begins again after a failure),
  waits until the annotation is removed and ends: then the plugin serves. It is started again when it ends with an error.
\<close>

datatype init_state = Starting | Fetched bool | Waiting | Serving

text \<open>
  \<open>pod_Init\<close> is no part of the object on the server. A pod that is not managed by the operator has no init container. The
  node is empty until the pod is scheduled.
\<close>

record Pod =
  pod_Meta :: ObjectMeta
  pod_UID :: nat
  pod_Node :: string
  pod_Deleting :: bool
  pod_Managed :: bool
  pod_Init :: init_state

abbreviation DevicePluginWaitConfigAnnotation :: string where
  "DevicePluginWaitConfigAnnotation \<equiv> ''sriovnetwork.openshift.io/device-plugin-wait-config''"

definition waits_for_config :: "Pod \<Rightarrow> bool" where
  "waits_for_config p = ObjectHasAnnotationKey (pod_Meta p) DevicePluginWaitConfigAnnotation"

definition pod_Name :: "Pod \<Rightarrow> string \<times> string" where
  "pod_Name p = (om_Namespace (pod_Meta p), om_Name (pod_Meta p))"

text \<open>A round of \<^verbatim>\<open>setAnnotationOnPod\<close> in its two calls.\<close>

definition setAnnotationOnPod_get :: "Pod \<Rightarrow> Pod" where
  "setAnnotationOnPod_get p =
     p\<lparr>pod_Init := Fetched (om_Annotations (pod_Meta p) DevicePluginWaitConfigAnnotation = Some ''true'')\<rparr>"

definition setAnnotationOnPod_patch :: "bool \<Rightarrow> Pod \<Rightarrow> Pod" where
  "setAnnotationOnPod_patch seen p =
     (if seen then p else p\<lparr>pod_Meta := set_annotation DevicePluginWaitConfigAnnotation ''true'' (pod_Meta p)\<rparr>)
       \<lparr>pod_Init := Waiting\<rparr>"

definition WaitForConfig_Reconcile :: "Pod \<Rightarrow> Pod" where
  "WaitForConfig_Reconcile p = (if \<not> waits_for_config p then p\<lparr>pod_Init := Serving\<rparr> else p)"

datatype init_event = InitGet | InitPatch | InitCheck | InitRestart

definition startWaitForConfigManager :: "init_event \<Rightarrow> Pod \<Rightarrow> Pod" where
  "startWaitForConfigManager e p =
     (case pod_Init p of
        Starting \<Rightarrow> if e = InitGet then setAnnotationOnPod_get p else p
      | Fetched seen \<Rightarrow>
          if e = InitPatch then setAnnotationOnPod_patch seen p
          else if e = InitRestart then p\<lparr>pod_Init := Starting\<rparr> else p
      | Waiting \<Rightarrow>
          if e = InitCheck then WaitForConfig_Reconcile p
          else if e = InitRestart then p\<lparr>pod_Init := Starting\<rparr> else p
      | Serving \<Rightarrow> p)"

section \<open>The others\<close>

datatype other_act =
    CreatePod ObjectMeta bool
  | SchedulePod nat string
  | PodGone nat
  | InitContainer nat init_event

record pods_world =
  pw_Pods :: "Pod list"
  pw_NextUID :: nat
  pw_Schedule :: "(other_act list \<times> bool) list"

definition map_pod :: "nat \<Rightarrow> (Pod \<Rightarrow> Pod) \<Rightarrow> pods_world \<Rightarrow> pods_world" where
  "map_pod uid f w = w\<lparr>pw_Pods := map (\<lambda>p. if pod_UID p = uid then f p else p) (pw_Pods w)\<rparr>"

definition new_pod :: "ObjectMeta \<Rightarrow> bool \<Rightarrow> nat \<Rightarrow> Pod" where
  "new_pod meta managed uid = \<lparr>pod_Meta = meta, pod_UID = uid, pod_Node = [], pod_Deleting = False, pod_Managed = managed,
     pod_Init = Starting\<rparr>"

fun pod_act :: "other_act \<Rightarrow> pods_world \<Rightarrow> pods_world" where
  "pod_act (CreatePod meta managed) w =
     (let p = new_pod meta managed (pw_NextUID w) in
      if pod_Name p \<in> set (map pod_Name (pw_Pods w)) then w
      else w\<lparr>pw_Pods := pw_Pods w @ [p], pw_NextUID := Suc (pw_NextUID w)\<rparr>)"
| "pod_act (SchedulePod uid node) w =
     map_pod uid (\<lambda>p. if pod_Node p = [] then p\<lparr>pod_Node := node, pod_Init := (if pod_Managed p then Starting else Serving)\<rparr> else p) w"
| "pod_act (PodGone uid) w = w\<lparr>pw_Pods := filter (\<lambda>p. pod_UID p \<noteq> uid) (pw_Pods w)\<rparr>"
| "pod_act (InitContainer uid e) w =
     map_pod uid (\<lambda>p. if pod_Managed p \<and> pod_Node p \<noteq> [] then startWaitForConfigManager e p else p) w"

definition pod_acts :: "other_act list \<Rightarrow> pods_world \<Rightarrow> pods_world" where
  "pod_acts as w = fold pod_act as w"

section \<open>Calls of the daemon\<close>

datatype pods_error = PodsApi api_error | PodsTimeout

type_synonym 'a pio = "(pods_world, pods_error, 'a) stateful"

definition pods_call :: "(pods_world \<Rightarrow> (api_error + 'a) \<times> pods_world) \<Rightarrow> (pods_world, api_error, 'a) stateful" where
  "pods_call m w =
     (case pw_Schedule w of
        [] \<Rightarrow> m w
      | (as, fault) # rest \<Rightarrow>
          let w' = pod_acts as (w\<lparr>pw_Schedule := rest\<rparr>) in
          if fault then (Inl ApiError, w') else m w')"

definition find_pod :: "string \<times> string \<Rightarrow> pods_world \<Rightarrow> Pod option" where
  "find_pod nm w = find (\<lambda>p. pod_Name p = nm) (pw_Pods w)"

definition get_pod :: "string \<times> string \<Rightarrow> (pods_world, api_error, Pod) stateful" where
  "get_pod nm = pods_call (\<lambda>w. (case find_pod nm w of None \<Rightarrow> Inl NotFound | Some p \<Rightarrow> Inr p, w))"

text \<open>A deletion marks the pod: the kubelet removes it when its containers have ended.\<close>

definition change_pod :: "string \<times> string \<Rightarrow> (Pod \<Rightarrow> Pod) \<Rightarrow> (pods_world, api_error, unit) stateful" where
  "change_pod nm f = pods_call (\<lambda>w.
     case find_pod nm w of
       None \<Rightarrow> (Inl NotFound, w)
     | Some p \<Rightarrow> (Inr (), w\<lparr>pw_Pods := map (\<lambda>q. if pod_Name q = nm then f q else q) (pw_Pods w)\<rparr>))"

definition delete_pod :: "string \<times> string \<Rightarrow> (pods_world, api_error, unit) stateful" where
  "delete_pod nm = change_pod nm (\<lambda>p. p\<lparr>pod_Deleting := True\<rparr>)"

definition RemoveAnnotationFromObject :: "Pod \<Rightarrow> string \<Rightarrow> unit pio" where
  "RemoveAnnotationFromObject obj key =
     (if om_Annotations (pod_Meta obj) key \<noteq> None
      then io_map_err PodsApi (change_pod (pod_Name obj) (\<lambda>p.
        p\<lparr>pod_Meta := (pod_Meta p)\<lparr>om_Annotations := (om_Annotations (pod_Meta p))(key := None)\<rparr>\<rparr>))
      else io_return ())"

text \<open>
  The environment of a daemon: its namespace and node, and how many rounds a wait has before the time-out of two minutes.
  A call that the time-out cuts off counts as no round.
\<close>

record pods_env =
  pe_Namespace :: string
  pe_NodeName :: string
  pe_Rounds :: "pods_world \<Rightarrow> nat"

definition plugin_pod :: "pods_env \<Rightarrow> Pod \<Rightarrow> bool" where
  "plugin_pod env p \<longleftrightarrow>
     om_Namespace (pod_Meta p) = pe_Namespace env \<and> om_Labels (pod_Meta p) ''app'' = Some ''sriov-device-plugin'' \<and>
     pod_Node p = pe_NodeName env"

definition getDevicePluginPodsForNode :: "pods_env \<Rightarrow> Pod list pio" where
  "getDevicePluginPodsForNode env = io_map_err PodsApi (pods_call (\<lambda>w. (Inr (filter (plugin_pod env) (pw_Pods w)), w)))"

text \<open>\<^verbatim>\<open>PollUntilContextTimeout\<close>: the condition is tried at once and then in every round.\<close>

fun poll :: "nat \<Rightarrow> 'a option pio \<Rightarrow> 'a pio" where
  "poll 0 cond = io_fail PodsTimeout"
| "poll (Suc n) cond = io_bind cond (\<lambda>r. case r of Some x \<Rightarrow> io_return x | None \<Rightarrow> poll n cond)"

definition poll_timeout :: "pods_env \<Rightarrow> 'a option pio \<Rightarrow> 'a pio" where
  "poll_timeout env cond w = poll (pe_Rounds env w) cond w"

section \<open>Restarting and unblocking\<close>

definition pod_exited :: "Pod \<Rightarrow> unit option pio" where
  "pod_exited pod =
     io_handle (get_pod (pod_Name pod))
       (\<lambda>err. if err = NotFound then io_return (Some ()) else io_fail (PodsApi err))
       (\<lambda>newPod. io_return (if pod_UID newPod \<noteq> pod_UID pod then Some () else None))"

definition restart_pod :: "pods_env \<Rightarrow> Pod \<Rightarrow> unit pio" where
  "restart_pod env pod =
     io_handle (delete_pod (pod_Name pod))
       (\<lambda>err. if err = NotFound then io_return () else io_fail (PodsApi err))
       (\<lambda>_. poll_timeout env (pod_exited pod))"

definition restartDevicePluginPod :: "pods_env \<Rightarrow> unit pio" where
  "restartDevicePluginPod env = io_bind (getDevicePluginPodsForNode env) (io_each (restart_pod env))"

definition tryUnblockDevicePlugin :: "SriovNetworkNodeState \<Rightarrow> Pod list \<Rightarrow> unit pio" where
  "tryUnblockDevicePlugin desired devicePluginPods =
     (if ns_Interfaces (state_Spec desired) = [] then io_return ()
      else io_each (\<lambda>pod. RemoveAnnotationFromObject pod DevicePluginWaitConfigAnnotation) devicePluginPods)"

definition waiting_pods :: "pods_env \<Rightarrow> Pod list option pio" where
  "waiting_pods env =
     io_bind (getDevicePluginPodsForNode env) (\<lambda>devicePluginPods.
       io_return (if list_ex waits_for_config devicePluginPods then Some devicePluginPods else None))"

definition waitForDevicePluginPodAndTryUnblock :: "pods_env \<Rightarrow> SriovNetworkNodeState \<Rightarrow> unit pio" where
  "waitForDevicePluginPodAndTryUnblock env desired =
     io_handle (poll_timeout env (waiting_pods env))
       (\<lambda>err. if err = PodsTimeout then io_return () else io_fail err)
       (tryUnblockDevicePlugin desired)"

text \<open>The periodic check at the end of a reconciliation that found nothing to do.\<close>

definition unblock_periodically :: "pods_env \<Rightarrow> SriovNetworkNodeState \<Rightarrow> unit pio" where
  "unblock_periodically env desired =
     (if ns_Interfaces (state_Spec desired) \<noteq> []
      then io_bind (getDevicePluginPodsForNode env) (tryUnblockDevicePlugin desired) else io_return ())"

end
