(* ===== verification/Plugin_Pods_Safety.thy ===== *)
theory Plugin_Pods_Safety
  imports Plugin_Pods
begin

text \<open>
  With the feature that blocks the device plugin no plugin of the operator serves while the daemon configures the node.
\<close>

section \<open>What the calls keep\<close>

text \<open>Pods have different names, and the server gives every pod an identifier of its own.\<close>

definition pods_ok :: "pods_world \<Rightarrow> bool" where
  "pods_ok w \<longleftrightarrow>
     distinct (map pod_Name (pw_Pods w)) \<and> distinct (map pod_UID (pw_Pods w)) \<and> (\<forall>p\<in>set (pw_Pods w). pod_UID p < pw_NextUID w)"

text \<open>The plugin of the pod cannot start before the daemon removes the annotation.\<close>

definition blocked :: "Pod \<Rightarrow> bool" where
  "blocked p \<longleftrightarrow>
     (case pod_Init p of Starting \<Rightarrow> True | Fetched seen \<Rightarrow> seen \<longrightarrow> waits_for_config p | Waiting \<Rightarrow> waits_for_config p | Serving \<Rightarrow> False)"

text \<open>Every plugin pod of the operator on the node is blocked, except those with an identifier in a given set.\<close>

definition held_back :: "pods_env \<Rightarrow> nat set \<Rightarrow> Pod \<Rightarrow> bool" where
  "held_back env U p \<longleftrightarrow> (plugin_pod env p \<and> pod_Managed p \<longrightarrow> pod_UID p \<in> U \<or> blocked p)"

definition blocked_except :: "pods_env \<Rightarrow> nat set \<Rightarrow> pods_world \<Rightarrow> bool" where
  "blocked_except env U w \<longleftrightarrow>
     pe_NodeName env \<noteq> [] \<and> pods_ok w \<and> (\<forall>u\<in>U. u < pw_NextUID w) \<and> (\<forall>p\<in>set (pw_Pods w). held_back env U p)"

lemma blocked_ok: "blocked_except env U w \<Longrightarrow> pods_ok w"
  by (simp add: blocked_except_def)

lemma init_keeps:
  "pod_Name (startWaitForConfigManager e p) = pod_Name p" "pod_UID (startWaitForConfigManager e p) = pod_UID p"
  "plugin_pod env (startWaitForConfigManager e p) = plugin_pod env p" "pod_Managed (startWaitForConfigManager e p) = pod_Managed p"
  "blocked p \<Longrightarrow> blocked (startWaitForConfigManager e p)"
  by (cases "pod_Init p";
      auto simp: blocked_def startWaitForConfigManager_def setAnnotationOnPod_get_def setAnnotationOnPod_patch_def
        WaitForConfig_Reconcile_def waits_for_config_def ObjectHasAnnotationKey_def set_annotation_def pod_Name_def plugin_pod_def)+

text \<open>A change of single pods keeps the invariant when it keeps names and identifiers and holds back what was held back.\<close>

lemma change_pods:
  assumes "blocked_except env U w" and "\<And>p. pod_Name (f p) = pod_Name p \<and> pod_UID (f p) = pod_UID p"
    and "\<And>p. held_back env U p \<Longrightarrow> held_back env U (f p)"
  shows "blocked_except env U (w\<lparr>pw_Pods := map f (pw_Pods w)\<rparr>)"
proof -
  have "pod_Name \<circ> f = pod_Name" "pod_UID \<circ> f = pod_UID" using assms(2) by auto
  then show ?thesis using assms unfolding blocked_except_def pods_ok_def by auto
qed

lemma map_pod_keeps:
  assumes "blocked_except env U w" and "\<And>p. pod_Name (f p) = pod_Name p \<and> pod_UID (f p) = pod_UID p"
    and "\<And>p. held_back env U p \<Longrightarrow> held_back env U (f p)"
  shows "blocked_except env U (map_pod uid f w)"
  unfolding map_pod_def by (rule change_pods[OF assms(1)]) (use assms(2,3) in auto)

lemma act_keeps:
  assumes "blocked_except env U w"
  shows "blocked_except env U (pod_act a w)"
proof (cases a)
  case (CreatePod meta managed)
  have "held_back env U (new_pod meta managed (pw_NextUID w))" by (simp add: held_back_def new_pod_def blocked_def)
  then show ?thesis using assms(1) CreatePod by (auto simp: blocked_except_def pods_ok_def Let_def new_pod_def less_Suc_eq)
next
  case (SchedulePod uid node)
  show ?thesis unfolding SchedulePod pod_act.simps
    by (rule map_pod_keeps[OF assms(1)]) (use assms in \<open>auto simp: pod_Name_def held_back_def blocked_def plugin_pod_def blocked_except_def\<close>)
next
  case (PodGone uid)
  then show ?thesis using assms(1) by (auto simp: blocked_except_def pods_ok_def intro: distinct_map_filter)
next
  case (InitContainer uid e)
  show ?thesis unfolding InitContainer pod_act.simps
    by (rule map_pod_keeps[OF assms(1)]) (auto simp: held_back_def init_keeps)
qed

text \<open>A pod keeps its name, and one that is gone does not come back.\<close>

definition named :: "string \<times> string \<Rightarrow> nat \<Rightarrow> pods_world \<Rightarrow> bool" where
  "named nm u w \<longleftrightarrow> u < pw_NextUID w \<and> (\<forall>p\<in>set (pw_Pods w). pod_UID p = u \<longrightarrow> pod_Name p = nm)"

definition gone :: "nat \<Rightarrow> pods_world \<Rightarrow> bool" where
  "gone u w \<longleftrightarrow> u < pw_NextUID w \<and> (\<forall>p\<in>set (pw_Pods w). pod_UID p \<noteq> u)"

lemma pod_updates [simp]:
  "pod_Name (p\<lparr>pod_Node := n, pod_Init := i\<rparr>) = pod_Name p" "pod_Name (p\<lparr>pod_Deleting := d\<rparr>) = pod_Name p"
  "waits_for_config (p\<lparr>pod_Deleting := d\<rparr>) = waits_for_config p" "plugin_pod env (p\<lparr>pod_Deleting := d\<rparr>) = plugin_pod env p"
  by (simp_all add: pod_Name_def waits_for_config_def plugin_pod_def)

lemma blocked_deleting [simp]: "blocked (p\<lparr>pod_Deleting := d\<rparr>) = blocked p"
  by (cases "pod_Init p") (simp_all add: blocked_def)

lemma act_named: "named nm u w \<Longrightarrow> named nm u (pod_act a w)"
  by (cases a) (auto simp: named_def map_pod_def Let_def new_pod_def init_keeps split: if_splits)

lemma act_gone: "gone u w \<Longrightarrow> gone u (pod_act a w)"
  by (cases a) (auto simp: gone_def map_pod_def Let_def new_pod_def init_keeps)

lemma gone_unblocks: "blocked_except env (insert u U) w \<Longrightarrow> gone u w \<Longrightarrow> blocked_except env U w"
  by (auto simp: blocked_except_def held_back_def gone_def)

section \<open>Properties that the others keep\<close>

locale pods_invariant =
  fixes I :: "pods_world \<Rightarrow> bool"
  assumes schedule: "I (w\<lparr>pw_Schedule := s\<rparr>) = I w"
    and act: "I w \<Longrightarrow> I (pod_act a w)"
begin

lemma acts: "I w \<Longrightarrow> I (pod_acts as w)"
  unfolding pod_acts_def by (induction as arbitrary: w) (simp_all add: act)

text \<open>A call runs from a state with the property, or fails in one.\<close>

lemma call:
  assumes "pods_call m w = (r, w')" and "I w"
  obtains w1 where "I w1" "m w1 = (r, w')" | "I w'" "r = Inl ApiError"
proof (cases "pw_Schedule w")
  case Nil
  then show ?thesis using that assms by (auto simp: pods_call_def)
next
  case (Cons a rest)
  obtain as b where a: "a = (as, b)" by (cases a)
  have "I (pod_acts as (w\<lparr>pw_Schedule := rest\<rparr>))" by (rule acts) (use assms(2) schedule in simp)
  then show ?thesis using that assms(1) Cons a by (cases b) (auto simp: pods_call_def Let_def)
qed

lemma get:
  assumes "get_pod nm w = (r, w')" and "I w"
  shows "I w' \<and> (r = Inl NotFound \<longrightarrow> find_pod nm w' = None) \<and> (\<forall>p. r = Inr p \<longrightarrow> find_pod nm w' = Some p)"
  by (rule call[OF assms[unfolded get_pod_def]]) (auto split: option.splits)

lemma change:
  assumes "change_pod nm f w = (r, w')" and "I w"
    and "\<And>w. I w \<Longrightarrow> I (w\<lparr>pw_Pods := map (\<lambda>q. if pod_Name q = nm then f q else q) (pw_Pods w)\<rparr>)"
  shows "I w' \<and> (r = Inl NotFound \<longrightarrow> find_pod nm w' = None)"
  by (rule call[OF assms(1)[unfolded change_pod_def] assms(2)]) (use assms(3) in \<open>auto split: option.splits\<close>)

lemma keeps_pods_call:
  assumes "io_keeps I m"
  shows "io_keeps I (pods_call m)"
proof (rule io_keepsI)
  fix w assume "I w"
  obtain r w' where c: "pods_call m w = (r, w')" by (cases "pods_call m w")
  have "I w'" by (rule call[OF c \<open>I w\<close>]) (use io_keepsD[OF assms] in auto)
  then show "I (snd (pods_call m w))" using c by simp
qed

end

text \<open>
  While the daemon works through its list of pods, those that are left are the only ones that may serve.
\<close>

definition pending :: "pods_env \<Rightarrow> Pod list \<Rightarrow> pods_world \<Rightarrow> bool" where
  "pending env ps w \<longleftrightarrow> blocked_except env (pod_UID ` set ps) w \<and> list_all (\<lambda>p. named (pod_Name p) (pod_UID p) w) ps"

interpretation stored: pods_invariant pods_ok
proof
  show "pods_ok (w\<lparr>pw_Schedule := s\<rparr>) = pods_ok w" for w s by (simp add: pods_ok_def)
next
  fix w a assume "pods_ok w"
  let ?env = "\<lparr>pe_Namespace = [], pe_NodeName = ''n'', pe_Rounds = \<lambda>_. 0\<rparr>"
  have "blocked_except ?env {u. u < pw_NextUID w} w" using \<open>pods_ok w\<close> by (simp add: blocked_except_def held_back_def pods_ok_def)
  then show "pods_ok (pod_act a w)" by (rule blocked_ok[OF act_keeps])
qed

interpretation restarting: pods_invariant "pending env ps" for env ps
proof
  show "pending env ps (w\<lparr>pw_Schedule := s\<rparr>) = pending env ps w" for w s
    by (simp add: pending_def blocked_except_def pods_ok_def named_def)
next
  show "pending env ps (pod_act a w)" if "pending env ps w" for w a
    using that by (auto simp: pending_def list_all_iff intro: act_keeps act_named)
qed

section \<open>Restarting\<close>

lemma pods_listed:
  assumes "getDevicePluginPodsForNode env w = (Inr ps, w')" and "pods_ok w" "pe_NodeName env \<noteq> []"
  shows "pending env ps w'"
proof -
  have "pods_call (\<lambda>w. (Inr (filter (plugin_pod env) (pw_Pods w)), w)) w = (Inr ps, w')"
    using assms(1) by (auto simp: getDevicePluginPodsForNode_def io_map_err_def split: prod.splits)
  then have ok: "pods_ok w'" and ps: "ps = filter (plugin_pod env) (pw_Pods w')"
    by (auto elim: stored.call[OF _ assms(2)])
  have "named (pod_Name p) (pod_UID p) w'" if "p \<in> set (pw_Pods w')" for p
    using ok that by (auto simp: pods_ok_def named_def distinct_map dest: inj_onD)
  then show ?thesis using ok ps assms(3) by (auto simp: pending_def blocked_except_def held_back_def pods_ok_def list_all_iff)
qed

lemma pending_gone: "pending env (p # ps) w \<Longrightarrow> gone (pod_UID p) w \<Longrightarrow> pending env ps w"
  by (auto simp: pending_def intro: gone_unblocks)

lemma find_pod_gone:
  assumes "pending env (p # ps) w" and "\<And>q. find_pod (pod_Name p) w = Some q \<Longrightarrow> pod_UID q \<noteq> pod_UID p"
  shows "gone (pod_UID p) w"
proof -
  have nm: "named (pod_Name p) (pod_UID p) w" and ok: "pods_ok w"
    using assms(1) by (auto simp: pending_def blocked_except_def)
  have "pod_UID q \<noteq> pod_UID p" if q: "q \<in> set (pw_Pods w)" for q
  proof
    assume u: "pod_UID q = pod_UID p"
    then have n: "pod_Name q = pod_Name p" using nm q by (simp add: named_def)
    obtain r where r: "find_pod (pod_Name p) w = Some r"
      using q n by (cases "find_pod (pod_Name p) w") (auto simp: find_pod_def find_None_iff)
    then have "r \<in> set (pw_Pods w)" "pod_Name r = pod_Name p" by (auto simp: find_pod_def find_Some_iff)
    then have "r = q" using ok q n by (metis pods_ok_def distinct_map inj_on_def)
    then show False using assms(2)[OF r] u by simp
  qed
  then show ?thesis using nm by (simp add: gone_def named_def)
qed

lemma exited_triple:
  "io_triple (pending env (p # ps)) (pod_exited p) (\<lambda>r w. pending env (p # ps) w \<and> (r \<noteq> None \<longrightarrow> pending env ps w)) (\<lambda>_. True)"
proof (rule io_tripleI)
  fix w r w' assume i: "pending env (p # ps) w" and e: "pod_exited p w = (Inr r, w')"
  obtain q w1 where g: "get_pod (pod_Name p) w = (q, w1)" by (cases "get_pod (pod_Name p) w")
  note g1 = restarting.get[OF g i]
  have w': "w' = w1" using e g by (auto simp: pod_exited_def io_handle_def io_return_def io_fail_def split: sum.splits if_splits)
  have "gone (pod_UID p) w1" if "r \<noteq> None"
    by (rule find_pod_gone[of env p ps])
      (use that e g g1 in \<open>auto simp: pod_exited_def io_handle_def io_return_def io_fail_def split: sum.splits if_splits\<close>)
  then show "pending env (p # ps) w' \<and> (r \<noteq> None \<longrightarrow> pending env ps w')" using w' g1 pending_gone by blast
qed simp

lemma poll_triple:
  assumes "io_triple P cond (\<lambda>r w. P w \<and> (r \<noteq> None \<longrightarrow> Q w)) (\<lambda>_. True)"
  shows "io_triple P (poll n cond) (\<lambda>_. Q) (\<lambda>_. True)"
proof (induction n)
  case (Suc n)
  have "io_triple (\<lambda>w. P w \<and> (r \<noteq> None \<longrightarrow> Q w)) (case r of Some x \<Rightarrow> io_return x | None \<Rightarrow> poll n cond) (\<lambda>_. Q) (\<lambda>_. True)" for r
    using Suc by (cases r) (auto intro: io_triple_return)
  then show ?case unfolding poll.simps by (rule io_triple_bind[OF assms])
qed (simp add: io_triple_fail)

lemma restart_pod_triple: "io_triple (pending env (p # ps)) (restart_pod env p) (\<lambda>_. pending env ps) (\<lambda>_. True)"
proof (rule io_tripleI)
  fix w x w' assume i: "pending env (p # ps) w" and e: "restart_pod env p w = (Inr x, w')"
  obtain r w1 where d: "delete_pod (pod_Name p) w = (r, w1)" by (cases "delete_pod (pod_Name p) w")
  have m: "pending env (p # ps) (v\<lparr>pw_Pods := map (\<lambda>q. if pod_Name q = nm then q\<lparr>pod_Deleting := True\<rparr> else q) (pw_Pods v)\<rparr>)"
    if v: "pending env (p # ps) v" for v nm
  proof -
    have "blocked_except env (pod_UID ` set (p # ps)) (v\<lparr>pw_Pods := map (\<lambda>q. if pod_Name q = nm then q\<lparr>pod_Deleting := True\<rparr> else q) (pw_Pods v)\<rparr>)"
      by (rule change_pods) (use v in \<open>auto simp: pending_def held_back_def\<close>)
    then show ?thesis using v by (auto simp: pending_def named_def list_all_iff)
  qed
  note d1 = restarting.change[OF d[unfolded delete_pod_def] i m]
  show "pending env ps w'"
  proof (cases r)
    case (Inl err)
    then have "err = NotFound" "w' = w1"
      using e d by (auto simp: restart_pod_def io_handle_def io_return_def io_fail_def split: if_splits)
    moreover have "gone (pod_UID p) w1" by (rule find_pod_gone[of env p ps]) (use d1 Inl calculation in auto)
    ultimately show ?thesis using d1 pending_gone by blast
  next
    case (Inr y)
    then have "poll (pe_Rounds env w1) (pod_exited p) w1 = (Inr x, w')"
      using e d by (simp add: restart_pod_def io_handle_def poll_timeout_def)
    then show ?thesis using io_tripleD[OF poll_triple[OF exited_triple]] d1 by fastforce
  qed
qed simp

lemma restart_blocks:
  assumes "restartDevicePluginPod env w = (Inr x, w')" and "pods_ok w" "pe_NodeName env \<noteq> []"
  shows "blocked_except env {} w'"
proof -
  obtain ps w1 where l: "getDevicePluginPodsForNode env w = (Inr ps, w1)" "io_each (restart_pod env) ps w1 = (Inr x, w')"
    using assms(1) by (auto simp: restartDevicePluginPod_def io_bind_def split: prod.splits sum.splits)
  have "io_triple (pending env ps) (io_each (restart_pod env) ps) (\<lambda>_. pending env []) (\<lambda>_. True)" for ps
  proof (induction ps)
    case (Cons p ps)
    then show ?case using io_triple_bind[OF restart_pod_triple] by simp
  qed (simp add: io_triple_return)
  from io_tripleD[OF this[of ps] pods_listed[OF l(1) assms(2,3)] l(2)] have "pending env [] w'" by simp
  then show ?thesis by (simp add: pending_def)
qed

section \<open>Runs\<close>

text \<open>The other functions of the daemon keep the store of pods in order.\<close>

lemma keeps_change:
  assumes "\<And>p. pod_Name (f p) = pod_Name p \<and> pod_UID (f p) = pod_UID p"
  shows "io_keeps pods_ok (change_pod nm f)"
  unfolding change_pod_def
proof (rule stored.keeps_pods_call, rule io_keepsI)
  fix w assume ok: "pods_ok w"
  let ?f = "\<lambda>q. if pod_Name q = nm then f q else q"
  have "pod_Name \<circ> ?f = pod_Name" "pod_UID \<circ> ?f = pod_UID" using assms by auto
  then show "pods_ok (snd (case find_pod nm w of None \<Rightarrow> (Inl NotFound, w)
      | Some p \<Rightarrow> (Inr (), w\<lparr>pw_Pods := map ?f (pw_Pods w)\<rparr>)))"
    using ok assms by (auto simp: pods_ok_def split: option.splits)
qed

lemma keeps_poll [keeps_rules]: "io_keeps I cond \<Longrightarrow> io_keeps I (poll n cond)"
  by (induction n) (auto intro!: keeps_fail keeps_bind keeps_return split: option.splits)

lemma keeps_poll_timeout [keeps_rules]: "io_keeps I cond \<Longrightarrow> io_keeps I (poll_timeout env cond)"
  by (rule io_keepsI) (simp add: poll_timeout_def, metis keeps_poll io_keeps_def)

lemma keeps_pod_calls [keeps_rules]:
  "io_keeps pods_ok (get_pod nm)" "io_keeps pods_ok (delete_pod nm)" "io_keeps pods_ok (getDevicePluginPodsForNode env)"
  "io_keeps pods_ok (RemoveAnnotationFromObject p k)"
  unfolding get_pod_def delete_pod_def getDevicePluginPodsForNode_def RemoveAnnotationFromObject_def
  by (intro stored.keeps_pods_call keeps_map_err keeps_if keeps_return keeps_change io_keeps_same;
      simp add: pod_Name_def)+

lemma keeps_restart: "io_keeps pods_ok (restartDevicePluginPod env)"
  unfolding restartDevicePluginPod_def restart_pod_def pod_exited_def by (intro keeps_rules)

lemma keeps_unblock:
  "io_keeps pods_ok (waitForDevicePluginPodAndTryUnblock env d)" "io_keeps pods_ok (unblock_periodically env d)"
  unfolding waitForDevicePluginPodAndTryUnblock_def unblock_periodically_def waiting_pods_def tryUnblockDevicePlugin_def
  by (intro keeps_rules)+

text \<open>
  A run of the cluster. The first component says whether the daemon is configuring the node: it begins when the restart
  succeeded, and ends before the plugin is unblocked.
\<close>

inductive pods_step :: "pods_env \<Rightarrow> bool \<times> pods_world \<Rightarrow> bool \<times> pods_world \<Rightarrow> bool" for env where
  others: "pods_step env (b, w) (b, pod_act a w)"
| schedule: "pods_step env (b, w) (b, w\<lparr>pw_Schedule := s\<rparr>)"
| restart: "restartDevicePluginPod env w = (r, w') \<Longrightarrow> pods_step env (b, w) (r = Inr (), w')"
| unblock: "waitForDevicePluginPodAndTryUnblock env d w = (r, w') \<Longrightarrow> pods_step env (b, w) (False, w')"
| periodic: "unblock_periodically env d w = (r, w') \<Longrightarrow> pods_step env (b, w) (False, w')"

definition pods_inv :: "pods_env \<Rightarrow> bool \<times> pods_world \<Rightarrow> bool" where
  "pods_inv env s \<longleftrightarrow> pods_ok (snd s) \<and> (fst s \<longrightarrow> blocked_except env {} (snd s))"

lemma pods_step_inv: "pods_step env s s' \<Longrightarrow> pods_inv env s \<Longrightarrow> pe_NodeName env \<noteq> [] \<Longrightarrow> pods_inv env s'"
proof (induction rule: pods_step.induct)
  case (others b w a)
  then show ?case by (auto simp: pods_inv_def stored.act intro: act_keeps)
next
  case (schedule b w s)
  then show ?case by (auto simp: pods_inv_def blocked_except_def stored.schedule)
next
  case (restart w r w' b)
  then show ?case using io_keepsD[OF keeps_restart _ restart(1)] restart_blocks by (auto simp: pods_inv_def)
next
  case (unblock d w r w' b)
  then show ?case using io_keepsD[OF keeps_unblock(1) _ unblock(1)] by (simp add: pods_inv_def)
next
  case (periodic d w r w' b)
  then show ?case using io_keepsD[OF keeps_unblock(2) _ periodic(1)] by (simp add: pods_inv_def)
qed

text \<open>
  C4: with the feature that blocks the device plugin, no plugin of the operator serves on the node while the daemon
  configures it. From the moment the restart returned without error until the daemon unblocks the plugin, the plugin of
  every managed pod on the node is held in its init container, whenever the pods are created, scheduled, deleted and
  started, and whatever calls of the daemon fail.
\<close>

theorem no_plugin_while_configuring:
  assumes "(pods_step env)\<^sup>*\<^sup>* (False, w) (True, w')" and "pods_ok w" and "pe_NodeName env \<noteq> []"
    and "p \<in> set (pw_Pods w')" and "plugin_pod env p" "pod_Managed p"
  shows "pod_Init p \<noteq> Serving"
proof -
  have "pods_inv env (False, w)" using assms(2) by (simp add: pods_inv_def)
  then have "pods_inv env (True, w')"
    by (rule rtranclp_induct[OF assms(1), where P = "pods_inv env"]) (rule pods_step_inv[OF _ _ assms(3)])
  then have "held_back env {} p" using assms(4) by (simp add: pods_inv_def blocked_except_def)
  then show ?thesis using assms(5,6) by (auto simp: held_back_def blocked_def)
qed

text \<open>
  A plugin that serves is restarted; its pod is gone at the second look, and the pod that replaces it is waiting when the
  restart returns.
\<close>

definition sample_pods_env :: pods_env where
  "sample_pods_env = \<lparr>pe_Namespace = ''sriov'', pe_NodeName = ''n'', pe_Rounds = (\<lambda>_. 3)\<rparr>"

definition sample_plugin_meta :: "string \<Rightarrow> ObjectMeta" where
  "sample_plugin_meta nm = (sample_meta nm)\<lparr>om_Labels := [''app'' \<mapsto> ''sriov-device-plugin'']\<rparr>"

definition sample_pods :: pods_world where
  "sample_pods = \<lparr>
     pw_Pods = [\<lparr>pod_Meta = sample_plugin_meta ''a'', pod_UID = 0, pod_Node = ''n'', pod_Deleting = False, pod_Managed = True, pod_Init = Serving\<rparr>],
     pw_NextUID = 1,
     pw_Schedule = [([], False), ([], False), ([], False),
       ([PodGone 0, CreatePod (sample_plugin_meta ''b'') True, SchedulePod 1 ''n'', InitContainer 1 InitGet, InitContainer 1 InitPatch,
         InitContainer 1 InitCheck], False)]\<rparr>"

theorem no_plugin_while_configuring_witness:
  "pod_UID (hd (pw_Pods (snd (restartDevicePluginPod sample_pods_env sample_pods)))) = 1 \<and>
   pod_Init (hd (pw_Pods (snd (restartDevicePluginPod sample_pods_env sample_pods)))) \<noteq> Serving"
proof
  let ?r = "restartDevicePluginPod sample_pods_env sample_pods"
  let ?p = "hd (pw_Pods (snd ?r))"
  have r: "fst ?r = Inr ()" "pw_Pods (snd ?r) \<noteq> []" "plugin_pod sample_pods_env ?p" "pod_Managed ?p" "pod_UID ?p = 1"
    "pods_ok sample_pods" "pe_NodeName sample_pods_env \<noteq> []"
    by (code_simp; fail)+
  show "pod_UID ?p = 1" by (rule r(5))
  have "pods_step sample_pods_env (False, sample_pods) (fst ?r = Inr (), snd ?r)" by (rule pods_step.restart) simp
  then have run: "(pods_step sample_pods_env)\<^sup>*\<^sup>* (False, sample_pods) (True, snd ?r)" using r(1) by auto
  show "pod_Init ?p \<noteq> Serving"
    by (rule no_plugin_while_configuring[OF run r(6,7) hd_in_set[OF r(2)] r(3,4)])
qed

section \<open>Unblocking\<close>

definition unblocked :: "Pod \<Rightarrow> Pod" where
  "unblocked p = p\<lparr>pod_Meta := (pod_Meta p)\<lparr>om_Annotations := (om_Annotations (pod_Meta p))(DevicePluginWaitConfigAnnotation := None)\<rparr>\<rparr>"

lemma unblocked_simps [simp]:
  "pod_Name (unblocked p) = pod_Name p" "pod_UID (unblocked p) = pod_UID p" "pod_Init (unblocked p) = pod_Init p"
  "pod_Managed (unblocked p) = pod_Managed p" "pod_Node (unblocked p) = pod_Node p" "\<not> waits_for_config (unblocked p)"
  by (simp_all add: unblocked_def pod_Name_def waits_for_config_def ObjectHasAnnotationKey_def)

lemma remove_annotation_run:
  assumes "pw_Schedule w = []" and "pod_Name x \<in> pod_Name ` set (pw_Pods w)"
  shows "RemoveAnnotationFromObject x DevicePluginWaitConfigAnnotation w =
    (Inr (), w\<lparr>pw_Pods := map (\<lambda>q. if waits_for_config x \<and> pod_Name q = pod_Name x then unblocked q else q) (pw_Pods w)\<rparr>)"
proof -
  obtain y where "find_pod (pod_Name x) w = Some y"
    using assms(2) by (cases "find_pod (pod_Name x) w") (auto simp: find_pod_def find_None_iff)
  then show ?thesis
    using assms(1)
    by (auto simp: RemoveAnnotationFromObject_def waits_for_config_def ObjectHasAnnotationKey_def change_pod_def pods_call_def
        io_map_err_def io_return_def unblocked_def cong: if_cong)
qed

lemma remove_all_run:
  assumes "pw_Schedule w = []" and "pod_Name ` set ps \<subseteq> pod_Name ` set (pw_Pods w)"
  shows "\<exists>f. io_each (\<lambda>x. RemoveAnnotationFromObject x DevicePluginWaitConfigAnnotation) ps w =
    (Inr (), w\<lparr>pw_Pods := map f (pw_Pods w)\<rparr>) \<and>
    (\<forall>q. f q \<in> {q, unblocked q} \<and> (\<forall>x\<in>set ps. waits_for_config x \<longrightarrow> pod_Name x = pod_Name q \<longrightarrow> f q = unblocked q))"
  using assms
proof (induction ps arbitrary: w)
  case (Cons x ps)
  let ?g = "\<lambda>q. if waits_for_config x \<and> pod_Name q = pod_Name x then unblocked q else q"
  let ?w = "w\<lparr>pw_Pods := map ?g (pw_Pods w)\<rparr>"
  have n: "pod_Name (?g q) = pod_Name q" for q by simp
  have "pod_Name \<circ> ?g = pod_Name" using n by auto
  then have "set (map pod_Name (pw_Pods ?w)) = set (map pod_Name (pw_Pods w))" by simp
  then have "pod_Name ` set (pw_Pods ?w) = pod_Name ` set (pw_Pods w)" by (metis list.set_map)
  then obtain f where f: "io_each (\<lambda>x. RemoveAnnotationFromObject x DevicePluginWaitConfigAnnotation) ps ?w =
      (Inr (), ?w\<lparr>pw_Pods := map f (pw_Pods ?w)\<rparr>)"
    "\<And>q. f q \<in> {q, unblocked q}" "\<And>q x. x \<in> set ps \<Longrightarrow> waits_for_config x \<Longrightarrow> pod_Name x = pod_Name q \<Longrightarrow> f q = unblocked q"
    using Cons.IH[of ?w] Cons.prems by auto
  have u: "unblocked (unblocked q) = unblocked q" for q by (simp add: unblocked_def)
  have "io_each (\<lambda>x. RemoveAnnotationFromObject x DevicePluginWaitConfigAnnotation) (x # ps) w =
      (Inr (), w\<lparr>pw_Pods := map (f \<circ> ?g) (pw_Pods w)\<rparr>)"
    using remove_annotation_run[of w x] Cons.prems f(1) by (simp add: io_bind_def)
  moreover have "(f \<circ> ?g) q \<in> {q, unblocked q}" for q using f(2)[of "?g q"] u by (auto split: if_splits)
  moreover have "(f \<circ> ?g) q = unblocked q" if y: "y \<in> set (x # ps)" "waits_for_config y" "pod_Name y = pod_Name q" for q y
  proof (cases "y = x")
    case True
    then show ?thesis using y f(2)[of "unblocked q"] u by auto
  next
    case False
    then have "f (?g q) = unblocked (?g q)" using y by (intro f(3)[of y]) auto
    then show ?thesis using u by auto
  qed
  ultimately show ?case by blast
qed (auto simp: io_return_def intro: exI[of _ "\<lambda>q. q"])

text \<open>
  C25: a plugin that waits is released. When the configuration is done and no call fails, the daemon removes the annotation
  in the round in which it sees a waiting pod, and the next check of the init container of any waiting plugin pod lets the plugin serve.
\<close>

theorem waiting_plugin_released:
  assumes "pw_Schedule w = []" and "pods_ok w" and "ns_Interfaces (state_Spec desired) \<noteq> []" and "0 < pe_Rounds env w"
    and "p \<in> set (pw_Pods w)" "plugin_pod env p" "pod_Managed p" "pod_Node p \<noteq> []" "pod_Init p = Waiting" "waits_for_config p"
  shows "\<exists>w'. waitForDevicePluginPodAndTryUnblock env desired w = (Inr (), w') \<and>
    (\<exists>q\<in>set (pw_Pods (pod_act (InitContainer (pod_UID p) InitCheck) w')). pod_UID q = pod_UID p \<and> pod_Init q = Serving)"
proof -
  let ?ps = "filter (plugin_pod env) (pw_Pods w)"
  obtain n where n: "pe_Rounds env w = Suc n" using assms(4) by (cases "pe_Rounds env w") auto
  have "list_ex waits_for_config ?ps" using assms(5,6,10) by (auto simp: list_ex_iff)
  then have found: "poll_timeout env (waiting_pods env) w = (Inr ?ps, w)"
    using assms(1) n
    by (simp add: poll_timeout_def waiting_pods_def getDevicePluginPodsForNode_def io_bind_def io_map_err_def pods_call_def io_return_def)
  obtain f where f: "io_each (\<lambda>x. RemoveAnnotationFromObject x DevicePluginWaitConfigAnnotation) ?ps w =
      (Inr (), w\<lparr>pw_Pods := map f (pw_Pods w)\<rparr>)" "f p = unblocked p"
    using remove_all_run[of w ?ps] assms(1,5,6,10) by fastforce
  let ?w = "w\<lparr>pw_Pods := map f (pw_Pods w)\<rparr>"
  have "waitForDevicePluginPodAndTryUnblock env desired w = (Inr (), ?w)"
    using found f(1) assms(3) by (simp add: waitForDevicePluginPodAndTryUnblock_def io_handle_def tryUnblockDevicePlugin_def)
  moreover have "(unblocked p)\<lparr>pod_Init := Serving\<rparr> \<in> set (pw_Pods (pod_act (InitContainer (pod_UID p) InitCheck) ?w))"
  proof -
    have "startWaitForConfigManager InitCheck (unblocked p) = (unblocked p)\<lparr>pod_Init := Serving\<rparr>"
      using assms(9) by (simp add: startWaitForConfigManager_def WaitForConfig_Reconcile_def)
    then show ?thesis using assms(5,7,8) f(2) by (force simp: map_pod_def)
  qed
  ultimately show ?thesis by (intro exI[of _ ?w] conjI bexI[of _ "(unblocked p)\<lparr>pod_Init := Serving\<rparr>"]) simp_all
qed

definition sample_waiting :: pods_world where
  "sample_waiting = snd (restartDevicePluginPod sample_pods_env sample_pods)"

definition sample_desired :: SriovNetworkNodeState where
  "sample_desired = (sample_state ''n'')\<lparr>state_Spec := (state_Spec (sample_state ''n''))\<lparr>ns_Interfaces := [sample_interface]\<rparr>\<rparr>"

theorem waiting_plugin_released_witness:
  "\<exists>w'. waitForDevicePluginPodAndTryUnblock sample_pods_env sample_desired sample_waiting = (Inr (), w') \<and>
    (\<exists>q\<in>set (pw_Pods (pod_act (InitContainer 1 InitCheck) w')). pod_UID q = 1 \<and> pod_Init q = Serving)"
proof -
  let ?p = "hd (pw_Pods sample_waiting)"
  have s: "length (pw_Schedule sample_waiting) = 0" "pods_ok sample_waiting" "0 < pe_Rounds sample_pods_env sample_waiting"
      "pw_Pods sample_waiting \<noteq> []" "plugin_pod sample_pods_env ?p" "pod_Managed ?p" "pod_Node ?p \<noteq> []" "pod_Init ?p = Waiting"
      "waits_for_config ?p" "pod_UID ?p = 1"
    by (code_simp; fail)+
  have i: "ns_Interfaces (state_Spec sample_desired) \<noteq> []" by (simp add: sample_desired_def)
  show ?thesis
    using waiting_plugin_released[OF _ s(2) i s(3) hd_in_set[OF s(4)] s(5-9)] s(1,10) by simp
qed

end
