(* ===== verification/Spec2Isabelle.thy ===== *)
theory Spec2Isabelle
  imports Webhook Update_Check Node_Cleanup Drain_Progress Network_Progress Daemon_Plugins Infiniband Ovs_Safety Operator_Safety Openshift_Safety
    Systemd_Safety Plugin_Pods_Safety
begin

text \<open>
  A verification development of the SR-IOV network operator, a Kubernetes operator in Go that configures SR-IOV network
  devices of cluster nodes. Users write node policies (\<^verbatim>\<open>SriovNetworkNodePolicy\<close>), pools
  (\<^verbatim>\<open>SriovNetworkPoolConfig\<close>), networks and an operator configuration; an admission webhook checks and completes them;
  the node policy controller computes from them the desired state of every node (\<^verbatim>\<open>SriovNetworkNodeState\<close>) and the
  configuration of the device plugin; the network controllers render network attachment definitions; a config daemon on each
  node asks its plugins what the desired state needs, requests a drain of its node by annotations, applies the plugins and
  reboots; the drain controller grants drains within the limits of the pools.

  \<^bold>\<open>Shared theories.\<close>
  \<^item> \<open>Sriov_Prelude\<close>: results as sums, loops with early return, Go's string functions, decimal numbers with their 64-bit
    bounds.
  \<^item> \<open>Io_Monad\<close>: functions that change a state and return a value or an error, Hoare triples for them (\<open>io_triple\<close>), kinds
    of log entries (\<open>emits\<close>) and invariants that hold after errors too (\<open>io_keeps\<close>).
  \<^item> \<open>Api_Types\<close>: the resources of \<^verbatim>\<open>src/api/v1\<close> as records; \<open>Samples\<close>: concrete objects for witnesses.

  \<^bold>\<open>Policies and admission.\<close>
  \<^item> \<open>Vf_Range\<close>: VF ranges such as \<^verbatim>\<open>ens1#0-3\<close>: parse, print, overlap (\<^verbatim>\<open>src/api/v1/helper.go\<close>). The overlap test is
    interval intersection; printing and parsing is a round trip.
  \<^item> \<open>Nic_Selector\<close>: which nodes and interfaces a policy selects, the table of supported NICs, the net filter's regular
    expression, resolution of alternative names.
  \<^item> \<open>Node_Policy\<close>: VF groups and their merging. The invariant is a partition: every group lies inside the number of VFs, no
    two groups share a VF or a resource name. The sort order is unique.
  \<^item> \<open>Bridge_Policy\<close>: the list of managed bridges, kept sorted by a binary search. The interface \<open>keyed_store\<close> is a locale,
    interpreted on this list.
  \<^item> \<open>Update_Check\<close>: \<^verbatim>\<open>NeedToUpdateSriov\<close>, the test whether an interface differs from its desired state; it
    decides a declarative specification and comes to rest on the state that configuring the interface leads to.
  \<^item> \<open>Pool_Config\<close>: the limit of unavailable nodes of a pool, and OVS options.
  \<^item> \<open>Webhook\<close>: validation and mutation (\<^verbatim>\<open>src/pkg/webhook\<close>).

  \<^bold>\<open>Controllers.\<close>
  \<^item> \<open>Conditions\<close>, \<open>Status_Patcher\<close>: status conditions, their comparison, their transitions, and what is sent to the API
    server (\<^verbatim>\<open>src/api/v1/conditions.go\<close>, \<^verbatim>\<open>src/pkg/status\<close>, and the vendored \<^verbatim>\<open>SetStatusCondition\<close>).
  \<^item> \<open>Device_Plugin\<close>: the device plugin's resources for a node; their selectors are exactly what the policies ask for.
  \<^item> \<open>Cluster\<close>: the API server as a state with failing calls, label selectors and the client's calls.
  \<^item> \<open>Drain_Controller\<close>: the reconciliation of \<^verbatim>\<open>src/controllers/drain_controller.go\<close> with its helper and the drainer.
    \<open>Drain_Safety\<close>: the abstract slot machine, the proof that a reconciliation refines it, runs of the cluster and the
    limit of every pool in them. \<open>Drain_Progress\<close>: without failing calls a free slot is taken and a full pool makes the
    request wait.
  \<^item> \<open>Node_Sync\<close>: the node policy controller's synchronisation of node states and of the config map. \<open>Node_Cleanup\<close>: its
    whole reconciliation with the removal of stale node states after a delay; what its operations keep is the locale
    \<open>node_state_invariant\<close>, interpreted on the mark of a state and on the clock.
  \<^item> \<open>Net_Att_Def\<close>: the three kinds of networks, and \<^verbatim>\<open>RenderNetAttDef\<close> with the templates as values of a small template
    language. \<open>Network_Controller\<close>: \<^verbatim>\<open>src/controllers/generic_network_controller.go\<close>. \<open>Network_Safety\<close>: which attachments
    a reconciliation can touch, whatever fails; \<open>Network_Progress\<close>: what it achieves when nothing fails.

  \<^item> \<open>Manifests\<close>: rendering of manifest directories and the rules by which a rendered object is merged with the stored one
    (\<^verbatim>\<open>src/pkg/render\<close>, \<^verbatim>\<open>src/pkg/apply\<close>), with every field of the merged object. \<open>Tls\<close>: translation of TLS profiles (\<^verbatim>\<open>src/pkg/utils/tls.go\<close>).
    \<open>Feature_Gate\<close>: \<^verbatim>\<open>src/pkg/featuregate\<close>.
  \<^item> \<open>Operator_Objects\<close>, \<open>Operator_Config\<close>: the operator configuration controller
    (\<^verbatim>\<open>src/controllers/sriovoperatorconfig_controller.go\<close>) on a store of unstructured objects. \<open>Operator_Safety\<close>: which
    webhook objects are deployed, in every run; what an operation does not touch is the locale \<open>unrelated_part\<close>.
  \<^item> \<open>Openshift\<close>: the hooks that pause and resume machine config pools around a drain
    (\<^verbatim>\<open>src/pkg/orchestrator/openshift/openshift.go\<close>). \<open>Openshift_Safety\<close>: the pool of a node stays paused while the node is
    drained and configured.

  \<^bold>\<open>Config daemon.\<close>
  \<^item> \<open>Daemon\<close>: the reconciliation of \<^verbatim>\<open>src/pkg/daemon\<close> and the reboot counter. \<open>Daemon_Safety\<close>: the log of a reconciliation
    has plugins applied and reboots only after a drain. \<open>Daemon_Reboots\<close>: the number of reboots over runs with restarts.
  \<^item> \<open>Daemon_Plugins\<close>: the loading of plugins and the locale \<open>plugin_decision\<close>, what the daemon relies on in a plugin's
    answer, interpreted on the five plugins.
  \<^item> \<open>Generic_Plugin\<close>, with the virtual and Intel plugins: drain and reboot decisions, kernel arguments. \<open>Mellanox\<close>: firmware
    settings and the Mellanox plugin. \<open>K8s_Plugin\<close>: the installation of systemd units.
  \<^item> \<open>Host_Io\<close>, \<open>Sriov_Host\<close>: the configuration of PFs and VFs as a log of actions on the host
    (\<^verbatim>\<open>src/pkg/host/internal/sriov/sriov.go\<close>, \<^verbatim>\<open>kernel.go\<close>, \<^verbatim>\<open>vdpa.go\<close>). \<open>Host_Footprint\<close>: which devices, links and
    VF tables the actions are on, so that a PF is left alone by its address and by its name.
    \<open>Plugin_Apply\<close>: \<^verbatim>\<open>Apply\<close> of the generic plugin and its fit with the drain decision.
  \<^item> \<open>Infiniband\<close>: 64-bit GUIDs and their allocation to VFs.
  \<^item> \<open>Ovs\<close>: managed OVS bridges and their store. \<open>Ovs_Bridges\<close>: a created bridge is the requested one; \<open>Ovs_Safety\<close>: bridges
    of others are left alone.
  \<^item> \<open>Systemd\<close>: the files between the daemon and the systemd service (\<^verbatim>\<open>src/pkg/host/internal/systemd\<close>).
    \<open>Systemd_Service\<close>: the service in its two phases (\<^verbatim>\<open>src/cmd/sriov-network-config-daemon/service.go\<close>).
    \<open>Systemd_Safety\<close>: the wait for devices ends, the configuration is read as it was written, and a successful result is
    true unless a write of the daemon failed before it; and two faults of the protocol.
  \<^item> \<open>Plugin_Pods\<close>: how the daemon restarts and unblocks the pods of the device plugin, and their init container
    (\<^verbatim>\<open>src/pkg/daemon/daemon.go\<close>, \<^verbatim>\<open>waitforconfig.go\<close>). \<open>Plugin_Pods_Safety\<close>: no plugin serves while the node is configured,
    and a waiting one is released; what other actors keep is the locale \<open>pods_invariant\<close>.
  \<^item> This theory: properties that need several components.

  \<^bold>\<open>Correspondence.\<close> A definition has the name of the Go function it translates; a part of a function that is a definition
  of its own has a name in lower case and a text that says which part it is. An error of the code is a constructor of an
  error type and \<open>Inl\<close> of a sum; an index out of range or a nil dereference is the error \<open>panic\<close>. A Go \<^verbatim>\<open>int\<close> is an
  integer: the code adds and compares small numbers and reads decimals with a range check, which the model has (\<open>atoi\<close>);
  GUIDs are 64-bit words, where the sum can wrap. A pointer that may be nil is an option. Logging and events sent to the
  recorder are left out, except the transitions of conditions.

  \<^bold>\<open>The API server.\<close> \<open>cluster\<close> is what the controllers read and write; \<open>cl_Faults\<close> says for each call in turn whether it
  fails. Theorems that quantify over the cluster cover every schedule of failures; theorems about success assume the empty
  schedule. A reconciliation is one transition: the work queue runs at most one reconciliation per node, the check for a
  slot runs under a mutex, and reconciliations of different nodes write only the objects of their own node. A read returns
  the stored object. The daemon's model lets other clients change the cluster before each of its calls; in the models of
  the OpenShift hooks and of the plugin pods a schedule says for each call what others do before it and whether it fails, and the
  theorems about runs hold for every schedule.

  \<^bold>\<open>Parameters.\<close> Code that is not part of the repository is an argument. What kubectl's drain library and the orchestrator
  answer is the record \<open>drain_answers\<close>; what the API server answers to the webhook is part of \<open>webhook_env\<close>; what the
  kernel, drivers and tools of a host answer is a function of the log of actions (\<open>host_env\<close>, \<open>daemon_env\<close>); these are
  arguments without assumptions. The YAML decoder, the parser of unit files and the template engine of the units are
  functions; so are the template engine of the manifests, the scheme's conversions, the server's admission of objects, the text form of
  times and the tables of the TLS library, with what is documented of them as a predicate where a theorem needs it
  (\<open>yaml_ok\<close>, \<open>time_format_ok\<close>). The OVSDB server is a function from operations and tables to a result, and the theorems about bridges assume
  what RFC 7047 and the schema of OVS say of it (\<open>ovsdb_server\<close>), with a server that meets it in the witness. The order in
  which Go iterates over a map and random numbers are arguments.

  \<^bold>\<open>Bounds.\<close> \<open>re_find\<close> takes fuel, one step per character; \<open>re_first\<close> gives it more than the length of the string, and
  \<open>re_find_fuel\<close> shows that any such amount gives the same result. A wait of the daemon for pods has as many rounds as its
  time-out leaves, an argument without a bound. The wait of the service for devices takes at most sixty rounds, which is
  proved. All other loops are structural or have a termination proof.

  \<^bold>\<open>Not modelled.\<close> The pool configuration controller, whose work is the rendering of ignition machine configs; the
  discovery of devices on the host, which only reads sysfs and netlink and whose results are arguments; the metadata services
  of OpenStack and AWS; the pod filter of the drainer, which is evaluated inside kubectl's library; module loading, udev rules and
  other file and command I/O of the host helpers, which are actions in the host model; the transport around the webhook, the
  set-up of watches, process start-up and generated code.
\<close>

section \<open>Properties across components\<close>

text \<open>
  C13: policies that the admission webhook accepted are always applied: when no call fails, the
  synchronisation of a node state whose interfaces are discovered succeeds for them, and the stored
  specification has its VFs partitioned into groups, with the bridges in order, and the system
  settings of the node's pool.
\<close>

theorem admitted_policies_are_synchronised:
  assumes "\<forall>p\<in>set npl. staticValidateSriovNetworkNodePolicy env p = Inr () \<and> ps_NumVfs (pol_Spec p) \<le> max_int64"
    and "cl_Faults c = []" and "cl_States c (node_Name node) = Some s" and "state_Name s = node_Name node"
    and "nst_Interfaces (state_Status s) \<noteq> []"
  shows "\<exists>c' s'. syncSriovNetworkNodeState bridges (sort_by_priority npl)
      (desired_base (node_Name node) namespace dc pool) node c = (Inr (), c') \<and>
    cl_States c' (node_Name node) = Some s' \<and> spec_wf s' \<and> state_Status s' = state_Status s"
proof -
  have "policy_wf p \<and> (bridges \<longrightarrow> bridge_wf p)" if "p \<in> set (sort_by_priority npl)" for p
    using that assms(1) staticValidate_policy_wf[of env p] staticValidate_bridge[of env p]
    by (auto simp: bridge_wf_def)
  then have wf: "\<forall>p\<in>set (sort_by_priority npl). policy_wf p \<and> (bridges \<longrightarrow> bridge_wf p)" by blast
  obtain v where "syncSriovNetworkNodeState bridges (sort_by_priority npl)
      (desired_base (node_Name node) namespace dc pool) node c =
        (Inr (), c\<lparr>cl_States := (cl_States c)(node_Name node \<mapsto>
           if nst_Interfaces (state_Status s) = [] then keep_reset s else v)\<rparr>)"
    "spec_wf v" "state_Status v = state_Status s"
    using sync_found_wf[OF assms(2-4) wf, of namespace dc pool] by metis
  then show ?thesis using assms(5) by auto
qed

theorem admitted_policies_are_synchronised_witness:
  "\<exists>c' s'. syncSriovNetworkNodeState True (sort_by_priority sample_policies)
      (desired_base (node_Name (sample_node ''n'')) ''sriov'' sample_config None) (sample_node ''n'') sample_sync_cluster
        = (Inr (), c') \<and>
    cl_States c' (node_Name (sample_node ''n'')) = Some s' \<and> spec_wf s' \<and> state_Status s' = sample_status"
proof -
  have "list_all (\<lambda>p. staticValidateSriovNetworkNodePolicy sample_env p = Inr ()) sample_policies" by code_simp
  then have v: "\<forall>p\<in>set sample_policies. staticValidateSriovNetworkNodePolicy sample_env p = Inr () \<and>
      ps_NumVfs (pol_Spec p) \<le> max_int64"
    by (auto simp: list_all_iff sample_policies_def sample_policy_def max_int64_def)
  have i: "nst_Interfaces (state_Status (sample_state ''n'')) \<noteq> []"
    by (simp add: sample_state_def sample_status_def)
  have "state_Status (sample_state ''n'') = sample_status" by (simp add: sample_state_def)
  then show ?thesis
    using admitted_policies_are_synchronised[OF v sample_sync_state i, of True "''sriov''" sample_config None]
    by simp
qed

end
